(* ===== verification/Prelude.thy ===== *)
theory Prelude
  imports Main "HOL-Library.AList" "HOL-Library.Sublist"
begin

text \<open>
  Shared vocabulary of the development: Go's values as HOL values (strings and byte
  slices, 64-bit integers, times and durations, errors, maps), the collections of
  facts the component theories feed, and the interfaces that several components
  share.

  \<^item> A Go string and a byte slice are both a \<open>string\<close>, a list of 8-bit characters.
  \<^item> A \<open>time.Time\<close> is its number of nanoseconds since the Unix epoch and a
    \<open>time.Duration\<close> a number of nanoseconds, both as \<open>int\<close>; where the code computes
    in \<open>int64\<close> and can overflow, \<open>wrap64\<close> or \<open>sat64\<close> is written out.
  \<^item> An \<open>error\<close> is a value of \<open>go_error\<close>; a result \<open>(T, error)\<close> is \<open>go_error + T\<close>.
  \<^item> A Go map is an association list with distinct keys. Its order stands for the order
    in which a \<open>range\<close> loop visits the entries, which Go leaves open: a statement about
    all well-formed lists is a statement about every order.
\<close>

section \<open>Collections of facts\<close>

named_theorems inv_rules \<open>operations that keep a component's invariant\<close>
named_theorems lookup_simps \<open>what an operation does to the lookups of a store\<close>
named_theorems codec_simps \<open>decoding what was encoded\<close>

section \<open>Machine integers, times and durations\<close>

type_synonym bytes = string
type_synonym gotime = int
type_synonym duration = int

definition wrap64 :: "int \<Rightarrow> int" where
  "wrap64 x = (x + 2 ^ 63) mod 2 ^ 64 - 2 ^ 63"

definition int64 :: "int \<Rightarrow> bool" where
  "int64 x \<longleftrightarrow> - (2 ^ 63) \<le> x \<and> x < 2 ^ 63"

text \<open>\<open>Time.Sub\<close> and \<open>time.Until\<close> saturate instead of wrapping.\<close>

definition sat64 :: "int \<Rightarrow> int" where
  "sat64 x = (if x < - (2 ^ 63) then - (2 ^ 63) else if 2 ^ 63 \<le> x then 2 ^ 63 - 1 else x)"

definition second :: duration where
  "second = 1000000000"

definition minute :: duration where
  "minute = 60 * second"

definition hour :: duration where
  "hour = 60 * minute"

lemmas duration_defs = second_def minute_def hour_def

text \<open>The zero \<open>time.Time\<close> is 1 January of year 1.\<close>

definition time_zero :: gotime where
  "time_zero = - 62135596800 * second"

definition time_IsZero :: "gotime \<Rightarrow> bool" where
  "time_IsZero t \<longleftrightarrow> t = time_zero"

definition time_Unix :: "gotime \<Rightarrow> int" where
  "time_Unix t = t div second"

definition time_Until :: "gotime \<Rightarrow> gotime \<Rightarrow> duration" where
  "time_Until now t = sat64 (t - now)"

lemma wrap64_id: "int64 x \<Longrightarrow> wrap64 x = x"
  by (simp add: wrap64_def int64_def)

lemma int64_wrap64 [simp]: "int64 (wrap64 x)"
proof -
  have "0 \<le> (x + 2 ^ 63) mod 2 ^ 64" and "(x + 2 ^ 63) mod 2 ^ 64 < 2 ^ 64"
    by simp_all
  then show ?thesis unfolding wrap64_def int64_def by simp
qed

lemma wrap64_min: "wrap64 (2 ^ 63) = - (2 ^ 63)"
  by (simp add: wrap64_def)

lemma time_Unix_mono: "s \<le> t \<Longrightarrow> time_Unix s \<le> time_Unix t"
  by (simp add: time_Unix_def second_def zdiv_mono1)

lemma time_Until_pos: "0 < time_Until now t \<longleftrightarrow> now < t"
  by (simp add: time_Until_def sat64_def)

lemma time_Until_exact:
  "t - now < 2 ^ 63 \<Longrightarrow> now \<le> t \<Longrightarrow> time_Until now t = t - now"
  by (simp add: time_Until_def sat64_def)

section \<open>Errors\<close>

text \<open>
  The constructors without arguments are the sentinel values the packages declare with
  \<open>errors.New\<close>; \<open>Errorf\<close> is an anonymous error and \<open>Wrapf pre e suf\<close> the result of
  \<open>fmt.Errorf\<close> with a \<open>%w\<close> verb between two pieces of text.
\<close>

datatype go_error =
    ErrReplay | ErrInvalidPoP | ErrInvalidHMAC | ErrTimestampOutsideWindow
  | ErrInvalidDisplayField | ErrInvalidSessionBinding
  | ErrSealed | ErrUnsealLocked | ErrNoSuchSigner | ErrPoolEmpty | ErrAmbiguousSigner
  | ErrPendingNotFound | ErrPendingFull
  | ErrTxNotFound | ErrDenied | ErrExpired | ErrTimeout | ErrSignerNotReady | ErrAgentSignData
  | ErrWaitClientMismatch
  | ErrMobileNotFound | ErrInvalidKey | ErrEmptyLabel | ErrPushNotConfigured
  | ErrCliNotFound | ErrCliEmptyLabel | ErrDuplicateFingerprint | ErrLabelTooLong
  | ErrCSRInvalid | ErrCANotConfigured
  | ErrDeviceTimestamp | ErrInvalidDeviceSignature
  | ErrContextCanceled
  | ErrExtensionUnsupported
  | Errorf string
  | Wrapf string go_error string

type_synonym 'a result = "go_error + 'a"

fun errors_Is :: "go_error \<Rightarrow> go_error \<Rightarrow> bool" where
  "errors_Is (Wrapf pre e suf) t = (Wrapf pre e suf = t \<or> errors_Is e t)"
| "errors_Is e t = (e = t)"

lemma errors_Is_refl [simp]: "errors_Is e e"
  by (cases e) auto

text \<open>\<open>err.Error()\<close> of the sentinels whose text reaches a client.\<close>

fun error_text :: "go_error \<Rightarrow> string" where
  "error_text ErrReplay = ''replay detected''"
| "error_text ErrInvalidPoP = ''invalid proof of possession''"
| "error_text ErrInvalidHMAC = ''invalid body HMAC''"
| "error_text ErrTimestampOutsideWindow = ''timestamp outside allowed window''"
| "error_text ErrInvalidDisplayField = ''display field contains control characters''"
| "error_text ErrInvalidSessionBinding = ''invalid SSH session binding''"
| "error_text ErrSealed = ''keystore sealed''"
| "error_text ErrUnsealLocked = ''unseal temporarily locked''"
| "error_text ErrNoSuchSigner = ''no such signer in pool''"
| "error_text ErrPoolEmpty = ''signer pool empty''"
| "error_text ErrAmbiguousSigner = ''host key fingerprint required''"
| "error_text ErrPendingNotFound = ''pending key not found''"
| "error_text ErrPendingFull = ''pending key queue full''"
| "error_text ErrTxNotFound = ''transaction not found''"
| "error_text ErrDenied = ''transaction denied''"
| "error_text ErrExpired = ''transaction expired''"
| "error_text ErrTimeout = ''approval timeout''"
| "error_text ErrSignerNotReady = ''signer not configured''"
| "error_text ErrAgentSignData = ''agent_sign_data required for local-key mode''"
| "error_text ErrWaitClientMismatch = ''client certificate mismatch''"
| "error_text ErrMobileNotFound = ''device not found''"
| "error_text ErrInvalidKey = ''invalid device public key''"
| "error_text ErrEmptyLabel = ''device label required''"
| "error_text ErrPushNotConfigured = ''mobile push not configured''"
| "error_text ErrCliNotFound = ''device not found''"
| "error_text ErrCliEmptyLabel = ''device label required''"
| "error_text ErrDuplicateFingerprint = ''certificate fingerprint already enrolled''"
| "error_text ErrLabelTooLong = ''device label too long''"
| "error_text ErrCSRInvalid = ''invalid certificate signing request''"
| "error_text ErrCANotConfigured = ''mTLS CA certificate and key paths required''"
| "error_text ErrDeviceTimestamp = ''timestamp out of range''"
| "error_text ErrInvalidDeviceSignature = ''signature verification failed''"
| "error_text ErrContextCanceled = ''context canceled''"
| "error_text ErrExtensionUnsupported = ''agent: extension unsupported''"
| "error_text (Errorf s) = s"
| "error_text (Wrapf pre e suf) = pre @ error_text e @ suf"

section \<open>Go maps\<close>

type_synonym ('k, 'v) gomap = "('k \<times> 'v) list"

definition map_wf :: "('k, 'v) gomap \<Rightarrow> bool" where
  "map_wf m \<longleftrightarrow> distinct (map fst m)"

abbreviation map_put :: "'k \<Rightarrow> 'v \<Rightarrow> ('k, 'v) gomap \<Rightarrow> ('k, 'v) gomap" where
  "map_put \<equiv> AList.update"

abbreviation map_del :: "'k \<Rightarrow> ('k, 'v) gomap \<Rightarrow> ('k, 'v) gomap" where
  "map_del \<equiv> AList.delete"

lemma map_of_put [lookup_simps, simp]:
  "map_of (map_put k v m) i = (if i = k then Some v else map_of m i)"
  by (simp add: update_conv)

lemma map_of_del [lookup_simps, simp]:
  "map_of (map_del k m) i = (if i = k then None else map_of m i)"
  by (simp add: delete_conv')

lemma in_keys_iff: "k \<in> fst ` set m \<longleftrightarrow> map_of m k \<noteq> None"
  by (simp add: map_of_eq_None_iff)

lemma map_wf_empty [simp, intro]: "map_wf []"
  by (simp add: map_wf_def)

lemma map_wf_singleton [simp, intro]: "map_wf [(k, v)]"
  by (simp add: map_wf_def)

lemma map_wf_put [simp, intro]: "map_wf m \<Longrightarrow> map_wf (map_put k v m)"
  by (simp add: map_wf_def distinct_update)

lemma map_wf_del [simp, intro]: "map_wf m \<Longrightarrow> map_wf (map_del k m)"
  by (simp add: map_wf_def distinct_delete)

lemma set_map_del: "set (map_del k m) = {p \<in> set m. fst p \<noteq> k}"
  by (auto simp: AList.delete_eq)

lemma map_del_absent: "map_of m k = None \<Longrightarrow> map_del k m = m"
  by (induction m) (auto split: if_splits)

lemma length_map_put:
  "length (map_put k v m) = (if map_of m k = None then Suc (length m) else length m)"
  by (induction m) auto

lemma length_map_del:
  "map_wf m \<Longrightarrow> length (map_del k m) = (if map_of m k = None then length m else length m - 1)"
proof (induction m)
  case (Cons p m)
  obtain i v where p: "p = (i, v)" by (cases p)
  show ?case
  proof (cases "i = k")
    case True
    with Cons.prems p have "map_of m k = None"
      by (auto simp: map_wf_def map_of_eq_None_iff)
    with True p show ?thesis by (simp add: map_del_absent)
  next
    case False
    with Cons p have "length (map_del k m) = (if map_of m k = None then length m else length m - 1)"
      by (simp add: map_wf_def)
    moreover have "map_of m k \<noteq> None \<Longrightarrow> length m \<noteq> 0" by auto
    ultimately show ?thesis using False p by auto
  qed
qed simp

lemma map_of_wf_iff: "map_wf m \<Longrightarrow> map_of m k = Some v \<longleftrightarrow> (k, v) \<in> set m"
  by (simp add: map_wf_def)

lemma set_map_put_wf:
  "map_wf m \<Longrightarrow> set (map_put k v m) = insert (k, v) {p \<in> set m. fst p \<noteq> k}"
proof -
  assume wf: "map_wf m"
  have "p \<in> set (map_put k v m) \<longleftrightarrow> p \<in> insert (k, v) {p \<in> set m. fst p \<noteq> k}" for p
  proof -
    have "p \<in> set (map_put k v m) \<longleftrightarrow> map_of (map_put k v m) (fst p) = Some (snd p)"
      using map_of_wf_iff [OF map_wf_put [OF wf], of k v "fst p" "snd p"] by simp
    then show ?thesis using wf map_of_wf_iff [OF wf, of "fst p" "snd p"] by (cases p) auto
  qed
  then show ?thesis by blast
qed

section \<open>Interfaces shared by the components\<close>

text \<open>
  A keyed store: what a component may rely on when it keeps its records under string
  keys. The stores of the proxy (transactions, pending keys, devices, signers) are all
  Go maps, and the interpretation below is on exactly the map operations they use.
\<close>

locale keyed_store =
  fixes empty_store :: 'm
    and put :: "'k \<Rightarrow> 'v \<Rightarrow> 'm \<Rightarrow> 'm"
    and del :: "'k \<Rightarrow> 'm \<Rightarrow> 'm"
    and get :: "'m \<Rightarrow> 'k \<Rightarrow> 'v option"
    and size_of :: "'m \<Rightarrow> nat"
    and wf :: "'m \<Rightarrow> bool"
  assumes wf_empty: "wf empty_store"
    and wf_put: "wf m \<Longrightarrow> wf (put k v m)"
    and wf_del: "wf m \<Longrightarrow> wf (del k m)"
    and get_empty: "get empty_store k = None"
    and get_put: "get (put k v m) i = (if i = k then Some v else get m i)"
    and get_del: "get (del k m) i = (if i = k then None else get m i)"
    and size_empty: "size_of empty_store = 0"
    and size_put: "size_of (put k v m) = (if get m k = None then Suc (size_of m) else size_of m)"
    and size_del: "wf m \<Longrightarrow> size_of (del k m) = (if get m k = None then size_of m else size_of m - 1)"
begin

lemma put_then_get: "get (put k v m) k = Some v"
  by (simp add: get_put)

lemma del_then_get: "get (del k m) k = None"
  by (simp add: get_del)

lemma size_put_le: "size_of (put k v m) \<le> Suc (size_of m)"
  by (simp add: size_put)

lemma size_del_le: "wf m \<Longrightarrow> size_of (del k m) \<le> size_of m"
  by (simp add: size_del)

text \<open>Adding under a fresh key below a bound keeps the bound: the shape of every
  capacity check in the proxy.\<close>

lemma bounded_put: "size_of m < n \<Longrightarrow> size_of (put k v m) \<le> n"
  by (simp add: size_put)

lemma wf_puts: "wf m \<Longrightarrow> wf (fold (\<lambda>(k, v). put k v) kvs m)"
  by (induction kvs arbitrary: m) (auto simp: wf_put)

end

interpretation go_map: keyed_store "[]" map_put map_del map_of length map_wf
  by unfold_locales (auto simp: length_map_put length_map_del)

text \<open>
  A component driven by operations: if each operation keeps the invariant, so does
  every sequence of operations.
\<close>

locale op_machine =
  fixes exec :: "'op \<Rightarrow> 's \<Rightarrow> 's"
    and inv :: "'s \<Rightarrow> bool"
  assumes exec_inv: "inv s \<Longrightarrow> inv (exec opn s)"
begin

lemma run_inv: "inv s \<Longrightarrow> inv (fold exec ops s)"
  by (induction ops arbitrary: s) (auto intro: exec_inv)

lemma prefix_inv: "inv s \<Longrightarrow> inv (fold exec (take n ops) s)"
  by (rule run_inv)

end

text \<open>The same for a component whose steps are a relation.\<close>

locale step_machine =
  fixes step :: "'s \<Rightarrow> 's \<Rightarrow> bool"
    and inv :: "'s \<Rightarrow> bool"
  assumes step_inv: "step s t \<Longrightarrow> inv s \<Longrightarrow> inv t"
begin

lemma reachable_inv: "step\<^sup>*\<^sup>* s t \<Longrightarrow> inv s \<Longrightarrow> inv t"
  by (induction rule: rtranclp_induct) (auto intro: step_inv)

end

text \<open>
  A codec: a text encoding with a decoder that reads every encoding back. Encoders with
  this law are injective, which is what makes a printed fingerprint identify its key.
\<close>

locale codec =
  fixes encode :: "'a \<Rightarrow> string"
    and decode :: "string \<Rightarrow> 'a option"
    and dom :: "'a \<Rightarrow> bool"
  assumes decode_encode: "dom x \<Longrightarrow> decode (encode x) = Some x"
begin

lemma encode_inject: "dom x \<Longrightarrow> dom y \<Longrightarrow> encode x = encode y \<longleftrightarrow> x = y"
  by (metis decode_encode option.inject)

lemma decode_some: "dom x \<Longrightarrow> decode (encode x) \<noteq> None"
  by (simp add: decode_encode)

end

end
