(* ===== verification/Go_Text.thy ===== *)
theory Go_Text
  imports Prelude
begin

text \<open>
  The pieces of Go's standard library the proxy's text handling rests on: \<open>strings\<close>
  (trimming, prefixes, splitting), \<open>strconv\<close> (decimal integers), \<open>encoding/hex\<close> and
  \<open>encoding/base64\<close>. They are written as executable functions, each encoder with the
  decoder that reads it back, and interpreted as codecs.
\<close>

section \<open>Package strings\<close>

definition HasPrefix :: "string \<Rightarrow> string \<Rightarrow> bool" where
  "HasPrefix s p \<longleftrightarrow> take (length p) s = p"

definition TrimPrefix :: "string \<Rightarrow> string \<Rightarrow> string" where
  "TrimPrefix s p = (if HasPrefix s p then drop (length p) s else s)"

text \<open>\<open>strings.TrimRight\<close> for a cutset of single-byte characters.\<close>

definition TrimRight :: "string \<Rightarrow> string \<Rightarrow> string" where
  "TrimRight s cutset = rev (dropWhile (\<lambda>c. c \<in> set cutset) (rev s))"

fun Split :: "string \<Rightarrow> char \<Rightarrow> string list" where
  "Split [] sep = [[]]"
| "Split (c # s) sep =
     (if c = sep then [] # Split s sep
      else case Split s sep of [] \<Rightarrow> [[c]] | p # ps \<Rightarrow> (c # p) # ps)"

text \<open>The UTF-8 encodings of the characters for which \<open>unicode.IsSpace\<close> holds.\<close>

definition space_encodings :: "string list" where
  "space_encodings =
     [[CHR 0x20], [CHR 0x09], [CHR 0x0A], [CHR 0x0B], [CHR 0x0C], [CHR 0x0D],
      [CHR 0xC2, CHR 0x85], [CHR 0xC2, CHR 0xA0],
      [CHR 0xE1, CHR 0x9A, CHR 0x80],
      [CHR 0xE2, CHR 0x80, CHR 0x80], [CHR 0xE2, CHR 0x80, CHR 0x81], [CHR 0xE2, CHR 0x80, CHR 0x82],
      [CHR 0xE2, CHR 0x80, CHR 0x83], [CHR 0xE2, CHR 0x80, CHR 0x84], [CHR 0xE2, CHR 0x80, CHR 0x85],
      [CHR 0xE2, CHR 0x80, CHR 0x86], [CHR 0xE2, CHR 0x80, CHR 0x87], [CHR 0xE2, CHR 0x80, CHR 0x88],
      [CHR 0xE2, CHR 0x80, CHR 0x89], [CHR 0xE2, CHR 0x80, CHR 0x8A],
      [CHR 0xE2, CHR 0x80, CHR 0xA8], [CHR 0xE2, CHR 0x80, CHR 0xA9], [CHR 0xE2, CHR 0x80, CHR 0xAF],
      [CHR 0xE2, CHR 0x81, CHR 0x9F],
      [CHR 0xE3, CHR 0x80, CHR 0x80]]"

fun strip_one :: "string list \<Rightarrow> string \<Rightarrow> string option" where
  "strip_one [] s = None"
| "strip_one (p # ps) s =
     (if p \<noteq> [] \<and> HasPrefix s p then Some (drop (length p) s) else strip_one ps s)"

lemma strip_one_shorter: "strip_one ps s = Some t \<Longrightarrow> length t < length s"
proof (induction ps)
  case (Cons p ps)
  show ?case
  proof (cases "p \<noteq> [] \<and> HasPrefix s p")
    case True
    then have "length p \<le> length s"
      by (metis HasPrefix_def length_take min.cobounded1)
    with True Cons.prems show ?thesis by (cases p) auto
  qed (use Cons in auto)
qed simp

function strip_left :: "string list \<Rightarrow> string \<Rightarrow> string" where
  "strip_left ps s = (case strip_one ps s of None \<Rightarrow> s | Some t \<Rightarrow> strip_left ps t)"
  by pat_completeness auto
termination
  by (relation "measure (\<lambda>(ps, s). length s)") (auto dest: strip_one_shorter)

declare strip_left.simps [simp del]

definition TrimSpace :: "string \<Rightarrow> string" where
  "TrimSpace s =
     rev (strip_left (map rev space_encodings) (rev (strip_left space_encodings s)))"

lemma strip_left_idle: "strip_one ps s = None \<Longrightarrow> strip_left ps s = s"
  by (simp add: strip_left.simps)

lemma strip_left_done: "strip_one ps (strip_left ps s) = None"
proof (induction ps s rule: strip_left.induct)
  case (1 ps s)
  then show ?case
    by (cases "strip_one ps s") (simp_all add: strip_left.simps [of ps s])
qed

lemma strip_left_idem [simp]: "strip_left ps (strip_left ps s) = strip_left ps s"
  by (simp add: strip_left_idle strip_left_done)

lemma strip_one_suffix: "strip_one ps s = Some t \<Longrightarrow> \<exists>u. s = u @ t"
proof (induction ps)
  case (Cons p ps)
  show ?case
  proof (cases "p \<noteq> [] \<and> HasPrefix s p")
    case True
    with Cons.prems have "t = drop (length p) s" by simp
    then have "s = take (length p) s @ t" by simp
    then show ?thesis by blast
  qed (use Cons in auto)
qed simp

lemma strip_left_suffix: "\<exists>u. s = u @ strip_left ps s"
proof (induction ps s rule: strip_left.induct)
  case (1 ps s)
  show ?case
  proof (cases "strip_one ps s")
    case None
    then show ?thesis by (simp add: strip_left_idle)
  next
    case (Some t)
    with "1" obtain u where "t = u @ strip_left ps t" by blast
    moreover from Some obtain v where "s = v @ t" by (blast dest: strip_one_suffix)
    moreover from Some have "strip_left ps s = strip_left ps t" by (simp add: strip_left.simps)
    ultimately show ?thesis by (metis append.assoc)
  qed
qed

lemma strip_left_length: "length (strip_left ps s) \<le> length s"
  by (metis strip_left_suffix length_append le_add2)

lemma TrimSpace_length: "length (TrimSpace s) \<le> length s"
proof -
  have "length (TrimSpace s) \<le> length (strip_left space_encodings s)"
    unfolding TrimSpace_def
    by (metis length_rev strip_left_length)
  also have "\<dots> \<le> length s" by (rule strip_left_length)
  finally show ?thesis .
qed

text \<open>\<open>TrimSpace\<close> leaves a substring: only characters of the argument remain.\<close>

lemma TrimSpace_subset: "set (TrimSpace s) \<subseteq> set s"
proof -
  let ?t = "strip_left space_encodings s"
  obtain u where "s = u @ ?t" using strip_left_suffix by blast
  then have a: "set ?t \<subseteq> set s" by (metis set_append Un_upper2)
  obtain v where "rev ?t = v @ strip_left (map rev space_encodings) (rev ?t)"
    using strip_left_suffix by blast
  then have "set (strip_left (map rev space_encodings) (rev ?t)) \<subseteq> set (rev ?t)"
    by (metis set_append Un_upper2)
  with a show ?thesis by (auto simp: TrimSpace_def)
qed

lemma TrimSpace_Nil [simp]: "TrimSpace [] = []"
  using TrimSpace_length [of "[]"] by simp

text \<open>A string that neither starts nor ends with a space is left alone.\<close>

lemma TrimSpace_idle:
  "strip_one space_encodings s = None \<Longrightarrow> strip_one (map rev space_encodings) (rev s) = None
   \<Longrightarrow> TrimSpace s = s"
  by (simp add: TrimSpace_def strip_left_idle)

lemma HasPrefix_append [simp]: "HasPrefix (p @ s) p"
  by (simp add: HasPrefix_def)

lemma TrimPrefix_append [simp]: "TrimPrefix (p @ s) p = s"
  by (simp add: TrimPrefix_def)

lemma HasPrefix_Cons: "HasPrefix (c # s) (d # p) \<longleftrightarrow> c = d \<and> HasPrefix s p"
  by (simp add: HasPrefix_def)

lemma HasPrefix_Nil [simp]: "HasPrefix s [] = True"
  by (simp add: HasPrefix_def)

lemma HasPrefix_iff: "HasPrefix s p \<longleftrightarrow> (\<exists>t. s = p @ t)"
  by (metis HasPrefix_append HasPrefix_def append_take_drop_id)

lemma TrimRight_idle: "s = [] \<or> last s \<notin> set cs \<Longrightarrow> TrimRight s cs = s"
  by (cases s rule: rev_cases) (auto simp: TrimRight_def)

lemma Split_nonempty [simp]: "Split s sep \<noteq> []"
  by (induction s) (auto split: list.splits)

lemma Split_no_sep: "sep \<notin> set s \<Longrightarrow> Split s sep = [s]"
  by (induction s) auto

lemma Split_append_sep: "sep \<notin> set s \<Longrightarrow> Split (s @ sep # t) sep = s # Split t sep"
  by (induction s) auto

text \<open>Joining the parts with the separator gives the string back.\<close>

fun Join :: "string list \<Rightarrow> char \<Rightarrow> string" where
  "Join [] sep = []"
| "Join [p] sep = p"
| "Join (p # q # ps) sep = p @ sep # Join (q # ps) sep"

lemma Join_Split [codec_simps]: "Join (Split s sep) sep = s"
proof (induction s)
  case (Cons c s)
  show ?case
  proof (cases "Split s sep")
    case (Cons p ps)
    with Cons.IH show ?thesis by (cases ps) auto
  qed simp
qed simp

lemma Split_parts: "p \<in> set (Split s sep) \<Longrightarrow> sep \<notin> set p"
  by (induction s arbitrary: p) (auto split: list.splits if_splits)

section \<open>Package strconv\<close>

definition digit_char :: "nat \<Rightarrow> char" where
  "digit_char d = char_of (48 + d)"

definition char_digit :: "char \<Rightarrow> nat option" where
  "char_digit c = (let n = of_char c :: nat in if 48 \<le> n \<and> n \<le> 57 then Some (n - 48) else None)"

fun nat_digits :: "nat \<Rightarrow> string" where
  "nat_digits n = (if n < 10 then [digit_char n] else nat_digits (n div 10) @ [digit_char (n mod 10)])"

declare nat_digits.simps [simp del]

text \<open>\<open>strconv.FormatInt(i, 10)\<close>, \<open>strconv.Itoa\<close> and \<open>strconv.AppendInt\<close>.\<close>

definition FormatInt :: "int \<Rightarrow> string" where
  "FormatInt i = (if i < 0 then CHR ''-'' # nat_digits (nat (- i)) else nat_digits (nat i))"

fun read_digits :: "nat \<Rightarrow> string \<Rightarrow> nat option" where
  "read_digits acc [] = Some acc"
| "read_digits acc (c # s) =
     (case char_digit c of None \<Rightarrow> None | Some d \<Rightarrow> read_digits (10 * acc + d) s)"

definition parse_nat :: "string \<Rightarrow> nat option" where
  "parse_nat s = (if s = [] then None else read_digits 0 s)"

text \<open>\<open>strconv.ParseInt(s, 10, 64)\<close>, and \<open>strconv.Atoi\<close> on a 64-bit platform.\<close>

definition ParseInt :: "string \<Rightarrow> int option" where
  "ParseInt s =
     (let (neg, body) = (case s of
          [] \<Rightarrow> (False, [])
        | c # t \<Rightarrow> if c = CHR ''-'' then (True, t) else if c = CHR ''+'' then (False, t) else (False, s))
      in case parse_nat body of
           None \<Rightarrow> None
         | Some n \<Rightarrow>
             (let v = (if neg then - int n else int n)
              in if int64 v then Some v else None))"

lemma char_digit_char [simp]: "d < 10 \<Longrightarrow> char_digit (digit_char d) = Some d"
  by (simp add: char_digit_def digit_char_def of_char_of)

lemma digit_char_not_minus: "d < 10 \<Longrightarrow> digit_char d \<noteq> CHR ''-'' \<and> digit_char d \<noteq> CHR ''+''"
  by (metis (no_types, lifting) char_digit_char char_digit_def option.distinct(1)
      char_digit_def [of "CHR ''-''", simplified] char_digit_def [of "CHR ''+''", simplified])

lemma read_digits_append:
  "read_digits acc (s @ t) = (case read_digits acc s of None \<Rightarrow> None | Some a \<Rightarrow> read_digits a t)"
  by (induction s arbitrary: acc) (auto split: option.splits)

lemma nat_digits_nonempty [simp]: "nat_digits n \<noteq> []"
  by (subst nat_digits.simps) simp

lemma read_nat_digits: "read_digits 0 (nat_digits n) = Some n"
proof (induction n rule: nat_digits.induct)
  case (1 n)
  show ?case
  proof (cases "n < 10")
    case True
    then show ?thesis by (simp add: nat_digits.simps [of n])
  next
    case False
    with "1" have "read_digits 0 (nat_digits (n div 10)) = Some (n div 10)" by simp
    with False show ?thesis
      by (simp add: nat_digits.simps [of n] read_digits_append)
  qed
qed

lemma nat_digits_chars: "c \<in> set (nat_digits n) \<Longrightarrow> \<exists>d<10. c = digit_char d"
proof (induction n rule: nat_digits.induct)
  case (1 n)
  have "\<exists>d<10. digit_char (n mod 10) = digit_char d"
    by (intro exI [of _ "n mod 10"]) simp
  with "1" show ?case
    by (cases "n < 10") (auto simp: nat_digits.simps [of n])
qed

lemma nat_digits_hd: "\<exists>c t. nat_digits n = c # t \<and> c \<noteq> CHR ''-'' \<and> c \<noteq> CHR ''+''"
proof -
  obtain c t where ct: "nat_digits n = c # t" by (cases "nat_digits n") auto
  then obtain d where "d < 10" "c = digit_char d" using nat_digits_chars [of c n] by auto
  with ct show ?thesis using digit_char_not_minus by blast
qed

lemma ParseInt_FormatInt [codec_simps]: "int64 i \<Longrightarrow> ParseInt (FormatInt i) = Some i"
proof (cases "i < 0")
  case True
  then have "- int (nat (- i)) = i" by simp
  moreover assume "int64 i"
  ultimately show ?thesis using True
    by (simp add: FormatInt_def ParseInt_def parse_nat_def read_nat_digits)
next
  case False
  assume "int64 i"
  obtain c t where ct: "nat_digits (nat i) = c # t" "c \<noteq> CHR ''-''" "c \<noteq> CHR ''+''"
    using nat_digits_hd by blast
  moreover have "parse_nat (c # t) = Some (nat i)"
    using read_nat_digits [of "nat i"] ct(1) by (simp add: parse_nat_def del: read_digits.simps)
  ultimately show ?thesis using False \<open>int64 i\<close>
    by (simp add: FormatInt_def ParseInt_def)
qed

lemma ParseInt_int64: "ParseInt s = Some i \<Longrightarrow> int64 i"
  by (auto simp: ParseInt_def Let_def split: prod.splits option.splits if_splits)

lemma FormatInt_no_colon: "CHR '':'' \<notin> set (FormatInt i)"
proof -
  have "CHR '':'' \<noteq> digit_char d" if "d < 10" for d
    using that by (auto simp: digit_char_def dest!: arg_cong [where f = "of_char :: char \<Rightarrow> nat"] simp: of_char_of)
  then show ?thesis by (auto simp: FormatInt_def dest!: nat_digits_chars)
qed

interpretation decimal: codec FormatInt ParseInt int64
  by unfold_locales (rule ParseInt_FormatInt)

section \<open>Package encoding/hex\<close>

definition hex_chars :: string where
  "hex_chars = ''0123456789abcdef''"

text \<open>The value of a hexadecimal digit, either case.\<close>

definition hex_val :: "char \<Rightarrow> nat option" where
  "hex_val c = (let n = of_char c :: nat in
     if 48 \<le> n \<and> n \<le> 57 then Some (n - 48)
     else if 97 \<le> n \<and> n \<le> 102 then Some (n - 87)
     else if 65 \<le> n \<and> n \<le> 70 then Some (n - 55)
     else None)"

fun hex_EncodeToString :: "bytes \<Rightarrow> string" where
  "hex_EncodeToString [] = []"
| "hex_EncodeToString (b # bs) =
     (let n = of_char b :: nat in hex_chars ! (n div 16) # hex_chars ! (n mod 16) # hex_EncodeToString bs)"

fun hex_DecodeString :: "string \<Rightarrow> bytes option" where
  "hex_DecodeString [] = Some []"
| "hex_DecodeString [c] = None"
| "hex_DecodeString (c # d # s) =
     (case hex_val c of None \<Rightarrow> None | Some h \<Rightarrow>
       (case hex_val d of None \<Rightarrow> None | Some l \<Rightarrow>
         (case hex_DecodeString s of None \<Rightarrow> None | Some bs \<Rightarrow> Some (char_of (16 * h + l) # bs))))"

lemma hex_val_all: "\<forall>i \<in> set [0..<16]. hex_val (hex_chars ! i) = Some i"
  by code_simp

lemma hex_val_chars [simp]: "i < 16 \<Longrightarrow> hex_val (hex_chars ! i) = Some i"
  using hex_val_all by simp

lemma of_char_less [simp]: "(of_char c :: nat) < 256"
  using of_char_mod_256 [of c, where ?'a = nat] by (metis mod_less_divisor zero_less_numeral)

lemma hex_Decode_Encode [codec_simps]: "hex_DecodeString (hex_EncodeToString bs) = Some bs"
proof (induction bs)
  case (Cons b bs)
  have "(of_char b :: nat) div 16 < 16"
    using of_char_less [of b] by (simp add: less_mult_imp_div_less)
  then show ?case using Cons by (simp add: Let_def)
qed simp

lemma hex_Encode_length [simp]: "length (hex_EncodeToString bs) = 2 * length bs"
  by (induction bs) (auto simp: Let_def)

lemma hex_Decode_length: "hex_DecodeString s = Some bs \<Longrightarrow> length s = 2 * length bs"
  by (induction s arbitrary: bs rule: hex_DecodeString.induct) (auto split: option.splits)

interpretation hex: codec hex_EncodeToString hex_DecodeString "\<lambda>_. True"
  by unfold_locales (rule hex_Decode_Encode)

section \<open>Package encoding/base64\<close>

definition b64_chars :: string where
  "b64_chars = ''ABCDEFGHIJKLMNOPQRSTUVWXYZabcdefghijklmnopqrstuvwxyz0123456789+/''"

definition b64_val :: "char \<Rightarrow> nat option" where
  "b64_val c = map_of (zip b64_chars [0..<64]) c"

abbreviation pad_char :: char where
  "pad_char \<equiv> CHR ''=''"

text \<open>
  The four sextets of three bytes, and back. The decoder is Go's non-strict one: bits
  left over in the last group are ignored.
\<close>

definition sextets :: "nat \<Rightarrow> nat \<Rightarrow> nat \<Rightarrow> nat list" where
  "sextets x y z = [x div 4, (x mod 4) * 16 + y div 16, (y mod 16) * 4 + z div 64, z mod 64]"

definition octet1 :: "nat \<Rightarrow> nat \<Rightarrow> char" where
  "octet1 a b = char_of (a * 4 + b div 16)"

definition octet2 :: "nat \<Rightarrow> nat \<Rightarrow> char" where
  "octet2 b c = char_of ((b mod 16) * 16 + c div 4)"

definition octet3 :: "nat \<Rightarrow> nat \<Rightarrow> char" where
  "octet3 c d = char_of ((c mod 4) * 64 + d)"

text \<open>\<open>RawStdEncoding\<close> (no padding) and \<open>StdEncoding\<close>.\<close>

fun b64_encode :: "bool \<Rightarrow> bytes \<Rightarrow> string" where
  "b64_encode pad [] = []"
| "b64_encode pad [x] =
     map (\<lambda>i. b64_chars ! i) (take 2 (sextets (of_char x) 0 0)) @ (if pad then [pad_char, pad_char] else [])"
| "b64_encode pad [x, y] =
     map (\<lambda>i. b64_chars ! i) (take 3 (sextets (of_char x) (of_char y) 0)) @ (if pad then [pad_char] else [])"
| "b64_encode pad (x # y # z # bs) =
     map (\<lambda>i. b64_chars ! i) (sextets (of_char x) (of_char y) (of_char z)) @ b64_encode pad bs"

fun b64_decode_raw :: "string \<Rightarrow> bytes option" where
  "b64_decode_raw [] = Some []"
| "b64_decode_raw [a] = None"
| "b64_decode_raw [a, b] =
     (case b64_val a of None \<Rightarrow> None | Some i \<Rightarrow> case b64_val b of None \<Rightarrow> None | Some j \<Rightarrow> Some [octet1 i j])"
| "b64_decode_raw [a, b, c] =
     (case b64_val a of None \<Rightarrow> None | Some i \<Rightarrow> case b64_val b of None \<Rightarrow> None | Some j \<Rightarrow>
      case b64_val c of None \<Rightarrow> None | Some k \<Rightarrow> Some [octet1 i j, octet2 j k])"
| "b64_decode_raw (a # b # c # d # s) =
     (case b64_val a of None \<Rightarrow> None | Some i \<Rightarrow> case b64_val b of None \<Rightarrow> None | Some j \<Rightarrow>
      case b64_val c of None \<Rightarrow> None | Some k \<Rightarrow> case b64_val d of None \<Rightarrow> None | Some l \<Rightarrow>
      case b64_decode_raw s of None \<Rightarrow> None | Some bs \<Rightarrow> Some (octet1 i j # octet2 j k # octet3 k l # bs))"

fun b64_decode_std :: "string \<Rightarrow> bytes option" where
  "b64_decode_std [] = Some []"
| "b64_decode_std (a # b # c # d # s) =
     (case b64_val a of None \<Rightarrow> None | Some i \<Rightarrow> case b64_val b of None \<Rightarrow> None | Some j \<Rightarrow>
      if c = pad_char then (if d = pad_char \<and> s = [] then Some [octet1 i j] else None)
      else case b64_val c of None \<Rightarrow> None | Some k \<Rightarrow>
        if d = pad_char then (if s = [] then Some [octet1 i j, octet2 j k] else None)
        else case b64_val d of None \<Rightarrow> None | Some l \<Rightarrow>
          case b64_decode_std s of None \<Rightarrow> None | Some bs \<Rightarrow> Some (octet1 i j # octet2 j k # octet3 k l # bs))"
| "b64_decode_std _ = None"

text \<open>Both decoders skip carriage returns and line feeds.\<close>

definition drop_newlines :: "string \<Rightarrow> string" where
  "drop_newlines s = filter (\<lambda>c. c \<noteq> CHR 0x0A \<and> c \<noteq> CHR 0x0D) s"

definition RawStdEncoding_EncodeToString :: "bytes \<Rightarrow> string" where
  "RawStdEncoding_EncodeToString bs = b64_encode False bs"

definition RawStdEncoding_DecodeString :: "string \<Rightarrow> bytes option" where
  "RawStdEncoding_DecodeString s = b64_decode_raw (drop_newlines s)"

definition StdEncoding_EncodeToString :: "bytes \<Rightarrow> string" where
  "StdEncoding_EncodeToString bs = b64_encode True bs"

definition StdEncoding_DecodeString :: "string \<Rightarrow> bytes option" where
  "StdEncoding_DecodeString s = b64_decode_std (drop_newlines s)"

lemma b64_chars_length [simp]: "length b64_chars = 64"
  by (simp add: b64_chars_def)

lemma b64_chars_distinct: "distinct b64_chars"
  by (simp add: b64_chars_def)

lemma b64_chars_others:
  "pad_char \<notin> set b64_chars" "CHR 0x0A \<notin> set b64_chars" "CHR 0x0D \<notin> set b64_chars"
  by (simp_all add: b64_chars_def)

lemma b64_val_chars [simp]:
  assumes "i < 64"
  shows "b64_val (b64_chars ! i) = Some i"
    and "b64_chars ! i \<noteq> pad_char"
    and "b64_chars ! i \<noteq> CHR 0x0A"
    and "b64_chars ! i \<noteq> CHR 0x0D"
proof -
  have "i < length b64_chars" using assms by simp
  then have "b64_chars ! i \<in> set b64_chars" by (rule nth_mem)
  with b64_chars_others show "b64_chars ! i \<noteq> pad_char" "b64_chars ! i \<noteq> CHR 0x0A"
    "b64_chars ! i \<noteq> CHR 0x0D" by metis+
  show "b64_val (b64_chars ! i) = Some i"
    using map_of_zip_nth [of b64_chars "[0..<64]" i] assms b64_chars_distinct
    by (simp add: b64_val_def)
qed

lemma sextet_bounds:
  assumes "x < 256" "y < 256" "z < 256"
  shows "x div 4 < 64" and "(x mod 4) * 16 + y div 16 < 64"
    and "(y mod 16) * 4 + z div 64 < 64" and "z mod 64 < (64 :: nat)"
proof -
  show "x div 4 < 64" using assms(1) by (simp add: less_mult_imp_div_less)
  have "y div 16 < 16" using assms(2) by (simp add: less_mult_imp_div_less)
  moreover have "x mod 4 < 4" by simp
  ultimately show "(x mod 4) * 16 + y div 16 < 64" by linarith
  have "z div 64 < 4" using assms(3) by (simp add: less_mult_imp_div_less)
  moreover have "y mod 16 < 16" by simp
  ultimately show "(y mod 16) * 4 + z div 64 < 64" by linarith
  show "z mod 64 < 64" by simp
qed

lemma octets_of_sextets:
  fixes x y z :: nat
  assumes "y < 256" "z < 256"
  shows "x div 4 * 4 + ((x mod 4) * 16 + y div 16) div 16 = x"
    and "(((x mod 4) * 16 + y div 16) mod 16) * 16 + ((y mod 16) * 4 + z div 64) div 4 = y"
    and "(((y mod 16) * 4 + z div 64) mod 4) * 64 + z mod 64 = z"
proof -
  have y: "y div 16 < 16" using assms(1) by (simp add: less_mult_imp_div_less)
  have z: "z div 64 < 4" using assms(2) by (simp add: less_mult_imp_div_less)
  from y show "x div 4 * 4 + ((x mod 4) * 16 + y div 16) div 16 = x" by simp
  from y z show "(((x mod 4) * 16 + y div 16) mod 16) * 16 + ((y mod 16) * 4 + z div 64) div 4 = y"
    by simp
  from z show "(((y mod 16) * 4 + z div 64) mod 4) * 64 + z mod 64 = z" by simp
qed

lemma octets_char:
  "octet1 (of_char x div 4) ((of_char x mod 4) * 16 + of_char y div 16) = x"
  "octet2 ((of_char x mod 4) * 16 + of_char y div 16) ((of_char y mod 16) * 4 + of_char z div 64) = y"
  "octet3 ((of_char y mod 16) * 4 + of_char z div 64) (of_char z mod 64) = z"
  using octets_of_sextets(1,2) [OF of_char_less [of y] of_char_less [of z], of "of_char x"]
    octets_of_sextets(3) [OF of_char_less [of y] of_char_less [of z]]
  by (simp_all only: octet1_def octet2_def octet3_def char_of_char)

lemma octets_char_last:
  "octet1 (of_char x div 4) ((of_char x mod 4) * 16) = x"
  "octet2 ((of_char x mod 4) * 16 + of_char y div 16) ((of_char y mod 16) * 4) = y"
proof -
  have o: "of_char (CHR 0x00) = (0 :: nat)" by simp
  show "octet1 (of_char x div 4) ((of_char x mod 4) * 16) = x"
    using octets_char(1) [of x "CHR 0x00"] by (simp only: o div_0 add_0_right)
  show "octet2 ((of_char x mod 4) * 16 + of_char y div 16) ((of_char y mod 16) * 4) = y"
    using octets_char(2) [of x y "CHR 0x00"] by (simp only: o div_0 add_0_right)
qed

lemma char_sextets:
  "(of_char x :: nat) div 4 < 64"
  "(of_char x mod 4) * 16 + of_char y div 16 < (64 :: nat)"
  "(of_char y mod 16) * 4 + of_char z div 64 < (64 :: nat)"
  "(of_char z :: nat) mod 64 < 64"
  "(of_char x mod 4) * 16 < (64 :: nat)"
  "(of_char y mod 16) * 4 < (64 :: nat)"
  using sextet_bounds [OF of_char_less [of x] of_char_less [of y] of_char_less [of z]]
    mod_less_divisor [of 4 "of_char x :: nat"] mod_less_divisor [of 16 "of_char y :: nat"]
  by linarith+

lemmas b64_group_simps = sextets_def char_sextets octets_char octets_char_last

lemma drop_newlines_encode: "drop_newlines (b64_encode pad bs) = b64_encode pad bs"
  by (induction pad bs rule: b64_encode.induct)
    (simp_all add: drop_newlines_def sextets_def char_sextets numeral_2_eq_2 numeral_3_eq_3)

lemma b64_raw_roundtrip: "b64_decode_raw (b64_encode False bs) = Some bs"
  by (induction False bs rule: b64_encode.induct)
    (simp_all add: b64_group_simps numeral_2_eq_2 numeral_3_eq_3)

lemma b64_std_roundtrip: "b64_decode_std (b64_encode True bs) = Some bs"
  by (induction True bs rule: b64_encode.induct)
    (simp_all add: b64_group_simps numeral_2_eq_2 numeral_3_eq_3)

lemma RawStd_roundtrip [codec_simps]:
  "RawStdEncoding_DecodeString (RawStdEncoding_EncodeToString bs) = Some bs"
  by (simp add: RawStdEncoding_DecodeString_def RawStdEncoding_EncodeToString_def
      drop_newlines_encode b64_raw_roundtrip)

lemma Std_roundtrip [codec_simps]:
  "StdEncoding_DecodeString (StdEncoding_EncodeToString bs) = Some bs"
  by (simp add: StdEncoding_DecodeString_def StdEncoding_EncodeToString_def
      drop_newlines_encode b64_std_roundtrip)

interpretation raw64: codec RawStdEncoding_EncodeToString RawStdEncoding_DecodeString "\<lambda>_. True"
  by unfold_locales (rule RawStd_roundtrip)

interpretation std64: codec StdEncoding_EncodeToString StdEncoding_DecodeString "\<lambda>_. True"
  by unfold_locales (rule Std_roundtrip)

text \<open>Only alphabet characters occur in an unpadded encoding.\<close>

lemma b64_encode_raw_chars: "c \<in> set (b64_encode False bs) \<Longrightarrow> c \<in> set b64_chars"
  by (induction False bs rule: b64_encode.induct)
    (auto simp: sextets_def char_sextets numeral_2_eq_2 numeral_3_eq_3 intro!: nth_mem)

lemma b64_encode_raw_length:
  "length (b64_encode False bs) = (4 * length bs + 2) div 3"
proof (induction False bs rule: b64_encode.induct)
  case (4 x y z bs)
  then show ?case by (simp add: sextets_def)
qed (simp_all add: sextets_def)

lemma StdEncoding_Decode_empty: "StdEncoding_DecodeString [] = Some []"
  by (simp add: StdEncoding_DecodeString_def drop_newlines_def)

end
