(* ===== verification/Lease.thy ===== *)
theory Lease
  imports Go_Text
begin

text \<open>
  Session leases (package \<open>lease\<close>): the keys under which an approval may be reused, the
  in-memory store with its secondary index, and the lookup on the signing fast path.
  The store keeps two maps, \<open>leases\<close> by full key and \<open>byLookup\<close> from the lookup key to the
  set of full keys; the invariant says that they agree, and the lookup through the index
  is shown to be the lookup in the plain map of granted leases.
\<close>

section \<open>Keys\<close>

record LookupKey =
  lk_ClientCertFP :: string
  lk_TargetUser :: string
  lk_TargetIP :: string
  lk_SourceIP :: string
  lk_HostKeyFingerprint :: string
  lk_DestinationHostKeyFingerprint :: string

record FullKey =
  fk_LookupKey :: LookupKey
  fk_Approver :: string

definition lookupString :: "LookupKey \<Rightarrow> string" where
  "lookupString k =
     lk_ClientCertFP k @ ''|'' @ lk_TargetUser k @ ''|'' @ lk_TargetIP k @ ''|'' @ lk_SourceIP k @
     ''|'' @ lk_HostKeyFingerprint k @ ''|'' @ lk_DestinationHostKeyFingerprint k"

definition FullKey_String :: "FullKey \<Rightarrow> string" where
  "FullKey_String k = lookupString (fk_LookupKey k) @ ''|'' @ fk_Approver k"

definition NewLookupKey ::
  "string \<Rightarrow> string \<Rightarrow> string \<Rightarrow> string \<Rightarrow> string \<Rightarrow> string list \<Rightarrow> LookupKey" where
  "NewLookupKey clientCertFP targetUser targetIP sourceIP hostKeyFingerprint destinationHostKeyFingerprint =
     (let destination = (case destinationHostKeyFingerprint of [] \<Rightarrow> [] | d # _ \<Rightarrow> d)
      in \<lparr>lk_ClientCertFP = clientCertFP, lk_TargetUser = targetUser, lk_TargetIP = targetIP,
          lk_SourceIP = sourceIP, lk_HostKeyFingerprint = hostKeyFingerprint,
          lk_DestinationHostKeyFingerprint = destination\<rparr>)"

definition NewFullKey :: "LookupKey \<Rightarrow> string \<Rightarrow> FullKey" where
  "NewFullKey lookup approver = \<lparr>fk_LookupKey = lookup, fk_Approver = approver\<rparr>"

definition FormatApproverChatID :: "int \<Rightarrow> string" where
  "FormatApproverChatID chatID = ''telegram:'' @ FormatInt chatID"

definition FormatApproverDeviceID :: "string \<Rightarrow> string" where
  "FormatApproverDeviceID deviceID = ''device:'' @ deviceID"

section \<open>The store\<close>

record ActiveLease =
  al_Approver :: string
  al_ExpiresAt :: gotime

record lease_store =
  ls_leases :: "(FullKey, ActiveLease) gomap"
  ls_byLookup :: "(LookupKey, (FullKey, unit) gomap) gomap"

definition lease_NewStore :: lease_store where
  "lease_NewStore = \<lparr>ls_leases = [], ls_byLookup = []\<rparr>"

definition lease_deleteLocked :: "FullKey \<Rightarrow> lease_store \<Rightarrow> lease_store" where
  "lease_deleteLocked full s =
     (let s1 = s\<lparr>ls_leases := map_del full (ls_leases s)\<rparr>
      in case map_of (ls_byLookup s1) (fk_LookupKey full) of
           None \<Rightarrow> s1
         | Some bucket \<Rightarrow>
             (let bucket' = map_del full bucket
              in if length bucket' = 0
                 then s1\<lparr>ls_byLookup := map_del (fk_LookupKey full) (ls_byLookup s1)\<rparr>
                 else s1\<lparr>ls_byLookup := map_put (fk_LookupKey full) bucket' (ls_byLookup s1)\<rparr>))"

text \<open>One round of the purge loop: \<open>range\<close> over the leases, deleting the expired ones.\<close>

definition lease_purgeExpired :: "gotime \<Rightarrow> lease_store \<Rightarrow> lease_store" where
  "lease_purgeExpired now s =
     fold (\<lambda>(full, l) s. if al_ExpiresAt l < now then lease_deleteLocked full s else s) (ls_leases s) s"

definition lease_Put :: "FullKey \<Rightarrow> gotime \<Rightarrow> lease_store \<Rightarrow> lease_store" where
  "lease_Put key expiresAt s =
     (let s1 = s\<lparr>ls_leases := map_put key \<lparr>al_Approver = fk_Approver key, al_ExpiresAt = expiresAt\<rparr> (ls_leases s)\<rparr>;
          bucket = (case map_of (ls_byLookup s1) (fk_LookupKey key) of None \<Rightarrow> [] | Some b \<Rightarrow> b)
      in s1\<lparr>ls_byLookup := map_put (fk_LookupKey key) (map_put key () bucket) (ls_byLookup s1)\<rparr>)"

text \<open>The loop of \<open>FindActive\<close>, with its two local variables.\<close>

fun find_best :: "(FullKey, ActiveLease) gomap \<Rightarrow> gotime \<Rightarrow> FullKey list \<Rightarrow> ActiveLease \<times> bool \<Rightarrow> ActiveLease \<times> bool" where
  "find_best leases now [] acc = acc"
| "find_best leases now (full # rest) (best, found) =
     (case map_of leases full of
        None \<Rightarrow> find_best leases now rest (best, found)
      | Some l \<Rightarrow>
          if al_ExpiresAt l < now then find_best leases now rest (best, found)
          else if \<not> found \<or> al_ExpiresAt best < al_ExpiresAt l then find_best leases now rest (l, True)
          else find_best leases now rest (best, found))"

definition lease_FindActive :: "lease_store \<Rightarrow> LookupKey \<Rightarrow> gotime \<Rightarrow> ActiveLease \<times> bool" where
  "lease_FindActive s lookup now =
     (let candidates = (case map_of (ls_byLookup s) lookup of None \<Rightarrow> [] | Some b \<Rightarrow> map fst b)
      in find_best (ls_leases s) now candidates (\<lparr>al_Approver = [], al_ExpiresAt = time_zero\<rparr>, False))"

definition lease_Remaining :: "ActiveLease \<Rightarrow> gotime \<Rightarrow> duration" where
  "lease_Remaining l now = (let d = time_Until now (al_ExpiresAt l) in if d < 0 then 0 else d)"

section \<open>Invariant: the two maps agree\<close>

definition indexed :: "lease_store \<Rightarrow> LookupKey \<Rightarrow> FullKey \<Rightarrow> bool" where
  "indexed s lk full = (case map_of (ls_byLookup s) lk of None \<Rightarrow> False | Some b \<Rightarrow> map_of b full \<noteq> None)"

definition lease_inv :: "lease_store \<Rightarrow> bool" where
  "lease_inv s \<longleftrightarrow>
     map_wf (ls_leases s) \<and> map_wf (ls_byLookup s)
     \<and> (\<forall>lk b. map_of (ls_byLookup s) lk = Some b \<longrightarrow> map_wf b \<and> b \<noteq> [])
     \<and> (\<forall>lk full. indexed s lk full \<longleftrightarrow> fk_LookupKey full = lk \<and> map_of (ls_leases s) full \<noteq> None)
     \<and> (\<forall>full l. map_of (ls_leases s) full = Some l \<longrightarrow> al_Approver l = fk_Approver full)"

lemma lease_invD:
  assumes "lease_inv s"
  shows "map_wf (ls_leases s)" and "map_wf (ls_byLookup s)"
    and "map_of (ls_byLookup s) lk = Some b \<Longrightarrow> map_wf b"
    and "map_of (ls_byLookup s) lk = Some b \<Longrightarrow> b \<noteq> []"
    and "indexed s lk full \<longleftrightarrow> fk_LookupKey full = lk \<and> map_of (ls_leases s) full \<noteq> None"
    and "map_of (ls_leases s) full = Some l \<Longrightarrow> al_Approver l = fk_Approver full"
  using assms unfolding lease_inv_def by blast+

lemma lease_inv_init [inv_rules]: "lease_inv lease_NewStore"
  by (simp add: lease_inv_def lease_NewStore_def indexed_def)

text \<open>What the operations do to the two maps.\<close>

lemma leases_Put [lookup_simps, simp]:
  "map_of (ls_leases (lease_Put key e s)) full =
     (if full = key then Some \<lparr>al_Approver = fk_Approver key, al_ExpiresAt = e\<rparr>
      else map_of (ls_leases s) full)"
  by (simp add: lease_Put_def Let_def)

lemma leases_delete [lookup_simps, simp]:
  "map_of (ls_leases (lease_deleteLocked key s)) full =
     (if full = key then None else map_of (ls_leases s) full)"
  by (simp add: lease_deleteLocked_def Let_def split: option.split)

lemma indexed_Put [simp]:
  "indexed (lease_Put key e s) lk full \<longleftrightarrow> (lk = fk_LookupKey key \<and> full = key) \<or> indexed s lk full"
  by (auto simp: indexed_def lease_Put_def Let_def split: option.splits if_splits)

lemma map_del_Nil_lookup: "map_del k b = [] \<Longrightarrow> map_of b i = Some v \<Longrightarrow> i = k"
  by (metis map_of.simps(1) map_of_del option.distinct(1))

lemma indexed_delete:
  "indexed (lease_deleteLocked key s) lk full \<longleftrightarrow>
     indexed s lk full \<and> \<not> (lk = fk_LookupKey key \<and> full = key)"
proof (cases "map_of (ls_byLookup s) (fk_LookupKey key)")
  case None
  then show ?thesis by (auto simp: indexed_def lease_deleteLocked_def Let_def)
next
  case (Some b)
  show ?thesis
  proof (cases "map_del key b = []")
    case True
    with Some show ?thesis
      by (auto dest: map_del_Nil_lookup [OF True] simp: indexed_def lease_deleteLocked_def Let_def)
  next
    case False
    with Some show ?thesis
      by (auto simp: indexed_def lease_deleteLocked_def Let_def)
  qed
qed

lemma map_put_nonempty [simp]: "map_put k v m \<noteq> []"
  by (cases m) auto

lemma lease_Put_inv [inv_rules]:
  assumes "lease_inv s" shows "lease_inv (lease_Put key e s)"
proof -
  have "map_wf (ls_leases (lease_Put key e s))" "map_wf (ls_byLookup (lease_Put key e s))"
    using lease_invD(1,2) [OF assms] by (simp_all add: lease_Put_def Let_def)
  moreover have "map_wf b \<and> b \<noteq> []" if "map_of (ls_byLookup (lease_Put key e s)) lk = Some b" for lk b
    using that lease_invD(3,4) [OF assms]
    by (auto simp: lease_Put_def Let_def split: if_splits option.splits)
  moreover have "indexed (lease_Put key e s) lk full \<longleftrightarrow>
      fk_LookupKey full = lk \<and> map_of (ls_leases (lease_Put key e s)) full \<noteq> None" for lk full
    using lease_invD(5) [OF assms, of lk full] by auto
  moreover have "al_Approver l = fk_Approver full"
    if "map_of (ls_leases (lease_Put key e s)) full = Some l" for full l
    using that lease_invD(6) [OF assms] by (auto split: if_splits)
  ultimately show ?thesis unfolding lease_inv_def by blast
qed

lemma lease_delete_inv [inv_rules]:
  assumes "lease_inv s" shows "lease_inv (lease_deleteLocked key s)"
proof -
  have "map_wf (ls_leases (lease_deleteLocked key s))" "map_wf (ls_byLookup (lease_deleteLocked key s))"
    using lease_invD(1,2) [OF assms] by (auto simp: lease_deleteLocked_def Let_def split: option.split)
  moreover have "map_wf b \<and> b \<noteq> []"
    if "map_of (ls_byLookup (lease_deleteLocked key s)) lk = Some b" for lk b
    using that lease_invD(3,4) [OF assms]
    by (auto simp: lease_deleteLocked_def Let_def split: if_splits option.splits)
  moreover have "indexed (lease_deleteLocked key s) lk full \<longleftrightarrow>
      fk_LookupKey full = lk \<and> map_of (ls_leases (lease_deleteLocked key s)) full \<noteq> None" for lk full
    using lease_invD(5) [OF assms, of lk full] by (auto simp: indexed_delete)
  moreover have "al_Approver l = fk_Approver full"
    if "map_of (ls_leases (lease_deleteLocked key s)) full = Some l" for full l
    using that lease_invD(6) [OF assms] by (auto split: if_splits)
  ultimately show ?thesis unfolding lease_inv_def by blast
qed

text \<open>The purge, as a fold over any snapshot of the entries.\<close>

abbreviation purge_step :: "gotime \<Rightarrow> FullKey \<times> ActiveLease \<Rightarrow> lease_store \<Rightarrow> lease_store" where
  "purge_step now \<equiv> \<lambda>(full, l) s. if al_ExpiresAt l < now then lease_deleteLocked full s else s"

lemma purge_fold_inv: "lease_inv s \<Longrightarrow> lease_inv (fold (purge_step now) es s)"
  by (induction es arbitrary: s) (simp_all add: lease_delete_inv split: prod.split)

lemma purge_fold_leases:
  "map_of (ls_leases (fold (purge_step now) es s)) full =
     (if \<exists>l. (full, l) \<in> set es \<and> al_ExpiresAt l < now then None else map_of (ls_leases s) full)"
proof (induction es arbitrary: s)
  case (Cons p es)
  then show ?case by (cases p) auto
qed simp

lemma lease_purge_inv [inv_rules]: "lease_inv s \<Longrightarrow> lease_inv (lease_purgeExpired now s)"
  unfolding lease_purgeExpired_def by (rule purge_fold_inv)

lemma leases_purge [lookup_simps]:
  assumes "lease_inv s"
  shows "map_of (ls_leases (lease_purgeExpired now s)) full =
     (case map_of (ls_leases s) full of
        None \<Rightarrow> None | Some l \<Rightarrow> if al_ExpiresAt l < now then None else Some l)"
proof -
  have "(full, l) \<in> set (ls_leases s) \<longleftrightarrow> map_of (ls_leases s) full = Some l" for l
    using lease_invD(1) [OF assms] by (simp add: map_of_wf_iff)
  then show ?thesis
    by (auto simp: lease_purgeExpired_def purge_fold_leases split: option.split)
qed

section \<open>The lookup through the index\<close>

text \<open>What the loop computes, for any order of the candidates: an active lease with the
  largest expiry, if there is one.\<close>

definition active :: "(FullKey, ActiveLease) gomap \<Rightarrow> gotime \<Rightarrow> FullKey list \<Rightarrow> ActiveLease set" where
  "active leases now ks = {l. \<exists>full \<in> set ks. map_of leases full = Some l \<and> now \<le> al_ExpiresAt l}"

lemma active_Nil [simp]: "active leases now [] = {}"
  by (simp add: active_def)

lemma active_Cons:
  "active leases now (k # ks) =
     (case map_of leases k of None \<Rightarrow> {} | Some l \<Rightarrow> if now \<le> al_ExpiresAt l then {l} else {})
     \<union> active leases now ks"
  by (auto simp: active_def split: option.splits if_splits)

lemma find_best_spec:
  assumes "find_best leases now ks (best, found) = (best', found')"
  shows "found' \<longleftrightarrow> found \<or> active leases now ks \<noteq> {}"
    and "found' \<Longrightarrow> (found \<and> best' = best) \<or> best' \<in> active leases now ks"
    and "found \<Longrightarrow> al_ExpiresAt best \<le> al_ExpiresAt best'"
    and "l \<in> active leases now ks \<Longrightarrow> al_ExpiresAt l \<le> al_ExpiresAt best'"
proof -
  have "(found' \<longleftrightarrow> found \<or> active leases now ks \<noteq> {})
      \<and> (found' \<longrightarrow> (found \<and> best' = best) \<or> best' \<in> active leases now ks)
      \<and> (found \<longrightarrow> al_ExpiresAt best \<le> al_ExpiresAt best')
      \<and> (\<forall>l \<in> active leases now ks. al_ExpiresAt l \<le> al_ExpiresAt best')"
    using assms
  proof (induction ks arbitrary: best found)
    case (Cons k ks)
    show ?case
    proof (cases "map_of leases k")
      case None
      with Cons.prems have "find_best leases now ks (best, found) = (best', found')" by simp
      from Cons.IH [OF this] None show ?thesis by (simp add: active_Cons)
    next
      case (Some l)
      consider (expired) "al_ExpiresAt l < now"
        | (better) "now \<le> al_ExpiresAt l" "\<not> found \<or> al_ExpiresAt best < al_ExpiresAt l"
        | (kept) "now \<le> al_ExpiresAt l" "found" "al_ExpiresAt l \<le> al_ExpiresAt best"
        by linarith
      then show ?thesis
      proof cases
        case expired
        with Some Cons.prems have "find_best leases now ks (best, found) = (best', found')" by simp
        from Cons.IH [OF this] Some expired show ?thesis by (simp add: active_Cons)
      next
        case better
        with Some Cons.prems have "find_best leases now ks (l, True) = (best', found')" by simp
        from Cons.IH [OF this] Some better show ?thesis by (auto simp: active_Cons)
      next
        case kept
        with Some Cons.prems have "find_best leases now ks (best, found) = (best', found')" by simp
        from Cons.IH [OF this] Some kept show ?thesis by (auto simp: active_Cons)
      qed
    qed
  qed simp
  then show "found' \<longleftrightarrow> found \<or> active leases now ks \<noteq> {}"
    and "found' \<Longrightarrow> (found \<and> best' = best) \<or> best' \<in> active leases now ks"
    and "found \<Longrightarrow> al_ExpiresAt best \<le> al_ExpiresAt best'"
    and "l \<in> active leases now ks \<Longrightarrow> al_ExpiresAt l \<le> al_ExpiresAt best'"
    by blast+
qed

text \<open>The specification: the active leases of a lookup key in the plain map of granted
  leases, with no index.\<close>

definition granted_active :: "lease_store \<Rightarrow> LookupKey \<Rightarrow> gotime \<Rightarrow> ActiveLease set" where
  "granted_active s lookup now =
     {l. \<exists>full. map_of (ls_leases s) full = Some l \<and> fk_LookupKey full = lookup \<and> now \<le> al_ExpiresAt l}"

lemma candidates_active:
  assumes "lease_inv s"
  shows "active (ls_leases s) now
     (case map_of (ls_byLookup s) lookup of None \<Rightarrow> [] | Some b \<Rightarrow> map fst b) = granted_active s lookup now"
    (is "active _ _ ?ks = _")
proof -
  have "full \<in> set ?ks \<longleftrightarrow> indexed s lookup full" for full
    by (cases "map_of (ls_byLookup s) lookup") (simp_all add: indexed_def in_keys_iff)
  then have "full \<in> set ?ks \<longleftrightarrow> fk_LookupKey full = lookup \<and> map_of (ls_leases s) full \<noteq> None" for full
    using lease_invD(5) [OF assms] by blast
  then show ?thesis by (auto simp: active_def granted_active_def)
qed

lemma FindActive_spec:
  assumes "lease_inv s" and "lease_FindActive s lookup now = (best, found)"
  shows "found \<longleftrightarrow> granted_active s lookup now \<noteq> {}"
    and "found \<Longrightarrow> best \<in> granted_active s lookup now"
    and "l \<in> granted_active s lookup now \<Longrightarrow> al_ExpiresAt l \<le> al_ExpiresAt best"
proof -
  note f = find_best_spec [OF assms(2) [unfolded lease_FindActive_def Let_def], unfolded candidates_active [OF assms(1)]]
  show "found \<longleftrightarrow> granted_active s lookup now \<noteq> {}" using f(1) by simp
  show "found \<Longrightarrow> best \<in> granted_active s lookup now" using f(2) by simp
  show "l \<in> granted_active s lookup now \<Longrightarrow> al_ExpiresAt l \<le> al_ExpiresAt best" by (rule f(4))
qed

section \<open>The contract the approval store relies on\<close>

text \<open>
  A lease service: what was granted is found until it expires, nothing else is found, and
  a later grant never hides an earlier one that lives longer.
\<close>

locale lease_service =
  fixes put :: "FullKey \<Rightarrow> gotime \<Rightarrow> 's \<Rightarrow> 's"
    and find :: "'s \<Rightarrow> LookupKey \<Rightarrow> gotime \<Rightarrow> ActiveLease \<times> bool"
    and granted :: "'s \<Rightarrow> FullKey \<Rightarrow> gotime option"
    and inv :: "'s \<Rightarrow> bool"
  assumes put_inv: "inv s \<Longrightarrow> inv (put k e s)"
    and granted_put: "inv s \<Longrightarrow> granted (put k e s) i = (if i = k then Some e else granted s i)"
    and find_sound: "inv s \<Longrightarrow> find s lk now = (l, True) \<Longrightarrow>
        \<exists>full. fk_LookupKey full = lk \<and> fk_Approver full = al_Approver l
          \<and> granted s full = Some (al_ExpiresAt l) \<and> now \<le> al_ExpiresAt l"
    and find_complete: "inv s \<Longrightarrow> granted s full = Some e \<Longrightarrow> now \<le> e \<Longrightarrow>
        \<exists>l. find s (fk_LookupKey full) now = (l, True) \<and> e \<le> al_ExpiresAt l"
begin

lemma put_find: "inv s \<Longrightarrow> now \<le> e \<Longrightarrow>
    \<exists>l. find (put k e s) (fk_LookupKey k) now = (l, True) \<and> e \<le> al_ExpiresAt l"
  by (rule find_complete) (auto simp: put_inv granted_put)

lemma not_found_after_expiry:
  assumes "inv s" and "\<And>full e. fk_LookupKey full = lk \<Longrightarrow> granted s full = Some e \<Longrightarrow> e < now"
  shows "\<not> snd (find s lk now)"
proof
  assume "snd (find s lk now)"
  then obtain l where "find s lk now = (l, True)" by (cases "find s lk now") auto
  from find_sound [OF assms(1) this] assms(2) show False by force
qed

lemma run_inv: "inv s \<Longrightarrow> inv (fold (\<lambda>(k, e). put k e) grants s)"
  by (induction grants arbitrary: s) (auto intro: put_inv)

lemma run_granted:
  "inv s \<Longrightarrow> granted (fold (\<lambda>(k, e). put k e) grants s) full = Some e \<Longrightarrow>
     (full, e) \<in> set grants \<or> granted s full = Some e"
proof (induction grants arbitrary: s)
  case (Cons p grants)
  obtain k x where p: "p = (k, x)" by (cases p)
  have "inv (put k x s)" using Cons.prems(1) by (rule put_inv)
  from Cons.IH [OF this] Cons.prems p show ?case
    by (auto simp: granted_put split: if_splits)
qed simp

text \<open>Whatever is found was granted to that very lookup key and has not expired.\<close>

lemma found_was_granted:
  assumes "inv s" and "\<And>k. granted s k = None"
    and "find (fold (\<lambda>(k, e). put k e) grants s) lk now = (l, True)"
  shows "\<exists>k. (k, al_ExpiresAt l) \<in> set grants \<and> fk_LookupKey k = lk \<and> now \<le> al_ExpiresAt l"
proof -
  from find_sound [OF run_inv [OF assms(1)] assms(3)] obtain k
    where k: "fk_LookupKey k = lk" "now \<le> al_ExpiresAt l"
      "granted (fold (\<lambda>(k, e). put k e) grants s) k = Some (al_ExpiresAt l)" by blast
  from run_granted [OF assms(1) k(3)] assms(2) have "(k, al_ExpiresAt l) \<in> set grants" by auto
  with k show ?thesis by blast
qed

end

definition granted :: "lease_store \<Rightarrow> FullKey \<Rightarrow> gotime option" where
  "granted s full = map_option al_ExpiresAt (map_of (ls_leases s) full)"

interpretation leases: lease_service lease_Put lease_FindActive granted lease_inv
proof
  fix s lk now l
  assume inv: "lease_inv s" and f: "lease_FindActive s lk now = (l, True)"
  from FindActive_spec(2) [OF inv f] obtain full
    where "map_of (ls_leases s) full = Some l" "fk_LookupKey full = lk" "now \<le> al_ExpiresAt l"
    by (auto simp: granted_active_def)
  with lease_invD(6) [OF inv] show "\<exists>full. fk_LookupKey full = lk \<and> fk_Approver full = al_Approver l
      \<and> granted s full = Some (al_ExpiresAt l) \<and> now \<le> al_ExpiresAt l"
    by (intro exI [of _ full]) (simp add: granted_def)
next
  fix s full e now
  assume inv: "lease_inv s" and g: "granted s full = Some e" and e: "now \<le> e"
  from g obtain l0 where l0: "map_of (ls_leases s) full = Some l0" "al_ExpiresAt l0 = e"
    by (auto simp: granted_def)
  with e have mem: "l0 \<in> granted_active s (fk_LookupKey full) now" by (auto simp: granted_active_def)
  obtain l found where f: "lease_FindActive s (fk_LookupKey full) now = (l, found)"
    by (cases "lease_FindActive s (fk_LookupKey full) now")
  with FindActive_spec(1,3) [OF inv f] mem l0(2)
  show "\<exists>l. lease_FindActive s (fk_LookupKey full) now = (l, True) \<and> e \<le> al_ExpiresAt l" by auto
qed (auto simp: granted_def intro: inv_rules)

text \<open>Every sequence of grants and purges keeps the invariant.\<close>

datatype lease_op = OpPut FullKey gotime | OpPurge gotime | OpDelete FullKey

fun lease_exec :: "lease_op \<Rightarrow> lease_store \<Rightarrow> lease_store" where
  "lease_exec (OpPut k e) s = lease_Put k e s"
| "lease_exec (OpPurge now) s = lease_purgeExpired now s"
| "lease_exec (OpDelete k) s = lease_deleteLocked k s"

interpretation lease_machine: op_machine lease_exec lease_inv
proof
  show "lease_inv (lease_exec opn s)" if "lease_inv s" for opn s
    using that by (cases opn) (auto intro: inv_rules)
qed

section \<open>Properties\<close>

text \<open>
  (C13) The lease lookup is exact in every run: after any sequence of grants, deletions and
  purges, \<open>FindActive\<close> succeeds exactly when the map of granted leases holds an unexpired
  lease for the very same client, target, source and host keys, and it then returns one
  whose expiry no other such lease exceeds, whatever the order of the index.
\<close>

theorem FindActive_refines:
  assumes "lease_FindActive (fold lease_exec ops lease_NewStore) lookup now = (best, found)"
  shows "(found \<longleftrightarrow> granted_active (fold lease_exec ops lease_NewStore) lookup now \<noteq> {})
    \<and> (found \<longrightarrow> best \<in> granted_active (fold lease_exec ops lease_NewStore) lookup now
      \<and> (\<forall>l \<in> granted_active (fold lease_exec ops lease_NewStore) lookup now. al_ExpiresAt l \<le> al_ExpiresAt best))"
proof -
  have "lease_inv (fold lease_exec ops lease_NewStore)"
    by (rule lease_machine.run_inv) (rule lease_inv_init)
  from FindActive_spec [OF this assms] show ?thesis by blast
qed

definition demo_lookup :: "string \<Rightarrow> LookupKey" where
  "demo_lookup ip = NewLookupKey ''cert'' ''root'' ip ''192.0.2.1'' ''hostfp'' [''dest'']"

definition demo_grants :: "lease_op list" where
  "demo_grants =
     [OpPut (NewFullKey (demo_lookup ''10.0.0.1'') (FormatApproverChatID 7)) 100,
      OpPut (NewFullKey (demo_lookup ''10.0.0.1'') (FormatApproverDeviceID ''d'')) 300,
      OpPurge 200]"

theorem FindActive_refines_witness:
  "\<exists>best. lease_FindActive (fold lease_exec demo_grants lease_NewStore) (demo_lookup ''10.0.0.1'') 250 = (best, True)
     \<and> best \<in> granted_active (fold lease_exec demo_grants lease_NewStore) (demo_lookup ''10.0.0.1'') 250"
proof -
  have r: "lease_FindActive (fold lease_exec demo_grants lease_NewStore) (demo_lookup ''10.0.0.1'') 250
      = (\<lparr>al_Approver = ''device:d'', al_ExpiresAt = 300\<rparr>, True)"
    by code_simp
  from FindActive_refines [OF r] r show ?thesis by blast
qed

text \<open>
  Purging is invisible: the periodic purge at one instant changes neither whether a
  lookup at that instant or later finds a lease nor the expiry that the lookup reports.
\<close>

theorem purge_invisible:
  assumes "lease_inv s" and "now \<le> t"
    and "lease_FindActive s lookup t = (best, found)"
    and "lease_FindActive (lease_purgeExpired now s) lookup t = (best', found')"
  shows "found' = found \<and> (found \<longrightarrow> al_ExpiresAt best' = al_ExpiresAt best)"
proof -
  have "granted_active (lease_purgeExpired now s) lookup t = granted_active s lookup t"
    using assms(2) by (force simp: granted_active_def leases_purge [OF assms(1)] split: option.splits if_splits)
  note a = FindActive_spec [OF assms(1,3)]
    and b = FindActive_spec [OF lease_purge_inv [OF assms(1)] assms(4), unfolded this]
  have "found' = found" using a(1) b(1) by blast
  moreover have "al_ExpiresAt best' = al_ExpiresAt best" if found
    using that a(2,3) b(2,3) \<open>found' = found\<close> by (meson order.antisym)
  ultimately show ?thesis by blast
qed

theorem purge_invisible_witness:
  "snd (lease_FindActive (lease_purgeExpired 200 (fold lease_exec demo_grants lease_NewStore)) (demo_lookup ''10.0.0.1'') 250)
   = snd (lease_FindActive (fold lease_exec demo_grants lease_NewStore) (demo_lookup ''10.0.0.1'') 250)"
proof -
  have inv: "lease_inv (fold lease_exec demo_grants lease_NewStore)"
    by (rule lease_machine.run_inv) (rule lease_inv_init)
  have "(200 :: gotime) \<le> 250" by simp
  from purge_invisible [OF inv this] show ?thesis by (metis prod.collapse)
qed

end
