(* ===== verification/Go_Crypto.thy ===== *)
theory Go_Crypto
  imports Go_Text "HOL-Library.Word"
begin

text \<open>
  The hash functions of Go's standard library that the program calls: \<open>crypto/sha256\<close> and
  \<open>crypto/hmac\<close> over it, on 32-bit words, and \<open>hmac.Equal\<close>. The signature schemes
  (\<open>golang.org/x/crypto/ssh\<close>, \<open>crypto/ed25519\<close>) are not defined here: the components take
  them as arguments.
\<close>

section \<open>SHA-256\<close>

type_synonym word32 = "32 word"

definition sha_K :: "word32 list" where
  "sha_K = [
   1116352408, 1899447441, 3049323471, 3921009573, 961987163, 1508970993,
   2453635748, 2870763221, 3624381080, 310598401, 607225278, 1426881987,
   1925078388, 2162078206, 2614888103, 3248222580, 3835390401, 4022224774,
   264347078, 604807628, 770255983, 1249150122, 1555081692, 1996064986,
   2554220882, 2821834349, 2952996808, 3210313671, 3336571891, 3584528711,
   113926993, 338241895, 666307205, 773529912, 1294757372, 1396182291,
   1695183700, 1986661051, 2177026350, 2456956037, 2730485921, 2820302411,
   3259730800, 3345764771, 3516065817, 3600352804, 4094571909, 275423344,
   430227734, 506948616, 659060556, 883997877, 958139571, 1322822218,
   1537002063, 1747873779, 1955562222, 2024104815, 2227730452, 2361852424,
   2428436474, 2756734187, 3204031479, 3329325298]"

definition sha_H0 :: "word32 list" where
  "sha_H0 = [1779033703, 3144134277, 1013904242, 2773480762,
   1359893119, 2600822924, 528734635, 1541459225]"

text \<open>
  The round constants are the first 32 bits of the fractional parts of the cube roots of the
  first 64 primes, the initial values those of the square roots of the first eight: with the
  integer part in front, the constant is the root rounded down at 32 binary places.
\<close>

definition small_primes :: "int list" where
  "small_primes = [
   2, 3, 5, 7, 11, 13, 17, 19, 23, 29, 31, 37, 41, 43, 47, 53,
   59, 61, 67, 71, 73, 79, 83, 89, 97, 101, 103, 107, 109, 113, 127, 131,
   137, 139, 149, 151, 157, 163, 167, 173, 179, 181, 191, 193, 197, 199, 211, 223,
   227, 229, 233, 239, 241, 251, 257, 263, 269, 271, 277, 281, 283, 293, 307, 311]"

definition is_root :: "nat \<Rightarrow> int \<Rightarrow> int \<Rightarrow> bool" where
  "is_root n p x \<longleftrightarrow> list_ex (\<lambda>c. (c * 2 ^ 32 + x) ^ n \<le> p * 2 ^ (32 * n) \<and> p * 2 ^ (32 * n) < (c * 2 ^ 32 + x + 1) ^ n)
     [1, 2, 3, 4, 5, 6]"

lemma sha_constants:
  "list_all (\<lambda>(p, k). is_root 3 p (uint k)) (zip small_primes sha_K)"
  "list_all (\<lambda>(p, h). is_root 2 p (uint h)) (zip small_primes sha_H0)"
  by code_simp+

unbundle bit_operations_syntax

definition sha_rotr :: "nat \<Rightarrow> word32 \<Rightarrow> word32" where
  "sha_rotr n x = drop_bit n x OR push_bit (32 - n) x"

definition sha_sigma :: "nat \<Rightarrow> nat \<Rightarrow> nat \<Rightarrow> word32 \<Rightarrow> word32" where
  "sha_sigma a b c x = sha_rotr a x XOR sha_rotr b x XOR drop_bit c x"

definition sha_Sigma :: "nat \<Rightarrow> nat \<Rightarrow> nat \<Rightarrow> word32 \<Rightarrow> word32" where
  "sha_Sigma a b c x = sha_rotr a x XOR sha_rotr b x XOR sha_rotr c x"

text \<open>The message schedule, newest word first, and one round on the eight registers.\<close>

definition sha_next :: "word32 list \<Rightarrow> word32" where
  "sha_next ws = sha_sigma 17 19 10 (ws ! 1) + ws ! 6 + sha_sigma 7 18 3 (ws ! 14) + ws ! 15"

primrec sha_schedule :: "nat \<Rightarrow> word32 list \<Rightarrow> word32 list" where
  "sha_schedule 0 ws = ws"
| "sha_schedule (Suc n) ws = sha_schedule n (sha_next ws # ws)"

definition sha_round :: "word32 \<times> word32 \<Rightarrow> word32 list \<Rightarrow> word32 list" where
  "sha_round kw hs =
     (case (kw, hs) of
        ((k, w), [a, b, c, d, e, f, g, h]) \<Rightarrow>
          (let t1 = h + sha_Sigma 6 11 25 e + ((e AND f) XOR (NOT e AND g)) + k + w;
               t2 = sha_Sigma 2 13 22 a + ((a AND b) XOR (a AND c) XOR (b AND c))
           in [t1 + t2, a, b, c, d + t1, e, f, g])
      | _ \<Rightarrow> hs)"

definition sha_block :: "word32 list \<Rightarrow> word32 list \<Rightarrow> word32 list" where
  "sha_block block hs = map2 (+) hs (fold sha_round (zip sha_K (rev (sha_schedule 48 (rev block)))) hs)"

text \<open>Bytes to big-endian words and back, padding, and the digest.\<close>

fun be_words :: "bytes \<Rightarrow> word32 list" where
  "be_words (a # b # c # d # bs) =
     word_of_int (((of_char a * 256 + of_char b) * 256 + of_char c) * 256 + of_char d) # be_words bs"
| "be_words bs = []"

primrec be_bytes :: "nat \<Rightarrow> int \<Rightarrow> bytes" where
  "be_bytes 0 x = []"
| "be_bytes (Suc n) x = be_bytes n (x div 256) @ [char_of (x mod 256)]"

definition sha_pad :: "bytes \<Rightarrow> bytes" where
  "sha_pad m = m @ [char_of (128 :: int)] @ replicate ((119 - length m mod 64) mod 64) (char_of (0 :: int))
     @ be_bytes 8 (8 * int (length m) mod 2 ^ 64)"

fun sha_blocks :: "nat \<Rightarrow> word32 list \<Rightarrow> word32 list \<Rightarrow> word32 list" where
  "sha_blocks 0 ws hs = hs"
| "sha_blocks (Suc n) ws hs = sha_blocks n (drop 16 ws) (sha_block (take 16 ws) hs)"

definition sha256_Sum256 :: "bytes \<Rightarrow> bytes" where
  "sha256_Sum256 m =
     (let p = sha_pad m
      in concat (map (\<lambda>w. be_bytes 4 (uint w)) (sha_blocks (length p div 64) (be_words p) sha_H0)))"

text \<open>\<open>hmac.New(sha256.New, key)\<close>, written and summed once, and \<open>hmac.Equal\<close>.\<close>

definition xor_byte :: "int \<Rightarrow> char \<Rightarrow> char" where
  "xor_byte n c = char_of (n XOR of_char c)"

definition hmac_Sum :: "bytes \<Rightarrow> bytes \<Rightarrow> bytes" where
  "hmac_Sum key m =
     (let k0 = (if 64 < length key then sha256_Sum256 key else key);
          k = k0 @ replicate (64 - length k0) (char_of (0 :: int))
      in sha256_Sum256 (map (xor_byte 0x5c) k @ sha256_Sum256 (map (xor_byte 0x36) k @ m)))"

definition hmac_Equal :: "bytes \<Rightarrow> bytes \<Rightarrow> bool" where
  "hmac_Equal a b \<longleftrightarrow> a = b"

section \<open>Lengths\<close>

lemma length_be_bytes [simp]: "length (be_bytes n x) = n"
  by (induction n arbitrary: x) auto

lemma sha_round_length [simp]: "length (sha_round kw hs) = length hs"
  by (auto simp: sha_round_def Let_def split: prod.split list.split)

lemma sha_rounds_length [simp]: "length (fold sha_round kws hs) = length hs"
  by (induction kws arbitrary: hs) auto

lemma sha_block_length [simp]: "length (sha_block b hs) = length hs"
  by (simp add: sha_block_def)

lemma sha_blocks_length [simp]: "length (sha_blocks n ws hs) = length hs"
  by (induction n ws hs rule: sha_blocks.induct) auto

lemma concat_be_bytes_length: "length (concat (map (\<lambda>w. be_bytes 4 (uint w)) ws)) = 4 * length (ws :: word32 list)"
  by (induction ws) auto

lemma sha256_length [simp]: "length (sha256_Sum256 m) = 32"
  unfolding sha256_Sum256_def Let_def concat_be_bytes_length by (simp add: sha_H0_def)

lemma hmac_length [simp]: "length (hmac_Sum k m) = 32"
  by (simp add: hmac_Sum_def Let_def)

end
