(* ===== verification/Keystore.thy ===== *)
theory Keystore
  imports Go_Crypto
begin

text \<open>
  Package \<open>keystore\<close>, apart from the queue of pending keys: fingerprints
  (\<open>fingerprint.go\<close>), the pool of host signers (\<open>pool.go\<close>), the keystore with its unseal
  lock-out (\<open>keystore.go\<close>) and the choice of a host key (\<open>resolve.go\<close>).

  The package \<open>golang.org/x/crypto/ssh\<close> is a parameter, the record \<open>ssh_lib\<close> of the
  functions the program calls. A public key is what the program reads of it, its type
  and its wire form; a signer is its public key and its private key bytes.
\<close>

section \<open>The SSH library as a parameter\<close>

record PublicKey =
  pk_Type :: string
  pk_Marshal :: bytes

record Signer =
  sg_PublicKey :: PublicKey
  sg_private :: bytes

record Signature =
  sig_Format :: string
  sig_Blob :: bytes

text \<open>The dynamic type of the value that \<open>ParseRawPrivateKeyWithPassphrase\<close> returns.\<close>

datatype raw_key =
    RawEd25519 bytes
  | RawEd25519Ptr "bytes option"
  | RawOther string

record Certificate =
  ct_Key :: PublicKey
  ct_Serial :: int
  ct_UserCert :: bool
  ct_KeyId :: string
  ct_ValidPrincipals :: "string list"
  ct_ValidAfter :: int
  ct_ValidBefore :: int
  ct_CriticalOptions :: "(string, string) gomap"
  ct_SignatureKey :: "PublicKey option"
  ct_Signature :: "Signature option"

record ssh_lib =
  ssh_ParseRawPrivateKeyWithPassphrase :: "bytes \<Rightarrow> bytes \<Rightarrow> raw_key result"
  ssh_NewSignerFromKey :: "bytes \<Rightarrow> Signer result"
  ssh_Sign :: "Signer \<Rightarrow> bytes \<Rightarrow> Signature result"
  ssh_Verify :: "PublicKey \<Rightarrow> bytes \<Rightarrow> Signature \<Rightarrow> go_error option"
  ssh_ParsePublicKey :: "bytes \<Rightarrow> PublicKey result"
  ssh_ParseAuthorizedKey :: "bytes \<Rightarrow> PublicKey result"
  ssh_MarshalAuthorizedKey :: "PublicKey \<Rightarrow> bytes"
  ssh_SignCert :: "Signer \<Rightarrow> Certificate \<Rightarrow> Certificate result"
  ssh_MarshalCertificate :: "Certificate \<Rightarrow> bytes"

section \<open>Fingerprints\<close>

definition Fingerprint :: "PublicKey \<Rightarrow> string" where
  "Fingerprint pub = RawStdEncoding_EncodeToString (sha256_Sum256 (pk_Marshal pub))"

definition NormalizeFingerprintInput :: "string \<Rightarrow> string" where
  "NormalizeFingerprintInput s = TrimRight (TrimPrefix (TrimSpace s) ''SHA256:'') ''=''"

definition fingerprintDigest :: "bytes \<Rightarrow> string" where
  "fingerprintDigest raw = RawStdEncoding_EncodeToString raw"

definition decodeFingerprintBase64 :: "string \<Rightarrow> bytes option" where
  "decodeFingerprintBase64 s = RawStdEncoding_DecodeString s"

definition ParseFingerprintHint :: "string \<Rightarrow> string result" where
  "ParseFingerprintHint s0 =
     (let s = NormalizeFingerprintInput s0;
          from_base64 =
            (case decodeFingerprintBase64 s of
               None \<Rightarrow> Inl (Errorf ''invalid fingerprint'')
             | Some raw \<Rightarrow> if length raw \<noteq> 32 then Inl (Errorf ''invalid fingerprint'')
                           else Inr (fingerprintDigest raw))
      in if s = [] then Inl (Errorf ''empty fingerprint'')
         else if length s = 64
         then (case hex_DecodeString s of
                 Some raw \<Rightarrow> if length raw = 32 then Inr (fingerprintDigest raw) else from_base64
               | None \<Rightarrow> from_base64)
         else from_base64)"

definition ResolveHostKeyFingerprint :: "ssh_lib \<Rightarrow> string \<Rightarrow> string \<Rightarrow> string result" where
  "ResolveHostKeyFingerprint lib hostPubB64 fpHint0 =
     (let fpHint = NormalizeFingerprintInput fpHint0
      in if hostPubB64 \<noteq> []
         then (case StdEncoding_DecodeString hostPubB64 of
                 None \<Rightarrow> Inl (Errorf ''decode host_public_key: invalid base64'')
               | Some raw \<Rightarrow>
                   (case ssh_ParsePublicKey lib raw of
                      Inl _ \<Rightarrow> Inl (Errorf ''parse host_public_key: invalid format'')
                    | Inr pub \<Rightarrow>
                        if fpHint \<noteq> [] \<and> fpHint \<noteq> Fingerprint pub
                        then Inl (Errorf ''host_key_fingerprint does not match host_public_key'')
                        else Inr (Fingerprint pub)))
         else if fpHint \<noteq> [] then ParseFingerprintHint fpHint
         else Inl ErrAmbiguousSigner)"

section \<open>The pool of host signers\<close>

record SignerInfo =
  si_Fingerprint :: string
  si_PublicKey :: string
  si_Comment :: string

record loadedSigner =
  ld_signer :: Signer
  ld_comment :: string

record LocalKeyPool =
  kp_signers :: "(string, loadedSigner) gomap"

definition NewLocalKeyPool :: LocalKeyPool where
  "NewLocalKeyPool = \<lparr>kp_signers = []\<rparr>"

definition pool_Add :: "Signer option \<Rightarrow> string \<Rightarrow> LocalKeyPool \<Rightarrow> LocalKeyPool \<times> string result" where
  "pool_Add signer comment p =
     (case signer of
        None \<Rightarrow> (p, Inl (Errorf ''nil signer''))
      | Some sg \<Rightarrow>
          (let fp = Fingerprint (sg_PublicKey sg)
           in (p\<lparr>kp_signers := map_put fp \<lparr>ld_signer = sg, ld_comment = comment\<rparr> (kp_signers p)\<rparr>, Inr fp)))"

definition pool_Remove :: "string \<Rightarrow> LocalKeyPool \<Rightarrow> LocalKeyPool \<times> unit result" where
  "pool_Remove fingerprint0 p =
     (let fingerprint = NormalizeFingerprintInput fingerprint0
      in case map_of (kp_signers p) fingerprint of
           None \<Rightarrow> (p, Inl ErrNoSuchSigner)
         | Some _ \<Rightarrow> (p\<lparr>kp_signers := map_del fingerprint (kp_signers p)\<rparr>, Inr ()))"

definition pool_Get :: "string \<Rightarrow> LocalKeyPool \<Rightarrow> Signer result" where
  "pool_Get fingerprint0 p =
     (case map_of (kp_signers p) (NormalizeFingerprintInput fingerprint0) of
        None \<Rightarrow> if length (kp_signers p) = 0 then Inl ErrPoolEmpty else Inl ErrNoSuchSigner
      | Some entry \<Rightarrow> Inr (ld_signer entry))"

definition pool_List :: "ssh_lib \<Rightarrow> LocalKeyPool \<Rightarrow> SignerInfo list" where
  "pool_List lib p =
     map (\<lambda>(fp, entry). \<lparr>si_Fingerprint = fp,
            si_PublicKey = ssh_MarshalAuthorizedKey lib (sg_PublicKey (ld_signer entry)),
            si_Comment = ld_comment entry\<rparr>) (kp_signers p)"

definition pool_Available :: "LocalKeyPool \<Rightarrow> bool" where
  "pool_Available p \<longleftrightarrow> 0 < length (kp_signers p)"

definition pool_Len :: "LocalKeyPool \<Rightarrow> nat" where
  "pool_Len p = length (kp_signers p)"

section \<open>The keystore\<close>

datatype Mode = ModeLocalCA | ModeLocalKey

record Keystore =
  ks_mode :: Mode
  ks_caSigner :: "Signer option"
  ks_pool :: "LocalKeyPool option"
  ks_unsealFails :: int
  ks_unsealLockedUntil :: gotime

definition maxUnsealAttempts :: int where
  "maxUnsealAttempts = 5"

definition unsealCooldown :: duration where
  "unsealCooldown = 15 * minute"

definition NewWithMode :: "Mode \<Rightarrow> Keystore" where
  "NewWithMode mode =
     \<lparr>ks_mode = mode, ks_caSigner = None,
      ks_pool = (if mode = ModeLocalKey then Some NewLocalKeyPool else None),
      ks_unsealFails = 0, ks_unsealLockedUntil = time_zero\<rparr>"

definition ks_New :: Keystore where
  "ks_New = NewWithMode ModeLocalCA"

definition ks_Available :: "Keystore \<Rightarrow> bool" where
  "ks_Available k =
     (case ks_mode k of
        ModeLocalKey \<Rightarrow> (case ks_pool k of None \<Rightarrow> False | Some p \<Rightarrow> pool_Available p)
      | ModeLocalCA \<Rightarrow> ks_caSigner k \<noteq> None)"

definition SSHSigner :: "Keystore \<Rightarrow> Signer result" where
  "SSHSigner k =
     (if ks_mode k = ModeLocalKey then Inl (Wrapf ''SSHSigner: '' ErrSealed '' (use SignerForFingerprint)'')
      else case ks_caSigner k of None \<Rightarrow> Inl ErrSealed | Some sg \<Rightarrow> Inr sg)"

definition SignerForFingerprint :: "string \<Rightarrow> Keystore \<Rightarrow> Signer result" where
  "SignerForFingerprint fingerprint k =
     (case (ks_mode k, ks_pool k) of
        (ModeLocalKey, Some p) \<Rightarrow>
          (case pool_Get fingerprint p of
             Inl err \<Rightarrow> if errors_Is err ErrPoolEmpty \<or> errors_Is err ErrNoSuchSigner
                         then Inl ErrSealed else Inl err
           | Inr sg \<Rightarrow> Inr sg)
      | _ \<Rightarrow> Inl (Wrapf ''SignerForFingerprint: '' ErrSealed ''''))"

definition PublicKeyForFingerprint :: "string \<Rightarrow> Keystore \<Rightarrow> PublicKey result" where
  "PublicKeyForFingerprint fingerprint k =
     (case SignerForFingerprint fingerprint k of Inl err \<Rightarrow> Inl err | Inr sg \<Rightarrow> Inr (sg_PublicKey sg))"

definition ListSigners :: "ssh_lib \<Rightarrow> Keystore \<Rightarrow> SignerInfo list" where
  "ListSigners lib k =
     (case ks_mode k of
        ModeLocalKey \<Rightarrow> (case ks_pool k of None \<Rightarrow> [] | Some p \<Rightarrow> pool_List lib p)
      | ModeLocalCA \<Rightarrow>
          (case ks_caSigner k of
             None \<Rightarrow> []
           | Some sg \<Rightarrow> [\<lparr>si_Fingerprint = Fingerprint (sg_PublicKey sg),
                          si_PublicKey = ssh_MarshalAuthorizedKey lib (sg_PublicKey sg),
                          si_Comment = ''ca''\<rparr>]))"

definition SoleFingerprint :: "ssh_lib \<Rightarrow> Keystore \<Rightarrow> string result" where
  "SoleFingerprint lib k =
     (case ListSigners lib k of [info] \<Rightarrow> Inr (si_Fingerprint info) | _ \<Rightarrow> Inl ErrAmbiguousSigner)"

text \<open>
  Locking memory is the system call \<open>unix.Mlock\<close>, a parameter that may answer differently at
  each call of a load: its first argument numbers the calls. \<open>LoadPEMBytes\<close> also returns
  what it leaves in the caller's buffer, because it overwrites it with zeros.
\<close>

type_synonym mlock = "nat \<Rightarrow> bytes \<Rightarrow> go_error option"

definition mlockBytes :: "mlock \<Rightarrow> nat \<Rightarrow> bytes \<Rightarrow> go_error option" where
  "mlockBytes mlock n b =
     (if length b = 0 then None
      else case mlock n b of None \<Rightarrow> None | Some err \<Rightarrow> Some (Wrapf ''mlock sensitive memory: '' err ''''))"

definition zeroBytes :: "bytes \<Rightarrow> bytes" where
  "zeroBytes b = replicate (length b) (CHR 0x00)"

definition load_signer :: "ssh_lib \<Rightarrow> bytes \<Rightarrow> Signer result" where
  "load_signer lib key =
     (case ssh_NewSignerFromKey lib key of
        Inl err \<Rightarrow> Inl (Wrapf ''load signer: '' err '''') | Inr sg \<Rightarrow> Inr sg)"

definition PrivateKeySize :: nat where
  "PrivateKeySize = 64"

text \<open>\<open>copy(owned, *key)\<close> into a fresh slice of \<open>PrivateKeySize\<close> bytes.\<close>

definition copy_key :: "bytes \<Rightarrow> bytes" where
  "copy_key key = take PrivateKeySize key @ replicate (PrivateKeySize - length key) (CHR 0x00)"

definition parseEncryptedPEM :: "ssh_lib \<Rightarrow> mlock \<Rightarrow> bytes \<Rightarrow> bytes \<Rightarrow> Signer result" where
  "parseEncryptedPEM lib mlock pemBytes pass =
     (case ssh_ParseRawPrivateKeyWithPassphrase lib pemBytes pass of
        Inl err \<Rightarrow> Inl (Wrapf ''decrypt private key: '' err '''')
      | Inr (RawEd25519 key) \<Rightarrow>
          (case mlockBytes mlock 2 key of Some err \<Rightarrow> Inl err | None \<Rightarrow> load_signer lib key)
      | Inr (RawEd25519Ptr None) \<Rightarrow> Inl (Errorf ''nil ed25519 private key'')
      | Inr (RawEd25519Ptr (Some key)) \<Rightarrow>
          (case mlockBytes mlock 2 key of
             Some err \<Rightarrow> Inl err
           | None \<Rightarrow>
               (case mlockBytes mlock 3 (copy_key key) of
                  Some err \<Rightarrow> Inl err
                | None \<Rightarrow> load_signer lib (copy_key key)))
      | Inr (RawOther ty) \<Rightarrow> Inl (Errorf (''unsupported private key type '' @ ty @ '' (ed25519 only)'')))"

definition checkUnsealLock :: "gotime \<Rightarrow> Keystore \<Rightarrow> Keystore \<times> go_error option" where
  "checkUnsealLock now k =
     (if \<not> time_IsZero (ks_unsealLockedUntil k)
      then if now < ks_unsealLockedUntil k then (k, Some ErrUnsealLocked)
           else (k\<lparr>ks_unsealLockedUntil := time_zero, ks_unsealFails := 0\<rparr>, None)
      else (k, None))"

definition recordUnsealFailure :: "gotime \<Rightarrow> Keystore \<Rightarrow> Keystore" where
  "recordUnsealFailure now k =
     (let k' = k\<lparr>ks_unsealFails := wrap64 (ks_unsealFails k + 1)\<rparr>
      in if maxUnsealAttempts \<le> ks_unsealFails k'
         then k'\<lparr>ks_unsealLockedUntil := now + unsealCooldown, ks_unsealFails := 0\<rparr>
         else k')"

text \<open>The switch at the end of \<open>LoadPEMBytes\<close>, which stores the signer.\<close>

definition store_signer :: "Signer \<Rightarrow> string \<Rightarrow> Keystore \<Rightarrow> Keystore \<times> string result" where
  "store_signer signer comment k =
     (let fp = Fingerprint (sg_PublicKey signer)
      in case ks_mode k of
           ModeLocalKey \<Rightarrow>
             (let p = (case ks_pool k of None \<Rightarrow> NewLocalKeyPool | Some p \<Rightarrow> p)
              in case pool_Add (Some signer) comment p of
                   (p', Inl err) \<Rightarrow> (k\<lparr>ks_pool := Some p'\<rparr>, Inl err)
                 | (p', Inr _) \<Rightarrow> (k\<lparr>ks_pool := Some p', ks_unsealFails := 0\<rparr>, Inr fp))
         | ModeLocalCA \<Rightarrow> (k\<lparr>ks_caSigner := Some signer, ks_unsealFails := 0\<rparr>, Inr fp))"

definition LoadPEMBytes ::
  "ssh_lib \<Rightarrow> mlock \<Rightarrow> gotime \<Rightarrow> gotime \<Rightarrow> bytes \<Rightarrow> string \<Rightarrow> string \<Rightarrow> Keystore
   \<Rightarrow> Keystore \<times> bytes \<times> string result" where
  "LoadPEMBytes lib mlock now now' pemBytes passphrase comment k0 =
     (case checkUnsealLock now k0 of
        (k, Some err) \<Rightarrow> (k, pemBytes, Inl err)
      | (k, None) \<Rightarrow>
          (case mlockBytes mlock 0 pemBytes of
             Some err \<Rightarrow> (k, zeroBytes pemBytes, Inl err)
           | None \<Rightarrow>
               (case mlockBytes mlock 1 passphrase of
                  Some err \<Rightarrow> (k, zeroBytes pemBytes, Inl err)
                | None \<Rightarrow>
                    (case parseEncryptedPEM lib mlock pemBytes passphrase of
                       Inl err \<Rightarrow> (recordUnsealFailure now' k, zeroBytes pemBytes, Inl err)
                     | Inr signer \<Rightarrow>
                         (let (k', res) = store_signer signer comment k
                          in (k', zeroBytes pemBytes, res))))))"

definition LoadPEMFile ::
  "ssh_lib \<Rightarrow> mlock \<Rightarrow> (string \<Rightarrow> bytes result) \<Rightarrow> gotime \<Rightarrow> gotime \<Rightarrow> string \<Rightarrow> string \<Rightarrow> string \<Rightarrow> Keystore
   \<Rightarrow> Keystore \<times> string result" where
  "LoadPEMFile lib mlock ReadFile now now' path passphrase comment k =
     (case ReadFile path of
        Inl err \<Rightarrow> (k, Inl (Wrapf ''read key file: '' err ''''))
      | Inr pemBytes \<Rightarrow>
          (let (k', _, res) = LoadPEMBytes lib mlock now now' pemBytes passphrase comment k in (k', res)))"

definition Unseal ::
  "ssh_lib \<Rightarrow> mlock \<Rightarrow> (string \<Rightarrow> bytes result) \<Rightarrow> gotime \<Rightarrow> gotime \<Rightarrow> string \<Rightarrow> string \<Rightarrow> Keystore
   \<Rightarrow> Keystore \<times> unit result" where
  "Unseal lib mlock ReadFile now now' path passphrase k =
     (case LoadPEMFile lib mlock ReadFile now now' path passphrase '''' k of
        (k', Inl err) \<Rightarrow> (k', Inl err) | (k', Inr _) \<Rightarrow> (k', Inr ()))"

definition RemoveSigner :: "string \<Rightarrow> Keystore \<Rightarrow> Keystore \<times> unit result" where
  "RemoveSigner fingerprint0 k =
     (let fingerprint = NormalizeFingerprintInput fingerprint0
      in case ks_mode k of
           ModeLocalKey \<Rightarrow>
             (case ks_pool k of
                None \<Rightarrow> (k, Inl ErrNoSuchSigner)
              | Some p \<Rightarrow> (let (p', res) = pool_Remove fingerprint p in (k\<lparr>ks_pool := Some p'\<rparr>, res)))
         | ModeLocalCA \<Rightarrow>
             (case ks_caSigner k of
                None \<Rightarrow> (k, Inl ErrNoSuchSigner)
              | Some sg \<Rightarrow>
                  if fingerprint \<noteq> [] \<and> Fingerprint (sg_PublicKey sg) \<noteq> fingerprint
                  then (k, Inl ErrNoSuchSigner)
                  else (k\<lparr>ks_caSigner := None\<rparr>, Inr ())))"

section \<open>Fingerprints in canonical form\<close>

text \<open>A fingerprint the program computes is a fixed point of the normalization, so lookups
  under it find what was stored under it.\<close>

lemma raw_encode_chars: "c \<in> set (RawStdEncoding_EncodeToString bs) \<Longrightarrow> c \<in> set b64_chars"
  unfolding RawStdEncoding_EncodeToString_def by (rule b64_encode_raw_chars)

lemma strip_one_none: "\<forall>p \<in> set ps. p = [] \<or> hd p \<notin> set s \<Longrightarrow> strip_one ps s = None"
proof (induction ps)
  case (Cons p ps)
  then have "p = [] \<or> \<not> HasPrefix s p" by (cases p) (auto simp: HasPrefix_iff)
  with Cons show ?case by auto
qed simp

lemma b64_no_space:
  "\<forall>p \<in> set space_encodings. hd p \<notin> set b64_chars"
  "\<forall>p \<in> set (map rev space_encodings). hd p \<notin> set b64_chars"
  by code_simp+

lemma b64_no_marks: "CHR '':'' \<notin> set b64_chars" "CHR ''='' \<notin> set b64_chars"
  by code_simp+

lemma TrimSpace_b64: "set s \<subseteq> set b64_chars \<Longrightarrow> TrimSpace s = s"
  using b64_no_space by (intro TrimSpace_idle strip_one_none) auto

lemma TrimPrefix_b64: "set s \<subseteq> set b64_chars \<Longrightarrow> TrimPrefix s ''SHA256:'' = s"
  using b64_no_marks(1) by (auto simp: TrimPrefix_def HasPrefix_iff)

lemma TrimRight_b64: "set s \<subseteq> set b64_chars \<Longrightarrow> TrimRight s ''='' = s"
  using b64_no_marks(2) by (intro TrimRight_idle) (auto dest: last_in_set)

lemma Normalize_b64: "set s \<subseteq> set b64_chars \<Longrightarrow> NormalizeFingerprintInput s = s"
  by (simp add: NormalizeFingerprintInput_def TrimSpace_b64 TrimPrefix_b64 TrimRight_b64)

lemma raw_encode_b64 [simp, intro]: "set (RawStdEncoding_EncodeToString bs) \<subseteq> set b64_chars"
  using raw_encode_chars by blast

lemma raw_encode_length: "length (RawStdEncoding_EncodeToString bs) = (4 * length bs + 2) div 3"
  by (simp add: RawStdEncoding_EncodeToString_def b64_encode_raw_length)

lemma Normalize_digest [simp]: "NormalizeFingerprintInput (fingerprintDigest raw) = fingerprintDigest raw"
  unfolding fingerprintDigest_def by (rule Normalize_b64) simp

lemma Fingerprint_digest: "Fingerprint pub = fingerprintDigest (sha256_Sum256 (pk_Marshal pub))"
  by (simp add: Fingerprint_def fingerprintDigest_def)

lemma Normalize_Fingerprint [simp]: "NormalizeFingerprintInput (Fingerprint pub) = Fingerprint pub"
  by (simp add: Fingerprint_digest)

lemma Fingerprint_length [simp]: "length (Fingerprint pub) = 43"
  by (simp add: Fingerprint_def raw_encode_length)

lemma Fingerprint_nonempty [simp]: "Fingerprint pub \<noteq> []"
  using Fingerprint_length [of pub] by fastforce

text \<open>The printed forms of one digest: bare, with the OpenSSH prefix and padding, and hex.\<close>

lemma TrimSpace_prefixed:
  assumes "set s \<subseteq> set b64_chars"
  shows "TrimSpace (''SHA256:'' @ s @ replicate n (CHR ''='')) = ''SHA256:'' @ s @ replicate n (CHR ''='')"
proof -
  let ?t = "''SHA256:'' @ s @ replicate n (CHR ''='')"
  define C where "C = set (''SHA256:='' @ b64_chars)"
  have t: "set ?t \<subseteq> C" using assms by (auto simp: C_def)
  have "\<forall>p \<in> set space_encodings. hd p \<notin> C" "\<forall>p \<in> set (map rev space_encodings). hd p \<notin> C"
    unfolding C_def by code_simp+
  with t have "\<forall>p \<in> set space_encodings. hd p \<notin> set ?t"
    "\<forall>p \<in> set (map rev space_encodings). hd p \<notin> set (rev ?t)"
    unfolding set_rev by blast+
  then show ?thesis by (intro TrimSpace_idle strip_one_none) blast+
qed

lemma TrimRight_padding: "TrimRight (s @ replicate n c) [c] = TrimRight s [c]"
proof -
  have "dropWhile (\<lambda>x. x = c) (replicate n c @ rev s) = dropWhile (\<lambda>x. x = c) (rev s)"
    by (induction n) auto
  then show ?thesis by (simp add: TrimRight_def)
qed

lemma Normalize_prefixed:
  assumes "set s \<subseteq> set b64_chars"
  shows "NormalizeFingerprintInput (''SHA256:'' @ s @ replicate n (CHR ''='')) = s"
  unfolding NormalizeFingerprintInput_def TrimSpace_prefixed [OF assms] TrimPrefix_append TrimRight_padding
  by (rule TrimRight_b64 [OF assms])

lemma hex_encode_b64: "set (hex_EncodeToString bs) \<subseteq> set b64_chars"
proof -
  have "\<forall>i \<in> set [0..<16]. hex_chars ! i \<in> set b64_chars" by code_simp
  then have "i < 16 \<Longrightarrow> hex_chars ! i \<in> set b64_chars" for i by simp
  then show ?thesis by (induction bs) (auto simp: Let_def less_mult_imp_div_less)
qed

lemma ParseFingerprintHint_canonical:
  assumes "ParseFingerprintHint s = Inr fp"
  obtains raw where "length raw = 32" and "fp = fingerprintDigest raw"
  using assms by (auto simp: ParseFingerprintHint_def Let_def split: if_splits option.splits)

lemma ParseFingerprintHint_digest:
  assumes "length raw = 32"
  shows "ParseFingerprintHint (fingerprintDigest raw) = Inr (fingerprintDigest raw)"
    and "ParseFingerprintHint (''SHA256:'' @ fingerprintDigest raw @ replicate n (CHR ''='')) = Inr (fingerprintDigest raw)"
    and "ParseFingerprintHint (hex_EncodeToString raw) = Inr (fingerprintDigest raw)"
proof -
  have len: "length (fingerprintDigest raw) = 43"
    using assms by (simp add: fingerprintDigest_def raw_encode_length)
  have dec: "decodeFingerprintBase64 (fingerprintDigest raw) = Some raw"
    by (simp add: decodeFingerprintBase64_def fingerprintDigest_def codec_simps)
  have ne: "fingerprintDigest raw \<noteq> []" using len by auto
  show "ParseFingerprintHint (fingerprintDigest raw) = Inr (fingerprintDigest raw)"
    using len dec ne assms by (simp add: ParseFingerprintHint_def Let_def)
  have "set (fingerprintDigest raw) \<subseteq> set b64_chars" by (simp add: fingerprintDigest_def)
  note n = Normalize_prefixed [OF this, of n]
  show "ParseFingerprintHint (''SHA256:'' @ fingerprintDigest raw @ replicate n (CHR ''='')) = Inr (fingerprintDigest raw)"
    unfolding ParseFingerprintHint_def n using len dec ne assms by (simp add: Let_def)
  have "hex_EncodeToString raw \<noteq> []" using hex_Encode_length [of raw] assms by (metis list.size(3) mult_is_0 numeral_eq_iff zero_neq_numeral)
  then show "ParseFingerprintHint (hex_EncodeToString raw) = Inr (fingerprintDigest raw)"
    using assms by (simp add: ParseFingerprintHint_def Let_def Normalize_b64 hex_encode_b64 codec_simps)
qed

text \<open>
  Every accepted notation of a host key fingerprint names the same key: the bare
  base64 form, the OpenSSH form with prefix and padding, and the hex form of the digest
  are all parsed to the fingerprint under which the pool stores the signer.
\<close>

theorem fingerprint_notations:
  "ParseFingerprintHint (Fingerprint pub) = Inr (Fingerprint pub)
   \<and> ParseFingerprintHint (''SHA256:'' @ Fingerprint pub @ replicate n (CHR ''='')) = Inr (Fingerprint pub)
   \<and> ParseFingerprintHint (hex_EncodeToString (sha256_Sum256 (pk_Marshal pub))) = Inr (Fingerprint pub)"
  unfolding Fingerprint_digest by (intro conjI ParseFingerprintHint_digest sha256_length)

section \<open>Keystore invariant\<close>

definition pool_inv :: "LocalKeyPool \<Rightarrow> bool" where
  "pool_inv p \<longleftrightarrow> map_wf (kp_signers p)
     \<and> (\<forall>(fp, e) \<in> set (kp_signers p). fp = Fingerprint (sg_PublicKey (ld_signer e)))"

definition ks_inv :: "Keystore \<Rightarrow> bool" where
  "ks_inv k \<longleftrightarrow> 0 \<le> ks_unsealFails k \<and> ks_unsealFails k < maxUnsealAttempts
     \<and> (case ks_mode k of
          ModeLocalKey \<Rightarrow> ks_caSigner k = None \<and> (\<exists>p. ks_pool k = Some p \<and> pool_inv p)
        | ModeLocalCA \<Rightarrow> ks_pool k = None)"

lemma pool_Add_inv: "pool_inv p \<Longrightarrow> pool_inv (fst (pool_Add sg c p))"
  by (auto simp: pool_inv_def pool_Add_def Let_def set_map_put_wf split: option.split)

lemma pool_Remove_inv: "pool_inv p \<Longrightarrow> pool_inv (fst (pool_Remove fp p))"
  by (auto simp: pool_inv_def pool_Remove_def Let_def set_map_del split: option.split)

lemma pool_inv_new [simp]: "pool_inv NewLocalKeyPool"
  by (simp add: pool_inv_def NewLocalKeyPool_def)

lemma ks_inv_new [inv_rules]: "ks_inv (NewWithMode mode)"
  by (cases mode) (simp_all add: ks_inv_def NewWithMode_def maxUnsealAttempts_def)

lemma checkUnsealLock_inv: "ks_inv k \<Longrightarrow> ks_inv (fst (checkUnsealLock now k))"
  by (auto simp: ks_inv_def checkUnsealLock_def maxUnsealAttempts_def split: Mode.split)

lemma recordUnsealFailure_inv: "ks_inv k \<Longrightarrow> ks_inv (recordUnsealFailure now k)"
  by (auto simp: ks_inv_def recordUnsealFailure_def Let_def maxUnsealAttempts_def wrap64_id int64_def
      split: Mode.splits)

lemma store_signer_inv: "ks_inv k \<Longrightarrow> ks_inv (fst (store_signer sg c k))"
  using pool_Add_inv [of "the (ks_pool k)" "Some sg" c]
  by (cases "ks_mode k")
    (auto simp: ks_inv_def store_signer_def Let_def maxUnsealAttempts_def pool_Add_def)

lemma LoadPEMBytes_inv [inv_rules]:
  assumes "ks_inv k"
  shows "ks_inv (fst (LoadPEMBytes lib mlock now now' pem pass c k))"
proof -
  obtain k1 e where c: "checkUnsealLock now k = (k1, e)" by (cases "checkUnsealLock now k")
  with checkUnsealLock_inv [OF assms, of now] have "ks_inv k1" by simp
  then show ?thesis using c
    by (auto simp: LoadPEMBytes_def recordUnsealFailure_inv dest: store_signer_inv
        split: option.split sum.split prod.split) (metis fst_conv store_signer_inv)
qed

lemma RemoveSigner_inv [inv_rules]: "ks_inv k \<Longrightarrow> ks_inv (fst (RemoveSigner fp k))"
  using pool_Remove_inv [of "the (ks_pool k)" "NormalizeFingerprintInput fp"]
  by (cases "ks_mode k") (auto simp: ks_inv_def RemoveSigner_def Let_def split: option.split prod.split)

section \<open>The unseal lock-out\<close>

text \<open>A series of load attempts, each with its clock readings, PEM and passphrase, and the
  results they get.\<close>

type_synonym load_attempt = "gotime \<times> gotime \<times> bytes \<times> string"

fun load_results :: "ssh_lib \<Rightarrow> mlock \<Rightarrow> load_attempt list \<Rightarrow> Keystore \<Rightarrow> string result list" where
  "load_results lib mlock [] k = []"
| "load_results lib mlock ((now, now', pem, pass) # as) k =
     (let (k', _, r) = LoadPEMBytes lib mlock now now' pem pass '''' k
      in r # load_results lib mlock as k')"

definition mlock_ok :: mlock where
  "mlock_ok n b = None"

lemma mlockBytes_ok [simp]: "mlockBytes mlock_ok n b = None"
  by (simp add: mlockBytes_def mlock_ok_def)

definition wrong_key :: "ssh_lib \<Rightarrow> bytes \<Rightarrow> string \<Rightarrow> bool" where
  "wrong_key lib pem pass \<longleftrightarrow> (\<exists>e. ssh_ParseRawPrivateKeyWithPassphrase lib pem pass = Inl e)"

text \<open>How many decryptions may still be tried before time \<open>e\<close>.\<close>

definition unseal_budget :: "gotime \<Rightarrow> Keystore \<Rightarrow> int" where
  "unseal_budget e k =
     (if time_IsZero (ks_unsealLockedUntil k) then maxUnsealAttempts - ks_unsealFails k
      else if ks_unsealLockedUntil k < e then maxUnsealAttempts else 0)"

lemma wrong_key_load:
  assumes "wrong_key lib pem pass"
  shows "LoadPEMBytes lib mlock_ok now now' pem pass c k =
    (case checkUnsealLock now k of
       (k', Some err) \<Rightarrow> (k', pem, Inl err)
     | (k', None) \<Rightarrow> (recordUnsealFailure now' k', zeroBytes pem,
         Inl (Wrapf ''decrypt private key: '' (projl (ssh_ParseRawPrivateKeyWithPassphrase lib pem pass)) '''')))"
  using assms by (auto simp: LoadPEMBytes_def wrong_key_def parseEncryptedPEM_def split: prod.split option.split)

text \<open>The error with which a load reports a passphrase that was tried and failed; the attempts of a series that
  got it; and the loads that succeeded.\<close>

definition decrypt_error :: "ssh_lib \<Rightarrow> bytes \<Rightarrow> string \<Rightarrow> go_error" where
  "decrypt_error lib pem pass = Wrapf ''decrypt private key: '' (projl (ssh_ParseRawPrivateKeyWithPassphrase lib pem pass)) ''''"

definition failed_tries :: "ssh_lib \<Rightarrow> (load_attempt \<times> string result) list \<Rightarrow> nat" where
  "failed_tries lib ars = length (filter (\<lambda>((now, now', pem, pass), r). wrong_key lib pem pass \<and> r = Inl (decrypt_error lib pem pass)) ars)"

definition load_count :: "string result list \<Rightarrow> nat" where
  "load_count rs = length (filter (\<lambda>r. \<exists>fp. r = Inr fp) rs)"

lemma checkUnsealLock_budget:
  assumes "ks_inv k" "now < e" "checkUnsealLock now k = (k1, None)"
  shows "unseal_budget e k1 = unseal_budget e k" "time_IsZero (ks_unsealLockedUntil k1)" "ks_inv k1"
proof -
  show "ks_inv k1" using checkUnsealLock_inv [OF assms(1), of now] assms(3) by simp
  show "unseal_budget e k1 = unseal_budget e k" "time_IsZero (ks_unsealLockedUntil k1)"
    using assms by (auto simp: checkUnsealLock_def unseal_budget_def time_IsZero_def split: if_splits)
qed

lemma recordUnsealFailure_budget:
  assumes "ks_inv k" "time_IsZero (ks_unsealLockedUntil k)" "e \<le> now' + unsealCooldown" "0 \<le> now'"
  shows "unseal_budget e (recordUnsealFailure now' k) \<le> unseal_budget e k - 1"
proof -
  have z: "now' + unsealCooldown \<noteq> time_zero"
    using assms(4) by (simp add: unsealCooldown_def time_zero_def duration_defs)
  with assms show ?thesis
    by (cases "4 \<le> ks_unsealFails k") (auto simp: recordUnsealFailure_def Let_def unseal_budget_def ks_inv_def maxUnsealAttempts_def
        wrap64_id int64_def time_IsZero_def)
qed

lemma store_signer_budget: "store_signer sg c k = (k', Inl err) \<Longrightarrow> unseal_budget e k' = unseal_budget e k"
  by (auto simp: store_signer_def Let_def unseal_budget_def split: Mode.splits prod.splits sum.splits)

lemma load_budget:
  assumes inv: "ks_inv k" and now: "now < e" and now': "e \<le> now' + unsealCooldown" "0 \<le> now'"
    and load: "LoadPEMBytes lib mlock now now' pem pass c k = (k', buf, Inl err)"
  shows "unseal_budget e k' \<le> unseal_budget e k - (if wrong_key lib pem pass \<and> err = decrypt_error lib pem pass then 1 else 0)"
proof (cases "checkUnsealLock now k")
  case (Pair k1 lock)
  show ?thesis
  proof (cases lock)
    case (Some x)
    with Pair load have "k' = k" "err = ErrUnsealLocked" by (auto simp: LoadPEMBytes_def checkUnsealLock_def split: if_splits)
    then show ?thesis by (simp add: decrypt_error_def)
  next
    case None
    note k1 = checkUnsealLock_budget [OF inv now Pair [unfolded None]]
    show ?thesis
    proof (cases "mlockBytes mlock 0 pem = None \<and> mlockBytes mlock 1 pass = None")
      case False
      with Pair None load have "k' = k1" "err \<noteq> decrypt_error lib pem pass"
        by (auto simp: LoadPEMBytes_def mlockBytes_def decrypt_error_def split: option.splits if_splits)
      with k1(1) show ?thesis by simp
    next
      case True
      show ?thesis
      proof (cases "parseEncryptedPEM lib mlock pem pass")
        case (Inl x)
        with Pair None load True have "k' = recordUnsealFailure now' k1" by (simp add: LoadPEMBytes_def)
        with recordUnsealFailure_budget [OF k1(3,2) now'] k1(1) show ?thesis by simp
      next
        case (Inr sg)
        with Pair None load True have s: "store_signer sg c k1 = (k', Inl err)" by (simp add: LoadPEMBytes_def split: prod.splits)
        have "\<not> wrong_key lib pem pass" using Inr by (auto simp: wrong_key_def parseEncryptedPEM_def)
        with store_signer_budget [OF s] k1(1) show ?thesis by simp
      qed
    qed
  qed
qed

lemma unseal_budget_range: "ks_inv k \<Longrightarrow> 0 \<le> unseal_budget e k \<and> unseal_budget e k \<le> maxUnsealAttempts"
  by (auto simp: unseal_budget_def ks_inv_def maxUnsealAttempts_def)

lemma unseal_run_budget:
  assumes "ks_inv k" and "\<forall>(now, now', pem, pass) \<in> set as. now < e \<and> e \<le> now' + unsealCooldown \<and> 0 \<le> now'"
  shows "int (failed_tries lib (zip as (load_results lib mlock as k)))
     \<le> unseal_budget e k + maxUnsealAttempts * int (load_count (load_results lib mlock as k))"
  using assms
proof (induction as arbitrary: k)
  case Nil
  then show ?case using unseal_budget_range by (simp add: failed_tries_def load_count_def)
next
  case (Cons a as)
  obtain now now' pem pass where a: "a = (now, now', pem, pass)" by (cases a) auto
  obtain k' buf r where l: "LoadPEMBytes lib mlock now now' pem pass '''' k = (k', buf, r)"
    by (cases "LoadPEMBytes lib mlock now now' pem pass '''' k") auto
  have inv: "ks_inv k'" using LoadPEMBytes_inv [OF Cons.prems(1)] l by (metis fst_conv)
  note IH = Cons.IH [OF inv]
  show ?case
  proof (cases r)
    case (Inl err)
    with load_budget [OF Cons.prems(1), of now e now' lib mlock pem pass "''''" k' buf err] l IH Cons.prems(2) a show ?thesis
      by (auto simp: failed_tries_def load_count_def split: if_splits)
  next
    case (Inr fp)
    with IH Inr l Cons.prems(2) a unseal_budget_range [OF Cons.prems(1), of e] unseal_budget_range [OF inv, of e] show ?thesis
      by (auto simp: failed_tries_def load_count_def maxUnsealAttempts_def)
  qed
qed

text \<open>
  (C12) The unseal lock-out bounds guessing: whatever state the keystore is in, of any series of
  load attempts within a window of fifteen minutes, with any keys and passphrases, at most five
  fail to decrypt for each load that succeeds, and five more; without a successful load these are
  five. All other wrong attempts are answered without a decryption. (A successful load resets the count,
  also when it is one of another key.)
\<close>

theorem unseal_guess_bound:
  assumes "ks_inv k" and "0 \<le> t0"
    and "\<forall>(now, now', pem, pass) \<in> set as. t0 \<le> now \<and> now < t0 + unsealCooldown \<and> t0 \<le> now'"
    and "rs = load_results lib mlock as k"
  shows "failed_tries lib (zip as rs) \<le> 5 * (1 + load_count rs)"
proof -
  have "int (failed_tries lib (zip as rs)) \<le> unseal_budget (t0 + unsealCooldown) k + maxUnsealAttempts * int (load_count rs)"
    unfolding assms(4) by (rule unseal_run_budget [OF assms(1)]) (use assms(2,3) in auto)
  with unseal_budget_range [OF assms(1), of "t0 + unsealCooldown"] show ?thesis by (simp add: maxUnsealAttempts_def)
qed

text \<open>An instance of the library for the witnesses: one passphrase opens every key, and a
  signature is the public key followed by the data.\<close>

definition demo_ssh :: ssh_lib where
  "demo_ssh =
     \<lparr>ssh_ParseRawPrivateKeyWithPassphrase = \<lambda>pem pass.
        (if pass = ''good'' then Inr (RawEd25519 pem) else Inl (Errorf ''bad passphrase'')),
      ssh_NewSignerFromKey = \<lambda>key. Inr \<lparr>sg_PublicKey = \<lparr>pk_Type = ''ssh-ed25519'', pk_Marshal = key\<rparr>, sg_private = key\<rparr>,
      ssh_Sign = \<lambda>sg data. Inr \<lparr>sig_Format = ''ssh-ed25519'', sig_Blob = pk_Marshal (sg_PublicKey sg) @ data\<rparr>,
      ssh_Verify = \<lambda>pk data sig. (if sig_Blob sig = pk_Marshal pk @ data then None else Some (Errorf ''bad signature'')),
      ssh_ParsePublicKey = \<lambda>raw. (if raw = [] then Inl (Errorf ''short'') else Inr \<lparr>pk_Type = ''ssh-ed25519'', pk_Marshal = raw\<rparr>),
      ssh_ParseAuthorizedKey = \<lambda>raw. (if raw = [] then Inl (Errorf ''short'') else Inr \<lparr>pk_Type = ''ssh-ed25519'', pk_Marshal = raw\<rparr>),
      ssh_MarshalAuthorizedKey = pk_Marshal,
      ssh_SignCert = \<lambda>sg c. Inr (c\<lparr>ct_SignatureKey := Some (sg_PublicKey sg),
        ct_Signature := Some \<lparr>sig_Format = ''ssh-ed25519'', sig_Blob = sg_private sg @ ct_KeyId c\<rparr>\<rparr>),
      ssh_MarshalCertificate = \<lambda>c. ''cert '' @ ct_KeyId c\<rparr>"

theorem unseal_guess_bound_witness:
  "let as = replicate 7 (minute, minute, ''pem'', ''guess'') @ (minute, minute, ''pem'', ''good'') # replicate 7 (minute, minute, ''pem'', ''guess'');
       rs = load_results demo_ssh mlock_ok as (NewWithMode ModeLocalKey)
   in failed_tries demo_ssh (zip as rs) \<le> 5 * (1 + load_count rs)"
  unfolding Let_def
  by (rule unseal_guess_bound [where ?t0.0 = 0])
    (auto simp: ks_inv_new unsealCooldown_def duration_defs)

section \<open>Loading, finding and removing a signer\<close>

text \<open>What a load that is not locked out does when the key decrypts.\<close>

lemma store_signer_result:
  "snd (store_signer sg c k) = Inr (Fingerprint (sg_PublicKey sg))"
  by (auto simp: store_signer_def Let_def pool_Add_def split: Mode.split)

lemma store_signer_lookup:
  assumes "ks_mode k = ModeLocalKey"
  shows "SignerForFingerprint fp (fst (store_signer sg c k)) =
    (if NormalizeFingerprintInput fp = Fingerprint (sg_PublicKey sg) then Inr sg
     else if ks_pool k = None then Inl ErrSealed
     else SignerForFingerprint fp k)"
  using assms
  by (auto simp: SignerForFingerprint_def store_signer_def Let_def pool_Add_def pool_Get_def NewLocalKeyPool_def
      length_map_put split: option.split)

lemma RemoveSigner_lookup:
  assumes "ks_mode k = ModeLocalKey"
  shows "SignerForFingerprint fp (fst (RemoveSigner fp' k)) =
    (if NormalizeFingerprintInput fp = NormalizeFingerprintInput (NormalizeFingerprintInput fp') \<and> ks_pool k \<noteq> None
     then Inl ErrSealed else SignerForFingerprint fp k)"
  using assms
  by (auto simp: SignerForFingerprint_def RemoveSigner_def Let_def pool_Remove_def pool_Get_def
      split: option.split prod.split)

lemma load_unlocked:
  assumes "checkUnsealLock now k = (k1, None)" and "parseEncryptedPEM lib mlock_ok pem pass = Inr sg"
  shows "LoadPEMBytes lib mlock_ok now now' pem pass c k =
    (fst (store_signer sg c k1), zeroBytes pem, Inr (Fingerprint (sg_PublicKey sg)))"
  using assms store_signer_result [of sg c k1]
  by (auto simp: LoadPEMBytes_def split: prod.split)

lemma checkUnsealLock_frame:
  "checkUnsealLock now k = (k1, e) \<Longrightarrow> ks_mode k1 = ks_mode k \<and> ks_pool k1 = ks_pool k \<and> ks_caSigner k1 = ks_caSigner k"
  by (auto simp: checkUnsealLock_def split: if_splits)

text \<open>
  Loading a key makes exactly that key available: once no lock-out is in force, a key
  that decrypts is stored under its own fingerprint, every notation of that fingerprint
  finds it, every other signer of the pool is still found as before, and the caller's
  buffer holds only zeros afterwards.
\<close>

theorem load_then_find:
  assumes "ks_inv k" and "ks_mode k = ModeLocalKey"
    and "ks_unsealLockedUntil k \<le> now"
    and "parseEncryptedPEM lib mlock_ok pem pass = Inr sg"
    and "LoadPEMBytes lib mlock_ok now now' pem pass c k = (k', buf, r)"
  shows "r = Inr (Fingerprint (sg_PublicKey sg))
    \<and> set buf \<subseteq> {CHR 0x00} \<and> length buf = length pem
    \<and> (\<forall>fp. SignerForFingerprint fp k' =
         (if NormalizeFingerprintInput fp = Fingerprint (sg_PublicKey sg) then Inr sg
          else SignerForFingerprint fp k))"
proof -
  from assms(3) obtain k1 where k1: "checkUnsealLock now k = (k1, None)"
    by (cases "checkUnsealLock now k") (auto simp: checkUnsealLock_def split: if_splits)
  from assms(1,2) obtain p where p: "ks_pool k = Some p" by (auto simp: ks_inv_def)
  have k': "k' = fst (store_signer sg c k1)" "buf = zeroBytes pem" "r = Inr (Fingerprint (sg_PublicKey sg))"
    using load_unlocked [OF k1 assms(4)] assms(5) by auto
  note f = checkUnsealLock_frame [OF k1]
  then have "SignerForFingerprint fp k1 = SignerForFingerprint fp k" for fp
    by (simp add: SignerForFingerprint_def)
  with f assms(2) p k' show ?thesis by (auto simp: store_signer_lookup zeroBytes_def)
qed

theorem load_then_find_witness:
  "\<exists>k' buf. LoadPEMBytes demo_ssh mlock_ok 0 0 ''pem'' ''good'' ''host'' (NewWithMode ModeLocalKey)
      = (k', buf, Inr (Fingerprint \<lparr>pk_Type = ''ssh-ed25519'', pk_Marshal = ''pem''\<rparr>))
    \<and> set buf \<subseteq> {CHR 0x00}"
proof -
  obtain k' buf r where l: "LoadPEMBytes demo_ssh mlock_ok 0 0 ''pem'' ''good'' ''host'' (NewWithMode ModeLocalKey) = (k', buf, r)"
    by (cases "LoadPEMBytes demo_ssh mlock_ok 0 0 ''pem'' ''good'' ''host'' (NewWithMode ModeLocalKey)") auto
  have "parseEncryptedPEM demo_ssh mlock_ok ''pem'' ''good'' =
      Inr \<lparr>sg_PublicKey = \<lparr>pk_Type = ''ssh-ed25519'', pk_Marshal = ''pem''\<rparr>, sg_private = ''pem''\<rparr>"
    by (simp add: parseEncryptedPEM_def demo_ssh_def load_signer_def)
  from load_then_find [OF ks_inv_new _ _ this l] l show ?thesis
    by (simp add: NewWithMode_def time_zero_def second_def)
qed

end
