(* ===== verification/Signing.thy ===== *)
theory Signing
  imports Keystore
begin

text \<open>
  Package \<open>signing\<close>: the two ways an approved request is answered, an SSH user certificate
  from the CA key (\<open>local_ca.go\<close>) or a signature by a hosted key (\<open>local_key.go\<close>). The keystore
  they share is a pointer in the code; here it is the argument in its current state.
\<close>

section \<open>Operations\<close>

record IssueRequest =
  ir_ClientPubKey :: string
  ir_TargetUser :: string
  ir_TargetIP :: string
  ir_SourceIP :: string
  ir_ValidUntil :: gotime

record IssueResult =
  is_Certificate :: string
  is_ExpiresAt :: gotime

text \<open>A conversion \<open>uint64(x)\<close> of a signed value.\<close>

definition uint64 :: "int \<Rightarrow> int" where
  "uint64 x = x mod 2 ^ 64"

text \<open>\<open>Time.UnixNano\<close> in 64 bits.\<close>

definition time_UnixNano :: "gotime \<Rightarrow> int" where
  "time_UnixNano t = wrap64 t"

definition user_cert :: "gotime \<Rightarrow> IssueRequest \<Rightarrow> PublicKey \<Rightarrow> Certificate" where
  "user_cert now req pub =
     \<lparr>ct_Key = pub, ct_Serial = uint64 (time_UnixNano now), ct_UserCert = True,
      ct_KeyId = ir_TargetUser req, ct_ValidPrincipals = [ir_TargetUser req],
      ct_ValidAfter = uint64 (time_Unix (now + (- 30) * second)),
      ct_ValidBefore = uint64 (time_Unix (ir_ValidUntil req)),
      ct_CriticalOptions = (if ir_SourceIP req \<noteq> [] then [(''source-address'', ir_SourceIP req)] else []),
      ct_SignatureKey = None, ct_Signature = None\<rparr>"

definition IssueCert :: "ssh_lib \<Rightarrow> gotime \<Rightarrow> Keystore \<Rightarrow> IssueRequest \<Rightarrow> IssueResult result" where
  "IssueCert lib now ks req =
     (case SSHSigner ks of
        Inl err \<Rightarrow> Inl err
      | Inr caSigner \<Rightarrow>
          (case ssh_ParseAuthorizedKey lib (ir_ClientPubKey req) of
             Inl err \<Rightarrow> Inl (Wrapf ''parse client public key: '' err '''')
           | Inr pub \<Rightarrow>
               (let validAfter = uint64 (time_Unix (now + (- 30) * second));
                    validBefore = uint64 (time_Unix (ir_ValidUntil req))
                in if validBefore \<le> validAfter then Inl (Errorf ''invalid cert validity window'')
                   else case ssh_SignCert lib caSigner (user_cert now req pub) of
                          Inl err \<Rightarrow> Inl (Wrapf ''sign certificate: '' err '''')
                        | Inr cert \<Rightarrow> Inr \<lparr>is_Certificate = ssh_MarshalCertificate lib cert,
                                        is_ExpiresAt = ir_ValidUntil req\<rparr>)))"

definition SignAgent :: "ssh_lib \<Rightarrow> Keystore \<Rightarrow> string \<Rightarrow> bytes \<Rightarrow> bytes result" where
  "SignAgent lib ks hostFP data =
     (if length data = 0 then Inl (Errorf ''empty sign data'')
      else if hostFP = [] then Inl (Errorf ''host key fingerprint required'')
      else case SignerForFingerprint hostFP ks of
             Inl err \<Rightarrow> Inl err
           | Inr signer \<Rightarrow>
               (case ssh_Sign lib signer data of
                  Inl err \<Rightarrow> Inl (Wrapf ''sign agent data: '' err '''')
                | Inr sig \<Rightarrow> Inr (sig_Blob sig)))"

section \<open>What is signed, and by which key\<close>

text \<open>
  (C34) A certificate is issued only for what was approved: a successful \<open>IssueCert\<close> has had
  the CA sign a user certificate for the requested key whose only principal is the approved user, whose
  only restriction is the source address when one is known, which starts thirty seconds before it
  is issued and ends, later than that, in the second of the approved expiry. (An approval that
  ran out less than thirty seconds before still gets a certificate, which is then already over.)
\<close>

theorem IssueCert_scope:
  assumes "IssueCert lib now ks req = Inr res"
    and "0 \<le> now - 30 * second" and "now < 2 ^ 62" and "0 \<le> ir_ValidUntil req" and "ir_ValidUntil req < 2 ^ 62"
  shows "\<exists>ca pub cert signed. ks_mode ks = ModeLocalCA \<and> ks_caSigner ks = Some ca
    \<and> ssh_ParseAuthorizedKey lib (ir_ClientPubKey req) = Inr pub
    \<and> ssh_SignCert lib ca cert = Inr signed \<and> is_Certificate res = ssh_MarshalCertificate lib signed
    \<and> ct_Key cert = pub \<and> ct_UserCert cert \<and> ct_ValidPrincipals cert = [ir_TargetUser req]
    \<and> ct_CriticalOptions cert = (if ir_SourceIP req = [] then [] else [(''source-address'', ir_SourceIP req)])
    \<and> ct_ValidBefore cert = ir_ValidUntil req div second
    \<and> ct_ValidAfter cert = now div second - 30
    \<and> ct_ValidAfter cert < ct_ValidBefore cert
    \<and> is_ExpiresAt res = ir_ValidUntil req"
proof -
  have b: "uint64 (time_Unix (ir_ValidUntil req)) = ir_ValidUntil req div second"
    using assms(4,5) by (auto simp: uint64_def time_Unix_def second_def intro!: mod_pos_pos_trivial)
  have "time_Unix (now + (- 30) * second) = now div second - 30"
    by (simp add: time_Unix_def second_def)
  moreover from assms(2) have "30 \<le> now div second" by (simp add: second_def)
  moreover from assms(3) have "now div second < 2 ^ 62" using assms(2) by (simp add: second_def)
  ultimately have a: "uint64 (time_Unix (now + (- 30) * second)) = now div second - 30"
    by (auto simp: uint64_def intro!: mod_pos_pos_trivial)
  from assms(1) obtain ca pub signed where r: "SSHSigner ks = Inr ca"
    "ssh_ParseAuthorizedKey lib (ir_ClientPubKey req) = Inr pub"
    "ssh_SignCert lib ca (user_cert now req pub) = Inr signed"
    "res = \<lparr>is_Certificate = ssh_MarshalCertificate lib signed, is_ExpiresAt = ir_ValidUntil req\<rparr>"
    "uint64 (time_Unix (now + (- 30) * second)) < uint64 (time_Unix (ir_ValidUntil req))"
    by (auto simp: IssueCert_def Let_def split: sum.splits if_splits)
  from r(1) have "ks_mode ks = ModeLocalCA \<and> ks_caSigner ks = Some ca"
    by (cases "ks_mode ks") (auto simp: SSHSigner_def split: option.splits)
  with r a b show ?thesis
    by (intro exI [of _ ca] exI [of _ pub] exI [of _ "user_cert now req pub"] exI [of _ signed])
      (simp add: user_cert_def)
qed

definition demo_ca :: Keystore where
  "demo_ca = (NewWithMode ModeLocalCA)\<lparr>ks_caSigner :=
     Some \<lparr>sg_PublicKey = \<lparr>pk_Type = ''ssh-ed25519'', pk_Marshal = ''ca''\<rparr>, sg_private = ''ca''\<rparr>\<rparr>"

definition demo_issue :: IssueRequest where
  "demo_issue = \<lparr>ir_ClientPubKey = ''key'', ir_TargetUser = ''deploy'', ir_TargetIP = ''10.0.1.50'',
     ir_SourceIP = ''203.0.113.10'', ir_ValidUntil = 1000 * second\<rparr>"

theorem IssueCert_scope_witness:
  "\<exists>res ca cert signed. IssueCert demo_ssh (700 * second) demo_ca demo_issue = Inr res \<and> ks_caSigner demo_ca = Some ca
     \<and> ssh_SignCert demo_ssh ca cert = Inr signed \<and> is_Certificate res = ssh_MarshalCertificate demo_ssh signed
     \<and> ct_ValidPrincipals cert = [''deploy''] \<and> ct_CriticalOptions cert = [(''source-address'', ''203.0.113.10'')]
     \<and> ct_ValidBefore cert = 1000 \<and> ct_ValidAfter cert = 670"
proof -
  have i: "IssueCert demo_ssh (700 * second) demo_ca demo_issue =
      Inr \<lparr>is_Certificate = ''cert deploy'', is_ExpiresAt = 1000 * second\<rparr>"
    by (simp add: IssueCert_def demo_ca_def demo_issue_def NewWithMode_def SSHSigner_def demo_ssh_def
        user_cert_def uint64_def time_Unix_def second_def)
  have d: "ir_TargetUser demo_issue = ''deploy''" "ir_SourceIP demo_issue = ''203.0.113.10''" "ir_ValidUntil demo_issue = 1000 * second"
    "700 * second div second = 700" "1000 * second div second = 1000" by (simp_all add: demo_issue_def second_def)
  from IssueCert_scope [OF i, unfolded d] have "\<exists>ca pub cert signed. ks_caSigner demo_ca = Some ca
     \<and> ssh_SignCert demo_ssh ca cert = Inr signed \<and> ''cert deploy'' = ssh_MarshalCertificate demo_ssh signed
     \<and> ct_ValidPrincipals cert = [''deploy''] \<and> ct_CriticalOptions cert = [(''source-address'', ''203.0.113.10'')]
     \<and> ct_ValidBefore cert = 1000 \<and> ct_ValidAfter cert = 670"
    by (simp add: second_def) blast
  then show ?thesis unfolding i by auto
qed

text \<open>
  A hosted key signs only under its own fingerprint: a successful \<open>SignAgent\<close> was made by
  a signer of the pool whose public key has the requested fingerprint, over exactly the
  requested data, and verifies under that public key whenever the library's signatures do.
\<close>

theorem SignAgent_key:
  assumes "ks_inv ks" and "SignAgent lib ks hostFP data = Inr blob"
    and "\<And>sg d sig. ssh_Sign lib sg d = Inr sig \<Longrightarrow> ssh_Verify lib (sg_PublicKey sg) d sig = None"
  shows "\<exists>sg sig. SignerForFingerprint hostFP ks = Inr sg
    \<and> Fingerprint (sg_PublicKey sg) = NormalizeFingerprintInput hostFP \<and> data \<noteq> []
    \<and> sig_Blob sig = blob \<and> ssh_Verify lib (sg_PublicKey sg) data sig = None"
proof -
  from assms(2) obtain sg sig where sg: "SignerForFingerprint hostFP ks = Inr sg" "data \<noteq> []"
    "ssh_Sign lib sg data = Inr sig" "sig_Blob sig = blob"
    by (auto simp: SignAgent_def split: if_splits sum.splits)
  have m: "ks_mode ks = ModeLocalKey"
    using sg(1) by (cases "ks_mode ks") (auto simp: SignerForFingerprint_def)
  with assms(1) obtain p where p: "ks_pool ks = Some p" "pool_inv p" by (auto simp: ks_inv_def)
  with sg(1) m obtain e where "map_of (kp_signers p) (NormalizeFingerprintInput hostFP) = Some e" "ld_signer e = sg"
    by (auto simp: SignerForFingerprint_def pool_Get_def split: option.splits if_splits)
  with p(2) have "Fingerprint (sg_PublicKey sg) = NormalizeFingerprintInput hostFP"
    by (auto simp: pool_inv_def dest!: map_of_SomeD)
  with sg assms(3) [OF sg(3)] show ?thesis by blast
qed

definition demo_host :: Keystore where
  "demo_host = fst (LoadPEMBytes demo_ssh mlock_ok 0 0 ''pem'' ''good'' ''host'' (NewWithMode ModeLocalKey))"

definition demo_hostkey :: PublicKey where
  "demo_hostkey = \<lparr>pk_Type = ''ssh-ed25519'', pk_Marshal = ''pem''\<rparr>"

lemma demo_host_signer:
  "SignerForFingerprint (Fingerprint demo_hostkey) demo_host = Inr \<lparr>sg_PublicKey = demo_hostkey, sg_private = ''pem''\<rparr>"
  by (simp add: demo_host_def demo_hostkey_def LoadPEMBytes_def checkUnsealLock_def NewWithMode_def time_IsZero_def
      parseEncryptedPEM_def demo_ssh_def load_signer_def store_signer_lookup split: prod.split)
    (simp add: store_signer_def Let_def pool_Add_def SignerForFingerprint_def pool_Get_def NewLocalKeyPool_def)

theorem SignAgent_key_witness:
  "\<exists>sg. SignerForFingerprint (Fingerprint demo_hostkey) demo_host = Inr sg
     \<and> Fingerprint (sg_PublicKey sg) = Fingerprint demo_hostkey"
proof -
  have inv: "ks_inv demo_host" unfolding demo_host_def by (intro LoadPEMBytes_inv ks_inv_new)
  have "SignAgent demo_ssh demo_host (Fingerprint demo_hostkey) ''data'' = Inr ''pemdata''"
    by (simp add: SignAgent_def demo_host_signer) (simp add: demo_ssh_def demo_hostkey_def)
  moreover have "\<And>sg d sig. ssh_Sign demo_ssh sg d = Inr sig \<Longrightarrow> ssh_Verify demo_ssh (sg_PublicKey sg) d sig = None"
    by (auto simp: demo_ssh_def)
  ultimately show ?thesis using SignAgent_key [OF inv] by fastforce
qed

end
