(* ===== verification/Config.thy ===== *)
theory Config
  imports Go_Text
begin

text \<open>The proxy's configuration (package \<open>config\<close>): the record every component reads.\<close>

record Config =
  cfg_Env :: string
  cfg_ApprovalTimeout :: duration
  cfg_ListenAddr :: string
  cfg_TelegramBotToken :: string
  cfg_TelegramWebhookSecret :: string
  cfg_TelegramChatID :: string
  cfg_TelegramUserIDs :: string
  cfg_AdminClientOU :: string
  cfg_CliClientOU :: string
  cfg_KeyPath :: string
  cfg_SignerMode :: string
  cfg_AllowedTTLSeconds :: "int list"
  cfg_MTLSServerCert :: string
  cfg_MTLSServerKey :: string
  cfg_MTLSClientCA :: string
  cfg_MTLSCACertPath :: string
  cfg_MTLSCAKeyPath :: string
  cfg_MTLSEnrollToken :: string
  cfg_FCMCredentials :: string
  cfg_ControlSocket :: string
  cfg_ControlSocketGroup :: string

text \<open>The zero value \<open>Config{}\<close>.\<close>

definition zero_Config :: Config where
  "zero_Config = \<lparr>cfg_Env = [], cfg_ApprovalTimeout = 0, cfg_ListenAddr = [], cfg_TelegramBotToken = [],
     cfg_TelegramWebhookSecret = [], cfg_TelegramChatID = [], cfg_TelegramUserIDs = [], cfg_AdminClientOU = [],
     cfg_CliClientOU = [], cfg_KeyPath = [], cfg_SignerMode = [], cfg_AllowedTTLSeconds = [],
     cfg_MTLSServerCert = [], cfg_MTLSServerKey = [], cfg_MTLSClientCA = [], cfg_MTLSCACertPath = [],
     cfg_MTLSCAKeyPath = [], cfg_MTLSEnrollToken = [], cfg_FCMCredentials = [], cfg_ControlSocket = [],
     cfg_ControlSocketGroup = []\<rparr>"

end
