(* ===== verification/Approval.thy ===== *)
theory Approval
  imports Lease Signing Config
begin

text \<open>
  The transaction store (\<open>approval/store.go\<close>): the life of a signing request from its
  creation to the answer its waiter gets. Each definition below is the part of a method
  that runs under the store's mutex, or the method composed of such parts; the theory
  \<open>Approval_Run\<close> interleaves the parts.

  A transaction's result channel is named by the transaction's identifier. Its buffer is
  kept apart from the entry, because a waiter that holds the channel can still read it
  after the entry has been deleted.
\<close>

section \<open>Data\<close>

definition SignerModeLocalCA :: string where
  "SignerModeLocalCA = ''local-ca''"

definition SignerModeLocalKey :: string where
  "SignerModeLocalKey = ''local-key''"

datatype State = StatePending | StateApproving | StateApproved | StateDenied | StateExpired

definition DefaultDevCertTTL :: duration where
  "DefaultDevCertTTL = 5 * minute"

record Transaction =
  tx_ID :: string
  tx_TargetUser :: string
  tx_TargetIP :: string
  tx_PublicKey :: string
  tx_SourceIP :: string
  tx_SourceUser :: string
  tx_ClientName :: string
  tx_ClientVersion :: string
  tx_ClientCertFP :: string
  tx_AgentSignData :: string
  tx_HostKeyFingerprint :: string
  tx_DestinationHostKeyFingerprint :: string
  tx_DestinationHostKeySource :: string
  tx_DisableLease :: bool
  tx_State :: State
  tx_CreatedAt :: gotime

record ClientMeta =
  cm_SourceUser :: string
  cm_ClientName :: string
  cm_ClientVersion :: string
  cm_DestinationHostKeySource :: string
  cm_DisableLease :: bool

record Result =
  rs_Cert :: string
  rs_Signature :: string
  rs_ExpiresAt :: gotime
  rs_LeaseExpiresAt :: gotime
  rs_Err :: "go_error option"

definition zero_Result :: Result where
  "zero_Result = \<lparr>rs_Cert = [], rs_Signature = [], rs_ExpiresAt = time_zero, rs_LeaseExpiresAt = time_zero, rs_Err = None\<rparr>"

definition err_Result :: "go_error \<Rightarrow> Result" where
  "err_Result e = zero_Result\<lparr>rs_Err := Some e\<rparr>"

text \<open>The signers are references to the one keystore of the process.\<close>

datatype cert_issuer = LocalCA
datatype key_signer = LocalKey

datatype timer = Armed | Stopped

record txEntry =
  te_tx :: Transaction
  te_result :: "Result option"
  te_timer :: "timer option"
  te_waiters :: int

record Store =
  st_cfg :: Config
  st_issuer :: "cert_issuer option"
  st_keySigner :: "key_signer option"
  st_leases :: "lease_store option"
  st_timeout :: duration
  st_txs :: "(string, txEntry) gomap"
  st_chans :: "(string, Result list) gomap"

section \<open>Setting up\<close>

definition approval_NewStore :: "duration \<Rightarrow> Store" where
  "approval_NewStore timeout =
     \<lparr>st_cfg = zero_Config, st_issuer = None, st_keySigner = None, st_leases = None,
      st_timeout = timeout, st_txs = [], st_chans = []\<rparr>"

definition SetConfig :: "Config \<Rightarrow> Store \<Rightarrow> Store" where
  "SetConfig cfg s =
     (let s1 = s\<lparr>st_cfg := cfg\<rparr>
      in if 0 < cfg_ApprovalTimeout cfg then s1\<lparr>st_timeout := cfg_ApprovalTimeout cfg\<rparr> else s1)"

definition SetIssuer :: "cert_issuer option \<Rightarrow> Store \<Rightarrow> Store" where
  "SetIssuer issuer s = s\<lparr>st_issuer := issuer\<rparr>"

definition SetKeySigner :: "key_signer option \<Rightarrow> Store \<Rightarrow> Store" where
  "SetKeySigner keySigner s = s\<lparr>st_keySigner := keySigner\<rparr>"

definition SetLeases :: "lease_store option \<Rightarrow> Store \<Rightarrow> Store" where
  "SetLeases leases s = s\<lparr>st_leases := leases\<rparr>"

definition signerMode :: "Store \<Rightarrow> string" where
  "signerMode s = (if cfg_SignerMode (st_cfg s) = SignerModeLocalKey then SignerModeLocalKey else SignerModeLocalCA)"

definition newTxID :: "string \<Rightarrow> string" where
  "newTxID ulid = ''tx_'' @ ulid"

section \<open>Creating a transaction\<close>

text \<open>The arguments of \<open>CreateBound\<close>.\<close>

record tx_args =
  ta_targetUser :: string
  ta_targetIP :: string
  ta_publicKey :: string
  ta_sourceIP :: string
  ta_clientCertFP :: string
  ta_agentSignData :: string
  ta_hostKeyFP :: string
  ta_destinationHostKeyFP :: string
  ta_client :: ClientMeta

definition new_transaction :: "string \<Rightarrow> gotime \<Rightarrow> tx_args \<Rightarrow> Transaction" where
  "new_transaction txID now a =
     \<lparr>tx_ID = txID, tx_TargetUser = ta_targetUser a, tx_TargetIP = ta_targetIP a,
      tx_PublicKey = ta_publicKey a, tx_SourceIP = ta_sourceIP a,
      tx_SourceUser = cm_SourceUser (ta_client a), tx_ClientName = cm_ClientName (ta_client a),
      tx_ClientVersion = cm_ClientVersion (ta_client a), tx_ClientCertFP = ta_clientCertFP a,
      tx_AgentSignData = ta_agentSignData a, tx_HostKeyFingerprint = ta_hostKeyFP a,
      tx_DestinationHostKeyFingerprint = ta_destinationHostKeyFP a,
      tx_DestinationHostKeySource = cm_DestinationHostKeySource (ta_client a),
      tx_DisableLease = cm_DisableLease (ta_client a),
      tx_State = StatePending, tx_CreatedAt = now\<rparr>"

text \<open>The part under the mutex, the timer that is armed after it, and the whole method. It
  returns the transaction and the approvals it starts in the background: one in the
  development environment, none otherwise.\<close>

definition create_locked :: "string \<Rightarrow> gotime \<Rightarrow> tx_args \<Rightarrow> Store \<Rightarrow> Store" where
  "create_locked txID now a s =
     s\<lparr>st_txs := map_put txID \<lparr>te_tx = new_transaction txID now a, te_result = None, te_timer = None, te_waiters = 0\<rparr>
          (st_txs s),
       st_chans := map_put txID [] (st_chans s)\<rparr>"

definition arm_timer :: "string \<Rightarrow> Store \<Rightarrow> Store" where
  "arm_timer txID s =
     (case map_of (st_txs s) txID of
        None \<Rightarrow> s
      | Some e \<Rightarrow> s\<lparr>st_txs := map_put txID (e\<lparr>te_timer := Some Armed\<rparr>) (st_txs s)\<rparr>)"

type_synonym approval_call = "string \<times> duration \<times> string"

definition dev_approvals :: "string \<Rightarrow> Store \<Rightarrow> approval_call list" where
  "dev_approvals txID s = (if cfg_Env (st_cfg s) = ''dev'' then [(txID, DefaultDevCertTTL, '''')] else [])"

definition CreateBound :: "string \<Rightarrow> gotime \<Rightarrow> tx_args \<Rightarrow> Store \<Rightarrow> Store \<times> Transaction \<times> approval_call list" where
  "CreateBound ulid now a s =
     (let txID = newTxID ulid
      in (arm_timer txID (create_locked txID now a s), new_transaction txID now a, dev_approvals txID s))"

definition Create :: "string \<Rightarrow> gotime \<Rightarrow> tx_args \<Rightarrow> Store \<Rightarrow> Store \<times> Transaction \<times> approval_call list" where
  "Create ulid now a s = CreateBound ulid now (a\<lparr>ta_destinationHostKeyFP := ''''\<rparr>) s"

definition CreateInstantApproved ::
  "string \<Rightarrow> gotime \<Rightarrow> string \<Rightarrow> string \<Rightarrow> string \<Rightarrow> string \<Rightarrow> string \<Rightarrow> Result \<Rightarrow> Store \<Rightarrow> Store \<times> Transaction" where
  "CreateInstantApproved ulid now targetUser targetIP publicKey sourceIP clientCertFP res s =
     (let txID = newTxID ulid;
          tx = \<lparr>tx_ID = txID, tx_TargetUser = targetUser, tx_TargetIP = targetIP, tx_PublicKey = publicKey,
                tx_SourceIP = sourceIP, tx_SourceUser = [], tx_ClientName = [], tx_ClientVersion = [],
                tx_ClientCertFP = clientCertFP, tx_AgentSignData = [], tx_HostKeyFingerprint = [],
                tx_DestinationHostKeyFingerprint = [], tx_DestinationHostKeySource = [], tx_DisableLease = False,
                tx_State = StateApproved, tx_CreatedAt = now\<rparr>
      in (s\<lparr>st_txs := map_put txID \<lparr>te_tx = tx, te_result = Some res, te_timer = None, te_waiters = 0\<rparr> (st_txs s),
            st_chans := map_put txID [res] (st_chans s)\<rparr>, tx))"

section \<open>Finishing a transaction\<close>

text \<open>The send of \<open>finishLocked\<close> is dropped when the buffer of one result is full.\<close>

definition chan_send :: "string \<Rightarrow> Result \<Rightarrow> Store \<Rightarrow> Store" where
  "chan_send ch res s =
     (case map_of (st_chans s) ch of
        Some [] \<Rightarrow> s\<lparr>st_chans := map_put ch [res] (st_chans s)\<rparr>
      | _ \<Rightarrow> s)"

definition finish_entry :: "State \<Rightarrow> Result \<Rightarrow> txEntry \<Rightarrow> txEntry" where
  "finish_entry state res e =
     e\<lparr>te_tx := (te_tx e)\<lparr>tx_State := state\<rparr>, te_result := Some res,
       te_timer := (case te_timer e of None \<Rightarrow> None | Some _ \<Rightarrow> Some Stopped)\<rparr>"

definition finishLocked :: "string \<Rightarrow> txEntry \<Rightarrow> State \<Rightarrow> Result \<Rightarrow> Store \<Rightarrow> Store" where
  "finishLocked txID e state res s =
     chan_send txID res (s\<lparr>st_txs := map_put txID (finish_entry state res e) (st_txs s)\<rparr>)"

definition finishPending :: "string \<Rightarrow> State \<Rightarrow> Result \<Rightarrow> Store \<Rightarrow> Store" where
  "finishPending txID state res s =
     (case map_of (st_txs s) txID of
        None \<Rightarrow> s
      | Some e \<Rightarrow>
          if te_result e \<noteq> None \<or> tx_State (te_tx e) \<noteq> StatePending then s
          else finishLocked txID e state res s)"

definition finishClaimed :: "string \<Rightarrow> State \<Rightarrow> Result \<Rightarrow> Store \<Rightarrow> Store \<times> bool" where
  "finishClaimed txID state res s =
     (case map_of (st_txs s) txID of
        None \<Rightarrow> (s, False)
      | Some e \<Rightarrow>
          if te_result e \<noteq> None \<or> tx_State (te_tx e) \<noteq> StateApproving then (s, False)
          else (finishLocked txID e state res s, True))"

definition Deny :: "string \<Rightarrow> Store \<Rightarrow> Store" where
  "Deny txID s = finishPending txID StateDenied (err_Result ErrDenied) s"

definition expire :: "string \<Rightarrow> Store \<Rightarrow> Store" where
  "expire txID s = finishPending txID StateExpired (err_Result ErrTimeout) s"

section \<open>Issuing credentials\<close>

text \<open>The error of \<open>base64\<close> also names the offending position, which is left out here.\<close>

definition issueForTransaction ::
  "ssh_lib \<Rightarrow> gotime \<Rightarrow> Keystore \<Rightarrow> Store \<Rightarrow> Transaction \<Rightarrow> gotime \<Rightarrow> Result result" where
  "issueForTransaction lib now ks s tx until =
     (if signerMode s = SignerModeLocalKey
      then if tx_AgentSignData tx = [] then Inl ErrAgentSignData
           else if st_keySigner s = None then Inl ErrSignerNotReady
           else case StdEncoding_DecodeString (tx_AgentSignData tx) of
                  None \<Rightarrow> Inl (Errorf ''illegal base64 data'')
                | Some data \<Rightarrow>
                    if tx_HostKeyFingerprint tx = [] then Inl ErrAmbiguousSigner
                    else case SignAgent lib ks (tx_HostKeyFingerprint tx) data of
                           Inl err \<Rightarrow> Inl err
                         | Inr blob \<Rightarrow> Inr (zero_Result\<lparr>rs_Signature := StdEncoding_EncodeToString blob,
                                                      rs_ExpiresAt := until\<rparr>)
      else if st_issuer s = None then Inl ErrSignerNotReady
      else case IssueCert lib now ks
                  \<lparr>ir_ClientPubKey = tx_PublicKey tx, ir_TargetUser = tx_TargetUser tx,
                   ir_TargetIP = tx_TargetIP tx, ir_SourceIP = tx_SourceIP tx, ir_ValidUntil = until\<rparr> of
             Inl err \<Rightarrow> Inl err
           | Inr res \<Rightarrow> Inr (zero_Result\<lparr>rs_Cert := is_Certificate res, rs_ExpiresAt := is_ExpiresAt res\<rparr>))"

definition claimApproval :: "string \<Rightarrow> Store \<Rightarrow> Store \<times> Transaction option" where
  "claimApproval txID s =
     (case map_of (st_txs s) txID of
        None \<Rightarrow> (s, None)
      | Some e \<Rightarrow>
          if te_result e \<noteq> None \<or> tx_State (te_tx e) \<noteq> StatePending then (s, None)
          else (let e' = e\<lparr>te_tx := (te_tx e)\<lparr>tx_State := StateApproving\<rparr>\<rparr>
                in (s\<lparr>st_txs := map_put txID e' (st_txs s)\<rparr>, Some (te_tx e'))))"

text \<open>The lease that a successful approval leaves behind.\<close>

definition tx_lookup :: "Transaction \<Rightarrow> LookupKey" where
  "tx_lookup tx = NewLookupKey (tx_ClientCertFP tx) (tx_TargetUser tx) (tx_TargetIP tx) (tx_SourceIP tx)
     (tx_HostKeyFingerprint tx) [tx_DestinationHostKeyFingerprint tx]"

definition put_lease :: "Transaction \<Rightarrow> string \<Rightarrow> gotime \<Rightarrow> Store \<Rightarrow> Store" where
  "put_lease tx approverChatID until s =
     (case st_leases s of
        None \<Rightarrow> s
      | Some leases \<Rightarrow>
          if approverChatID \<noteq> [] \<and> tx_ClientCertFP tx \<noteq> [] \<and> \<not> tx_DisableLease tx
          then s\<lparr>st_leases := Some (lease_Put (NewFullKey (tx_lookup tx) approverChatID) until leases)\<rparr>
          else s)"

definition approveWithIssuer ::
  "ssh_lib \<Rightarrow> gotime \<Rightarrow> gotime \<Rightarrow> Keystore \<Rightarrow> string \<Rightarrow> duration \<Rightarrow> string \<Rightarrow> Store \<Rightarrow> Store" where
  "approveWithIssuer lib now now' ks txID ttl approverChatID s =
     (case claimApproval txID s of
        (s1, None) \<Rightarrow> s1
      | (s1, Some tx) \<Rightarrow>
          (let until = now + ttl
           in case issueForTransaction lib now' ks s1 tx until of
                Inl err \<Rightarrow> fst (finishClaimed txID StateDenied (err_Result err) s1)
              | Inr res \<Rightarrow>
                  (case finishClaimed txID StateApproved (res\<lparr>rs_LeaseExpiresAt := until\<rparr>) s1 of
                     (s2, False) \<Rightarrow> s2
                   | (s2, True) \<Rightarrow> put_lease tx approverChatID until s2)))"

definition Approve ::
  "ssh_lib \<Rightarrow> gotime \<Rightarrow> gotime \<Rightarrow> Keystore \<Rightarrow> string \<Rightarrow> duration \<Rightarrow> string \<Rightarrow> Store \<Rightarrow> Store" where
  "Approve lib now now' ks txID ttl approverChatID s =
     approveWithIssuer lib now now' ks txID (if ttl \<le> 0 then DefaultDevCertTTL else ttl) approverChatID s"

text \<open>The fast path. The clock is read four times: for the lookup, for the remaining time, for
  the expiry of the credential and, in \<open>local-ca\<close> mode, by the issuer.\<close>

definition IssueFromLease ::
  "ssh_lib \<Rightarrow> gotime \<Rightarrow> gotime \<Rightarrow> gotime \<Rightarrow> gotime \<Rightarrow> Keystore \<Rightarrow> LookupKey \<Rightarrow> string \<Rightarrow> string \<Rightarrow> string \<Rightarrow> Store
   \<Rightarrow> Result \<times> bool" where
  "IssueFromLease lib now1 now2 now3 now4 ks lookup publicKey agentSignData hostKeyFP s =
     (case st_leases s of
        None \<Rightarrow> (zero_Result, False)
      | Some leases \<Rightarrow>
          (case lease_FindActive leases lookup now1 of
             (_, False) \<Rightarrow> (zero_Result, False)
           | (act, True) \<Rightarrow>
               (let remaining = lease_Remaining act now2
                in if remaining \<le> 0 then (zero_Result, False)
                   else
                     (let tx = \<lparr>tx_ID = [], tx_TargetUser = lk_TargetUser lookup, tx_TargetIP = lk_TargetIP lookup,
                               tx_PublicKey = publicKey, tx_SourceIP = lk_SourceIP lookup, tx_SourceUser = [],
                               tx_ClientName = [], tx_ClientVersion = [], tx_ClientCertFP = [],
                               tx_AgentSignData = agentSignData, tx_HostKeyFingerprint = hostKeyFP,
                               tx_DestinationHostKeyFingerprint = lk_DestinationHostKeyFingerprint lookup,
                               tx_DestinationHostKeySource = [], tx_DisableLease = False,
                               tx_State = StatePending, tx_CreatedAt = time_zero\<rparr>
                      in case issueForTransaction lib now4 ks s tx (now3 + remaining) of
                           Inl err \<Rightarrow> (err_Result err, False)
                         | Inr res \<Rightarrow> (res\<lparr>rs_LeaseExpiresAt := al_ExpiresAt act\<rparr>, True)))))"

section \<open>Waiting for the result\<close>

datatype waitSlot = SharedChan string | OwnChan Result

definition waitResult :: "string \<Rightarrow> Store \<Rightarrow> Store \<times> waitSlot option" where
  "waitResult txID s =
     (case map_of (st_txs s) txID of
        None \<Rightarrow> (s, None)
      | Some e \<Rightarrow>
          (case te_result e of
             Some res \<Rightarrow> (s, Some (OwnChan res))
           | None \<Rightarrow> (s\<lparr>st_txs := map_put txID (e\<lparr>te_waiters := te_waiters e + 1\<rparr>) (st_txs s)\<rparr>,
                     Some (SharedChan txID))))"

text \<open>A receive: \<open>None\<close> when it would block.\<close>

definition chan_recv :: "waitSlot \<Rightarrow> Store \<Rightarrow> (Store \<times> Result) option" where
  "chan_recv slot s =
     (case slot of
        OwnChan res \<Rightarrow> Some (s, res)
      | SharedChan ch \<Rightarrow>
          (case map_of (st_chans s) ch of
             Some (res # rest) \<Rightarrow> Some (s\<lparr>st_chans := map_put ch rest (st_chans s)\<rparr>, res)
           | _ \<Rightarrow> None))"

definition cancelWait :: "string \<Rightarrow> Store \<Rightarrow> Store" where
  "cancelWait txID s =
     (case map_of (st_txs s) txID of
        None \<Rightarrow> s
      | Some e \<Rightarrow>
          (let e' = e\<lparr>te_waiters := te_waiters e - 1\<rparr>
           in if te_waiters e' \<le> 0 then s\<lparr>st_txs := map_del txID (st_txs s)\<rparr>
              else s\<lparr>st_txs := map_put txID e' (st_txs s)\<rparr>))"

definition remove_tx :: "string \<Rightarrow> Store \<Rightarrow> Store" where
  "remove_tx txID s = s\<lparr>st_txs := map_del txID (st_txs s)\<rparr>"

record wait_answer =
  wa_cert :: string
  wa_signature :: string
  wa_expiresAt :: gotime
  wa_leaseExpiresAt :: gotime

definition answer_of :: "Result \<Rightarrow> wait_answer result" where
  "answer_of r =
     (case rs_Err r of
        Some e \<Rightarrow> Inl e
      | None \<Rightarrow> Inr \<lparr>wa_cert = rs_Cert r, wa_signature = rs_Signature r, wa_expiresAt = rs_ExpiresAt r,
                       wa_leaseExpiresAt = rs_LeaseExpiresAt r\<rparr>)"

text \<open>
  \<open>Wait\<close> with nothing else running: it answers at once when a result is there, and else blocks
  until its context ends. The error of the context is the last argument.
\<close>

definition Wait :: "go_error \<Rightarrow> string \<Rightarrow> Store \<Rightarrow> Store \<times> wait_answer result" where
  "Wait ctx_err txID s =
     (case waitResult txID s of
        (s1, None) \<Rightarrow> (s1, Inl ErrTxNotFound)
      | (s1, Some slot) \<Rightarrow>
          (case chan_recv slot s1 of
             Some (s2, r) \<Rightarrow> (remove_tx txID s2, answer_of r)
           | None \<Rightarrow> (cancelWait txID s1, Inl ctx_err)))"

definition Snapshot :: "string \<Rightarrow> Store \<Rightarrow> Transaction option" where
  "Snapshot txID s = (case map_of (st_txs s) txID of None \<Rightarrow> None | Some e \<Rightarrow> Some (te_tx e))"

definition store_ClientCertFP :: "string \<Rightarrow> Store \<Rightarrow> string \<times> bool" where
  "store_ClientCertFP txID s =
     (case map_of (st_txs s) txID of None \<Rightarrow> ('''', False) | Some e \<Rightarrow> (tx_ClientCertFP (te_tx e), True))"

section \<open>Invariant of the store\<close>

definition entry_ok :: "string \<Rightarrow> txEntry \<Rightarrow> bool" where
  "entry_ok txID e \<longleftrightarrow> tx_ID (te_tx e) = txID
     \<and> (case tx_State (te_tx e) of
          StatePending \<Rightarrow> te_result e = None
        | StateApproving \<Rightarrow> te_result e = None
        | StateApproved \<Rightarrow> (\<exists>r. te_result e = Some r \<and> rs_Err r = None)
        | StateDenied \<Rightarrow> (\<exists>r. te_result e = Some r \<and> rs_Err r \<noteq> None)
        | StateExpired \<Rightarrow> (\<exists>r. te_result e = Some r \<and> rs_Err r \<noteq> None))"

definition approval_inv :: "Store \<Rightarrow> bool" where
  "approval_inv s \<longleftrightarrow> map_wf (st_txs s) \<and> map_wf (st_chans s)
     \<and> (\<forall>txID e. map_of (st_txs s) txID = Some e \<longrightarrow> entry_ok txID e
          \<and> (\<exists>buf. map_of (st_chans s) txID = Some buf \<and> (te_result e = None \<longrightarrow> buf = [])))
     \<and> (case st_leases s of None \<Rightarrow> True | Some ls \<Rightarrow> lease_inv ls)"

text \<open>What the operations do to the lookups.\<close>

lemma txs_chan_send [simp]: "st_txs (chan_send ch r s) = st_txs s"
  and leases_chan_send [simp]: "st_leases (chan_send ch r s) = st_leases s"
  and cfg_chan_send [simp]: "st_cfg (chan_send ch r s) = st_cfg s"
  by (simp_all add: chan_send_def split: option.split list.split)

lemma chans_chan_send:
  "map_of (st_chans (chan_send ch r s)) i =
    (if i = ch \<and> map_of (st_chans s) ch = Some [] then Some [r] else map_of (st_chans s) i)"
  by (auto simp: chan_send_def split: option.split list.split)

lemma wf_chan_send [simp]: "map_wf (st_chans s) \<Longrightarrow> map_wf (st_chans (chan_send ch r s))"
  by (auto simp: chan_send_def split: option.split list.split)

lemma entry_ok_frame [simp]:
  "entry_ok txID (e\<lparr>te_waiters := w\<rparr>) = entry_ok txID e"
  "entry_ok txID (e\<lparr>te_timer := t\<rparr>) = entry_ok txID e"
  by (simp_all add: entry_ok_def split: State.split)

lemma finishLocked_simps [simp]:
  "st_txs (finishLocked txID e state res s) = map_put txID (finish_entry state res e) (st_txs s)"
  "st_leases (finishLocked txID e state res s) = st_leases s"
  "st_cfg (finishLocked txID e state res s) = st_cfg s"
  by (simp_all add: finishLocked_def)

lemma chans_finishLocked:
  "map_of (st_chans (finishLocked txID e state res s)) i =
    (if i = txID \<and> map_of (st_chans s) txID = Some [] then Some [res] else map_of (st_chans s) i)"
  by (simp add: finishLocked_def chans_chan_send)

text \<open>Finishing is compatible with a result when the state says what the result says.\<close>

fun state_fits :: "State \<Rightarrow> Result \<Rightarrow> bool" where
  "state_fits StateApproved r = (rs_Err r = None)"
| "state_fits StateDenied r = (rs_Err r \<noteq> None)"
| "state_fits StateExpired r = (rs_Err r \<noteq> None)"
| "state_fits _ r = False"

lemma err_Result_Err [simp]: "rs_Err (err_Result e) = Some e"
  by (simp add: err_Result_def)

lemma finish_entry_ok: "entry_ok txID e \<Longrightarrow> state_fits state res \<Longrightarrow> entry_ok txID (finish_entry state res e)"
  by (cases state) (auto simp: entry_ok_def finish_entry_def)

lemma finishLocked_inv:
  assumes "approval_inv s" and "map_of (st_txs s) txID = Some e" and "state_fits state res"
  shows "approval_inv (finishLocked txID e state res s)"
proof -
  have "entry_ok txID e" using assms(1,2) by (auto simp: approval_inv_def)
  then have "entry_ok txID (finish_entry state res e)" using assms(3) by (rule finish_entry_ok)
  moreover have "te_result (finish_entry state res e) = Some res" by (simp add: finish_entry_def)
  moreover have "map_wf (st_chans (finishLocked txID e state res s))"
    using assms(1) by (simp add: approval_inv_def finishLocked_def)
  ultimately show ?thesis using assms(1,2)
    by (auto simp: approval_inv_def chans_finishLocked)
qed

lemma finishPending_inv [inv_rules]:
  "approval_inv s \<Longrightarrow> state_fits state res \<Longrightarrow> approval_inv (finishPending txID state res s)"
  by (auto simp: finishPending_def finishLocked_inv split: option.split)

lemma finishClaimed_inv [inv_rules]:
  "approval_inv s \<Longrightarrow> state_fits state res \<Longrightarrow> approval_inv (fst (finishClaimed txID state res s))"
  by (auto simp: finishClaimed_def finishLocked_inv split: option.split)

lemma Deny_inv [inv_rules]: "approval_inv s \<Longrightarrow> approval_inv (Deny txID s)"
  unfolding Deny_def by (rule finishPending_inv) simp_all

lemma expire_inv [inv_rules]: "approval_inv s \<Longrightarrow> approval_inv (expire txID s)"
  unfolding expire_def by (rule finishPending_inv) simp_all

lemma create_locked_inv [inv_rules]: "approval_inv s \<Longrightarrow> approval_inv (create_locked txID now a s)"
  by (auto simp: approval_inv_def create_locked_def entry_ok_def new_transaction_def)

lemma arm_timer_inv [inv_rules]: "approval_inv s \<Longrightarrow> approval_inv (arm_timer txID s)"
  by (auto simp: approval_inv_def arm_timer_def split: option.split)

lemma claimApproval_inv [inv_rules]: "approval_inv s \<Longrightarrow> approval_inv (fst (claimApproval txID s))"
  by (auto simp: approval_inv_def claimApproval_def entry_ok_def Let_def split: option.split)

lemma put_lease_inv [inv_rules]: "approval_inv s \<Longrightarrow> approval_inv (put_lease tx ap until s)"
  by (auto simp: approval_inv_def put_lease_def lease_Put_inv split: option.split)

lemma CreateInstantApproved_inv [inv_rules]:
  "approval_inv s \<Longrightarrow> rs_Err res = None \<Longrightarrow>
     approval_inv (fst (CreateInstantApproved ulid now u ip pk src fp res s))"
  by (auto simp: approval_inv_def CreateInstantApproved_def Let_def entry_ok_def)

lemma waitResult_inv [inv_rules]: "approval_inv s \<Longrightarrow> approval_inv (fst (waitResult txID s))"
  by (auto simp: approval_inv_def waitResult_def split: option.split)

lemma cancelWait_inv [inv_rules]: "approval_inv s \<Longrightarrow> approval_inv (cancelWait txID s)"
  by (auto simp: approval_inv_def cancelWait_def Let_def split: option.split)

lemma remove_tx_inv [inv_rules]: "approval_inv s \<Longrightarrow> approval_inv (remove_tx txID s)"
  by (auto simp: approval_inv_def remove_tx_def)

lemma chan_recv_inv: "approval_inv s \<Longrightarrow> chan_recv slot s = Some (s', r) \<Longrightarrow> approval_inv s'"
  by (fastforce simp: approval_inv_def chan_recv_def split: waitSlot.splits option.splits list.splits)

section \<open>Properties of the operations\<close>

lemma claim_pending:
  assumes "map_of (st_txs s) txID = Some e" and "te_result e = None" and "tx_State (te_tx e) = StatePending"
  shows "claimApproval txID s =
    (s\<lparr>st_txs := map_put txID (e\<lparr>te_tx := (te_tx e)\<lparr>tx_State := StateApproving\<rparr>\<rparr>) (st_txs s)\<rparr>,
     Some ((te_tx e)\<lparr>tx_State := StateApproving\<rparr>))"
  using assms by (simp add: claimApproval_def Let_def)

lemma issue_frame [simp]:
  "issueForTransaction lib now ks (s\<lparr>st_txs := t\<rparr>) tx until = issueForTransaction lib now ks s tx until"
  "issueForTransaction lib now ks s (tx\<lparr>tx_State := st\<rparr>) until = issueForTransaction lib now ks s tx until"
  by (simp_all add: issueForTransaction_def signerMode_def cong: if_cong option.case_cong sum.case_cong)

lemma pending_result: "approval_inv s \<Longrightarrow> map_of (st_txs s) txID = Some e \<Longrightarrow>
    tx_State (te_tx e) = StatePending \<Longrightarrow> te_result e = None \<and> map_of (st_chans s) txID = Some []"
  by (fastforce simp: approval_inv_def entry_ok_def)

text \<open>A finished transaction answers its waiter at once and is then gone.\<close>

lemma Wait_finished:
  assumes "map_of (st_txs s) txID = Some e" and "te_result e = Some r"
  shows "Wait ctx txID s = (remove_tx txID s, answer_of r)"
  using assms by (simp add: Wait_def waitResult_def chan_recv_def)

lemma approve_pending:
  assumes "approval_inv s" and "map_of (st_txs s) txID = Some e" and "tx_State (te_tx e) = StatePending"
    and "issueForTransaction lib now' ks s (te_tx e) (now + ttl) = Inr res"
  shows "approveWithIssuer lib now now' ks txID ttl ap s =
    put_lease ((te_tx e)\<lparr>tx_State := StateApproving\<rparr>) ap (now + ttl)
      (finishLocked txID (e\<lparr>te_tx := (te_tx e)\<lparr>tx_State := StateApproving\<rparr>\<rparr>) StateApproved
        (res\<lparr>rs_LeaseExpiresAt := now + ttl\<rparr>)
        (s\<lparr>st_txs := map_put txID (e\<lparr>te_tx := (te_tx e)\<lparr>tx_State := StateApproving\<rparr>\<rparr>) (st_txs s)\<rparr>))"
proof -
  have "te_result e = None" using pending_result [OF assms(1-3)] by blast
  from claim_pending [OF assms(2) this assms(3)] assms(4) this show ?thesis
    by (simp add: approveWithIssuer_def finishClaimed_def Let_def)
qed

lemma txs_put_lease [simp]: "st_txs (put_lease tx ap u s) = st_txs s"
  by (simp add: put_lease_def split: option.split)

text \<open>
  An approval is answered: approving a pending request whose credential can be issued
  gives its waiter exactly that credential, valid until the approval plus the chosen time,
  after which the transaction is gone; and when leases are on, the client is known and
  leases are not disabled for the request, every lookup with the same client, target,
  source and host keys finds a lease until that same instant.
\<close>

theorem approve_then_wait:
  assumes "approval_inv s" and "map_of (st_txs s) txID = Some e" and "tx_State (te_tx e) = StatePending"
    and "0 < ttl" and "issueForTransaction lib now' ks s (te_tx e) (now + ttl) = Inr res" and "rs_Err res = None"
    and "s' = Approve lib now now' ks txID ttl ap s"
  shows "snd (Wait ctx txID s') = Inr \<lparr>wa_cert = rs_Cert res, wa_signature = rs_Signature res,
           wa_expiresAt = rs_ExpiresAt res, wa_leaseExpiresAt = now + ttl\<rparr>
    \<and> snd (Wait ctx txID (fst (Wait ctx txID s'))) = Inl ErrTxNotFound
    \<and> (st_leases s \<noteq> None \<and> ap \<noteq> [] \<and> tx_ClientCertFP (te_tx e) \<noteq> [] \<and> \<not> tx_DisableLease (te_tx e)
        \<longrightarrow> (\<exists>ls. st_leases s' = Some ls \<and>
              (\<forall>t \<le> now + ttl. \<exists>l. lease_FindActive ls (tx_lookup (te_tx e)) t = (l, True) \<and> now + ttl \<le> al_ExpiresAt l)))"
proof -
  let ?res = "res\<lparr>rs_LeaseExpiresAt := now + ttl\<rparr>"
  let ?e = "e\<lparr>te_tx := (te_tx e)\<lparr>tx_State := StateApproving\<rparr>\<rparr>"
  have s': "s' = put_lease (te_tx ?e) ap (now + ttl) (finishLocked txID ?e StateApproved ?res
      (s\<lparr>st_txs := map_put txID ?e (st_txs s)\<rparr>))"
    using assms(4,7) approve_pending [OF assms(1-3,5)] by (simp add: Approve_def)
  have fin: "map_of (st_txs s') txID = Some (finish_entry StateApproved ?res ?e)"
    by (simp add: s')
  have w: "Wait ctx txID s' = (remove_tx txID s', answer_of ?res)"
    by (rule Wait_finished [OF fin]) (simp add: finish_entry_def)
  then have gone: "snd (Wait ctx txID (fst (Wait ctx txID s'))) = Inl ErrTxNotFound"
    by (simp add: Wait_def waitResult_def remove_tx_def)
  have look: "tx_lookup ((te_tx e)\<lparr>tx_State := StateApproving\<rparr>) = tx_lookup (te_tx e)" by (simp add: tx_lookup_def)
  have lease: "\<exists>ls. st_leases s' = Some ls \<and>
      (\<forall>t \<le> now + ttl. \<exists>l. lease_FindActive ls (tx_lookup (te_tx e)) t = (l, True) \<and> now + ttl \<le> al_ExpiresAt l)"
    if c: "st_leases s \<noteq> None" "ap \<noteq> []" "tx_ClientCertFP (te_tx e) \<noteq> []" "\<not> tx_DisableLease (te_tx e)"
  proof -
    from c(1) obtain ls where ls: "st_leases s = Some ls" by blast
    with assms(1) have inv: "lease_inv ls" by (simp add: approval_inv_def)
    let ?k = "NewFullKey (tx_lookup (te_tx e)) ap"
    have "st_leases s' = Some (lease_Put ?k (now + ttl) ls)"
      using c ls by (simp add: s' put_lease_def look)
    moreover have "fk_LookupKey ?k = tx_lookup (te_tx e)" by (simp add: NewFullKey_def)
    ultimately show ?thesis using leases.put_find [OF inv, of _ "now + ttl" ?k] by simp
  qed
  show ?thesis using w gone lease assms(6) by (simp add: answer_of_def)
qed

definition demo_args :: tx_args where
  "demo_args = \<lparr>ta_targetUser = ''deploy'', ta_targetIP = ''10.0.1.50'', ta_publicKey = ''key'',
     ta_sourceIP = ''203.0.113.10'', ta_clientCertFP = ''cert'', ta_agentSignData = [], ta_hostKeyFP = [],
     ta_destinationHostKeyFP = [], ta_client = \<lparr>cm_SourceUser = [], cm_ClientName = [], cm_ClientVersion = [],
     cm_DestinationHostKeySource = [], cm_DisableLease = False\<rparr>\<rparr>"

definition demo_store :: Store where
  "demo_store = fst (CreateBound ''1'' (700 * second) demo_args
     (SetLeases (Some lease_NewStore) (SetIssuer (Some LocalCA) (approval_NewStore minute))))"

definition demo_entry :: txEntry where
  "demo_entry = \<lparr>te_tx = new_transaction ''tx_1'' (700 * second) demo_args, te_result = None,
     te_timer = Some Armed, te_waiters = 0\<rparr>"

lemma approval_NewStore_inv [inv_rules]: "approval_inv (approval_NewStore timeout)"
  by (simp add: approval_inv_def approval_NewStore_def)

lemma demo_store_inv: "approval_inv demo_store"
proof -
  have "approval_inv (SetLeases (Some lease_NewStore) (SetIssuer (Some LocalCA) (approval_NewStore minute)))"
    by (simp add: approval_inv_def approval_NewStore_def SetLeases_def SetIssuer_def lease_inv_init)
  then show ?thesis unfolding demo_store_def CreateBound_def Let_def fst_conv
    by (intro arm_timer_inv create_locked_inv)
qed

lemma demo_store_tx: "map_of (st_txs demo_store) ''tx_1'' = Some demo_entry"
  "tx_State (te_tx demo_entry) = StatePending" "st_leases demo_store = Some lease_NewStore"
  by (simp_all add: demo_store_def demo_entry_def CreateBound_def Let_def arm_timer_def create_locked_def newTxID_def
      new_transaction_def SetLeases_def SetIssuer_def approval_NewStore_def)

lemma demo_store_issue:
  "issueForTransaction demo_ssh (700 * second) demo_ca demo_store (te_tx demo_entry) (700 * second + minute)
     = Inr (zero_Result\<lparr>rs_Cert := ''cert deploy'', rs_ExpiresAt := 760 * second\<rparr>)"
  by (simp add: issueForTransaction_def demo_store_def demo_entry_def CreateBound_def Let_def arm_timer_def
      create_locked_def newTxID_def new_transaction_def SetLeases_def SetIssuer_def approval_NewStore_def
      signerMode_def zero_Config_def SignerModeLocalKey_def SignerModeLocalCA_def demo_args_def
      IssueCert_def demo_ca_def NewWithMode_def SSHSigner_def demo_ssh_def user_cert_def uint64_def time_Unix_def
      duration_defs)

theorem approve_then_wait_witness:
  "snd (Wait ErrContextCanceled ''tx_1''
     (Approve demo_ssh (700 * second) (700 * second) demo_ca ''tx_1'' minute ''telegram:7'' demo_store))
   = Inr \<lparr>wa_cert = ''cert deploy'', wa_signature = [], wa_expiresAt = 760 * second,
          wa_leaseExpiresAt = 700 * second + minute\<rparr>"
  using approve_then_wait [OF demo_store_inv demo_store_tx(1,2) _ demo_store_issue _ refl]
  by (simp add: zero_Result_def duration_defs)

text \<open>
  A refusal is final: once a pending request is denied, or has expired, no later
  approval changes anything. The waiter gets \<open>ErrDenied\<close>, respectively \<open>ErrTimeout\<close>, and no lease is
  granted, whatever the approver and the chosen time.
\<close>

theorem refusal_is_final:
  assumes "approval_inv s" and "map_of (st_txs s) txID = Some e" and "tx_State (te_tx e) = StatePending"
  shows "Approve lib now now' ks txID ttl ap (Deny txID s) = Deny txID s
    \<and> Approve lib now now' ks txID ttl ap (expire txID s) = expire txID s
    \<and> snd (Wait ctx txID (Deny txID s)) = Inl ErrDenied
    \<and> snd (Wait ctx txID (expire txID s)) = Inl ErrTimeout
    \<and> st_leases (Deny txID s) = st_leases s \<and> st_leases (expire txID s) = st_leases s"
proof -
  have res: "te_result e = None" using pending_result [OF assms] by blast
  have fin: "finishPending txID st r s = finishLocked txID e st r s" for st r
    using assms(2,3) res by (simp add: finishPending_def)
  have entry: "map_of (st_txs (finishLocked txID e st r s)) txID = Some (finish_entry st r e)" for st r
    by simp
  have "claimApproval txID (finishLocked txID e st r s) = (finishLocked txID e st r s, None)" for st r
    by (simp add: claimApproval_def finish_entry_def)
  then have ap: "Approve lib now now' ks txID ttl ap (finishLocked txID e st r s) = finishLocked txID e st r s" for st r
    by (simp add: Approve_def approveWithIssuer_def)
  have "snd (Wait ctx txID (finishLocked txID e st (err_Result er) s)) = Inl er" for st er
    using Wait_finished [OF entry, of st "err_Result er" "err_Result er" ctx]
    by (simp add: finish_entry_def answer_of_def)
  with fin ap show ?thesis by (simp add: Deny_def expire_def)
qed

theorem refusal_is_final_witness:
  "snd (Wait ErrContextCanceled ''tx_1'' (Deny ''tx_1'' demo_store)) = Inl ErrDenied
   \<and> Approve demo_ssh 0 0 demo_ca ''tx_1'' minute ''telegram:7'' (Deny ''tx_1'' demo_store) = Deny ''tx_1'' demo_store"
  using refusal_is_final [OF demo_store_inv demo_store_tx(1,2)] by blast

text \<open>
  The fast path never outruns an approval: a credential is issued without a new
  approval only when an approver granted a lease for exactly this client certificate,
  target user and address, source address, host key and destination key, and that lease
  has not expired. The credential ends with the lease, but for the time that passed between
  the two readings of the clock, and the answer reports the lease's own expiry.
\<close>

theorem lease_fast_path_scope:
  assumes "approval_inv s"
    and "IssueFromLease lib now1 now2 now3 now4 ks lookup pk asd hfp s = (res, True)"
    and "rs_LeaseExpiresAt res - now2 < 2 ^ 63"
  shows "\<exists>ls full. st_leases s = Some ls \<and> fk_LookupKey full = lookup
    \<and> granted ls full = Some (rs_LeaseExpiresAt res)
    \<and> now1 \<le> rs_LeaseExpiresAt res \<and> now2 < rs_LeaseExpiresAt res
    \<and> rs_ExpiresAt res = rs_LeaseExpiresAt res + (now3 - now2) \<and> rs_Err res = None"
proof -
  from assms(2) obtain ls where ls: "st_leases s = Some ls"
    by (auto simp: IssueFromLease_def split: option.splits)
  obtain act found where f: "lease_FindActive ls lookup now1 = (act, found)" by (cases "lease_FindActive ls lookup now1")
  with assms(2) ls have found: "found" by (auto simp: IssueFromLease_def split: bool.splits)
  have inv: "lease_inv ls" using assms(1) ls by (simp add: approval_inv_def)
  from leases.find_sound [OF inv, of lookup now1 act] f found obtain full
    where full: "fk_LookupKey full = lookup" "granted ls full = Some (al_ExpiresAt act)" "now1 \<le> al_ExpiresAt act" by auto
  from assms(2) ls f found obtain tx r where
    r: "\<not> lease_Remaining act now2 \<le> 0"
      "issueForTransaction lib now4 ks s tx (now3 + lease_Remaining act now2) = Inr r"
      "res = r\<lparr>rs_LeaseExpiresAt := al_ExpiresAt act\<rparr>"
    by (auto simp: IssueFromLease_def Let_def split: if_splits sum.splits)
  have e: "rs_LeaseExpiresAt res = al_ExpiresAt act" using r(3) by simp
  have pos: "now2 < al_ExpiresAt act" using r(1)
    by (auto simp: lease_Remaining_def Let_def time_Until_def sat64_def split: if_splits)
  with assms(3) e have rem: "lease_Remaining act now2 = al_ExpiresAt act - now2"
    by (simp add: lease_Remaining_def time_Until_exact)
  have "rs_ExpiresAt r = now3 + lease_Remaining act now2 \<and> rs_Err r = None"
    using r(2) by (auto simp: issueForTransaction_def zero_Result_def IssueCert_def Let_def
        split: if_splits option.splits sum.splits)
  with ls full e pos rem r(3) show ?thesis by auto
qed

text \<open>The demonstration store after its approval, and a second request of the same client.\<close>

definition demo_leased :: Store where
  "demo_leased = Approve demo_ssh (700 * second) (700 * second) demo_ca ''tx_1'' minute ''telegram:7'' demo_store"

lemma demo_leased_inv: "approval_inv demo_leased"
  "st_leases demo_leased = Some (lease_Put (NewFullKey (tx_lookup (te_tx demo_entry)) ''telegram:7'') (700 * second + minute) lease_NewStore)"
proof -
  have l: "demo_leased = put_lease ((te_tx demo_entry)\<lparr>tx_State := StateApproving\<rparr>) ''telegram:7'' (700 * second + minute)
      (finishLocked ''tx_1'' (demo_entry\<lparr>te_tx := (te_tx demo_entry)\<lparr>tx_State := StateApproving\<rparr>\<rparr>) StateApproved
        ((zero_Result\<lparr>rs_Cert := ''cert deploy'', rs_ExpiresAt := 760 * second\<rparr>)\<lparr>rs_LeaseExpiresAt := 700 * second + minute\<rparr>)
        (fst (claimApproval ''tx_1'' demo_store)))"
    using approve_pending [OF demo_store_inv demo_store_tx(1,2) demo_store_issue, of "''telegram:7''"]
      claim_pending [OF demo_store_tx(1) _ demo_store_tx(2)]
    by (simp add: demo_leased_def Approve_def duration_defs) (simp add: demo_entry_def)
  have c: "map_of (st_txs (fst (claimApproval ''tx_1'' demo_store))) ''tx_1'' =
      Some (demo_entry\<lparr>te_tx := (te_tx demo_entry)\<lparr>tx_State := StateApproving\<rparr>\<rparr>)"
    using claim_pending [OF demo_store_tx(1) _ demo_store_tx(2)] by (simp add: demo_entry_def)
  show "approval_inv demo_leased" unfolding l
    by (intro put_lease_inv finishLocked_inv claimApproval_inv demo_store_inv c) (simp add: zero_Result_def)
  show "st_leases demo_leased = Some (lease_Put (NewFullKey (tx_lookup (te_tx demo_entry)) ''telegram:7'') (700 * second + minute) lease_NewStore)"
    unfolding l using claim_pending [OF demo_store_tx(1) _ demo_store_tx(2)] demo_store_tx(3)
    by (simp add: put_lease_def) (simp add: demo_entry_def new_transaction_def demo_args_def tx_lookup_def)
qed

theorem lease_fast_path_scope_witness:
  "\<exists>full. fk_LookupKey full = tx_lookup (te_tx demo_entry)
     \<and> granted (the (st_leases demo_leased)) full = Some (760 * second)"
proof -
  have r: "IssueFromLease demo_ssh (720 * second) (720 * second) (720 * second) (720 * second) demo_ca
      (tx_lookup (te_tx demo_entry)) ''key2'' '''' '''' demo_leased
      = (zero_Result\<lparr>rs_Cert := ''cert deploy'', rs_ExpiresAt := 760 * second, rs_LeaseExpiresAt := 760 * second\<rparr>, True)"
    by code_simp
  from lease_fast_path_scope [OF demo_leased_inv(1) r] demo_leased_inv(2) show ?thesis
    by (auto simp: zero_Result_def second_def)
qed

end
