(* ===== verification/Approval_Run.thy ===== *)
theory Approval_Run
  imports Approval "HOL-Library.Multiset"
begin

text \<open>
  The transaction store under concurrency. Every request handler, approver callback, timer
  and background approval is a goroutine; between two critical sections of the store's
  mutex any other goroutine may run. A state holds the store, the goroutines that are inside
  \<open>approveWithIssuer\<close> or \<open>Wait\<close> with their local variables, and logs that no step reads: the
  approvals that were called, the transactions that were claimed and for which a credential
  was issued, their outcomes, and the answers that were handed to waiters. The keystore
  is arbitrary at every issue, since it is loaded and sealed independently. The step relation has one rule per critical section.
\<close>

section \<open>States\<close>

datatype approver =
    Calling string duration string
  | Claimed string duration string Transaction
  | Issued string gotime string Transaction Result
  | Failed string go_error
  | Leasing string gotime string Transaction

datatype waiter =
    Waiting string waitSlot
  | Received string Result

record run =
  rn_store :: Store
  rn_approvers :: "approver multiset"
  rn_waiters :: "waiter multiset"
  rn_calls :: "approval_call list"
  rn_claims :: "(string \<times> Transaction) list"
  rn_issued :: "string list"
  rn_outcome :: "(string, Result) gomap"
  rn_instant :: "string list"
  rn_delivered :: "(string \<times> Result) list"

definition run_init :: "Store \<Rightarrow> run" where
  "run_init s = \<lparr>rn_store = s, rn_approvers = {#}, rn_waiters = {#}, rn_calls = [], rn_claims = [], rn_issued = [],
     rn_outcome = [], rn_instant = [], rn_delivered = []\<rparr>"

text \<open>The outcome log records the result of a transaction as soon as its entry has one.\<close>

definition note_outcome :: "string \<Rightarrow> Store \<Rightarrow> (string, Result) gomap \<Rightarrow> (string, Result) gomap" where
  "note_outcome txID s m =
     (case map_of (st_txs s) txID of
        None \<Rightarrow> m
      | Some e \<Rightarrow> (case te_result e of None \<Rightarrow> m | Some r \<Rightarrow> map_put txID r m))"

definition calling :: "approval_call \<Rightarrow> approver" where
  "calling c = (case c of (txID, ttl, ap) \<Rightarrow> Calling txID ttl ap)"

section \<open>Steps\<close>

inductive run_step :: "ssh_lib \<Rightarrow> run \<Rightarrow> run \<Rightarrow> bool" for lib where
  create: "map_of (st_chans (rn_store r)) txID = None \<Longrightarrow> txID = newTxID ulid \<Longrightarrow>
    run_step lib r (r\<lparr>rn_store := create_locked txID now a (rn_store r),
      rn_approvers := rn_approvers r + mset (map calling (dev_approvals txID (rn_store r))),
      rn_calls := dev_approvals txID (rn_store r) @ rn_calls r\<rparr>)"
| arm: "run_step lib r (r\<lparr>rn_store := arm_timer txID (rn_store r)\<rparr>)"
| instant: "map_of (st_chans (rn_store r)) (newTxID ulid) = None \<Longrightarrow>
    IssueFromLease lib now1 now2 now3 now4 ks lookup pk asd hfp s0 = (res, True) \<Longrightarrow>
    CreateInstantApproved ulid now u ip pk src fp res (rn_store r) = (s', tx) \<Longrightarrow>
    run_step lib r (r\<lparr>rn_store := s', rn_outcome := note_outcome (newTxID ulid) s' (rn_outcome r),
      rn_instant := newTxID ulid # rn_instant r\<rparr>)"
| call: "run_step lib r (r\<lparr>
      rn_approvers := add_mset (Calling txID (if ttl \<le> 0 then DefaultDevCertTTL else ttl) ap) (rn_approvers r),
      rn_calls := (txID, if ttl \<le> 0 then DefaultDevCertTTL else ttl, ap) # rn_calls r\<rparr>)"
| claim: "rn_approvers r = add_mset (Calling txID ttl ap) as \<Longrightarrow>
    claimApproval txID (rn_store r) = (s', Some tx) \<Longrightarrow>
    run_step lib r (r\<lparr>rn_store := s', rn_approvers := add_mset (Claimed txID ttl ap tx) as,
      rn_claims := (txID, tx) # rn_claims r\<rparr>)"
| claim_lost: "rn_approvers r = add_mset (Calling txID ttl ap) as \<Longrightarrow>
    claimApproval txID (rn_store r) = (s', None) \<Longrightarrow>
    run_step lib r (r\<lparr>rn_store := s', rn_approvers := as\<rparr>)"
| issue: "rn_approvers r = add_mset (Claimed txID ttl ap tx) as \<Longrightarrow>
    issueForTransaction lib now' ks (rn_store r) tx (now + ttl) = Inr res \<Longrightarrow>
    run_step lib r (r\<lparr>rn_approvers :=
      add_mset (Issued txID (now + ttl) ap tx (res\<lparr>rs_LeaseExpiresAt := now + ttl\<rparr>)) as,
      rn_issued := txID # rn_issued r\<rparr>)"
| issue_fail: "rn_approvers r = add_mset (Claimed txID ttl ap tx) as \<Longrightarrow>
    issueForTransaction lib now' ks (rn_store r) tx (now + ttl) = Inl err \<Longrightarrow>
    run_step lib r (r\<lparr>rn_approvers := add_mset (Failed txID err) as\<rparr>)"
| finish: "rn_approvers r = add_mset (Issued txID until ap tx res) as \<Longrightarrow>
    finishClaimed txID StateApproved res (rn_store r) = (s', won) \<Longrightarrow>
    run_step lib r (r\<lparr>rn_store := s',
      rn_approvers := (if won then add_mset (Leasing txID until ap tx) as else as),
      rn_outcome := note_outcome txID s' (rn_outcome r)\<rparr>)"
| finish_fail: "rn_approvers r = add_mset (Failed txID err) as \<Longrightarrow>
    finishClaimed txID StateDenied (err_Result err) (rn_store r) = (s', won) \<Longrightarrow>
    run_step lib r (r\<lparr>rn_store := s', rn_approvers := as,
      rn_outcome := note_outcome txID s' (rn_outcome r)\<rparr>)"
| lease: "rn_approvers r = add_mset (Leasing txID until ap tx) as \<Longrightarrow>
    run_step lib r (r\<lparr>rn_store := put_lease tx ap until (rn_store r), rn_approvers := as\<rparr>)"
| purge: "st_leases (rn_store r) = Some ls \<Longrightarrow>
    run_step lib r (r\<lparr>rn_store := (rn_store r)\<lparr>st_leases := Some (lease_purgeExpired now ls)\<rparr>\<rparr>)"
| deny: "run_step lib r (r\<lparr>rn_store := Deny txID (rn_store r),
      rn_outcome := note_outcome txID (Deny txID (rn_store r)) (rn_outcome r)\<rparr>)"
| expire: "run_step lib r (r\<lparr>rn_store := expire txID (rn_store r),
      rn_outcome := note_outcome txID (expire txID (rn_store r)) (rn_outcome r)\<rparr>)"
| wait: "waitResult txID (rn_store r) = (s', Some slot) \<Longrightarrow>
    run_step lib r (r\<lparr>rn_store := s', rn_waiters := add_mset (Waiting txID slot) (rn_waiters r)\<rparr>)"
| receive: "rn_waiters r = add_mset (Waiting txID slot) ws \<Longrightarrow>
    chan_recv slot (rn_store r) = Some (s', res) \<Longrightarrow>
    run_step lib r (r\<lparr>rn_store := s', rn_waiters := add_mset (Received txID res) ws\<rparr>)"
| deliver: "rn_waiters r = add_mset (Received txID res) ws \<Longrightarrow>
    run_step lib r (r\<lparr>rn_store := remove_tx txID (rn_store r), rn_waiters := ws,
      rn_delivered := (txID, res) # rn_delivered r\<rparr>)"
| cancel: "rn_waiters r = add_mset (Waiting txID slot) ws \<Longrightarrow>
    run_step lib r (r\<lparr>rn_store := cancelWait txID (rn_store r), rn_waiters := ws\<rparr>)"

inductive_cases run_stepE: "run_step lib r r'"

section \<open>Outcomes\<close>

definition out_ok :: "Store \<Rightarrow> (string, Result) gomap \<Rightarrow> bool" where
  "out_ok s m \<longleftrightarrow>
     (\<forall>i e. map_of (st_txs s) i = Some e \<longrightarrow> te_result e = map_of m i)
     \<and> (\<forall>i buf x. map_of (st_chans s) i = Some buf \<longrightarrow> x \<in> set buf \<longrightarrow> map_of m i = Some x)
     \<and> (\<forall>i x. map_of m i = Some x \<longrightarrow> map_of (st_chans s) i \<noteq> None)"

text \<open>A step that creates no result and no channel keeps the outcomes.\<close>

lemma out_ok_frame:
  assumes "out_ok s m"
    and "\<And>i e'. map_of (st_txs s') i = Some e' \<Longrightarrow> \<exists>e. map_of (st_txs s) i = Some e \<and> te_result e' = te_result e"
    and "\<And>i buf'. map_of (st_chans s') i = Some buf' \<Longrightarrow> \<exists>buf. map_of (st_chans s) i = Some buf \<and> set buf' \<subseteq> set buf"
    and "\<And>i. map_of (st_chans s) i \<noteq> None \<Longrightarrow> map_of (st_chans s') i \<noteq> None"
  shows "out_ok s' m"
proof -
  have "te_result e' = map_of m i" if "map_of (st_txs s') i = Some e'" for i e'
    using assms(2) [OF that] assms(1) by (auto simp: out_ok_def)
  moreover have "map_of m i = Some x" if "map_of (st_chans s') i = Some b" "x \<in> set b" for i b x
    using assms(3) [OF that(1)] that(2) assms(1) by (auto simp: out_ok_def)
  moreover have "map_of (st_chans s') i \<noteq> None" if "map_of m i = Some x" for i x
    using assms(4) [of i] that assms(1) by (auto simp: out_ok_def)
  ultimately show ?thesis unfolding out_ok_def by blast
qed

lemma out_ok_arm: "out_ok s m \<Longrightarrow> out_ok (arm_timer txID s) m"
  by (erule out_ok_frame) (auto simp: arm_timer_def split: option.splits if_splits)

lemma out_ok_claim: "out_ok s m \<Longrightarrow> out_ok (fst (claimApproval txID s)) m"
  by (erule out_ok_frame) (auto simp: claimApproval_def Let_def split: option.splits if_splits)

lemma out_ok_put_lease: "out_ok s m \<Longrightarrow> out_ok (put_lease tx ap u s) m"
  by (erule out_ok_frame) (auto simp: put_lease_def split: option.splits if_splits)

lemma out_ok_waitResult: "out_ok s m \<Longrightarrow> out_ok (fst (waitResult txID s)) m"
  by (erule out_ok_frame) (auto simp: waitResult_def split: option.splits if_splits)

lemma out_ok_cancel: "out_ok s m \<Longrightarrow> out_ok (cancelWait txID s) m"
  by (erule out_ok_frame) (auto simp: cancelWait_def Let_def split: option.splits if_splits)

lemma out_ok_leases [simp]: "out_ok (s\<lparr>st_leases := l\<rparr>) m = out_ok s m"
  by (simp add: out_ok_def)

lemma purge_approval_inv: "approval_inv s \<Longrightarrow> st_leases s = Some ls \<Longrightarrow>
    approval_inv (s\<lparr>st_leases := Some (lease_purgeExpired now ls)\<rparr>)"
  by (simp add: approval_inv_def lease_purge_inv)

lemma out_ok_remove: "out_ok s m \<Longrightarrow> out_ok (remove_tx txID s) m"
  by (erule out_ok_frame) (auto simp: remove_tx_def split: if_splits)

lemma out_ok_recv: "out_ok s m \<Longrightarrow> chan_recv slot s = Some (s', x) \<Longrightarrow> out_ok s' m"
  by (erule out_ok_frame)
    (auto simp: chan_recv_def split: waitSlot.splits option.splits list.splits if_splits)

lemma out_ok_create:
  assumes "out_ok s m" and "map_of (st_chans s) txID = None"
  shows "out_ok (create_locked txID now a s) m"
proof -
  let ?s = "create_locked txID now a s"
  have "map_of m txID = None" using assms by (cases "map_of m txID") (auto simp: out_ok_def)
  then have "te_result e' = map_of m i" if "map_of (st_txs ?s) i = Some e'" for i e'
    using that assms(1) by (auto simp: out_ok_def create_locked_def split: if_splits)
  moreover have "map_of m i = Some x" if "map_of (st_chans ?s) i = Some b" "x \<in> set b" for i b x
    using that assms(1) by (auto simp: out_ok_def create_locked_def split: if_splits)
  moreover have "map_of (st_chans ?s) i \<noteq> None" if "map_of m i = Some x" for i x
    using that assms(1) by (auto simp: out_ok_def create_locked_def)
  ultimately show ?thesis unfolding out_ok_def by blast
qed

definition map_extends :: "(string, Result) gomap \<Rightarrow> (string, Result) gomap \<Rightarrow> bool" where
  "map_extends m m' \<longleftrightarrow> (\<forall>i x. map_of m i = Some x \<longrightarrow> map_of m' i = Some x)"

lemma map_extends_refl [simp]: "map_extends m m"
  by (simp add: map_extends_def)

lemma map_extendsD: "map_extends m m' \<Longrightarrow> map_of m i = Some x \<Longrightarrow> map_of m' i = Some x"
  by (simp add: map_extends_def)

text \<open>Finishing an entry that has no result yet adds its outcome.\<close>

lemma finishLocked_out_ok:
  assumes "approval_inv s" and "out_ok s m" and "map_of (st_txs s) txID = Some e" and "te_result e = None"
  shows "out_ok (finishLocked txID e st r s) (note_outcome txID (finishLocked txID e st r s) m)"
    and "map_extends m (note_outcome txID (finishLocked txID e st r s) m)"
proof -
  let ?m = "note_outcome txID (finishLocked txID e st r s) m"
  have m: "?m = map_put txID r m" by (simp add: note_outcome_def finish_entry_def)
  have none: "map_of m txID = None" using assms(2,3,4) by (auto simp: out_ok_def)
  then show "map_extends m ?m" unfolding m by (auto simp: map_extends_def)
  have buf: "map_of (st_chans s) txID = Some []" using assms(1,3,4) by (auto simp: approval_inv_def)
  have "te_result e' = map_of ?m i" if "map_of (st_txs (finishLocked txID e st r s)) i = Some e'" for i e'
    using that assms(2) by (auto simp: m out_ok_def finish_entry_def split: if_splits)
  moreover have "map_of ?m i = Some x"
    if "map_of (st_chans (finishLocked txID e st r s)) i = Some b" "x \<in> set b" for i b x
    using that assms(2) buf by (auto simp: m out_ok_def chans_finishLocked split: if_splits)
  moreover have "map_of (st_chans (finishLocked txID e st r s)) i \<noteq> None" if "map_of ?m i = Some x" for i x
    using that assms(2) buf by (auto simp: m out_ok_def chans_finishLocked split: if_splits)
  ultimately show "out_ok (finishLocked txID e st r s) ?m" unfolding out_ok_def by blast
qed

lemma note_outcome_idle: "out_ok s m \<Longrightarrow> map_of (note_outcome txID s m) = map_of m"
  by (force simp: note_outcome_def out_ok_def fun_eq_iff split: option.split)

lemma out_ok_cong: "map_of m = map_of m' \<Longrightarrow> out_ok s m \<longleftrightarrow> out_ok s m'"
  by (simp add: out_ok_def)

lemma note_outcome_unchanged:
  assumes "out_ok s m"
  shows "out_ok s (note_outcome txID s m)" and "map_extends m (note_outcome txID s m)"
  using assms note_outcome_idle [OF assms] out_ok_cong [of m "note_outcome txID s m" s]
  by (simp_all add: map_extends_def)

lemma finishPending_out_ok:
  assumes "approval_inv s" and "out_ok s m"
  shows "out_ok (finishPending txID st r s) (note_outcome txID (finishPending txID st r s) m)"
    and "map_extends m (note_outcome txID (finishPending txID st r s) m)"
  using finishLocked_out_ok [OF assms] note_outcome_unchanged [OF assms(2)]
  by (auto simp: finishPending_def split: option.split)

lemma finishClaimed_out_ok:
  assumes "approval_inv s" and "out_ok s m" and "finishClaimed txID st r s = (s', won)"
  shows "out_ok s' (note_outcome txID s' m)" and "map_extends m (note_outcome txID s' m)"
  using finishLocked_out_ok [OF assms(1,2)] note_outcome_unchanged [OF assms(2)] assms(3)
  by (auto simp: finishClaimed_def split: option.splits if_splits)

lemma instant_out_ok:
  assumes "out_ok s m" and "map_of (st_chans s) (newTxID ulid) = None"
    and "CreateInstantApproved ulid now u ip pk src fp res s = (s', tx)"
  shows "out_ok s' (note_outcome (newTxID ulid) s' m)" and "map_extends m (note_outcome (newTxID ulid) s' m)"
proof -
  have s': "st_txs s' = map_put (newTxID ulid) \<lparr>te_tx = tx, te_result = Some res, te_timer = None, te_waiters = 0\<rparr> (st_txs s)"
    "st_chans s' = map_put (newTxID ulid) [res] (st_chans s)"
    using assms(3) by (auto simp: CreateInstantApproved_def Let_def)
  then have m: "note_outcome (newTxID ulid) s' m = map_put (newTxID ulid) res m" by (simp add: note_outcome_def)
  show "map_extends m (note_outcome (newTxID ulid) s' m)"
    using assms(1,2) unfolding m by (auto simp: map_extends_def out_ok_def)
  show "out_ok s' (note_outcome (newTxID ulid) s' m)"
    using assms(1) unfolding m out_ok_def s' by auto
qed

section \<open>One outcome for each transaction\<close>

definition waiters_ok :: "(string, Result) gomap \<Rightarrow> waiter multiset \<Rightarrow> bool" where
  "waiters_ok m ws \<longleftrightarrow>
     (\<forall>i slot. Waiting i slot \<in># ws \<longrightarrow> slot = SharedChan i \<or> (\<exists>x. slot = OwnChan x \<and> map_of m i = Some x))
     \<and> (\<forall>i x. Received i x \<in># ws \<longrightarrow> map_of m i = Some x)"

definition delivered_ok :: "(string, Result) gomap \<Rightarrow> (string \<times> Result) list \<Rightarrow> bool" where
  "delivered_ok m ds \<longleftrightarrow> (\<forall>i x. (i, x) \<in> set ds \<longrightarrow> map_of m i = Some x)"

fun issued_fits :: "approver \<Rightarrow> bool" where
  "issued_fits (Issued i u ap tx x) = (rs_Err x = None)"
| "issued_fits _ = True"

definition issued_ok :: "approver multiset \<Rightarrow> bool" where
  "issued_ok as \<longleftrightarrow> (\<forall>a \<in># as. issued_fits a)"

definition out_inv :: "run \<Rightarrow> bool" where
  "out_inv r \<longleftrightarrow> approval_inv (rn_store r) \<and> out_ok (rn_store r) (rn_outcome r)
     \<and> waiters_ok (rn_outcome r) (rn_waiters r) \<and> delivered_ok (rn_outcome r) (rn_delivered r)
     \<and> issued_ok (rn_approvers r)"

lemma waiters_ok_mono: "waiters_ok m ws \<Longrightarrow> map_extends m m' \<Longrightarrow> waiters_ok m' ws"
  unfolding waiters_ok_def map_extends_def by blast

lemma delivered_ok_mono: "delivered_ok m ds \<Longrightarrow> map_extends m m' \<Longrightarrow> delivered_ok m' ds"
  unfolding delivered_ok_def map_extends_def by blast

lemma issue_no_err: "issueForTransaction lib now ks s tx u = Inr res \<Longrightarrow> rs_Err res = None"
  by (auto simp: issueForTransaction_def zero_Result_def split: if_splits option.splits sum.splits)

lemma fast_path_no_err: "IssueFromLease lib n1 n2 n3 n4 ks lk pk asd hfp s = (res, True) \<Longrightarrow> rs_Err res = None"
  by (auto simp: IssueFromLease_def Let_def dest: issue_no_err
      split: option.splits prod.splits bool.splits if_splits sum.splits)

lemma issued_ok_calls [simp]: "issued_ok (as + image_mset calling cs) = issued_ok as"
  by (auto simp: issued_ok_def calling_def split: prod.splits)

lemma issued_ok_simps [simp]:
  "issued_ok (add_mset (Calling i t ap) as) = issued_ok as"
  "issued_ok (add_mset (Claimed i t ap tx) as) = issued_ok as"
  "issued_ok (add_mset (Failed i er) as) = issued_ok as"
  "issued_ok (add_mset (Leasing i u ap tx) as) = issued_ok as"
  "issued_ok (add_mset (Issued i u ap tx x) as) \<longleftrightarrow> rs_Err x = None \<and> issued_ok as"
  by (auto simp: issued_ok_def)

lemma waiters_ok_simps [simp]:
  "waiters_ok m (add_mset (Waiting i slot) ws) \<longleftrightarrow>
     (slot = SharedChan i \<or> (\<exists>x. slot = OwnChan x \<and> map_of m i = Some x)) \<and> waiters_ok m ws"
  "waiters_ok m (add_mset (Received i x) ws) \<longleftrightarrow> map_of m i = Some x \<and> waiters_ok m ws"
  by (auto simp: waiters_ok_def)

lemma delivered_ok_Cons [simp]: "delivered_ok m ((i, x) # ds) \<longleftrightarrow> map_of m i = Some x \<and> delivered_ok m ds"
  by (auto simp: delivered_ok_def)

lemma waitResult_slot:
  assumes "out_ok s m" and "waitResult txID s = (s', Some slot)"
  shows "slot = SharedChan txID \<or> (\<exists>x. slot = OwnChan x \<and> map_of m txID = Some x)"
proof -
  from assms(2) obtain e where e: "map_of (st_txs s) txID = Some e" by (auto simp: waitResult_def split: option.splits)
  with assms(1) have "te_result e = map_of m txID" by (simp add: out_ok_def)
  with assms(2) e show ?thesis by (auto simp: waitResult_def split: option.splits)
qed

lemma chan_recv_outcome:
  assumes "out_ok s m" and "slot = SharedChan i \<or> (\<exists>x. slot = OwnChan x \<and> map_of m i = Some x)"
    and "chan_recv slot s = Some (s', x)"
  shows "map_of m i = Some x"
  using assms by (auto simp: chan_recv_def out_ok_def split: waitSlot.splits option.splits list.splits)

lemma out_inv_step:
  assumes "run_step lib r r'" and "out_inv r"
  shows "out_inv r' \<and> map_extends (rn_outcome r) (rn_outcome r')"
proof -
  have inv: "approval_inv (rn_store r)" and out: "out_ok (rn_store r) (rn_outcome r)"
    and ws: "waiters_ok (rn_outcome r) (rn_waiters r)" and ds: "delivered_ok (rn_outcome r) (rn_delivered r)"
    and iss: "issued_ok (rn_approvers r)"
    using assms(2) by (auto simp: out_inv_def)
  from assms(1) show ?thesis
  proof (cases rule: run_step.cases)
    case (instant ulid now1 now2 now3 now4 ks lookup pk asd hfp s0 res now u ip src fp s' tx)
    have "approval_inv s'"
      using CreateInstantApproved_inv [OF inv fast_path_no_err [OF instant(3)]] instant(4) by (metis fst_conv)
    with instant(1) instant_out_ok [OF out instant(2,4)] ws ds iss show ?thesis
      by (auto simp: out_inv_def intro: waiters_ok_mono delivered_ok_mono)
  next
    case (claim txID ttl ap as s' tx)
    with out_ok_claim [OF out, of txID] claimApproval_inv [OF inv, of txID] ws ds iss show ?thesis
      by (simp add: out_inv_def)
  next
    case (claim_lost txID ttl ap as s')
    with out_ok_claim [OF out, of txID] claimApproval_inv [OF inv, of txID] ws ds iss show ?thesis
      by (simp add: out_inv_def)
  next
    case (finish txID until ap tx res as s' won)
    have e: "rs_Err res = None" using iss finish(2) by simp
    have "approval_inv s'" using finishClaimed_inv [OF inv, of StateApproved res txID] finish(3) e by simp
    with finish finishClaimed_out_ok [OF inv out finish(3)] ws ds iss show ?thesis
      by (auto simp: out_inv_def intro: waiters_ok_mono delivered_ok_mono)
  next
    case (finish_fail txID err as s' won)
    have "approval_inv s'" using finishClaimed_inv [OF inv, of StateDenied "err_Result err" txID] finish_fail(3) by simp
    with finish_fail finishClaimed_out_ok [OF inv out finish_fail(3)] ws ds iss show ?thesis
      by (auto simp: out_inv_def intro: waiters_ok_mono delivered_ok_mono)
  next
    case (deny txID)
    with finishPending_out_ok [OF inv out, folded Deny_def] Deny_inv [OF inv] ws ds iss show ?thesis
      by (auto simp: out_inv_def Deny_def intro: waiters_ok_mono delivered_ok_mono finishPending_out_ok inv out)
  next
    case (expire txID)
    with finishPending_out_ok [OF inv out] expire_inv [OF inv] ws ds iss show ?thesis
      by (auto simp: out_inv_def expire_def intro: waiters_ok_mono delivered_ok_mono)
  next
    case (wait txID s' slot)
    with out_ok_waitResult [OF out, of txID] waitResult_inv [OF inv, of txID] waitResult_slot [OF out wait(2)]
      ws ds iss show ?thesis by (simp add: out_inv_def)
  next
    case (receive txID slot ws' s' res)
    with ws chan_recv_outcome [OF out _ receive(3), of txID] out_ok_recv [OF out receive(3)]
      chan_recv_inv [OF inv receive(3)] ds iss show ?thesis by (simp add: out_inv_def)
  qed (use inv out ws ds iss in \<open>auto simp: out_inv_def intro!: inv_rules out_ok_create out_ok_arm out_ok_put_lease
      out_ok_remove out_ok_cancel purge_approval_inv dest: issue_no_err\<close>)
qed

section \<open>Who claims, issues and grants\<close>

fun holds :: "string \<Rightarrow> approver \<Rightarrow> bool" where
  "holds i (Calling j t ap) = False"
| "holds i (Claimed j t ap tx) = (i = j)"
| "holds i (Issued j u ap tx x) = (i = j)"
| "holds i (Failed j er) = (i = j)"
| "holds i (Leasing j u ap tx) = (i = j)"

definition called :: "run \<Rightarrow> string \<Rightarrow> string \<Rightarrow> bool" where
  "called r i ap \<longleftrightarrow> (\<exists>t. (i, t, ap) \<in> set (rn_calls r))"

definition approved_until :: "run \<Rightarrow> string \<Rightarrow> gotime \<Rightarrow> bool" where
  "approved_until r i u \<longleftrightarrow> (\<exists>x. map_of (rn_outcome r) i = Some x \<and> rs_Err x = None \<and> rs_LeaseExpiresAt x = u)"

fun known :: "run \<Rightarrow> approver \<Rightarrow> bool" where
  "known r (Calling i t ap) = called r i ap"
| "known r (Claimed i t ap tx) = (called r i ap \<and> (i, tx) \<in> set (rn_claims r) \<and> i \<notin> set (rn_issued r))"
| "known r (Issued i u ap tx x) =
     (called r i ap \<and> (i, tx) \<in> set (rn_claims r) \<and> i \<in> set (rn_issued r) \<and> rs_Err x = None \<and> rs_LeaseExpiresAt x = u)"
| "known r (Failed i er) = (i \<in> fst ` set (rn_claims r))"
| "known r (Leasing i u ap tx) = (called r i ap \<and> (i, tx) \<in> set (rn_claims r) \<and> approved_until r i u)"

definition pending_tx :: "Store \<Rightarrow> string \<Rightarrow> bool" where
  "pending_tx s i \<longleftrightarrow> (\<exists>e. map_of (st_txs s) i = Some e \<and> tx_State (te_tx e) = StatePending)"

definition claims_ok :: "run \<Rightarrow> bool" where
  "claims_ok r \<longleftrightarrow> distinct (map fst (rn_claims r))
     \<and> (\<forall>i \<in> fst ` set (rn_claims r). map_of (st_chans (rn_store r)) i \<noteq> None \<and> \<not> pending_tx (rn_store r) i)"

definition approvers_ok :: "run \<Rightarrow> bool" where
  "approvers_ok r \<longleftrightarrow> (\<forall>i. size (filter_mset (holds i) (rn_approvers r)) \<le> 1) \<and> (\<forall>a \<in># rn_approvers r. known r a)"

definition issues_ok :: "run \<Rightarrow> bool" where
  "issues_ok r \<longleftrightarrow> distinct (rn_issued r) \<and> set (rn_issued r) \<subseteq> fst ` set (rn_claims r)
     \<and> (\<forall>i x. map_of (rn_outcome r) i = Some x \<and> rs_Err x = None \<longrightarrow>
          i \<in> set (rn_instant r) \<or> i \<in> set (rn_issued r) \<and> (\<exists>ap. called r i ap))"

lemma known_holds: "known r a \<Longrightarrow> holds i a \<Longrightarrow> i \<in> fst ` set (rn_claims r)"
  by (cases a) force+

text \<open>What the operations do to pending transactions and channels.\<close>

lemma chans_ops [simp]:
  "st_chans (arm_timer txID s) = st_chans s"
  "st_chans (put_lease tx ap u s) = st_chans s"
  "st_chans (remove_tx txID s) = st_chans s"
  "st_chans (cancelWait txID s) = st_chans s"
  "st_chans (fst (claimApproval txID s)) = st_chans s"
  "st_chans (fst (waitResult txID s)) = st_chans s"
  by (simp_all add: arm_timer_def put_lease_def remove_tx_def cancelWait_def claimApproval_def waitResult_def Let_def
      split: option.split)

lemma pending_ops [simp]:
  "pending_tx (arm_timer txID s) i = pending_tx s i"
  "pending_tx (put_lease tx ap u s) i = pending_tx s i"
  "pending_tx (create_locked txID now a s) i = (i = txID \<or> pending_tx s i)"
  "pending_tx (remove_tx txID s) i = (i \<noteq> txID \<and> pending_tx s i)"
  "pending_tx (fst (waitResult txID s)) i = pending_tx s i"
  by (auto simp: pending_tx_def arm_timer_def create_locked_def new_transaction_def remove_tx_def waitResult_def
      split: option.split)

lemma pending_leases [simp]: "pending_tx (s\<lparr>st_leases := l\<rparr>) i = pending_tx s i"
  by (simp add: pending_tx_def)

lemma pending_cancel: "pending_tx (cancelWait txID s) i \<Longrightarrow> pending_tx s i"
  by (auto simp: pending_tx_def cancelWait_def Let_def split: option.splits if_splits)

lemma pending_recv: "chan_recv slot s = Some (s', x) \<Longrightarrow> pending_tx s' i = pending_tx s i"
  by (auto simp: pending_tx_def chan_recv_def split: waitSlot.splits option.splits list.splits)

lemma chans_recv: "chan_recv slot s = Some (s', x) \<Longrightarrow> map_of (st_chans s') i = None \<longleftrightarrow> map_of (st_chans s) i = None"
  by (auto simp: chan_recv_def split: waitSlot.splits option.splits list.splits if_splits)

lemma pending_finishPending: "st \<noteq> StatePending \<Longrightarrow> pending_tx (finishPending txID st x s) i \<Longrightarrow> pending_tx s i"
  by (auto simp: pending_tx_def finishPending_def finish_entry_def split: option.splits if_splits)

lemma pending_Deny: "pending_tx (Deny txID s) i \<Longrightarrow> pending_tx s i"
  unfolding Deny_def by (erule pending_finishPending [rotated 1]) simp

lemma pending_expire: "pending_tx (expire txID s) i \<Longrightarrow> pending_tx s i"
  unfolding expire_def by (erule pending_finishPending [rotated 1]) simp

lemma pending_finishClaimed:
  "finishClaimed txID st x s = (s', won) \<Longrightarrow> st \<noteq> StatePending \<Longrightarrow> pending_tx s' i \<Longrightarrow> pending_tx s i"
  by (auto simp: pending_tx_def finishClaimed_def finish_entry_def split: option.splits if_splits)

lemma chans_finishPending: "map_of (st_chans (finishPending txID st x s)) i = None \<longleftrightarrow> map_of (st_chans s) i = None"
  by (auto simp: finishPending_def chans_finishLocked split: option.split)

lemma chans_refused:
  "map_of (st_chans (Deny txID s)) i = None \<longleftrightarrow> map_of (st_chans s) i = None"
  "map_of (st_chans (expire txID s)) i = None \<longleftrightarrow> map_of (st_chans s) i = None"
  by (simp_all add: Deny_def expire_def chans_finishPending)

lemma chans_finishClaimed:
  "finishClaimed txID st x s = (s', won) \<Longrightarrow> map_of (st_chans s') i = None \<longleftrightarrow> map_of (st_chans s) i = None"
  by (auto simp: finishClaimed_def chans_finishLocked split: option.splits if_splits)

lemma claim_Some:
  assumes "claimApproval txID s = (s', Some tx)"
  shows "pending_tx s txID" and "\<not> pending_tx s' txID" and "pending_tx s' i \<Longrightarrow> pending_tx s i"
    and "st_chans s' = st_chans s" and "map_of (st_txs s) txID \<noteq> None"
  using assms by (auto simp: claimApproval_def pending_tx_def Let_def split: option.splits if_splits)

lemma claim_None: "claimApproval txID s = (s', None) \<Longrightarrow> s' = s"
  by (auto simp: claimApproval_def Let_def split: option.splits if_splits)

lemma instant_txs:
  assumes "CreateInstantApproved ulid now u ip pk src fp res s = (s', tx)"
  shows "pending_tx s' i \<Longrightarrow> pending_tx s i" and "map_of (st_chans s') i = (if i = newTxID ulid then Some [res] else map_of (st_chans s) i)"
  using assms by (auto simp: CreateInstantApproved_def pending_tx_def Let_def split: if_splits)

lemma claims_ok_step:
  assumes "run_step lib r r'" and "claims_ok r" and "approval_inv (rn_store r)"
  shows "claims_ok r'"
proof -
  have frame: "claims_ok r'"
    if "rn_claims r' = rn_claims r"
      "\<And>i. pending_tx (rn_store r') i \<Longrightarrow> pending_tx (rn_store r) i \<or> map_of (st_chans (rn_store r)) i = None"
      "\<And>i. map_of (st_chans (rn_store r)) i \<noteq> None \<Longrightarrow> map_of (st_chans (rn_store r')) i \<noteq> None"
    using that assms(2) unfolding claims_ok_def by metis
  from assms(1) show ?thesis
  proof (cases rule: run_step.cases)
    case (create txID ulid now a)
    then show ?thesis by (intro frame) (auto simp: create_locked_def pending_ops(3) [unfolded create_locked_def])
  next
    case (instant ulid now1 now2 now3 now4 ks lookup pk asd hfp s0 res now u ip src fp s' tx)
    with instant_txs [OF instant(4)] show ?thesis by (intro frame) auto
  next
    case (claim txID ttl ap as s' tx)
    note c = claim_Some [OF claim(3)]
    have "txID \<notin> fst ` set (rn_claims r)" using assms(2) c(1) unfolding claims_ok_def by blast
    moreover have "map_of (st_chans (rn_store r)) txID \<noteq> None"
      using c(5) assms(3) by (auto simp: approval_inv_def)
    ultimately show ?thesis using assms(2) claim(1) c by (auto simp: claims_ok_def)
  next
    case (claim_lost txID ttl ap as s')
    with claim_None [OF claim_lost(3)] show ?thesis by (intro frame) auto
  next
    case (finish txID until ap tx res as s' won)
    with pending_finishClaimed [OF finish(3)] chans_finishClaimed [OF finish(3)] show ?thesis by (intro frame) auto
  next
    case (finish_fail txID err as s' won)
    with pending_finishClaimed [OF finish_fail(3)] chans_finishClaimed [OF finish_fail(3)] show ?thesis
      by (intro frame) auto
  next
    case (deny txID)
    then show ?thesis
      by (intro frame) (auto simp: chans_refused dest: pending_Deny)
  next
    case (expire txID)
    then show ?thesis
      by (intro frame) (auto simp: chans_refused dest: pending_expire)
  next
    case (wait txID s' slot)
    have "pending_tx s' i = pending_tx (rn_store r) i" "st_chans s' = st_chans (rn_store r)" for i
      using pending_ops(5) chans_ops(6) wait(2) by (metis fst_conv)+
    with wait(1) show ?thesis by (intro frame) auto
  next
    case (receive txID slot ws' s' res)
    with pending_recv [OF receive(3)] chans_recv [OF receive(3)] show ?thesis by (intro frame) auto
  next
    case (cancel txID slot ws')
    then show ?thesis by (intro frame) (auto dest: pending_cancel)
  qed (rule frame; simp)+
qed

text \<open>Facts about an approver stay true when the logs grow.\<close>

lemma known_mono:
  assumes "known r a" and "set (rn_calls r) \<subseteq> set (rn_calls r')" and "set (rn_claims r) \<subseteq> set (rn_claims r')"
    and "set (rn_issued r) \<subseteq> set (rn_issued r')"
    and "\<And>i t ap tx. a = Claimed i t ap tx \<Longrightarrow> i \<notin> set (rn_issued r) \<Longrightarrow> i \<notin> set (rn_issued r')"
    and "map_extends (rn_outcome r) (rn_outcome r')"
  shows "known r' a"
proof -
  have c: "called r i ap \<Longrightarrow> called r' i ap" for i ap using assms(2) by (auto simp: called_def)
  have u: "approved_until r i u \<Longrightarrow> approved_until r' i u" for i u
    using assms(6) by (auto simp: approved_until_def map_extends_def)
  show ?thesis using assms(1,3,4,5) c u by (cases a) auto
qed

lemma one_holder:
  assumes "size (filter_mset (holds i) (add_mset a as)) \<le> 1" and "holds i a" and "b \<in># as"
  shows "\<not> holds i b"
  using assms by auto

lemma approvers_ok_replace:
  assumes "approvers_ok r" and "rn_approvers r = add_mset a as" and "rn_approvers r' = add_mset b as"
    and "\<And>i. holds i b \<Longrightarrow> holds i a" and "known r' b" and "\<And>c. c \<in># as \<Longrightarrow> known r c \<Longrightarrow> known r' c"
  shows "approvers_ok r'"
proof -
  have "size (filter_mset (holds i) (add_mset b as)) \<le> size (filter_mset (holds i) (add_mset a as))" for i
    using assms(4) [of i] by auto
  then have "size (filter_mset (holds i) (rn_approvers r')) \<le> 1" for i
    using assms(1-3) unfolding approvers_ok_def by (metis order.trans)
  moreover have "\<forall>c \<in># rn_approvers r'. known r' c"
    using assms(1-3,5,6) by (auto simp: approvers_ok_def)
  ultimately show ?thesis by (simp add: approvers_ok_def)
qed

lemma approvers_ok_drop:
  assumes "approvers_ok r" and "rn_approvers r = add_mset a as" and "rn_approvers r' = as"
    and "\<And>c. c \<in># as \<Longrightarrow> known r c \<Longrightarrow> known r' c"
  shows "approvers_ok r'"
proof -
  have "size (filter_mset (holds i) as) \<le> size (filter_mset (holds i) (add_mset a as))" for i by auto
  then have "size (filter_mset (holds i) (rn_approvers r')) \<le> 1" for i
    using assms(1-3) unfolding approvers_ok_def by (metis order.trans)
  then show ?thesis using assms by (simp add: approvers_ok_def)
qed

lemma approvers_ok_same:
  assumes "approvers_ok r" and "rn_approvers r' = rn_approvers r" and "\<And>c. known r c \<Longrightarrow> known r' c"
  shows "approvers_ok r'"
  using assms by (simp add: approvers_ok_def)

lemma finishClaimed_won:
  assumes "finishClaimed txID st x s = (s', True)"
  shows "map_of (note_outcome txID s' m) txID = Some x"
  using assms by (auto simp: finishClaimed_def note_outcome_def finish_entry_def split: option.splits if_splits)

lemma approvers_ok_step:
  assumes "run_step lib r r'" and "approvers_ok r" and "claims_ok r" and "out_inv r" and "issues_ok r"
  shows "approvers_ok r'"
proof -
  have ext: "map_extends (rn_outcome r) (rn_outcome r')" using out_inv_step [OF assms(1,4)] by simp
  have same: "approvers_ok r'"
    if "rn_approvers r' = rn_approvers r" "rn_calls r' = rn_calls r" "rn_claims r' = rn_claims r" "rn_issued r' = rn_issued r"
    using assms(2) that(1) by (rule approvers_ok_same) (erule known_mono; use that ext in simp)
  have calls: "approvers_ok r'"
    if "rn_approvers r' = rn_approvers r + image_mset calling (mset cs)" "rn_calls r' = cs @ rn_calls r"
      "rn_claims r' = rn_claims r" "rn_issued r' = rn_issued r" for cs
  proof -
    have "known r' a" if "a \<in># rn_approvers r" for a
      using assms(2) that by (intro known_mono [of r a r']) (use \<open>rn_calls r' = cs @ rn_calls r\<close>
          \<open>rn_claims r' = rn_claims r\<close> \<open>rn_issued r' = rn_issued r\<close> ext in \<open>auto simp: approvers_ok_def\<close>)
    moreover have "known r' (calling c) \<and> (\<forall>i. \<not> holds i (calling c))" if "c \<in> set cs" for c
    proof -
      obtain i t ap where "c = (i, t, ap)" by (cases c) auto
      with that \<open>rn_calls r' = cs @ rn_calls r\<close> show ?thesis by (auto simp: calling_def called_def)
    qed
    moreover from this have "filter_mset (holds i) (image_mset calling (mset cs)) = {#}" for i
      by (auto simp: filter_mset_eq_conv)
    then have "filter_mset (holds i) (rn_approvers r') = filter_mset (holds i) (rn_approvers r)" for i
      using that(1) by (simp only: filter_union_mset add_0_right)
    then have "\<forall>i. size (filter_mset (holds i) (rn_approvers r')) \<le> 1"
      using assms(2) unfolding approvers_ok_def by metis
    ultimately show ?thesis using that(1) unfolding approvers_ok_def by auto
  qed
  from assms(1) show ?thesis
  proof (cases rule: run_step.cases)
    case (create txID ulid now a)
    then show ?thesis by (intro calls) auto
  next
    case (call txID ttl ap)
    then show ?thesis by (intro calls [of "[(txID, if ttl \<le> 0 then DefaultDevCertTTL else ttl, ap)]"])
        (auto simp: calling_def)
  next
    case (claim txID ttl ap as s' tx)
    have new: "txID \<notin> fst ` set (rn_claims r)"
      using assms(3) claim_Some(1) [OF claim(3)] unfolding claims_ok_def by blast
    have none: "\<not> holds txID c" if "c \<in># as" for c
      using known_holds [of r c txID] new assms(2) that claim(2) by (auto simp: approvers_ok_def)
    have k: "known r' c" if "c \<in># as" for c
      using assms(2) that claim ext by (intro known_mono [of r c r']) (auto simp: approvers_ok_def)
    have "txID \<notin> set (rn_issued r)" using assms(5) new by (auto simp: issues_ok_def)
    moreover have "called r txID ap" using assms(2) claim(2) by (auto simp: approvers_ok_def)
    ultimately have "known r' (Claimed txID ttl ap tx)" using claim(1) by (simp add: called_def)
    moreover have "filter_mset (holds txID) as = {#}" using none by (auto simp: filter_mset_eq_conv)
    moreover have "size (filter_mset (holds i) as) \<le> 1" for i
      using assms(2) claim(2) by (auto simp: approvers_ok_def)
    ultimately show ?thesis using k claim(1) by (auto simp: approvers_ok_def)
  next
    case (claim_lost txID ttl ap as s')
    show ?thesis
      by (rule approvers_ok_drop [OF assms(2) claim_lost(2)], use claim_lost in simp)
        (erule known_mono; use claim_lost ext in simp)
  next
    case (issue txID ttl ap tx as now' ks now res)
    show ?thesis
    proof (rule approvers_ok_replace [OF assms(2) issue(2)])
      show "rn_approvers r' = add_mset (Issued txID (now + ttl) ap tx (res\<lparr>rs_LeaseExpiresAt := now + ttl\<rparr>)) as"
        using issue by simp
      show "known r' (Issued txID (now + ttl) ap tx (res\<lparr>rs_LeaseExpiresAt := now + ttl\<rparr>))"
        using assms(2) issue issue_no_err [OF issue(3)] by (auto simp: approvers_ok_def called_def)
      show "known r' c" if "c \<in># as" "known r c" for c
      proof (rule known_mono [OF that(2)])
        have "size (filter_mset (holds txID) (add_mset (Claimed txID ttl ap tx) as)) \<le> 1"
          using assms(2) issue(2) unfolding approvers_ok_def by metis
        then have "\<not> holds txID c" by (rule one_holder [OF _ _ that(1)]) simp
        then show "\<And>i t ap tx. c = Claimed i t ap tx \<Longrightarrow> i \<notin> set (rn_issued r) \<Longrightarrow> i \<notin> set (rn_issued r')"
          using issue(1) by auto
      qed (use issue ext in auto)
    qed simp
  next
    case (issue_fail txID ttl ap tx as now' ks now err)
    show ?thesis
    proof (rule approvers_ok_replace [OF assms(2) issue_fail(2)])
      show "known r' (Failed txID err)" using assms(2) issue_fail by (force simp: approvers_ok_def)
      show "known r' c" if "c \<in># as" "known r c" for c
        by (rule known_mono [OF that(2)]) (use issue_fail ext in auto)
    qed (use issue_fail in auto)
  next
    case (finish txID until ap tx res as s' won)
    have k: "known r' c" if "known r c" for c
      by (rule known_mono [OF that]) (use finish ext in auto)
    show ?thesis
    proof (cases won)
      case True
      have "known r (Issued txID until ap tx res)" using assms(2) finish(2) by (simp add: approvers_ok_def)
      moreover have "map_of (rn_outcome r') txID = Some res"
        using finish(1,3) True finishClaimed_won [of txID StateApproved res "rn_store r" s'] by simp
      ultimately have "known r' (Leasing txID until ap tx)"
        using k [of "Issued txID until ap tx res"] by (auto simp: approved_until_def)
      with True k finish show ?thesis
        by (intro approvers_ok_replace [OF assms(2) finish(2), of r' "Leasing txID until ap tx"]) auto
    next
      case False
      with k finish show ?thesis by (intro approvers_ok_drop [OF assms(2) finish(2)]) auto
    qed
  next
    case (finish_fail txID err as s' won)
    have k: "known r' c" if "known r c" for c
      by (rule known_mono [OF that]) (use finish_fail ext in auto)
    with finish_fail show ?thesis by (intro approvers_ok_drop [OF assms(2) finish_fail(2)]) auto
  next
    case (lease txID until ap tx as)
    have k: "known r' c" if "known r c" for c
      by (rule known_mono [OF that]) (use lease ext in auto)
    with lease show ?thesis by (intro approvers_ok_drop [OF assms(2) lease(2)]) auto
  qed (rule same; simp)+
qed

text \<open>A new success outcome comes from an instant approval or from an issued credential.\<close>

lemma note_refusal:
  assumes "out_ok s m" and "approval_inv s" and "rs_Err er \<noteq> None"
    and "map_of (note_outcome txID (finishPending txID st er s) m) i = Some x" and "rs_Err x = None"
  shows "map_of m i = Some x"
proof (cases "finishPending txID st er s = s")
  case True
  then show ?thesis using note_outcome_idle [OF assms(1)] assms(4) by simp
next
  case False
  then obtain e where "finishPending txID st er s = finishLocked txID e st er s"
    by (auto simp: finishPending_def split: option.splits if_splits)
  then have "note_outcome txID (finishPending txID st er s) m = map_put txID er m"
    by (simp add: note_outcome_def finish_entry_def)
  then show ?thesis using assms(3-5) by (auto split: if_splits)
qed

lemma note_claimed:
  assumes "out_ok s m" and "finishClaimed txID st y s = (s', won)"
    and "map_of (note_outcome txID s' m) i = Some x"
  shows "map_of m i = Some x \<or> i = txID \<and> x = y"
proof (cases won)
  case True
  with assms(2) have "note_outcome txID s' m = map_put txID y m"
    by (auto simp: finishClaimed_def note_outcome_def finish_entry_def split: option.splits if_splits)
  with assms(3) show ?thesis by (auto split: if_splits)
next
  case False
  with assms(2) have "s' = s" by (auto simp: finishClaimed_def split: option.splits if_splits)
  with note_outcome_idle [OF assms(1)] assms(3) show ?thesis by simp
qed

lemma issues_ok_step:
  assumes "run_step lib r r'" and "issues_ok r" and "approvers_ok r" and "out_inv r"
  shows "issues_ok r'"
proof -
  have out: "out_ok (rn_store r) (rn_outcome r)" "approval_inv (rn_store r)" using assms(4) by (auto simp: out_inv_def)
  have frame: "issues_ok r'"
    if "rn_issued r' = rn_issued r" "set (rn_claims r) \<subseteq> set (rn_claims r')" "set (rn_calls r) \<subseteq> set (rn_calls r')"
      "set (rn_instant r) \<subseteq> set (rn_instant r')"
      "\<And>i x. map_of (rn_outcome r') i = Some x \<Longrightarrow> rs_Err x = None \<Longrightarrow>
        map_of (rn_outcome r) i = Some x \<or> i \<in> set (rn_instant r') \<or> i \<in> set (rn_issued r) \<and> (\<exists>ap. called r i ap)"
  proof -
    have c: "called r i ap \<Longrightarrow> called r' i ap" for i ap using that(3) by (auto simp: called_def)
    have "i \<in> set (rn_instant r') \<or> i \<in> set (rn_issued r') \<and> (\<exists>ap. called r' i ap)"
      if x: "map_of (rn_outcome r') i = Some x" "rs_Err x = None" for i x
      using \<open>rn_issued r' = rn_issued r\<close> \<open>set (rn_instant r) \<subseteq> set (rn_instant r')\<close> c assms(2) x
        \<open>map_of (rn_outcome r') i = Some x \<Longrightarrow> rs_Err x = None \<Longrightarrow> map_of (rn_outcome r) i = Some x \<or>
          i \<in> set (rn_instant r') \<or> i \<in> set (rn_issued r) \<and> (\<exists>ap. called r i ap)\<close>
      unfolding issues_ok_def by (metis (no_types, lifting) subset_iff)
    moreover have "set (rn_issued r') \<subseteq> fst ` set (rn_claims r')"
      using assms(2) that(1,2) unfolding issues_ok_def by (metis image_mono order.trans)
    ultimately show ?thesis using assms(2) that(1) unfolding issues_ok_def by metis
  qed
  from assms(1) show ?thesis
  proof (cases rule: run_step.cases)
    case (instant ulid now1 now2 now3 now4 ks lookup pk asd hfp s0 res now u ip src fp s' tx)
    have "map_of (note_outcome (newTxID ulid) s' (rn_outcome r)) i = Some x \<Longrightarrow>
        map_of (rn_outcome r) i = Some x \<or> i = newTxID ulid" for i x
      by (auto simp: note_outcome_def split: option.splits if_splits)
    with instant show ?thesis by (intro frame) auto
  next
    case (issue txID ttl ap tx as now' ks now res)
    have "known r (Claimed txID ttl ap tx)" using assms(3) issue(2) by (simp add: approvers_ok_def)
    then have "txID \<notin> set (rn_issued r)" "txID \<in> fst ` set (rn_claims r)" "called r txID ap" by force+
    moreover have "called r' = called r" using issue(1) by (simp add: fun_eq_iff called_def)
    ultimately show ?thesis using assms(2) issue(1) by (auto simp: issues_ok_def)
  next
    case (finish txID until ap tx res as s' won)
    have "known r (Issued txID until ap tx res)" using assms(3) finish(2) by (simp add: approvers_ok_def)
    with note_claimed [OF out(1) finish(3)] finish(1) show ?thesis by (intro frame) auto
  next
    case (finish_fail txID err as s' won)
    with note_claimed [OF out(1) finish_fail(3)] show ?thesis by (intro frame) fastforce+
  next
    case (deny txID)
    have "map_of (note_outcome txID (Deny txID (rn_store r)) (rn_outcome r)) i = Some x \<Longrightarrow> rs_Err x = None \<Longrightarrow>
        map_of (rn_outcome r) i = Some x" for i x
      unfolding Deny_def by (rule note_refusal [OF out]) simp_all
    with deny show ?thesis by (intro frame) auto
  next
    case (expire txID)
    have "map_of (note_outcome txID (expire txID (rn_store r)) (rn_outcome r)) i = Some x \<Longrightarrow> rs_Err x = None \<Longrightarrow>
        map_of (rn_outcome r) i = Some x" for i x
      unfolding expire_def by (rule note_refusal [OF out]) simp_all
    with expire show ?thesis by (intro frame) auto
  qed (rule frame; auto)+
qed

section \<open>Leases come from approvals\<close>

definition lease_reason :: "run \<Rightarrow> FullKey \<Rightarrow> gotime \<Rightarrow> bool" where
  "lease_reason r full u \<longleftrightarrow> (\<exists>i tx. called r i (fk_Approver full) \<and> fk_Approver full \<noteq> []
     \<and> (i, tx) \<in> set (rn_claims r) \<and> fk_LookupKey full = tx_lookup tx \<and> \<not> tx_DisableLease tx
     \<and> approved_until r i u)"

definition leases_ok :: "(FullKey \<Rightarrow> gotime option) \<Rightarrow> run \<Rightarrow> bool" where
  "leases_ok g r \<longleftrightarrow> (\<forall>ls full u. st_leases (rn_store r) = Some ls \<longrightarrow> granted ls full = Some u \<longrightarrow>
     g full = Some u \<or> lease_reason r full u)"

lemma lease_reason_mono:
  assumes "lease_reason r full u" and "set (rn_calls r) \<subseteq> set (rn_calls r')" and "set (rn_claims r) \<subseteq> set (rn_claims r')"
    and "map_extends (rn_outcome r) (rn_outcome r')"
  shows "lease_reason r' full u"
proof -
  have "called r i ap \<Longrightarrow> called r' i ap" for i ap using assms(2) by (auto simp: called_def)
  moreover have "approved_until r i v \<Longrightarrow> approved_until r' i v" for i v
    using assms(4) by (auto simp: approved_until_def map_extends_def)
  ultimately show ?thesis using assms(1,3) unfolding lease_reason_def by blast
qed

lemma leases_ops [simp]:
  "st_leases (arm_timer txID s) = st_leases s"
  "st_leases (create_locked txID now a s) = st_leases s"
  "st_leases (fst (claimApproval txID s)) = st_leases s"
  "st_leases (finishPending txID st x s) = st_leases s"
  "st_leases (fst (finishClaimed txID st x s)) = st_leases s"
  "st_leases (fst (waitResult txID s)) = st_leases s"
  "st_leases (cancelWait txID s) = st_leases s"
  "st_leases (remove_tx txID s) = st_leases s"
  "st_leases (fst (CreateInstantApproved ulid now1 u ip pk src fp res s)) = st_leases s"
  by (simp_all add: arm_timer_def create_locked_def claimApproval_def finishPending_def finishClaimed_def waitResult_def
      cancelWait_def remove_tx_def CreateInstantApproved_def Let_def split: option.split)

lemma leases_recv: "chan_recv slot s = Some (s', x) \<Longrightarrow> st_leases s' = st_leases s"
  by (auto simp: chan_recv_def split: waitSlot.splits option.splits list.splits)

lemma leases_pair:
  "claimApproval txID s = (s', t) \<Longrightarrow> st_leases s' = st_leases s"
  "finishClaimed txID st x s = (s', w) \<Longrightarrow> st_leases s' = st_leases s"
  "waitResult txID s = (s', sl) \<Longrightarrow> st_leases s' = st_leases s"
  "CreateInstantApproved ulid now1 u ip pk src fp res s = (s', tx) \<Longrightarrow> st_leases s' = st_leases s"
  using leases_ops by (metis fst_conv)+

lemma granted_purge:
  "lease_inv ls \<Longrightarrow> granted (lease_purgeExpired now ls) full = Some u \<Longrightarrow> granted ls full = Some u"
  by (auto simp: granted_def leases_purge split: option.splits if_splits)

lemma leases_ok_step:
  assumes "run_step lib r r'" and "leases_ok g r" and "approvers_ok r" and "out_inv r"
  shows "leases_ok g r'"
proof -
  have ext: "map_extends (rn_outcome r) (rn_outcome r')" using out_inv_step [OF assms(1,4)] by simp
  have logs: "set (rn_calls r) \<subseteq> set (rn_calls r')" "set (rn_claims r) \<subseteq> set (rn_claims r')"
    using assms(1) by (cases rule: run_step.cases; auto)+
  note mono = lease_reason_mono [OF _ logs ext]
  have frame: "leases_ok g r'" if "st_leases (rn_store r') = st_leases (rn_store r)"
    using that assms(2) mono unfolding leases_ok_def by metis
  from assms(1) show ?thesis
  proof (cases rule: run_step.cases)
    case (purge ls now)
    have "lease_inv ls" using assms(4) purge(2) by (auto simp: out_inv_def approval_inv_def)
    note g = granted_purge [OF this]
    have "g full = Some u \<or> lease_reason r' full u" if "granted (lease_purgeExpired now ls) full = Some u" for full u
      using g [OF that] purge(2) assms(2) mono unfolding leases_ok_def by blast
    with purge(1) show ?thesis by (simp add: leases_ok_def)
  next
    case (lease txID until ap tx as)
    have k: "known r (Leasing txID until ap tx)" using assms(3) lease(2) by (simp add: approvers_ok_def)
    show ?thesis
    proof (cases "st_leases (rn_store r') = st_leases (rn_store r)")
      case False
      then obtain ls where ls: "st_leases (rn_store r) = Some ls" "ap \<noteq> []" "\<not> tx_DisableLease tx"
        "st_leases (rn_store r') = Some (lease_Put (NewFullKey (tx_lookup tx) ap) until ls)"
        using lease(1) by (auto simp: put_lease_def split: option.splits if_splits)
      have "lease_reason r (NewFullKey (tx_lookup tx) ap) until"
        unfolding lease_reason_def using k ls(2,3) by (intro exI [of _ txID] exI [of _ tx]) (simp add: NewFullKey_def)
      with ls assms(2) mono show ?thesis by (auto simp: leases_ok_def granted_def split: if_splits)
    qed (rule frame)
  qed (rule frame; simp add: leases_pair leases_recv Deny_def expire_def)+
qed

section \<open>No transaction is left in approval\<close>

fun finishing :: "string \<Rightarrow> approver \<Rightarrow> bool" where
  "finishing i (Claimed j t ap tx) = (i = j)"
| "finishing i (Issued j u ap tx x) = (i = j)"
| "finishing i (Failed j er) = (i = j)"
| "finishing i _ = False"

definition approving_tx :: "Store \<Rightarrow> string \<Rightarrow> bool" where
  "approving_tx s i \<longleftrightarrow> (\<exists>e. map_of (st_txs s) i = Some e \<and> tx_State (te_tx e) = StateApproving)"

definition no_orphan :: "run \<Rightarrow> bool" where
  "no_orphan r \<longleftrightarrow> (\<forall>i. approving_tx (rn_store r) i \<longrightarrow> (\<exists>a \<in># rn_approvers r. finishing i a))"

lemma approving_ops [simp]:
  "approving_tx (arm_timer txID s) i = approving_tx s i"
  "approving_tx (put_lease tx ap u s) i = approving_tx s i"
  "approving_tx (create_locked txID now a s) i = (i \<noteq> txID \<and> approving_tx s i)"
  "approving_tx (remove_tx txID s) i = (i \<noteq> txID \<and> approving_tx s i)"
  "approving_tx (fst (waitResult txID s)) i = approving_tx s i"
  "approving_tx (s\<lparr>st_leases := l\<rparr>) i = approving_tx s i"
  by (auto simp: approving_tx_def arm_timer_def create_locked_def new_transaction_def remove_tx_def waitResult_def
      split: option.split)

lemma approving_cancel: "approving_tx (cancelWait txID s) i \<Longrightarrow> approving_tx s i"
  by (auto simp: approving_tx_def cancelWait_def Let_def split: option.splits if_splits)

lemma approving_recv: "chan_recv slot s = Some (s', x) \<Longrightarrow> approving_tx s' i = approving_tx s i"
  by (auto simp: approving_tx_def chan_recv_def split: waitSlot.splits option.splits list.splits)

lemma approving_refused:
  "approving_tx (Deny txID s) i \<Longrightarrow> approving_tx s i"
  "approving_tx (expire txID s) i \<Longrightarrow> approving_tx s i"
  by (auto simp: approving_tx_def Deny_def expire_def finishPending_def finish_entry_def split: option.splits if_splits)

lemma approving_claimed:
  assumes "approval_inv s" and "finishClaimed txID st x s = (s', won)" and "st \<noteq> StateApproving"
  shows "approving_tx s' i \<longleftrightarrow> i \<noteq> txID \<and> approving_tx s i"
proof (cases "map_of (st_txs s) txID")
  case None
  with assms(2) show ?thesis by (auto simp: finishClaimed_def approving_tx_def)
next
  case (Some e)
  with assms(1) have "entry_ok txID e" by (simp add: approval_inv_def)
  with Some assms(2,3) show ?thesis
    by (auto simp: finishClaimed_def approving_tx_def finish_entry_def entry_ok_def split: if_splits)
qed

lemma approving_claim:
  "claimApproval txID s = (s', Some tx) \<Longrightarrow> approving_tx s' i \<longleftrightarrow> i = txID \<or> approving_tx s i"
  by (auto simp: claimApproval_def approving_tx_def Let_def split: option.splits if_splits)

lemma approving_instant:
  "CreateInstantApproved ulid now u ip pk src fp res s = (s', tx) \<Longrightarrow> approving_tx s' i \<Longrightarrow> approving_tx s i"
  by (auto simp: CreateInstantApproved_def approving_tx_def Let_def split: if_splits)

lemma no_orphan_step:
  assumes "run_step lib r r'" and "no_orphan r" and "out_inv r"
  shows "no_orphan r'"
proof -
  have inv: "approval_inv (rn_store r)" using assms(3) by (simp add: out_inv_def)
  have frame: "no_orphan r'"
    if "\<And>i. approving_tx (rn_store r') i \<Longrightarrow> approving_tx (rn_store r) i"
      "\<And>i a. a \<in># rn_approvers r \<Longrightarrow> finishing i a \<Longrightarrow> \<exists>b \<in># rn_approvers r'. finishing i b"
    using that assms(2) unfolding no_orphan_def by metis
  from assms(1) show ?thesis
  proof (cases rule: run_step.cases)
    case (claim txID ttl ap as s' tx)
    with approving_claim [OF claim(3)] assms(2) show ?thesis by (fastforce simp: no_orphan_def)
  next
    case (claim_lost txID ttl ap as s')
    with claim_None [OF claim_lost(3)] show ?thesis by (intro frame) auto
  next
    case (finish txID until ap tx res as s' won)
    have "\<exists>a \<in># as. finishing i a" if "approving_tx s' i" for i
      using that approving_claimed [OF inv finish(3)] assms(2) finish(2) by (fastforce simp: no_orphan_def)
    with finish(1) show ?thesis by (auto simp: no_orphan_def)
  next
    case (finish_fail txID err as s' won)
    have "\<exists>a \<in># as. finishing i a" if "approving_tx s' i" for i
      using that approving_claimed [OF inv finish_fail(3)] assms(2) finish_fail(2) by (fastforce simp: no_orphan_def)
    with finish_fail(1) show ?thesis by (auto simp: no_orphan_def)
  next
    case (instant ulid now1 now2 now3 now4 ks lookup pk asd hfp s0 res now u ip src fp s' tx)
    with approving_instant [OF instant(4)] show ?thesis by (intro frame) auto
  next
    case (wait txID s' slot)
    have "approving_tx s' i = approving_tx (rn_store r) i" for i
      using approving_ops(5) wait(2) by (metis fst_conv)
    with wait(1) show ?thesis by (intro frame) auto
  next
    case (receive txID slot ws' s' res)
    with approving_recv [OF receive(3)] show ?thesis by (intro frame) auto
  next
    case (cancel txID slot ws')
    then show ?thesis by (intro frame) (auto dest: approving_cancel)
  next
    case (deny txID)
    then show ?thesis by (intro frame) (auto dest: approving_refused)
  next
    case (expire txID)
    then show ?thesis by (intro frame) (auto dest: approving_refused)
  next
    case (issue txID ttl ap tx as now' ks now res)
    then show ?thesis by (intro frame) auto
  next
    case (issue_fail txID ttl ap tx as now' ks now err)
    then show ?thesis by (intro frame) auto
  next
    case (lease txID until ap tx as)
    then show ?thesis by (intro frame) auto
  qed (rule frame; auto)+
qed

section \<open>Reachable states\<close>

definition run_ok :: "(FullKey \<Rightarrow> gotime option) \<Rightarrow> run \<Rightarrow> bool" where
  "run_ok g r \<longleftrightarrow> out_inv r \<and> claims_ok r \<and> approvers_ok r \<and> issues_ok r \<and> leases_ok g r \<and> no_orphan r"

interpretation run_machine: step_machine "run_step lib" "run_ok g" for lib g
proof
  fix s t assume s: "run_step lib s t" and ok: "run_ok g s"
  then have "approval_inv (rn_store s)" by (simp add: run_ok_def out_inv_def)
  with s ok show "run_ok g t" unfolding run_ok_def
    by (meson out_inv_step claims_ok_step approvers_ok_step issues_ok_step leases_ok_step no_orphan_step)
qed

text \<open>A store that has been configured and has seen no request.\<close>

definition idle_store :: "Store \<Rightarrow> bool" where
  "idle_store s \<longleftrightarrow> approval_inv s \<and> st_txs s = [] \<and> st_chans s = []"

definition old_leases :: "Store \<Rightarrow> FullKey \<Rightarrow> gotime option" where
  "old_leases s full = (case st_leases s of None \<Rightarrow> None | Some ls \<Rightarrow> granted ls full)"

definition reachable :: "ssh_lib \<Rightarrow> Store \<Rightarrow> run \<Rightarrow> bool" where
  "reachable lib s r \<longleftrightarrow> (run_step lib)\<^sup>*\<^sup>* (run_init s) r"

lemma run_init_ok: "idle_store s \<Longrightarrow> run_ok (old_leases s) (run_init s)"
  by (auto simp: run_ok_def idle_store_def run_init_def out_inv_def out_ok_def waiters_ok_def delivered_ok_def issued_ok_def
      claims_ok_def approvers_ok_def issues_ok_def leases_ok_def no_orphan_def approving_tx_def old_leases_def)

lemma reachable_ok: "idle_store s \<Longrightarrow> reachable lib s r \<Longrightarrow> run_ok (old_leases s) r"
  unfolding reachable_def by (erule run_machine.reachable_inv) (rule run_init_ok)

lemma outcome_extends: "(run_step lib)\<^sup>*\<^sup>* r r' \<Longrightarrow> run_ok g r \<Longrightarrow> map_extends (rn_outcome r) (rn_outcome r')"
proof (induction rule: rtranclp_induct)
  case (step y z)
  have "out_inv y" using run_machine.reachable_inv [OF step.hyps(1) step.prems] by (simp add: run_ok_def)
  with out_inv_step [OF step.hyps(2)] step.IH [OF step.prems] show ?case by (auto simp: map_extends_def)
qed simp

text \<open>A run: one request, one approval, one waiter that is answered.\<close>

definition demo_base :: Store where
  "demo_base = SetLeases (Some lease_NewStore) (SetIssuer (Some LocalCA) (approval_NewStore minute))"

definition demo_result :: Result where
  "demo_result = zero_Result\<lparr>rs_Cert := ''cert deploy'', rs_ExpiresAt := 760 * second, rs_LeaseExpiresAt := 760 * second\<rparr>"

definition demo_tx :: Transaction where
  "demo_tx = (new_transaction ''tx_1'' (700 * second) demo_args)\<lparr>tx_State := StateApproving\<rparr>"

definition demo_state ::
  "Store \<Rightarrow> approver \<Rightarrow> waiter multiset \<Rightarrow> string list \<Rightarrow> (string, Result) gomap \<Rightarrow> (string \<times> Result) list \<Rightarrow> run" where
  "demo_state s a ws iss out del =
     \<lparr>rn_store = s, rn_approvers = {#a#}, rn_waiters = ws, rn_calls = [(''tx_1'', minute, ''telegram:7'')],
      rn_claims = [(''tx_1'', demo_tx)], rn_issued = iss, rn_outcome = out, rn_instant = [], rn_delivered = del\<rparr>"

abbreviation demo_leasing :: "Store \<Rightarrow> waiter multiset \<Rightarrow> (string \<times> Result) list \<Rightarrow> run" where
  "demo_leasing s ws del \<equiv> demo_state s (Leasing ''tx_1'' (760 * second) ''telegram:7'' demo_tx) ws [''tx_1'']
     [(''tx_1'', demo_result)] del"

lemma demo_base_idle: "idle_store demo_base"
  by (simp add: idle_store_def demo_base_def approval_inv_def approval_NewStore_def SetLeases_def SetIssuer_def lease_inv_init)

definition demo_s1 :: Store where
  "demo_s1 = create_locked ''tx_1'' (700 * second) demo_args demo_base"

definition demo_s2 :: Store where
  "demo_s2 = fst (claimApproval ''tx_1'' demo_s1)"

definition demo_s3 :: Store where
  "demo_s3 = fst (finishClaimed ''tx_1'' StateApproved demo_result demo_s2)"

lemmas demo_base_defs = demo_base_def SetLeases_def SetIssuer_def approval_NewStore_def zero_Config_def

lemma demo_base_facts:
  "map_of (st_chans demo_base) i = None" "dev_approvals i demo_base = []" "newTxID ''1'' = ''tx_1''"
  by (simp_all add: dev_approvals_def newTxID_def demo_base_defs)

lemma demo_claim: "claimApproval ''tx_1'' demo_s1 = (demo_s2, Some demo_tx)"
  by (simp add: demo_s2_def demo_s1_def claimApproval_def create_locked_def new_transaction_def demo_tx_def
      demo_base_defs Let_def)

lemma demo_issue_cert:
  "issueForTransaction demo_ssh (700 * second) demo_ca demo_s2 demo_tx (700 * second + minute)
     = Inr (zero_Result\<lparr>rs_Cert := ''cert deploy'', rs_ExpiresAt := 760 * second\<rparr>)"
  by code_simp

lemma demo_finish:
  "finishClaimed ''tx_1'' StateApproved demo_result demo_s2 = (demo_s3, True)"
  "map_of (st_txs demo_s3) ''tx_1'' = Some (finish_entry StateApproved demo_result
     \<lparr>te_tx = demo_tx, te_result = None, te_timer = None, te_waiters = 0\<rparr>)"
  by (simp_all add: demo_s3_def demo_s2_def demo_s1_def claimApproval_def create_locked_def demo_base_defs
      new_transaction_def demo_tx_def Let_def finishClaimed_def)

lemma demo_claimed:
  "reachable demo_ssh demo_base (demo_state demo_s2 (Claimed ''tx_1'' minute ''telegram:7'' demo_tx) {#} [] [] [])"
proof -
  let ?r1 = "(run_init demo_base)\<lparr>rn_store := demo_s1\<rparr>"
  let ?r2 = "?r1\<lparr>rn_approvers := {#Calling ''tx_1'' minute ''telegram:7''#}, rn_calls := [(''tx_1'', minute, ''telegram:7'')]\<rparr>"
  have "run_step demo_ssh (run_init demo_base) ?r1"
  proof -
    let ?r0 = "run_init demo_base"
    have "run_step demo_ssh ?r0 (?r0\<lparr>rn_store := create_locked ''tx_1'' (700 * second) demo_args (rn_store ?r0),
      rn_approvers := rn_approvers ?r0 + mset (map calling (dev_approvals ''tx_1'' (rn_store ?r0))),
      rn_calls := dev_approvals ''tx_1'' (rn_store ?r0) @ rn_calls ?r0\<rparr>)"
      by (rule run_step.create [where ulid = "''1''"]) (simp_all add: run_init_def demo_base_facts)
    then show ?thesis by (simp add: run_init_def demo_s1_def demo_base_facts)
  qed
  moreover have "run_step demo_ssh ?r1 ?r2"
    using run_step.call [where r = ?r1 and lib = demo_ssh and txID = "''tx_1''" and ttl = minute and ap = "''telegram:7''"]
    by (simp add: run_init_def duration_defs)
  moreover have "run_step demo_ssh ?r2 (demo_state demo_s2 (Claimed ''tx_1'' minute ''telegram:7'' demo_tx) {#} [] [] [])"
    using run_step.claim [where r = ?r2 and lib = demo_ssh and as = "{#}" and txID = "''tx_1''" and ttl = minute
        and ap = "''telegram:7''" and s' = demo_s2 and tx = demo_tx] demo_claim
    by (simp add: run_init_def demo_state_def)
  ultimately show ?thesis unfolding reachable_def by (meson rtranclp.rtrancl_into_rtrancl rtranclp.rtrancl_refl)
qed

lemma demo_approved: "reachable demo_ssh demo_base (demo_leasing demo_s3 {#} [])"
proof -
  let ?r3 = "demo_state demo_s2 (Claimed ''tx_1'' minute ''telegram:7'' demo_tx) {#} [] [] []"
  let ?r4 = "demo_state demo_s2 (Issued ''tx_1'' (760 * second) ''telegram:7'' demo_tx demo_result) {#} [''tx_1''] [] []"
  have "run_step demo_ssh ?r3 ?r4"
    using run_step.issue [where r = ?r3 and lib = demo_ssh and as = "{#}" and now' = "700 * second" and ks = demo_ca
        and now = "700 * second" and txID = "''tx_1''" and ttl = minute and ap = "''telegram:7''" and tx = demo_tx
        and res = "zero_Result\<lparr>rs_Cert := ''cert deploy'', rs_ExpiresAt := 760 * second\<rparr>"] demo_issue_cert
    by (simp add: demo_state_def demo_result_def zero_Result_def duration_defs)
  moreover have "run_step demo_ssh ?r4 (demo_leasing demo_s3 {#} [])"
    using run_step.finish [where r = ?r4 and lib = demo_ssh and as = "{#}" and won = True and txID = "''tx_1''"
        and until = "760 * second" and ap = "''telegram:7''" and tx = demo_tx and res = demo_result and s' = demo_s3] demo_finish
    by (simp add: demo_state_def note_outcome_def finish_entry_def)
  ultimately show ?thesis using demo_claimed unfolding reachable_def by (meson rtranclp.rtrancl_into_rtrancl)
qed

lemma demo_delivered: "reachable demo_ssh demo_base (demo_leasing (remove_tx ''tx_1'' demo_s3) {#} [(''tx_1'', demo_result)])"
proof -
  let ?r5 = "demo_leasing demo_s3 {#} []"
  let ?r6 = "demo_leasing demo_s3 {#Waiting ''tx_1'' (OwnChan demo_result)#} []"
  let ?r7 = "demo_leasing demo_s3 {#Received ''tx_1'' demo_result#} []"
  have "run_step demo_ssh ?r5 ?r6"
    using run_step.wait [where r = ?r5 and lib = demo_ssh and txID = "''tx_1''" and s' = demo_s3
        and slot = "OwnChan demo_result"] demo_finish(2)
    by (simp add: demo_state_def waitResult_def finish_entry_def)
  moreover have "run_step demo_ssh ?r6 ?r7"
    using run_step.receive [where r = ?r6 and lib = demo_ssh and ws = "{#}" and slot = "OwnChan demo_result"
        and txID = "''tx_1''" and s' = demo_s3 and res = demo_result]
    by (simp add: demo_state_def chan_recv_def)
  moreover have "run_step demo_ssh ?r7 (demo_leasing (remove_tx ''tx_1'' demo_s3) {#} [(''tx_1'', demo_result)])"
    using run_step.deliver [where r = ?r7 and lib = demo_ssh and ws = "{#}" and txID = "''tx_1''" and res = demo_result]
    by (simp add: demo_state_def)
  ultimately show ?thesis using demo_approved unfolding reachable_def by (meson rtranclp.rtrancl_into_rtrancl)
qed

section \<open>Properties of every interleaving\<close>

text \<open>
  (C4) One request, one outcome: whatever approvals, denials, expiries, waits and
  cancellations run concurrently, the outcome of a transaction never changes once it is
  set, and all waiters that are answered for the same transaction get the same answer,
  which is that outcome.
\<close>

theorem single_outcome:
  assumes "idle_store s" and "reachable lib s r" and "(run_step lib)\<^sup>*\<^sup>* r r'"
  shows "(map_of (rn_outcome r) i = Some x \<longrightarrow> map_of (rn_outcome r') i = Some x)
    \<and> ((i, x) \<in> set (rn_delivered r') \<longrightarrow> map_of (rn_outcome r') i = Some x)
    \<and> ((i, x) \<in> set (rn_delivered r') \<and> (i, y) \<in> set (rn_delivered r') \<longrightarrow> x = y)"
proof -
  have ok: "run_ok (old_leases s) r" using assms(1,2) by (rule reachable_ok)
  then have ok': "run_ok (old_leases s) r'" using run_machine.reachable_inv [OF assms(3)] by blast
  have "map_of (rn_outcome r') i = Some z" if "(i, z) \<in> set (rn_delivered r')" for z
    using that ok' by (auto simp: run_ok_def out_inv_def delivered_ok_def)
  moreover have "map_of (rn_outcome r) i = Some x \<longrightarrow> map_of (rn_outcome r') i = Some x"
    using outcome_extends [OF assms(3) ok] by (simp add: map_extends_def)
  ultimately show ?thesis by (metis option.inject)
qed

theorem single_outcome_witness:
  "map_of (rn_outcome (demo_leasing (remove_tx ''tx_1'' demo_s3) {#} [(''tx_1'', demo_result)])) ''tx_1'' = Some demo_result"
  using single_outcome [OF demo_base_idle demo_delivered rtranclp.rtrancl_refl, of "''tx_1''" demo_result]
  by (simp add: demo_state_def)

text \<open>
  (C5) No credential without a decision, and never two for one decision: a waiter is given a
  credential only for a transaction that was created from an active lease, or that some
  approver approved and that was claimed and issued exactly once; no interleaving of
  approvals issues a second credential for the same transaction.
\<close>

theorem credential_needs_approval:
  assumes "idle_store s" and "reachable lib s r" and "(i, x) \<in> set (rn_delivered r)" and "rs_Err x = None"
  shows "i \<in> set (rn_instant r)
    \<or> (\<exists>ttl ap. (i, ttl, ap) \<in> set (rn_calls r)) \<and> count (mset (rn_issued r)) i = 1
        \<and> count (mset (map fst (rn_claims r))) i = 1"
proof -
  have ok: "run_ok (old_leases s) r" using assms(1,2) by (rule reachable_ok)
  then have "map_of (rn_outcome r) i = Some x"
    using assms(3) by (auto simp: run_ok_def out_inv_def delivered_ok_def)
  moreover have iss: "issues_ok r" "claims_ok r" using ok by (auto simp: run_ok_def)
  ultimately have "i \<in> set (rn_instant r) \<or> i \<in> set (rn_issued r) \<and> (\<exists>ap. called r i ap)"
    using assms(4) unfolding issues_ok_def by blast
  moreover have "count (mset (rn_issued r)) i = 1 \<and> count (mset (map fst (rn_claims r))) i = 1"
    if "i \<in> set (rn_issued r)"
  proof -
    have "i \<in> set (map fst (rn_claims r))" using that iss(1) by (auto simp: issues_ok_def)
    then show ?thesis using that iss unfolding issues_ok_def claims_ok_def by (metis distinct_count_atmost_1)
  qed
  ultimately show ?thesis by (auto simp: called_def)
qed

theorem credential_needs_approval_witness:
  "count (mset (rn_issued (demo_leasing (remove_tx ''tx_1'' demo_s3) {#} [(''tx_1'', demo_result)]))) ''tx_1'' = 1"
  using credential_needs_approval [OF demo_base_idle demo_delivered, of "''tx_1''" demo_result]
  by (simp add: demo_state_def demo_result_def zero_Result_def)

text \<open>
  (C6) Leases are only what approvers granted: every lease in the store of a reachable state
  was there at the start, or belongs to a transaction that its approver approved, that did
  not disable leases, and whose outcome is a credential with the same expiry; the lease
  covers exactly that transaction's client, target, source and host keys.
\<close>

theorem lease_needs_approval:
  assumes "idle_store s" and "reachable lib s r" and "st_leases (rn_store r) = Some ls" and "granted ls full = Some u"
  shows "old_leases s full = Some u
    \<or> (\<exists>i ttl tx x. (i, ttl, fk_Approver full) \<in> set (rn_calls r) \<and> (i, tx) \<in> set (rn_claims r)
        \<and> fk_LookupKey full = tx_lookup tx \<and> \<not> tx_DisableLease tx
        \<and> map_of (rn_outcome r) i = Some x \<and> rs_Err x = None \<and> rs_LeaseExpiresAt x = u)"
  using reachable_ok [OF assms(1,2)] assms(3,4)
  unfolding run_ok_def leases_ok_def lease_reason_def called_def approved_until_def by blast

lemma demo_leased_run:
  "reachable demo_ssh demo_base ((demo_leasing demo_s3 {#} [])\<lparr>
     rn_store := put_lease demo_tx ''telegram:7'' (760 * second) demo_s3, rn_approvers := {#}\<rparr>)"
proof -
  have "run_step demo_ssh (demo_leasing demo_s3 {#} []) ((demo_leasing demo_s3 {#} [])\<lparr>
     rn_store := put_lease demo_tx ''telegram:7'' (760 * second) (rn_store (demo_leasing demo_s3 {#} [])), rn_approvers := {#}\<rparr>)"
    by (rule run_step.lease) (simp add: demo_state_def)
  with demo_approved show ?thesis unfolding reachable_def
    by (simp add: demo_state_def rtranclp.rtrancl_into_rtrancl)
qed

theorem lease_needs_approval_witness:
  "\<exists>ls. st_leases (put_lease demo_tx ''telegram:7'' (760 * second) demo_s3) = Some ls
     \<and> granted ls (NewFullKey (tx_lookup demo_tx) ''telegram:7'') = Some (760 * second)
     \<and> old_leases demo_base (NewFullKey (tx_lookup demo_tx) ''telegram:7'') = None"
proof -
  have l: "st_leases (put_lease demo_tx ''telegram:7'' (760 * second) demo_s3) =
      Some (lease_Put (NewFullKey (tx_lookup demo_tx) ''telegram:7'') (760 * second) lease_NewStore)"
    by code_simp
  have o: "old_leases demo_base (NewFullKey (tx_lookup demo_tx) ''telegram:7'') = None" by code_simp
  from lease_needs_approval [OF demo_base_idle demo_leased_run, of _ "NewFullKey (tx_lookup demo_tx) ''telegram:7''" "760 * second"] l o
  show ?thesis by (simp add: granted_def)
qed

text \<open>
  (C7) No transaction is stranded in approval: while a transaction is marked as being
  approved, exactly one goroutine is working on it and has still to finish it, so that
  its waiter is not left without an answer although the timeout no longer applies.
\<close>

theorem approving_has_worker:
  assumes "idle_store s" and "reachable lib s r"
    and "map_of (st_txs (rn_store r)) i = Some e" and "tx_State (te_tx e) = StateApproving"
  shows "\<exists>a \<in># rn_approvers r. finishing i a \<and> filter_mset (holds i) (rn_approvers r) = {#a#}"
proof -
  have ok: "run_ok (old_leases s) r" using assms(1,2) by (rule reachable_ok)
  with assms(3,4) obtain a where a: "a \<in># rn_approvers r" "finishing i a"
    by (auto simp: run_ok_def no_orphan_def approving_tx_def)
  then have "holds i a" by (cases a) auto
  with a(1) obtain b where b: "filter_mset (holds i) (rn_approvers r) = add_mset a b"
    by (metis filter_mset_add_mset mset_add)
  moreover have "size (filter_mset (holds i) (rn_approvers r)) \<le> 1" using ok by (auto simp: run_ok_def approvers_ok_def)
  ultimately have "filter_mset (holds i) (rn_approvers r) = {#a#}" by simp
  with a show ?thesis by blast
qed

theorem approving_has_worker_witness:
  "\<exists>a \<in># rn_approvers (demo_state demo_s2 (Claimed ''tx_1'' minute ''telegram:7'' demo_tx) {#} [] [] []). finishing ''tx_1'' a"
proof -
  have "map_of (st_txs demo_s2) ''tx_1'' = Some \<lparr>te_tx = demo_tx, te_result = None, te_timer = None, te_waiters = 0\<rparr>"
    "tx_State demo_tx = StateApproving"
    by (simp_all add: demo_s2_def demo_s1_def claimApproval_def create_locked_def demo_base_defs
        new_transaction_def demo_tx_def Let_def)
  with approving_has_worker [OF demo_base_idle demo_claimed, of "''tx_1''"] show ?thesis
    by (auto simp: demo_state_def)
qed

end
