(* ===== verification/Go_Net.thy ===== *)
theory Go_Net
  imports Go_Text
begin

text \<open>
  JSON values and HTTP messages as the handlers see them. \<open>encoding/json\<close> is split in two: the
  text of a document is read and printed by the functions of a record \<open>json_lib\<close>, and the
  decoding of a value into a Go struct is written out here, with the rules the handlers depend
  on: keys match without regard to case, members with unknown keys are skipped, a later member
  overwrites an earlier one, \<open>null\<close> leaves a field as it is, and a value of the wrong type is an
  error.
\<close>

section \<open>JSON values\<close>

text \<open>A number is \<open>JInt\<close> when it is written as an integer, without fraction and exponent.\<close>

datatype json =
    JNull
  | JBool bool
  | JInt int
  | JFloat string
  | JString string
  | JArray "json list"
  | JObject "(string \<times> json) list"

record json_lib =
  js_parse :: "bytes \<Rightarrow> json option"
  js_print :: "json \<Rightarrow> bytes"

section \<open>Decoding into a struct\<close>

text \<open>Key folding: ASCII letters, the long s and the Kelvin sign, which are all the characters
  that fold to one of the letters in the field names.\<close>

definition fold_char :: "char \<Rightarrow> char" where
  "fold_char c = (let n = of_char c :: nat in if 97 \<le> n \<and> n \<le> 122 then char_of (n - 32) else c)"

fun fold_key :: "string \<Rightarrow> string" where
  "fold_key [] = []"
| "fold_key (c # s) =
     (if c = CHR 0xC5 \<and> take 1 s = [CHR 0xBF] then CHR ''S'' # fold_key (drop 1 s)
      else if c = CHR 0xE2 \<and> take 2 s = [CHR 0x84, CHR 0xAA] then CHR ''K'' # fold_key (drop 2 s)
      else fold_char c # fold_key s)"

declare fold_key.simps [simp del]

text \<open>A field: its name in the document and what a value does to the struct.\<close>

type_synonym 's json_field = "string \<times> (json \<Rightarrow> 's \<Rightarrow> 's option)"

fun find_field :: "'s json_field list \<Rightarrow> string \<Rightarrow> (json \<Rightarrow> 's \<Rightarrow> 's option) option" where
  "find_field [] k = None"
| "find_field ((n, f) # fs) k = (if fold_key n = fold_key k then Some f else find_field fs k)"

fun decode_members :: "'s json_field list \<Rightarrow> (string \<times> json) list \<Rightarrow> 's \<Rightarrow> 's option" where
  "decode_members fs [] s = Some s"
| "decode_members fs ((k, j) # ms) s =
     (case find_field fs k of
        None \<Rightarrow> decode_members fs ms s
      | Some f \<Rightarrow> (case f j s of None \<Rightarrow> None | Some s' \<Rightarrow> decode_members fs ms s'))"

definition decode_struct :: "'s json_field list \<Rightarrow> json \<Rightarrow> 's \<Rightarrow> 's option" where
  "decode_struct fs j s =
     (case j of JNull \<Rightarrow> Some s | JObject ms \<Rightarrow> decode_members fs ms s | _ \<Rightarrow> None)"

definition string_field :: "string \<Rightarrow> (string \<Rightarrow> 's \<Rightarrow> 's) \<Rightarrow> 's json_field" where
  "string_field n upd = (n, \<lambda>j s. case j of JNull \<Rightarrow> Some s | JString v \<Rightarrow> Some (upd v s) | _ \<Rightarrow> None)"

definition int_field :: "string \<Rightarrow> (int \<Rightarrow> 's \<Rightarrow> 's) \<Rightarrow> 's json_field" where
  "int_field n upd =
     (n, \<lambda>j s. case j of JNull \<Rightarrow> Some s | JInt i \<Rightarrow> (if int64 i then Some (upd i s) else None) | _ \<Rightarrow> None)"

definition bool_field :: "string \<Rightarrow> (bool \<Rightarrow> 's \<Rightarrow> 's) \<Rightarrow> 's json_field" where
  "bool_field n upd = (n, \<lambda>j s. case j of JNull \<Rightarrow> Some s | JBool b \<Rightarrow> Some (upd b s) | _ \<Rightarrow> None)"

text \<open>A field of type \<open>json.RawMessage\<close>, which also keeps a \<open>null\<close>.\<close>

definition raw_field :: "string \<Rightarrow> (json \<Rightarrow> 's \<Rightarrow> 's) \<Rightarrow> 's json_field" where
  "raw_field n upd = (n, \<lambda>j s. Some (upd j s))"

text \<open>A nested struct, decoded into the value it already has.\<close>

definition struct_field :: "string \<Rightarrow> 't json_field list \<Rightarrow> ('s \<Rightarrow> 't) \<Rightarrow> ('t \<Rightarrow> 's \<Rightarrow> 's) \<Rightarrow> 's json_field" where
  "struct_field n fs sel upd = (n, \<lambda>j s. case decode_struct fs j (sel s) of None \<Rightarrow> None | Some t \<Rightarrow> Some (upd t s))"

text \<open>A pointer to a struct: \<open>null\<close> makes it nil, anything else goes into the struct it points
  to, a new one when it is nil.\<close>

definition pointer_field ::
  "string \<Rightarrow> 't json_field list \<Rightarrow> 't \<Rightarrow> ('s \<Rightarrow> 't option) \<Rightarrow> ('t option \<Rightarrow> 's \<Rightarrow> 's) \<Rightarrow> 's json_field" where
  "pointer_field n fs zero sel upd =
     (n, \<lambda>j s. case j of
        JNull \<Rightarrow> Some (upd None s)
      | _ \<Rightarrow> (case decode_struct fs j (case sel s of None \<Rightarrow> zero | Some t \<Rightarrow> t) of
                None \<Rightarrow> None | Some t \<Rightarrow> Some (upd (Some t) s)))"

fun decode_list :: "(json \<Rightarrow> 't option) \<Rightarrow> json list \<Rightarrow> 't list option" where
  "decode_list f [] = Some []"
| "decode_list f (j # js) =
     (case f j of None \<Rightarrow> None | Some t \<Rightarrow> (case decode_list f js of None \<Rightarrow> None | Some ts \<Rightarrow> Some (t # ts)))"

text \<open>A slice of structs; \<open>null\<close> makes it nil. (When a key occurs twice Go reuses the elements
  of the first array as the starting values for the second, which is left out.)\<close>

definition slice_field :: "string \<Rightarrow> (json \<Rightarrow> 't option) \<Rightarrow> ('t list \<Rightarrow> 's \<Rightarrow> 's) \<Rightarrow> 's json_field" where
  "slice_field n f upd =
     (n, \<lambda>j s. case j of
        JNull \<Rightarrow> Some (upd [] s)
      | JArray js \<Rightarrow> (case decode_list f js of None \<Rightarrow> None | Some ts \<Rightarrow> Some (upd ts s))
      | _ \<Rightarrow> None)"

definition int_elem :: "json \<Rightarrow> int option" where
  "int_elem j = (case j of JNull \<Rightarrow> Some 0 | JInt i \<Rightarrow> (if int64 i then Some i else None) | _ \<Rightarrow> None)"

lemmas json_field_defs = string_field_def int_field_def bool_field_def raw_field_def struct_field_def
  pointer_field_def slice_field_def

definition Unmarshal :: "json_lib \<Rightarrow> 's json_field list \<Rightarrow> bytes \<Rightarrow> 's \<Rightarrow> 's option" where
  "Unmarshal js fs raw s = (case js_parse js raw of None \<Rightarrow> None | Some j \<Rightarrow> decode_struct fs j s)"

section \<open>Encoding\<close>

text \<open>The members an \<open>omitempty\<close> field contributes.\<close>

definition omit_string :: "string \<Rightarrow> string \<Rightarrow> (string \<times> json) list" where
  "omit_string n v = (if v = [] then [] else [(n, JString v)])"

definition omit_int :: "string \<Rightarrow> int \<Rightarrow> (string \<times> json) list" where
  "omit_int n v = (if v = 0 then [] else [(n, JInt v)])"

definition omit_bool :: "string \<Rightarrow> bool \<Rightarrow> (string \<times> json) list" where
  "omit_bool n v = (if v then [(n, JBool v)] else [])"

section \<open>Outgoing requests\<close>

text \<open>A client is its set of well-formed addresses and what it gets for a request after the
  requests it has already sent.\<close>

datatype http_method = GET | POST | DELETE

record out_request =
  or_method :: http_method
  or_url :: string
  or_body :: bytes
  or_headers :: "(string \<times> string) list"

record in_response =
  in_status :: int
  in_body :: bytes
  in_read_err :: "go_error option"

record http_client =
  hc_valid_url :: "string \<Rightarrow> bool"
  hc_do :: "out_request list \<Rightarrow> out_request \<Rightarrow> in_response result"

definition json_header :: "(string \<times> string) list" where
  "json_header = [(''Content-Type'', ''application/json'')]"

definition bad_url :: go_error where
  "bad_url = Errorf ''invalid request URL''"

text \<open>Building the request and sending it: the requests sent so far and the answer.\<close>

definition http_Do ::
  "http_client \<Rightarrow> out_request \<Rightarrow> out_request list \<Rightarrow> out_request list \<times> in_response result" where
  "http_Do c req sent =
     (if \<not> hc_valid_url c (or_url req) then (sent, Inl bad_url) else (sent @ [req], hc_do c sent req))"

definition status_ok :: "int \<Rightarrow> bool" where
  "status_ok n \<longleftrightarrow> 200 \<le> n \<and> n < 300"

end
