(* ===== verification/Go_Time.thy ===== *)
theory Go_Time
  imports Go_Text
begin

text \<open>
  Printing of times and durations as Go's package \<open>time\<close> does it: \<open>Duration.String\<close> and the
  layout RFC 3339 in UTC, which the program uses in its answers and messages.
\<close>

section \<open>Dates\<close>

text \<open>The date of a day, counted from 1 January 1970, in the proleptic Gregorian calendar. The
  year is taken to begin in March, so that the leap day is its last.\<close>

definition civil_date :: "int \<Rightarrow> int \<times> int \<times> int" where
  "civil_date days =
     (let z = days + 719468;
          era = z div 146097;
          doe = z mod 146097;
          yoe = (doe - doe div 1460 + doe div 36524 - doe div 146096) div 365;
          doy = doe - (365 * yoe + yoe div 4 - yoe div 100);
          mp = (5 * doy + 2) div 153;
          d = doy - (153 * mp + 2) div 5 + 1;
          m = (if mp < 10 then mp + 3 else mp - 9)
      in (yoe + era * 400 + (if m \<le> 2 then 1 else 0), m, d))"

definition zero_pad :: "nat \<Rightarrow> int \<Rightarrow> string" where
  "zero_pad n x = (let s = FormatInt x in replicate (n - length s) (CHR ''0'') @ s)"

definition Format_RFC3339 :: "gotime \<Rightarrow> string" where
  "Format_RFC3339 t =
     (let secs = time_Unix t; (y, m, d) = civil_date (secs div 86400); s = secs mod 86400
      in zero_pad 4 y @ ''-'' @ zero_pad 2 m @ ''-'' @ zero_pad 2 d @ ''T'' @ zero_pad 2 (s div 3600) @ '':'' @
         zero_pad 2 (s div 60 mod 60) @ '':'' @ zero_pad 2 (s mod 60) @ ''Z'')"

section \<open>Durations\<close>

text \<open>The digits of a fraction without its trailing zeros, with the point in front.\<close>

definition format_frac :: "nat \<Rightarrow> int \<Rightarrow> string" where
  "format_frac digits x =
     (let s = rev (dropWhile (\<lambda>c. c = CHR ''0'') (rev (zero_pad digits x))) in if s = [] then [] else ''.'' @ s)"

definition Duration_String :: "duration \<Rightarrow> string" where
  "Duration_String d =
     (let u = \<bar>d\<bar>;
          body =
            (if u = 0 then ''0s''
             else if u < 1000 then FormatInt u @ ''ns''
             else if u < 1000000 then FormatInt (u div 1000) @ format_frac 3 (u mod 1000) @ [CHR 0xC2, CHR 0xB5] @ ''s''
             else if u < second then FormatInt (u div 1000000) @ format_frac 6 (u mod 1000000) @ ''ms''
             else
               (let total = u div second; h = total div 3600; mi = total div 60 mod 60; s = total mod 60
                in (if 0 < h then FormatInt h @ ''h'' else []) @
                   (if 0 < h \<or> 0 < mi then FormatInt mi @ ''m'' else []) @
                   FormatInt s @ format_frac 9 (u mod second) @ ''s''))
      in if d < 0 then ''-'' @ body else body)"

lemma date_samples:
  "civil_date 0 = (1970, 1, 1)"
  "civil_date 19782 = (2024, 2, 29)"
  "civil_date (- 1) = (1969, 12, 31)"
  "civil_date (- 719162) = (1, 1, 1)"
  by (code_simp+)

lemma digit_char_samples:
  "digit_char 0 = CHR ''0''" "digit_char 1 = CHR ''1''" "digit_char (Suc 0) = CHR ''1''" "digit_char 3 = CHR ''3''" "digit_char 5 = CHR ''5''"
  by (simp_all add: digit_char_def char_of_def bit_0)

lemma duration_samples:
  "Duration_String 300000000000 = ''5m0s''"
  "Duration_String 5401500000000 = ''1h30m1.5s''"
  by (simp_all add: Duration_String_def format_frac_def zero_pad_def FormatInt_def nat_digits.simps second_def digit_char_samples)

end
