(* ===== verification/Telegram.thy ===== *)
theory Telegram
  imports Approval Go_Net Go_Time
begin

text \<open>
  The Telegram channel: what the bot sends for a transaction (\<open>approval/telegram.go\<close>), how the
  data of a pressed button is read and who may press it (\<open>approval/callback.go\<close>), and the long
  poll that turns updates into decisions (\<open>approval/poller.go\<close>). The Telegram server is the
  parameter \<open>http_client\<close>, which may answer anything.
\<close>

section \<open>Callback data\<close>

definition TTLAllowed :: "int \<Rightarrow> int list \<Rightarrow> bool" where
  "TTLAllowed sec allowed \<longleftrightarrow> sec \<in> set allowed"

definition DefaultTTLFromAllowed :: "int list \<Rightarrow> duration" where
  "DefaultTTLFromAllowed allowed = (case allowed of a # _ \<Rightarrow> wrap64 (a * second) | [] \<Rightarrow> 5 * minute)"

text \<open>The results are the action, the transaction and the TTL, or \<open>None\<close> for \<open>ok = false\<close>.\<close>

definition ParseCallbackData :: "string \<Rightarrow> int list \<Rightarrow> (string \<times> string \<times> duration) option" where
  "ParseCallbackData data allowedTTLs =
     (let parts = Split data (CHR '':'')
      in if length parts < 2 then None
         else if parts ! 0 = ''deny''
         then if length parts \<noteq> 2 \<or> \<not> HasPrefix (parts ! 1) ''tx_'' then None
              else Some (''deny'', parts ! 1, 0)
         else if parts ! 0 = ''approve''
         then if \<not> HasPrefix (parts ! 1) ''tx_'' then None
              else if 3 \<le> length parts
              then (case ParseInt (parts ! 2) of
                      None \<Rightarrow> None
                    | Some sec \<Rightarrow>
                        if \<not> TTLAllowed sec allowedTTLs then None
                        else Some (''approve'', parts ! 1, wrap64 (sec * second)))
              else Some (''approve'', parts ! 1, 0)
         else None)"

definition ChatAllowed :: "string \<Rightarrow> int \<Rightarrow> bool" where
  "ChatAllowed configuredChatID chatID =
     (let c = TrimSpace configuredChatID
      in if c = [] then False else case ParseInt c of None \<Rightarrow> False | Some allowed \<Rightarrow> chatID = allowed)"

definition TelegramUserAllowed :: "string \<Rightarrow> string \<Rightarrow> int \<Rightarrow> bool" where
  "TelegramUserAllowed configuredChatID configuredUserIDs userID =
     ((\<exists>raw \<in> set (Split configuredUserIDs (CHR '','')). ParseInt (TrimSpace raw) = Some userID)
      \<or> (case ParseInt (TrimSpace configuredChatID) of None \<Rightarrow> False | Some chatID \<Rightarrow> 0 < chatID \<and> chatID = userID))"

section \<open>Messages\<close>

definition formatTTLLabel :: "int \<Rightarrow> string" where
  "formatTTLLabel sec =
     (if 60 dvd sec \<and> 60 \<le> sec then ''Approve '' @ FormatInt (sec div 60) @ ''m''
      else ''Approve '' @ FormatInt sec @ ''s'')"

text \<open>A button is its text and its callback data.\<close>

definition approvalKeyboard :: "string \<Rightarrow> int list \<Rightarrow> (string \<times> string) list list" where
  "approvalKeyboard txID allowedTTLs =
     (let ttls = (if allowedTTLs = [] then [180, 300, 900] else allowedTTLs)
      in [map (\<lambda>sec. (formatTTLLabel sec, ''approve:'' @ txID @ '':'' @ FormatInt sec)) ttls @
          [(''Deny'', ''deny:'' @ txID)]])"

definition button_json :: "string \<times> string \<Rightarrow> json" where
  "button_json b = JObject [(''callback_data'', JString (snd b)), (''text'', JString (fst b))]"

definition destinationHostKeyLabel :: "Transaction \<Rightarrow> string" where
  "destinationHostKeyLabel tx =
     (if tx_DestinationHostKeySource tx = ''client-reported'' then ''Client-reported SSH host key''
      else ''Session-bound SSH host key'')"

definition newline :: string where
  "newline = [CHR 0x0A]"

text \<open>The lines that both messages begin with.\<close>

definition message_lines :: "Transaction \<Rightarrow> string" where
  "message_lines tx =
     ''Luna SSH sign request'' @ newline @
     ''Target user: '' @ tx_TargetUser tx @ newline @
     ''Target host claim: '' @ tx_TargetIP tx @ newline @
     (if tx_DestinationHostKeyFingerprint tx \<noteq> []
      then destinationHostKeyLabel tx @ '': '' @ tx_DestinationHostKeyFingerprint tx @ newline else []) @
     (if tx_SourceIP tx \<noteq> [] then ''Source IP: '' @ tx_SourceIP tx @ newline else []) @
     (if tx_SourceUser tx \<noteq> [] then ''Source user: '' @ tx_SourceUser tx @ newline else []) @
     (if tx_ClientName tx \<noteq> [] \<or> tx_ClientVersion tx \<noteq> []
      then if tx_ClientVersion tx \<noteq> []
           then ''Client: '' @ tx_ClientName tx @ '' '' @ tx_ClientVersion tx @ newline
           else ''Client: '' @ tx_ClientName tx @ newline
      else [])"

definition formatApprovalMessage :: "Transaction option \<Rightarrow> string" where
  "formatApprovalMessage txo =
     (case txo of None \<Rightarrow> ''Luna SSH sign request'' | Some tx \<Rightarrow> message_lines tx @ ''Tx: '' @ tx_ID tx)"

record Resolution =
  res_Decision :: string
  res_Approver :: string
  res_At :: gotime
  res_TTL :: duration

definition formatApproverDisplay :: "string \<Rightarrow> string" where
  "formatApproverDisplay approver =
     (if HasPrefix approver ''telegram:'' then ''Telegram chat '' @ TrimPrefix approver ''telegram:''
      else if HasPrefix approver ''device:'' then ''Mobile device '' @ TrimPrefix approver ''device:''
      else approver)"

definition formatResolvedApprovalMessage :: "Transaction option \<Rightarrow> Resolution \<Rightarrow> string" where
  "formatResolvedApprovalMessage txo res =
     (case txo of
        None \<Rightarrow> ''Luna SSH sign request'' @ newline @ ''Status: '' @ res_Decision res
      | Some tx \<Rightarrow>
          TrimRight
            (message_lines tx @ ''Tx: '' @ tx_ID tx @ newline @
             ''Status: '' @ res_Decision res @ newline @
             (if res_Approver res \<noteq> [] then ''By: '' @ formatApproverDisplay (res_Approver res) @ newline else []) @
             (if \<not> time_IsZero (res_At res) then ''At: '' @ Format_RFC3339 (res_At res) @ newline else []) @
             (if res_Decision res = ''APPROVED'' \<and> 0 < res_TTL res
              then ''Lease TTL: '' @ Duration_String (res_TTL res) else []))
            newline)"

section \<open>Calling the bot API\<close>

definition telegramAPIBase :: string where
  "telegramAPIBase = ''https://api.telegram.org''"

text \<open>The HTTP client of the configuration is the parameter of the operations.\<close>

record NotifierConfig =
  nc_BotToken :: string
  nc_ChatID :: string
  nc_AllowedTTLSeconds :: "int list"
  nc_BaseURL :: string

definition base_or_default :: "string \<Rightarrow> string" where
  "base_or_default base = (if base = [] then telegramAPIBase else base)"

definition http_status_error :: "string \<Rightarrow> int \<Rightarrow> go_error" where
  "http_status_error what status = Errorf (''telegram '' @ what @ '': HTTP '' @ FormatInt status)"

text \<open>The \<open>ok\<close> of an acknowledgement.\<close>

definition decode_ack :: "json_lib \<Rightarrow> bytes \<Rightarrow> bool option" where
  "decode_ack js raw = Unmarshal js [bool_field ''ok'' (\<lambda>b _. b), string_field ''description'' (\<lambda>_ b. b)] raw False"

definition check_ack :: "json_lib \<Rightarrow> string \<Rightarrow> in_response result \<Rightarrow> go_error option" where
  "check_ack js what resp =
     (case resp of
        Inl err \<Rightarrow> Some err
      | Inr r \<Rightarrow>
          if \<not> status_ok (in_status r) then Some (http_status_error what (in_status r))
          else case decode_ack js (take 4096 (in_body r)) of
                 None \<Rightarrow> Some (Errorf (''telegram '' @ what @ '': invalid json response''))
               | Some False \<Rightarrow> Some (Errorf (''telegram '' @ what @ '': not ok''))
               | Some True \<Rightarrow> None)"

definition telegramAPIPOST ::
  "json_lib \<Rightarrow> http_client \<Rightarrow> NotifierConfig \<Rightarrow> string \<Rightarrow> json \<Rightarrow> out_request list
   \<Rightarrow> out_request list \<times> go_error option" where
  "telegramAPIPOST js client cfg meth payload sent =
     (case http_Do client
             \<lparr>or_method = POST, or_url = base_or_default (nc_BaseURL cfg) @ ''/bot'' @ nc_BotToken cfg @ ''/'' @ meth,
              or_body = js_print js payload, or_headers = json_header\<rparr> sent of
        (sent', resp) \<Rightarrow> (sent', check_ack js meth resp))"

definition EditMessageText ::
  "json_lib \<Rightarrow> http_client \<Rightarrow> NotifierConfig \<Rightarrow> int \<Rightarrow> int \<Rightarrow> string \<Rightarrow> out_request list
   \<Rightarrow> out_request list \<times> go_error option" where
  "EditMessageText js client cfg chatID messageID txt sent =
     (if nc_BotToken cfg = [] \<or> messageID = 0 then (sent, None)
      else telegramAPIPOST js client cfg ''editMessageText''
             (JObject [(''chat_id'', JInt chatID), (''message_id'', JInt messageID),
                       (''reply_markup'', JObject [(''inline_keyboard'', JArray [])]), (''text'', JString txt)])
             sent)"

definition DeleteWebhook ::
  "json_lib \<Rightarrow> http_client \<Rightarrow> NotifierConfig \<Rightarrow> out_request list \<Rightarrow> out_request list \<times> go_error option" where
  "DeleteWebhook js client cfg sent =
     (let token = TrimSpace (nc_BotToken cfg)
      in if token = [] then (sent, Some (Errorf ''telegram bot token not configured''))
         else case http_Do client
                     \<lparr>or_method = POST, or_url = base_or_default (nc_BaseURL cfg) @ ''/bot'' @ token @ ''/deleteWebhook'',
                      or_body = ''{}'', or_headers = json_header\<rparr> sent of
                (sent', resp) \<Rightarrow> (sent', check_ack js ''deleteWebhook'' resp))"

section \<open>The notifier\<close>

record Notifier =
  nt_token :: string
  nt_chatID :: string
  nt_allowedTTLs :: "int list"
  nt_baseURL :: string
  nt_sent :: "string list"

definition NewNotifier :: "NotifierConfig \<Rightarrow> Notifier" where
  "NewNotifier cfg =
     \<lparr>nt_token = nc_BotToken cfg, nt_chatID = nc_ChatID cfg, nt_allowedTTLs = nc_AllowedTTLSeconds cfg,
      nt_baseURL = base_or_default (nc_BaseURL cfg), nt_sent = []\<rparr>"

definition Configured :: "Notifier option \<Rightarrow> bool" where
  "Configured no = (case no of None \<Rightarrow> False | Some n \<Rightarrow> nt_token n \<noteq> [] \<and> nt_chatID n \<noteq> [])"

definition forgetSent :: "string \<Rightarrow> Notifier \<Rightarrow> Notifier" where
  "forgetSent txID n = n\<lparr>nt_sent := removeAll txID (nt_sent n)\<rparr>"

definition notify_request :: "json_lib \<Rightarrow> Notifier \<Rightarrow> Transaction \<Rightarrow> out_request" where
  "notify_request js n tx =
     \<lparr>or_method = POST, or_url = nt_baseURL n @ ''/bot'' @ nt_token n @ ''/sendMessage'',
      or_body = js_print js
        (JObject [(''chat_id'', JString (nt_chatID n)),
                  (''reply_markup'', JObject [(''inline_keyboard'',
                     JArray (map (\<lambda>row. JArray (map button_json row)) (approvalKeyboard (tx_ID tx) (nt_allowedTTLs n))))]),
                  (''text'', JString (formatApprovalMessage (Some tx)))]),
      or_headers = json_header\<rparr>"

definition Notify ::
  "json_lib \<Rightarrow> http_client \<Rightarrow> Transaction \<Rightarrow> Notifier \<times> out_request list
   \<Rightarrow> (Notifier \<times> out_request list) \<times> go_error option" where
  "Notify js client tx w =
     (case w of (n, sent) \<Rightarrow>
        if nt_token n = [] \<or> nt_chatID n = [] then ((n, sent), None)
        else if tx_ID tx \<in> set (nt_sent n) then ((n, sent), None)
        else
          (let n1 = n\<lparr>nt_sent := tx_ID tx # nt_sent n\<rparr>;
               req = notify_request js n tx
           in if \<not> hc_valid_url client (or_url req) then ((n1, sent), Some bad_url)
              else case hc_do client sent req of
                     Inl err \<Rightarrow> ((forgetSent (tx_ID tx) n1, sent @ [req]), Some err)
                   | Inr r \<Rightarrow>
                       if \<not> status_ok (in_status r)
                       then ((forgetSent (tx_ID tx) n1, sent @ [req]), Some (http_status_error ''sendMessage'' (in_status r)))
                       else ((n1, sent @ [req]), None)))"

section \<open>The poller\<close>

record telegramMessage =
  tm_MessageID :: int
  tm_ChatID :: int

record telegramCallbackQuery =
  tq_ID :: string
  tq_Data :: string
  tq_FromID :: int
  tq_Message :: "telegramMessage option"

record telegramUpdate =
  tu_UpdateID :: int
  tu_CallbackQuery :: "telegramCallbackQuery option"

text \<open>Decoding an update.\<close>

definition message_fields :: "telegramMessage json_field list" where
  "message_fields =
     [int_field ''message_id'' (\<lambda>v m. m\<lparr>tm_MessageID := v\<rparr>),
      struct_field ''chat'' [int_field ''id'' (\<lambda>v _. v)] tm_ChatID (\<lambda>v m. m\<lparr>tm_ChatID := v\<rparr>)]"

definition callback_fields :: "telegramCallbackQuery json_field list" where
  "callback_fields =
     [string_field ''id'' (\<lambda>v q. q\<lparr>tq_ID := v\<rparr>),
      string_field ''data'' (\<lambda>v q. q\<lparr>tq_Data := v\<rparr>),
      struct_field ''from'' [int_field ''id'' (\<lambda>v _. v)] tq_FromID (\<lambda>v q. q\<lparr>tq_FromID := v\<rparr>),
      pointer_field ''message'' message_fields \<lparr>tm_MessageID = 0, tm_ChatID = 0\<rparr> tq_Message
        (\<lambda>v q. q\<lparr>tq_Message := v\<rparr>)]"

definition update_fields :: "telegramUpdate json_field list" where
  "update_fields =
     [int_field ''update_id'' (\<lambda>v u. u\<lparr>tu_UpdateID := v\<rparr>),
      pointer_field ''callback_query'' callback_fields
        \<lparr>tq_ID = [], tq_Data = [], tq_FromID = 0, tq_Message = None\<rparr> tu_CallbackQuery
        (\<lambda>v u. u\<lparr>tu_CallbackQuery := v\<rparr>)]"

definition decode_update :: "json \<Rightarrow> telegramUpdate option" where
  "decode_update j = decode_struct update_fields j \<lparr>tu_UpdateID = 0, tu_CallbackQuery = None\<rparr>"

definition decode_updates :: "json_lib \<Rightarrow> bytes \<Rightarrow> (bool \<times> telegramUpdate list) option" where
  "decode_updates js raw =
     Unmarshal js [bool_field ''ok'' (\<lambda>b a. (b, snd a)), slice_field ''result'' decode_update (\<lambda>us a. (fst a, us))]
       raw (False, [])"

text \<open>The poller with the store it decides on. The log and the requests it has sent are kept as
  lists; a log entry is a route, a transaction, an outcome and a detail.\<close>

type_synonym log_entry = "string \<times> string \<times> string \<times> string"

record Poller =
  po_token :: string
  po_chatID :: string
  po_allowedUserIDs :: string
  po_allowedTTLs :: "int list"
  po_baseURL :: string
  po_store :: Store
  po_pollTimeout :: duration
  po_offset :: int
  po_log :: "log_entry list"
  po_sent :: "out_request list"

definition defaultPollTimeout :: duration where
  "defaultPollTimeout = 30 * second"

definition NewPoller :: "NotifierConfig \<Rightarrow> Store \<Rightarrow> duration \<Rightarrow> string \<Rightarrow> Poller" where
  "NewPoller cfg store pollTimeout allowedUserIDs =
     \<lparr>po_token = TrimSpace (nc_BotToken cfg), po_chatID = TrimSpace (nc_ChatID cfg),
      po_allowedUserIDs = TrimSpace allowedUserIDs, po_allowedTTLs = nc_AllowedTTLSeconds cfg,
      po_baseURL = base_or_default (nc_BaseURL cfg), po_store = store,
      po_pollTimeout = (if pollTimeout \<le> 0 then defaultPollTimeout else pollTimeout),
      po_offset = 0, po_log = [], po_sent = []\<rparr>"

definition logEvent :: "string \<Rightarrow> string \<Rightarrow> string \<Rightarrow> string \<Rightarrow> Poller \<Rightarrow> Poller" where
  "logEvent route txID outcome detail p = p\<lparr>po_log := po_log p @ [(route, txID, outcome, detail)]\<rparr>"

definition answerCallbackQuery ::
  "json_lib \<Rightarrow> http_client \<Rightarrow> string \<Rightarrow> string \<Rightarrow> Poller \<Rightarrow> Poller \<times> go_error option" where
  "answerCallbackQuery js client callbackQueryID txt p =
     (if callbackQueryID = [] then (p, None)
      else case http_Do client
                  \<lparr>or_method = POST, or_url = po_baseURL p @ ''/bot'' @ po_token p @ ''/answerCallbackQuery'',
                   or_body = js_print js (JObject ([(''callback_query_id'', JString callbackQueryID)] @ omit_string ''text'' txt)),
                   or_headers = json_header\<rparr> (po_sent p) of
             (sent', Inl err) \<Rightarrow> (p\<lparr>po_sent := sent'\<rparr>, Some err)
           | (sent', Inr r) \<Rightarrow>
               (p\<lparr>po_sent := sent'\<rparr>,
                if status_ok (in_status r) then None else Some (http_status_error ''answerCallbackQuery'' (in_status r))))"

definition editResolvedMessage ::
  "json_lib \<Rightarrow> http_client \<Rightarrow> NotifierConfig \<Rightarrow> telegramMessage option \<Rightarrow> Transaction option \<Rightarrow> Resolution \<Rightarrow> Poller \<Rightarrow> Poller" where
  "editResolvedMessage js client cfg msg tx res p =
     (case msg of
        None \<Rightarrow> p
      | Some m \<Rightarrow>
          if tm_MessageID m = 0 then p
          else case EditMessageText js client cfg (tm_ChatID m) (tm_MessageID m) (formatResolvedApprovalMessage tx res)
                      (po_sent p) of
                 (sent', None) \<Rightarrow> p\<lparr>po_sent := sent'\<rparr>
               | (sent', Some err) \<Rightarrow> logEvent ''poll'' [] ''edit_message_failed'' (error_text err) (p\<lparr>po_sent := sent'\<rparr>))"

definition poller_cfg :: "Poller \<Rightarrow> NotifierConfig" where
  "poller_cfg p = \<lparr>nc_BotToken = po_token p, nc_ChatID = [], nc_AllowedTTLSeconds = [], nc_BaseURL = po_baseURL p\<rparr>"

text \<open>What a decision needs besides the poller: the library, the keystore and the clock, read
  for the message, for the expiry and by the issuer.\<close>

record decider =
  de_lib :: ssh_lib
  de_ks :: Keystore
  de_at :: gotime
  de_now :: gotime
  de_now' :: gotime

definition decide ::
  "json_lib \<Rightarrow> http_client \<Rightarrow> decider \<Rightarrow> telegramMessage \<Rightarrow> string \<Rightarrow> string \<Rightarrow> duration \<Rightarrow> Poller \<Rightarrow> Poller" where
  "decide js client d msg action txID ttl p =
     (let txSnap = Snapshot txID (po_store p);
          approver = FormatApproverChatID (tm_ChatID msg);
          cfg = poller_cfg p
      in if action = ''approve''
         then (let ttl = (if ttl \<le> 0 then DefaultTTLFromAllowed (po_allowedTTLs p) else ttl);
                   p1 = p\<lparr>po_store := Approve (de_lib d) (de_now d) (de_now' d) (de_ks d) txID ttl approver (po_store p)\<rparr>;
                   p2 = logEvent ''poll'' txID ''approved'' (''ttl='' @ Duration_String ttl) p1
               in editResolvedMessage js client cfg (Some msg) txSnap
                    \<lparr>res_Decision = ''APPROVED'', res_Approver = approver, res_At = de_at d, res_TTL = ttl\<rparr> p2)
         else if action = ''deny''
         then (let p1 = p\<lparr>po_store := Deny txID (po_store p)\<rparr>;
                   p2 = logEvent ''poll'' txID ''denied'' [] p1
               in editResolvedMessage js client cfg (Some msg) txSnap
                    \<lparr>res_Decision = ''DENIED'', res_Approver = approver, res_At = de_at d, res_TTL = 0\<rparr> p2)
         else p)"

definition toast_text :: "string \<Rightarrow> string" where
  "toast_text action = (if action = ''approve'' then ''Approved'' else if action = ''deny'' then ''Denied'' else [])"

definition handleUpdate :: "json_lib \<Rightarrow> http_client \<Rightarrow> decider \<Rightarrow> telegramUpdate \<Rightarrow> Poller \<Rightarrow> Poller" where
  "handleUpdate js client d upd p =
     (case tu_CallbackQuery upd of
        None \<Rightarrow> p
      | Some cq \<Rightarrow>
          if tq_Data cq = [] then p
          else case ParseCallbackData (tq_Data cq) (po_allowedTTLs p) of
                 None \<Rightarrow> logEvent ''poll'' [] ''ignored_callback'' (tq_Data cq) p
               | Some (action, txID, ttl) \<Rightarrow>
                   (let p' =
                      (case tq_Message cq of
                         None \<Rightarrow> logEvent ''poll'' txID ''ignored_chat'' (''chat_id='' @ FormatInt 0) p
                       | Some msg \<Rightarrow>
                           if \<not> ChatAllowed (po_chatID p) (tm_ChatID msg)
                           then logEvent ''poll'' txID ''ignored_chat'' (''chat_id='' @ FormatInt (tm_ChatID msg)) p
                           else if \<not> TelegramUserAllowed (po_chatID p) (po_allowedUserIDs p) (tq_FromID cq)
                           then logEvent ''poll'' txID ''ignored_user'' (''user_id='' @ FormatInt (tq_FromID cq)) p
                           else decide js client d msg action txID ttl p)
                    in fst (answerCallbackQuery js client (tq_ID cq) (toast_text action) p')))"

definition poll_url :: "Poller \<Rightarrow> string" where
  "poll_url p =
     po_baseURL p @ ''/bot'' @ po_token p @ ''/getUpdates?allowed_updates=%5B%22callback_query%22%5D'' @
     (if 0 < po_offset p then ''&offset='' @ FormatInt (po_offset p) else []) @
     ''&timeout='' @ FormatInt (po_pollTimeout p div second)"

definition take_update :: "json_lib \<Rightarrow> http_client \<Rightarrow> decider \<Rightarrow> telegramUpdate \<Rightarrow> Poller \<Rightarrow> Poller" where
  "take_update js client d upd p =
     handleUpdate js client d upd
       (if po_offset p \<le> tu_UpdateID upd then p\<lparr>po_offset := wrap64 (tu_UpdateID upd + 1)\<rparr> else p)"

text \<open>The loop over the updates; each is decided with its own readings of the clock.\<close>

fun take_updates :: "json_lib \<Rightarrow> http_client \<Rightarrow> (nat \<Rightarrow> decider) \<Rightarrow> telegramUpdate list \<Rightarrow> Poller \<Rightarrow> Poller" where
  "take_updates js client ds [] p = p"
| "take_updates js client ds (u # us) p = take_updates js client (\<lambda>i. ds (Suc i)) us (take_update js client (ds 0) u p)"

definition pollOnce :: "json_lib \<Rightarrow> http_client \<Rightarrow> (nat \<Rightarrow> decider) \<Rightarrow> Poller \<Rightarrow> Poller \<times> go_error option" where
  "pollOnce js client ds p =
     (case http_Do client \<lparr>or_method = GET, or_url = poll_url p, or_body = [], or_headers = []\<rparr> (po_sent p) of
        (sent', Inl err) \<Rightarrow> (p\<lparr>po_sent := sent'\<rparr>, Some err)
      | (sent', Inr r) \<Rightarrow>
          (let p1 = p\<lparr>po_sent := sent'\<rparr>
           in case in_read_err r of
                Some err \<Rightarrow> (p1, Some err)
              | None \<Rightarrow>
                  if \<not> status_ok (in_status r) then (p1, Some (http_status_error ''getUpdates'' (in_status r)))
                  else case decode_updates js (take (2 ^ 20) (in_body r)) of
                         None \<Rightarrow> (p1, Some (Errorf ''telegram getUpdates: invalid json response''))
                       | Some (False, us) \<Rightarrow> (p1, Some (Errorf ''telegram getUpdates: not ok''))
                       | Some (True, us) \<Rightarrow> (take_updates js client ds us p1, None)))"

text \<open>\<open>Run\<close> for the given number of rounds, after which the context is cancelled. The pause after
  an error changes nothing here.\<close>

definition poll_start :: "json_lib \<Rightarrow> http_client \<Rightarrow> Poller \<Rightarrow> Poller" where
  "poll_start js client p =
     (case DeleteWebhook js client (poller_cfg p) (po_sent p) of
        (sent', Some err) \<Rightarrow> logEvent ''poll'' [] ''delete_webhook_failed'' (error_text err) (p\<lparr>po_sent := sent'\<rparr>)
      | (sent', None) \<Rightarrow>
          logEvent ''poll'' [] ''started'' (''timeout='' @ Duration_String (po_pollTimeout p)) (p\<lparr>po_sent := sent'\<rparr>))"

fun poll_loop :: "json_lib \<Rightarrow> http_client \<Rightarrow> (nat \<Rightarrow> nat \<Rightarrow> decider) \<Rightarrow> nat \<Rightarrow> Poller \<Rightarrow> Poller" where
  "poll_loop js client ds 0 p = p"
| "poll_loop js client ds (Suc n) p =
     (case pollOnce js client (ds n) p of
        (p1, None) \<Rightarrow> poll_loop js client ds n p1
      | (p1, Some err) \<Rightarrow> poll_loop js client ds n (logEvent ''poll'' [] ''error'' (error_text err) p1))"

definition poller_Run :: "json_lib \<Rightarrow> http_client \<Rightarrow> (nat \<Rightarrow> nat \<Rightarrow> decider) \<Rightarrow> nat \<Rightarrow> Poller \<Rightarrow> Poller" where
  "poller_Run js client ds rounds p =
     (if po_token p = [] then p else poll_loop js client ds rounds (poll_start js client p))"

section \<open>What the poller may do to the store\<close>

text \<open>The decisions that an update carries: the press of a button under a message of the configured
  chat, by a user who may decide, approves the transaction that the button names for the time on
  the button, or for the default time when the button has none, or denies it.\<close>

inductive telegram_decision :: "string \<Rightarrow> string \<Rightarrow> int list \<Rightarrow> telegramUpdate \<Rightarrow> Store \<Rightarrow> Store \<Rightarrow> bool"
  for chat users allowed upd where
  decision_approve:
    "telegram_decision chat users allowed upd s
       (Approve lib now now' ks txID (if ttl \<le> 0 then DefaultTTLFromAllowed allowed else ttl) (FormatApproverChatID (tm_ChatID msg)) s)"
    if "tu_CallbackQuery upd = Some cq" and "tq_Message cq = Some msg" and "ChatAllowed chat (tm_ChatID msg)"
      and "TelegramUserAllowed chat users (tq_FromID cq)" and "ParseCallbackData (tq_Data cq) allowed = Some (''approve'', txID, ttl)"
| decision_deny:
    "telegram_decision chat users allowed upd s (Deny txID s)"
    if "tu_CallbackQuery upd = Some cq" and "tq_Message cq = Some msg" and "ChatAllowed chat (tm_ChatID msg)"
      and "TelegramUserAllowed chat users (tq_FromID cq)" and "ParseCallbackData (tq_Data cq) allowed = Some (''deny'', txID, ttl)"

text \<open>The updates that were received: they are in the answer to a request for updates among those that
  were sent, and the answer was complete and a success.\<close>

definition received :: "json_lib \<Rightarrow> http_client \<Rightarrow> Poller \<Rightarrow> out_request list \<Rightarrow> telegramUpdate \<Rightarrow> bool" where
  "received js client p sent upd \<longleftrightarrow> (\<exists>pre off post r us.
     sent = pre @ \<lparr>or_method = GET, or_url = poll_url (p\<lparr>po_offset := off\<rparr>), or_body = [], or_headers = []\<rparr> # post
     \<and> hc_do client pre \<lparr>or_method = GET, or_url = poll_url (p\<lparr>po_offset := off\<rparr>), or_body = [], or_headers = []\<rparr> = Inr r
     \<and> in_read_err r = None \<and> status_ok (in_status r)
     \<and> decode_updates js (take (2 ^ 20) (in_body r)) = Some (True, us) \<and> upd \<in> set us)"

lemma received_later: "received js client p sent upd \<Longrightarrow> received js client p (sent @ later) upd"
  unfolding received_def by (metis append.assoc append_Cons)

text \<open>Everything of the poller but its store, offset, log and requests is fixed.\<close>

definition poller_conf :: "Poller \<Rightarrow> (string \<times> string \<times> int list) \<times> string \<times> string \<times> duration" where
  "poller_conf p = ((po_chatID p, po_allowedUserIDs p, po_allowedTTLs p), po_baseURL p, po_token p, po_pollTimeout p)"

definition may_decide :: "Poller \<Rightarrow> telegramUpdate \<Rightarrow> Store \<Rightarrow> Store \<Rightarrow> bool" where
  "may_decide p = telegram_decision (po_chatID p) (po_allowedUserIDs p) (po_allowedTTLs p)"

lemma may_decide_conf: "poller_conf p = poller_conf q \<Longrightarrow> may_decide p = may_decide q"
  by (simp add: poller_conf_def may_decide_def)

lemma received_conf: "poller_conf p = poller_conf q \<Longrightarrow> received js client p = received js client q"
  by (simp add: poller_conf_def received_def poll_url_def fun_eq_iff)

text \<open>The store after decisions carried by updates of a set.\<close>

definition decided :: "Poller \<Rightarrow> telegramUpdate set \<Rightarrow> Store \<Rightarrow> Store \<Rightarrow> bool" where
  "decided p U = (\<lambda>s s'. \<exists>upd \<in> U. may_decide p upd s s')\<^sup>*\<^sup>*"

lemma decided_refl [simp]: "decided p U s s"
  by (simp add: decided_def)

lemma decided_trans: "decided p U s s' \<Longrightarrow> decided p U s' s'' \<Longrightarrow> decided p U s s''"
  unfolding decided_def by (rule rtranclp_trans)

lemma decided_mono: "decided p U s s' \<Longrightarrow> U \<subseteq> V \<Longrightarrow> decided p V s s'"
  unfolding decided_def by (erule rtranclp_mono [THEN predicate2D, rotated]) blast

lemma decided_conf:
  assumes "poller_conf p = poller_conf q" shows "decided p = decided q"
  unfolding decided_def may_decide_conf [OF assms] ..

text \<open>Requests are only added.\<close>

definition sends :: "out_request list \<Rightarrow> out_request list \<Rightarrow> bool" where
  "sends sent sent' \<longleftrightarrow> (\<exists>later. sent' = sent @ later)"

lemma sends_refl [simp]: "sends sent sent"
  by (simp add: sends_def)

lemma sends_trans: "sends a b \<Longrightarrow> sends b c \<Longrightarrow> sends a c"
  by (auto simp: sends_def)

lemma http_Do_sends: "http_Do client req sent = (sent', x) \<Longrightarrow> sends sent sent'"
  by (auto simp: http_Do_def sends_def split: if_splits)

lemma received_sends: "received js client p sent upd \<Longrightarrow> sends sent sent' \<Longrightarrow> received js client p sent' upd"
  by (auto simp: sends_def received_later)

lemma logEvent_keeps [simp]:
  "po_store (logEvent r t out d p) = po_store p" "poller_conf (logEvent r t out d p) = poller_conf p"
  "po_offset (logEvent r t out d p) = po_offset p"
  by (simp_all add: logEvent_def poller_conf_def)

lemma sent_keeps [simp]: "poller_conf (p\<lparr>po_sent := x\<rparr>) = poller_conf p" "poller_conf (p\<lparr>po_store := y\<rparr>) = poller_conf p"
  "poller_conf (p\<lparr>po_offset := z\<rparr>) = poller_conf p"
  by (simp_all add: poller_conf_def)

lemma editResolvedMessage_keeps [simp]:
  "po_store (editResolvedMessage js client cfg msg tx res p) = po_store p"
  "poller_conf (editResolvedMessage js client cfg msg tx res p) = poller_conf p"
  "po_offset (editResolvedMessage js client cfg msg tx res p) = po_offset p"
  by (simp_all add: editResolvedMessage_def split: option.splits prod.splits)

lemma answerCallbackQuery_keeps [simp]:
  "po_store (fst (answerCallbackQuery js client i txt p)) = po_store p"
  "poller_conf (fst (answerCallbackQuery js client i txt p)) = poller_conf p"
  "po_offset (fst (answerCallbackQuery js client i txt p)) = po_offset p"
  by (simp_all add: answerCallbackQuery_def split: prod.splits sum.splits)

lemma decide_keeps [simp]:
  "poller_conf (decide js client d msg action txID ttl p) = poller_conf p"
  "po_offset (decide js client d msg action txID ttl p) = po_offset p"
  by (simp_all add: decide_def Let_def)

lemma ParseCallbackData_Some:
  assumes "ParseCallbackData data allowed = Some (action, txID, ttl)"
  shows "HasPrefix txID ''tx_'' \<and> (action = ''deny'' \<or> action = ''approve'' \<and>
           (ttl = 0 \<or> (\<exists>sec \<in> set allowed. ttl = wrap64 (sec * second))))"
  using assms by (auto simp: ParseCallbackData_def Let_def TTLAllowed_def split: if_splits option.splits)

lemma decide_store:
  assumes "tu_CallbackQuery upd = Some cq" and "tq_Message cq = Some msg"
    and "ParseCallbackData (tq_Data cq) (po_allowedTTLs p) = Some (action, txID, ttl)"
    and "ChatAllowed (po_chatID p) (tm_ChatID msg)"
    and "TelegramUserAllowed (po_chatID p) (po_allowedUserIDs p) (tq_FromID cq)"
  shows "may_decide p upd (po_store p) (po_store (decide js client d msg action txID ttl p))"
  using ParseCallbackData_Some [OF assms(3)] assms decision_approve [OF assms(1,2,4,5)] decision_deny [OF assms(1,2,4,5)]
  by (auto simp: decide_def Let_def may_decide_def)

lemma handleUpdate_keeps [simp]:
  "poller_conf (handleUpdate js client d upd p) = poller_conf p"
  "po_offset (handleUpdate js client d upd p) = po_offset p"
  by (simp_all add: handleUpdate_def Let_def split: option.splits)

lemma handleUpdate_store: "(may_decide p upd)\<^sup>=\<^sup>= (po_store p) (po_store (handleUpdate js client d upd p))"
  by (auto simp: handleUpdate_def Let_def split: option.splits intro: decide_store)

lemma take_update_keeps [simp]: "poller_conf (take_update js client d u p) = poller_conf p"
  by (simp add: take_update_def)

lemma take_update_store: "(may_decide p u)\<^sup>=\<^sup>= (po_store p) (po_store (take_update js client d u p))"
  using handleUpdate_store [of p u js client d]
    handleUpdate_store [of "p\<lparr>po_offset := wrap64 (tu_UpdateID u + 1)\<rparr>" u js client d]
    may_decide_conf [of "p\<lparr>po_offset := wrap64 (tu_UpdateID u + 1)\<rparr>" p]
  by (simp add: take_update_def)

lemma take_updates_keeps [simp]: "poller_conf (take_updates js client ds us p) = poller_conf p"
  by (induction us arbitrary: ds p) simp_all

lemma take_updates_store: "decided p (set us) (po_store p) (po_store (take_updates js client ds us p))"
proof (induction us arbitrary: ds p)
  case (Cons u us)
  let ?q = "take_update js client (ds 0) u p"
  have "decided p (set (u # us)) (po_store p) (po_store ?q)"
    using take_update_store [of p u js client "ds 0"] by (auto simp: decided_def)
  moreover have "decided p (set us) (po_store ?q) (po_store (take_updates js client (\<lambda>i. ds (Suc i)) us ?q))"
    using Cons [of ?q "\<lambda>i. ds (Suc i)"] decided_conf [of ?q p] by simp
  then have "decided p (set (u # us)) (po_store ?q) (po_store (take_updates js client (\<lambda>i. ds (Suc i)) us ?q))"
    by (rule decided_mono) auto
  ultimately show ?case by (simp add: decided_trans)
qed simp

lemma pollOnce_keeps [simp]: "poller_conf (fst (pollOnce js client ds p)) = poller_conf p"
  by (simp add: pollOnce_def Let_def split: prod.splits sum.splits option.splits bool.splits)

lemma telegramAPIPOST_sends: "telegramAPIPOST js client cfg m j sent = (sent', e) \<Longrightarrow> sends sent sent'"
  by (auto simp: telegramAPIPOST_def Let_def split: prod.splits if_splits dest: http_Do_sends)

lemma editResolvedMessage_sends: "sends (po_sent p) (po_sent (editResolvedMessage js client cfg msg tx res p))"
  by (auto simp: editResolvedMessage_def EditMessageText_def logEvent_def split: option.split prod.split
    dest: telegramAPIPOST_sends)

lemma answerCallbackQuery_sends: "sends (po_sent p) (po_sent (fst (answerCallbackQuery js client i txt p)))"
  by (auto simp: answerCallbackQuery_def split: prod.split sum.split dest: http_Do_sends)

lemma decide_sends: "sends (po_sent p) (po_sent (decide js client d msg action txID ttl p))"
proof -
  have "sends (po_sent p) (po_sent (editResolvedMessage js client cfg m tx res (logEvent a b c e (p\<lparr>po_store := st\<rparr>))))"
    for cfg m tx res a b c e st
    using editResolvedMessage_sends [of "logEvent a b c e (p\<lparr>po_store := st\<rparr>)"] by (simp add: logEvent_def)
  then show ?thesis by (simp add: decide_def Let_def)
qed

lemma handleUpdate_sends: "sends (po_sent p) (po_sent (handleUpdate js client d upd p))"
proof -
  have log: "sends (po_sent p) (po_sent (fst (answerCallbackQuery js client i msg' (logEvent a b c e p))))" for i msg' a b c e
    using answerCallbackQuery_sends [of "logEvent a b c e p"] by (simp add: logEvent_def)
  have dec: "sends (po_sent p) (po_sent (fst (answerCallbackQuery js client i msg' (decide js client d msg action txID ttl p))))"
    for i msg' msg action txID ttl
    by (rule sends_trans [OF decide_sends answerCallbackQuery_sends])
  show ?thesis
    by (auto simp: handleUpdate_def Let_def log dec split: option.split) (simp_all add: logEvent_def)
qed

lemma take_updates_sends: "sends (po_sent p) (po_sent (take_updates js client ds us p))"
proof (induction us arbitrary: ds p)
  case (Cons u us)
  have "sends (po_sent p) (po_sent (take_update js client (ds 0) u p))"
    using handleUpdate_sends [of "if po_offset p \<le> tu_UpdateID u then p\<lparr>po_offset := wrap64 (tu_UpdateID u + 1)\<rparr> else p" js client "ds 0" u]
    by (simp add: take_update_def split: if_splits)
  from sends_trans [OF this Cons] show ?case by simp
qed simp

lemma pollOnce_effect:
  assumes "pollOnce js client ds p = (q, err)"
  shows "sends (po_sent p) (po_sent q) \<and> decided p (Collect (received js client p (po_sent q))) (po_store p) (po_store q)"
proof -
  define req where "req = \<lparr>or_method = GET, or_url = poll_url p, or_body = [], or_headers = []\<rparr>"
  obtain sent' x where h: "http_Do client req (po_sent p) = (sent', x)" by fastforce
  note s = http_Do_sends [OF h]
  from assms h consider "q = p\<lparr>po_sent := sent'\<rparr>"
    | (taken) r us where "x = Inr r" "in_read_err r = None" "status_ok (in_status r)"
        "decode_updates js (take (2 ^ 20) (in_body r)) = Some (True, us)" "q = take_updates js client ds us (p\<lparr>po_sent := sent'\<rparr>)"
    unfolding pollOnce_def req_def [symmetric] h prod.case
    by (auto simp: Let_def split: sum.splits option.splits if_splits bool.splits)
  then show ?thesis
  proof cases
    case 1
    with s show ?thesis by simp
  next
    case taken
    from h taken(1) have d: "sent' = po_sent p @ [req]" "hc_do client (po_sent p) req = Inr r"
      by (auto simp: http_Do_def bad_url_def split: if_splits)
    have off: "poll_url (p\<lparr>po_offset := po_offset p\<rparr>) = poll_url p" by simp
    have "received js client p sent' u" if "u \<in> set us" for u
      unfolding received_def using d taken(2-4) that req_def off
      by (intro exI [of _ "po_sent p"] exI [of _ "po_offset p"] exI [of _ "[]"] exI [of _ r] exI [of _ us]) simp
    moreover have more: "sends sent' (po_sent q)" using take_updates_sends [of "p\<lparr>po_sent := sent'\<rparr>"] taken(5) by simp
    ultimately have "set us \<subseteq> Collect (received js client p (po_sent q))" by (auto intro: received_sends)
    moreover have "decided p (set us) (po_store p) (po_store q)"
      using take_updates_store [of "p\<lparr>po_sent := sent'\<rparr>" us js client ds] decided_conf [of "p\<lparr>po_sent := sent'\<rparr>" p] taken(5) by simp
    ultimately show ?thesis using sends_trans [OF s more] decided_mono by blast
  qed
qed

lemma poll_loop_effect:
  "sends (po_sent p) (po_sent (poll_loop js client ds n p))
   \<and> decided p (Collect (received js client p (po_sent (poll_loop js client ds n p)))) (po_store p) (po_store (poll_loop js client ds n p))"
proof (induction n arbitrary: p)
  case (Suc n)
  obtain q err where q: "pollOnce js client (ds n) p = (q, err)" by (cases "pollOnce js client (ds n) p")
  define q' where "q' = (case err of None \<Rightarrow> q | Some e \<Rightarrow> logEvent ''poll'' [] ''error'' (error_text e) q)"
  let ?z = "poll_loop js client ds n q'"
  have same: "po_store q' = po_store q" "po_sent q' = po_sent q" "poller_conf q' = poller_conf p"
    using pollOnce_keeps [of js client "ds n" p] q by (simp_all add: q'_def logEvent_def poller_conf_def split: option.splits)
  note conf = decided_conf [OF same(3)] received_conf [OF same(3)]
  have one: "sends (po_sent p) (po_sent q')" "decided p (Collect (received js client p (po_sent q'))) (po_store p) (po_store q')"
    using pollOnce_effect [OF q] same by simp_all
  have rest: "sends (po_sent q') (po_sent ?z)" "decided p (Collect (received js client p (po_sent ?z))) (po_store q') (po_store ?z)"
    using Suc [of q'] unfolding conf by simp_all
  have "decided p (Collect (received js client p (po_sent ?z))) (po_store p) (po_store q')"
    using one(2) by (rule decided_mono) (auto intro: received_sends [OF _ rest(1)])
  moreover have "poll_loop js client ds (Suc n) p = ?z" using q by (simp add: q'_def split: option.splits)
  ultimately show ?case using sends_trans [OF one(1) rest(1)] decided_trans [OF _ rest(2)] by simp
qed simp

lemma poll_start_keeps [simp]:
  "po_store (poll_start js client p) = po_store p" "poller_conf (poll_start js client p) = poller_conf p"
  by (simp_all add: poll_start_def split: prod.splits option.splits)

text \<open>
  (C19) Whatever the Telegram server answers, and for however long the poller runs, the transaction
  store changes only through decisions carried by updates that the poller received from the
  server in answer to its requests. Each is the press of a button under a message of the configured
  chat, and the sender of that very update may decide; it approves the transaction that the button
  names, for the time on the button or the default one, in the name of that chat, or denies it.
\<close>

theorem poller_authorised:
  "(\<lambda>s s'. \<exists>upd. received js client p (po_sent (poller_Run js client ds rounds p)) upd
       \<and> telegram_decision (po_chatID p) (po_allowedUserIDs p) (po_allowedTTLs p) upd s s')\<^sup>*\<^sup>*
     (po_store p) (po_store (poller_Run js client ds rounds p))"
proof -
  have c: "poller_conf (poll_start js client p) = poller_conf p" by simp
  from poll_loop_effect [of "poll_start js client p" js client ds rounds]
  have "decided p (Collect (received js client p (po_sent (poller_Run js client ds rounds p)))) (po_store p)
      (po_store (poller_Run js client ds rounds p))"
    unfolding decided_conf [OF c] received_conf [OF c] by (simp add: poller_Run_def)
  then show ?thesis by (simp add: decided_def may_decide_def)
qed

section \<open>Buttons\<close>

lemma ParseCallbackData_deny:
  assumes "CHR '':'' \<notin> set txID" and "HasPrefix txID ''tx_''"
  shows "ParseCallbackData (''deny:'' @ txID) allowed = Some (''deny'', txID, 0)"
proof -
  have "Split (''deny'' @ CHR '':'' # txID) (CHR '':'') = [''deny'', txID]"
    using assms(1) by (subst Split_append_sep) (simp_all add: Split_no_sep)
  then show ?thesis using assms(2) by (simp add: ParseCallbackData_def)
qed

lemma ParseCallbackData_approve:
  assumes "CHR '':'' \<notin> set txID" and "HasPrefix txID ''tx_''" and "int64 sec"
  shows "ParseCallbackData (''approve:'' @ txID @ '':'' @ FormatInt sec) allowed =
           (if sec \<in> set allowed then Some (''approve'', txID, wrap64 (sec * second)) else None)"
proof -
  have "Split (''approve'' @ CHR '':'' # (txID @ CHR '':'' # FormatInt sec)) (CHR '':'')
        = [''approve'', txID, FormatInt sec]"
    using assms(1) FormatInt_no_colon [of sec]
    by (subst Split_append_sep, simp, subst Split_append_sep) (simp_all add: Split_no_sep)
  then show ?thesis
    using assms(2,3) by (simp add: ParseCallbackData_def TTLAllowed_def ParseInt_FormatInt)
qed

lemma newTxID_prefix: "HasPrefix (newTxID ulid) ''tx_''"
  by (simp add: newTxID_def HasPrefix_def)

lemma newTxID_no_colon: "CHR '':'' \<notin> set ulid \<Longrightarrow> CHR '':'' \<notin> set (newTxID ulid)"
  by (simp add: newTxID_def)

text \<open>
  (C39) The buttons of a message and the parser agree: with a configured list of times, the
  keyboard of a transaction has one button per time and one to deny, and pressing a button is
  read back as exactly its decision on exactly that transaction.
\<close>

theorem keyboard_roundtrip:
  assumes "allowed \<noteq> []" and "list_all int64 allowed" and "CHR '':'' \<notin> set ulid"
  shows "map (\<lambda>row. map (\<lambda>b. ParseCallbackData (snd b) allowed) row) (approvalKeyboard (newTxID ulid) allowed) =
     [map (\<lambda>sec. Some (''approve'', newTxID ulid, wrap64 (sec * second))) allowed @
      [Some (''deny'', newTxID ulid, 0)]]"
proof -
  have "ParseCallbackData (''approve:'' @ newTxID ulid @ '':'' @ FormatInt sec) allowed =
      Some (''approve'', newTxID ulid, wrap64 (sec * second))" if "sec \<in> set allowed" for sec
    using that assms(2) ParseCallbackData_approve [OF newTxID_no_colon [OF assms(3)] newTxID_prefix, of sec allowed]
    by (auto simp: list_all_iff)
  moreover have "ParseCallbackData (''deny:'' @ newTxID ulid) allowed = Some (''deny'', newTxID ulid, 0)"
    by (rule ParseCallbackData_deny [OF newTxID_no_colon [OF assms(3)] newTxID_prefix])
  ultimately show ?thesis using assms(1) by (simp add: approvalKeyboard_def)
qed

theorem keyboard_roundtrip_witness:
  "map (\<lambda>row. map (\<lambda>b. ParseCallbackData (snd b) [180, 300]) row) (approvalKeyboard (newTxID ''01ABC'') [180, 300]) =
     [[Some (''approve'', ''tx_01ABC'', 3 * minute), Some (''approve'', ''tx_01ABC'', 5 * minute),
       Some (''deny'', ''tx_01ABC'', 0)]]"
  using keyboard_roundtrip [of "[180, 300]" "''01ABC''"]
  by (simp add: int64_def newTxID_def wrap64_def duration_defs)

text \<open>
  With an empty list of times the keyboard offers three default times, and the parser
  refuses every one of them: such a prompt can only be denied.
\<close>

theorem keyboard_empty_list:
  assumes "CHR '':'' \<notin> set ulid"
  shows "map (\<lambda>row. map (\<lambda>b. ParseCallbackData (snd b) []) row) (approvalKeyboard (newTxID ulid) []) =
     [[None, None, None, Some (''deny'', newTxID ulid, 0)]]"
proof -
  have "ParseCallbackData (''approve:'' @ newTxID ulid @ '':'' @ FormatInt sec) [] = None" if "int64 sec" for sec
    using ParseCallbackData_approve [OF newTxID_no_colon [OF assms] newTxID_prefix that, of "[]"] by simp
  moreover have "ParseCallbackData (''deny:'' @ newTxID ulid) [] = Some (''deny'', newTxID ulid, 0)"
    by (rule ParseCallbackData_deny [OF newTxID_no_colon [OF assms] newTxID_prefix])
  ultimately show ?thesis by (simp add: approvalKeyboard_def int64_def)
qed

theorem keyboard_empty_list_witness:
  "map (\<lambda>row. map (\<lambda>b. ParseCallbackData (snd b) []) row) (approvalKeyboard (newTxID ''01ABC'') []) =
     [[None, None, None, Some (''deny'', ''tx_01ABC'', 0)]]"
  using keyboard_empty_list [of "''01ABC''"] by (simp add: newTxID_def)

section \<open>One prompt per transaction\<close>

text \<open>A run of notifications. The log records for each call the transaction and whether the call
  sent a request that was answered with success.\<close>

definition delivered ::
  "json_lib \<Rightarrow> http_client \<Rightarrow> Transaction \<Rightarrow> Notifier \<times> out_request list \<Rightarrow> bool" where
  "delivered js client tx w =
     (snd (fst (Notify js client tx w)) \<noteq> snd w \<and> snd (Notify js client tx w) = None)"

fun deliveries ::
  "json_lib \<Rightarrow> http_client \<Rightarrow> Transaction list \<Rightarrow> Notifier \<times> out_request list \<Rightarrow> string list" where
  "deliveries js client [] w = []"
| "deliveries js client (tx # txs) w =
     (if delivered js client tx w then [tx_ID tx] else []) @ deliveries js client txs (fst (Notify js client tx w))"

lemma Notify_sent_set:
  "delivered js client tx w \<Longrightarrow> tx_ID tx \<notin> set (nt_sent (fst w)) \<and> tx_ID tx \<in> set (nt_sent (fst (fst (Notify js client tx w))))"
  by (auto simp: delivered_def Notify_def Let_def split: prod.splits if_splits sum.splits)

lemma Notify_keeps_sent:
  "i \<in> set (nt_sent (fst w)) \<Longrightarrow> i \<in> set (nt_sent (fst (fst (Notify js client tx w))))"
  by (auto simp: Notify_def Let_def forgetSent_def split: prod.splits if_splits sum.splits)

lemma deliveries_fresh: "i \<in> set (nt_sent (fst w)) \<Longrightarrow> i \<notin> set (deliveries js client txs w)"
proof (induction txs arbitrary: w)
  case (Cons tx txs)
  then show ?case using Notify_sent_set [of js client tx w] Notify_keeps_sent [of i w js client tx] by auto
qed simp

text \<open>
  However often the notifier is called and whatever the server answers, at most one prompt
  is delivered for each transaction; a call that fails may be repeated.
\<close>

theorem notify_once: "distinct (deliveries js client txs w)"
proof (induction txs arbitrary: w)
  case (Cons tx txs)
  then show ?case
    using Notify_sent_set [of js client tx w]
      deliveries_fresh [of "tx_ID tx" "fst (Notify js client tx w)" js client txs] by auto
qed simp

section \<open>Progress of the poll\<close>

lemma take_update_offset:
  "0 \<le> po_offset p \<Longrightarrow> tu_UpdateID u < 2 ^ 63 - 1 \<Longrightarrow>
   po_offset (take_update js client d u p) = max (po_offset p) (tu_UpdateID u + 1)"
  by (auto simp: take_update_def wrap64_id int64_def)

lemma take_updates_offset:
  assumes "0 \<le> po_offset p" and "\<forall>u \<in> set us. tu_UpdateID u < 2 ^ 63 - 1"
  shows "po_offset p \<le> po_offset (take_updates js client ds us p) \<and>
         (\<forall>u \<in> set us. tu_UpdateID u < po_offset (take_updates js client ds us p))"
  using assms
proof (induction us arbitrary: ds p)
  case (Cons u us)
  let ?q = "take_update js client (ds 0) u p"
  have q: "po_offset ?q = max (po_offset p) (tu_UpdateID u + 1)"
    using Cons.prems by (intro take_update_offset) auto
  have "po_offset ?q \<le> po_offset (take_updates js client (\<lambda>i. ds (Suc i)) us ?q) \<and>
      (\<forall>x \<in> set us. tu_UpdateID x < po_offset (take_updates js client (\<lambda>i. ds (Suc i)) us ?q))"
    using Cons.prems q by (intro Cons.IH) auto
  then show ?case using q by auto
qed simp

text \<open>
  A poll that succeeds acknowledges everything it handled: the offset it asks for next never
  goes back and lies beyond the identifier of every update of the answer, so that the server does
  not deliver them again.
\<close>

theorem poll_progress:
  assumes "pollOnce js client ds p = (p', None)"
    and "hc_do client (po_sent p) \<lparr>or_method = GET, or_url = poll_url p, or_body = [], or_headers = []\<rparr> = Inr r"
    and "decode_updates js (take (2 ^ 20) (in_body r)) = Some (True, us)"
    and "0 \<le> po_offset p" and "\<forall>u \<in> set us. tu_UpdateID u < 2 ^ 63 - 1"
  shows "po_offset p \<le> po_offset p' \<and> (\<forall>u \<in> set us. tu_UpdateID u < po_offset p')"
proof -
  have "p' = take_updates js client ds us
      (p\<lparr>po_sent := po_sent p @ [\<lparr>or_method = GET, or_url = poll_url p, or_body = [], or_headers = []\<rparr>]\<rparr>)"
    using assms(1-3) by (auto simp: pollOnce_def http_Do_def Let_def split: if_splits option.splits)
  then show ?thesis using take_updates_offset [of "p\<lparr>po_sent := _\<rparr>" us js client ds] assms(4,5) by simp
qed

definition demo_js :: json_lib where
  "demo_js =
     \<lparr>js_parse = \<lambda>_. Some (JObject [(''ok'', JBool True), (''result'', JArray [JObject [(''update_id'', JInt 7)]])]),
      js_print = \<lambda>_. []\<rparr>"

definition demo_client :: http_client where
  "demo_client = \<lparr>hc_valid_url = \<lambda>_. True, hc_do = \<lambda>_ _. Inr \<lparr>in_status = 200, in_body = [], in_read_err = None\<rparr>\<rparr>"

definition demo_poller :: Poller where
  "demo_poller =
     NewPoller \<lparr>nc_BotToken = ''t'', nc_ChatID = ''5'', nc_AllowedTTLSeconds = [300], nc_BaseURL = ''''\<rparr>
       (approval_NewStore 0) 0 ''''"

lemma demo_updates: "decode_updates demo_js raw = Some (True, [\<lparr>tu_UpdateID = 7, tu_CallbackQuery = None\<rparr>])"
proof -
  have keys: "fold_key ''ok'' = ''OK''" "fold_key ''result'' = ''RESULT''" "fold_key ''update_id'' = ''UPDATE_ID''"
    "fold_key ''callback_query'' = ''CALLBACK_QUERY''"
    by code_simp+
  show ?thesis
    by (simp add: decode_updates_def Unmarshal_def demo_js_def decode_struct_def json_field_defs decode_update_def
        update_fields_def keys int64_def)
qed

theorem poll_progress_witness:
  "\<forall>ds. \<exists>p'. pollOnce demo_js demo_client ds demo_poller = (p', None) \<and> 7 < po_offset p'"
proof
  fix ds
  obtain p' err where p': "pollOnce demo_js demo_client ds demo_poller = (p', err)"
    by (cases "pollOnce demo_js demo_client ds demo_poller")
  have "err = None"
    using p' by (auto simp: pollOnce_def http_Do_def demo_client_def demo_updates status_ok_def Let_def)
  moreover have "po_offset demo_poller = 0" by (simp add: demo_poller_def NewPoller_def)
  ultimately show "\<exists>p'. pollOnce demo_js demo_client ds demo_poller = (p', None) \<and> 7 < po_offset p'"
    using p' poll_progress [of demo_js demo_client ds demo_poller p' _ "[\<lparr>tu_UpdateID = 7, tu_CallbackQuery = None\<rparr>]"]
    by (auto simp: demo_updates demo_client_def)
qed

end
