(* ===== verification/Replay.thy ===== *)
theory Replay
  imports Prelude
begin

text \<open>
  The replay cache (\<open>auth.ReplayLRU\<close>): a bounded list of request digests, newest first, with
  a map from digest to list element. An element of \<open>container/list\<close> is a pointer; it is
  modelled as a pair of an identity and the entry it holds, so that removing an element
  removes exactly that one.
\<close>

section \<open>The cache and its operations\<close>

record replayEntry =
  re_key :: bytes
  re_expiresAt :: gotime

type_synonym element = "nat \<times> replayEntry"

record ReplayLRU =
  rp_ttl :: duration
  rp_max :: int
  rp_byKey :: "(bytes, element) gomap"
  rp_order :: "element list"
  rp_fresh :: nat

definition NewReplayLRU :: "duration \<Rightarrow> int \<Rightarrow> ReplayLRU" where
  "NewReplayLRU ttl mx = \<lparr>rp_ttl = ttl, rp_max = mx, rp_byKey = [], rp_order = [], rp_fresh = 0\<rparr>"

text \<open>The loop of \<open>evictExpired\<close>: from the back, which is the head of the reversed list.\<close>

fun evict_back :: "gotime \<Rightarrow> element list \<Rightarrow> (bytes, element) gomap \<Rightarrow> element list \<times> (bytes, element) gomap" where
  "evict_back now [] byKey = ([], byKey)"
| "evict_back now (el # prev) byKey =
     (if now < re_expiresAt (snd el) then (el # prev, byKey)
      else evict_back now prev (map_del (re_key (snd el)) byKey))"

definition evictExpired :: "gotime \<Rightarrow> ReplayLRU \<Rightarrow> ReplayLRU" where
  "evictExpired now r =
     (let (order, byKey) = evict_back now (rev (rp_order r)) (rp_byKey r)
      in r\<lparr>rp_order := rev order, rp_byKey := byKey\<rparr>)"

text \<open>The loop that drops elements from the back while there are more than \<open>max\<close>.\<close>

fun trim_back :: "int \<Rightarrow> element list \<Rightarrow> (bytes, element) gomap \<Rightarrow> element list \<times> (bytes, element) gomap" where
  "trim_back mx [] byKey = ([], byKey)"
| "trim_back mx (el # prev) byKey =
     (if mx < int (length (el # prev)) then trim_back mx prev (map_del (re_key (snd el)) byKey)
      else (el # prev, byKey))"

definition list_Remove :: "element \<Rightarrow> element list \<Rightarrow> element list" where
  "list_Remove el order = filter (\<lambda>e. fst e \<noteq> fst el) order"

text \<open>The part of \<open>AddIfNew\<close> that follows the lookup: push the entry, then trim.\<close>

definition replay_insert :: "gotime \<Rightarrow> bytes \<Rightarrow> ReplayLRU \<Rightarrow> ReplayLRU" where
  "replay_insert now key r =
     (let el = (rp_fresh r, \<lparr>re_key = key, re_expiresAt = now + rp_ttl r\<rparr>);
          (order, byKey) = trim_back (rp_max r) (rev (el # rp_order r)) (map_put key el (rp_byKey r))
      in r\<lparr>rp_order := rev order, rp_byKey := byKey, rp_fresh := Suc (rp_fresh r)\<rparr>)"

definition AddIfNew :: "gotime \<Rightarrow> bytes \<Rightarrow> ReplayLRU \<Rightarrow> bool \<times> ReplayLRU" where
  "AddIfNew now key r0 =
     (let r = evictExpired now r0
      in case map_of (rp_byKey r) key of
           None \<Rightarrow> (True, replay_insert now key r)
         | Some el \<Rightarrow>
             if now < re_expiresAt (snd el) then (False, r)
             else (True, replay_insert now key
                     (r\<lparr>rp_order := list_Remove el (rp_order r), rp_byKey := map_del key (rp_byKey r)\<rparr>)))"

section \<open>Invariant: the map is the list\<close>

definition replay_inv :: "ReplayLRU \<Rightarrow> bool" where
  "replay_inv r \<longleftrightarrow>
     distinct (map (re_key \<circ> snd) (rp_order r))
     \<and> distinct (map fst (rp_order r))
     \<and> (\<forall>el \<in> set (rp_order r). fst el < rp_fresh r)
     \<and> (\<forall>k el. map_of (rp_byKey r) k = Some el \<longleftrightarrow> el \<in> set (rp_order r) \<and> re_key (snd el) = k)
     \<and> int (length (rp_order r)) \<le> max 0 (rp_max r)"

lemma replay_invD:
  assumes "replay_inv r"
  shows "distinct (map (re_key \<circ> snd) (rp_order r))" and "distinct (map fst (rp_order r))"
    and "el \<in> set (rp_order r) \<Longrightarrow> fst el < rp_fresh r"
    and "map_of (rp_byKey r) k = Some el \<longleftrightarrow> el \<in> set (rp_order r) \<and> re_key (snd el) = k"
    and "int (length (rp_order r)) \<le> max 0 (rp_max r)"
  using assms unfolding replay_inv_def by blast+

text \<open>The relation between list and map that both loops keep, for any list.\<close>

definition keys_agree :: "element list \<Rightarrow> (bytes, element) gomap \<Rightarrow> bool" where
  "keys_agree els m \<longleftrightarrow>
     distinct (map (re_key \<circ> snd) els)
     \<and> (\<forall>k el. map_of m k = Some el \<longleftrightarrow> el \<in> set els \<and> re_key (snd el) = k)"

lemma keys_agree_tl:
  assumes "keys_agree (el # els) m"
  shows "keys_agree els (map_del (re_key (snd el)) m)"
proof -
  have d: "(re_key \<circ> snd) el \<notin> (re_key \<circ> snd) ` set els" "distinct (map (re_key \<circ> snd) els)"
    using assms unfolding keys_agree_def by simp_all
  have ne: "re_key (snd x) \<noteq> re_key (snd el)" if "x \<in> set els" for x
    using d(1) that by (metis comp_apply imageI)
  have m: "map_of m k = Some x \<longleftrightarrow> (x = el \<or> x \<in> set els) \<and> re_key (snd x) = k" for k x
    using assms unfolding keys_agree_def by (metis set_ConsD list.set_intros)
  have "map_of (map_del (re_key (snd el)) m) k = Some x \<longleftrightarrow> x \<in> set els \<and> re_key (snd x) = k" for k x
    using m [of k x] ne [of x] by (cases "k = re_key (snd el)") (simp_all, blast+)
  then show ?thesis using d(2) unfolding keys_agree_def by blast
qed

lemma keys_agree_rev [simp]: "keys_agree (rev els) m \<longleftrightarrow> keys_agree els m"
  by (simp add: keys_agree_def rev_map [symmetric])

lemma evict_back_spec:
  assumes "evict_back now els m = (els', m')" and "keys_agree els m"
  shows "keys_agree els' m'" and "\<exists>gone. els = gone @ els' \<and> (\<forall>e \<in> set gone. re_expiresAt (snd e) \<le> now)"
proof -
  have "keys_agree els' m' \<and> (\<exists>gone. els = gone @ els' \<and> (\<forall>e \<in> set gone. re_expiresAt (snd e) \<le> now))"
    using assms
  proof (induction els arbitrary: m)
    case (Cons el els)
    show ?case
    proof (cases "now < re_expiresAt (snd el)")
      case True
      with Cons.prems show ?thesis by auto
    next
      case False
      with Cons.prems have "evict_back now els (map_del (re_key (snd el)) m) = (els', m')" by simp
      from Cons.IH [OF this keys_agree_tl [OF Cons.prems(2)]] obtain gone
        where "keys_agree els' m'" "els = gone @ els'" "\<forall>e \<in> set gone. re_expiresAt (snd e) \<le> now" by blast
      with False show ?thesis by (intro conjI exI [of _ "el # gone"]) auto
    qed
  qed auto
  then show "keys_agree els' m'"
    and "\<exists>gone. els = gone @ els' \<and> (\<forall>e \<in> set gone. re_expiresAt (snd e) \<le> now)" by blast+
qed

lemma trim_back_spec:
  assumes "trim_back mx els m = (els', m')" and "keys_agree els m"
  shows "keys_agree els' m'"
    and "els' = drop (length els - nat mx) els"
proof -
  have "keys_agree els' m' \<and> els' = drop (length els - nat mx) els"
    using assms
  proof (induction els arbitrary: m)
    case (Cons el els)
    show ?case
    proof (cases "mx < int (length (el # els))")
      case True
      with Cons.prems have t: "trim_back mx els (map_del (re_key (snd el)) m) = (els', m')" by simp
      from True have "length (el # els) - nat mx = Suc (length els - nat mx)"
        by (cases "0 \<le> mx") auto
      then have "drop (length (el # els) - nat mx) (el # els) = drop (length els - nat mx) els"
        by (simp only: drop_Suc_Cons)
      with Cons.IH [OF t keys_agree_tl [OF Cons.prems(2)]] show ?thesis by metis
    next
      case False
      then have "length (el # els) - nat mx = 0" by simp
      moreover from False Cons.prems have "els' = el # els" "m' = m" by simp_all
      ultimately show ?thesis using Cons.prems(2) by (metis drop0)
    qed
  qed auto
  then show "keys_agree els' m'" and "els' = drop (length els - nat mx) els" by blast+
qed

lemma rev_drop_rev: "rev (drop (length xs - n) (rev xs)) = take n xs"
  by (cases "n \<le> length xs") (simp_all add: rev_drop)

text \<open>Eviction drops a suffix of expired elements; insertion pushes and keeps \<open>max\<close> elements.\<close>

lemma evictExpired_order:
  assumes "replay_inv r"
  shows "\<exists>gone. rp_order r = rp_order (evictExpired now r) @ gone
      \<and> (\<forall>e \<in> set gone. re_expiresAt (snd e) \<le> now)"
    and "replay_inv (evictExpired now r)"
proof -
  obtain els m where e: "evict_back now (rev (rp_order r)) (rp_byKey r) = (els, m)"
    by (cases "evict_back now (rev (rp_order r)) (rp_byKey r)")
  then have r': "evictExpired now r = r\<lparr>rp_order := rev els, rp_byKey := m\<rparr>"
    by (simp add: evictExpired_def)
  have "keys_agree (rev (rp_order r)) (rp_byKey r)"
    unfolding keys_agree_rev using replay_invD(1,4) [OF assms] by (simp add: keys_agree_def)
  note spec = evict_back_spec [OF e this]
  from spec(2) obtain gone where g: "rev (rp_order r) = gone @ els" "\<forall>e \<in> set gone. re_expiresAt (snd e) \<le> now"
    by blast
  then have o: "rp_order r = rev els @ rev gone" by (metis rev_append rev_rev_ident)
  with g r' show "\<exists>gone. rp_order r = rp_order (evictExpired now r) @ gone
      \<and> (\<forall>e \<in> set gone. re_expiresAt (snd e) \<le> now)"
    by (intro exI [of _ "rev gone"]) simp
  show "replay_inv (evictExpired now r)"
    using replay_invD(2,5) [OF assms] replay_invD(3) [OF assms] spec(1) [folded keys_agree_rev [of els]] o
    by (auto simp: replay_inv_def r' keys_agree_def)
qed

lemma replay_insert_order:
  assumes "replay_inv r" and "map_of (rp_byKey r) key = None"
  shows "rp_order (replay_insert now key r) =
      take (nat (rp_max r)) ((rp_fresh r, \<lparr>re_key = key, re_expiresAt = now + rp_ttl r\<rparr>) # rp_order r)"
    and "replay_inv (replay_insert now key r)"
proof -
  let ?el = "(rp_fresh r, \<lparr>re_key = key, re_expiresAt = now + rp_ttl r\<rparr>)"
  obtain els m where t: "trim_back (rp_max r) (rev (?el # rp_order r)) (map_put key ?el (rp_byKey r)) = (els, m)"
    by (cases "trim_back (rp_max r) (rev (?el # rp_order r)) (map_put key ?el (rp_byKey r))")
  then have r': "replay_insert now key r = r\<lparr>rp_order := rev els, rp_byKey := m, rp_fresh := Suc (rp_fresh r)\<rparr>"
    by (simp add: replay_insert_def Let_def del: rev.simps)
  have new: "re_key (snd x) \<noteq> key" if "x \<in> set (rp_order r)" for x
    using that assms(2) replay_invD(4) [OF assms(1), of key x] by auto
  then have "distinct (map (re_key \<circ> snd) (?el # rp_order r))"
    using replay_invD(1) [OF assms(1)] by force
  moreover have "map_of (map_put key ?el (rp_byKey r)) k = Some x \<longleftrightarrow>
      x \<in> set (?el # rp_order r) \<and> re_key (snd x) = k" for k x
    using new [of x] replay_invD(4) [OF assms(1), of k x] by auto
  ultimately have "keys_agree (?el # rp_order r) (map_put key ?el (rp_byKey r))"
    unfolding keys_agree_def by blast
  then have agree: "keys_agree (rev (?el # rp_order r)) (map_put key ?el (rp_byKey r))"
    by (simp only: keys_agree_rev)
  note spec = trim_back_spec [OF t agree]
  show o: "rp_order (replay_insert now key r) = take (nat (rp_max r)) (?el # rp_order r)"
    using spec(2) rev_drop_rev [of "?el # rp_order r" "nat (rp_max r)"]
    by (simp add: r' del: rev.simps)
  have "distinct (map fst (?el # rp_order r))"
    using replay_invD(2) [OF assms(1)] replay_invD(3) [OF assms(1)] by force
  then have "distinct (map fst (rp_order (replay_insert now key r)))"
    unfolding o by (metis distinct_take take_map)
  moreover have "fst el < rp_fresh (replay_insert now key r)" if "el \<in> set (rp_order (replay_insert now key r))" for el
    using that replay_invD(3) [OF assms(1), of el] unfolding o
    by (auto simp: r' dest!: in_set_takeD)
  moreover have "int (length (rp_order (replay_insert now key r))) \<le> max 0 (rp_max (replay_insert now key r))"
    unfolding o by (simp add: r' min_def max_def) linarith
  ultimately show "replay_inv (replay_insert now key r)"
    using spec(1) [folded keys_agree_rev [of els]] by (simp add: replay_inv_def r' keys_agree_def)
qed

lemma list_Remove_inv:
  assumes "replay_inv r" and "map_of (rp_byKey r) key = Some el"
  shows "replay_inv (r\<lparr>rp_order := list_Remove el (rp_order r), rp_byKey := map_del key (rp_byKey r)\<rparr>)"
    and "set (list_Remove el (rp_order r)) = set (rp_order r) - {el}"
proof -
  from assms have el: "el \<in> set (rp_order r)" "re_key (snd el) = key"
    using replay_invD(4) [OF assms(1)] by blast+
  have fst_eq: "x = el" if "x \<in> set (rp_order r)" "fst x = fst el" for x
    using that el(1) replay_invD(2) [OF assms(1)] by (metis eq_key_imp_eq_value prod.collapse)
  show s: "set (list_Remove el (rp_order r)) = set (rp_order r) - {el}"
    using fst_eq by (auto simp: list_Remove_def)
  have key_eq: "x = el" if "x \<in> set (rp_order r)" "re_key (snd x) = key" for x
    using that el replay_invD(1) [OF assms(1)] by (auto simp: distinct_map inj_on_def)
  have "map_of (map_del key (rp_byKey r)) k = Some x \<longleftrightarrow>
      x \<in> set (list_Remove el (rp_order r)) \<and> re_key (snd x) = k" for k x
    using replay_invD(4) [OF assms(1), of k x] key_eq [of x] el(2) unfolding s by (cases "k = key") auto
  moreover have "distinct (map (re_key \<circ> snd) (list_Remove el (rp_order r)))"
    "distinct (map fst (list_Remove el (rp_order r)))"
    using replay_invD(1,2) [OF assms(1)] unfolding list_Remove_def by (auto intro: distinct_map_filter)
  moreover have "length (list_Remove el (rp_order r)) \<le> length (rp_order r)"
    by (simp add: list_Remove_def)
  ultimately show "replay_inv (r\<lparr>rp_order := list_Remove el (rp_order r), rp_byKey := map_del key (rp_byKey r)\<rparr>)"
    using replay_invD(3,5) [OF assms(1)] s by (auto simp: replay_inv_def)
qed

lemma NewReplayLRU_inv [inv_rules]: "replay_inv (NewReplayLRU ttl mx)"
  by (simp add: replay_inv_def NewReplayLRU_def)

lemma AddIfNew_inv [inv_rules]:
  assumes "replay_inv r" shows "replay_inv (snd (AddIfNew now key r))"
proof -
  let ?r = "evictExpired now r"
  have r: "replay_inv ?r" using assms by (rule evictExpired_order(2))
  show ?thesis
  proof (cases "map_of (rp_byKey ?r) key")
    case None
    with replay_insert_order(2) [OF r None] show ?thesis by (simp add: AddIfNew_def Let_def)
  next
    case (Some el)
    from list_Remove_inv(1) [OF r Some]
    have "replay_inv (replay_insert now key
        (?r\<lparr>rp_order := list_Remove el (rp_order ?r), rp_byKey := map_del key (rp_byKey ?r)\<rparr>))"
      by (rule replay_insert_order(2)) simp
    with Some r show ?thesis by (simp add: AddIfNew_def Let_def)
  qed
qed

lemma AddIfNew_params [simp]:
  "rp_ttl (snd (AddIfNew now key r)) = rp_ttl r" "rp_max (snd (AddIfNew now key r)) = rp_max r"
  by (auto simp: AddIfNew_def evictExpired_def replay_insert_def Let_def
      split: option.split prod.split)

section \<open>What the cache promises\<close>

text \<open>A digest is remembered at a position until enough newer ones push it out.\<close>

definition remembered :: "bytes \<Rightarrow> gotime \<Rightarrow> nat \<Rightarrow> ReplayLRU \<Rightarrow> bool" where
  "remembered key e n r \<longleftrightarrow>
     (\<exists>i el. i \<le> n \<and> i < length (rp_order r) \<and> rp_order r ! i = el
        \<and> re_key (snd el) = key \<and> re_expiresAt (snd el) = e)"

lemma remembered_lookup:
  assumes "replay_inv r" and "remembered key e n r"
  shows "\<exists>el. map_of (rp_byKey r) key = Some el \<and> re_expiresAt (snd el) = e"
proof -
  from assms(2) obtain i where "i < length (rp_order r)" "re_key (snd (rp_order r ! i)) = key"
    "re_expiresAt (snd (rp_order r ! i)) = e" by (auto simp: remembered_def)
  then show ?thesis using replay_invD(4) [OF assms(1), of key "rp_order r ! i"] nth_mem by blast
qed

lemma remembered_evict:
  assumes "replay_inv r" and "remembered key e n r" and "now < e"
  shows "remembered key e n (evictExpired now r)"
proof -
  from assms(2) obtain i where i: "i \<le> n" "i < length (rp_order r)"
    "re_key (snd (rp_order r ! i)) = key" "re_expiresAt (snd (rp_order r ! i)) = e"
    by (auto simp: remembered_def)
  from evictExpired_order(1) [OF assms(1)] obtain gone
    where g: "rp_order r = rp_order (evictExpired now r) @ gone" "\<forall>x \<in> set gone. re_expiresAt (snd x) \<le> now"
    by blast
  have "i < length (rp_order (evictExpired now r))"
  proof (rule ccontr)
    assume "\<not> i < length (rp_order (evictExpired now r))"
    with i(2) g(1) have "rp_order r ! i \<in> set gone"
      by (metis nth_append nth_mem add_diff_inverse_nat length_append nat_add_left_cancel_less)
    with g(2) i(4) assms(3) show False by force
  qed
  with i g(1) show ?thesis by (auto simp: remembered_def nth_append)
qed

lemma list_Remove_position:
  assumes "i < length xs" and "fst (xs ! i) \<noteq> fst el"
  shows "\<exists>j \<le> i. j < length (list_Remove el xs) \<and> list_Remove el xs ! j = xs ! i"
  using assms
proof (induction xs arbitrary: i)
  case (Cons x xs)
  show ?case
  proof (cases i)
    case 0
    with Cons.prems show ?thesis by (auto simp: list_Remove_def intro!: exI [of _ 0])
  next
    case (Suc k)
    with Cons obtain j where "j \<le> k" "j < length (list_Remove el xs)" "list_Remove el xs ! j = xs ! k" by auto
    then show ?thesis using Suc
      by (cases "fst x = fst el") (auto simp: list_Remove_def intro: exI [of _ j] exI [of _ "Suc j"])
  qed
qed simp

lemma remembered_insert:
  assumes "replay_inv r" and "map_of (rp_byKey r) k = None" and "remembered key e n r"
    and "int (Suc n) < rp_max r"
  shows "remembered key e (Suc n) (replay_insert now k r)"
proof -
  from assms(3) obtain i where i: "i \<le> n" "i < length (rp_order r)"
    "re_key (snd (rp_order r ! i)) = key" "re_expiresAt (snd (rp_order r ! i)) = e"
    by (auto simp: remembered_def)
  have "Suc i < nat (rp_max r)" using i(1) assms(4) by linarith
  with i show ?thesis unfolding remembered_def replay_insert_order(1) [OF assms(1,2)]
    by (intro exI [of _ "Suc i"]) auto
qed

text \<open>Another digest moves the remembered one back by at most one place.\<close>

lemma remembered_step:
  assumes "replay_inv r" and "remembered key e n r" and "k \<noteq> key" and "now < e"
    and "int (Suc n) < rp_max r"
  shows "remembered key e (Suc n) (snd (AddIfNew now k r))"
proof -
  let ?r = "evictExpired now r"
  have r: "replay_inv ?r" using assms(1) by (rule evictExpired_order(2))
  have rem: "remembered key e n ?r" using assms(1,2,4) by (rule remembered_evict)
  have mx: "int (Suc n) < rp_max ?r" using assms(5) by (simp add: evictExpired_def split: prod.split)
  show ?thesis
  proof (cases "map_of (rp_byKey ?r) k")
    case None
    with remembered_insert [OF r None rem mx] show ?thesis by (simp add: AddIfNew_def Let_def)
  next
    case (Some el)
    let ?s = "?r\<lparr>rp_order := list_Remove el (rp_order ?r), rp_byKey := map_del k (rp_byKey ?r)\<rparr>"
    from rem obtain i where i: "i \<le> n" "i < length (rp_order ?r)"
      "re_key (snd (rp_order ?r ! i)) = key" "re_expiresAt (snd (rp_order ?r ! i)) = e"
      by (auto simp: remembered_def)
    have el: "el \<in> set (rp_order ?r)" "re_key (snd el) = k"
      using Some replay_invD(4) [OF r] by blast+
    have "fst (rp_order ?r ! i) \<noteq> fst el"
      using i el assms(3) replay_invD(2) [OF r]
      by (metis eq_key_imp_eq_value nth_mem prod.collapse)
    from list_Remove_position [OF i(2) this] obtain j where "j \<le> i"
      "j < length (list_Remove el (rp_order ?r))" "list_Remove el (rp_order ?r) ! j = rp_order ?r ! i" by blast
    with i have "remembered key e n ?s" by (auto simp: remembered_def intro!: exI [of _ j])
    moreover have "replay_inv ?s" using list_Remove_inv(1) [OF r Some] .
    ultimately have "remembered key e (Suc n) (replay_insert now k ?s)"
      using mx by (intro remembered_insert) simp_all
    moreover have "remembered key e (Suc n) ?r"
      using i by (auto simp: remembered_def intro!: exI [of _ i])
    ultimately show ?thesis using Some by (simp add: AddIfNew_def Let_def)
  qed
qed

lemma AddIfNew_True_remembers:
  assumes "replay_inv r" and "fst (AddIfNew now key r)" and "0 < rp_max r"
  shows "remembered key (now + rp_ttl r) 0 (snd (AddIfNew now key r))"
proof -
  let ?r = "evictExpired now r"
  have r: "replay_inv ?r" using assms(1) by (rule evictExpired_order(2))
  have p: "rp_max ?r = rp_max r" "rp_ttl ?r = rp_ttl r" by (auto simp: evictExpired_def split: prod.split)
  have ins: "remembered key (now + rp_ttl r) 0 (replay_insert now key s)"
    if "replay_inv s" "map_of (rp_byKey s) key = None" "rp_max s = rp_max r" "rp_ttl s = rp_ttl r" for s
    unfolding remembered_def replay_insert_order(1) [OF that(1,2)]
    using that(3,4) assms(3) by (intro exI [of _ 0]) (simp add: take_Cons')
  show ?thesis
  proof (cases "map_of (rp_byKey ?r) key")
    case None
    with ins [OF r None p] show ?thesis by (simp add: AddIfNew_def Let_def)
  next
    case (Some el)
    let ?s = "?r\<lparr>rp_order := list_Remove el (rp_order ?r), rp_byKey := map_del key (rp_byKey ?r)\<rparr>"
    have "replay_inv ?s" using list_Remove_inv(1) [OF r Some] .
    then have "remembered key (now + rp_ttl r) 0 (replay_insert now key ?s)"
      by (rule ins) (simp_all add: p)
    with Some assms(2) show ?thesis by (simp add: AddIfNew_def Let_def split: if_splits)
  qed
qed

lemma remembered_rejects:
  assumes "replay_inv r" and "remembered key e n r" and "now < e"
  shows "\<not> fst (AddIfNew now key r)"
proof -
  have "remembered key e n (evictExpired now r)" using assms by (rule remembered_evict)
  then obtain el where "map_of (rp_byKey (evictExpired now r)) key = Some el" "re_expiresAt (snd el) = e"
    using remembered_lookup evictExpired_order(2) [OF assms(1)] by blast
  with assms(3) show ?thesis by (simp add: AddIfNew_def Let_def)
qed

text \<open>A run of the cache over other digests.\<close>

definition replay_exec :: "gotime \<times> bytes \<Rightarrow> ReplayLRU \<Rightarrow> ReplayLRU" where
  "replay_exec c r = snd (AddIfNew (fst c) (snd c) r)"

interpretation replay_machine: op_machine replay_exec replay_inv
  by unfold_locales (auto simp: replay_exec_def intro: inv_rules)

lemma replay_exec_max [simp]: "rp_max (fold replay_exec cs r) = rp_max r"
  by (induction cs arbitrary: r) (auto simp: replay_exec_def)

lemma replay_exec_ttl [simp]: "rp_ttl (fold replay_exec cs r) = rp_ttl r"
  by (induction cs arbitrary: r) (auto simp: replay_exec_def)

lemma remembered_run:
  assumes "replay_inv r" and "remembered key e n r" and "key \<notin> snd ` set cs"
    and "\<forall>c \<in> set cs. fst c < e" and "int (n + length cs) < rp_max r"
  shows "remembered key e (n + length cs) (fold replay_exec cs r)"
  using assms
proof (induction cs arbitrary: r n)
  case (Cons c cs)
  have "remembered key e (Suc n) (replay_exec c r)"
    unfolding replay_exec_def using Cons.prems by (intro remembered_step) auto
  moreover have "replay_inv (replay_exec c r)"
    using Cons.prems(1) by (rule replay_machine.exec_inv)
  moreover have "rp_max (replay_exec c r) = rp_max r" by (simp add: replay_exec_def)
  ultimately have "remembered key e (Suc n + length cs) (fold replay_exec cs (replay_exec c r))"
    using Cons.prems by (intro Cons.IH) auto
  then show ?case by simp
qed simp

section \<open>Properties\<close>

text \<open>
  (C10) A replay is caught: once a request digest has been accepted, the same digest is
  refused at every time before its lifetime is over, as long as fewer than \<open>max\<close> other
  digests have been presented since, at times within that lifetime.
\<close>

theorem replay_protects:
  assumes "replay_inv r" and "fst (AddIfNew t0 key r)"
    and "key \<notin> snd ` set cs" and "\<forall>c \<in> set cs. fst c < t0 + rp_ttl r"
    and "int (length cs) < rp_max r" and "t < t0 + rp_ttl r"
  shows "\<not> fst (AddIfNew t key (fold replay_exec cs (snd (AddIfNew t0 key r))))"
proof -
  let ?r1 = "snd (AddIfNew t0 key r)"
  have r1: "replay_inv ?r1" using assms(1) by (rule AddIfNew_inv)
  have "0 < rp_max r" using assms(5) by linarith
  with assms(1,2) have "remembered key (t0 + rp_ttl r) 0 ?r1" by (intro AddIfNew_True_remembers)
  from remembered_run [OF r1 this assms(3,4)] assms(5)
  have "remembered key (t0 + rp_ttl r) (length cs) (fold replay_exec cs ?r1)" by simp
  from remembered_rejects [OF replay_machine.run_inv [OF r1] this assms(6)] show ?thesis .
qed

definition demo_cache :: ReplayLRU where
  "demo_cache = NewReplayLRU (60 * second) 3"

theorem replay_protects_witness:
  "\<not> fst (AddIfNew (59 * second) ''d1''
      (fold replay_exec [(second, ''d2''), (2 * second, ''d3'')] (snd (AddIfNew 0 ''d1'' demo_cache))))"
proof -
  have "fst (AddIfNew 0 ''d1'' demo_cache)" by code_simp
  from replay_protects [OF NewReplayLRU_inv this [unfolded demo_cache_def], of "[(second, ''d2''), (2 * second, ''d3'')]" "59 * second"]
  show ?thesis by (simp add: demo_cache_def NewReplayLRU_def duration_defs)
qed

text \<open>Every remembered digest was presented, and its lifetime starts at that time.\<close>

definition remembers_calls :: "(gotime \<times> bytes) set \<Rightarrow> ReplayLRU \<Rightarrow> bool" where
  "remembers_calls C r \<longleftrightarrow>
     (\<forall>el \<in> set (rp_order r). \<exists>t. (t, re_key (snd el)) \<in> C \<and> re_expiresAt (snd el) = t + rp_ttl r)"

lemma remembers_calls_insert:
  assumes "replay_inv r" and "map_of (rp_byKey r) key = None" and "remembers_calls C r"
  shows "remembers_calls (insert (now, key) C) (replay_insert now key r)"
proof -
  have "rp_ttl (replay_insert now key r) = rp_ttl r"
    by (auto simp: replay_insert_def Let_def split: prod.split)
  with assms(3) show ?thesis unfolding remembers_calls_def replay_insert_order(1) [OF assms(1,2)]
    by (auto dest!: in_set_takeD)
qed

lemma remembers_calls_step:
  assumes "replay_inv r" and "remembers_calls C r"
  shows "remembers_calls (insert (now, key) C) (snd (AddIfNew now key r))"
proof -
  let ?r = "evictExpired now r"
  have r: "replay_inv ?r" using assms(1) by (rule evictExpired_order(2))
  have "rp_ttl ?r = rp_ttl r" by (auto simp: evictExpired_def split: prod.split)
  moreover have "set (rp_order ?r) \<subseteq> set (rp_order r)"
    using evictExpired_order(1) [OF assms(1), of now] by (metis Un_iff set_append subsetI)
  ultimately have rc: "remembers_calls C ?r" using assms(2) by (auto simp: remembers_calls_def)
  show ?thesis
  proof (cases "map_of (rp_byKey ?r) key")
    case None
    with remembers_calls_insert [OF r None rc] show ?thesis by (simp add: AddIfNew_def Let_def)
  next
    case (Some el)
    let ?s = "?r\<lparr>rp_order := list_Remove el (rp_order ?r), rp_byKey := map_del key (rp_byKey ?r)\<rparr>"
    have "remembers_calls C ?s" using rc by (auto simp: remembers_calls_def list_Remove_def)
    then have "remembers_calls (insert (now, key) C) (replay_insert now key ?s)"
      by (intro remembers_calls_insert list_Remove_inv(1) [OF r Some]) simp_all
    moreover have "remembers_calls (insert (now, key) C) ?r" using rc by (auto simp: remembers_calls_def)
    ultimately show ?thesis using Some by (simp add: AddIfNew_def Let_def)
  qed
qed

lemma remembers_calls_run:
  assumes "replay_inv r" and "remembers_calls C r"
  shows "remembers_calls (C \<union> set cs) (fold replay_exec cs r)"
  using assms
proof (induction cs arbitrary: r C)
  case (Cons c cs)
  have "remembers_calls (insert c C) (replay_exec c r)"
    using remembers_calls_step [OF Cons.prems, of "fst c" "snd c"] by (simp add: replay_exec_def)
  moreover have "replay_inv (replay_exec c r)" using Cons.prems(1) by (rule replay_machine.exec_inv)
  ultimately show ?case using Cons.IH [of "replay_exec c r" "insert c C"] by simp
qed simp

text \<open>
  A fresh request is never mistaken for a replay, and the cache stays within its size:
  in every run from an empty cache, a digest is refused only when that same digest was
  presented before and less than its lifetime has passed since, and the cache holds at
  most \<open>max\<close> entries in the list and in the map.
\<close>

theorem replay_no_false_alarm:
  assumes "\<not> fst (AddIfNew now key (fold replay_exec cs (NewReplayLRU ttl mx)))"
  shows "(\<exists>t. (t, key) \<in> set cs \<and> now < t + ttl)
    \<and> int (length (rp_order (fold replay_exec cs (NewReplayLRU ttl mx)))) \<le> max 0 mx"
proof -
  let ?r = "fold replay_exec cs (NewReplayLRU ttl mx)"
  have inv: "replay_inv ?r" by (rule replay_machine.run_inv) (rule NewReplayLRU_inv)
  have p: "rp_max ?r = mx" "rp_ttl ?r = ttl" by (simp_all add: NewReplayLRU_def)
  have rc: "remembers_calls ({} \<union> set cs) ?r"
    by (rule remembers_calls_run [OF NewReplayLRU_inv]) (simp add: remembers_calls_def NewReplayLRU_def)
  from assms obtain el where el: "map_of (rp_byKey (evictExpired now ?r)) key = Some el" "now < re_expiresAt (snd el)"
    by (auto simp: AddIfNew_def Let_def split: option.splits if_splits)
  have "set (rp_order (evictExpired now ?r)) \<subseteq> set (rp_order ?r)"
    using evictExpired_order(1) [OF inv, of now] by (metis Un_iff set_append subsetI)
  with el(1) have "el \<in> set (rp_order ?r)" "re_key (snd el) = key"
    using replay_invD(4) [OF evictExpired_order(2) [OF inv]] by blast+
  with rc el(2) p(2) have "\<exists>t. (t, key) \<in> set cs \<and> now < t + ttl"
    unfolding remembers_calls_def by (metis Un_empty_left)
  with replay_invD(5) [OF inv] p(1) show ?thesis by simp
qed

theorem replay_no_false_alarm_witness:
  "\<exists>t. (t, ''d1'') \<in> set [(0, ''d1''), (second, ''d2'')] \<and> 30 * second < t + 60 * second"
proof -
  have "\<not> fst (AddIfNew (30 * second) ''d1'' (fold replay_exec [(0, ''d1''), (second, ''d2'')] (NewReplayLRU (60 * second) 3)))"
    by code_simp
  from replay_no_false_alarm [OF this] show ?thesis by blast
qed

end
