(* ===== verification/Auth.thy ===== *)
theory Auth
  imports Replay Keystore
begin

text \<open>
  Package \<open>auth\<close>: the checks a signing request passes before anything else happens. The body
  MAC bound to the TLS connection (\<open>hmac.go\<close>), the timestamp window, the replay cache, the
  proof of possession (\<open>pop.go\<close>), the display fields (\<open>meta.go\<close>), and the order in which
  \<open>pipeline.go\<close> runs them. A TLS connection is what the code asks of it, its keying-material
  exporter.
\<close>

section \<open>Body MAC\<close>

record tls_conn =
  tc_ExportKeyingMaterial :: "string \<Rightarrow> nat \<Rightarrow> bytes result"

definition exporterLabel :: string where
  "exporterLabel = ''luna-request-hmac''"

definition computeBodyHMAC :: "tls_conn \<Rightarrow> bytes \<Rightarrow> bytes result" where
  "computeBodyHMAC conn body =
     (case tc_ExportKeyingMaterial conn exporterLabel 32 of
        Inl err \<Rightarrow> Inl err
      | Inr key \<Rightarrow> Inr (hmac_Sum key body))"

definition ComputeBodyHMAC :: "tls_conn \<Rightarrow> bytes \<Rightarrow> bytes result" where
  "ComputeBodyHMAC conn body = computeBodyHMAC conn body"

definition VerifyBodyHMAC :: "tls_conn \<Rightarrow> bytes \<Rightarrow> string \<Rightarrow> go_error option" where
  "VerifyBodyHMAC conn body headerHex =
     (case computeBodyHMAC conn body of
        Inl err \<Rightarrow> Some err
      | Inr expected \<Rightarrow>
          (case hex_DecodeString headerHex of
             None \<Rightarrow> Some ErrInvalidHMAC
           | Some provided \<Rightarrow>
               if length provided \<noteq> length expected \<or> \<not> hmac_Equal provided expected
               then Some ErrInvalidHMAC else None))"

section \<open>Display fields\<close>

record SignClientMeta =
  sm_SourceUser :: string
  sm_ClientName :: string
  sm_ClientVersion :: string

definition maxSourceUserLen :: nat where
  "maxSourceUserLen = 64"

definition maxClientNameLen :: nat where
  "maxClientNameLen = 64"

definition maxClientVersionLen :: nat where
  "maxClientVersionLen = 32"

text \<open>
  The loop of \<open>checkDisplayField\<close> is over runes. A rune below 0x20 or equal to 0x7f is always a
  single byte, and inside an encoding of another rune no such byte occurs, so that the loop
  over bytes decides the same.
\<close>

fun checkDisplayField :: "string \<Rightarrow> go_error option" where
  "checkDisplayField [] = None"
| "checkDisplayField (c # field) =
     (let r = of_char c :: nat
      in if r < 0x20 \<or> r = 0x7f then Some ErrInvalidDisplayField else checkDisplayField field)"

definition ValidateDisplayFields :: "string \<Rightarrow> string \<Rightarrow> SignClientMeta \<Rightarrow> go_error option" where
  "ValidateDisplayFields targetUser targetIP meta =
     (case checkDisplayField targetUser of Some err \<Rightarrow> Some err | None \<Rightarrow>
     (case checkDisplayField targetIP of Some err \<Rightarrow> Some err | None \<Rightarrow>
     (case checkDisplayField (sm_SourceUser meta) of Some err \<Rightarrow> Some err | None \<Rightarrow>
     (case checkDisplayField (sm_ClientName meta) of Some err \<Rightarrow> Some err | None \<Rightarrow>
     (case checkDisplayField (sm_ClientVersion meta) of Some err \<Rightarrow> Some err | None \<Rightarrow> None)))))"

definition trimMetaField :: "string \<Rightarrow> nat \<Rightarrow> string" where
  "trimMetaField s0 mx = (let s = TrimSpace s0 in if mx < length s then take mx s else s)"

definition NormalizeSignClientMeta :: "string \<Rightarrow> string \<Rightarrow> string \<Rightarrow> SignClientMeta" where
  "NormalizeSignClientMeta sourceUser clientName clientVersion =
     \<lparr>sm_SourceUser = trimMetaField sourceUser maxSourceUserLen,
      sm_ClientName = trimMetaField clientName maxClientNameLen,
      sm_ClientVersion = trimMetaField clientVersion maxClientVersionLen\<rparr>"

section \<open>Proof of possession\<close>

definition popChallenge :: "string \<Rightarrow> string \<Rightarrow> int \<Rightarrow> bytes" where
  "popChallenge user ip ts = user @ '':'' @ ip @ '':'' @ FormatInt ts"

definition VerifyPoP :: "ssh_lib \<Rightarrow> PublicKey \<Rightarrow> string \<Rightarrow> string \<Rightarrow> int \<Rightarrow> string \<Rightarrow> go_error option" where
  "VerifyPoP lib pub user ip ts sigHex =
     (case hex_DecodeString sigHex of
        None \<Rightarrow> Some (Errorf ''encoding/hex: invalid input'')
      | Some blob \<Rightarrow> ssh_Verify lib pub (popChallenge user ip ts) \<lparr>sig_Format = pk_Type pub, sig_Blob = blob\<rparr>)"

section \<open>The pipeline\<close>

record SessionBinding =
  sb_HostPublicKey :: string
  sb_SessionID :: string
  sb_Signature :: string
  sb_Forwarding :: bool

record SignRequest =
  sr_PublicKey :: string
  sr_TargetUser :: string
  sr_TargetIP :: string
  sr_Timestamp :: int
  sr_PopSignature :: string
  sr_AgentSignData :: string
  sr_HostPublicKey :: string
  sr_HostKeyFingerprint :: string
  sr_SourceUser :: string
  sr_ClientName :: string
  sr_ClientVersion :: string
  sr_SessionBinding :: SessionBinding
  sr_DestinationHostPublicKey :: string
  sr_BodyMAC :: string

definition timestampWindowSec :: int where
  "timestampWindowSec = 30"

text \<open>The subtraction and the negation are in 64 bits and wrap.\<close>

definition ValidateTimestampAt :: "int \<Rightarrow> gotime \<Rightarrow> int \<Rightarrow> go_error option" where
  "ValidateTimestampAt ts now windowSec =
     (let ref = time_Unix now;
          delta = wrap64 (ref - ts);
          delta' = (if delta < 0 then wrap64 (- delta) else delta)
      in if windowSec < delta' then Some ErrTimestampOutsideWindow else None)"

text \<open>\<open>now\<close> is the handler's reading of the clock, \<open>now'\<close> the one of the replay cache.\<close>

definition ValidateCLIKeysLoad ::
  "tls_conn \<Rightarrow> bytes \<Rightarrow> string \<Rightarrow> int \<Rightarrow> gotime \<Rightarrow> gotime \<Rightarrow> ReplayLRU \<Rightarrow> ReplayLRU \<times> go_error option" where
  "ValidateCLIKeysLoad conn rawBody bodyMAC timestamp now now' replay =
     (case VerifyBodyHMAC conn rawBody bodyMAC of Some err \<Rightarrow> (replay, Some err) | None \<Rightarrow>
     (case ValidateTimestampAt timestamp now timestampWindowSec of Some err \<Rightarrow> (replay, Some err) | None \<Rightarrow>
     (case AddIfNew now' (sha256_Sum256 rawBody) replay of
        (False, replay') \<Rightarrow> (replay', Some ErrReplay)
      | (True, replay') \<Rightarrow> (replay', None))))"

definition ValidateSignRequest ::
  "ssh_lib \<Rightarrow> tls_conn \<Rightarrow> bytes \<Rightarrow> SignRequest \<Rightarrow> gotime \<Rightarrow> gotime \<Rightarrow> ReplayLRU \<Rightarrow> ReplayLRU \<times> go_error option" where
  "ValidateSignRequest lib conn rawBody req now now' replay =
     (case VerifyBodyHMAC conn rawBody (sr_BodyMAC req) of Some err \<Rightarrow> (replay, Some err) | None \<Rightarrow>
     (case ValidateTimestampAt (sr_Timestamp req) now timestampWindowSec of Some err \<Rightarrow> (replay, Some err) | None \<Rightarrow>
     (case AddIfNew now' (sha256_Sum256 rawBody) replay of
        (False, replay') \<Rightarrow> (replay', Some ErrReplay)
      | (True, replay') \<Rightarrow>
          (case ssh_ParseAuthorizedKey lib (sr_PublicKey req) of
             Inl err \<Rightarrow> (replay', Some (Wrapf ''public_key: '' err ''''))
           | Inr pub \<Rightarrow>
               (case VerifyPoP lib pub (sr_TargetUser req) (sr_TargetIP req) (sr_Timestamp req) (sr_PopSignature req) of
                  Some _ \<Rightarrow> (replay', Some ErrInvalidPoP)
                | None \<Rightarrow>
                    (replay', ValidateDisplayFields (sr_TargetUser req) (sr_TargetIP req)
                       (NormalizeSignClientMeta (sr_SourceUser req) (sr_ClientName req) (sr_ClientVersion req))))))))"

section \<open>Properties\<close>

text \<open>
  The timestamp window is exact: unless the subtraction overflows, a timestamp is
  accepted exactly when it differs from the server's clock, in whole seconds, by at most
  the window.
\<close>

theorem timestamp_window:
  assumes "int64 (time_Unix now - ts)" and "time_Unix now - ts \<noteq> - (2 ^ 63)" and "0 \<le> w"
  shows "ValidateTimestampAt ts now w = None \<longleftrightarrow> \<bar>time_Unix now - ts\<bar> \<le> w"
proof -
  have "int64 (- (time_Unix now - ts))" using assms(1,2) by (auto simp: int64_def)
  then show ?thesis using assms by (auto simp: ValidateTimestampAt_def Let_def wrap64_id)
qed

theorem timestamp_window_witness:
  "ValidateTimestampAt 970 (1000 * second) timestampWindowSec = None
   \<and> ValidateTimestampAt 969 (1000 * second) timestampWindowSec \<noteq> None"
  using timestamp_window [of "1000 * second" 970 30] timestamp_window [of "1000 * second" 969 30]
  by (simp add: time_Unix_def second_def int64_def timestampWindowSec_def)

text \<open>
  The window has a hole at the far end of the 64-bit range: at every time since 1970 the
  timestamp that lies \<open>2 ^ 63\<close> seconds in the past is accepted, because the difference wraps
  to the smallest integer, whose negation is itself.
\<close>

theorem timestamp_overflow:
  assumes "0 \<le> time_Unix now" and "time_Unix now < 2 ^ 63"
  shows "int64 (time_Unix now - 2 ^ 63) \<and> ValidateTimestampAt (time_Unix now - 2 ^ 63) now timestampWindowSec = None"
  using assms by (simp add: ValidateTimestampAt_def Let_def wrap64_min int64_def timestampWindowSec_def)
    (simp add: wrap64_def)

theorem timestamp_overflow_witness:
  "ValidateTimestampAt (1000 - 2 ^ 63) (1000 * second) timestampWindowSec = None"
  using timestamp_overflow [of "1000 * second"] by (simp add: time_Unix_def second_def)

lemma FormatInt_inject: "int64 a \<Longrightarrow> int64 b \<Longrightarrow> FormatInt a = FormatInt b \<Longrightarrow> a = b"
  using decimal.encode_inject by blast

lemma last_colon_unique:
  assumes "x @ CHR '':'' # a = y @ CHR '':'' # b" and "CHR '':'' \<notin> set a" and "CHR '':'' \<notin> set b"
  shows "x = y \<and> a = b"
  using assms
proof (induction x arbitrary: y)
  case Nil
  then show ?case by (cases y) auto
next
  case (Cons c x)
  show ?case
  proof (cases y)
    case Nil
    with Cons.prems show ?thesis by (metis append_Cons append_Nil in_set_conv_decomp list.inject)
  next
    case (Cons d y')
    with Cons.prems Cons.IH [of y'] show ?thesis by simp
  qed
qed

text \<open>
  A proof of possession is bound to its request: for user names without a colon the
  challenge determines the user, the address (which may hold colons, as IPv6 addresses
  do) and the timestamp, so that a signature made for one request is not a signature for another.
\<close>

theorem popChallenge_binds:
  assumes "popChallenge u ip ts = popChallenge u' ip' ts'"
    and "CHR '':'' \<notin> set u" and "CHR '':'' \<notin> set u'" and "int64 ts" and "int64 ts'"
  shows "u = u' \<and> ip = ip' \<and> ts = ts'"
proof -
  have "(u @ '':'' @ ip) = (u' @ '':'' @ ip') \<and> FormatInt ts = FormatInt ts'"
    using assms(1) FormatInt_no_colon by (intro last_colon_unique) (simp_all add: popChallenge_def)
  moreover have "u = u' \<and> ip = ip'" if "u @ '':'' @ ip = u' @ '':'' @ ip'"
    using that assms(2,3) by (metis Split_append_sep append_Cons append_Nil list.inject same_append_eq)
  ultimately show ?thesis using FormatInt_inject [OF assms(4,5)] by blast
qed

theorem popChallenge_binds_witness:
  "''deploy'' = ''deploy'' \<and> ''2001:db8::1'' = ''2001:db8::1'' \<and> (7 :: int) = 7"
  using popChallenge_binds [of "''deploy''" "''2001:db8::1''" 7 "''deploy''" "''2001:db8::1''" 7]
  by (simp add: int64_def)

text \<open>
  With a colon in the user name the challenge is ambiguous: two different requests have
  the same challenge, so that one signature proves possession for both.
\<close>

theorem popChallenge_ambiguous:
  "popChallenge ''root:2001'' ''db8::1'' ts = popChallenge ''root'' ''2001:db8::1'' ts"
  by (simp add: popChallenge_def)

lemma checkDisplayField_iff:
  "checkDisplayField s = None \<longleftrightarrow> (\<forall>c \<in> set s. 0x20 \<le> (of_char c :: nat) \<and> (of_char c :: nat) \<noteq> 0x7f)"
  by (induction s) (auto simp: Let_def)

lemma accepted_AddIfNew:
  "ValidateSignRequest lib conn rawBody req now now' replay = (replay', None) \<Longrightarrow>
     AddIfNew now' (sha256_Sum256 rawBody) replay = (True, replay')"
  by (auto simp: ValidateSignRequest_def split: prod.splits bool.splits sum.splits option.splits)

lemma accepted_facts:
  assumes "ValidateSignRequest lib conn rawBody req now now' replay = (replay', None)"
  shows "\<exists>key mac pub blob. tc_ExportKeyingMaterial conn exporterLabel 32 = Inr key
      \<and> hex_DecodeString (sr_BodyMAC req) = Some mac \<and> mac = hmac_Sum key rawBody
      \<and> ValidateTimestampAt (sr_Timestamp req) now timestampWindowSec = None
      \<and> AddIfNew now' (sha256_Sum256 rawBody) replay = (True, replay')
      \<and> ssh_ParseAuthorizedKey lib (sr_PublicKey req) = Inr pub
      \<and> hex_DecodeString (sr_PopSignature req) = Some blob
      \<and> ssh_Verify lib pub (popChallenge (sr_TargetUser req) (sr_TargetIP req) (sr_Timestamp req))
          \<lparr>sig_Format = pk_Type pub, sig_Blob = blob\<rparr> = None
      \<and> (\<forall>c \<in> set (sr_TargetUser req) \<union> set (sr_TargetIP req). 0x20 \<le> (of_char c :: nat) \<and> (of_char c :: nat) \<noteq> 0x7f)"
proof -
  from assms have h: "VerifyBodyHMAC conn rawBody (sr_BodyMAC req) = None"
    and t: "ValidateTimestampAt (sr_Timestamp req) now timestampWindowSec = None"
    by (auto simp: ValidateSignRequest_def split: option.splits)
  have a: "AddIfNew now' (sha256_Sum256 rawBody) replay = (True, replay')" using assms by (rule accepted_AddIfNew)
  from assms h t obtain pub where p: "ssh_ParseAuthorizedKey lib (sr_PublicKey req) = Inr pub"
    and v: "VerifyPoP lib pub (sr_TargetUser req) (sr_TargetIP req) (sr_Timestamp req) (sr_PopSignature req) = None"
    and d: "ValidateDisplayFields (sr_TargetUser req) (sr_TargetIP req)
       (NormalizeSignClientMeta (sr_SourceUser req) (sr_ClientName req) (sr_ClientVersion req)) = None"
    by (auto simp: ValidateSignRequest_def split: prod.splits bool.splits sum.splits option.splits)
  from h obtain key where key: "tc_ExportKeyingMaterial conn exporterLabel 32 = Inr key"
    "hex_DecodeString (sr_BodyMAC req) = Some (hmac_Sum key rawBody)"
    by (auto simp: VerifyBodyHMAC_def computeBodyHMAC_def hmac_Equal_def split: sum.splits option.splits if_splits)
  from v obtain blob where "hex_DecodeString (sr_PopSignature req) = Some blob"
    "ssh_Verify lib pub (popChallenge (sr_TargetUser req) (sr_TargetIP req) (sr_Timestamp req))
       \<lparr>sig_Format = pk_Type pub, sig_Blob = blob\<rparr> = None"
    by (auto simp: VerifyPoP_def split: option.splits)
  moreover from d have "checkDisplayField (sr_TargetUser req) = None" "checkDisplayField (sr_TargetIP req) = None"
    by (auto simp: ValidateDisplayFields_def split: option.splits)
  ultimately show ?thesis using key t a p unfolding checkDisplayField_iff by blast
qed

text \<open>
  What acceptance means: an accepted signing request carries the MAC of its own body
  under the key of its own TLS connection, a timestamp inside the window, a digest the
  cache had not seen, and a signature by the key it names over its own user, address and
  timestamp; and the user and address shown to the approver hold no control character.
\<close>

theorem accepted_request:
  assumes "ValidateSignRequest lib conn rawBody req now now' replay = (replay', None)"
  shows "\<exists>key mac pub blob. tc_ExportKeyingMaterial conn exporterLabel 32 = Inr key
      \<and> hex_DecodeString (sr_BodyMAC req) = Some mac \<and> mac = hmac_Sum key rawBody
      \<and> ValidateTimestampAt (sr_Timestamp req) now timestampWindowSec = None
      \<and> AddIfNew now' (sha256_Sum256 rawBody) replay = (True, replay')
      \<and> ssh_ParseAuthorizedKey lib (sr_PublicKey req) = Inr pub
      \<and> hex_DecodeString (sr_PopSignature req) = Some blob
      \<and> ssh_Verify lib pub (popChallenge (sr_TargetUser req) (sr_TargetIP req) (sr_Timestamp req))
          \<lparr>sig_Format = pk_Type pub, sig_Blob = blob\<rparr> = None
      \<and> (\<forall>c \<in> set (sr_TargetUser req) \<union> set (sr_TargetIP req). 0x20 \<le> (of_char c :: nat) \<and> (of_char c :: nat) \<noteq> 0x7f)"
  using assms by (rule accepted_facts)

text \<open>
  Rejected requests cannot disturb the replay cache: a request whose MAC or timestamp is
  not accepted leaves the cache as it was, whatever else it contains, so that only a holder
  of the connection's key can enter digests.
\<close>

theorem unauthenticated_leaves_cache:
  assumes "VerifyBodyHMAC conn rawBody (sr_BodyMAC req) \<noteq> None
      \<or> ValidateTimestampAt (sr_Timestamp req) now timestampWindowSec \<noteq> None"
  shows "fst (ValidateSignRequest lib conn rawBody req now now' replay) = replay
    \<and> fst (ValidateCLIKeysLoad conn rawBody (sr_BodyMAC req) (sr_Timestamp req) now now' replay) = replay
    \<and> snd (ValidateSignRequest lib conn rawBody req now now' replay) \<noteq> None"
  using assms by (auto simp: ValidateSignRequest_def ValidateCLIKeysLoad_def split: option.split)

text \<open>A concrete connection and request, used by the witnesses.\<close>

definition demo_conn :: tls_conn where
  "demo_conn = \<lparr>tc_ExportKeyingMaterial = \<lambda>label n. Inr ''exported key''\<rparr>"

definition demo_req :: "bytes \<Rightarrow> SignRequest" where
  "demo_req body = \<lparr>sr_PublicKey = ''key'', sr_TargetUser = ''deploy'', sr_TargetIP = ''10.0.1.50'',
     sr_Timestamp = 1000, sr_PopSignature = hex_EncodeToString (''key'' @ popChallenge ''deploy'' ''10.0.1.50'' 1000),
     sr_AgentSignData = [], sr_HostPublicKey = [], sr_HostKeyFingerprint = [], sr_SourceUser = [], sr_ClientName = [],
     sr_ClientVersion = [], sr_SessionBinding = \<lparr>sb_HostPublicKey = [], sb_SessionID = [], sb_Signature = [],
     sb_Forwarding = False\<rparr>, sr_DestinationHostPublicKey = [],
     sr_BodyMAC = hex_EncodeToString (hmac_Sum ''exported key'' body)\<rparr>"

lemma demo_display: "ValidateDisplayFields ''deploy'' ''10.0.1.50'' (NormalizeSignClientMeta [] [] []) = None"
  by code_simp

lemma demo_req_result:
  assumes "970 \<le> time_Unix now" and "time_Unix now \<le> 1030"
  shows "ValidateSignRequest demo_ssh demo_conn body (demo_req body) now now' r =
    (snd (AddIfNew now' (sha256_Sum256 body) r),
     if fst (AddIfNew now' (sha256_Sum256 body) r) then None else Some ErrReplay)"
proof -
  have "ValidateTimestampAt 1000 now timestampWindowSec = None"
    using assms by (auto simp: ValidateTimestampAt_def Let_def wrap64_id int64_def timestampWindowSec_def)
  moreover have "VerifyBodyHMAC demo_conn body (hex_EncodeToString (hmac_Sum ''exported key'' body)) = None"
    by (simp add: VerifyBodyHMAC_def computeBodyHMAC_def demo_conn_def hmac_Equal_def codec_simps)
  moreover have "VerifyPoP demo_ssh \<lparr>pk_Type = ''ssh-ed25519'', pk_Marshal = ''key''\<rparr> ''deploy'' ''10.0.1.50'' 1000
      (hex_EncodeToString (''key'' @ popChallenge ''deploy'' ''10.0.1.50'' 1000)) = None"
    unfolding VerifyPoP_def hex_Decode_Encode by (simp add: demo_ssh_def)
  moreover have "ssh_ParseAuthorizedKey demo_ssh ''key'' = Inr \<lparr>pk_Type = ''ssh-ed25519'', pk_Marshal = ''key''\<rparr>"
    by (simp add: demo_ssh_def)
  ultimately show ?thesis using demo_display
    by (auto simp: ValidateSignRequest_def demo_req_def split: prod.split bool.split)
qed

lemma AddIfNew_empty: "AddIfNew now key (NewReplayLRU ttl mx) = (True, replay_insert now key (NewReplayLRU ttl mx))"
  by (simp add: AddIfNew_def NewReplayLRU_def evictExpired_def)

theorem accepted_request_witness:
  "\<exists>key mac. tc_ExportKeyingMaterial demo_conn exporterLabel 32 = Inr key
     \<and> hex_DecodeString (sr_BodyMAC (demo_req ''body'')) = Some mac \<and> mac = hmac_Sum key ''body''"
proof -
  have "ValidateSignRequest demo_ssh demo_conn ''body'' (demo_req ''body'') (1000 * second) (1000 * second)
      (NewReplayLRU (60 * second) 1000) =
      (snd (AddIfNew (1000 * second) (sha256_Sum256 ''body'') (NewReplayLRU (60 * second) 1000)), None)"
    by (subst demo_req_result) (simp_all add: time_Unix_def second_def AddIfNew_empty)
  from accepted_request [OF this] show ?thesis by blast
qed

theorem unauthenticated_leaves_cache_witness:
  "fst (ValidateSignRequest demo_ssh demo_conn ''other'' ((demo_req ''body'')\<lparr>sr_BodyMAC := ''00''\<rparr>) 0 0 (NewReplayLRU 1 1))
     = NewReplayLRU 1 1"
proof -
  have "hex_DecodeString ''00'' = Some [CHR 0x00]" by code_simp
  then have "VerifyBodyHMAC demo_conn ''other'' (sr_BodyMAC ((demo_req ''body'')\<lparr>sr_BodyMAC := ''00''\<rparr>)) \<noteq> None"
    by (simp add: VerifyBodyHMAC_def computeBodyHMAC_def demo_conn_def)
  then show ?thesis using unauthenticated_leaves_cache [of demo_conn "''other''" "(demo_req ''body'')\<lparr>sr_BodyMAC := ''00''\<rparr>"] by blast
qed

text \<open>
  No request is honoured twice within the cache's lifetime: after a request body has
  been accepted, the same body is rejected on every connection and with every header at
  any time before the lifetime ends, provided that fewer than \<open>max\<close> other bodies were
  presented in between.
\<close>

theorem request_not_replayed:
  assumes "replay_inv r" and "ValidateSignRequest lib conn body req now t0 r = (r1, None)"
    and "sha256_Sum256 body \<notin> snd ` set cs" and "\<forall>c \<in> set cs. fst c < t0 + rp_ttl r"
    and "int (length cs) < rp_max r" and "t < t0 + rp_ttl r"
  shows "snd (ValidateSignRequest lib' conn' body req' now' t (fold replay_exec cs r1)) \<noteq> None"
proof -
  have a: "AddIfNew t0 (sha256_Sum256 body) r = (True, r1)" using assms(2) by (rule accepted_AddIfNew)
  have f: "fst (AddIfNew t0 (sha256_Sum256 body) r)" "r1 = snd (AddIfNew t0 (sha256_Sum256 body) r)" using a by simp_all
  have "0 < rp_max r" using assms(5) by linarith
  with assms(1) f have "remembered (sha256_Sum256 body) (t0 + rp_ttl r) 0 r1"
    using AddIfNew_True_remembers by simp
  moreover have r1: "replay_inv r1" "rp_max r1 = rp_max r" using f(2) AddIfNew_inv [OF assms(1)] by simp_all
  ultimately have "remembered (sha256_Sum256 body) (t0 + rp_ttl r) (0 + length cs) (fold replay_exec cs r1)"
    using assms(3-5) by (intro remembered_run) simp_all
  from remembered_rejects [OF replay_machine.run_inv [OF r1(1)] this assms(6)]
  show ?thesis by (auto simp: ValidateSignRequest_def split: option.split prod.split bool.split)
qed

definition serve_cache :: ReplayLRU where
  "serve_cache = NewReplayLRU (60 * second) 1000"

theorem request_not_replayed_witness:
  "snd (ValidateSignRequest demo_ssh demo_conn ''body'' (demo_req ''body'') (1001 * second) (1001 * second)
     (fold replay_exec [(1000 * second, [])] (snd (AddIfNew (1000 * second) (sha256_Sum256 ''body'') serve_cache)))) \<noteq> None"
proof -
  have a: "ValidateSignRequest demo_ssh demo_conn ''body'' (demo_req ''body'') (1000 * second) (1000 * second) serve_cache =
      (snd (AddIfNew (1000 * second) (sha256_Sum256 ''body'') serve_cache), None)"
    by (subst demo_req_result) (simp_all add: time_Unix_def second_def serve_cache_def AddIfNew_empty)
  have inv: "replay_inv serve_cache" unfolding serve_cache_def by (rule NewReplayLRU_inv)
  have "sha256_Sum256 ''body'' \<noteq> []" using sha256_length [of "''body''"] by fastforce
  with request_not_replayed [OF inv a, of "[(1000 * second, [])]" "1001 * second"] show ?thesis
    by (simp add: serve_cache_def NewReplayLRU_def duration_defs)
qed

text \<open>
  The lifetime of the cache is shorter than the life of a timestamp: with the values the
  server uses, sixty seconds and a window of thirty, a request dated thirty seconds ahead
  is accepted when it arrives and, without any other traffic, accepted again sixty and a
  half seconds later, when its timestamp is still inside the window.
\<close>

theorem replay_window_gap:
  "snd (ValidateSignRequest demo_ssh demo_conn body (demo_req body) (970 * second) (970 * second) serve_cache) = None
   \<and> snd (ValidateSignRequest demo_ssh demo_conn body (demo_req body) (1030500000000) (1030500000000)
       (fst (ValidateSignRequest demo_ssh demo_conn body (demo_req body) (970 * second) (970 * second) serve_cache))) = None"
proof -
  let ?k = "sha256_Sum256 body"
  let ?r = "replay_insert (970 * second) ?k serve_cache"
  have 1: "ValidateSignRequest demo_ssh demo_conn body (demo_req body) (970 * second) (970 * second) serve_cache = (?r, None)"
    by (subst demo_req_result) (simp_all add: time_Unix_def second_def serve_cache_def AddIfNew_empty)
  have "fst (AddIfNew 1030500000000 ?k ?r)"
    by (simp add: replay_insert_def serve_cache_def NewReplayLRU_def AddIfNew_def evictExpired_def second_def Let_def)
  then have "snd (ValidateSignRequest demo_ssh demo_conn body (demo_req body) 1030500000000 1030500000000 ?r) = None"
    by (subst demo_req_result) (simp_all add: time_Unix_def second_def)
  with 1 show ?thesis by simp
qed

end
