(* ===== verification/Session_Binding.thy ===== *)
theory Session_Binding
  imports Auth
begin

text \<open>
  The destination of a hosted-key signature (\<open>auth/session_binding.go\<close>): what an OpenSSH session
  binding proves, and the weaker statement of an in-process client. The wire decoder
  \<open>ssh.Unmarshal\<close> is a parameter, one function for each structure it fills.
\<close>

section \<open>Operations\<close>

record userAuthSignData =
  ua_SessionID :: bytes
  ua_User :: string
  ua_Service :: string
  ua_Method :: string
  ua_HasSig :: bool
  ua_Algorithm :: string
  ua_PublicKey :: bytes
  ua_Rest :: bytes

record goUserAuthSignData =
  gu_Session :: bytes
  gu_Type :: int
  gu_User :: string
  gu_Service :: string
  gu_Method :: string
  gu_Sign :: bool
  gu_Algo :: string
  gu_PubKey :: bytes
  gu_Rest :: bytes

record ssh_wire =
  wire_Signature :: "bytes \<Rightarrow> Signature result"
  wire_goUserAuth :: "bytes \<Rightarrow> goUserAuthSignData result"
  wire_userAuth :: "bytes \<Rightarrow> userAuthSignData result"
  wire_hostbound :: "bytes \<Rightarrow> bytes result"

record ValidatedSessionBinding =
  vb_HostKeyFingerprint :: string
  vb_SessionID :: bytes

definition invalid_binding :: "string \<Rightarrow> go_error" where
  "invalid_binding what = Wrapf '''' ErrInvalidSessionBinding ('': '' @ what)"

definition decodeRequiredBase64 :: "string \<Rightarrow> bytes result" where
  "decodeRequiredBase64 s =
     (if s = [] then Inl (Errorf ''required'')
      else case StdEncoding_DecodeString s of
             None \<Rightarrow> Inl (Errorf ''invalid base64'')
           | Some b \<Rightarrow> if length b = 0 then Inl (Errorf ''invalid base64'') else Inr b)"

definition msgUserAuthRequest :: int where
  "msgUserAuthRequest = 50"

definition from_go_request :: "goUserAuthSignData \<Rightarrow> userAuthSignData" where
  "from_go_request g =
     \<lparr>ua_SessionID = gu_Session g, ua_User = gu_User g, ua_Service = gu_Service g, ua_Method = gu_Method g,
      ua_HasSig = gu_Sign g, ua_Algorithm = gu_Algo g, ua_PublicKey = gu_PubKey g, ua_Rest = gu_Rest g\<rparr>"

definition parseUserAuthSignData :: "ssh_wire \<Rightarrow> bytes \<Rightarrow> userAuthSignData result" where
  "parseUserAuthSignData wire data =
     (let as_request =
            (case wire_userAuth wire data of
               Inl _ \<Rightarrow> Inl (invalid_binding ''user-auth request'')
             | Inr req \<Rightarrow> if length (ua_SessionID req) = 0 then Inl (invalid_binding ''missing session id'') else Inr req)
      in if length data = 0 then Inl (invalid_binding ''missing sign data'')
         else case wire_goUserAuth wire data of
                Inr g \<Rightarrow> if gu_Type g = msgUserAuthRequest \<and> 0 < length (gu_Session g) then Inr (from_go_request g)
                         else as_request
              | Inl _ \<Rightarrow> as_request)"

text \<open>The first guard also fails when there is no expected key.\<close>

definition validateParsedUserAuth ::
  "ssh_wire \<Rightarrow> userAuthSignData \<Rightarrow> string \<Rightarrow> PublicKey option \<Rightarrow> PublicKey \<Rightarrow> go_error option" where
  "validateParsedUserAuth wire req targetUser expectedKey boundHostKey =
     (if expectedKey = None \<or> ua_User req \<noteq> targetUser \<or> ua_Service req \<noteq> ''ssh-connection'' \<or> \<not> ua_HasSig req
         \<or> ua_PublicKey req \<noteq> pk_Marshal (the expectedKey)
      then Some (invalid_binding ''user-auth request mismatch'')
      else if ua_Method req = ''publickey''
      then if length (ua_Rest req) \<noteq> 0 then Some (invalid_binding ''trailing user-auth data'') else None
      else if ua_Method req = ''publickey-hostbound-v00@openssh.com''
      then (case wire_hostbound wire (ua_Rest req) of
              Inl _ \<Rightarrow> Some (invalid_binding ''host-bound key mismatch'')
            | Inr hostKey \<Rightarrow> if hostKey \<noteq> pk_Marshal boundHostKey
                             then Some (invalid_binding ''host-bound key mismatch'') else None)
      else Some (invalid_binding ''unsupported user-auth method''))"

definition validateUserAuthSignData ::
  "ssh_wire \<Rightarrow> bytes \<Rightarrow> bytes \<Rightarrow> string \<Rightarrow> PublicKey option \<Rightarrow> PublicKey \<Rightarrow> go_error option" where
  "validateUserAuthSignData wire data expectedSessionID targetUser expectedKey boundHostKey =
     (case parseUserAuthSignData wire data of
        Inl err \<Rightarrow> Some err
      | Inr req \<Rightarrow>
          if ua_SessionID req \<noteq> expectedSessionID then Some (invalid_binding ''user-auth request mismatch'')
          else validateParsedUserAuth wire req targetUser expectedKey boundHostKey)"

definition validateDirectUserAuthSignData ::
  "ssh_wire \<Rightarrow> bytes \<Rightarrow> string \<Rightarrow> PublicKey option \<Rightarrow> PublicKey \<Rightarrow> bytes result" where
  "validateDirectUserAuthSignData wire data targetUser expectedKey hostKey =
     (case parseUserAuthSignData wire data of
        Inl err \<Rightarrow> Inl err
      | Inr req \<Rightarrow>
          (case validateParsedUserAuth wire req targetUser expectedKey hostKey of
             Some err \<Rightarrow> Inl err
           | None \<Rightarrow> Inr (ua_SessionID req)))"

definition ValidateLocalKeySignData ::
  "ssh_lib \<Rightarrow> ssh_wire \<Rightarrow> SessionBinding \<Rightarrow> bytes \<Rightarrow> string \<Rightarrow> PublicKey option \<Rightarrow> ValidatedSessionBinding result" where
  "ValidateLocalKeySignData lib wire binding signData targetUser expectedKey =
     (if sb_Forwarding binding then Inl (invalid_binding ''forwarding is not allowed'')
      else case decodeRequiredBase64 (sb_HostPublicKey binding) of Inl _ \<Rightarrow> Inl (invalid_binding ''host public key'')
      | Inr hostWire \<Rightarrow> (case ssh_ParsePublicKey lib hostWire of Inl _ \<Rightarrow> Inl (invalid_binding ''host public key'')
      | Inr hostKey \<Rightarrow> (case decodeRequiredBase64 (sb_SessionID binding) of Inl _ \<Rightarrow> Inl (invalid_binding ''session id'')
      | Inr sessionID \<Rightarrow> (case decodeRequiredBase64 (sb_Signature binding) of Inl _ \<Rightarrow> Inl (invalid_binding ''signature'')
      | Inr sigWire \<Rightarrow> (case wire_Signature wire sigWire of Inl _ \<Rightarrow> Inl (invalid_binding ''signature'')
      | Inr sig \<Rightarrow> (case ssh_Verify lib hostKey sessionID sig of Some _ \<Rightarrow> Inl (invalid_binding ''signature'')
      | None \<Rightarrow> (case validateUserAuthSignData wire signData sessionID targetUser expectedKey hostKey of
            Some err \<Rightarrow> Inl err
          | None \<Rightarrow> Inr \<lparr>vb_HostKeyFingerprint = Fingerprint hostKey, vb_SessionID = sessionID\<rparr>)))))))"

definition ValidateDirectLocalKeySignData ::
  "ssh_lib \<Rightarrow> ssh_wire \<Rightarrow> string \<Rightarrow> bytes \<Rightarrow> string \<Rightarrow> PublicKey option \<Rightarrow> ValidatedSessionBinding result" where
  "ValidateDirectLocalKeySignData lib wire hostPublicKey signData targetUser expectedKey =
     (case decodeRequiredBase64 hostPublicKey of Inl _ \<Rightarrow> Inl (invalid_binding ''destination host public key'')
      | Inr hostWire \<Rightarrow> (case ssh_ParsePublicKey lib hostWire of Inl _ \<Rightarrow> Inl (invalid_binding ''destination host public key'')
      | Inr hostKey \<Rightarrow> (case validateDirectUserAuthSignData wire signData targetUser expectedKey hostKey of
            Inl err \<Rightarrow> Inl err
          | Inr sessionID \<Rightarrow> Inr \<lparr>vb_HostKeyFingerprint = Fingerprint hostKey, vb_SessionID = sessionID\<rparr>)))"

section \<open>Properties\<close>

lemma validateParsedUserAuth_None:
  assumes "validateParsedUserAuth wire req user expected bound = None"
  shows "\<exists>k. expected = Some k \<and> ua_User req = user \<and> ua_Service req = ''ssh-connection'' \<and> ua_HasSig req
    \<and> ua_PublicKey req = pk_Marshal k
    \<and> (ua_Method req = ''publickey'' \<and> ua_Rest req = []
       \<or> ua_Method req = ''publickey-hostbound-v00@openssh.com''
         \<and> wire_hostbound wire (ua_Rest req) = Inr (pk_Marshal bound))"
  using assms by (auto simp: validateParsedUserAuth_def split: if_splits sum.splits)

text \<open>
  (C15) A session binding says where the signature goes: an accepted binding carries a
  signature by the destination's host key over the session identifier, and the data to be
  signed is a public-key login for that very session, for the requested user and with the
  hosted key; a host-bound login also names the same host key. The fingerprint returned
  to the approver is that host key's, and a forwarded agent is refused.
\<close>

theorem session_binding_sound:
  assumes "ValidateLocalKeySignData lib wire binding signData user (Some hosted) = Inr v"
  shows "\<not> sb_Forwarding binding
    \<and> (\<exists>hostKey sig req. vb_HostKeyFingerprint v = Fingerprint hostKey
        \<and> ssh_Verify lib hostKey (vb_SessionID v) sig = None
        \<and> parseUserAuthSignData wire signData = Inr req
        \<and> ua_SessionID req = vb_SessionID v \<and> ua_User req = user
        \<and> ua_PublicKey req = pk_Marshal hosted \<and> ua_Service req = ''ssh-connection''
        \<and> (ua_Method req = ''publickey''
           \<or> wire_hostbound wire (ua_Rest req) = Inr (pk_Marshal hostKey)))"
proof -
  from assms have fwd: "\<not> sb_Forwarding binding" by (auto simp: ValidateLocalKeySignData_def)
  from assms obtain hostKey sig where
    v: "vb_HostKeyFingerprint v = Fingerprint hostKey" "ssh_Verify lib hostKey (vb_SessionID v) sig = None"
       "validateUserAuthSignData wire signData (vb_SessionID v) user (Some hosted) hostKey = None"
    by (auto simp: ValidateLocalKeySignData_def split: if_splits sum.splits option.splits)
  from v(3) obtain req where req: "parseUserAuthSignData wire signData = Inr req" "ua_SessionID req = vb_SessionID v"
    "validateParsedUserAuth wire req user (Some hosted) hostKey = None"
    by (auto simp: validateUserAuthSignData_def split: sum.splits if_splits)
  from validateParsedUserAuth_None [OF req(3)] fwd v req(1,2) show ?thesis by blast
qed

definition demo_wire :: ssh_wire where
  "demo_wire =
     \<lparr>wire_Signature = \<lambda>b. Inr \<lparr>sig_Format = ''ssh-ed25519'', sig_Blob = b\<rparr>,
      wire_goUserAuth = \<lambda>b. Inl (Errorf ''short''),
      wire_userAuth = \<lambda>b. Inr \<lparr>ua_SessionID = ''sid'', ua_User = ''deploy'', ua_Service = ''ssh-connection'',
        ua_Method = ''publickey'', ua_HasSig = True, ua_Algorithm = ''ssh-ed25519'', ua_PublicKey = ''pem'', ua_Rest = []\<rparr>,
      wire_hostbound = \<lambda>b. Inl (Errorf ''short'')\<rparr>"

definition demo_binding :: SessionBinding where
  "demo_binding = \<lparr>sb_HostPublicKey = ''aG9zdA=='', sb_SessionID = ''c2lk'', sb_Signature = ''aG9zdHNpZA=='', sb_Forwarding = False\<rparr>"

lemma demo_binding_decodes:
  "decodeRequiredBase64 ''aG9zdA=='' = Inr ''host''" "decodeRequiredBase64 ''c2lk'' = Inr ''sid''"
  "decodeRequiredBase64 ''aG9zdHNpZA=='' = Inr ''hostsid''"
  by code_simp+

lemma demo_binding_valid:
  "ValidateLocalKeySignData demo_ssh demo_wire demo_binding ''data'' ''deploy''
     (Some \<lparr>pk_Type = ''ssh-ed25519'', pk_Marshal = ''pem''\<rparr>) =
   Inr \<lparr>vb_HostKeyFingerprint = Fingerprint \<lparr>pk_Type = ''ssh-ed25519'', pk_Marshal = ''host''\<rparr>, vb_SessionID = ''sid''\<rparr>"
  by (simp add: ValidateLocalKeySignData_def demo_binding_def demo_binding_decodes demo_ssh_def demo_wire_def
      validateUserAuthSignData_def parseUserAuthSignData_def validateParsedUserAuth_def)

theorem session_binding_sound_witness:
  "\<exists>hostKey. Fingerprint \<lparr>pk_Type = ''ssh-ed25519'', pk_Marshal = ''host''\<rparr> = Fingerprint hostKey
     \<and> (\<exists>sig. ssh_Verify demo_ssh hostKey ''sid'' sig = None)"
  using session_binding_sound [OF demo_binding_valid] by auto

end
