(* ===== verification/Pending.thy ===== *)
theory Pending
  imports Keystore
begin

text \<open>
  The queue of uploaded keys awaiting an operator (\<open>keystore/pending.go\<close>): a map of entries and
  a counter of entries per device. The identifier generator (\<open>ulid\<close>) is a parameter, the
  suffix it returns; that it is new is a hypothesis of the lemmas that need it.
\<close>

section \<open>The queue and its operations\<close>

record PendingKey =
  pd_ID :: string
  pd_DeviceID :: string
  pd_Label :: string
  pd_Comment :: string
  pd_Blob :: bytes
  pd_ExpiresAt :: gotime

record PendingStore =
  ps_entries :: "(string, PendingKey) gomap"
  ps_byDev :: "(string, int) gomap"

definition defaultPendingTTL :: duration where
  "defaultPendingTTL = 15 * minute"

definition maxPendingGlobal :: nat where
  "maxPendingGlobal = 32"

definition maxPendingPerDevice :: int where
  "maxPendingPerDevice = 4"

definition NewPendingStore :: PendingStore where
  "NewPendingStore = \<lparr>ps_entries = [], ps_byDev = []\<rparr>"

text \<open>Reading a missing key of a \<open>map[string]int\<close> gives zero.\<close>

definition dev_get :: "(string, int) gomap \<Rightarrow> string \<Rightarrow> int" where
  "dev_get m d = (case map_of m d of None \<Rightarrow> 0 | Some n \<Rightarrow> n)"

definition dev_decrement :: "string \<Rightarrow> (string, int) gomap \<Rightarrow> (string, int) gomap" where
  "dev_decrement d m = (if 0 < dev_get m d then map_put d (dev_get m d - 1) m else m)"

definition pending_Add ::
  "string \<Rightarrow> gotime \<Rightarrow> string \<Rightarrow> string \<Rightarrow> string \<Rightarrow> bytes \<Rightarrow> PendingStore \<Rightarrow> PendingStore \<times> string result" where
  "pending_Add ulid now deviceID label comment blob s =
     (if maxPendingGlobal \<le> length (ps_entries s) then (s, Inl ErrPendingFull)
      else if maxPendingPerDevice \<le> dev_get (ps_byDev s) deviceID then (s, Inl ErrPendingFull)
      else
        (let pid = ''pend_'' @ ulid;
             p = \<lparr>pd_ID = pid, pd_DeviceID = deviceID, pd_Label = label, pd_Comment = comment,
                  pd_Blob = blob, pd_ExpiresAt = now + defaultPendingTTL\<rparr>
         in (s\<lparr>ps_entries := map_put pid p (ps_entries s),
               ps_byDev := map_put deviceID (dev_get (ps_byDev s) deviceID + 1) (ps_byDev s)\<rparr>, Inr pid)))"

text \<open>The range loop of \<open>purgeExpiredLocked\<close>: its first argument lists the entries visited.\<close>

fun purge_loop ::
  "(string, PendingKey) gomap \<Rightarrow> gotime \<Rightarrow> PendingStore \<Rightarrow> PendingStore" where
  "purge_loop [] now s = s"
| "purge_loop ((pid, p) # rest) now s =
     purge_loop rest now
       (if pd_ExpiresAt p < now
        then s\<lparr>ps_entries := map_del pid (ps_entries s),
               ps_byDev := dev_decrement (pd_DeviceID p) (ps_byDev s)\<rparr>
        else s)"

definition purgeExpiredLocked :: "gotime \<Rightarrow> PendingStore \<Rightarrow> PendingStore" where
  "purgeExpiredLocked now s = purge_loop (ps_entries s) now s"

definition pending_Get :: "gotime \<Rightarrow> string \<Rightarrow> PendingStore \<Rightarrow> PendingStore \<times> PendingKey result" where
  "pending_Get now pid s0 =
     (let s = purgeExpiredLocked now s0
      in case map_of (ps_entries s) pid of
           None \<Rightarrow> (s, Inl ErrPendingNotFound)
         | Some p \<Rightarrow> (s, Inr p))"

definition pending_Delete :: "string \<Rightarrow> PendingStore \<Rightarrow> PendingStore \<times> unit result" where
  "pending_Delete pid s =
     (case map_of (ps_entries s) pid of
        None \<Rightarrow> (s, Inl ErrPendingNotFound)
      | Some p \<Rightarrow>
          (s\<lparr>ps_entries := map_del pid (ps_entries s),
             ps_byDev := dev_decrement (pd_DeviceID p) (ps_byDev s)\<rparr>, Inr ()))"

definition pending_List :: "gotime \<Rightarrow> PendingStore \<Rightarrow> PendingStore \<times> PendingKey list" where
  "pending_List now s0 = (let s = purgeExpiredLocked now s0 in (s, map snd (ps_entries s)))"

definition pending_Count :: "gotime \<Rightarrow> PendingStore \<Rightarrow> PendingStore \<times> nat" where
  "pending_Count now s0 = (let s = purgeExpiredLocked now s0 in (s, length (ps_entries s)))"

text \<open>\<open>Get\<close> hands out a pointer: what the holder writes into the entry's blob is seen by
  later readers. This is that write.\<close>

definition pending_write_blob :: "string \<Rightarrow> bytes \<Rightarrow> PendingStore \<Rightarrow> PendingStore" where
  "pending_write_blob pid blob s =
     (case map_of (ps_entries s) pid of
        None \<Rightarrow> s
      | Some p \<Rightarrow> s\<lparr>ps_entries := map_put pid (p\<lparr>pd_Blob := blob\<rparr>) (ps_entries s)\<rparr>)"

section \<open>Invariant: the counters count\<close>

definition dev_count :: "string \<Rightarrow> (string, PendingKey) gomap \<Rightarrow> nat" where
  "dev_count d m = length (filter (\<lambda>e. pd_DeviceID (snd e) = d) m)"

definition pending_inv :: "PendingStore \<Rightarrow> bool" where
  "pending_inv s \<longleftrightarrow> map_wf (ps_entries s)
     \<and> (\<forall>(pid, p) \<in> set (ps_entries s). pd_ID p = pid)
     \<and> (\<forall>d. dev_get (ps_byDev s) d = int (dev_count d (ps_entries s)))
     \<and> length (ps_entries s) \<le> maxPendingGlobal
     \<and> (\<forall>d. dev_get (ps_byDev s) d \<le> maxPendingPerDevice)"

lemma dev_get_put [simp]: "dev_get (map_put d n m) d' = (if d' = d then n else dev_get m d')"
  by (simp add: dev_get_def)

lemma dev_count_put_fresh:
  "map_of m i = None \<Longrightarrow> dev_count d (map_put i p m) = dev_count d m + (if pd_DeviceID p = d then 1 else 0)"
  by (induction m) (auto simp: dev_count_def)

lemma dev_count_del:
  assumes "map_wf m" and "map_of m i = Some p"
  shows "dev_count d m = dev_count d (map_del i m) + (if pd_DeviceID p = d then 1 else 0)"
  using assms
proof (induction m)
  case (Cons e m)
  show ?case
  proof (cases "fst e = i")
    case True
    with Cons.prems have "map_of m i = None" by (auto simp: map_wf_def map_of_eq_None_iff)
    then have "map_del i m = m" by (rule map_del_absent)
    with True Cons.prems show ?thesis by (cases e) (simp add: dev_count_def)
  next
    case False
    with Cons show ?thesis by (cases e) (auto simp: dev_count_def map_wf_def)
  qed
qed simp

lemma dev_count_pos: "(i, p) \<in> set m \<Longrightarrow> 0 < dev_count (pd_DeviceID p) m"
  by (force simp: dev_count_def filter_empty_conv)

lemma dev_count_put_same:
  assumes "map_wf m" and "map_of m i = Some q" and "pd_DeviceID p = pd_DeviceID q"
  shows "dev_count d (map_put i p m) = dev_count d m"
  using assms
proof (induction m)
  case (Cons e m)
  then show ?case by (cases e) (auto simp: dev_count_def map_wf_def split: if_splits)
qed simp

lemma NewPendingStore_inv [inv_rules]: "pending_inv NewPendingStore"
  by (simp add: pending_inv_def NewPendingStore_def dev_get_def dev_count_def maxPendingPerDevice_def)

lemma pending_Add_inv [inv_rules]:
  assumes "pending_inv s" and "map_of (ps_entries s) (''pend_'' @ ulid) = None"
  shows "pending_inv (fst (pending_Add ulid now d l c b s))"
  using assms
  by (auto simp: pending_inv_def pending_Add_def Let_def dev_count_put_fresh set_map_put_wf length_map_put)

lemma remove_entry_inv:
  assumes "pending_inv s" and "map_of (ps_entries s) pid = Some p"
  shows "pending_inv (s\<lparr>ps_entries := map_del pid (ps_entries s),
           ps_byDev := dev_decrement (pd_DeviceID p) (ps_byDev s)\<rparr>)"
proof -
  have wf: "map_wf (ps_entries s)" and cnt: "\<And>d. dev_get (ps_byDev s) d = int (dev_count d (ps_entries s))"
    and bnd: "\<And>d. dev_get (ps_byDev s) d \<le> maxPendingPerDevice" "length (ps_entries s) \<le> maxPendingGlobal"
    using assms(1) by (auto simp: pending_inv_def)
  have "dev_get (dev_decrement (pd_DeviceID p) (ps_byDev s)) d = int (dev_count d (map_del pid (ps_entries s)))" for d
    using dev_count_del [OF wf assms(2), of d] cnt [of d] by (auto simp: dev_decrement_def)
  moreover have "dev_get (dev_decrement (pd_DeviceID p) (ps_byDev s)) d \<le> maxPendingPerDevice" for d
    using bnd(1) [of d] by (auto simp: dev_decrement_def)
  moreover have "length (map_del pid (ps_entries s)) \<le> maxPendingGlobal"
    using bnd(2) length_map_del [OF wf, of pid] by (auto split: if_splits)
  ultimately show ?thesis using assms(1) wf by (auto simp: pending_inv_def set_map_del)
qed

lemma pending_Delete_inv [inv_rules]: "pending_inv s \<Longrightarrow> pending_inv (fst (pending_Delete pid s))"
  by (auto simp: pending_Delete_def remove_entry_inv split: option.split)

lemma pending_write_blob_inv [inv_rules]: "pending_inv s \<Longrightarrow> pending_inv (pending_write_blob pid b s)"
  by (auto simp: pending_write_blob_def pending_inv_def set_map_put_wf dev_count_put_same length_map_put
      dest: map_of_SomeD split: option.split)

text \<open>The purge loop visits entries of the store, each at most once.\<close>

lemma purge_loop_spec:
  assumes "pending_inv s" and "map_wf es" and "\<forall>(i, p) \<in> set es. map_of (ps_entries s) i = Some p"
  shows "pending_inv (purge_loop es now s)
    \<and> (\<forall>i. map_of (ps_entries (purge_loop es now s)) i =
         (case map_of es i of Some p \<Rightarrow> if pd_ExpiresAt p < now then None else Some p
          | None \<Rightarrow> map_of (ps_entries s) i))"
  using assms
proof (induction es arbitrary: s)
  case (Cons e es)
  obtain i p where e: "e = (i, p)" by (cases e)
  let ?s = "if pd_ExpiresAt p < now
    then s\<lparr>ps_entries := map_del i (ps_entries s), ps_byDev := dev_decrement (pd_DeviceID p) (ps_byDev s)\<rparr>
    else s"
  have ip: "map_of (ps_entries s) i = Some p" using Cons.prems(3) e by auto
  have inv: "pending_inv ?s" using remove_entry_inv [OF Cons.prems(1) ip] Cons.prems(1) by auto
  have i: "map_of es i = None" using Cons.prems(2) e by (auto simp: map_wf_def map_of_eq_None_iff)
  have "\<forall>(j, q) \<in> set es. map_of (ps_entries ?s) j = Some q"
    using Cons.prems(3) i e by (force simp: map_of_eq_None_iff)
  moreover have "map_wf es" using Cons.prems(2) e by (simp add: map_wf_def)
  ultimately have IH: "pending_inv (purge_loop es now ?s)"
    "\<And>j. map_of (ps_entries (purge_loop es now ?s)) j =
         (case map_of es j of Some p \<Rightarrow> if pd_ExpiresAt p < now then None else Some p
          | None \<Rightarrow> map_of (ps_entries ?s) j)"
    using Cons.IH [OF inv] by blast+
  have "purge_loop (e # es) now s = purge_loop es now ?s" by (simp add: e)
  then show ?case using IH ip i e by (auto split: option.split)
qed simp

lemma own_entries: "pending_inv s \<Longrightarrow> map_wf (ps_entries s) \<and> (\<forall>(i, p) \<in> set (ps_entries s). map_of (ps_entries s) i = Some p)"
  by (auto simp: pending_inv_def map_of_wf_iff)

lemma purge_inv [inv_rules]: "pending_inv s \<Longrightarrow> pending_inv (purgeExpiredLocked now s)"
  using purge_loop_spec [of s "ps_entries s"] own_entries [of s] unfolding purgeExpiredLocked_def by blast

lemma purge_lookup [lookup_simps]:
  assumes "pending_inv s"
  shows "map_of (ps_entries (purgeExpiredLocked now s)) i =
    (case map_of (ps_entries s) i of None \<Rightarrow> None
     | Some p \<Rightarrow> if pd_ExpiresAt p < now then None else Some p)"
proof -
  have "map_of (ps_entries (purge_loop (ps_entries s) now s)) i =
      (case map_of (ps_entries s) i of Some p \<Rightarrow> if pd_ExpiresAt p < now then None else Some p
       | None \<Rightarrow> map_of (ps_entries s) i)"
    using purge_loop_spec [of s "ps_entries s" now] own_entries [OF assms] assms by blast
  then show ?thesis by (simp add: purgeExpiredLocked_def split: option.split)
qed

text \<open>The operations as one type, for runs of the queue.\<close>

datatype pending_op =
    PAdd string gotime string string string bytes
  | PGet gotime string
  | PDelete string
  | PList gotime
  | PCount gotime
  | PWrite string bytes

fun pending_exec :: "pending_op \<Rightarrow> PendingStore \<Rightarrow> PendingStore" where
  "pending_exec (PAdd u now d l c b) s =
     (if map_of (ps_entries s) (''pend_'' @ u) = None then fst (pending_Add u now d l c b s) else s)"
| "pending_exec (PGet now i) s = fst (pending_Get now i s)"
| "pending_exec (PDelete i) s = fst (pending_Delete i s)"
| "pending_exec (PList now) s = fst (pending_List now s)"
| "pending_exec (PCount now) s = fst (pending_Count now s)"
| "pending_exec (PWrite i b) s = pending_write_blob i b s"

lemma pending_exec_inv: "pending_inv s \<Longrightarrow> pending_inv (pending_exec oper s)"
  by (cases oper)
    (auto simp: pending_Get_def pending_List_def pending_Count_def Let_def intro: inv_rules split: option.split)

interpretation pending_machine: op_machine pending_exec pending_inv
  by unfold_locales (rule pending_exec_inv)

section \<open>Properties\<close>

text \<open>
  The limits of the pending queue hold in every run: whatever sequence of uploads,
  lookups, confirmations, rejections and expiries is executed, there are never more than
  32 entries, never more than four of one device, and the per-device counter is the number
  of entries of that device. New identifiers are taken to be unused, as \<open>ulid\<close> gives them.
\<close>

theorem pending_limits:
  "length (ps_entries (fold pending_exec ops NewPendingStore)) \<le> 32
   \<and> dev_count d (ps_entries (fold pending_exec ops NewPendingStore)) \<le> 4
   \<and> dev_get (ps_byDev (fold pending_exec ops NewPendingStore)) d
       = int (dev_count d (ps_entries (fold pending_exec ops NewPendingStore)))"
proof -
  have "pending_inv (fold pending_exec ops NewPendingStore)"
    by (rule pending_machine.run_inv) (rule NewPendingStore_inv)
  then have "length (ps_entries (fold pending_exec ops NewPendingStore)) \<le> 32"
    "dev_get (ps_byDev (fold pending_exec ops NewPendingStore)) d
       = int (dev_count d (ps_entries (fold pending_exec ops NewPendingStore)))"
    "dev_get (ps_byDev (fold pending_exec ops NewPendingStore)) d \<le> 4"
    unfolding pending_inv_def maxPendingGlobal_def maxPendingPerDevice_def by blast+
  then show ?thesis by linarith
qed

text \<open>
  A pending key is visible exactly until it expires: after an accepted upload, \<open>Get\<close>
  under the returned identifier yields the uploaded blob, label and comment at every
  time up to fifteen minutes later and \<open>ErrPendingNotFound\<close> from then on, and lookups
  of other identifiers are not affected by the upload.
\<close>

theorem pending_add_get:
  assumes "pending_inv s" and "map_of (ps_entries s) (''pend_'' @ u) = None"
    and "pending_Add u now d l c b s = (s', Inr i)"
  shows "snd (pending_Get t i s') =
      (if now + defaultPendingTTL < t then Inl ErrPendingNotFound
       else Inr \<lparr>pd_ID = i, pd_DeviceID = d, pd_Label = l, pd_Comment = c, pd_Blob = b,
                 pd_ExpiresAt = now + defaultPendingTTL\<rparr>)
    \<and> (j \<noteq> i \<longrightarrow> snd (pending_Get t j s') = snd (pending_Get t j s))"
proof -
  have inv: "pending_inv s'" using pending_Add_inv [OF assms(1,2)] assms(3) by (metis fst_conv)
  have s': "i = ''pend_'' @ u" "ps_entries s' = map_put i \<lparr>pd_ID = i, pd_DeviceID = d, pd_Label = l,
      pd_Comment = c, pd_Blob = b, pd_ExpiresAt = now + defaultPendingTTL\<rparr> (ps_entries s)"
    using assms(3) by (auto simp: pending_Add_def Let_def split: if_splits)
  show ?thesis
    by (auto simp: pending_Get_def Let_def purge_lookup [OF inv] purge_lookup [OF assms(1)] s'(2)
        split: option.split)
qed

theorem pending_add_get_witness:
  "snd (pending_Get minute ''pend_1'' (fst (pending_Add ''1'' 0 ''dev'' ''l'' ''c'' ''blob'' NewPendingStore)))
    = Inr \<lparr>pd_ID = ''pend_1'', pd_DeviceID = ''dev'', pd_Label = ''l'', pd_Comment = ''c'', pd_Blob = ''blob'',
           pd_ExpiresAt = defaultPendingTTL\<rparr>"
proof -
  have r: "pending_Add ''1'' 0 ''dev'' ''l'' ''c'' ''blob'' NewPendingStore =
      (fst (pending_Add ''1'' 0 ''dev'' ''l'' ''c'' ''blob'' NewPendingStore), Inr ''pend_1'')"
    by (simp add: pending_Add_def NewPendingStore_def Let_def maxPendingGlobal_def maxPendingPerDevice_def dev_get_def)
  from pending_add_get [OF NewPendingStore_inv _ r, of minute] show ?thesis
    by (simp add: NewPendingStore_def defaultPendingTTL_def duration_defs)
qed

end
