(* ===== verification/Devices.thy ===== *)
theory Devices
  imports Go_Crypto
begin

text \<open>
  The registries of enrolled devices: mobile approvers (\<open>mobile/store.go\<close>), CLI clients
  (\<open>cli/store.go\<close>, \<open>cli/validate.go\<close>, \<open>cli/fingerprint.go\<close>) and the limit on the keys a CLI
  client may load (\<open>cli/ratelimit.go\<close>). Identifiers come from \<open>ulid\<close>, a parameter.
\<close>

section \<open>X.509 certificates as the program reads them\<close>

record x509_cert =
  xc_Raw :: bytes
  xc_OrganizationalUnit :: "string list"

definition CertFingerprint :: "x509_cert \<Rightarrow> string" where
  "CertFingerprint cert = hex_EncodeToString (sha256_Sum256 (xc_Raw cert))"

section \<open>Mobile devices\<close>

record mobile_Device =
  md_ID :: string
  md_Label :: string
  md_PubKey :: bytes
  md_CertFingerprint :: string
  md_EnrolledAt :: gotime

record mobile_Store =
  ms_devices :: "(string, mobile_Device) gomap"

definition ed25519_PublicKeySize :: nat where
  "ed25519_PublicKeySize = 32"

definition mobile_NewStore :: mobile_Store where
  "mobile_NewStore = \<lparr>ms_devices = []\<rparr>"

definition EnrollBound ::
  "string \<Rightarrow> gotime \<Rightarrow> string \<Rightarrow> string \<Rightarrow> string \<Rightarrow> mobile_Store \<Rightarrow> mobile_Store \<times> mobile_Device result" where
  "EnrollBound ulid now label devicePubKeyB64 certFingerprint s =
     (if label = [] then (s, Inl ErrEmptyLabel)
      else case StdEncoding_DecodeString devicePubKeyB64 of
             None \<Rightarrow> (s, Inl ErrInvalidKey)
           | Some raw \<Rightarrow>
               if length raw \<noteq> ed25519_PublicKeySize then (s, Inl ErrInvalidKey)
               else (let devID = ''dev_'' @ ulid;
                         dev = \<lparr>md_ID = devID, md_Label = label, md_PubKey = raw,
                                md_CertFingerprint = certFingerprint, md_EnrolledAt = now\<rparr>
                     in (s\<lparr>ms_devices := map_put devID dev (ms_devices s)\<rparr>, Inr dev)))"

definition mobile_Enroll ::
  "string \<Rightarrow> gotime \<Rightarrow> string \<Rightarrow> string \<Rightarrow> mobile_Store \<Rightarrow> mobile_Store \<times> mobile_Device result" where
  "mobile_Enroll ulid now label devicePubKeyB64 s = EnrollBound ulid now label devicePubKeyB64 '''' s"

definition mobile_Get :: "string \<Rightarrow> mobile_Store \<Rightarrow> mobile_Device option" where
  "mobile_Get devID s = map_of (ms_devices s) devID"

definition mobile_List :: "mobile_Store \<Rightarrow> mobile_Device list" where
  "mobile_List s = map snd (ms_devices s)"

definition mobile_Delete :: "string \<Rightarrow> mobile_Store \<Rightarrow> mobile_Store \<times> unit result" where
  "mobile_Delete devID s =
     (case map_of (ms_devices s) devID of
        None \<Rightarrow> (s, Inl ErrMobileNotFound)
      | Some _ \<Rightarrow> (s\<lparr>ms_devices := map_del devID (ms_devices s)\<rparr>, Inr ()))"

section \<open>CLI devices\<close>

record cli_Device =
  cd_ID :: string
  cd_Label :: string
  cd_CertFingerprint :: string
  cd_EnrolledAt :: gotime

record cli_Store =
  cs_devices :: "(string, cli_Device) gomap"

definition MaxLabelLen :: nat where
  "MaxLabelLen = 128"

definition ValidateLabel :: "string \<Rightarrow> go_error option" where
  "ValidateLabel label =
     (if label = [] then Some ErrCliEmptyLabel
      else if MaxLabelLen < length label then Some ErrLabelTooLong else None)"

definition cli_NewStore :: cli_Store where
  "cli_NewStore = \<lparr>cs_devices = []\<rparr>"

definition cli_Enroll :: "string \<Rightarrow> gotime \<Rightarrow> string \<Rightarrow> string \<Rightarrow> cli_Store \<Rightarrow> cli_Store \<times> cli_Device result" where
  "cli_Enroll ulid now label certFingerprint s =
     (case ValidateLabel label of
        Some err \<Rightarrow> (s, Inl err)
      | None \<Rightarrow>
          if list_ex (\<lambda>(_, d). cd_CertFingerprint d = certFingerprint) (cs_devices s)
          then (s, Inl ErrDuplicateFingerprint)
          else (let devID = ''cli_'' @ ulid;
                    dev = \<lparr>cd_ID = devID, cd_Label = label, cd_CertFingerprint = certFingerprint, cd_EnrolledAt = now\<rparr>
                in (s\<lparr>cs_devices := map_put devID dev (cs_devices s)\<rparr>, Inr dev)))"

definition GetByFingerprint :: "string \<Rightarrow> cli_Store \<Rightarrow> cli_Device option" where
  "GetByFingerprint fp s = find (\<lambda>d. cd_CertFingerprint d = fp) (map snd (cs_devices s))"

definition cli_List :: "cli_Store \<Rightarrow> cli_Device list" where
  "cli_List s = map snd (cs_devices s)"

definition cli_Delete :: "string \<Rightarrow> cli_Store \<Rightarrow> cli_Store \<times> unit result" where
  "cli_Delete devID s =
     (case map_of (cs_devices s) devID of
        None \<Rightarrow> (s, Inl ErrCliNotFound)
      | Some _ \<Rightarrow> (s\<lparr>cs_devices := map_del devID (cs_devices s)\<rparr>, Inr ()))"

section \<open>The limit on key loads\<close>

record LoadRateLimiter =
  rl_loads :: "(string, gotime list) gomap"

definition loadRateLimitCount :: nat where
  "loadRateLimitCount = 10"

definition loadRateLimitWindow :: duration where
  "loadRateLimitWindow = hour"

definition NewLoadRateLimiter :: LoadRateLimiter where
  "NewLoadRateLimiter = \<lparr>rl_loads = []\<rparr>"

definition loads_of :: "LoadRateLimiter \<Rightarrow> string \<Rightarrow> gotime list" where
  "loads_of l d = (case map_of (rl_loads l) d of None \<Rightarrow> [] | Some ts \<Rightarrow> ts)"

definition pruneLocked :: "string \<Rightarrow> gotime \<Rightarrow> LoadRateLimiter \<Rightarrow> LoadRateLimiter \<times> gotime list" where
  "pruneLocked deviceID cutoff l =
     (let times = filter (\<lambda>ts. cutoff < ts) (loads_of l deviceID)
      in if length times = 0 then (l\<lparr>rl_loads := map_del deviceID (rl_loads l)\<rparr>, times)
         else (l\<lparr>rl_loads := map_put deviceID times (rl_loads l)\<rparr>, times))"

definition Allowed :: "gotime \<Rightarrow> string \<Rightarrow> LoadRateLimiter \<Rightarrow> LoadRateLimiter \<times> bool" where
  "Allowed now deviceID l =
     (if deviceID = [] then (l, False)
      else (let (l', times) = pruneLocked deviceID (now + - loadRateLimitWindow) l
            in (l', length times < loadRateLimitCount)))"

definition TryRecordSuccess :: "gotime \<Rightarrow> string \<Rightarrow> LoadRateLimiter \<Rightarrow> LoadRateLimiter \<times> bool" where
  "TryRecordSuccess now deviceID l =
     (if deviceID = [] then (l, False)
      else (let (l', times) = pruneLocked deviceID (now + - loadRateLimitWindow) l
            in if loadRateLimitCount \<le> length times then (l', False)
               else (l'\<lparr>rl_loads := map_put deviceID (times @ [now]) (rl_loads l')\<rparr>, True)))"

definition Forget :: "string \<Rightarrow> LoadRateLimiter \<Rightarrow> LoadRateLimiter" where
  "Forget deviceID l = (if deviceID = [] then l else l\<lparr>rl_loads := map_del deviceID (rl_loads l)\<rparr>)"

section \<open>CLI devices are told apart by their certificates\<close>

definition cli_inv :: "cli_Store \<Rightarrow> bool" where
  "cli_inv s \<longleftrightarrow> map_wf (cs_devices s) \<and> distinct (map (cd_CertFingerprint \<circ> snd) (cs_devices s))
     \<and> (\<forall>(i, d) \<in> set (cs_devices s). cd_ID d = i \<and> cd_Label d \<noteq> [] \<and> length (cd_Label d) \<le> MaxLabelLen)"

lemma map_put_fresh: "map_of m k = None \<Longrightarrow> map_put k v m = m @ [(k, v)]"
  by (induction m) auto

lemma map_del_sublist_distinct: "distinct (map f m) \<Longrightarrow> distinct (map f (map_del k m))"
  by (simp add: AList.delete_eq distinct_map_filter)

lemma cli_NewStore_inv [inv_rules]: "cli_inv cli_NewStore"
  by (simp add: cli_inv_def cli_NewStore_def)

lemma cli_Enroll_inv [inv_rules]:
  assumes "cli_inv s" and "map_of (cs_devices s) (''cli_'' @ ulid) = None"
  shows "cli_inv (fst (cli_Enroll ulid now label fp s))"
proof (cases "snd (cli_Enroll ulid now label fp s)")
  case (Inl e)
  then have "fst (cli_Enroll ulid now label fp s) = s"
    by (auto simp: cli_Enroll_def Let_def split: option.splits if_splits)
  with assms(1) show ?thesis by simp
next
  case (Inr d)
  then have d: "fst (cli_Enroll ulid now label fp s) = s\<lparr>cs_devices := cs_devices s @ [(''cli_'' @ ulid, d)]\<rparr>"
    "cd_ID d = ''cli_'' @ ulid" "cd_Label d = label" "cd_CertFingerprint d = fp" "ValidateLabel label = None"
    "\<not> list_ex (\<lambda>(_, d). cd_CertFingerprint d = fp) (cs_devices s)"
    using map_put_fresh [OF assms(2)] by (auto simp: cli_Enroll_def Let_def split: option.splits if_splits)
  have "fp \<notin> set (map (cd_CertFingerprint \<circ> snd) (cs_devices s))"
    using d(6) by (auto simp: list_ex_iff)
  moreover have "''cli_'' @ ulid \<notin> set (map fst (cs_devices s))"
    using assms(2) by (simp add: in_keys_iff)
  moreover have "label \<noteq> [] \<and> length label \<le> MaxLabelLen"
    using d(5) by (auto simp: ValidateLabel_def split: if_splits)
  ultimately show ?thesis using assms(1) d(2-4) unfolding cli_inv_def map_wf_def d(1) by simp
qed

lemma cli_Delete_inv [inv_rules]: "cli_inv s \<Longrightarrow> cli_inv (fst (cli_Delete devID s))"
  by (auto simp: cli_inv_def cli_Delete_def map_del_sublist_distinct set_map_del split: option.split)

text \<open>The operations as one type; a new identifier is taken to be unused.\<close>

datatype cli_op = CliEnroll string gotime string string | CliDelete string

fun cli_exec :: "cli_op \<Rightarrow> cli_Store \<Rightarrow> cli_Store" where
  "cli_exec (CliEnroll u now l fp) s =
     (if map_of (cs_devices s) (''cli_'' @ u) = None then fst (cli_Enroll u now l fp s) else s)"
| "cli_exec (CliDelete i) s = fst (cli_Delete i s)"

interpretation cli_machine: op_machine cli_exec cli_inv
proof
  show "cli_inv (cli_exec opn s)" if "cli_inv s" for opn s
    using that by (cases opn) (auto intro: inv_rules)
qed

lemma find_unique:
  assumes "distinct (map f xs)" and "x \<in> set xs" shows "find (\<lambda>y. f y = f x) xs = Some x"
  using assms
proof (induction xs)
  case (Cons y xs)
  then show ?case by (cases "f y = f x") (auto simp: rev_image_eqI)
qed simp

text \<open>
  A client certificate identifies at most one CLI device: in every run of enrolments and
  deletions, the device found for a fingerprint is the one enrolled with it, whatever order
  the map is searched in, and nothing is found for other certificates.
\<close>

theorem cli_device_unique:
  assumes "s = fold cli_exec ops cli_NewStore"
  shows "GetByFingerprint fp s = Some d \<longleftrightarrow> d \<in> set (cli_List s) \<and> cd_CertFingerprint d = fp"
proof -
  have "cli_inv s" unfolding assms by (rule cli_machine.run_inv) (rule cli_NewStore_inv)
  then have dist: "distinct (map cd_CertFingerprint (map snd (cs_devices s)))" by (simp add: cli_inv_def)
  show ?thesis
  proof
    assume "GetByFingerprint fp s = Some d"
    then show "d \<in> set (cli_List s) \<and> cd_CertFingerprint d = fp"
      unfolding GetByFingerprint_def cli_List_def find_Some_iff by (metis nth_mem)
  next
    assume "d \<in> set (cli_List s) \<and> cd_CertFingerprint d = fp"
    with find_unique [OF dist, of d] show "GetByFingerprint fp s = Some d"
      by (auto simp: GetByFingerprint_def cli_List_def)
  qed
qed

theorem cli_device_unique_witness:
  "GetByFingerprint ''fp1'' (fold cli_exec [CliEnroll ''1'' 0 ''laptop'' ''fp1'', CliEnroll ''2'' 0 ''copy'' ''fp1''] cli_NewStore)
     = Some \<lparr>cd_ID = ''cli_1'', cd_Label = ''laptop'', cd_CertFingerprint = ''fp1'', cd_EnrolledAt = 0\<rparr>"
proof -
  have "\<lparr>cd_ID = ''cli_1'', cd_Label = ''laptop'', cd_CertFingerprint = ''fp1'', cd_EnrolledAt = 0\<rparr>
      \<in> set (cli_List (fold cli_exec [CliEnroll ''1'' 0 ''laptop'' ''fp1'', CliEnroll ''2'' 0 ''copy'' ''fp1''] cli_NewStore))"
    by code_simp
  then show ?thesis unfolding cli_device_unique [OF refl] by (intro conjI) simp_all
qed

section \<open>The hourly limit\<close>

text \<open>A series of calls at non-decreasing times, and the loads that were recorded.\<close>

datatype limit_call = LAllowed gotime string | LRecord gotime string

fun limit_time :: "limit_call \<Rightarrow> gotime" where
  "limit_time (LAllowed t d) = t"
| "limit_time (LRecord t d) = t"

fun limit_run :: "limit_call list \<Rightarrow> LoadRateLimiter \<Rightarrow> LoadRateLimiter \<times> (string \<times> gotime) list" where
  "limit_run [] l = (l, [])"
| "limit_run (LAllowed t d # cs) l = limit_run cs (fst (Allowed t d l))"
| "limit_run (LRecord t d # cs) l =
     (let (l', ok) = TryRecordSuccess t d l; (l'', rec) = limit_run cs l'
      in (l'', if ok then (d, t) # rec else rec))"

definition in_window :: "gotime \<Rightarrow> string \<Rightarrow> (string \<times> gotime) list \<Rightarrow> (string \<times> gotime) list" where
  "in_window w d rec = filter (\<lambda>(e, t). e = d \<and> w - loadRateLimitWindow < t \<and> t \<le> w) rec"

text \<open>The limiter remembers what was recorded for a device after some cutoff.\<close>

definition limit_inv :: "gotime \<Rightarrow> (string \<times> gotime) list \<Rightarrow> LoadRateLimiter \<Rightarrow> bool" where
  "limit_inv now past l \<longleftrightarrow> (\<forall>d. \<exists>c \<le> now - loadRateLimitWindow.
     loads_of l d = filter (\<lambda>t. c < t) (map snd (filter (\<lambda>p. fst p = d) past)))
     \<and> (\<forall>p \<in> set past. snd p \<le> now)"

lemma loads_of_prune:
  "loads_of (fst (pruneLocked d c l)) e = (if e = d then filter (\<lambda>t. c < t) (loads_of l d) else loads_of l e)"
  "snd (pruneLocked d c l) = filter (\<lambda>t. c < t) (loads_of l d)"
  by (auto simp: pruneLocked_def loads_of_def Let_def)

lemma limit_inv_prune:
  assumes "limit_inv now past l" and "now \<le> t"
  shows "limit_inv t past (fst (pruneLocked d (t - loadRateLimitWindow) l))"
proof -
  have "\<exists>c \<le> t - loadRateLimitWindow. loads_of (fst (pruneLocked d (t - loadRateLimitWindow) l)) e =
      filter (\<lambda>t. c < t) (map snd (filter (\<lambda>p. fst p = e) past))" for e
  proof -
    obtain c where c: "c \<le> now - loadRateLimitWindow"
      "loads_of l e = filter (\<lambda>t. c < t) (map snd (filter (\<lambda>p. fst p = e) past))"
      using assms(1) unfolding limit_inv_def by blast
    show ?thesis
    proof (cases "e = d")
      case True
      have "filter (\<lambda>x. t - loadRateLimitWindow < x) (loads_of l d) =
          filter (\<lambda>x. t - loadRateLimitWindow < x) (map snd (filter (\<lambda>p. fst p = d) past))"
        unfolding c(2) [unfolded True] filter_filter using c(1) assms(2) by (intro filter_cong) auto
      with True show ?thesis by (intro exI [of _ "t - loadRateLimitWindow"]) (simp add: loads_of_prune)
    next
      case False
      with c assms(2) show ?thesis by (intro exI [of _ c]) (auto simp: loads_of_prune)
    qed
  qed
  moreover have "\<forall>p \<in> set past. snd p \<le> t" using assms unfolding limit_inv_def by (meson order.trans)
  ultimately show ?thesis unfolding limit_inv_def by blast
qed

lemma window_le_loads:
  assumes "limit_inv now past l" and "now \<le> t" and "t \<le> w"
  shows "length (in_window w d past) \<le> length (filter (\<lambda>x. t - loadRateLimitWindow < x) (loads_of l d))"
proof -
  obtain c where c: "c \<le> now - loadRateLimitWindow"
    "loads_of l d = filter (\<lambda>t. c < t) (map snd (filter (\<lambda>p. fst p = d) past))"
    using assms(1) unfolding limit_inv_def by blast
  have "length (in_window w d past) = length (filter (\<lambda>p. w - loadRateLimitWindow < snd p \<and> snd p \<le> w) (filter (\<lambda>p. fst p = d) past))"
    by (simp add: in_window_def case_prod_beta' conj_ac)
  also have "\<dots> \<le> length (filter (\<lambda>p. t - loadRateLimitWindow < snd p) (filter (\<lambda>p. c < snd p) (filter (\<lambda>p. fst p = d) past)))"
  proof -
    have "filter (\<lambda>p. w - loadRateLimitWindow < snd p \<and> snd p \<le> w) xs =
        filter (\<lambda>p. w - loadRateLimitWindow < snd p \<and> snd p \<le> w)
          (filter (\<lambda>p. t - loadRateLimitWindow < snd p) (filter (\<lambda>p. c < snd p) xs))" for xs :: "(string \<times> gotime) list"
      unfolding filter_filter using c(1) assms(2,3) by (intro filter_cong) auto
    from this [of "filter (\<lambda>p. fst p = d) past"] show ?thesis
      by (rule ssubst) (rule length_filter_le)
  qed
  also have "\<dots> = length (filter (\<lambda>x. t - loadRateLimitWindow < x) (loads_of l d))"
    unfolding c(2) filter_map length_map by (simp add: comp_def)
  finally show ?thesis .
qed

lemma in_window_append [simp]: "in_window w d (xs @ ys) = in_window w d xs @ in_window w d ys"
  by (simp add: in_window_def)

lemma record_ok:
  assumes "TryRecordSuccess t d l = (l', True)"
  shows "length (filter (\<lambda>x. t - loadRateLimitWindow < x) (loads_of l d)) < loadRateLimitCount"
    and "loads_of l' e = (if e = d then filter (\<lambda>x. t - loadRateLimitWindow < x) (loads_of l d) @ [t] else loads_of l e)"
proof -
  have p: "pruneLocked d (t - loadRateLimitWindow) l =
      (fst (pruneLocked d (t - loadRateLimitWindow) l), filter (\<lambda>x. t - loadRateLimitWindow < x) (loads_of l d))"
    by (simp add: prod_eq_iff loads_of_prune)
  from assms p show "length (filter (\<lambda>x. t - loadRateLimitWindow < x) (loads_of l d)) < loadRateLimitCount"
    by (auto simp: TryRecordSuccess_def split: if_splits prod.splits)
  from assms p have l': "l' = fst (pruneLocked d (t - loadRateLimitWindow) l)\<lparr>rl_loads :=
      map_put d (filter (\<lambda>x. t - loadRateLimitWindow < x) (loads_of l d) @ [t]) (rl_loads (fst (pruneLocked d (t - loadRateLimitWindow) l)))\<rparr>"
    by (auto simp: TryRecordSuccess_def split: if_splits prod.splits)
  have "loads_of l' e = (if e = d then filter (\<lambda>x. t - loadRateLimitWindow < x) (loads_of l d) @ [t]
      else loads_of (fst (pruneLocked d (t - loadRateLimitWindow) l)) e)"
    by (simp add: l' loads_of_def)
  then show "loads_of l' e = (if e = d then filter (\<lambda>x. t - loadRateLimitWindow < x) (loads_of l d) @ [t] else loads_of l e)"
    by (simp add: loads_of_prune)
qed

lemma record_refused:
  "TryRecordSuccess t d l = (l', False) \<Longrightarrow> l' = l \<or> l' = fst (pruneLocked d (t - loadRateLimitWindow) l)"
  by (auto simp: TryRecordSuccess_def split: if_splits prod.splits)

lemma Allowed_prunes: "fst (Allowed t d l) = l \<or> fst (Allowed t d l) = fst (pruneLocked d (t - loadRateLimitWindow) l)"
  by (auto simp: Allowed_def split: prod.splits)

lemma limit_inv_later: "limit_inv now past l \<Longrightarrow> now \<le> t \<Longrightarrow> limit_inv t past l"
  unfolding limit_inv_def by (meson diff_right_mono order.trans)

lemma limit_inv_record:
  assumes "limit_inv now past l" and "now \<le> t" and "TryRecordSuccess t d l = (l', True)"
  shows "limit_inv t (past @ [(d, t)]) l'"
proof -
  have pr: "limit_inv t past (fst (pruneLocked d (t - loadRateLimitWindow) l))" using assms(1,2) by (rule limit_inv_prune)
  have pos: "0 < loadRateLimitWindow" by (simp add: loadRateLimitWindow_def duration_defs)
  have "\<exists>c \<le> t - loadRateLimitWindow. loads_of l' e =
      filter (\<lambda>x. c < x) (map snd (filter (\<lambda>p. fst p = e) (past @ [(d, t)])))" for e
  proof -
    obtain c where "c \<le> t - loadRateLimitWindow"
      "loads_of (fst (pruneLocked d (t - loadRateLimitWindow) l)) e = filter (\<lambda>x. c < x) (map snd (filter (\<lambda>p. fst p = e) past))"
      using pr unfolding limit_inv_def by blast
    then show ?thesis using pos by (intro exI [of _ c]) (auto simp: record_ok(2) [OF assms(3)] loads_of_prune split: if_splits)
  qed
  moreover have "\<forall>p \<in> set (past @ [(d, t)]). snd p \<le> t" using pr unfolding limit_inv_def by auto
  ultimately show ?thesis unfolding limit_inv_def by blast
qed

text \<open>One recorded load keeps every window within the limit.\<close>

lemma window_step:
  assumes "limit_inv now past l" and "now \<le> t" and "TryRecordSuccess t d l = (l', True)"
    and "\<forall>w e. length (in_window w e past) \<le> loadRateLimitCount"
  shows "\<forall>w e. length (in_window w e (past @ [(d, t)])) \<le> loadRateLimitCount"
proof (intro allI)
  fix w e
  show "length (in_window w e (past @ [(d, t)])) \<le> loadRateLimitCount"
  proof (cases "e = d \<and> t \<le> w")
    case True
    with window_le_loads [OF assms(1,2), of w d] record_ok(1) [OF assms(3)]
    have "length (in_window w e past) < loadRateLimitCount" by auto
    moreover have "length (in_window w e [(d, t)]) \<le> 1" by (simp add: in_window_def)
    ultimately show ?thesis by simp
  next
    case False
    then have "in_window w e [(d, t)] = []" by (auto simp: in_window_def)
    with assms(4) show ?thesis by simp
  qed
qed

lemma limit_run_windows:
  assumes "limit_inv now past l" and "\<forall>w e. length (in_window w e past) \<le> loadRateLimitCount"
    and "sorted (now # map limit_time cs)"
  shows "length (in_window w e (past @ snd (limit_run cs l))) \<le> loadRateLimitCount"
  using assms
proof (induction cs arbitrary: now past l)
  case (Cons c cs)
  show ?case
  proof (cases c)
    case (LAllowed t d)
    with Cons.prems(3) have t: "now \<le> t" "sorted (t # map limit_time cs)" by auto
    have "limit_inv t past (fst (Allowed t d l))"
      using Allowed_prunes [of t d l] limit_inv_prune [OF Cons.prems(1) t(1)] limit_inv_later [OF Cons.prems(1) t(1)] by metis
    from Cons.IH [OF this Cons.prems(2) t(2)] LAllowed show ?thesis by simp
  next
    case (LRecord t d)
    with Cons.prems(3) have t: "now \<le> t" "sorted (t # map limit_time cs)" by auto
    obtain l' ok where r: "TryRecordSuccess t d l = (l', ok)" by (cases "TryRecordSuccess t d l")
    show ?thesis
    proof (cases ok)
      case True
      with r have r: "TryRecordSuccess t d l = (l', True)" by simp
      from Cons.IH [OF limit_inv_record [OF Cons.prems(1) t(1) r] window_step [OF Cons.prems(1) t(1) r Cons.prems(2)] t(2)]
      show ?thesis using LRecord r by (simp add: case_prod_beta)
    next
      case False
      with r have r: "TryRecordSuccess t d l = (l', False)" by simp
      have "limit_inv t past l'"
        using record_refused [OF r] limit_inv_prune [OF Cons.prems(1) t(1)] limit_inv_later [OF Cons.prems(1) t(1)] by metis
      from Cons.IH [OF this Cons.prems(2) t(2)] LRecord r show ?thesis by (simp add: case_prod_beta)
    qed
  qed
qed simp

lemma loads_of_other [simp]:
  assumes "e \<noteq> d"
  shows "loads_of (fst (TryRecordSuccess t e l)) d = loads_of l d" "loads_of (fst (Allowed t e l)) d = loads_of l d"
    "loads_of (Forget e l) d = loads_of l d"
proof -
  have p: "loads_of (fst (pruneLocked e c l)) d = loads_of l d" for c using assms by (simp add: loads_of_prune)
  show "loads_of (fst (Allowed t e l)) d = loads_of l d" using Allowed_prunes [of t e l] p by metis
  show "loads_of (Forget e l) d = loads_of l d" using assms by (simp add: Forget_def loads_of_def)
  obtain l' ok where r: "TryRecordSuccess t e l = (l', ok)" by fastforce
  show "loads_of (fst (TryRecordSuccess t e l)) d = loads_of l d"
  proof (cases ok)
    case True
    with r record_ok(2) [of t e l l' d] assms show ?thesis by simp
  next
    case False
    with r record_refused [of t e l l'] p show ?thesis by auto
  qed
qed

text \<open>What the limiter answers for a name depends on the loads of that name alone.\<close>

lemma record_depends:
  assumes "loads_of l d = loads_of m d"
  shows "snd (TryRecordSuccess t d l) = snd (TryRecordSuccess t d m)"
    and "loads_of (fst (TryRecordSuccess t d l)) d = loads_of (fst (TryRecordSuccess t d m)) d"
proof -
  have q: "pruneLocked d c x = (fst (pruneLocked d c x), filter (\<lambda>ts. c < ts) (loads_of x d))" for c x
    by (simp add: prod_eq_iff loads_of_prune)
  have ok: "snd (TryRecordSuccess t d x) \<longleftrightarrow> d \<noteq> [] \<and> length (filter (\<lambda>ts. t - loadRateLimitWindow < ts) (loads_of x d)) < loadRateLimitCount" for x
    by (subst TryRecordSuccess_def, subst q) (simp add: not_le)
  show same: "snd (TryRecordSuccess t d l) = snd (TryRecordSuccess t d m)" unfolding ok assms ..
  obtain l' a where l: "TryRecordSuccess t d l = (l', a)" by fastforce
  obtain m' b where m: "TryRecordSuccess t d m = (m', b)" by fastforce
  have "a = b" using same l m by simp
  show "loads_of (fst (TryRecordSuccess t d l)) d = loads_of (fst (TryRecordSuccess t d m)) d"
  proof (cases "d = [] \<or> \<not> a")
    case True
    then have f: "loads_of (fst (TryRecordSuccess t d x)) d = (if d = [] then loads_of x d else filter (\<lambda>ts. t - loadRateLimitWindow < ts) (loads_of x d))"
      if "snd (TryRecordSuccess t d x) = a" for x
      using that by (subst TryRecordSuccess_def, subst q) (auto simp: ok loads_of_prune)
    from f [of l] f [of m] l m \<open>a = b\<close> assms show ?thesis by (cases "d = []") simp_all
  next
    case False
    with l m \<open>a = b\<close> record_ok(2) [of t d l l' d] record_ok(2) [of t d m m' d] assms show ?thesis by simp
  qed
qed

lemma new_limiter_windows:
  assumes "sorted (map limit_time cs)"
  shows "length (in_window w d (snd (limit_run cs NewLoadRateLimiter))) \<le> 10"
proof (cases cs)
  case Nil
  then show ?thesis by (simp add: in_window_def)
next
  case (Cons c cs')
  have "limit_inv (limit_time c) [] NewLoadRateLimiter"
    by (auto simp: limit_inv_def NewLoadRateLimiter_def loads_of_def)
  moreover have "sorted (limit_time c # map limit_time cs)" using assms Cons by simp
  ultimately have "length (in_window w d ([] @ snd (limit_run cs NewLoadRateLimiter))) \<le> loadRateLimitCount"
    by (intro limit_run_windows) (auto simp: in_window_def)
  then show ?thesis by (simp add: loadRateLimitCount_def)
qed

text \<open>
  No device loads more than ten keys in an hour: for every series of calls to the rate
  limiter at non-decreasing times, by any number of devices, each window of one hour
  holds at most ten recorded loads of a device.
\<close>

theorem load_rate_bound:
  assumes "sorted (map limit_time cs)"
  shows "length (in_window w d (snd (limit_run cs NewLoadRateLimiter))) \<le> 10"
  using assms by (rule new_limiter_windows)

theorem load_rate_bound_witness:
  "length (in_window minute ''cli_1'' (snd (limit_run (replicate 12 (LRecord minute ''cli_1'')) NewLoadRateLimiter))) \<le> 10"
  by (rule load_rate_bound) (simp add: sorted_replicate)

end
