(* ===== verification/Go_Path.thy ===== *)
theory Go_Path
  imports Go_Time
begin

text \<open>
  What the configuration uses of the packages \<open>path/filepath\<close> (on Unix), \<open>time\<close> and \<open>strconv\<close>:
  cleaning and joining of paths, parsing of durations, and quoting.
\<close>

section \<open>Package path/filepath\<close>

text \<open>The elements of a clean path: empty elements and \<open>.\<close> vanish, \<open>..\<close> takes back the element
  before it and, at the root, vanishes too. The accumulator holds the elements in reverse.\<close>

fun clean_parts :: "bool \<Rightarrow> string list \<Rightarrow> string list \<Rightarrow> string list" where
  "clean_parts rooted acc [] = rev acc"
| "clean_parts rooted acc (p # ps) =
     (if p = [] \<or> p = ''.'' then clean_parts rooted acc ps
      else if p = ''..''
      then (case acc of
              [] \<Rightarrow> clean_parts rooted (if rooted then [] else [p]) ps
            | a # as \<Rightarrow> if a = ''..'' then clean_parts rooted (p # acc) ps else clean_parts rooted as ps)
      else clean_parts rooted (p # acc) ps)"

definition IsAbs :: "string \<Rightarrow> bool" where
  "IsAbs path = HasPrefix path ''/''"

definition path_parts :: "string \<Rightarrow> string list" where
  "path_parts path = clean_parts (IsAbs path) [] (Split path (CHR ''/''))"

definition filepath_Clean :: "string \<Rightarrow> string" where
  "filepath_Clean path =
     (if IsAbs path then CHR ''/'' # Join (path_parts path) (CHR ''/'')
      else if path_parts path = [] then ''.'' else Join (path_parts path) (CHR ''/''))"

definition filepath_Join :: "string list \<Rightarrow> string" where
  "filepath_Join elem =
     (case dropWhile (\<lambda>e. e = []) elem of [] \<Rightarrow> [] | es \<Rightarrow> filepath_Clean (Join es (CHR ''/'')))"

text \<open>The working directory is a parameter.\<close>

definition filepath_Abs :: "string result \<Rightarrow> string \<Rightarrow> string result" where
  "filepath_Abs wd path =
     (if IsAbs path then Inr (filepath_Clean path)
      else case wd of Inl err \<Rightarrow> Inl err | Inr d \<Rightarrow> Inr (filepath_Join [d, path]))"

definition strings_Contains :: "string \<Rightarrow> string \<Rightarrow> bool" where
  "strings_Contains s sub = list_ex (\<lambda>i. HasPrefix (drop i s) sub) [0..<Suc (length s)]"

lemma Contains_iff: "strings_Contains s sub \<longleftrightarrow> (\<exists>a b. s = a @ sub @ b)"
proof
  assume "strings_Contains s sub"
  then obtain i where "HasPrefix (drop i s) sub" unfolding strings_Contains_def list_ex_iff by blast
  then have "drop i s = sub @ drop (length sub) (drop i s)" unfolding HasPrefix_def by (metis append_take_drop_id)
  then show "\<exists>a b. s = a @ sub @ b" by (metis append_take_drop_id)
next
  assume "\<exists>a b. s = a @ sub @ b"
  then obtain a b where s: "s = a @ sub @ b" by blast
  then have "HasPrefix (drop (length a) s) sub" "length a < Suc (length s)" by (simp_all add: HasPrefix_def)
  then show "strings_Contains s sub" unfolding strings_Contains_def list_ex_iff by (metis atLeastLessThan_iff set_upt zero_le)
qed

lemma Join_append: "xs \<noteq> [] \<Longrightarrow> ys \<noteq> [] \<Longrightarrow> Join (xs @ ys) sep = Join xs sep @ sep # Join ys sep"
proof (induction xs)
  case (Cons x xs)
  then show ?case by (cases xs; cases ys) simp_all
qed simp

text \<open>Successive elements of a path are seen in its text.\<close>

lemma Join_contains:
  assumes "mid \<noteq> []" and "post \<noteq> []"
  shows "\<exists>a b. sep # Join (pre @ mid @ post) sep = a @ sep # Join mid sep @ sep # b"
proof (cases "pre = []")
  case True
  with assms show ?thesis by (intro exI [of _ "[]"] exI [of _ "Join post sep"]) (simp add: Join_append)
next
  case False
  with assms show ?thesis
    by (intro exI [of _ "sep # Join pre sep"] exI [of _ "Join post sep"]) (simp add: Join_append)
qed

lemma clean_parts_step:
  "\<exists>acc'. clean_parts rooted acc (p # ps) = clean_parts rooted acc' ps
     \<and> set acc' \<subseteq> set acc \<union> (if p = [] \<or> p = ''.'' \<or> p = ''..'' \<and> rooted \<and> ''..'' \<notin> set acc then {} else {p})"
proof (cases "p = [] \<or> p = ''.''")
  case True
  then show ?thesis by (intro exI [of _ acc]) auto
next
  case no_dot: False
  show ?thesis
  proof (cases "p = ''..''")
    case False
    with no_dot show ?thesis by (intro exI [of _ "p # acc"]) auto
  next
    case up: True
    show ?thesis
    proof (cases acc)
      case Nil
      with up show ?thesis by (intro exI [of _ "if rooted then [] else [p]"]) auto
    next
      case (Cons a as)
      with up show ?thesis by (intro exI [of _ "if a = ''..'' then p # acc else as"]) auto
    qed
  qed
qed

lemma clean_parts_set:
  "set (clean_parts rooted acc ps) \<subseteq> set acc \<union> {p \<in> set ps. p \<noteq> [] \<and> p \<noteq> ''.''}"
proof (induction ps arbitrary: acc)
  case (Cons p ps)
  obtain acc' where "clean_parts rooted acc (p # ps) = clean_parts rooted acc' ps"
    "set acc' \<subseteq> set acc \<union> (if p = [] \<or> p = ''.'' \<or> p = ''..'' \<and> rooted \<and> ''..'' \<notin> set acc then {} else {p})"
    using clean_parts_step [of rooted acc p ps] by blast
  then show ?case using Cons.IH [of acc'] by (fastforce split: if_splits)
qed simp

lemma clean_parts_rooted: "''..'' \<notin> set acc \<Longrightarrow> ''..'' \<notin> set (clean_parts True acc ps)"
proof (induction ps arbitrary: acc)
  case (Cons p ps)
  obtain acc' where a: "clean_parts True acc (p # ps) = clean_parts True acc' ps"
    "set acc' \<subseteq> set acc \<union> (if p = [] \<or> p = ''.'' \<or> p = ''..'' \<and> True \<and> ''..'' \<notin> set acc then {} else {p})"
    using clean_parts_step [of True acc p ps] by blast
  with Cons.prems have "''..'' \<notin> set acc'" by (auto split: if_splits)
  then show ?case using Cons.IH [of acc'] a(1) by simp
qed simp

lemma path_parts_shape: "p \<in> set (path_parts path) \<Longrightarrow> p \<noteq> [] \<and> p \<noteq> ''.'' \<and> CHR ''/'' \<notin> set p"
  using clean_parts_set [of "IsAbs path" "[]" "Split path (CHR ''/'')"] Split_parts [of p path "CHR ''/''"]
  by (auto simp: path_parts_def)

lemma path_parts_rooted: "IsAbs path \<Longrightarrow> ''..'' \<notin> set (path_parts path)"
  using clean_parts_rooted [of "[]"] by (simp add: path_parts_def)

lemma clean_parts_id:
  assumes "\<forall>p \<in> set ps. p \<noteq> [] \<and> p \<noteq> ''.'' \<and> p \<noteq> ''..''"
  shows "clean_parts rooted acc ps = rev acc @ ps"
  using assms by (induction ps arbitrary: acc) auto

lemma Split_Join: "ps \<noteq> [] \<Longrightarrow> \<forall>p \<in> set ps. sep \<notin> set p \<Longrightarrow> Split (Join ps sep) sep = ps"
proof (induction ps)
  case (Cons p ps)
  then show ?case by (cases ps) (simp_all add: Split_no_sep Split_append_sep)
qed simp

lemma IsAbs_slash [simp]: "IsAbs (CHR ''/'' # s)"
  by (simp add: IsAbs_def HasPrefix_def)

lemma rooted_parts:
  assumes "\<forall>p \<in> set ps. p \<noteq> [] \<and> p \<noteq> ''.'' \<and> p \<noteq> ''..'' \<and> CHR ''/'' \<notin> set p"
  shows "path_parts (CHR ''/'' # Join ps (CHR ''/'')) = ps"
proof (cases "ps = []")
  case False
  have "path_parts (CHR ''/'' # Join ps (CHR ''/'')) = clean_parts True [] ([] # ps)"
    using assms False by (simp add: path_parts_def Split_Join)
  also have "\<dots> = ps" using clean_parts_id [of ps True "[]"] assms by simp
  finally show ?thesis .
qed (simp add: path_parts_def)

lemma Clean_parts: "IsAbs path \<Longrightarrow> IsAbs (filepath_Clean path) \<and> path_parts (filepath_Clean path) = path_parts path"
  using rooted_parts [of "path_parts path"] path_parts_rooted [of path] path_parts_shape [of _ path]
  by (auto simp: filepath_Clean_def)

lemma Clean_idem: "IsAbs path \<Longrightarrow> filepath_Clean (filepath_Clean path) = filepath_Clean path"
  using Clean_parts [of path] by (simp add: filepath_Clean_def)

section \<open>Package strconv\<close>

text \<open>\<open>%q\<close> of a string: the letters of ASCII as in Go; bytes of other characters are kept.\<close>

fun quote_char :: "char \<Rightarrow> string" where
  "quote_char c =
     (let n = of_char c :: nat; bs = CHR 0x5C
      in if n = 34 \<or> n = 92 then [bs, c]
         else if n = 7 then [bs, CHR ''a''] else if n = 8 then [bs, CHR ''b''] else if n = 12 then [bs, CHR ''f'']
         else if n = 10 then [bs, CHR ''n''] else if n = 13 then [bs, CHR ''r''] else if n = 9 then [bs, CHR ''t'']
         else if n = 11 then [bs, CHR ''v'']
         else if n < 32 \<or> n = 127 then [bs, CHR ''x''] @ hex_EncodeToString [c]
         else [c])"

definition strconv_Quote :: "string \<Rightarrow> string" where
  "strconv_Quote s = CHR 0x22 # concat (map quote_char s) @ [CHR 0x22]"

section \<open>Package time\<close>

definition duration_unit :: "string \<Rightarrow> int option" where
  "duration_unit u =
     map_of [(''ns'', 1), (''us'', 1000), ([CHR 0xC2, CHR 0xB5, CHR ''s''], 1000), ([CHR 0xCE, CHR 0xBC, CHR ''s''], 1000),
       (''ms'', 1000000), (''s'', second), (''m'', minute), (''h'', hour)] u"

definition is_digit :: "char \<Rightarrow> bool" where
  "is_digit c = (char_digit c \<noteq> None)"

text \<open>The digits in front, as a number of at most \<open>2 ^ 63\<close>, and the rest.\<close>

fun leadingInt :: "int \<Rightarrow> string \<Rightarrow> (int \<times> string) option" where
  "leadingInt x [] = Some (x, [])"
| "leadingInt x (c # s) =
     (case char_digit c of
        None \<Rightarrow> Some (x, c # s)
      | Some d \<Rightarrow>
          if 2 ^ 63 div 10 < x \<or> 2 ^ 63 < 10 * x + int d then None else leadingInt (10 * x + int d) s)"

lemma leadingInt_length: "leadingInt x s = Some (v, t) \<Longrightarrow> length t \<le> length s"
  by (induction x s rule: leadingInt.induct) (auto split: option.splits if_splits)

text \<open>The nanoseconds of a fraction of a unit are computed in floating point; they are a parameter,
  a function of the digits after the point and the unit.\<close>

type_synonym frac_ns = "string \<Rightarrow> int \<Rightarrow> int"

definition unit_letters :: "string \<Rightarrow> string \<times> string" where
  "unit_letters s = (takeWhile (\<lambda>c. c \<noteq> CHR ''.'' \<and> \<not> is_digit c) s, dropWhile (\<lambda>c. c \<noteq> CHR ''.'' \<and> \<not> is_digit c) s)"

text \<open>The amount in front of its unit: its whole part, the digits of its fraction, and the rest.\<close>

definition leading_amount :: "string \<Rightarrow> (int \<times> string \<times> string) option" where
  "leading_amount s =
     (case leadingInt 0 s of
        None \<Rightarrow> None
      | Some (v, s1) \<Rightarrow>
          (let (frac, s2) = (case s1 of
                 [] \<Rightarrow> ([], s1)
               | c # s1' \<Rightarrow> if c = CHR ''.'' then (takeWhile is_digit s1', dropWhile is_digit s1') else ([], s1))
           in if length s1 = length s \<and> frac = [] then None else Some (v, frac, s2)))"

lemma leading_amount_length: "leading_amount s = Some (v, f, t) \<Longrightarrow> length t \<le> length s"
proof -
  assume a: "leading_amount s = Some (v, f, t)"
  then obtain s1 where l: "leadingInt 0 s = Some (v, s1)" by (auto simp: leading_amount_def split: option.splits prod.splits if_splits)
  have "length (dropWhile is_digit xs) \<le> Suc (length xs)" for xs using length_dropWhile_le [of is_digit xs] by simp
  with a l have "length t \<le> length s1" by (cases s1) (auto simp: leading_amount_def split: if_splits)
  with leadingInt_length [OF l] show ?thesis by simp
qed

lemma unit_letters_length: "unit_letters s = (u, t) \<Longrightarrow> u \<noteq> [] \<Longrightarrow> length t < length s"
proof -
  assume a: "unit_letters s = (u, t)" "u \<noteq> []"
  then have "s = u @ t" by (auto simp: unit_letters_def)
  with a(2) show ?thesis by simp
qed

definition duration_error :: "string \<Rightarrow> go_error" where
  "duration_error s = Errorf (''time: invalid duration '' @ strconv_Quote s)"

function parse_terms :: "frac_ns \<Rightarrow> string \<Rightarrow> int \<Rightarrow> string \<Rightarrow> int result" where
  "parse_terms fr orig d s =
     (if s = [] then Inr d
      else case leading_amount s of
             None \<Rightarrow> Inl (duration_error orig)
           | Some (v, f, s1) \<Rightarrow>
               (case unit_letters s1 of (u, s2) \<Rightarrow>
                  if u = [] then Inl (Errorf (''time: missing unit in duration '' @ strconv_Quote orig))
                  else case duration_unit u of
                         None \<Rightarrow> Inl (Errorf (''time: unknown unit '' @ strconv_Quote u @ '' in duration '' @ strconv_Quote orig))
                       | Some un \<Rightarrow>
                           (let w = v * un + (if f \<noteq> [] then fr f un else 0)
                            in if 2 ^ 63 div un < v \<or> 2 ^ 63 < w \<or> 2 ^ 63 < d + w then Inl (duration_error orig)
                               else parse_terms fr orig (d + w) s2)))"
  by pat_completeness auto
termination
proof (relation "measure (\<lambda>(fr, orig, d, s). length s)", goal_cases)
  case (2 fr orig d s a v b f s1 u s2 un w)
  then have "leading_amount s = Some (v, f, s1)" "unit_letters s1 = (u, s2)" by simp_all
  with 2 have "length s2 < length s1" "length s1 \<le> length s" by (auto dest: unit_letters_length leading_amount_length)
  then show ?case by simp
qed simp

declare parse_terms.simps [simp del]

definition ParseDuration :: "frac_ns \<Rightarrow> string \<Rightarrow> duration result" where
  "ParseDuration fr s0 =
     (let (neg, s) = (case s0 of
            [] \<Rightarrow> (False, [])
          | c # s \<Rightarrow> if c = CHR ''-'' then (True, s) else if c = CHR ''+'' then (False, s) else (False, s0))
      in if s = ''0'' then Inr 0
         else if s = [] then Inl (duration_error s0)
         else case parse_terms fr s0 0 s of
                Inl err \<Rightarrow> Inl err
              | Inr d \<Rightarrow>
                  if neg then Inr (- d)
                  else if 2 ^ 63 - 1 < d then Inl (duration_error s0) else Inr d)"


section \<open>Durations printed and read\<close>

lemma read_digits_ge: "read_digits a s = Some n \<Longrightarrow> a \<le> n"
proof (induction s arbitrary: a)
  case (Cons c s)
  then obtain d where "read_digits (10 * a + d) s = Some n" by (auto split: option.splits)
  from Cons.IH [OF this] show ?case by simp
qed simp

lemma leadingInt_digits:
  assumes "read_digits a s = Some n" and "int n \<le> 2 ^ 63" and "char_digit c = None"
  shows "leadingInt (int a) (s @ c # t) = Some (int n, c # t)"
  using assms(1)
proof (induction s arbitrary: a)
  case Nil
  then show ?case using assms(3) by simp
next
  case (Cons e s)
  then obtain d where d: "char_digit e = Some d" "read_digits (10 * a + d) s = Some n" by (auto split: option.splits)
  have "10 * int a + int d \<le> 2 ^ 63" using read_digits_ge [OF d(2)] assms(2) by simp
  then have "\<not> (2 ^ 63 div 10 < int a \<or> 2 ^ 63 < 10 * int a + int d)" by simp
  with Cons.IH [OF d(2)] d(1) show ?case by simp
qed

lemma leading_amount_FormatInt:
  assumes "0 \<le> k" and "k \<le> 2 ^ 63" and "char_digit c = None" and "c \<noteq> CHR ''.''"
  shows "leading_amount (FormatInt k @ c # t) = Some (k, [], c # t)"
proof -
  have "leadingInt 0 (FormatInt k @ c # t) = Some (k, c # t)"
    using leadingInt_digits [OF read_nat_digits, of "nat k" c t] assms by (simp add: FormatInt_def)
  moreover have "length (FormatInt k @ c # t) \<noteq> length (c # t)" using assms(1) by (simp add: FormatInt_def)
  ultimately show ?thesis using assms(4) by (simp add: leading_amount_def)
qed

lemma FormatInt_digit_hd: "0 \<le> k \<Longrightarrow> \<exists>e u. FormatInt k = e # u \<and> char_digit e \<noteq> None"
proof -
  assume "0 \<le> k"
  obtain e u where "nat_digits (nat k) = e # u" by (cases "nat_digits (nat k)") simp_all
  with nat_digits_chars [of e "nat k"] \<open>0 \<le> k\<close> show ?thesis by (auto simp: FormatInt_def)
qed

lemma unit_letters_one:
  assumes "char_digit c = None" and "c \<noteq> CHR ''.''" and "t = [] \<or> (\<exists>e u. t = e # u \<and> char_digit e \<noteq> None)"
  shows "unit_letters (c # t) = ([c], t)"
  using assms by (auto simp: unit_letters_def is_digit_def)

lemma parse_terms_one:
  assumes "0 \<le> k" and "char_digit c = None" and "c \<noteq> CHR ''.''" and "duration_unit [c] = Some un" and "0 < un"
    and "0 \<le> d" and "d + k * un < 2 ^ 63" and "t = [] \<or> (\<exists>e u. t = e # u \<and> char_digit e \<noteq> None)"
  shows "parse_terms fr orig d (FormatInt k @ c # t) = parse_terms fr orig (d + k * un) t"
proof -
  have le: "k * un < 2 ^ 63" using assms(6,7) by simp
  moreover have "k * 1 \<le> k * un" using assms(1,5) by (intro mult_left_mono) simp_all
  ultimately have k: "k \<le> 2 ^ 63" by simp
  have "k \<le> 2 ^ 63 div un" using zdiv_mono1 [of "k * un" "2 ^ 63" un] le assms(5) by simp
  with leading_amount_FormatInt [OF assms(1) k assms(2,3)] unit_letters_one [OF assms(2,3,8)] assms(4,7) le show ?thesis
    by (subst parse_terms.simps) simp
qed

lemma unit_facts:
  "char_digit (CHR ''h'') = None" "char_digit (CHR ''m'') = None" "char_digit (CHR ''s'') = None"
  "duration_unit ''h'' = Some hour" "duration_unit ''m'' = Some minute" "duration_unit ''s'' = Some second"
  by (simp_all add: char_digit_def duration_unit_def)

lemma format_frac_zero: "format_frac 9 0 = []"
  by (simp add: format_frac_def zero_pad_def FormatInt_def nat_digits.simps [of 0] digit_char_samples)

text \<open>The printed form of a positive whole number of seconds, in hours, minutes and seconds.\<close>

definition hms :: "int \<Rightarrow> int \<Rightarrow> int \<Rightarrow> string" where
  "hms h mi s = (if 0 < h then FormatInt h @ ''h'' else []) @ (if 0 < h \<or> 0 < mi then FormatInt mi @ ''m'' else []) @ FormatInt s @ ''s''"

lemma printed_seconds:
  assumes "0 < n"
  shows "\<exists>h mi s. 0 \<le> h \<and> 0 \<le> mi \<and> 0 \<le> s \<and> n * second = h * hour + mi * minute + s * second
    \<and> Duration_String (n * second) = hms h mi s"
proof -
  define h mi s where v: "h = n div 3600" "mi = n div 60 mod 60" "s = n mod 60"
  have pos: "0 \<le> h" "0 \<le> mi" "0 \<le> s" using assms by (simp_all add: v pos_imp_zdiv_nonneg_iff)
  have "n = 60 * (n div 60) + s" "n div 60 = 60 * (n div 60 div 60) + mi" by (simp_all add: v)
  moreover have "n div 60 div 60 = h" by (simp add: v zdiv_zmult2_eq [symmetric])
  ultimately have n: "n = 3600 * h + 60 * mi + s" by simp
  have "\<not> n * second = 0" "\<not> n * second < 1000" "\<not> n * second < 1000000" "\<not> n * second < second" "\<bar>n * second\<bar> = n * second"
    using assms by (simp_all add: second_def)
  then have "Duration_String (n * second) = hms h mi s"
    using assms by (simp add: hms_def Duration_String_def v format_frac_zero Let_def)
  moreover have "n * second = h * hour + mi * minute + s * second" by (simp add: n hour_def minute_def algebra_simps)
  ultimately show ?thesis using pos by blast
qed

lemma parse_hms:
  assumes pos: "0 \<le> h" "0 \<le> mi" "0 \<le> s" and bnd: "h * hour + mi * minute + s * second < 2 ^ 63"
  shows "parse_terms fr orig 0 (hms h mi s) = Inr (h * hour + mi * minute + s * second)"
proof -
  let ?T3 = "FormatInt s @ ''s''" and ?T2 = "FormatInt mi @ ''m'' @ FormatInt s @ ''s''"
  have dig: "\<exists>e u. ?T3 = e # u \<and> char_digit e \<noteq> None" "\<exists>e u. ?T2 = e # u \<and> char_digit e \<noteq> None"
    using FormatInt_digit_hd [OF pos(3)] FormatInt_digit_hd [OF pos(2)] by auto
  have nn: "0 \<le> h * hour" "0 \<le> mi * minute" "0 \<le> s * second" using pos by (simp_all add: duration_defs)
  have dpos: "0 < hour" "0 < minute" "0 < second" by (simp_all add: duration_defs)
  have e: "parse_terms fr orig d [] = Inr d" for d by (simp add: parse_terms.simps)
  have t3: "parse_terms fr orig d ?T3 = Inr (d + s * second)" if "0 \<le> d" "d + s * second < 2 ^ 63" for d
    using parse_terms_one [OF pos(3) unit_facts(3) _ unit_facts(6) dpos(3) that, of "[]" fr orig] e by simp
  have t2: "parse_terms fr orig d ?T2 = Inr (d + mi * minute + s * second)" if "0 \<le> d" "d + mi * minute + s * second < 2 ^ 63" for d
    using parse_terms_one [OF pos(2) unit_facts(2) _ unit_facts(5) dpos(2) that(1), of ?T3 fr orig] dig(1) that nn
      t3 [of "d + mi * minute"] by simp
  have t1: "parse_terms fr orig 0 (FormatInt h @ ''h'' @ ?T2) = Inr (h * hour + mi * minute + s * second)"
    using parse_terms_one [OF pos(1) unit_facts(1) _ unit_facts(4) dpos(1), of 0 ?T2 fr orig] dig(2) bnd nn
      t2 [of "h * hour"] by simp
  show ?thesis
  proof (cases "0 < h")
    case True
    then show ?thesis using t1 by (simp add: hms_def)
  next
    case False
    then have "h = 0" using pos(1) by simp
    then show ?thesis using t2 [of 0] t3 [of 0] bnd nn pos(2) by (auto simp: hms_def)
  qed
qed

lemma hms_hd:
  assumes "0 \<le> h" "0 \<le> mi" "0 \<le> s" shows "\<exists>e u. hms h mi s = e # u \<and> char_digit e \<noteq> None \<and> u \<noteq> []"
  using FormatInt_digit_hd [OF assms(1)] FormatInt_digit_hd [OF assms(2)] FormatInt_digit_hd [OF assms(3)]
  by (auto simp: hms_def split: if_splits)

lemma parse_printed_seconds:
  assumes "0 < n" and "n * second < 2 ^ 63"
  shows "ParseDuration fr (Duration_String (n * second)) = Inr (n * second)"
proof -
  obtain h mi s where v: "0 \<le> h" "0 \<le> mi" "0 \<le> s" "n * second = h * hour + mi * minute + s * second"
      "Duration_String (n * second) = hms h mi s" using printed_seconds [OF assms(1)] by blast
  obtain e u where eu: "hms h mi s = e # u" "char_digit e \<noteq> None" "u \<noteq> []" using hms_hd [OF v(1-3)] by blast
  have "e \<noteq> CHR ''-''" "e \<noteq> CHR ''+''" using eu(2) by (auto simp: char_digit_def)
  with parse_hms [OF v(1-3)] v(4,5) eu assms(2) show ?thesis by (simp add: ParseDuration_def)
qed

end
