(* ===== verification/CSR.thy ===== *)
theory CSR
  imports Devices Config Go_Path
begin

text \<open>
  Client certificates (\<open>cli/csr.go\<close>): which signing requests are accepted and what the issued
  certificate says. PEM and X.509 are a parameter, the record \<open>x509_lib\<close>; what the program
  relies on is the predicate \<open>issues_as_told\<close>.
\<close>

section \<open>The X.509 library\<close>

datatype csr_key = RSAKey nat bytes | ECDSAKey bytes | OtherKey bytes

record x509_csr =
  cr_OrganizationalUnit :: "string list"
  cr_PublicKey :: csr_key
  cr_Raw :: bytes

record pkix_Name =
  pn_CommonName :: string
  pn_OrganizationalUnit :: "string list"

datatype key_usage = KeyUsageDigitalSignature
datatype ext_key_usage = ExtKeyUsageClientAuth

record x509_template =
  tp_SerialNumber :: int
  tp_Subject :: pkix_Name
  tp_NotBefore :: gotime
  tp_NotAfter :: gotime
  tp_KeyUsage :: "key_usage list"
  tp_ExtKeyUsage :: "ext_key_usage list"

type_synonym private_key = bytes

record x509_lib =
  x5_pem_Decode :: "bytes \<Rightarrow> (string \<times> bytes) option"
  x5_pem_EncodeToMemory :: "string \<Rightarrow> bytes \<Rightarrow> bytes"
  x5_ParseCertificateRequest :: "bytes \<Rightarrow> x509_csr result"
  x5_CheckSignature :: "x509_csr \<Rightarrow> bool"
  x5_CreateCertificate :: "x509_template \<Rightarrow> x509_cert \<Rightarrow> csr_key \<Rightarrow> private_key \<Rightarrow> bytes result"
  x5_ParseCertificate :: "bytes \<Rightarrow> x509_cert result"
  x5_ParsePKCS1PrivateKey :: "bytes \<Rightarrow> private_key result"
  x5_ParsePKCS8PrivateKey :: "bytes \<Rightarrow> private_key result"
  x5_ParseECPrivateKey :: "bytes \<Rightarrow> private_key result"

section \<open>The signer\<close>

definition defaultAutomationClientCertTTL :: duration where
  "defaultAutomationClientCertTTL = 3650 * 24 * hour"

definition defaultCLIClientCertTTL :: duration where
  "defaultCLIClientCertTTL = 365 * 24 * hour"

record CSRSigner =
  cx_caCert :: "x509_cert option"
  cx_caKey :: "private_key option"
  cx_requiredOU :: string
  cx_ttl :: duration

definition NewCSRSigner :: "x509_cert option \<Rightarrow> private_key option \<Rightarrow> string \<Rightarrow> duration \<Rightarrow> CSRSigner" where
  "NewCSRSigner caCert caKey requiredOU ttl =
     \<lparr>cx_caCert = caCert, cx_caKey = caKey, cx_requiredOU = requiredOU, cx_ttl = ttl\<rparr>"

definition parse_ca_key :: "x509_lib \<Rightarrow> string \<Rightarrow> bytes \<Rightarrow> private_key result" where
  "parse_ca_key x5 ty blob =
     (if ty = ''RSA PRIVATE KEY'' then x5_ParsePKCS1PrivateKey x5 blob
      else if ty = ''PRIVATE KEY'' then x5_ParsePKCS8PrivateKey x5 blob
      else x5_ParseECPrivateKey x5 blob)"

definition loadCAFromFiles ::
  "x509_lib \<Rightarrow> (string \<Rightarrow> bytes result) \<Rightarrow> string \<Rightarrow> string \<Rightarrow> (x509_cert \<times> private_key) result" where
  "loadCAFromFiles x5 ReadFile certPath keyPath =
     (case ReadFile certPath of
        Inl err \<Rightarrow> Inl (Wrapf ''read mTLS CA cert: '' err '''')
      | Inr certPEM \<Rightarrow>
     (case x5_pem_Decode x5 certPEM of
        None \<Rightarrow> Inl (Errorf ''parse mTLS CA cert: no certificate block'')
      | Some (certType, certBytes) \<Rightarrow>
          if certType \<noteq> ''CERTIFICATE'' then Inl (Errorf ''parse mTLS CA cert: no certificate block'')
          else
     (case x5_ParseCertificate x5 certBytes of
        Inl err \<Rightarrow> Inl (Wrapf ''parse mTLS CA cert: '' err '''')
      | Inr caCert \<Rightarrow>
     (case ReadFile keyPath of
        Inl err \<Rightarrow> Inl (Wrapf ''read mTLS CA key: '' err '''')
      | Inr keyPEM \<Rightarrow>
     (case x5_pem_Decode x5 keyPEM of
        None \<Rightarrow> Inl (Errorf ''parse mTLS CA key: no PEM block'')
      | Some (keyType, keyBytes) \<Rightarrow>
          if keyType \<notin> {''RSA PRIVATE KEY'', ''PRIVATE KEY'', ''EC PRIVATE KEY''}
          then Inl (Errorf (''parse mTLS CA key: unsupported PEM type '' @ strconv_Quote keyType))
          else (case parse_ca_key x5 keyType keyBytes of
                  Inl err \<Rightarrow> Inl (Wrapf ''parse mTLS CA key: '' err '''')
                | Inr caKey \<Rightarrow> Inr (caCert, caKey)))))))"

text \<open>\<open>Inr None\<close> is the answer \<open>(nil, nil)\<close>.\<close>

definition NewCSRSignerFromConfig ::
  "x509_lib \<Rightarrow> (string \<Rightarrow> bytes result) \<Rightarrow> Config \<Rightarrow> CSRSigner option result" where
  "NewCSRSignerFromConfig x5 ReadFile cfg =
     (let certPath = TrimSpace (cfg_MTLSCACertPath cfg); keyPath = TrimSpace (cfg_MTLSCAKeyPath cfg)
      in if certPath = [] \<and> keyPath = [] then Inr None
         else if certPath = [] \<or> keyPath = [] then Inl ErrCANotConfigured
         else case loadCAFromFiles x5 ReadFile certPath keyPath of
                Inl err \<Rightarrow> Inl err
              | Inr (caCert, caKey) \<Rightarrow>
                  (let ou = TrimSpace (cfg_CliClientOU cfg);
                       requiredOU = (if ou = [] then ''luna-cli'' else ou)
                   in Inr (Some (NewCSRSigner (Some caCert) (Some caKey) requiredOU defaultCLIClientCertTTL))))"

section \<open>Signing a request\<close>

definition parseCSR :: "x509_lib \<Rightarrow> bytes \<Rightarrow> x509_csr result" where
  "parseCSR x5 csrPEM =
     (case x5_pem_Decode x5 csrPEM of
        None \<Rightarrow> Inl ErrCSRInvalid
      | Some (ty, blob) \<Rightarrow>
          if ty \<noteq> ''CERTIFICATE REQUEST'' then Inl ErrCSRInvalid
          else case x5_ParseCertificateRequest x5 blob of Inl _ \<Rightarrow> Inl ErrCSRInvalid | Inr csr \<Rightarrow> Inr csr)"

definition validateCSRPublicKey :: "csr_key \<Rightarrow> go_error option" where
  "validateCSRPublicKey pub =
     (case pub of
        RSAKey bits _ \<Rightarrow> if bits < 2048 then Some ErrCSRInvalid else None
      | ECDSAKey _ \<Rightarrow> None
      | OtherKey _ \<Rightarrow> Some ErrCSRInvalid)"

definition validateCSR :: "x509_lib \<Rightarrow> x509_csr \<Rightarrow> string \<Rightarrow> go_error option" where
  "validateCSR x5 csr requiredOU =
     (if \<not> x5_CheckSignature x5 csr then Some ErrCSRInvalid
      else if requiredOU = [] \<and> length (cr_OrganizationalUnit csr) \<noteq> 0 then Some ErrCSRInvalid
      else if requiredOU \<noteq> [] \<and> cr_OrganizationalUnit csr \<noteq> [requiredOU] then Some ErrCSRInvalid
      else validateCSRPublicKey (cr_PublicKey csr))"

definition client_template :: "int \<Rightarrow> gotime \<Rightarrow> duration \<Rightarrow> pkix_Name \<Rightarrow> x509_template" where
  "client_template serial now ttl subject =
     \<lparr>tp_SerialNumber = serial, tp_Subject = subject, tp_NotBefore = now + - minute, tp_NotAfter = now + ttl,
      tp_KeyUsage = [KeyUsageDigitalSignature], tp_ExtKeyUsage = [ExtKeyUsageClientAuth]\<rparr>"

text \<open>The serial number is the answer of the random number generator.\<close>

definition signCSRWithTTL ::
  "x509_lib \<Rightarrow> int result \<Rightarrow> gotime \<Rightarrow> x509_cert \<Rightarrow> private_key \<Rightarrow> x509_csr \<Rightarrow> duration \<Rightarrow> pkix_Name \<Rightarrow> (bytes \<times> string) result" where
  "signCSRWithTTL x5 rnd now caCert caKey csr ttl subject =
     (case rnd of
        Inl err \<Rightarrow> Inl (Wrapf ''generate serial: '' err '''')
      | Inr serial \<Rightarrow>
     (case x5_CreateCertificate x5 (client_template serial now ttl subject) caCert (cr_PublicKey csr) caKey of
        Inl err \<Rightarrow> Inl (Wrapf ''sign certificate: '' err '''')
      | Inr der \<Rightarrow>
     (case x5_ParseCertificate x5 der of
        Inl err \<Rightarrow> Inl (Wrapf ''parse issued certificate: '' err '''')
      | Inr cert \<Rightarrow> Inr (x5_pem_EncodeToMemory x5 ''CERTIFICATE'' der, CertFingerprint cert))))"

definition cli_subject :: "string \<Rightarrow> pkix_Name" where
  "cli_subject ou = \<lparr>pn_CommonName = ''Luna CLI Client'', pn_OrganizationalUnit = [ou]\<rparr>"

definition automation_subject :: pkix_Name where
  "automation_subject = \<lparr>pn_CommonName = ''Luna Automation Client'', pn_OrganizationalUnit = []\<rparr>"

definition csr_Sign ::
  "x509_lib \<Rightarrow> int result \<Rightarrow> gotime \<Rightarrow> bytes \<Rightarrow> CSRSigner \<Rightarrow> (bytes \<times> string) result" where
  "csr_Sign x5 rnd now csrPEM s =
     (case (cx_caCert s, cx_caKey s) of
        (Some caCert, Some caKey) \<Rightarrow>
          (case parseCSR x5 csrPEM of
             Inl err \<Rightarrow> Inl err
           | Inr csr \<Rightarrow>
               (case validateCSR x5 csr (cx_requiredOU s) of
                  Some err \<Rightarrow> Inl err
                | None \<Rightarrow> signCSRWithTTL x5 rnd now caCert caKey csr (cx_ttl s) (cli_subject (cx_requiredOU s))))
      | _ \<Rightarrow> Inl ErrCANotConfigured)"

definition SignAutomation ::
  "x509_lib \<Rightarrow> int result \<Rightarrow> gotime \<Rightarrow> bytes \<Rightarrow> CSRSigner \<Rightarrow> (bytes \<times> string) result" where
  "SignAutomation x5 rnd now csrPEM s =
     (case (cx_caCert s, cx_caKey s) of
        (Some caCert, Some caKey) \<Rightarrow>
          (case parseCSR x5 csrPEM of
             Inl err \<Rightarrow> Inl err
           | Inr csr \<Rightarrow>
               (case validateCSR x5 csr [] of
                  Some err \<Rightarrow> Inl err
                | None \<Rightarrow> signCSRWithTTL x5 rnd now caCert caKey csr defaultAutomationClientCertTTL automation_subject))
      | _ \<Rightarrow> Inl ErrCANotConfigured)"

section \<open>Who a certificate speaks for\<close>

text \<open>\<open>cliClientAllowed\<close> of \<open>api/auth_cli.go\<close> and \<open>adminClientAllowed\<close> of \<open>api/admin_handler.go\<close>.\<close>

definition cliClientAllowed :: "string \<Rightarrow> x509_cert \<Rightarrow> bool" where
  "cliClientAllowed requiredOU cert \<longleftrightarrow> requiredOU \<noteq> [] \<and> list_ex (\<lambda>ou. ou = requiredOU) (xc_OrganizationalUnit cert)"

definition adminClientAllowed :: "string \<Rightarrow> x509_cert \<Rightarrow> bool" where
  "adminClientAllowed requiredOU cert \<longleftrightarrow> requiredOU \<noteq> [] \<and> list_ex (\<lambda>ou. ou = requiredOU) (xc_OrganizationalUnit cert)"

text \<open>What the program relies on: a certificate that was created parses, is what was created,
  and has the units of its template; and the PEM block of a certificate is read back.\<close>

definition issues_as_told :: "x509_lib \<Rightarrow> bool" where
  "issues_as_told x5 \<longleftrightarrow>
     (\<forall>t ca pub key der. x5_CreateCertificate x5 t ca pub key = Inr der \<longrightarrow>
        (\<exists>c. x5_ParseCertificate x5 der = Inr c \<and> xc_Raw c = der
           \<and> xc_OrganizationalUnit c = pn_OrganizationalUnit (tp_Subject t)))
     \<and> (\<forall>b. x5_pem_Decode x5 (x5_pem_EncodeToMemory x5 ''CERTIFICATE'' b) = Some (''CERTIFICATE'', b))"

text \<open>The certificate that a PEM text holds.\<close>

definition cert_of_pem :: "x509_lib \<Rightarrow> bytes \<Rightarrow> x509_cert option" where
  "cert_of_pem x5 pem =
     (case x5_pem_Decode x5 pem of
        None \<Rightarrow> None
      | Some (ty, der) \<Rightarrow> (case x5_ParseCertificate x5 der of Inl _ \<Rightarrow> None | Inr c \<Rightarrow> Some c))"

lemma signCSRWithTTL_cert:
  assumes "issues_as_told x5" and "signCSRWithTTL x5 rnd now ca key csr ttl subject = Inr (pem, fp)"
  shows "\<exists>c serial. cert_of_pem x5 pem = Some c \<and> fp = CertFingerprint c
     \<and> xc_OrganizationalUnit c = pn_OrganizationalUnit subject
     \<and> x5_CreateCertificate x5 (client_template serial now ttl subject) ca (cr_PublicKey csr) key = Inr (xc_Raw c)"
  using assms
  by (fastforce simp: signCSRWithTTL_def issues_as_told_def cert_of_pem_def client_template_def split: sum.splits)

lemma csr_Sign_cert:
  assumes "issues_as_told x5" and "csr_Sign x5 rnd now csrPEM s = Inr (pem, fp)"
  shows "\<exists>c csr ca key serial. cert_of_pem x5 pem = Some c \<and> fp = CertFingerprint c
     \<and> xc_OrganizationalUnit c = [cx_requiredOU s]
     \<and> parseCSR x5 csrPEM = Inr csr \<and> validateCSR x5 csr (cx_requiredOU s) = None
     \<and> x5_CreateCertificate x5 (client_template serial now (cx_ttl s) (cli_subject (cx_requiredOU s))) ca
         (cr_PublicKey csr) key = Inr (xc_Raw c)"
proof -
  from assms(2) obtain ca key csr where
      csr: "parseCSR x5 csrPEM = Inr csr" "validateCSR x5 csr (cx_requiredOU s) = None"
    and sg: "signCSRWithTTL x5 rnd now ca key csr (cx_ttl s) (cli_subject (cx_requiredOU s)) = Inr (pem, fp)"
    by (auto simp: csr_Sign_def split: option.splits sum.splits)
  from signCSRWithTTL_cert [OF assms(1) sg] csr show ?thesis by (fastforce simp: cli_subject_def)
qed

lemma SignAutomation_cert:
  assumes "issues_as_told x5" and "SignAutomation x5 rnd now csrPEM s = Inr (pem, fp)"
  shows "\<exists>c csr. cert_of_pem x5 pem = Some c \<and> fp = CertFingerprint c \<and> xc_OrganizationalUnit c = []
     \<and> parseCSR x5 csrPEM = Inr csr \<and> validateCSR x5 csr [] = None"
proof -
  from assms(2) obtain ca key csr where
      csr: "parseCSR x5 csrPEM = Inr csr" "validateCSR x5 csr [] = None"
    and sg: "signCSRWithTTL x5 rnd now ca key csr defaultAutomationClientCertTTL automation_subject = Inr (pem, fp)"
    by (auto simp: SignAutomation_def split: option.splits sum.splits)
  from signCSRWithTTL_cert [OF assms(1) sg] csr show ?thesis by (fastforce simp: automation_subject_def)
qed

text \<open>
  (C35) Enrolment grants no more than its role: the certificate issued to a CLI client is accepted
  as a CLI client and, when the two units differ, never as an administrator; the certificate
  issued to an automation client is accepted as neither, whatever units are configured.
\<close>

theorem csr_roles:
  assumes "issues_as_told x5"
    and "cx_requiredOU s \<noteq> []"
    and "csr_Sign x5 rnd now csrPEM s = Inr (pem, fp)"
    and "SignAutomation x5 rnd' now' csrPEM' s = Inr (pem', fp')"
  shows "(\<exists>c. cert_of_pem x5 pem = Some c \<and> CertFingerprint c = fp \<and> cliClientAllowed (cx_requiredOU s) c
             \<and> (\<forall>admin. adminClientAllowed admin c \<longrightarrow> admin = cx_requiredOU s))
         \<and> (\<exists>c. cert_of_pem x5 pem' = Some c \<and> CertFingerprint c = fp'
             \<and> (\<forall>ou. \<not> cliClientAllowed ou c \<and> \<not> adminClientAllowed ou c))"
  using csr_Sign_cert [OF assms(1,3)] SignAutomation_cert [OF assms(1,4)] assms(2)
  by (auto simp: cliClientAllowed_def adminClientAllowed_def)

text \<open>A library for the examples: certificates print as the number of their units, PEM as its type
  and content between newlines.\<close>

definition demo_x5 :: x509_lib where
  "demo_x5 =
     \<lparr>x5_pem_Decode = \<lambda>b. if CHR 0x0A \<in> set b
        then Some (takeWhile (\<lambda>c. c \<noteq> CHR 0x0A) b, drop 1 (dropWhile (\<lambda>c. c \<noteq> CHR 0x0A) b)) else None,
      x5_pem_EncodeToMemory = \<lambda>ty b. ty @ [CHR 0x0A] @ b,
      x5_ParseCertificateRequest = \<lambda>b. Inr \<lparr>cr_OrganizationalUnit = (if b = [] then [] else [b]), cr_PublicKey = ECDSAKey [], cr_Raw = b\<rparr>,
      x5_CheckSignature = \<lambda>_. True,
      x5_CreateCertificate = \<lambda>t _ _ _. (case pn_OrganizationalUnit (tp_Subject t) of
          [] \<Rightarrow> Inr ''0'' | [u] \<Rightarrow> Inr (CHR ''1'' # u) | _ \<Rightarrow> Inl (Errorf ''too many units'')),
      x5_ParseCertificate = \<lambda>b. Inr \<lparr>xc_Raw = b, xc_OrganizationalUnit = (if take 1 b = ''1'' then [drop 1 b] else [])\<rparr>,
      x5_ParsePKCS1PrivateKey = Inr, x5_ParsePKCS8PrivateKey = Inr, x5_ParseECPrivateKey = Inr\<rparr>"

definition demo_csr_signer :: CSRSigner where
  "demo_csr_signer = NewCSRSigner (Some \<lparr>xc_Raw = ''ca'', xc_OrganizationalUnit = []\<rparr>) (Some ''k'') ''cli'' hour"

lemma demo_x5_issues: "issues_as_told demo_x5"
  by (auto simp: issues_as_told_def demo_x5_def split: list.splits)

lemma demo_csr_run:
  "csr_Sign demo_x5 (Inr 1) 0 (''CERTIFICATE REQUEST'' @ [CHR 0x0A] @ ''cli'') demo_csr_signer =
     Inr (''CERTIFICATE'' @ [CHR 0x0A] @ ''1cli'', CertFingerprint \<lparr>xc_Raw = ''1cli'', xc_OrganizationalUnit = [''cli'']\<rparr>)"
  "SignAutomation demo_x5 (Inr 1) 0 (''CERTIFICATE REQUEST'' @ [CHR 0x0A]) demo_csr_signer =
     Inr (''CERTIFICATE'' @ [CHR 0x0A] @ ''0'', CertFingerprint \<lparr>xc_Raw = ''0'', xc_OrganizationalUnit = []\<rparr>)"
  by (simp_all add: csr_Sign_def SignAutomation_def demo_csr_signer_def NewCSRSigner_def parseCSR_def demo_x5_def
      validateCSR_def validateCSRPublicKey_def signCSRWithTTL_def client_template_def cli_subject_def automation_subject_def)

theorem csr_roles_witness:
  "\<exists>c c'. cert_of_pem demo_x5 (''CERTIFICATE'' @ [CHR 0x0A] @ ''1cli'') = Some c \<and> cliClientAllowed ''cli'' c
     \<and> \<not> adminClientAllowed ''admin'' c
     \<and> cert_of_pem demo_x5 (''CERTIFICATE'' @ [CHR 0x0A] @ ''0'') = Some c' \<and> \<not> adminClientAllowed ''admin'' c'"
  using csr_roles [OF demo_x5_issues _ demo_csr_run]
  by (auto simp: demo_csr_signer_def NewCSRSigner_def)
end
