(* ===== verification/Api_Server.thy ===== *)
theory Api_Server
  imports Telegram Auth Session_Binding Pending CSR
begin

text \<open>
  The frame of the HTTP API (\<open>api/server.go\<close>, \<open>api/sign_log.go\<close>, \<open>api/remote_addr.go\<close>,
  \<open>api/admin_handler.go\<close>, \<open>api/capabilities_handler.go\<close>): requests and responses, the state all
  handlers share, the gates in front of them and the log they write.
\<close>

section \<open>Requests and responses\<close>

text \<open>
  \<open>rq_TLS\<close> is \<open>r.TLS\<close>, of which the handlers read the peer certificates; \<open>rq_conn\<close> is the TLS
  connection that \<open>ConnContext\<close> stored in the context. The body is the bytes that arrive, and
  \<open>rq_body_fails\<close> says that reading breaks off after them.
\<close>

record http_request =
  rq_TLS :: "x509_cert list option"
  rq_conn :: "tls_conn option"
  rq_header :: "string \<Rightarrow> string"
  rq_body :: bytes
  rq_body_fails :: bool
  rq_RemoteAddr :: string
  rq_PathValue :: "string \<Rightarrow> string"

datatype http_body = NoBody | PlainText string | JsonBody json | RawBody bytes

record http_response =
  rp_status :: int
  rp_ContentType :: string
  rp_body :: http_body

definition http_Error :: "string \<Rightarrow> int \<Rightarrow> http_response" where
  "http_Error msg status =
     \<lparr>rp_status = status, rp_ContentType = ''text/plain; charset=utf-8'', rp_body = PlainText (msg @ newline)\<rparr>"

definition json_response :: "int \<Rightarrow> json \<Rightarrow> http_response" where
  "json_response status j = \<lparr>rp_status = status, rp_ContentType = ''application/json'', rp_body = JsonBody j\<rparr>"

definition bare_response :: "int \<Rightarrow> http_response" where
  "bare_response status = \<lparr>rp_status = status, rp_ContentType = [], rp_body = NoBody\<rparr>"

text \<open>Reading through \<open>http.MaxBytesReader\<close>.\<close>

datatype read_error = MaxBytesError | ReadError

definition ReadAll :: "nat \<Rightarrow> http_request \<Rightarrow> read_error + bytes" where
  "ReadAll limit r =
     (if limit < length (rq_body r) then Inl MaxBytesError
      else if rq_body_fails r then Inl ReadError
      else Inr (rq_body r))"

text \<open>\<open>net.SplitHostPort\<close>, of which only the host is used.\<close>

fun last_index :: "char \<Rightarrow> string \<Rightarrow> nat option" where
  "last_index c [] = None"
| "last_index c (d # s) =
     (case last_index c s of Some i \<Rightarrow> Some (Suc i) | None \<Rightarrow> if d = c then Some 0 else None)"

fun first_index :: "char \<Rightarrow> string \<Rightarrow> nat option" where
  "first_index c [] = None"
| "first_index c (d # s) =
     (if d = c then Some 0 else case first_index c s of Some i \<Rightarrow> Some (Suc i) | None \<Rightarrow> None)"

definition SplitHost :: "string \<Rightarrow> string option" where
  "SplitHost hostport =
     (case last_index (CHR '':'') hostport of
        None \<Rightarrow> None
      | Some i \<Rightarrow>
          if take 1 hostport = ''[''
          then (case first_index (CHR '']'') hostport of
                  None \<Rightarrow> None
                | Some e \<Rightarrow>
                    if e + 1 \<noteq> i then None
                    else if CHR ''['' \<in> set (drop 1 hostport) \<or> CHR '']'' \<in> set (drop (e + 1) hostport) then None
                    else Some (drop 1 (take e hostport)))
          else if CHR '':'' \<in> set (take i hostport) then None
          else if CHR ''['' \<in> set hostport \<or> CHR '']'' \<in> set hostport then None
          else Some (take i hostport))"

definition clientIPFromRemoteAddr :: "string \<Rightarrow> string" where
  "clientIPFromRemoteAddr addr = (case SplitHost addr of None \<Rightarrow> [] | Some host \<Rightarrow> host)"

lemma SplitHost_samples:
  "SplitHost ''10.0.0.7:4711'' = Some ''10.0.0.7''" "SplitHost ''[::1]:22'' = Some ''::1''"
  "SplitHost ''::1:22'' = None" "SplitHost ''10.0.0.7'' = None" "SplitHost ''[::1]'' = None"
  by code_simp+

section \<open>The state of the server\<close>

record signLogEntry =
  sl_Route :: string
  sl_TxID :: string
  sl_ClientCertFP :: string
  sl_SourceIP :: string
  sl_TargetUser :: string
  sl_TargetIP :: string
  sl_SourceUser :: string
  sl_ClientName :: string
  sl_ClientVersion :: string
  sl_Outcome :: string
  sl_Sealed :: bool
  sl_LoadedSigners :: int
  sl_SignerMode :: string
  sl_LatencyMS :: int

definition signLogEntry_json :: "signLogEntry \<Rightarrow> json" where
  "signLogEntry_json e = JObject
     (omit_string ''route'' (sl_Route e) @ omit_string ''tx_id'' (sl_TxID e) @
      omit_string ''client_cert_fp'' (sl_ClientCertFP e) @ omit_string ''source_ip'' (sl_SourceIP e) @
      omit_string ''target_user'' (sl_TargetUser e) @ omit_string ''target_ip'' (sl_TargetIP e) @
      omit_string ''source_user'' (sl_SourceUser e) @ omit_string ''client_name'' (sl_ClientName e) @
      omit_string ''client_version'' (sl_ClientVersion e) @ [(''outcome'', JString (sl_Outcome e))] @
      omit_bool ''sealed'' (sl_Sealed e) @ omit_int ''loaded_signers'' (sl_LoadedSigners e) @
      omit_string ''signer_mode'' (sl_SignerMode e) @ [(''latency_ms'', JInt (sl_LatencyMS e))])"

text \<open>The stores are pointers that the control socket and the poller share; here they are the
  components of one record. \<open>sv_log\<close> is what \<open>emitSignLog\<close> has written.\<close>

record server =
  sv_cfg :: Config
  sv_keystore :: Keystore
  sv_store :: Store
  sv_replay :: ReplayLRU
  sv_telegram :: "Notifier option"
  sv_mobile :: mobile_Store
  sv_pending :: PendingStore
  sv_cli :: cli_Store
  sv_csrSigner :: "CSRSigner option"
  sv_loadLimiter :: LoadRateLimiter
  sv_log :: "json list"

text \<open>What a handler needs from outside: the libraries, the file system, fresh identifiers and
  random numbers, and the clock, whose readings are numbered in the order in which the handler
  takes them.\<close>

record api_env =
  ae_lib :: ssh_lib
  ae_wire :: ssh_wire
  ae_js :: json_lib
  ae_x5 :: x509_lib
  ae_ed25519_Verify :: "bytes \<Rightarrow> bytes \<Rightarrow> bytes \<Rightarrow> bool"
  ae_mlock :: mlock
  ae_ReadFile :: "string \<Rightarrow> bytes result"
  ae_ulid :: string
  ae_serial :: "int result"
  ae_now :: "nat \<Rightarrow> gotime"

text \<open>Work that a handler leaves to a goroutine.\<close>

datatype job = JobApprove approval_call | JobNotify Transaction | JobPush Transaction

type_synonym reply = "server \<times> http_response \<times> job list"

text \<open>The dependencies that may be left out of \<open>ServerDeps\<close>.\<close>

record server_deps =
  sd_Config :: Config
  sd_Keystore :: Keystore
  sd_Store :: Store
  sd_Replay :: ReplayLRU
  sd_Telegram :: "Notifier option"
  sd_Pending :: "PendingStore option"
  sd_Mobile :: "mobile_Store option"
  sd_CLI :: "cli_Store option"
  sd_CSRSigner :: "CSRSigner option"
  sd_LoadLimiter :: "LoadRateLimiter option"

definition or_new :: "'a option \<Rightarrow> 'a \<Rightarrow> 'a" where
  "or_new x new = (case x of None \<Rightarrow> new | Some y \<Rightarrow> y)"

definition csr_signer_or_config :: "api_env \<Rightarrow> CSRSigner option \<Rightarrow> Config \<Rightarrow> CSRSigner option" where
  "csr_signer_or_config env s cfg =
     (case s of
        Some c \<Rightarrow> Some c
      | None \<Rightarrow> (case NewCSRSignerFromConfig (ae_x5 env) (ae_ReadFile env) cfg of Inl _ \<Rightarrow> None | Inr c \<Rightarrow> c))"

definition api_NewServer :: "api_env \<Rightarrow> server_deps \<Rightarrow> server" where
  "api_NewServer env deps =
     \<lparr>sv_cfg = sd_Config deps, sv_keystore = sd_Keystore deps, sv_store = sd_Store deps, sv_replay = sd_Replay deps,
      sv_telegram = sd_Telegram deps, sv_mobile = or_new (sd_Mobile deps) mobile_NewStore,
      sv_pending = or_new (sd_Pending deps) NewPendingStore, sv_cli = or_new (sd_CLI deps) cli_NewStore,
      sv_csrSigner = csr_signer_or_config env (sd_CSRSigner deps) (sd_Config deps),
      sv_loadLimiter = or_new (sd_LoadLimiter deps) NewLoadRateLimiter, sv_log = []\<rparr>"

section \<open>Gates\<close>

type_synonym handler = "api_env \<Rightarrow> http_request \<Rightarrow> server \<Rightarrow> reply"

definition peer_cert :: "http_request \<Rightarrow> x509_cert option" where
  "peer_cert r = (case rq_TLS r of None \<Rightarrow> None | Some [] \<Rightarrow> None | Some (c # _) \<Rightarrow> Some c)"

definition withMTLS :: "handler \<Rightarrow> handler" where
  "withMTLS next env r s =
     (case peer_cert r of
        None \<Rightarrow> (s, http_Error ''client certificate required'' 401, [])
      | Some _ \<Rightarrow> next env r s)"

definition withAdminMTLS :: "handler \<Rightarrow> handler" where
  "withAdminMTLS next env r s =
     (case peer_cert r of
        None \<Rightarrow> (s, http_Error ''client certificate required'' 401, [])
      | Some c \<Rightarrow>
          if \<not> adminClientAllowed (cfg_AdminClientOU (sv_cfg s)) c
          then (s, http_Error ''admin client certificate required'' 403, [])
          else next env r s)"

definition handleHealthz :: handler where
  "handleHealthz env r s = (s, \<lparr>rp_status = 200, rp_ContentType = [], rp_body = RawBody (''ok'' @ newline)\<rparr>, [])"

definition handleUnseal :: handler where
  "handleUnseal env r s = (s, http_Error ''admin unseal moved to luna-proxy key load via control socket'' 410, [])"

definition handleSealStatus :: handler where
  "handleSealStatus env r s = (s, http_Error ''admin seal-status moved to luna-proxy status via control socket'' 410, [])"

section \<open>The log\<close>

definition clientCertFingerprint :: "x509_cert option \<Rightarrow> string" where
  "clientCertFingerprint cert =
     (case cert of None \<Rightarrow> [] | Some c \<Rightarrow> hex_EncodeToString (sha256_Sum256 (xc_Raw c)))"

definition clientCertFPFromRequest :: "http_request \<Rightarrow> string" where
  "clientCertFPFromRequest r = clientCertFingerprint (peer_cert r)"

definition emitSignLog :: "signLogEntry \<Rightarrow> server \<Rightarrow> server" where
  "emitSignLog e s = s\<lparr>sv_log := sv_log s @ [signLogEntry_json e]\<rparr>"

definition signOutcomeFromAuthErr :: "go_error \<Rightarrow> string" where
  "signOutcomeFromAuthErr err =
     (if errors_Is err ErrReplay then ''replay''
      else if errors_Is err ErrInvalidHMAC then ''invalid_hmac''
      else if errors_Is err ErrInvalidPoP then ''invalid_pop''
      else if errors_Is err ErrTimestampOutsideWindow then ''timestamp_outside_window''
      else ''auth_rejected'')"

text \<open>\<open>time.Since(start).Milliseconds()\<close>, which rounds towards zero.\<close>

definition latency_ms :: "gotime \<Rightarrow> gotime \<Rightarrow> int" where
  "latency_ms start now = sgn (sat64 (now - start)) * (\<bar>sat64 (now - start)\<bar> div 1000000)"

definition logSignRequest ::
  "http_request \<Rightarrow> gotime \<Rightarrow> gotime \<Rightarrow> string \<Rightarrow> string \<Rightarrow> string \<Rightarrow> string \<Rightarrow> SignClientMeta \<Rightarrow> server \<Rightarrow> server" where
  "logSignRequest r start now txID targetUser targetIP outcome meta s =
     emitSignLog
       \<lparr>sl_Route = ''ssh/sign'', sl_TxID = txID, sl_ClientCertFP = clientCertFPFromRequest r,
        sl_SourceIP = clientIPFromRemoteAddr (rq_RemoteAddr r), sl_TargetUser = targetUser, sl_TargetIP = targetIP,
        sl_SourceUser = sm_SourceUser meta, sl_ClientName = sm_ClientName meta, sl_ClientVersion = sm_ClientVersion meta,
        sl_Outcome = outcome, sl_Sealed = False, sl_LoadedSigners = 0, sl_SignerMode = [],
        sl_LatencyMS = latency_ms start now\<rparr> s"

definition logCapabilitiesRequest :: "http_request \<Rightarrow> gotime \<Rightarrow> gotime \<Rightarrow> bool \<Rightarrow> nat \<Rightarrow> server \<Rightarrow> server" where
  "logCapabilitiesRequest r start now sealed loadedCount s =
     emitSignLog
       \<lparr>sl_Route = ''capabilities'', sl_TxID = [], sl_ClientCertFP = clientCertFPFromRequest r,
        sl_SourceIP = clientIPFromRemoteAddr (rq_RemoteAddr r), sl_TargetUser = [], sl_TargetIP = [],
        sl_SourceUser = [], sl_ClientName = [], sl_ClientVersion = [],
        sl_Outcome = (if sealed then ''sealed'' else ''ok''), sl_Sealed = sealed, sl_LoadedSigners = int loadedCount,
        sl_SignerMode = cfg_SignerMode (sv_cfg s), sl_LatencyMS = latency_ms start now\<rparr> s"

text \<open>The line that also goes to the standard logger is left out.\<close>

definition logTelegramEvent :: "string \<Rightarrow> string \<Rightarrow> string \<Rightarrow> server \<Rightarrow> server" where
  "logTelegramEvent route txID outcome s =
     emitSignLog
       \<lparr>sl_Route = route, sl_TxID = txID, sl_ClientCertFP = [], sl_SourceIP = [], sl_TargetUser = [], sl_TargetIP = [],
        sl_SourceUser = [], sl_ClientName = [], sl_ClientVersion = [], sl_Outcome = outcome, sl_Sealed = False,
        sl_LoadedSigners = 0, sl_SignerMode = [], sl_LatencyMS = 0\<rparr> s"

section \<open>Capabilities\<close>

definition signer_entry_json :: "SignerInfo \<Rightarrow> json" where
  "signer_entry_json info = JObject
     ([(''fingerprint'', JString (si_Fingerprint info))] @ omit_string ''public_key'' (si_PublicKey info) @
      omit_string ''comment'' (si_Comment info))"

definition handleCapabilities :: handler where
  "handleCapabilities env r s =
     (let sealed = \<not> ks_Available (sv_keystore s);
          loaded = (if sealed then [] else ListSigners (ae_lib env) (sv_keystore s));
          cfg = sv_cfg s
      in (logCapabilitiesRequest r (ae_now env 0) (ae_now env 1) sealed (length loaded) s,
          json_response 200 (JObject
            ([(''signer_mode'', JString (cfg_SignerMode cfg)), (''lease_supported'', JBool True),
              (''allowed_ttl_seconds'',
                 if cfg_AllowedTTLSeconds cfg = [] then JNull else JArray (map JInt (cfg_AllowedTTLSeconds cfg))),
              (''sealed'', JBool sealed)] @
             (if loaded = [] then [] else [(''loaded_signers'', JArray (map signer_entry_json loaded))]))),
          []))"
end
