(* ===== verification/Sign_Api.thy ===== *)
theory Sign_Api
  imports Api_Server
begin

text \<open>
  The two handlers of a signing client (\<open>api/sign_handler.go\<close>): posting a request and waiting for
  its result.
\<close>

section \<open>Decoding a request\<close>

definition binding_fields :: "SessionBinding json_field list" where
  "binding_fields =
     [string_field ''host_public_key'' (\<lambda>v b. b\<lparr>sb_HostPublicKey := v\<rparr>),
      string_field ''session_id'' (\<lambda>v b. b\<lparr>sb_SessionID := v\<rparr>),
      string_field ''signature'' (\<lambda>v b. b\<lparr>sb_Signature := v\<rparr>),
      bool_field ''forwarding'' (\<lambda>v b. b\<lparr>sb_Forwarding := v\<rparr>)]"

definition sign_fields :: "SignRequest json_field list" where
  "sign_fields =
     [string_field ''public_key'' (\<lambda>v q. q\<lparr>sr_PublicKey := v\<rparr>),
      string_field ''target_user'' (\<lambda>v q. q\<lparr>sr_TargetUser := v\<rparr>),
      string_field ''target_ip'' (\<lambda>v q. q\<lparr>sr_TargetIP := v\<rparr>),
      int_field ''timestamp'' (\<lambda>v q. q\<lparr>sr_Timestamp := v\<rparr>),
      string_field ''pop_signature'' (\<lambda>v q. q\<lparr>sr_PopSignature := v\<rparr>),
      string_field ''agent_sign_data'' (\<lambda>v q. q\<lparr>sr_AgentSignData := v\<rparr>),
      string_field ''host_public_key'' (\<lambda>v q. q\<lparr>sr_HostPublicKey := v\<rparr>),
      string_field ''host_key_fingerprint'' (\<lambda>v q. q\<lparr>sr_HostKeyFingerprint := v\<rparr>),
      string_field ''source_user'' (\<lambda>v q. q\<lparr>sr_SourceUser := v\<rparr>),
      string_field ''client_name'' (\<lambda>v q. q\<lparr>sr_ClientName := v\<rparr>),
      string_field ''client_version'' (\<lambda>v q. q\<lparr>sr_ClientVersion := v\<rparr>),
      struct_field ''session_binding'' binding_fields sr_SessionBinding (\<lambda>v q. q\<lparr>sr_SessionBinding := v\<rparr>),
      string_field ''destination_host_public_key'' (\<lambda>v q. q\<lparr>sr_DestinationHostPublicKey := v\<rparr>)]"

definition zero_SignRequest :: SignRequest where
  "zero_SignRequest =
     \<lparr>sr_PublicKey = [], sr_TargetUser = [], sr_TargetIP = [], sr_Timestamp = 0, sr_PopSignature = [],
      sr_AgentSignData = [], sr_HostPublicKey = [], sr_HostKeyFingerprint = [], sr_SourceUser = [], sr_ClientName = [],
      sr_ClientVersion = [],
      sr_SessionBinding = \<lparr>sb_HostPublicKey = [], sb_SessionID = [], sb_Signature = [], sb_Forwarding = False\<rparr>,
      sr_DestinationHostPublicKey = [], sr_BodyMAC = []\<rparr>"

section \<open>Posting a request\<close>

definition maxSignRequestBody :: nat where
  "maxSignRequestBody = 64 * 1024"

definition maxAgentSignDataB64 :: nat where
  "maxAgentSignDataB64 = 12 * 1024"

definition signClientMeta :: "SignRequest \<Rightarrow> ClientMeta" where
  "signClientMeta req =
     (let m = NormalizeSignClientMeta (sr_SourceUser req) (sr_ClientName req) (sr_ClientVersion req)
      in \<lparr>cm_SourceUser = sm_SourceUser m, cm_ClientName = sm_ClientName m, cm_ClientVersion = sm_ClientVersion m,
          cm_DestinationHostKeySource = [], cm_DisableLease = False\<rparr>)"

definition writeAuthError :: "go_error \<Rightarrow> http_response" where
  "writeAuthError err =
     (if errors_Is err ErrReplay then http_Error (error_text ErrReplay) 409
      else if errors_Is err ErrInvalidHMAC \<or> errors_Is err ErrInvalidPoP \<or> errors_Is err ErrTimestampOutsideWindow
      then http_Error ''unauthorized'' 401
      else http_Error ''bad request'' 400)"

definition resolveHostKeyFingerprint :: "ssh_lib \<Rightarrow> SignRequest \<Rightarrow> server \<Rightarrow> string result" where
  "resolveHostKeyFingerprint lib req s =
     (if cfg_SignerMode (sv_cfg s) \<noteq> SignerModeLocalKey then Inr []
      else case ResolveHostKeyFingerprint lib (sr_HostPublicKey req) (sr_HostKeyFingerprint req) of
             Inr fp \<Rightarrow> Inr fp
           | Inl err \<Rightarrow> if errors_Is err ErrAmbiguousSigner then SoleFingerprint lib (sv_keystore s) else Inl err)"

text \<open>
  The block of \<open>local-key\<close> mode: the destination's host key and what to note about it. A failure
  is the response and, when one is written, the outcome of the log line.
\<close>

record destination =
  dn_hostKeyFP :: string
  dn_meta :: ClientMeta
  dn_allowLease :: bool

definition check_destination ::
  "api_env \<Rightarrow> SignRequest \<Rightarrow> string \<Rightarrow> server \<Rightarrow> (string option \<times> http_response) + destination" where
  "check_destination env req hostKeyFP s =
     (let txMeta = signClientMeta req
      in if cfg_SignerMode (sv_cfg s) \<noteq> SignerModeLocalKey
         then Inr \<lparr>dn_hostKeyFP = [], dn_meta = txMeta, dn_allowLease = True\<rparr>
         else case PublicKeyForFingerprint hostKeyFP (sv_keystore s) of
                Inl _ \<Rightarrow> Inl (Some ''invalid_host_key'', http_Error ''hosted signer unavailable'' 503)
              | Inr hostedPub \<Rightarrow>
         (case StdEncoding_DecodeString (sr_AgentSignData req) of
                None \<Rightarrow> Inl (None, http_Error ''invalid agent_sign_data'' 400)
              | Some signData \<Rightarrow>
         if sb_HostPublicKey (sr_SessionBinding req) \<noteq> []
         then (case ValidateLocalKeySignData (ae_lib env) (ae_wire env) (sr_SessionBinding req) signData
                      (sr_TargetUser req) (Some hostedPub) of
                 Inl _ \<Rightarrow> Inl (Some ''invalid_session_binding'', http_Error ''invalid session binding'' 401)
               | Inr b \<Rightarrow> Inr \<lparr>dn_hostKeyFP = vb_HostKeyFingerprint b,
                               dn_meta = txMeta\<lparr>cm_DestinationHostKeySource := ''session-bound''\<rparr>, dn_allowLease = True\<rparr>)
         else (case ValidateDirectLocalKeySignData (ae_lib env) (ae_wire env) (sr_DestinationHostPublicKey req) signData
                      (sr_TargetUser req) (Some hostedPub) of
                 Inl _ \<Rightarrow> Inl (Some ''invalid_session_binding'', http_Error ''invalid session binding'' 401)
               | Inr b \<Rightarrow> Inr \<lparr>dn_hostKeyFP = vb_HostKeyFingerprint b,
                               dn_meta = txMeta\<lparr>cm_DestinationHostKeySource := ''client-reported'', cm_DisableLease := True\<rparr>,
                               dn_allowLease = False\<rparr>)))"

definition tx_response :: "string \<Rightarrow> http_response" where
  "tx_response txID = json_response 202 (JObject [(''tx_id'', JString txID)])"

text \<open>The jobs that tell the approvers, and the log line when there is no Telegram.\<close>

definition announce :: "Transaction \<Rightarrow> server \<Rightarrow> server \<times> job list" where
  "announce tx s =
     (if cfg_Env (sv_cfg s) = ''dev'' then (s, [])
      else if Configured (sv_telegram s) then (s, [JobNotify tx, JobPush tx])
      else (logTelegramEvent ''notify'' (tx_ID tx) ''skipped_unconfigured'' s, [JobPush tx]))"

text \<open>The end of the handler: the lease that covers the request, or a new transaction.\<close>

definition sign_admitted ::
  "api_env \<Rightarrow> http_request \<Rightarrow> SignRequest \<Rightarrow> string \<Rightarrow> destination \<Rightarrow> server \<Rightarrow> reply" where
  "sign_admitted env r req hostKeyFP dst s =
     (let clientFP = clientCertFPFromRequest r;
          sourceIP = clientIPFromRemoteAddr (rq_RemoteAddr r);
          clientMeta = NormalizeSignClientMeta (sr_SourceUser req) (sr_ClientName req) (sr_ClientVersion req);
          log = (\<lambda>txID outcome. logSignRequest r (ae_now env 0) (ae_now env 8) txID (sr_TargetUser req) (sr_TargetIP req)
                                  outcome clientMeta);
          lookup = NewLookupKey clientFP (sr_TargetUser req) (sr_TargetIP req) sourceIP hostKeyFP [dn_hostKeyFP dst];
          (res, hit) = IssueFromLease (ae_lib env) (ae_now env 3) (ae_now env 4) (ae_now env 5) (ae_now env 6)
                         (sv_keystore s) lookup (sr_PublicKey req) (sr_AgentSignData req) hostKeyFP (sv_store s)
      in if cfg_Env (sv_cfg s) \<noteq> ''dev'' \<and> dn_allowLease dst \<and> hit
         then (let (st, tx) = CreateInstantApproved (ae_ulid env) (ae_now env 7) (sr_TargetUser req) (sr_TargetIP req)
                                (sr_PublicKey req) sourceIP clientFP res (sv_store s)
               in (log (tx_ID tx) ''lease_hit'' (s\<lparr>sv_store := st\<rparr>), tx_response (tx_ID tx), []))
         else (let (st, tx, calls) = CreateBound (ae_ulid env) (ae_now env 7)
                     \<lparr>ta_targetUser = sr_TargetUser req, ta_targetIP = sr_TargetIP req, ta_publicKey = sr_PublicKey req,
                      ta_sourceIP = sourceIP, ta_clientCertFP = clientFP, ta_agentSignData = sr_AgentSignData req,
                      ta_hostKeyFP = hostKeyFP, ta_destinationHostKeyFP = dn_hostKeyFP dst, ta_client = dn_meta dst\<rparr>
                     (sv_store s);
                   (s1, jobs) = announce tx (s\<lparr>sv_store := st\<rparr>)
               in (log (tx_ID tx) ''accepted'' s1, tx_response (tx_ID tx), map JobApprove calls @ jobs)))"

definition handleSign :: handler where
  "handleSign env r s =
     (let log = (\<lambda>user ip outcome meta. logSignRequest r (ae_now env 0) (ae_now env 8) [] user ip outcome meta);
          emptyMeta = \<lparr>sm_SourceUser = [], sm_ClientName = [], sm_ClientVersion = []\<rparr>
      in case ReadAll maxSignRequestBody r of
           Inl MaxBytesError \<Rightarrow> (log [] [] ''body_too_large'' emptyMeta s, http_Error ''request body too large'' 413, [])
         | Inl ReadError \<Rightarrow> (log [] [] ''read_body_error'' emptyMeta s, http_Error ''read body'' 400, [])
         | Inr rawBody \<Rightarrow>
      (case Unmarshal (ae_js env) sign_fields rawBody zero_SignRequest of
           None \<Rightarrow> (log [] [] ''invalid_json'' emptyMeta s, http_Error ''invalid json'' 400, [])
         | Some req0 \<Rightarrow>
      (let req = req0\<lparr>sr_BodyMAC := rq_header r ''X-Luna-Body-Mac''\<rparr>;
           clientMeta = NormalizeSignClientMeta (sr_SourceUser req) (sr_ClientName req) (sr_ClientVersion req);
           reject = (\<lambda>outcome resp s. (log (sr_TargetUser req) (sr_TargetIP req) outcome clientMeta s, resp, []))
       in case rq_conn r of
            None \<Rightarrow> reject ''tls_required'' (http_Error ''tls connection required'' 401) s
          | Some conn \<Rightarrow>
      (case ValidateSignRequest (ae_lib env) conn rawBody req (ae_now env 1) (ae_now env 2) (sv_replay s) of
           (replay, Some err) \<Rightarrow> reject (signOutcomeFromAuthErr err) (writeAuthError err) (s\<lparr>sv_replay := replay\<rparr>)
         | (replay, None) \<Rightarrow>
      (let s1 = s\<lparr>sv_replay := replay\<rparr>
       in if \<not> ks_Available (sv_keystore s1) then reject ''sealed'' (http_Error ''sealed'' 503) s1
          else if cfg_SignerMode (sv_cfg s1) = SignerModeLocalKey \<and> sr_AgentSignData req = []
          then reject ''missing_agent_sign_data'' (http_Error ''agent_sign_data required'' 400) s1
          else if maxAgentSignDataB64 < length (sr_AgentSignData req)
          then reject ''agent_sign_data_too_large'' (http_Error ''agent_sign_data too large'' 413) s1
          else case resolveHostKeyFingerprint (ae_lib env) req s1 of
                 Inl _ \<Rightarrow> reject ''invalid_host_key'' (http_Error ''invalid host key'' 400) s1
               | Inr hostKeyFP \<Rightarrow>
      (case check_destination env req hostKeyFP s1 of
           Inl (Some outcome, resp) \<Rightarrow> reject outcome resp s1
         | Inl (None, resp) \<Rightarrow> (s1, resp, [])
         | Inr dst \<Rightarrow> sign_admitted env r req hostKeyFP dst s1))))))"

section \<open>Waiting for the result\<close>

definition writeWaitError :: "go_error \<Rightarrow> http_response" where
  "writeWaitError err =
     (if errors_Is err ErrWaitClientMismatch then http_Error (error_text ErrWaitClientMismatch) 403
      else if errors_Is err ErrDenied then http_Error (error_text ErrDenied) 403
      else if errors_Is err ErrTimeout then http_Error (error_text ErrTimeout) 408
      else if errors_Is err ErrTxNotFound then http_Error (error_text ErrTxNotFound) 404
      else http_Error ''internal server error'' 500)"

definition formatTimeRFC3339 :: "gotime \<Rightarrow> gotime \<Rightarrow> duration \<Rightarrow> string" where
  "formatTimeRFC3339 now t fallbackTTL = (if time_IsZero t then Format_RFC3339 (now + fallbackTTL) else Format_RFC3339 t)"

definition wait_json :: "gotime \<Rightarrow> wait_answer \<Rightarrow> json" where
  "wait_json now a = JObject
     (omit_string ''ssh_certificate'' (wa_cert a) @ omit_string ''ssh_signature'' (wa_signature a) @
      [(''expires_at'', JString (formatTimeRFC3339 now (wa_expiresAt a) (5 * minute)))] @
      (if time_IsZero (wa_leaseExpiresAt a) then []
       else omit_string ''lease_expires_at'' (Format_RFC3339 (wa_leaseExpiresAt a))))"

text \<open>The request's context ends, when nothing arrives, with the error \<open>ctx_err\<close>.\<close>

definition handleWait :: "go_error \<Rightarrow> handler" where
  "handleWait ctx_err env r s =
     (let txID = rq_PathValue r ''tx_id'';
          (bound, ok) = store_ClientCertFP txID (sv_store s)
      in if ok \<and> bound \<noteq> [] \<and> clientCertFPFromRequest r \<noteq> bound
         then (s, http_Error (error_text ErrWaitClientMismatch) 403, [])
         else case Wait ctx_err txID (sv_store s) of
                (st, Inl err) \<Rightarrow> (s\<lparr>sv_store := st\<rparr>, writeWaitError err, [])
              | (st, Inr a) \<Rightarrow> (s\<lparr>sv_store := st\<rparr>, json_response 200 (wait_json (ae_now env 0) a), []))"

section \<open>What admission means\<close>

definition admits ::
  "api_env \<Rightarrow> http_request \<Rightarrow> server \<Rightarrow> SignRequest \<Rightarrow> string \<Rightarrow> destination \<Rightarrow> ReplayLRU \<Rightarrow> bool" where
  "admits env r s req hostKeyFP dst replay \<longleftrightarrow>
     (\<exists>conn req0. rq_conn r = Some conn \<and> ReadAll maxSignRequestBody r = Inr (rq_body r)
        \<and> Unmarshal (ae_js env) sign_fields (rq_body r) zero_SignRequest = Some req0
        \<and> req = req0\<lparr>sr_BodyMAC := rq_header r ''X-Luna-Body-Mac''\<rparr>
        \<and> ValidateSignRequest (ae_lib env) conn (rq_body r) req (ae_now env 1) (ae_now env 2) (sv_replay s) = (replay, None))
     \<and> ks_Available (sv_keystore s)
     \<and> (cfg_SignerMode (sv_cfg s) = SignerModeLocalKey \<longrightarrow> sr_AgentSignData req \<noteq> [])
     \<and> length (sr_AgentSignData req) \<le> maxAgentSignDataB64
     \<and> resolveHostKeyFingerprint (ae_lib env) req (s\<lparr>sv_replay := replay\<rparr>) = Inr hostKeyFP
     \<and> check_destination env req hostKeyFP (s\<lparr>sv_replay := replay\<rparr>) = Inr dst"

definition only_log_and_cache :: "server \<Rightarrow> server \<Rightarrow> bool" where
  "only_log_and_cache s s' \<longleftrightarrow> (\<exists>replay l. s' = s\<lparr>sv_replay := replay, sv_log := l\<rparr>)"

lemma only_log_and_cacheI: "s' = s\<lparr>sv_replay := replay, sv_log := l\<rparr> \<Longrightarrow> only_log_and_cache s s'"
  by (auto simp: only_log_and_cache_def)

lemma logSignRequest_only [simp]:
  "only_log_and_cache s (logSignRequest r t t' i u p out m s)"
  "only_log_and_cache s (logSignRequest r t t' i u p out m (s\<lparr>sv_replay := x\<rparr>))"
  "only_log_and_cache s (s\<lparr>sv_replay := x\<rparr>)" "only_log_and_cache s s"
proof -
  have a: "s\<lparr>sv_replay := x\<rparr> = s\<lparr>sv_replay := x, sv_log := sv_log s\<rparr>" for x by simp
  have b: "s = s\<lparr>sv_replay := sv_replay s, sv_log := sv_log s\<rparr>" by simp
  have c: "logSignRequest r t t' i u p out m s = s\<lparr>sv_replay := sv_replay s,
      sv_log := sv_log (logSignRequest r t t' i u p out m s)\<rparr>"
    by (simp add: logSignRequest_def emitSignLog_def)
  have d: "logSignRequest r t t' i u p out m (s\<lparr>sv_replay := x\<rparr>) = s\<lparr>sv_replay := x,
      sv_log := sv_log (logSignRequest r t t' i u p out m (s\<lparr>sv_replay := x\<rparr>))\<rparr>"
    by (simp add: logSignRequest_def emitSignLog_def)
  show "only_log_and_cache s (logSignRequest r t t' i u p out m s)" using c by (rule only_log_and_cacheI)
  show "only_log_and_cache s (logSignRequest r t t' i u p out m (s\<lparr>sv_replay := x\<rparr>))" using d by (rule only_log_and_cacheI)
  show "only_log_and_cache s (s\<lparr>sv_replay := x\<rparr>)" using a by (rule only_log_and_cacheI)
  show "only_log_and_cache s s" using b by (rule only_log_and_cacheI)
qed

lemma status_simps [simp]:
  "rp_status (http_Error m c) = c" "rp_status (json_response c j) = c" "rp_status (tx_response i) = 202"
  "rp_status (bare_response c) = c"
  by (simp_all add: http_Error_def json_response_def tx_response_def bare_response_def)

lemma writeAuthError_status: "rp_status (writeAuthError err) \<in> {409, 401, 400}"
  by (simp add: writeAuthError_def)

lemma check_destination_status: "check_destination env req fp s = Inl (out, resp) \<Longrightarrow> rp_status resp \<in> {503, 400, 401}"
  by (auto simp: check_destination_def Let_def split: if_splits sum.splits option.splits)

lemma ReadAll_Inr: "ReadAll n r = Inr raw \<Longrightarrow> raw = rq_body r \<and> length raw \<le> n"
  by (auto simp: ReadAll_def split: if_splits)

lemma writeAuthError_not_202 [simp]: "rp_status (writeAuthError err) \<noteq> 202"
  using writeAuthError_status [of err] by auto

lemma check_destination_not_202: "check_destination env req fp s = Inl (out, resp) \<Longrightarrow> rp_status resp \<noteq> 202"
  using check_destination_status [of env req fp s out resp] by auto

text \<open>A request is either admitted or rejected with nothing changed but the cache and the log.\<close>

lemma handleSign_cases:
  obtains (admitted) req hostKeyFP dst replay where
      "admits env r s req hostKeyFP dst replay"
      "handleSign env r s = sign_admitted env r req hostKeyFP dst (s\<lparr>sv_replay := replay\<rparr>)"
  | (rejected) s' resp where
      "handleSign env r s = (s', resp, [])" "only_log_and_cache s s'" "rp_status resp \<noteq> 202"
proof (cases "ReadAll maxSignRequestBody r")
  case (Inl err)
  then show ?thesis by (cases err) (auto simp: handleSign_def Let_def intro!: rejected)
next
  case raw: (Inr raw)
  show ?thesis
  proof (cases "Unmarshal (ae_js env) sign_fields raw zero_SignRequest")
    case None
    with raw show ?thesis by (auto simp: handleSign_def Let_def intro!: rejected)
  next
    case req0: (Some req0)
    let ?req = "req0\<lparr>sr_BodyMAC := rq_header r ''X-Luna-Body-Mac''\<rparr>"
    show ?thesis
    proof (cases "rq_conn r")
      case None
      with raw req0 show ?thesis by (auto simp: handleSign_def Let_def intro!: rejected)
    next
      case conn: (Some conn)
      obtain replay err where v: "ValidateSignRequest (ae_lib env) conn raw ?req (ae_now env 1) (ae_now env 2)
          (sv_replay s) = (replay, err)" by fastforce
      note pre = raw req0 conn v
      let ?s = "s\<lparr>sv_replay := replay\<rparr>"
      show ?thesis
      proof (cases err)
        case (Some e)
        with pre show ?thesis by (auto simp: handleSign_def Let_def intro!: rejected)
      next
        case err: None
        show ?thesis
        proof (cases "ks_Available (sv_keystore s)
            \<and> \<not> (cfg_SignerMode (sv_cfg s) = SignerModeLocalKey \<and> sr_AgentSignData ?req = [])
            \<and> \<not> maxAgentSignDataB64 < length (sr_AgentSignData ?req)")
          case False
          with pre err have "only_log_and_cache s (fst (handleSign env r s))
              \<and> rp_status (fst (snd (handleSign env r s))) \<noteq> 202 \<and> snd (snd (handleSign env r s)) = []"
            by (auto simp: handleSign_def Let_def)
          then show ?thesis by (intro rejected [of "fst (handleSign env r s)" "fst (snd (handleSign env r s))"])
              (auto simp: prod_eq_iff)
        next
          case ok: True
          show ?thesis
          proof (cases "resolveHostKeyFingerprint (ae_lib env) ?req ?s")
            case (Inl e)
            with pre err ok show ?thesis by (auto simp: handleSign_def Let_def intro!: rejected)
          next
            case fp: (Inr hostKeyFP)
            show ?thesis
            proof (cases "check_destination env ?req hostKeyFP ?s")
              case (Inl e)
              obtain out resp where e: "e = (out, resp)" by (cases e)
              from Inl e have "rp_status resp \<noteq> 202" using check_destination_not_202 by blast
              with pre err ok fp Inl e show ?thesis
                by (cases out) (auto simp: handleSign_def Let_def intro!: rejected)
            next
              case dst: (Inr dst)
              have raw': "raw = rq_body r" using ReadAll_Inr raw by blast
              have "admits env r s ?req hostKeyFP dst replay"
                using pre err ok fp dst unfolding admits_def raw' by auto
              moreover have "handleSign env r s = sign_admitted env r ?req hostKeyFP dst ?s"
                using pre err ok fp dst by (auto simp: handleSign_def Let_def)
              ultimately show ?thesis by (rule admitted)
            qed
          qed
        qed
      qed
    qed
  qed
qed

section \<open>Properties of posting a request\<close>

text \<open>
  Nothing happens without authentication: a post that is not answered with 202 changes
  nothing but the replay cache and the log and starts no work; and 202 is answered only when the
  keystore is open and the body carries, under the key of its own TLS connection, the MAC of the
  header, with a timestamp inside the window and a signature by the key it names over the user,
  the address and the timestamp it names.
\<close>

theorem sign_admission:
  assumes "handleSign env r s = (s', resp, jobs)"
  shows "(rp_status resp \<noteq> 202 \<longrightarrow> only_log_and_cache s s' \<and> jobs = [])
    \<and> (rp_status resp = 202 \<longrightarrow> ks_Available (sv_keystore s)
        \<and> (\<exists>conn key req pub blob. rq_conn r = Some conn
            \<and> tc_ExportKeyingMaterial conn exporterLabel 32 = Inr key
            \<and> hex_DecodeString (rq_header r ''X-Luna-Body-Mac'') = Some (hmac_Sum key (rq_body r))
            \<and> length (rq_body r) \<le> maxSignRequestBody
            \<and> Unmarshal (ae_js env) sign_fields (rq_body r) zero_SignRequest = Some req
            \<and> ValidateTimestampAt (sr_Timestamp req) (ae_now env 1) timestampWindowSec = None
            \<and> ssh_ParseAuthorizedKey (ae_lib env) (sr_PublicKey req) = Inr pub
            \<and> hex_DecodeString (sr_PopSignature req) = Some blob
            \<and> ssh_Verify (ae_lib env) pub (popChallenge (sr_TargetUser req) (sr_TargetIP req) (sr_Timestamp req))
                \<lparr>sig_Format = pk_Type pub, sig_Blob = blob\<rparr> = None))"
proof (cases rule: handleSign_cases [of env r s])
  case (rejected s'' resp')
  with assms show ?thesis by auto
next
  case (admitted req fp dst replay)
  have "rp_status resp = 202"
    using assms admitted(2) by (auto simp: sign_admitted_def Let_def split: prod.splits if_splits)
  moreover from admitted(1) obtain conn req0 where a: "rq_conn r = Some conn"
      "ReadAll maxSignRequestBody r = Inr (rq_body r)"
      "Unmarshal (ae_js env) sign_fields (rq_body r) zero_SignRequest = Some req0"
      "req = req0\<lparr>sr_BodyMAC := rq_header r ''X-Luna-Body-Mac''\<rparr>"
      "ValidateSignRequest (ae_lib env) conn (rq_body r) req (ae_now env 1) (ae_now env 2) (sv_replay s) = (replay, None)"
    and "ks_Available (sv_keystore s)"
    by (auto simp: admits_def)
  moreover have "length (rq_body r) \<le> maxSignRequestBody" using ReadAll_Inr a(2) by blast
  ultimately show ?thesis using accepted_facts [OF a(5)] by auto
qed

definition request_of :: "api_env \<Rightarrow> http_request \<Rightarrow> SignRequest option" where
  "request_of env r =
     (case Unmarshal (ae_js env) sign_fields (rq_body r) zero_SignRequest of
        None \<Rightarrow> None | Some q \<Rightarrow> Some (q\<lparr>sr_BodyMAC := rq_header r ''X-Luna-Body-Mac''\<rparr>))"

lemma admits_request: "admits env r s req fp dst replay \<Longrightarrow> request_of env r = Some req"
  by (auto simp: admits_def request_of_def)

lemma CreateBound_entry:
  assumes "CreateBound ulid now a st = (st', tx, calls)"
  shows "tx = new_transaction (newTxID ulid) now a
    \<and> map_of (st_txs st') (newTxID ulid) = Some \<lparr>te_tx = tx, te_result = None, te_timer = Some Armed, te_waiters = 0\<rparr>
    \<and> (\<forall>i. i \<noteq> newTxID ulid \<longrightarrow> map_of (st_txs st') i = map_of (st_txs st) i)
    \<and> st_leases st' = st_leases st \<and> st_cfg st' = st_cfg st \<and> st_issuer st' = st_issuer st
    \<and> st_keySigner st' = st_keySigner st"
  using assms by (auto simp: CreateBound_def Let_def arm_timer_def create_locked_def)

lemma CreateInstantApproved_entry:
  assumes "CreateInstantApproved ulid now user ip pub src fp res st = (st', tx)"
  shows "tx_ID tx = newTxID ulid \<and> tx_TargetUser tx = user \<and> tx_TargetIP tx = ip \<and> tx_PublicKey tx = pub
    \<and> tx_SourceIP tx = src \<and> tx_ClientCertFP tx = fp \<and> tx_State tx = StateApproved
    \<and> map_of (st_txs st') (newTxID ulid) = Some \<lparr>te_tx = tx, te_result = Some res, te_timer = None, te_waiters = 0\<rparr>
    \<and> (\<forall>i. i \<noteq> newTxID ulid \<longrightarrow> map_of (st_txs st') i = map_of (st_txs st) i)
    \<and> st_leases st' = st_leases st"
  using assms by (auto simp: CreateInstantApproved_def Let_def)

lemma announce_store [simp]: "announce tx s = (s', jobs) \<Longrightarrow> sv_store s' = sv_store s"
  by (auto simp: announce_def logTelegramEvent_def emitSignLog_def split: if_splits)

lemma log_store [simp]: "sv_store (logSignRequest r t t' i u p out m s) = sv_store s"
  by (simp add: logSignRequest_def emitSignLog_def)

lemma log_keystore [simp]: "sv_keystore (logSignRequest r t t' i u p out m s) = sv_keystore s"
  by (simp add: logSignRequest_def emitSignLog_def)

definition lease_lookup :: "http_request \<Rightarrow> SignRequest \<Rightarrow> string \<Rightarrow> destination \<Rightarrow> LookupKey" where
  "lease_lookup r req hostKeyFP dst =
     NewLookupKey (clientCertFPFromRequest r) (sr_TargetUser req) (sr_TargetIP req)
       (clientIPFromRemoteAddr (rq_RemoteAddr r)) hostKeyFP [dn_hostKeyFP dst]"

text \<open>The two ways in which an admitted request ends.\<close>

lemma sign_admitted_cases:
  assumes "sign_admitted env r req hostKeyFP dst s = (s', resp, jobs)"
  obtains (hit) res tx where
      "cfg_Env (sv_cfg s) \<noteq> ''dev''" "dn_allowLease dst"
      "IssueFromLease (ae_lib env) (ae_now env 3) (ae_now env 4) (ae_now env 5) (ae_now env 6) (sv_keystore s)
         (lease_lookup r req hostKeyFP dst) (sr_PublicKey req) (sr_AgentSignData req) hostKeyFP (sv_store s) = (res, True)"
      "CreateInstantApproved (ae_ulid env) (ae_now env 7) (sr_TargetUser req) (sr_TargetIP req) (sr_PublicKey req)
         (clientIPFromRemoteAddr (rq_RemoteAddr r)) (clientCertFPFromRequest r) res (sv_store s) = (sv_store s', tx)"
      "resp = tx_response (tx_ID tx)" "jobs = []"
  | (new) tx calls jobs' where
      "CreateBound (ae_ulid env) (ae_now env 7)
         \<lparr>ta_targetUser = sr_TargetUser req, ta_targetIP = sr_TargetIP req, ta_publicKey = sr_PublicKey req,
          ta_sourceIP = clientIPFromRemoteAddr (rq_RemoteAddr r), ta_clientCertFP = clientCertFPFromRequest r,
          ta_agentSignData = sr_AgentSignData req, ta_hostKeyFP = hostKeyFP,
          ta_destinationHostKeyFP = dn_hostKeyFP dst, ta_client = dn_meta dst\<rparr> (sv_store s) = (sv_store s', tx, calls)"
      "resp = tx_response (tx_ID tx)" "jobs = map JobApprove calls @ jobs'"
proof -
  obtain res h where i: "IssueFromLease (ae_lib env) (ae_now env 3) (ae_now env 4) (ae_now env 5) (ae_now env 6)
      (sv_keystore s) (lease_lookup r req hostKeyFP dst) (sr_PublicKey req) (sr_AgentSignData req) hostKeyFP (sv_store s)
      = (res, h)" by fastforce
  show thesis
  proof (cases "cfg_Env (sv_cfg s) \<noteq> ''dev'' \<and> dn_allowLease dst \<and> h")
    case True
    obtain st tx where c: "CreateInstantApproved (ae_ulid env) (ae_now env 7) (sr_TargetUser req) (sr_TargetIP req)
        (sr_PublicKey req) (clientIPFromRemoteAddr (rq_RemoteAddr r)) (clientCertFPFromRequest r) res (sv_store s) = (st, tx)"
      by fastforce
    from True i c assms have "sv_store s' = st" "resp = tx_response (tx_ID tx)" "jobs = []"
      by (auto simp: sign_admitted_def Let_def lease_lookup_def)
    with True i c show thesis by (intro hit [of res tx]) auto
  next
    case False
    let ?a = "\<lparr>ta_targetUser = sr_TargetUser req, ta_targetIP = sr_TargetIP req, ta_publicKey = sr_PublicKey req,
          ta_sourceIP = clientIPFromRemoteAddr (rq_RemoteAddr r), ta_clientCertFP = clientCertFPFromRequest r,
          ta_agentSignData = sr_AgentSignData req, ta_hostKeyFP = hostKeyFP,
          ta_destinationHostKeyFP = dn_hostKeyFP dst, ta_client = dn_meta dst\<rparr>"
    obtain st tx calls where c: "CreateBound (ae_ulid env) (ae_now env 7) ?a (sv_store s) = (st, tx, calls)"
      by (metis prod_cases3)
    obtain s1 jobs' where an: "announce tx (s\<lparr>sv_store := st\<rparr>) = (s1, jobs')" by fastforce
    from False i c an assms have "sv_store s' = sv_store s1" "resp = tx_response (tx_ID tx)"
        "jobs = map JobApprove calls @ jobs'"
      by (auto simp: sign_admitted_def Let_def lease_lookup_def)
    with c announce_store [OF an] show thesis by (intro new [of tx calls jobs']) auto
  qed
qed

text \<open>
  What is shown to the approver is what was asked: an accepted post adds exactly one
  transaction, under the identifier it answers with, for the user, address and key of the
  authenticated body, bound to the certificate and the address of the connection, and changes no
  other transaction and no lease. It waits for approval unless an unexpired lease for exactly this
  client, target, source and host keys covers it.
\<close>

theorem sign_transaction:
  assumes "handleSign env r s = (s', resp, jobs)" and "rp_status resp = 202"
  shows "\<exists>req tx e. request_of env r = Some req
    \<and> resp = tx_response (newTxID (ae_ulid env))
    \<and> map_of (st_txs (sv_store s')) (newTxID (ae_ulid env)) = Some e \<and> te_tx e = tx
    \<and> tx_TargetUser tx = sr_TargetUser req \<and> tx_TargetIP tx = sr_TargetIP req \<and> tx_PublicKey tx = sr_PublicKey req
    \<and> tx_ClientCertFP tx = clientCertFPFromRequest r \<and> tx_SourceIP tx = clientIPFromRemoteAddr (rq_RemoteAddr r)
    \<and> (\<forall>i. i \<noteq> newTxID (ae_ulid env) \<longrightarrow> map_of (st_txs (sv_store s')) i = map_of (st_txs (sv_store s)) i)
    \<and> st_leases (sv_store s') = st_leases (sv_store s)
    \<and> (tx_State tx = StatePending \<and> te_result e = None
       \<or> (\<exists>fp dst res. te_result e = Some res \<and> cfg_Env (sv_cfg s) \<noteq> ''dev''
            \<and> IssueFromLease (ae_lib env) (ae_now env 3) (ae_now env 4) (ae_now env 5) (ae_now env 6) (sv_keystore s)
                (lease_lookup r req fp dst) (sr_PublicKey req) (sr_AgentSignData req) fp (sv_store s) = (res, True)))"
proof (cases rule: handleSign_cases [of env r s])
  case (rejected s'' resp')
  with assms show ?thesis by auto
next
  case (admitted req fp dst replay)
  have req: "request_of env r = Some req" using admitted(1) by (rule admits_request)
  from assms(1) admitted(2) have "sign_admitted env r req fp dst (s\<lparr>sv_replay := replay\<rparr>) = (s', resp, jobs)" by simp
  then show ?thesis
  proof (cases rule: sign_admitted_cases)
    case (hit res tx)
    from CreateInstantApproved_entry [OF hit(4)] hit req show ?thesis by auto
  next
    case (new tx calls jobs')
    from CreateBound_entry [OF new(1)] new(2) req show ?thesis by (auto simp: new_transaction_def)
  qed
qed

section \<open>An example\<close>

text \<open>A server in \<open>local-ca\<close> mode, a client that posts the request of the earlier examples, and the
  document it posts, to which more members can be added.\<close>

definition demo_members :: "(string \<times> json) list" where
  "demo_members =
     [(''public_key'', JString ''key''), (''target_user'', JString ''deploy''), (''target_ip'', JString ''10.0.1.50''),
      (''timestamp'', JInt 1000),
      (''pop_signature'', JString (hex_EncodeToString (''key'' @ popChallenge ''deploy'' ''10.0.1.50'' 1000)))]"

definition demo_env :: "(string \<times> json) list \<Rightarrow> api_env" where
  "demo_env extra =
     \<lparr>ae_lib = demo_ssh, ae_wire = demo_wire, ae_js = \<lparr>js_parse = \<lambda>_. Some (JObject (demo_members @ extra)), js_print = \<lambda>_. []\<rparr>,
      ae_x5 = demo_x5, ae_ed25519_Verify = \<lambda>pub data sig. sig = pub @ pub, ae_mlock = mlock_ok,
      ae_ReadFile = \<lambda>_. Inl (Errorf ''no file''), ae_ulid = ''1'', ae_serial = Inr 1, ae_now = \<lambda>_. 1000 * second\<rparr>"

definition demo_post :: http_request where
  "demo_post =
     \<lparr>rq_TLS = Some [\<lparr>xc_Raw = ''client'', xc_OrganizationalUnit = []\<rparr>], rq_conn = Some demo_conn,
      rq_header = \<lambda>_. hex_EncodeToString (hmac_Sum ''exported key'' ''body''), rq_body = ''body'', rq_body_fails = False,
      rq_RemoteAddr = ''203.0.113.10:5000'', rq_PathValue = \<lambda>_. ''tx_1''\<rparr>"

definition demo_server :: "string \<Rightarrow> Keystore \<Rightarrow> server" where
  "demo_server mode ks =
     \<lparr>sv_cfg = zero_Config\<lparr>cfg_SignerMode := mode\<rparr>, sv_keystore = ks,
      sv_store = SetConfig (zero_Config\<lparr>cfg_SignerMode := mode\<rparr>) (SetKeySigner (Some LocalKey)
        (SetLeases (Some lease_NewStore) (SetIssuer (Some LocalCA) (approval_NewStore minute)))),
      sv_replay = serve_cache, sv_telegram = None, sv_mobile = mobile_NewStore, sv_pending = NewPendingStore,
      sv_cli = cli_NewStore, sv_csrSigner = Some demo_csr_signer, sv_loadLimiter = NewLoadRateLimiter, sv_log = []\<rparr>"

lemma demo_folds:
  "fold_key ''public_key'' = ''PUBLIC_KEY''" "fold_key ''target_user'' = ''TARGET_USER''"
  "fold_key ''target_ip'' = ''TARGET_IP''" "fold_key ''timestamp'' = ''TIMESTAMP''"
  "fold_key ''pop_signature'' = ''POP_SIGNATURE''" "fold_key ''agent_sign_data'' = ''AGENT_SIGN_DATA''"
  "fold_key ''host_public_key'' = ''HOST_PUBLIC_KEY''" "fold_key ''host_key_fingerprint'' = ''HOST_KEY_FINGERPRINT''"
  "fold_key ''source_user'' = ''SOURCE_USER''" "fold_key ''client_name'' = ''CLIENT_NAME''"
  "fold_key ''client_version'' = ''CLIENT_VERSION''" "fold_key ''session_binding'' = ''SESSION_BINDING''"
  "fold_key ''destination_host_public_key'' = ''DESTINATION_HOST_PUBLIC_KEY''"
  by code_simp+

lemma demo_request:
  "Unmarshal (ae_js (demo_env [])) sign_fields raw zero_SignRequest = Some ((demo_req raw)\<lparr>sr_BodyMAC := []\<rparr>)"
  "Unmarshal (ae_js (demo_env [(''agent_sign_data'', JString d), (''destination_host_public_key'', JString k)])) sign_fields raw zero_SignRequest
     = Some ((demo_req raw)\<lparr>sr_BodyMAC := [], sr_AgentSignData := d, sr_DestinationHostPublicKey := k\<rparr>)"
  by (simp_all add: Unmarshal_def demo_env_def demo_members_def decode_struct_def sign_fields_def json_field_defs demo_folds
      int64_def zero_SignRequest_def demo_req_def)

lemma demo_source: "clientIPFromRemoteAddr ''203.0.113.10:5000'' = ''203.0.113.10''"
  by code_simp

lemma validate_frame [simp]:
  "ValidateSignRequest lib c b (q\<lparr>sr_AgentSignData := x\<rparr>) t t' l = ValidateSignRequest lib c b q t t' l"
  "ValidateSignRequest lib c b (q\<lparr>sr_DestinationHostPublicKey := y\<rparr>) t t' l = ValidateSignRequest lib c b q t t' l"
  by (simp_all add: ValidateSignRequest_def cong: option.case_cong prod.case_cong bool.case_cong sum.case_cong)

lemma demo_validated:
  "ValidateSignRequest demo_ssh demo_conn ''body'' (demo_req ''body'') (1000 * second) (1000 * second) serve_cache =
     (snd (AddIfNew (1000 * second) (sha256_Sum256 ''body'') serve_cache), None)"
  by (subst demo_req_result) (simp_all add: time_Unix_def second_def serve_cache_def AddIfNew_empty)

lemma demo_mac: "(demo_req ''body'')\<lparr>sr_BodyMAC := rq_header demo_post h\<rparr> = demo_req ''body''"
  by (simp add: demo_post_def demo_req_def)

lemma demo_posted:
  "\<exists>s' jobs. handleSign (demo_env []) demo_post (demo_server SignerModeLocalCA demo_ca) = (s', tx_response ''tx_1'', jobs)"
proof -
  let ?s = "(demo_server SignerModeLocalCA demo_ca)\<lparr>sv_replay := snd (AddIfNew (1000 * second) (sha256_Sum256 ''body'') serve_cache)\<rparr>"
  obtain s' resp jobs where a: "sign_admitted (demo_env []) demo_post (demo_req ''body'') []
      \<lparr>dn_hostKeyFP = [], dn_meta = signClientMeta (demo_req ''body''), dn_allowLease = True\<rparr> ?s = (s', resp, jobs)"
    by (metis prod_cases3)
  have "handleSign (demo_env []) demo_post (demo_server SignerModeLocalCA demo_ca) = (s', resp, jobs)"
    using a demo_validated demo_mac
    by (simp add: handleSign_def Let_def ReadAll_def maxSignRequestBody_def demo_request)
      (simp add: demo_post_def demo_server_def demo_env_def ks_Available_def demo_ca_def NewWithMode_def
        SignerModeLocalCA_def SignerModeLocalKey_def resolveHostKeyFingerprint_def check_destination_def Let_def
        maxAgentSignDataB64_def demo_req_def)
  moreover have "resp = tx_response ''tx_1''"
    using a
  proof (cases rule: sign_admitted_cases)
    case (hit res tx)
    from CreateInstantApproved_entry [OF hit(4)] hit(5) show ?thesis by (simp add: demo_env_def newTxID_def)
  next
    case (new tx calls jobs')
    from CreateBound_entry [OF new(1)] new(2) show ?thesis by (simp add: demo_env_def newTxID_def new_transaction_def)
  qed
  ultimately show ?thesis by blast
qed

theorem sign_admission_witness:
  "\<exists>s' jobs. handleSign (demo_env []) demo_post (demo_server SignerModeLocalCA demo_ca) = (s', tx_response ''tx_1'', jobs)
     \<and> (\<exists>key. hex_DecodeString (rq_header demo_post ''X-Luna-Body-Mac'') = Some (hmac_Sum key ''body''))"
proof -
  obtain s' jobs where h: "handleSign (demo_env []) demo_post (demo_server SignerModeLocalCA demo_ca) = (s', tx_response ''tx_1'', jobs)"
    using demo_posted by blast
  from sign_admission [OF h] have "\<exists>key. hex_DecodeString (rq_header demo_post ''X-Luna-Body-Mac'') = Some (hmac_Sum key (rq_body demo_post))"
    by auto
  moreover have "rq_body demo_post = ''body''" by (simp add: demo_post_def)
  ultimately show ?thesis using h by metis
qed

theorem sign_transaction_witness:
  "\<exists>s' jobs tx e. handleSign (demo_env []) demo_post (demo_server SignerModeLocalCA demo_ca) = (s', tx_response ''tx_1'', jobs)
     \<and> map_of (st_txs (sv_store s')) ''tx_1'' = Some e \<and> te_tx e = tx \<and> tx_TargetUser tx = ''deploy''
     \<and> tx_SourceIP tx = ''203.0.113.10''"
proof -
  obtain s' jobs where h: "handleSign (demo_env []) demo_post (demo_server SignerModeLocalCA demo_ca) = (s', tx_response ''tx_1'', jobs)"
    using demo_posted by blast
  have u: "newTxID (ae_ulid (demo_env [])) = ''tx_1''" by (simp add: demo_env_def newTxID_def)
  have q: "request_of (demo_env []) demo_post = Some (demo_req ''body'')"
    by (simp add: request_of_def demo_request) (simp add: demo_post_def demo_req_def)
  have ip: "clientIPFromRemoteAddr (rq_RemoteAddr demo_post) = ''203.0.113.10''"
    by (simp add: demo_post_def demo_source)
  from sign_transaction [OF h] h u q ip show ?thesis
    by (auto simp: demo_req_def)
qed

section \<open>Destinations that are not proved\<close>

lemma check_destination_unbound:
  assumes "check_destination env req fp s = Inr dst" and "cfg_SignerMode (sv_cfg s) = SignerModeLocalKey"
    and "sb_HostPublicKey (sr_SessionBinding req) = []"
  shows "\<not> dn_allowLease dst \<and> cm_DisableLease (dn_meta dst)
    \<and> cm_DestinationHostKeySource (dn_meta dst) = ''client-reported''"
  using assms by (auto simp: check_destination_def Let_def split: if_splits sum.splits option.splits)

lemma finish_leases [simp]:
  "st_leases (finishLocked i e st r s) = st_leases s" "st_leases (finishPending i st r s) = st_leases s"
  "st_leases (fst (finishClaimed i st r s)) = st_leases s" "st_leases (fst (claimApproval i s)) = st_leases s"
  by (auto simp: finishLocked_def chan_send_def finishPending_def finishClaimed_def claimApproval_def Let_def
      split: option.splits list.splits)

lemma Approve_disabled_lease:
  assumes "map_of (st_txs s) txID = Some e" and "tx_DisableLease (te_tx e)"
  shows "st_leases (Approve lib now now' ks txID ttl ap s) = st_leases s"
proof -
  have "put_lease ((te_tx e)\<lparr>tx_State := st\<rparr>) ap u s' = s'" for st u s'
    using assms(2) by (simp add: put_lease_def split: option.split)
  moreover have "snd (claimApproval txID s) = Some tx \<Longrightarrow> tx = (te_tx e)\<lparr>tx_State := StateApproving\<rparr>" for tx
    using assms(1) by (auto simp: claimApproval_def Let_def split: if_splits)
  ultimately have keep: "put_lease tx ap u s' = s'" if "snd (claimApproval txID s) = Some tx" for tx u s'
    using that by simp
  obtain s1 txo where c: "claimApproval txID s = (s1, txo)" by fastforce
  have s1: "st_leases s1 = st_leases s" using finish_leases(4) [of txID s] c by simp
  show ?thesis
  proof (cases txo)
    case None
    with c s1 show ?thesis by (simp add: Approve_def approveWithIssuer_def)
  next
    case (Some tx)
    have f: "st_leases (fst (finishClaimed txID st r s1)) = st_leases s" for st r using s1 by simp
    define t where "t = (if ttl \<le> 0 then DefaultDevCertTTL else ttl)"
    show ?thesis
    proof (cases "issueForTransaction lib now' ks s1 tx (now + t)")
      case (Inl err)
      with c Some f show ?thesis by (simp add: Approve_def approveWithIssuer_def t_def)
    next
      case (Inr res)
      obtain s2 ok where fc: "finishClaimed txID StateApproved (res\<lparr>rs_LeaseExpiresAt := now + t\<rparr>) s1 = (s2, ok)" by fastforce
      have s2: "st_leases s2 = st_leases s" using f [of StateApproved "res\<lparr>rs_LeaseExpiresAt := now + t\<rparr>"] fc by (metis fst_conv)
      from c Some Inr fc s2 keep show ?thesis
        by (cases ok) (simp_all add: Approve_def approveWithIssuer_def t_def)
    qed
  qed
qed

text \<open>
  (C17) A destination that only the client reports never earns a lease: in \<open>local-key\<close> mode a post
  without a session binding is always put to the approver as a new pending transaction, marked as
  reported by the client, and whoever approves it for however long leaves the leases as they were.
\<close>

theorem unbound_never_leases:
  assumes "handleSign env r s = (s', resp, jobs)" and "rp_status resp = 202"
    and "cfg_SignerMode (sv_cfg s) = SignerModeLocalKey"
    and "request_of env r = Some req" and "sb_HostPublicKey (sr_SessionBinding req) = []"
  shows "\<exists>e. map_of (st_txs (sv_store s')) (newTxID (ae_ulid env)) = Some e
    \<and> tx_State (te_tx e) = StatePending \<and> tx_DestinationHostKeySource (te_tx e) = ''client-reported''
    \<and> st_leases (Approve lib now now' ks (newTxID (ae_ulid env)) ttl ap (sv_store s')) = st_leases (sv_store s)"
proof (cases rule: handleSign_cases [of env r s])
  case (rejected s'' resp')
  with assms show ?thesis by auto
next
  case (admitted req' fp dst replay)
  have "req' = req" using admits_request [OF admitted(1)] assms(4) by simp
  with admitted(1) assms(3,5) have dst: "\<not> dn_allowLease dst" "cm_DisableLease (dn_meta dst)"
      "cm_DestinationHostKeySource (dn_meta dst) = ''client-reported''"
    using check_destination_unbound [of env req fp "s\<lparr>sv_replay := replay\<rparr>" dst] by (auto simp: admits_def)
  from assms(1) admitted(2) have "sign_admitted env r req' fp dst (s\<lparr>sv_replay := replay\<rparr>) = (s', resp, jobs)" by simp
  then show ?thesis
  proof (cases rule: sign_admitted_cases)
    case (hit res tx)
    with dst show ?thesis by simp
  next
    case (new tx calls jobs')
    let ?e = "\<lparr>te_tx = tx, te_result = None, te_timer = Some Armed, te_waiters = 0\<rparr>"
    have e: "map_of (st_txs (sv_store s')) (newTxID (ae_ulid env)) = Some ?e"
      and tx: "tx_State tx = StatePending" "tx_DestinationHostKeySource tx = ''client-reported''" "tx_DisableLease tx"
      and l: "st_leases (sv_store s') = st_leases (sv_store s)"
      using CreateBound_entry [OF new(1)] dst by (auto simp: new_transaction_def)
    with Approve_disabled_lease [OF e, of lib now now' ks ttl ap] show ?thesis by auto
  qed
qed

lemma demo_sole: "SoleFingerprint demo_ssh demo_host = Inr (Fingerprint demo_hostkey)"
  by (simp add: demo_host_def demo_hostkey_def LoadPEMBytes_def checkUnsealLock_def NewWithMode_def time_IsZero_def
      parseEncryptedPEM_def demo_ssh_def load_signer_def split: prod.split)
    (simp add: store_signer_def Let_def pool_Add_def NewLocalKeyPool_def SoleFingerprint_def ListSigners_def pool_List_def)

definition demo_extra :: "(string \<times> json) list" where
  "demo_extra = [(''agent_sign_data'', JString ''ZGF0YQ==''), (''destination_host_public_key'', JString ''aG9zdA=='')]"

definition demo_unbound :: SignRequest where
  "demo_unbound = (demo_req ''body'')\<lparr>sr_AgentSignData := ''ZGF0YQ=='', sr_DestinationHostPublicKey := ''aG9zdA==''\<rparr>"

lemma demo_unbound_request: "request_of (demo_env demo_extra) demo_post = Some demo_unbound"
  by (simp add: request_of_def demo_extra_def demo_request) (simp add: demo_unbound_def demo_post_def demo_req_def)

lemma demo_unbound_destination:
  assumes "sv_cfg s = zero_Config\<lparr>cfg_SignerMode := SignerModeLocalKey\<rparr>" and "sv_keystore s = demo_host"
  shows "\<exists>dst. check_destination (demo_env demo_extra) demo_unbound (Fingerprint demo_hostkey) s = Inr dst"
proof -
  have "StdEncoding_DecodeString ''ZGF0YQ=='' = Some ''data''" by code_simp
  with assms show ?thesis
    by (simp add: check_destination_def Let_def PublicKeyForFingerprint_def demo_host_signer demo_unbound_def demo_req_def)
      (simp add: demo_env_def ValidateDirectLocalKeySignData_def demo_binding_decodes demo_ssh_def
        validateDirectUserAuthSignData_def parseUserAuthSignData_def demo_wire_def validateParsedUserAuth_def demo_hostkey_def)
qed

lemma demo_unbound_resolved:
  assumes "sv_cfg s = zero_Config\<lparr>cfg_SignerMode := SignerModeLocalKey\<rparr>" and "sv_keystore s = demo_host"
  shows "resolveHostKeyFingerprint demo_ssh demo_unbound s = Inr (Fingerprint demo_hostkey)"
proof -
  have "NormalizeFingerprintInput [] = []" by code_simp
  with assms show ?thesis
    by (simp add: resolveHostKeyFingerprint_def ResolveHostKeyFingerprint_def Let_def demo_unbound_def demo_req_def demo_sole)
qed

lemma demo_unbound_posted:
  "\<exists>s' jobs i. handleSign (demo_env demo_extra) demo_post (demo_server SignerModeLocalKey demo_host) = (s', tx_response i, jobs)"
proof (cases rule: handleSign_cases [of "demo_env demo_extra" demo_post "demo_server SignerModeLocalKey demo_host"])
  case (admitted req fp dst replay)
  obtain s' resp jobs where h: "handleSign (demo_env demo_extra) demo_post (demo_server SignerModeLocalKey demo_host)
      = (s', resp, jobs)" by (metis prod_cases3)
  with admitted(2) have "\<exists>i. resp = tx_response i"
    by (auto simp: sign_admitted_def Let_def split: prod.splits if_splits)
  with h show ?thesis by blast
next
  case (rejected s' resp)
  let ?s = "(demo_server SignerModeLocalKey demo_host)\<lparr>sv_replay := snd (AddIfNew (1000 * second) (sha256_Sum256 ''body'') serve_cache)\<rparr>"
  have c: "sv_cfg ?s = zero_Config\<lparr>cfg_SignerMode := SignerModeLocalKey\<rparr>" "sv_keystore ?s = demo_host"
    by (simp_all add: demo_server_def)
  obtain dst where d: "check_destination (demo_env demo_extra) demo_unbound (Fingerprint demo_hostkey) ?s = Inr dst"
    using demo_unbound_destination [OF c] by blast
  have r: "resolveHostKeyFingerprint (ae_lib (demo_env demo_extra)) demo_unbound ?s = Inr (Fingerprint demo_hostkey)"
    using demo_unbound_resolved [OF c] by (simp add: demo_env_def)
  have q: "Unmarshal (ae_js (demo_env demo_extra)) sign_fields (rq_body demo_post) zero_SignRequest
      = Some (demo_unbound\<lparr>sr_BodyMAC := []\<rparr>)"
    by (simp add: demo_extra_def demo_request) (simp add: demo_unbound_def demo_post_def)
  have m: "demo_unbound\<lparr>sr_BodyMAC := rq_header demo_post h\<rparr> = demo_unbound" for h
    by (simp add: demo_unbound_def demo_post_def demo_req_def)
  have v: "ValidateSignRequest demo_ssh demo_conn ''body'' demo_unbound (1000 * second) (1000 * second) serve_cache =
     (snd (AddIfNew (1000 * second) (sha256_Sum256 ''body'') serve_cache), None)"
    by (simp add: demo_unbound_def demo_validated)
  have k: "ks_Available demo_host"
    by (simp add: demo_host_def LoadPEMBytes_def checkUnsealLock_def NewWithMode_def time_IsZero_def
        parseEncryptedPEM_def demo_ssh_def load_signer_def split: prod.split)
      (simp add: store_signer_def Let_def pool_Add_def NewLocalKeyPool_def ks_Available_def pool_Available_def)
  have x: "rq_conn demo_post = Some demo_conn" "rq_body demo_post = ''body''" "rq_body_fails demo_post = False"
    "ae_lib (demo_env demo_extra) = demo_ssh" "ae_now (demo_env demo_extra) n = 1000 * second"
    "sv_replay (demo_server SignerModeLocalKey demo_host) = serve_cache"
    "sv_keystore (demo_server SignerModeLocalKey demo_host) = demo_host" for n
    by (simp_all add: demo_post_def demo_env_def demo_server_def)
  have n: "sr_AgentSignData demo_unbound \<noteq> []" "length (sr_AgentSignData demo_unbound) \<le> maxAgentSignDataB64"
    by (simp_all add: demo_unbound_def maxAgentSignDataB64_def)
  have "handleSign (demo_env demo_extra) demo_post (demo_server SignerModeLocalKey demo_host) =
      sign_admitted (demo_env demo_extra) demo_post demo_unbound (Fingerprint demo_hostkey) dst ?s"
    using q m v k x n r d by (simp add: handleSign_def Let_def ReadAll_def maxSignRequestBody_def)
  with rejected(1,3) show ?thesis by (auto simp: sign_admitted_def Let_def split: prod.splits if_splits)
qed

theorem unbound_never_leases_witness:
  "\<exists>s' jobs i e. handleSign (demo_env demo_extra) demo_post (demo_server SignerModeLocalKey demo_host) = (s', tx_response i, jobs)
     \<and> map_of (st_txs (sv_store s')) ''tx_1'' = Some e \<and> tx_State (te_tx e) = StatePending
     \<and> st_leases (Approve demo_ssh 0 0 demo_host ''tx_1'' hour ''telegram:7'' (sv_store s')) = Some lease_NewStore"
proof -
  obtain s' jobs i where h: "handleSign (demo_env demo_extra) demo_post (demo_server SignerModeLocalKey demo_host) = (s', tx_response i, jobs)"
    using demo_unbound_posted by blast
  have u: "newTxID (ae_ulid (demo_env demo_extra)) = ''tx_1''" by (simp add: demo_env_def newTxID_def)
  have c: "cfg_SignerMode (sv_cfg (demo_server SignerModeLocalKey demo_host)) = SignerModeLocalKey"
    and b: "sb_HostPublicKey (sr_SessionBinding demo_unbound) = []"
    and l: "st_leases (sv_store (demo_server SignerModeLocalKey demo_host)) = Some lease_NewStore"
    by (simp_all add: demo_server_def demo_unbound_def demo_req_def SetConfig_def SetKeySigner_def SetLeases_def zero_Config_def)
  from unbound_never_leases [OF h _ c demo_unbound_request b, of demo_ssh 0 0 demo_host hour "''telegram:7''"] h u l
  show ?thesis by (metis status_simps(3))
qed

section \<open>Collecting the result\<close>

lemma clientCertFP_nonempty: "peer_cert r \<noteq> None \<Longrightarrow> clientCertFPFromRequest r \<noteq> []"
proof -
  assume "peer_cert r \<noteq> None"
  then obtain c where "peer_cert r = Some c" by blast
  moreover have "hex_EncodeToString (sha256_Sum256 (xc_Raw c)) \<noteq> []"
    using sha256_length [of "xc_Raw c"] hex_Encode_length [of "sha256_Sum256 (xc_Raw c)"] by fastforce
  ultimately show ?thesis by (simp add: clientCertFPFromRequest_def clientCertFingerprint_def)
qed

lemma handleWait_other_client:
  assumes "map_of (st_txs (sv_store s)) (rq_PathValue w ''tx_id'') = Some e"
    and "tx_ClientCertFP (te_tx e) \<noteq> []" and "clientCertFPFromRequest w \<noteq> tx_ClientCertFP (te_tx e)"
  shows "handleWait ctx env w s = (s, http_Error (error_text ErrWaitClientMismatch) 403, [])"
  using assms by (simp add: handleWait_def store_ClientCertFP_def)

lemma posted_owner:
  assumes "handleSign env r s = (s', resp, jobs)" and "rp_status resp = 202"
  shows "\<exists>e. map_of (st_txs (sv_store s')) (newTxID (ae_ulid env)) = Some e \<and> tx_ClientCertFP (te_tx e) = clientCertFPFromRequest r"
proof (cases rule: handleSign_cases [of env r s])
  case (rejected s'' resp')
  with assms show ?thesis by auto
next
  case (admitted req hfp dst replay)
  with assms(1) have "sign_admitted env r req hfp dst (s\<lparr>sv_replay := replay\<rparr>) = (s', resp, jobs)" by simp
  then show ?thesis
  proof (cases rule: sign_admitted_cases)
    case (hit res tx)
    from CreateInstantApproved_entry [OF hit(4)] show ?thesis by auto
  next
    case (new tx calls jobs')
    from CreateBound_entry [OF new(1)] show ?thesis by (auto simp: new_transaction_def)
  qed
qed

section \<open>From post to credential\<close>

lemma Approve_answers:
  assumes "approval_inv s" and "map_of (st_txs s) txID = Some e" and "tx_State (te_tx e) = StatePending"
    and "0 < ttl" and "issueForTransaction lib now' ks s (te_tx e) (now + ttl) = Inr res"
  shows "\<exists>e'. map_of (st_txs (Approve lib now now' ks txID ttl ap s)) txID = Some e'
    \<and> te_result e' = Some (res\<lparr>rs_LeaseExpiresAt := now + ttl\<rparr>) \<and> tx_ClientCertFP (te_tx e') = tx_ClientCertFP (te_tx e)"
  using assms(4) approve_pending [OF assms(1-3,5), of ap]
  by (simp add: Approve_def finishLocked_def finish_entry_def chan_send_def split: option.split list.split)

lemma issue_ok: "issueForTransaction lib now ks s tx u = Inr res \<Longrightarrow> rs_Err res = None"
  by (auto simp: issueForTransaction_def zero_Result_def split: if_splits option.splits sum.splits)

text \<open>
  (C11) The whole path works: when an accepted post of a client with a certificate waits for
  approval, the approver approves it for a positive time and the credential can be issued, then the
  client's wait is answered with 200 and exactly that credential, and the transaction is gone.
\<close>

theorem sign_approve_wait:
  assumes "withMTLS handleSign env r s = (s', resp, jobs)" and "rp_status resp = 202"
    and "approval_inv (sv_store s')" and "map_of (st_txs (sv_store s')) txID = Some e" and "txID = newTxID (ae_ulid env)"
    and "te_result e = None" and "0 < ttl"
    and "issueForTransaction lib now' ks (sv_store s') (te_tx e) (now + ttl) = Inr res"
    and "s'' = s'\<lparr>sv_store := Approve lib now now' ks txID ttl ap (sv_store s')\<rparr>"
    and "clientCertFPFromRequest w = clientCertFPFromRequest r" and "rq_PathValue w ''tx_id'' = txID"
  shows "\<exists>s3. withMTLS (handleWait ctx) env' w s'' =
      (s3, json_response 200 (wait_json (ae_now env' 0) \<lparr>wa_cert = rs_Cert res, wa_signature = rs_Signature res,
         wa_expiresAt = rs_ExpiresAt res, wa_leaseExpiresAt = now + ttl\<rparr>), [])
      \<and> map_of (st_txs (sv_store s3)) txID = None"
proof -
  from assms(1,2) have peer: "peer_cert r \<noteq> None" and h: "handleSign env r s = (s', resp, jobs)"
    by (auto simp: withMTLS_def split: option.splits)
  have facts: "tx_State (te_tx e) = StatePending \<and> tx_ClientCertFP (te_tx e) = clientCertFPFromRequest r"
  proof (cases rule: handleSign_cases [of env r s])
    case (rejected s'' resp')
    with h assms(2) show ?thesis by auto
  next
    case (admitted req hfp dst replay)
    from h admitted(2) have "sign_admitted env r req hfp dst (s\<lparr>sv_replay := replay\<rparr>) = (s', resp, jobs)" by simp
    then show ?thesis
    proof (cases rule: sign_admitted_cases)
      case (hit res' tx)
      from CreateInstantApproved_entry [OF hit(4)] assms(4-6) show ?thesis by auto
    next
      case (new tx calls jobs')
      from CreateBound_entry [OF new(1)] assms(4,5) show ?thesis by (auto simp: new_transaction_def)
    qed
  qed
  from Approve_answers [OF assms(3,4) conjunct1 [OF facts] assms(7,8), of ap] obtain e' where
      e': "map_of (st_txs (sv_store s'')) txID = Some e'" "te_result e' = Some (res\<lparr>rs_LeaseExpiresAt := now + ttl\<rparr>)"
        "tx_ClientCertFP (te_tx e') = clientCertFPFromRequest r"
    using facts assms(9) by auto
  have w: "Wait ctx txID (sv_store s'') = (remove_tx txID (sv_store s''), answer_of (res\<lparr>rs_LeaseExpiresAt := now + ttl\<rparr>))"
    by (rule Wait_finished [OF e'(1,2)])
  have peer': "peer_cert w \<noteq> None"
    using assms(10) clientCertFP_nonempty [OF peer]
    by (cases "peer_cert w") (auto simp: clientCertFPFromRequest_def clientCertFingerprint_def)
  show ?thesis using w e'(1,3) peer' issue_ok [OF assms(8)] assms(10,11)
    by (auto simp: withMTLS_def handleWait_def store_ClientCertFP_def answer_of_def remove_tx_def)
qed

definition demo_tx_args :: tx_args where
  "demo_tx_args = \<lparr>ta_targetUser = ''deploy'', ta_targetIP = ''10.0.1.50'', ta_publicKey = ''key'',
     ta_sourceIP = ''203.0.113.10'', ta_clientCertFP = clientCertFPFromRequest demo_post, ta_agentSignData = [],
     ta_hostKeyFP = [], ta_destinationHostKeyFP = [], ta_client = signClientMeta (demo_req ''body'')\<rparr>"

lemma demo_no_lease:
  "IssueFromLease lib t1 t2 t3 t4 ks k pub d fp (sv_store (demo_server mode ks')) = (zero_Result, False)"
  by (simp add: IssueFromLease_def demo_server_def SetConfig_def SetKeySigner_def SetLeases_def zero_Config_def
      lease_FindActive_def lease_NewStore_def Let_def)

lemma demo_posted_store:
  "\<exists>s' jobs. handleSign (demo_env []) demo_post (demo_server SignerModeLocalCA demo_ca) = (s', tx_response ''tx_1'', jobs)
     \<and> sv_store s' = fst (CreateBound ''1'' (1000 * second) demo_tx_args (sv_store (demo_server SignerModeLocalCA demo_ca)))"
proof -
  obtain s' jobs where h: "handleSign (demo_env []) demo_post (demo_server SignerModeLocalCA demo_ca) = (s', tx_response ''tx_1'', jobs)"
    using demo_posted by blast
  have "sv_store s' = fst (CreateBound ''1'' (1000 * second) demo_tx_args (sv_store (demo_server SignerModeLocalCA demo_ca)))"
  proof (cases rule: handleSign_cases [of "demo_env []" demo_post "demo_server SignerModeLocalCA demo_ca"])
    case (rejected s'' resp')
    with h show ?thesis by auto
  next
    case (admitted req fp dst replay)
    have "request_of (demo_env []) demo_post = Some (demo_req ''body'')"
      by (simp add: request_of_def demo_request) (simp add: demo_post_def demo_req_def)
    with admits_request [OF admitted(1)] have req: "req = demo_req ''body''" by simp
    have d: "fp = [] \<and> dst = \<lparr>dn_hostKeyFP = [], dn_meta = signClientMeta (demo_req ''body''), dn_allowLease = True\<rparr>"
      using admitted(1) req by (auto simp: admits_def resolveHostKeyFingerprint_def check_destination_def demo_server_def
          SignerModeLocalCA_def SignerModeLocalKey_def Let_def)
    from h admitted(2) have "sign_admitted (demo_env []) demo_post req fp dst
        ((demo_server SignerModeLocalCA demo_ca)\<lparr>sv_replay := replay\<rparr>) = (s', tx_response ''tx_1'', jobs)" by simp
    then show ?thesis
    proof (cases rule: sign_admitted_cases)
      case (hit res tx)
      then show ?thesis using demo_no_lease by simp
    next
      case (new tx calls jobs')
      have "clientIPFromRemoteAddr (rq_RemoteAddr demo_post) = ''203.0.113.10''" by (simp add: demo_post_def demo_source)
      with new(1) req d show ?thesis by (simp add: demo_env_def demo_tx_args_def demo_req_def)
    qed
  qed
  with h show ?thesis by blast
qed

theorem sign_approve_wait_witness:
  "\<exists>s' jobs. withMTLS handleSign (demo_env []) demo_post (demo_server SignerModeLocalCA demo_ca) = (s', tx_response ''tx_1'', jobs)
     \<and> rp_status (fst (snd (withMTLS (handleWait ErrContextCanceled) (demo_env []) demo_post
          (s'\<lparr>sv_store := Approve demo_ssh (1000 * second) (1000 * second) demo_ca ''tx_1'' minute ''telegram:7'' (sv_store s')\<rparr>)))) = 200"
proof -
  let ?st = "sv_store (demo_server SignerModeLocalCA demo_ca)"
  obtain s' jobs where h: "handleSign (demo_env []) demo_post (demo_server SignerModeLocalCA demo_ca) = (s', tx_response ''tx_1'', jobs)"
    and st: "sv_store s' = fst (CreateBound ''1'' (1000 * second) demo_tx_args ?st)" using demo_posted_store by blast
  obtain s1 tx calls where c: "CreateBound ''1'' (1000 * second) demo_tx_args ?st = (s1, tx, calls)" by (metis prod_cases3)
  have id1: "newTxID ''1'' = ''tx_1''" by (simp add: newTxID_def)
  note entry = CreateBound_entry [OF c, unfolded id1]
  let ?e = "\<lparr>te_tx = tx, te_result = None, te_timer = Some Armed, te_waiters = 0\<rparr>"
  have "approval_inv ?st"
    by (simp add: demo_server_def SetConfig_def zero_Config_def approval_inv_def approval_NewStore_def SetLeases_def
        SetIssuer_def SetKeySigner_def lease_inv_init)
  then have inv: "approval_inv (sv_store s')"
    unfolding st CreateBound_def Let_def fst_conv by (intro arm_timer_inv create_locked_inv)
  have e: "map_of (st_txs (sv_store s')) ''tx_1'' = Some ?e" using entry st c by simp
  have p: "peer_cert demo_post \<noteq> None" by (simp add: demo_post_def peer_cert_def)
  then have m: "withMTLS handleSign (demo_env []) demo_post (demo_server SignerModeLocalCA demo_ca) = (s', tx_response ''tx_1'', jobs)"
    using h by (auto simp: withMTLS_def)
  have cfg: "st_cfg s1 = zero_Config\<lparr>cfg_SignerMode := SignerModeLocalCA\<rparr>" "st_issuer s1 = Some LocalCA"
    using entry by (simp_all add: demo_server_def SetConfig_def SetKeySigner_def SetLeases_def SetIssuer_def zero_Config_def)
  have tx: "tx = new_transaction ''tx_1'' (1000 * second) demo_tx_args" using entry by simp
  have issue: "\<exists>res. issueForTransaction demo_ssh (1000 * second) demo_ca (sv_store s') (te_tx ?e) (1000 * second + minute) = Inr res"
    using st c cfg tx
    by (simp add: issueForTransaction_def signerMode_def SignerModeLocalKey_def SignerModeLocalCA_def new_transaction_def
        demo_tx_args_def IssueCert_def demo_ca_def NewWithMode_def SSHSigner_def demo_ssh_def user_cert_def uint64_def
        time_Unix_def duration_defs)
  then obtain res where r: "issueForTransaction demo_ssh (1000 * second) demo_ca (sv_store s') (te_tx ?e) (1000 * second + minute) = Inr res" by blast
  have g: "''tx_1'' = newTxID (ae_ulid (demo_env []))" "rq_PathValue demo_post ''tx_id'' = ''tx_1''" "(0 :: int) < minute"
    by (simp_all add: demo_env_def newTxID_def demo_post_def duration_defs)
  from sign_approve_wait [where ap = "''telegram:7''" and ctx = ErrContextCanceled and env' = "demo_env []",
      OF m _ inv e g(1) _ g(3) r refl refl g(2)] m
  show ?thesis by fastforce
qed

end
