(* ===== verification/Device_Api.thy ===== *)
theory Device_Api
  imports Sign_Api
begin

text \<open>
  The handlers of the devices: mobile approvers (\<open>api/mobile_handler.go\<close>, \<open>api/device_auth.go\<close>,
  \<open>api/keys_pending_handler.go\<close>), CLI clients (\<open>api/cli_handler.go\<close>, \<open>api/cli_keys_load_parse.go\<close>,
  \<open>api/auth_cli.go\<close>) and clients that enrol with a token (\<open>api/mtls_bootstrap_handler.go\<close>).
\<close>

section \<open>Signatures by devices\<close>

definition ed25519_SignatureSize :: nat where
  "ed25519_SignatureSize = 64"

definition verifyDeviceSignature ::
  "(bytes \<Rightarrow> bytes \<Rightarrow> bytes \<Rightarrow> bool) \<Rightarrow> bytes \<Rightarrow> bytes \<Rightarrow> string \<Rightarrow> gotime \<Rightarrow> int \<Rightarrow> go_error option" where
  "verifyDeviceSignature verify pub payload sigHex now ts =
     (if ts < wrap64 (time_Unix now - 30) \<or> wrap64 (time_Unix now + 30) < ts then Some ErrDeviceTimestamp
      else case hex_DecodeString sigHex of
             None \<Rightarrow> Some ErrInvalidDeviceSignature
           | Some sig \<Rightarrow>
               if length sig \<noteq> ed25519_SignatureSize then Some ErrInvalidDeviceSignature
               else if \<not> verify pub payload sig then Some ErrInvalidDeviceSignature else None)"

definition writeDeviceAuthError :: "go_error \<Rightarrow> http_response" where
  "writeDeviceAuthError err =
     (if err = ErrDeviceTimestamp then http_Error (error_text ErrDeviceTimestamp) 400 else http_Error ''forbidden'' 403)"

section \<open>Mobile approvers\<close>

record mobileEnrollRequest =
  me_Label :: string
  me_DevicePubKey :: string
  me_CertFingerprint :: string

definition enroll_fields :: "mobileEnrollRequest json_field list" where
  "enroll_fields =
     [string_field ''label'' (\<lambda>v q. q\<lparr>me_Label := v\<rparr>),
      string_field ''device_pubkey'' (\<lambda>v q. q\<lparr>me_DevicePubKey := v\<rparr>),
      string_field ''cert_fingerprint'' (\<lambda>v q. q\<lparr>me_CertFingerprint := v\<rparr>)]"

definition zero_mobileEnroll :: mobileEnrollRequest where
  "zero_mobileEnroll = \<lparr>me_Label = [], me_DevicePubKey = [], me_CertFingerprint = []\<rparr>"

definition maxMobileBody :: nat where
  "maxMobileBody = 64 * 1024"

definition handleMobileEnroll :: handler where
  "handleMobileEnroll env r s =
     (case ReadAll maxMobileBody r of
        Inl _ \<Rightarrow> (s, http_Error ''read body'' 400, [])
      | Inr raw \<Rightarrow>
     (case Unmarshal (ae_js env) enroll_fields raw zero_mobileEnroll of
        None \<Rightarrow> (s, http_Error ''invalid json'' 400, [])
      | Some req \<Rightarrow>
          if me_CertFingerprint req = [] then (s, http_Error ''cert_fingerprint required'' 400, [])
          else case EnrollBound (ae_ulid env) (ae_now env 0) (me_Label req) (me_DevicePubKey req) (me_CertFingerprint req)
                      (sv_mobile s) of
                 (m, Inl err) \<Rightarrow>
                   (s\<lparr>sv_mobile := m\<rparr>,
                    if errors_Is err ErrEmptyLabel then http_Error (error_text ErrEmptyLabel) 400
                    else if errors_Is err ErrInvalidKey then http_Error (error_text ErrInvalidKey) 400
                    else http_Error ''enroll failed'' 500, [])
               | (m, Inr dev) \<Rightarrow>
                   (s\<lparr>sv_mobile := m\<rparr>, json_response 200 (JObject [(''device_id'', JString (md_ID dev))]), [])))"

definition handleMobileDeleteDevice :: handler where
  "handleMobileDeleteDevice env r s =
     (let devID = rq_PathValue r ''device_id''
      in if devID = [] then (s, http_Error ''device_id required'' 400, [])
         else case mobile_Delete devID (sv_mobile s) of
                (m, Inl err) \<Rightarrow>
                  (s\<lparr>sv_mobile := m\<rparr>,
                   if errors_Is err ErrMobileNotFound then http_Error ''not found'' 404 else http_Error ''delete failed'' 500, [])
              | (m, Inr _) \<Rightarrow> (s\<lparr>sv_mobile := m\<rparr>, bare_response 204, []))"

record mobileApproveRequest =
  ma_TxID :: string
  ma_Action :: string
  ma_TTLSeconds :: int
  ma_DeviceID :: string
  ma_Timestamp :: int
  ma_Signature :: string

definition approve_fields :: "mobileApproveRequest json_field list" where
  "approve_fields =
     [string_field ''tx_id'' (\<lambda>v q. q\<lparr>ma_TxID := v\<rparr>),
      string_field ''action'' (\<lambda>v q. q\<lparr>ma_Action := v\<rparr>),
      int_field ''ttl_seconds'' (\<lambda>v q. q\<lparr>ma_TTLSeconds := v\<rparr>),
      string_field ''device_id'' (\<lambda>v q. q\<lparr>ma_DeviceID := v\<rparr>),
      int_field ''timestamp'' (\<lambda>v q. q\<lparr>ma_Timestamp := v\<rparr>),
      string_field ''signature'' (\<lambda>v q. q\<lparr>ma_Signature := v\<rparr>)]"

definition zero_mobileApprove :: mobileApproveRequest where
  "zero_mobileApprove = \<lparr>ma_TxID = [], ma_Action = [], ma_TTLSeconds = 0, ma_DeviceID = [], ma_Timestamp = 0, ma_Signature = []\<rparr>"

text \<open>The document the device signs, \<open>mobileApproveSignPayload\<close>.\<close>

definition approve_payload :: "mobileApproveRequest \<Rightarrow> json" where
  "approve_payload req = JObject
     [(''tx_id'', JString (ma_TxID req)), (''action'', JString (ma_Action req)), (''ttl_seconds'', JInt (ma_TTLSeconds req)),
      (''device_id'', JString (ma_DeviceID req)), (''timestamp'', JInt (ma_Timestamp req))]"

definition approve_ttl :: "Config \<Rightarrow> mobileApproveRequest \<Rightarrow> duration option" where
  "approve_ttl cfg req =
     (let ttl = wrap64 (ma_TTLSeconds req * second)
      in if ttl \<le> 0 then Some (DefaultTTLFromAllowed (cfg_AllowedTTLSeconds cfg))
         else if \<not> TTLAllowed (ma_TTLSeconds req) (cfg_AllowedTTLSeconds cfg) then None
         else Some ttl)"

definition handleMobileApprove :: handler where
  "handleMobileApprove env r s =
     (case ReadAll maxMobileBody r of
        Inl _ \<Rightarrow> (s, http_Error ''read body'' 400, [])
      | Inr raw \<Rightarrow>
     (case Unmarshal (ae_js env) approve_fields raw zero_mobileApprove of
        None \<Rightarrow> (s, http_Error ''invalid json'' 400, [])
      | Some req \<Rightarrow>
          if ma_Action req \<noteq> ''approve'' then (s, http_Error ''unsupported action'' 400, [])
          else if ma_TxID req = [] \<or> ma_DeviceID req = [] \<or> ma_Signature req = [] then (s, http_Error ''missing fields'' 400, [])
          else
     (case mobile_Get (ma_DeviceID req) (sv_mobile s) of
        None \<Rightarrow> (s, http_Error ''unknown device'' 403, [])
      | Some dev \<Rightarrow>
          if clientCertFPFromRequest r \<noteq> md_CertFingerprint dev
          then (s, http_Error ''mobile client certificate mismatch'' 403, [])
          else
     (case verifyDeviceSignature (ae_ed25519_Verify env) (md_PubKey dev) (js_print (ae_js env) (approve_payload req))
             (ma_Signature req) (ae_now env 0) (ma_Timestamp req) of
        Some err \<Rightarrow> (s, writeDeviceAuthError err, [])
      | None \<Rightarrow>
     (case approve_ttl (sv_cfg s) req of
        None \<Rightarrow> (s, http_Error ''ttl not allowed'' 400, [])
      | Some ttl \<Rightarrow>
          (s\<lparr>sv_store := Approve (ae_lib env) (ae_now env 1) (ae_now env 2) (sv_keystore s) (ma_TxID req) ttl
              (FormatApproverDeviceID (ma_DeviceID req)) (sv_store s)\<rparr>, bare_response 200, []))))))"

section \<open>Uploading a key for confirmation\<close>

record mobileKeysPendingRequest =
  mp_DeviceID :: string
  mp_EncryptedPEM :: string
  mp_Label :: string
  mp_Comment :: string
  mp_Timestamp :: int
  mp_Signature :: string

definition pending_fields :: "mobileKeysPendingRequest json_field list" where
  "pending_fields =
     [string_field ''device_id'' (\<lambda>v q. q\<lparr>mp_DeviceID := v\<rparr>),
      string_field ''encrypted_pem'' (\<lambda>v q. q\<lparr>mp_EncryptedPEM := v\<rparr>),
      string_field ''label'' (\<lambda>v q. q\<lparr>mp_Label := v\<rparr>),
      string_field ''comment'' (\<lambda>v q. q\<lparr>mp_Comment := v\<rparr>),
      int_field ''timestamp'' (\<lambda>v q. q\<lparr>mp_Timestamp := v\<rparr>),
      string_field ''signature'' (\<lambda>v q. q\<lparr>mp_Signature := v\<rparr>)]"

definition zero_mobileKeysPending :: mobileKeysPendingRequest where
  "zero_mobileKeysPending =
     \<lparr>mp_DeviceID = [], mp_EncryptedPEM = [], mp_Label = [], mp_Comment = [], mp_Timestamp = 0, mp_Signature = []\<rparr>"

definition pending_payload :: "mobileKeysPendingRequest \<Rightarrow> json" where
  "pending_payload req = JObject
     ([(''device_id'', JString (mp_DeviceID req)), (''encrypted_pem'', JString (mp_EncryptedPEM req)),
       (''label'', JString (mp_Label req))] @ omit_string ''comment'' (mp_Comment req) @
      [(''timestamp'', JInt (mp_Timestamp req))])"

definition maxPendingKeyBody :: nat where
  "maxPendingKeyBody = 64 * 1024"

definition peer_is_admin :: "http_request \<Rightarrow> server \<Rightarrow> bool" where
  "peer_is_admin r s =
     (case peer_cert r of None \<Rightarrow> False | Some c \<Rightarrow> adminClientAllowed (cfg_AdminClientOU (sv_cfg s)) c)"

definition handleMobileKeysPending :: handler where
  "handleMobileKeysPending env r s =
     (if peer_is_admin r s then (s, http_Error ''automation/admin cert cannot upload keys'' 403, [])
      else
     (case ReadAll maxPendingKeyBody r of
        Inl _ \<Rightarrow> (s, http_Error ''read body'' 400, [])
      | Inr raw \<Rightarrow>
     (case Unmarshal (ae_js env) pending_fields raw zero_mobileKeysPending of
        None \<Rightarrow> (s, http_Error ''invalid json'' 400, [])
      | Some req \<Rightarrow>
          if mp_DeviceID req = [] \<or> mp_EncryptedPEM req = [] \<or> mp_Label req = [] \<or> mp_Signature req = []
          then (s, http_Error ''device_id, encrypted_pem, label, and signature required'' 400, [])
          else if mp_Timestamp req = 0 then (s, http_Error ''timestamp required'' 400, [])
          else
     (case mobile_Get (mp_DeviceID req) (sv_mobile s) of
        None \<Rightarrow> (s, http_Error ''unknown device'' 403, [])
      | Some dev \<Rightarrow>
          if clientCertFPFromRequest r \<noteq> md_CertFingerprint dev
          then (s, http_Error ''mobile client certificate mismatch'' 403, [])
          else
     (case verifyDeviceSignature (ae_ed25519_Verify env) (md_PubKey dev) (js_print (ae_js env) (pending_payload req))
             (mp_Signature req) (ae_now env 0) (mp_Timestamp req) of
        Some err \<Rightarrow> (s, writeDeviceAuthError err, [])
      | None \<Rightarrow>
     (case StdEncoding_DecodeString (mp_EncryptedPEM req) of
        None \<Rightarrow> (s, http_Error ''invalid encrypted_pem'' 400, [])
      | Some blob \<Rightarrow>
     (case pending_Add (ae_ulid env) (ae_now env 1) (mp_DeviceID req) (mp_Label req) (mp_Comment req) blob (sv_pending s) of
        (p, Inl err) \<Rightarrow>
          (s\<lparr>sv_pending := p\<rparr>,
           if err = ErrPendingFull then http_Error ''pending queue full'' 429 else http_Error ''upload failed'' 500, [])
      | (p, Inr pid) \<Rightarrow>
          (s\<lparr>sv_pending := p\<rparr>, json_response 202 (JObject [(''pending_id'', JString pid)]), []))))))))"

section \<open>CLI clients\<close>

record cliEnrollRequest =
  ce_Label :: string
  ce_CSRPEM :: string

definition cli_enroll_fields :: "cliEnrollRequest json_field list" where
  "cli_enroll_fields =
     [string_field ''label'' (\<lambda>v q. q\<lparr>ce_Label := v\<rparr>), string_field ''csr_pem'' (\<lambda>v q. q\<lparr>ce_CSRPEM := v\<rparr>)]"

definition maxCLIEnrollBody :: nat where
  "maxCLIEnrollBody = 64 * 1024"

definition maxCLIKeyLoadBody :: nat where
  "maxCLIKeyLoadBody = 64 * 1024"

definition label_error :: "go_error \<Rightarrow> string \<Rightarrow> http_response" where
  "label_error err other =
     (if errors_Is err ErrCliEmptyLabel then http_Error (error_text ErrCliEmptyLabel) 400
      else if errors_Is err ErrLabelTooLong then http_Error (error_text ErrLabelTooLong) 400
      else http_Error other 400)"

definition csr_error :: "go_error \<Rightarrow> string \<Rightarrow> http_response" where
  "csr_error err unconfigured =
     (if errors_Is err ErrCSRInvalid then http_Error (error_text ErrCSRInvalid) 400
      else if errors_Is err ErrCANotConfigured then http_Error unconfigured 503
      else http_Error ''sign failed'' 500)"

definition cli_enroll_error :: "go_error \<Rightarrow> http_response" where
  "cli_enroll_error err =
     (if errors_Is err ErrCliEmptyLabel then http_Error (error_text ErrCliEmptyLabel) 400
      else if errors_Is err ErrLabelTooLong then http_Error (error_text ErrLabelTooLong) 400
      else if errors_Is err ErrDuplicateFingerprint then http_Error (error_text ErrDuplicateFingerprint) 409
      else http_Error ''enroll failed'' 500)"

definition handleCLIEnroll :: handler where
  "handleCLIEnroll env r s =
     (case sv_csrSigner s of
        None \<Rightarrow> (s, http_Error ''CLI CSR signing not configured'' 503, [])
      | Some signer \<Rightarrow>
     (case ReadAll maxCLIEnrollBody r of
        Inl _ \<Rightarrow> (s, http_Error ''read body'' 400, [])
      | Inr raw \<Rightarrow>
     (case Unmarshal (ae_js env) cli_enroll_fields raw \<lparr>ce_Label = [], ce_CSRPEM = []\<rparr> of
        None \<Rightarrow> (s, http_Error ''invalid json'' 400, [])
      | Some req \<Rightarrow>
          if ce_CSRPEM req = [] then (s, http_Error ''csr_pem required'' 400, [])
          else
     (case ValidateLabel (ce_Label req) of
        Some err \<Rightarrow> (s, label_error err ''invalid label'', [])
      | None \<Rightarrow>
     (case csr_Sign (ae_x5 env) (ae_serial env) (ae_now env 0) (ce_CSRPEM req) signer of
        Inl err \<Rightarrow> (s, csr_error err ''CLI CSR signing not configured'', [])
      | Inr (certPEM, fp) \<Rightarrow>
     (case cli_Enroll (ae_ulid env) (ae_now env 1) (ce_Label req) fp (sv_cli s) of
        (c, Inl err) \<Rightarrow> (s\<lparr>sv_cli := c\<rparr>, cli_enroll_error err, [])
      | (c, Inr dev) \<Rightarrow>
          (s\<lparr>sv_cli := c\<rparr>,
           json_response 201 (JObject [(''device_id'', JString (cd_ID dev)), (''certificate_pem'', JString certPEM)]), [])))))))"

definition cli_device_json :: "cli_Device \<Rightarrow> json" where
  "cli_device_json d = JObject
     [(''device_id'', JString (cd_ID d)), (''label'', JString (cd_Label d)),
      (''cert_fingerprint'', JString (cd_CertFingerprint d)), (''enrolled_at'', JString (Format_RFC3339 (cd_EnrolledAt d)))]"

definition handleCLIListDevices :: handler where
  "handleCLIListDevices env r s =
     (s, json_response 200 (JObject [(''devices'', JArray (map cli_device_json (cli_List (sv_cli s))))]), [])"

definition handleCLIDeleteDevice :: handler where
  "handleCLIDeleteDevice env r s =
     (let devID = rq_PathValue r ''device_id''
      in if devID = [] then (s, http_Error ''device_id required'' 400, [])
         else case cli_Delete devID (sv_cli s) of
                (c, Inl err) \<Rightarrow>
                  (s\<lparr>sv_cli := c\<rparr>,
                   if errors_Is err ErrCliNotFound then http_Error ''not found'' 404 else http_Error ''delete failed'' 500, [])
              | (c, Inr _) \<Rightarrow>
                  (s\<lparr>sv_cli := c, sv_loadLimiter := Forget devID (sv_loadLimiter s)\<rparr>, bare_response 204, []))"

section \<open>Loading a key from a CLI client\<close>

record parsedCLIKeysLoad =
  pl_EncryptedPEM :: string
  pl_Passphrase :: bytes
  pl_Label :: string
  pl_Comment :: string
  pl_Timestamp :: int

text \<open>The wire struct keeps the passphrase as a raw message, \<open>None\<close> when it is missing.\<close>

definition load_fields :: "(parsedCLIKeysLoad \<times> json option) json_field list" where
  "load_fields =
     [string_field ''encrypted_pem'' (\<lambda>v (q, p). (q\<lparr>pl_EncryptedPEM := v\<rparr>, p)),
      raw_field ''passphrase'' (\<lambda>v (q, p). (q, Some v)),
      string_field ''label'' (\<lambda>v (q, p). (q\<lparr>pl_Label := v\<rparr>, p)),
      string_field ''comment'' (\<lambda>v (q, p). (q\<lparr>pl_Comment := v\<rparr>, p)),
      int_field ''timestamp'' (\<lambda>v (q, p). (q\<lparr>pl_Timestamp := v\<rparr>, p))]"

definition decodeJSONStringField :: "json option \<Rightarrow> bytes option" where
  "decodeJSONStringField raw =
     (case raw of None \<Rightarrow> None | Some JNull \<Rightarrow> Some [] | Some (JString v) \<Rightarrow> Some v | Some _ \<Rightarrow> None)"

definition parseCLIKeysLoadBody :: "json_lib \<Rightarrow> bytes \<Rightarrow> parsedCLIKeysLoad option" where
  "parseCLIKeysLoadBody js raw =
     (case Unmarshal js load_fields raw
             (\<lparr>pl_EncryptedPEM = [], pl_Passphrase = [], pl_Label = [], pl_Comment = [], pl_Timestamp = 0\<rparr>, None) of
        None \<Rightarrow> None
      | Some (wire, pass) \<Rightarrow>
          (case decodeJSONStringField pass of None \<Rightarrow> None | Some p \<Rightarrow> Some (wire\<lparr>pl_Passphrase := p\<rparr>)))"

definition writeCLIKeysLoadError :: "int \<Rightarrow> string \<Rightarrow> string \<Rightarrow> http_response" where
  "writeCLIKeysLoadError status code msg =
     json_response status (JObject [(''code'', JString code), (''error'', JString msg)])"

text \<open>\<open>denyCLIKeysLoad\<close> also writes a line to the standard logger, which is left out.\<close>

definition denyCLIKeysLoad :: "int \<Rightarrow> string \<Rightarrow> string \<Rightarrow> http_response" where
  "denyCLIKeysLoad status code msg = writeCLIKeysLoadError status code msg"

definition writeCLIKeysLoadAuthError :: "go_error \<Rightarrow> http_response" where
  "writeCLIKeysLoadAuthError err =
     (if errors_Is err ErrReplay then denyCLIKeysLoad 409 ''REPLAY'' (error_text err)
      else if errors_Is err ErrInvalidHMAC then denyCLIKeysLoad 401 ''INVALID_HMAC'' (error_text err)
      else if errors_Is err ErrTimestampOutsideWindow then denyCLIKeysLoad 401 ''TIMESTAMP'' (error_text err)
      else denyCLIKeysLoad 400 ''AUTH'' (error_text err))"

definition cliDeviceFromPeer :: "x509_cert \<Rightarrow> server \<Rightarrow> cli_Device option" where
  "cliDeviceFromPeer cert s = GetByFingerprint (CertFingerprint cert) (sv_cli s)"

text \<open>Who may load keys: the checks before the body is read.\<close>

definition cli_peer :: "http_request \<Rightarrow> server \<Rightarrow> http_response + cli_Device" where
  "cli_peer r s =
     (case peer_cert r of
        None \<Rightarrow> Inl (denyCLIKeysLoad 401 ''CLIENT_CERT_REQUIRED'' ''client certificate required'')
      | Some peer \<Rightarrow>
          if adminClientAllowed (cfg_AdminClientOU (sv_cfg s)) peer
          then Inl (denyCLIKeysLoad 403 ''FORBIDDEN_ADMIN'' ''automation/admin cert cannot upload keys'')
          else if \<not> cliClientAllowed (cfg_CliClientOU (sv_cfg s)) peer
          then Inl (denyCLIKeysLoad 403 ''FORBIDDEN_CLI_CERT'' ''cli client certificate required'')
          else (case cliDeviceFromPeer peer s of
                  None \<Rightarrow> Inl (denyCLIKeysLoad 403 ''UNKNOWN_DEVICE'' ''unknown cli device'')
                | Some dev \<Rightarrow>
                    if cfg_SignerMode (sv_cfg s) \<noteq> SignerModeLocalKey
                    then Inl (writeCLIKeysLoadError 400 ''SIGNER_MODE'' ''local-key mode required'')
                    else Inr dev))"

text \<open>Loading the key once the request is authenticated. The buffers that the deferred calls
  overwrite are not kept.\<close>

definition cli_load_key :: "api_env \<Rightarrow> cli_Device \<Rightarrow> parsedCLIKeysLoad \<Rightarrow> server \<Rightarrow> reply" where
  "cli_load_key env dev parsed s =
     (case Allowed (ae_now env 2) (cd_ID dev) (sv_loadLimiter s) of
        (lim, False) \<Rightarrow> (s\<lparr>sv_loadLimiter := lim\<rparr>, denyCLIKeysLoad 429 ''RATE_LIMIT'' ''rate limit exceeded'', [])
      | (lim, True) \<Rightarrow>
     (let s1 = s\<lparr>sv_loadLimiter := lim\<rparr>
      in case StdEncoding_DecodeString (pl_EncryptedPEM parsed) of
           None \<Rightarrow> (s1, writeCLIKeysLoadError 400 ''INVALID_PEM'' ''invalid encrypted_pem'', [])
         | Some blob \<Rightarrow>
     (case LoadPEMBytes (ae_lib env) (ae_mlock env) (ae_now env 3) (ae_now env 4) blob (pl_Passphrase parsed) (pl_Label parsed)
             (sv_keystore s1) of
        (k, _, Inl err) \<Rightarrow>
          (s1\<lparr>sv_keystore := k\<rparr>,
           if errors_Is err ErrUnsealLocked then writeCLIKeysLoadError 403 ''LOCKED'' (error_text err)
           else writeCLIKeysLoadError 403 ''LOAD_FAILED'' ''load failed'', [])
      | (k, _, Inr fp) \<Rightarrow>
          (s1\<lparr>sv_keystore := k, sv_loadLimiter := fst (TryRecordSuccess (ae_now env 5) (cd_ID dev) lim)\<rparr>,
           json_response 200 (JObject [(''fingerprint'', JString fp)]), []))))"

definition handleCLIKeysLoad :: handler where
  "handleCLIKeysLoad env r s =
     (case cli_peer r s of
        Inl resp \<Rightarrow> (s, resp, [])
      | Inr dev \<Rightarrow>
     (case ReadAll maxCLIKeyLoadBody r of
        Inl _ \<Rightarrow> (s, writeCLIKeysLoadError 400 ''READ_BODY'' ''read body'', [])
      | Inr raw \<Rightarrow>
     (case rq_conn r of
        None \<Rightarrow> (s, denyCLIKeysLoad 401 ''TLS_REQUIRED'' ''tls connection required'', [])
      | Some conn \<Rightarrow>
     (case parseCLIKeysLoadBody (ae_js env) raw of
        None \<Rightarrow> (s, writeCLIKeysLoadError 400 ''INVALID_JSON'' ''invalid json'', [])
      | Some parsed \<Rightarrow>
     (case ValidateCLIKeysLoad conn raw (rq_header r ''X-Luna-Body-Mac'') (pl_Timestamp parsed) (ae_now env 0) (ae_now env 1)
             (sv_replay s) of
        (replay, Some err) \<Rightarrow> (s\<lparr>sv_replay := replay\<rparr>, writeCLIKeysLoadAuthError err, [])
      | (replay, None) \<Rightarrow>
     (let s1 = s\<lparr>sv_replay := replay\<rparr>
      in if pl_EncryptedPEM parsed = [] \<or> length (pl_Passphrase parsed) = 0 \<or> pl_Label parsed = []
         then (s1, writeCLIKeysLoadError 400 ''MISSING_FIELDS'' ''encrypted_pem, passphrase, and label required'', [])
         else (case ValidateLabel (pl_Label parsed) of
                 Some err \<Rightarrow> (s1, writeCLIKeysLoadError 400 ''INVALID_LABEL'' (error_text err), [])
               | None \<Rightarrow> cli_load_key env dev parsed s1)))))))"

section \<open>Enrolment with a token\<close>

definition maxMTLSEnrollBody :: nat where
  "maxMTLSEnrollBody = 64 * 1024"

definition mtlsCAContentType :: string where
  "mtlsCAContentType = ''application/x-pem-file''"

definition handleMTLSCA :: handler where
  "handleMTLSCA env r s =
     (let path1 = TrimSpace (cfg_MTLSClientCA (sv_cfg s));
          path = (if path1 = [] then TrimSpace (cfg_MTLSCACertPath (sv_cfg s)) else path1)
      in if path = [] then (s, http_Error ''mTLS CA not configured'' 503, [])
         else case ae_ReadFile env path of
                Inl _ \<Rightarrow> (s, http_Error ''mTLS CA unavailable'' 503, [])
              | Inr pemBytes \<Rightarrow>
                  (s, \<lparr>rp_status = 200, rp_ContentType = mtlsCAContentType, rp_body = RawBody pemBytes\<rparr>, []))"

text \<open>\<open>subtle.ConstantTimeCompare\<close> is equality.\<close>

definition handleMTLSEnroll :: handler where
  "handleMTLSEnroll env r s =
     (let sourceIP = clientIPFromRemoteAddr (rq_RemoteAddr r)
      in case TryRecordSuccess (ae_now env 0) (''mtls-enroll:'' @ sourceIP) (sv_loadLimiter s) of
           (lim, False) \<Rightarrow> (s\<lparr>sv_loadLimiter := lim\<rparr>, http_Error ''rate limit exceeded'' 429, [])
         | (lim, True) \<Rightarrow>
     (let s1 = s\<lparr>sv_loadLimiter := lim\<rparr>
      in case sv_csrSigner s1 of
           None \<Rightarrow> (s1, http_Error ''mTLS enrollment not configured'' 503, [])
         | Some signer \<Rightarrow>
     (let expected = TrimSpace (cfg_MTLSEnrollToken (sv_cfg s1));
          got = TrimSpace (rq_header r ''X-Luna-Enroll-Token'')
      in if expected = [] then (s1, http_Error ''mTLS enrollment disabled (set mtls_enroll_token)'' 403, [])
         else if got \<noteq> expected then (s1, http_Error ''invalid enroll token'' 401, [])
         else (case ReadAll maxMTLSEnrollBody r of
                 Inl _ \<Rightarrow> (s1, http_Error ''invalid body'' 400, [])
               | Inr body \<Rightarrow>
              (case Unmarshal (ae_js env) [string_field ''csr_pem'' (\<lambda>v _. v)] body [] of
                 None \<Rightarrow> (s1, http_Error ''invalid json'' 400, [])
               | Some csrPEM \<Rightarrow>
                   if TrimSpace csrPEM = [] then (s1, http_Error ''csr_pem required'' 400, [])
                   else (case SignAutomation (ae_x5 env) (ae_serial env) (ae_now env 1) csrPEM signer of
                           Inl err \<Rightarrow> (s1, csr_error err ''mTLS enrollment not configured'', [])
                         | Inr (certPEM, _) \<Rightarrow>
                             (s1, json_response 201 (JObject [(''certificate_pem'', JString certPEM)]), [])))))))"

section \<open>The routes\<close>

text \<open>The multiplexer of \<open>NewServer\<close>: one constructor per pattern it registers. A request that matches
  no pattern never reaches the server's state.\<close>

datatype route =
    Healthz | MTLSCA | MTLSEnroll | AdminUnseal | AdminSealStatus | Capabilities | SshSign | SshWait
  | MobileEnroll | MobileDelete | MobileApprove | MobileKeysPending
  | CLIEnroll | CLIList | CLIDelete | CLIKeysLoad

fun serve :: "go_error \<Rightarrow> route \<Rightarrow> handler" where
  "serve ctx Healthz = handleHealthz"
| "serve ctx MTLSCA = handleMTLSCA"
| "serve ctx MTLSEnroll = handleMTLSEnroll"
| "serve ctx AdminUnseal = withAdminMTLS handleUnseal"
| "serve ctx AdminSealStatus = withAdminMTLS handleSealStatus"
| "serve ctx Capabilities = withMTLS handleCapabilities"
| "serve ctx SshSign = withMTLS handleSign"
| "serve ctx SshWait = withMTLS (handleWait ctx)"
| "serve ctx MobileEnroll = withAdminMTLS handleMobileEnroll"
| "serve ctx MobileDelete = withAdminMTLS handleMobileDeleteDevice"
| "serve ctx MobileApprove = withMTLS handleMobileApprove"
| "serve ctx MobileKeysPending = withMTLS handleMobileKeysPending"
| "serve ctx CLIEnroll = withAdminMTLS handleCLIEnroll"
| "serve ctx CLIList = withAdminMTLS handleCLIListDevices"
| "serve ctx CLIDelete = withAdminMTLS handleCLIDeleteDevice"
| "serve ctx CLIKeysLoad = withMTLS handleCLIKeysLoad"

section \<open>What each handler may change\<close>

text \<open>Everything but the transaction store, the replay cache and the log.\<close>

definition sign_frame :: "server \<Rightarrow> server \<Rightarrow> bool" where
  "sign_frame s s' \<longleftrightarrow> (\<exists>st replay l. s' = s\<lparr>sv_store := st, sv_replay := replay, sv_log := l\<rparr>)"

lemma sign_frameD:
  "sign_frame s s' \<Longrightarrow> sv_cfg s' = sv_cfg s \<and> sv_keystore s' = sv_keystore s \<and> sv_mobile s' = sv_mobile s
     \<and> sv_cli s' = sv_cli s \<and> sv_pending s' = sv_pending s \<and> sv_loadLimiter s' = sv_loadLimiter s
     \<and> sv_csrSigner s' = sv_csrSigner s \<and> sv_telegram s' = sv_telegram s"
  by (auto simp: sign_frame_def)

lemma sign_frameI:
  "sv_cfg s' = sv_cfg s \<Longrightarrow> sv_keystore s' = sv_keystore s \<Longrightarrow> sv_mobile s' = sv_mobile s \<Longrightarrow> sv_cli s' = sv_cli s
     \<Longrightarrow> sv_pending s' = sv_pending s \<Longrightarrow> sv_loadLimiter s' = sv_loadLimiter s \<Longrightarrow> sv_csrSigner s' = sv_csrSigner s
     \<Longrightarrow> sv_telegram s' = sv_telegram s \<Longrightarrow> sign_frame s s'"
  unfolding sign_frame_def
  by (intro exI [of _ "sv_store s'"] exI [of _ "sv_replay s'"] exI [of _ "sv_log s'"]) (cases s, cases s', simp)

lemma sign_frame_trans: "sign_frame s t \<Longrightarrow> sign_frame t u \<Longrightarrow> sign_frame s u"
  using sign_frameD [of s t] sign_frameD [of t u] by (intro sign_frameI) simp_all

lemma sign_frame_steps:
  "sign_frame s (s\<lparr>sv_store := x\<rparr>)" "sign_frame s (s\<lparr>sv_replay := y\<rparr>)" "sign_frame s (emitSignLog e s)"
  by (intro sign_frameI; simp add: emitSignLog_def)+

lemma announce_frame: "sign_frame s (fst (announce tx s))"
  by (simp add: announce_def logTelegramEvent_def sign_frame_steps sign_frameI)

lemma sign_admitted_frame: "sign_frame s (fst (sign_admitted env r req fp dst s))"
proof -
  have log: "sign_frame s (logSignRequest r t t' i u p out m s1)" if "sign_frame s s1" for t t' i u p out m s1
    unfolding logSignRequest_def using that sign_frame_steps(3) by (rule sign_frame_trans)
  have ann: "sign_frame s (fst (announce tx (s\<lparr>sv_store := x\<rparr>)))" for tx x
    using sign_frame_steps(1) announce_frame by (rule sign_frame_trans)
  show ?thesis
    unfolding sign_admitted_def Let_def case_prod_beta
    using log [OF sign_frame_steps(1)] log [OF ann] by (simp add: case_prod_beta)
qed

lemma handleSign_frame: "handleSign env r s = (s', resp, jobs) \<Longrightarrow> sign_frame s s'"
proof (cases rule: handleSign_cases [of env r s])
  case (rejected s'' resp')
  assume "handleSign env r s = (s', resp, jobs)"
  with rejected show ?thesis by (auto simp: only_log_and_cache_def intro!: sign_frameI)
next
  case (admitted req fp dst replay)
  assume "handleSign env r s = (s', resp, jobs)"
  with admitted(2) have "s' = fst (sign_admitted env r req fp dst (s\<lparr>sv_replay := replay\<rparr>))" by (metis fst_conv)
  then show ?thesis using sign_frame_trans [OF sign_frame_steps(2) sign_admitted_frame] by simp
qed

lemma handleWait_frame: "handleWait ctx env r s = (s', resp, jobs) \<Longrightarrow> sign_frame s s'"
  by (auto simp: handleWait_def Let_def intro!: sign_frameI split: prod.splits if_splits sum.splits)

lemma handleCapabilities_frame: "handleCapabilities env r s = (s', resp, jobs) \<Longrightarrow> sign_frame s s' \<and> sv_store s' = sv_store s \<and> sv_replay s' = sv_replay s"
  by (auto simp: handleCapabilities_def logCapabilitiesRequest_def emitSignLog_def Let_def intro!: sign_frameI)

text \<open>An approval by a device changes the transaction store, and only when everything is in order.\<close>

lemma handleMobileApprove_cases:
  assumes "handleMobileApprove env r s = (s', resp, jobs)"
  shows "s' = s \<or> (\<exists>req dev ttl.
      Unmarshal (ae_js env) approve_fields (rq_body r) zero_mobileApprove = Some req \<and> ma_Action req = ''approve''
    \<and> mobile_Get (ma_DeviceID req) (sv_mobile s) = Some dev \<and> clientCertFPFromRequest r = md_CertFingerprint dev
    \<and> verifyDeviceSignature (ae_ed25519_Verify env) (md_PubKey dev) (js_print (ae_js env) (approve_payload req))
        (ma_Signature req) (ae_now env 0) (ma_Timestamp req) = None
    \<and> approve_ttl (sv_cfg s) req = Some ttl
    \<and> s' = s\<lparr>sv_store := Approve (ae_lib env) (ae_now env 1) (ae_now env 2) (sv_keystore s) (ma_TxID req) ttl
              (FormatApproverDeviceID (ma_DeviceID req)) (sv_store s)\<rparr>)"
proof (cases "s' = s")
  case False
  from assms False obtain raw req where raw: "ReadAll maxMobileBody r = Inr raw"
    and req: "Unmarshal (ae_js env) approve_fields raw zero_mobileApprove = Some req"
    by (cases "ReadAll maxMobileBody r"; cases "Unmarshal (ae_js env) approve_fields (projr (ReadAll maxMobileBody r)) zero_mobileApprove")
      (simp_all add: handleMobileApprove_def)
  have body: "raw = rq_body r" using ReadAll_Inr raw by blast
  note h = assms [unfolded handleMobileApprove_def raw sum.case req option.case]
  from h False have act: "ma_Action req = ''approve''"
    and rest: "\<not> (ma_TxID req = [] \<or> ma_DeviceID req = [] \<or> ma_Signature req = [])"
    by (simp_all split: if_splits)
  note h = h [unfolded if_not_P [OF rest] act not_True_eq_False simp_thms if_False]
  from h False obtain dev where dev: "mobile_Get (ma_DeviceID req) (sv_mobile s) = Some dev"
    by (cases "mobile_Get (ma_DeviceID req) (sv_mobile s)") simp_all
  note h = h [unfolded dev option.case]
  from h False have fp: "clientCertFPFromRequest r = md_CertFingerprint dev" by (simp split: if_splits)
  from h False fp have v: "verifyDeviceSignature (ae_ed25519_Verify env) (md_PubKey dev) (js_print (ae_js env) (approve_payload req))
        (ma_Signature req) (ae_now env 0) (ma_Timestamp req) = None"
    by (simp split: option.splits)
  from h False fp v obtain ttl where "approve_ttl (sv_cfg s) req = Some ttl"
    and "s' = s\<lparr>sv_store := Approve (ae_lib env) (ae_now env 1) (ae_now env 2) (sv_keystore s) (ma_TxID req) ttl
              (FormatApproverDeviceID (ma_DeviceID req)) (sv_store s)\<rparr>"
    by (cases "approve_ttl (sv_cfg s) req") auto
  with req body act dev fp v show ?thesis by blast
qed simp

lemma verifyDeviceSignature_None:
  assumes "verifyDeviceSignature verify pub payload sigHex now ts = None" and "int64 (time_Unix now - 30)" and "int64 (time_Unix now + 30)"
  shows "\<bar>ts - time_Unix now\<bar> \<le> 30 \<and> (\<exists>sig. hex_DecodeString sigHex = Some sig \<and> length sig = 64 \<and> verify pub payload sig)"
  using assms
  by (auto simp: verifyDeviceSignature_def wrap64_id ed25519_SignatureSize_def split: option.splits if_splits)

text \<open>
  (C14) A device approves only by its own hand: a request to the approval endpoint changes the
  server only if the device it names is enrolled, the connection uses the certificate the device
  was enrolled with, and a signature under the device's key, at most thirty seconds from the
  server's clock, covers the transaction, the action, the time, the device and the timestamp; the
  change is the approval of that transaction, in the name of that device, for a configured or the
  default time.
\<close>

theorem mobile_approve_authorised:
  assumes "handleMobileApprove env r s = (s', resp, jobs)" and "s' \<noteq> s"
    and "int64 (time_Unix (ae_now env 0) - 30)" and "int64 (time_Unix (ae_now env 0) + 30)"
  shows "\<exists>req dev sig ttl. mobile_Get (ma_DeviceID req) (sv_mobile s) = Some dev
    \<and> clientCertFPFromRequest r = md_CertFingerprint dev
    \<and> \<bar>ma_Timestamp req - time_Unix (ae_now env 0)\<bar> \<le> 30
    \<and> ae_ed25519_Verify env (md_PubKey dev) (js_print (ae_js env) (approve_payload req)) sig
    \<and> (ttl = DefaultTTLFromAllowed (cfg_AllowedTTLSeconds (sv_cfg s))
       \<or> ma_TTLSeconds req \<in> set (cfg_AllowedTTLSeconds (sv_cfg s)) \<and> ttl = wrap64 (ma_TTLSeconds req * second))
    \<and> s' = s\<lparr>sv_store := Approve (ae_lib env) (ae_now env 1) (ae_now env 2) (sv_keystore s) (ma_TxID req) ttl
              (FormatApproverDeviceID (ma_DeviceID req)) (sv_store s)\<rparr>"
proof -
  from handleMobileApprove_cases [OF assms(1)] assms(2) obtain req dev ttl where
      d: "mobile_Get (ma_DeviceID req) (sv_mobile s) = Some dev" "clientCertFPFromRequest r = md_CertFingerprint dev"
    and v: "verifyDeviceSignature (ae_ed25519_Verify env) (md_PubKey dev) (js_print (ae_js env) (approve_payload req))
        (ma_Signature req) (ae_now env 0) (ma_Timestamp req) = None"
    and t: "approve_ttl (sv_cfg s) req = Some ttl"
    and s': "s' = s\<lparr>sv_store := Approve (ae_lib env) (ae_now env 1) (ae_now env 2) (sv_keystore s) (ma_TxID req) ttl
              (FormatApproverDeviceID (ma_DeviceID req)) (sv_store s)\<rparr>" by blast
  from verifyDeviceSignature_None [OF v assms(3,4)] obtain sig where
      "\<bar>ma_Timestamp req - time_Unix (ae_now env 0)\<bar> \<le> 30"
      "ae_ed25519_Verify env (md_PubKey dev) (js_print (ae_js env) (approve_payload req)) sig" by blast
  moreover from t have "ttl = DefaultTTLFromAllowed (cfg_AllowedTTLSeconds (sv_cfg s))
       \<or> ma_TTLSeconds req \<in> set (cfg_AllowedTTLSeconds (sv_cfg s)) \<and> ttl = wrap64 (ma_TTLSeconds req * second)"
    by (auto simp: approve_ttl_def TTLAllowed_def Let_def split: if_splits)
  ultimately show ?thesis using d s' by blast
qed

definition demo_dev :: mobile_Device where
  "demo_dev = \<lparr>md_ID = ''dev_1'', md_Label = ''phone'', md_PubKey = replicate 32 (CHR ''k''),
     md_CertFingerprint = clientCertFPFromRequest demo_post, md_EnrolledAt = 0\<rparr>"

definition demo_approval :: mobileApproveRequest where
  "demo_approval = \<lparr>ma_TxID = ''tx_1'', ma_Action = ''approve'', ma_TTLSeconds = 60, ma_DeviceID = ''dev_1'',
     ma_Timestamp = 700, ma_Signature = hex_EncodeToString (replicate 64 (CHR ''k''))\<rparr>"

definition demo_mobile_env :: api_env where
  "demo_mobile_env = (demo_env [])\<lparr>ae_js := \<lparr>js_parse = \<lambda>_. Some (JObject
       [(''tx_id'', JString ''tx_1''), (''action'', JString ''approve''), (''ttl_seconds'', JInt 60),
        (''device_id'', JString ''dev_1''), (''timestamp'', JInt 700),
        (''signature'', JString (hex_EncodeToString (replicate 64 (CHR ''k''))))]), js_print = \<lambda>_. []\<rparr>,
     ae_now := \<lambda>_. 700 * second\<rparr>"

definition demo_mobile_server :: server where
  "demo_mobile_server = (demo_server SignerModeLocalCA demo_ca)\<lparr>sv_cfg := zero_Config\<lparr>cfg_AllowedTTLSeconds := [60]\<rparr>,
     sv_store := demo_store, sv_mobile := \<lparr>ms_devices = [(''dev_1'', demo_dev)]\<rparr>\<rparr>"

lemma demo_approval_decodes:
  "Unmarshal (ae_js demo_mobile_env) approve_fields raw zero_mobileApprove = Some demo_approval"
proof -
  have keys: "fold_key ''tx_id'' = ''TX_ID''" "fold_key ''action'' = ''ACTION''" "fold_key ''ttl_seconds'' = ''TTL_SECONDS''"
    "fold_key ''device_id'' = ''DEVICE_ID''" "fold_key ''timestamp'' = ''TIMESTAMP''" "fold_key ''signature'' = ''SIGNATURE''"
    by code_simp+
  show ?thesis
    by (simp add: Unmarshal_def demo_mobile_env_def decode_struct_def approve_fields_def json_field_defs keys int64_def
        zero_mobileApprove_def demo_approval_def)
qed

lemma hex_nonempty: "bs \<noteq> [] \<Longrightarrow> hex_EncodeToString bs \<noteq> []"
  by (cases bs) (simp_all add: Let_def)

lemma demo_approval_run:
  "handleMobileApprove demo_mobile_env demo_post demo_mobile_server =
     (demo_mobile_server\<lparr>sv_store := Approve demo_ssh (700 * second) (700 * second) demo_ca ''tx_1'' minute ''device:dev_1'' demo_store\<rparr>,
      bare_response 200, [])"
proof -
  have v: "verifyDeviceSignature (ae_ed25519_Verify demo_mobile_env) (md_PubKey demo_dev) x (ma_Signature demo_approval)
      (ae_now demo_mobile_env 0) (ma_Timestamp demo_approval) = None" for x
    unfolding demo_approval_def mobileApproveRequest.simps verifyDeviceSignature_def hex_Decode_Encode
    by (simp add: demo_mobile_env_def demo_env_def time_Unix_def second_def wrap64_def
        ed25519_SignatureSize_def demo_dev_def flip: replicate_add)
  have t: "approve_ttl (sv_cfg demo_mobile_server) demo_approval = Some minute"
    by (simp add: approve_ttl_def demo_mobile_server_def demo_approval_def wrap64_def TTLAllowed_def duration_defs)
  have g: "mobile_Get (ma_DeviceID demo_approval) (sv_mobile demo_mobile_server) = Some demo_dev"
    "clientCertFPFromRequest demo_post = md_CertFingerprint demo_dev"
    by (simp_all add: demo_mobile_server_def mobile_Get_def demo_approval_def demo_dev_def)
  have b: "ReadAll maxMobileBody demo_post = Inr ''body''" by (simp add: ReadAll_def demo_post_def maxMobileBody_def)
  have f: "ma_Action demo_approval = ''approve''" "ma_TxID demo_approval = ''tx_1''" "ma_DeviceID demo_approval = ''dev_1''"
    by (simp_all add: demo_approval_def)
  have sig: "ma_Signature demo_approval \<noteq> []"
    unfolding demo_approval_def mobileApproveRequest.simps by (rule hex_nonempty) simp
  have e: "ae_lib demo_mobile_env = demo_ssh" "ae_now demo_mobile_env n = 700 * second"
    "sv_keystore demo_mobile_server = demo_ca" "sv_store demo_mobile_server = demo_store" for n
    by (simp_all add: demo_mobile_env_def demo_env_def demo_mobile_server_def demo_server_def)
  show ?thesis
    using v [of "js_print (ae_js demo_mobile_env) (approve_payload demo_approval)"] t g b f sig e
    by (simp add: handleMobileApprove_def demo_approval_decodes FormatApproverDeviceID_def)
qed

theorem mobile_approve_authorised_witness:
  "\<exists>s' (req :: mobileApproveRequest) (dev :: mobile_Device).
     handleMobileApprove demo_mobile_env demo_post demo_mobile_server = (s', bare_response 200, []) \<and> s' \<noteq> demo_mobile_server
     \<and> mobile_Get (ma_DeviceID req) (sv_mobile demo_mobile_server) = Some dev \<and> \<bar>ma_Timestamp req - 700\<bar> \<le> 30"
proof -
  let ?s' = "demo_mobile_server\<lparr>sv_store := Approve demo_ssh (700 * second) (700 * second) demo_ca ''tx_1'' minute ''device:dev_1'' demo_store\<rparr>"
  have pos: "(0 :: int) < minute" by (simp add: duration_defs)
  from Approve_answers [OF demo_store_inv demo_store_tx(1,2) pos demo_store_issue, of "''device:dev_1''"]
  have "map_of (st_txs (sv_store ?s')) ''tx_1'' \<noteq> Some demo_entry" by (auto simp: demo_entry_def)
  moreover have "map_of (st_txs (sv_store demo_mobile_server)) ''tx_1'' = Some demo_entry"
    by (simp add: demo_mobile_server_def demo_store_tx(1))
  ultimately have ne: "?s' \<noteq> demo_mobile_server" by metis
  have "ae_now demo_mobile_env 0 = 700 * second" by (simp add: demo_mobile_env_def)
  then have "time_Unix (ae_now demo_mobile_env 0) = 700" by (simp add: time_Unix_def second_def)
  with mobile_approve_authorised [OF demo_approval_run ne] obtain req :: mobileApproveRequest and dev :: mobile_Device where
      "mobile_Get (ma_DeviceID req) (sv_mobile demo_mobile_server) = Some dev" "\<bar>ma_Timestamp req - 700\<bar> \<le> 30"
    by (auto simp: int64_def)
  with demo_approval_run ne show ?thesis by blast
qed

lemma serve_const_frame [simp]:
  "fst (handleHealthz env r s) = s" "fst (handleUnseal env r s) = s" "fst (handleSealStatus env r s) = s"
  "fst (handleCLIListDevices env r s) = s" "fst (handleMTLSCA env r s) = s"
  by (simp_all add: handleHealthz_def handleUnseal_def handleSealStatus_def handleCLIListDevices_def handleMTLSCA_def Let_def
      split: sum.split)

text \<open>A reply keeps a view of the server; the rules follow the shape of the handlers.\<close>

definition keeps :: "(server \<Rightarrow> 'a) \<Rightarrow> server \<Rightarrow> reply \<Rightarrow> bool" where
  "keeps view s rep \<longleftrightarrow> view (fst rep) = view s"

lemma keeps_Let: "keeps view s (f x) \<Longrightarrow> keeps view s (let y = x in f y)"
  by simp

lemma keeps_if: "keeps view s a \<Longrightarrow> keeps view s b \<Longrightarrow> keeps view s (if c then a else b)"
  by simp

lemma keeps_option: "keeps view s a \<Longrightarrow> (\<And>y. x = Some y \<Longrightarrow> keeps view s (f y)) \<Longrightarrow> keeps view s (case x of None \<Rightarrow> a | Some y \<Rightarrow> f y)"
  by (simp split: option.split)

lemma keeps_sum:
  "(\<And>y. x = Inl y \<Longrightarrow> keeps view s (f y)) \<Longrightarrow> (\<And>y. x = Inr y \<Longrightarrow> keeps view s (g y))
    \<Longrightarrow> keeps view s (case x of Inl y \<Rightarrow> f y | Inr y \<Rightarrow> g y)"
  by (simp split: sum.split)

lemma keeps_prod: "(\<And>y z. x = (y, z) \<Longrightarrow> keeps view s (f y z)) \<Longrightarrow> keeps view s (case x of (y, z) \<Rightarrow> f y z)"
  by (simp split: prod.split)

lemma keeps_bool: "keeps view s a \<Longrightarrow> keeps view s b \<Longrightarrow> keeps view s (case x of True \<Rightarrow> a | False \<Rightarrow> b)"
  by (simp split: bool.split)

lemma keeps_reply: "view t = view s \<Longrightarrow> keeps view s (t, resp, jobs)"
  by (simp add: keeps_def)

lemmas keeps_rules = keeps_Let keeps_if keeps_option keeps_sum keeps_prod keeps_bool keeps_reply

definition all_but_mobile where
  "all_but_mobile s = (sv_store s, sv_keystore s, sv_cfg s, sv_replay s, sv_pending s, sv_cli s)"

definition all_but_pending where
  "all_but_pending s = (sv_store s, sv_keystore s, sv_cfg s, sv_replay s, sv_mobile s, sv_cli s)"

definition all_but_cli where
  "all_but_cli s = (sv_store s, sv_keystore s, sv_cfg s, sv_replay s, sv_pending s, sv_mobile s)"

definition all_but_limiter where
  "all_but_limiter s = (sv_store s, sv_keystore s, sv_cfg s, sv_replay s, sv_pending s, sv_mobile s, sv_cli s)"

definition all_but_keys where
  "all_but_keys s = (sv_store s, sv_cfg s, sv_pending s, sv_mobile s, sv_cli s)"

definition all_but_store where
  "all_but_store s = (sv_keystore s, sv_cfg s, sv_replay s, sv_pending s, sv_mobile s, sv_cli s)"

lemmas view_defs = all_but_mobile_def all_but_pending_def all_but_cli_def all_but_limiter_def all_but_keys_def all_but_store_def

lemma handler_keeps:
  "keeps all_but_mobile s (handleMobileEnroll env r s)"
  "keeps all_but_mobile s (handleMobileDeleteDevice env r s)"
  "keeps all_but_pending s (handleMobileKeysPending env r s)"
  "keeps all_but_cli s (handleCLIEnroll env r s)"
  "keeps all_but_cli s (handleCLIDeleteDevice env r s)"
  "keeps all_but_limiter s (handleMTLSEnroll env r s)"
  "keeps all_but_store s (handleMobileApprove env r s)"
  unfolding handleMobileEnroll_def handleMobileDeleteDevice_def handleMobileKeysPending_def handleCLIEnroll_def
    handleCLIDeleteDevice_def handleMTLSEnroll_def handleMobileApprove_def
  by (intro keeps_rules; simp add: view_defs)+

lemma keeps_via: "view t = view s \<Longrightarrow> keeps view t rep \<Longrightarrow> keeps view s rep"
  by (simp add: keeps_def)

lemma cli_load_key_keeps: "keeps all_but_keys s (cli_load_key env dev p s)"
  unfolding cli_load_key_def by (intro keeps_rules; simp add: view_defs)

lemma handleCLIKeysLoad_keeps: "keeps all_but_keys s (handleCLIKeysLoad env r s)"
proof -
  have "keeps all_but_keys s (cli_load_key env dev p (s\<lparr>sv_replay := x\<rparr>))" for dev p x
    by (rule keeps_via [OF _ cli_load_key_keeps]) (simp add: view_defs)
  then show ?thesis
    unfolding handleCLIKeysLoad_def by (intro keeps_rules) (simp_all add: view_defs)
qed

lemmas handler_views =
  handler_keeps [unfolded keeps_def view_defs prod.inject] handleCLIKeysLoad_keeps [unfolded keeps_def view_defs prod.inject]

lemma handleSign_frames [simp]:
  "sv_cfg (fst (handleSign env r s)) = sv_cfg s" "sv_keystore (fst (handleSign env r s)) = sv_keystore s"
  "sv_mobile (fst (handleSign env r s)) = sv_mobile s" "sv_cli (fst (handleSign env r s)) = sv_cli s"
  "sv_pending (fst (handleSign env r s)) = sv_pending s"
  by (metis handleSign_frame prod_cases3 sign_frameD fst_conv)+

lemma handleWait_frames [simp]:
  "sv_cfg (fst (handleWait ctx env r s)) = sv_cfg s" "sv_keystore (fst (handleWait ctx env r s)) = sv_keystore s"
  "sv_mobile (fst (handleWait ctx env r s)) = sv_mobile s" "sv_cli (fst (handleWait ctx env r s)) = sv_cli s"
  "sv_pending (fst (handleWait ctx env r s)) = sv_pending s" "sv_replay (fst (handleWait ctx env r s)) = sv_replay s"
  by (simp_all add: handleWait_def Let_def split: prod.split sum.split)

lemma handleCapabilities_frames [simp]:
  "sv_cfg (fst (handleCapabilities env r s)) = sv_cfg s" "sv_keystore (fst (handleCapabilities env r s)) = sv_keystore s"
  "sv_mobile (fst (handleCapabilities env r s)) = sv_mobile s" "sv_cli (fst (handleCapabilities env r s)) = sv_cli s"
  "sv_pending (fst (handleCapabilities env r s)) = sv_pending s" "sv_store (fst (handleCapabilities env r s)) = sv_store s"
  "sv_replay (fst (handleCapabilities env r s)) = sv_replay s"
  by (simp_all add: handleCapabilities_def logCapabilitiesRequest_def emitSignLog_def Let_def)

lemma withMTLS_fst: "fst (withMTLS h env r s) = (if peer_cert r = None then s else fst (h env r s))"
  by (simp add: withMTLS_def split: option.split)

lemma withAdminMTLS_fst:
  "fst (withAdminMTLS h env r s) =
     (if \<exists>c. peer_cert r = Some c \<and> adminClientAllowed (cfg_AdminClientOU (sv_cfg s)) c then fst (h env r s) else s)"
  by (simp add: withAdminMTLS_def split: option.split)

lemma handleCLIKeysLoad_keystore:
  assumes "sv_keystore (fst (handleCLIKeysLoad env r s)) \<noteq> sv_keystore s"
  shows "\<exists>dev conn parsed replay. cli_peer r s = Inr dev \<and> rq_conn r = Some conn
    \<and> parseCLIKeysLoadBody (ae_js env) (rq_body r) = Some parsed
    \<and> ValidateCLIKeysLoad conn (rq_body r) (rq_header r ''X-Luna-Body-Mac'') (pl_Timestamp parsed) (ae_now env 0) (ae_now env 1)
        (sv_replay s) = (replay, None)
    \<and> snd (Allowed (ae_now env 2) (cd_ID dev) (sv_loadLimiter s))"
proof -
  from assms obtain dev raw where d: "cli_peer r s = Inr dev" and raw: "ReadAll maxCLIKeyLoadBody r = Inr raw"
    by (simp add: handleCLIKeysLoad_def split: sum.splits)
  from assms d raw obtain conn parsed where c: "rq_conn r = Some conn" "parseCLIKeysLoadBody (ae_js env) raw = Some parsed"
    by (simp add: handleCLIKeysLoad_def split: option.splits)
  obtain replay err where v: "ValidateCLIKeysLoad conn raw (rq_header r ''X-Luna-Body-Mac'') (pl_Timestamp parsed)
      (ae_now env 0) (ae_now env 1) (sv_replay s) = (replay, err)" by fastforce
  from assms d raw c v have e: "err = None" by (cases err) (simp_all add: handleCLIKeysLoad_def)
  from assms d raw c v e have k: "sv_keystore (fst (cli_load_key env dev parsed (s\<lparr>sv_replay := replay\<rparr>))) \<noteq> sv_keystore s"
    by (simp add: handleCLIKeysLoad_def Let_def split: if_splits option.splits)
  have "snd (Allowed (ae_now env 2) (cd_ID dev) (sv_loadLimiter s))"
  proof (rule ccontr)
    assume "\<not> snd (Allowed (ae_now env 2) (cd_ID dev) (sv_loadLimiter s))"
    then have "sv_keystore (fst (cli_load_key env dev parsed (s\<lparr>sv_replay := replay\<rparr>))) = sv_keystore s"
      by (cases "Allowed (ae_now env 2) (cd_ID dev) (sv_loadLimiter s)") (simp add: cli_load_key_def)
    with k show False by simp
  qed
  with d c v e raw ReadAll_Inr [OF raw] show ?thesis by auto
qed

lemma cli_peer_Inr:
  "cli_peer r s = Inr dev \<Longrightarrow> \<exists>c. peer_cert r = Some c \<and> \<not> adminClientAllowed (cfg_AdminClientOU (sv_cfg s)) c
     \<and> cliClientAllowed (cfg_CliClientOU (sv_cfg s)) c \<and> GetByFingerprint (CertFingerprint c) (sv_cli s) = Some dev
     \<and> cfg_SignerMode (sv_cfg s) = SignerModeLocalKey"
  by (auto simp: cli_peer_def cliDeviceFromPeer_def split: option.splits if_splits)

lemma serve_registries:
  assumes "\<not> (\<exists>c. peer_cert r = Some c \<and> adminClientAllowed (cfg_AdminClientOU (sv_cfg s)) c)"
  shows "sv_mobile (fst (serve ctx route env r s)) = sv_mobile s \<and> sv_cli (fst (serve ctx route env r s)) = sv_cli s"
  using assms by (cases route) (auto simp: withMTLS_fst withAdminMTLS_fst handler_views)

lemma serve_keystore:
  assumes "sv_keystore (fst (serve ctx route env r s)) \<noteq> sv_keystore s"
  shows "route = CLIKeysLoad \<and> sv_keystore (fst (handleCLIKeysLoad env r s)) \<noteq> sv_keystore s"
  using assms by (cases route) (auto simp: withMTLS_fst withAdminMTLS_fst handler_views split: if_splits)

lemma serve_store:
  assumes "sv_store (fst (serve ctx route env r s)) \<noteq> sv_store s"
  shows "route \<in> {SshSign, SshWait, MobileApprove} \<and> peer_cert r \<noteq> None"
  using assms by (cases route) (auto simp: withMTLS_fst withAdminMTLS_fst handler_views split: if_splits)

lemma serve_pending:
  assumes "sv_pending (fst (serve ctx route env r s)) \<noteq> sv_pending s"
  shows "route = MobileKeysPending \<and> peer_cert r \<noteq> None"
  using assms by (cases route) (auto simp: withMTLS_fst withAdminMTLS_fst handler_views split: if_splits)

text \<open>
  (C16) The routes keep the roles apart. Whatever request reaches whatever route: the registries of
  devices change only for a client whose certificate has the administrators' unit; the signing keys
  change only through the loading route, for an enrolled CLI device that is not an administrator,
  with the body authenticated under the key of its own connection and the rate limit not exhausted;
  and transactions and uploaded keys change only for clients with a certificate.
\<close>

theorem routes_separate_roles:
  assumes "serve ctx route env r s = (s', resp, jobs)"
  shows "(sv_mobile s' \<noteq> sv_mobile s \<or> sv_cli s' \<noteq> sv_cli s \<longrightarrow>
            (\<exists>c. peer_cert r = Some c \<and> adminClientAllowed (cfg_AdminClientOU (sv_cfg s)) c))
    \<and> (sv_keystore s' \<noteq> sv_keystore s \<longrightarrow> route = CLIKeysLoad
         \<and> (\<exists>c dev conn parsed. peer_cert r = Some c \<and> \<not> adminClientAllowed (cfg_AdminClientOU (sv_cfg s)) c
              \<and> cliClientAllowed (cfg_CliClientOU (sv_cfg s)) c
              \<and> GetByFingerprint (CertFingerprint c) (sv_cli s) = Some dev
              \<and> rq_conn r = Some conn \<and> VerifyBodyHMAC conn (rq_body r) (rq_header r ''X-Luna-Body-Mac'') = None
              \<and> parseCLIKeysLoadBody (ae_js env) (rq_body r) = Some parsed
              \<and> ValidateTimestampAt (pl_Timestamp parsed) (ae_now env 0) timestampWindowSec = None
              \<and> snd (Allowed (ae_now env 2) (cd_ID dev) (sv_loadLimiter s))))
    \<and> (sv_store s' \<noteq> sv_store s \<longrightarrow> route \<in> {SshSign, SshWait, MobileApprove} \<and> peer_cert r \<noteq> None)
    \<and> (sv_pending s' \<noteq> sv_pending s \<longrightarrow> route = MobileKeysPending \<and> peer_cert r \<noteq> None)"
proof -
  have s': "s' = fst (serve ctx route env r s)" using assms by simp
  have keys: "route = CLIKeysLoad
      \<and> (\<exists>c dev conn parsed. peer_cert r = Some c \<and> \<not> adminClientAllowed (cfg_AdminClientOU (sv_cfg s)) c
              \<and> cliClientAllowed (cfg_CliClientOU (sv_cfg s)) c
              \<and> GetByFingerprint (CertFingerprint c) (sv_cli s) = Some dev
              \<and> rq_conn r = Some conn \<and> VerifyBodyHMAC conn (rq_body r) (rq_header r ''X-Luna-Body-Mac'') = None
              \<and> parseCLIKeysLoadBody (ae_js env) (rq_body r) = Some parsed
              \<and> ValidateTimestampAt (pl_Timestamp parsed) (ae_now env 0) timestampWindowSec = None
              \<and> snd (Allowed (ae_now env 2) (cd_ID dev) (sv_loadLimiter s)))"
    if "sv_keystore s' \<noteq> sv_keystore s"
  proof -
    from serve_keystore that s' have k: "route = CLIKeysLoad"
        "sv_keystore (fst (handleCLIKeysLoad env r s)) \<noteq> sv_keystore s" by blast+
    from handleCLIKeysLoad_keystore [OF k(2)] obtain dev conn parsed replay where
        d: "cli_peer r s = Inr dev" and rest: "rq_conn r = Some conn"
          "parseCLIKeysLoadBody (ae_js env) (rq_body r) = Some parsed"
          "snd (Allowed (ae_now env 2) (cd_ID dev) (sv_loadLimiter s))"
      and v: "ValidateCLIKeysLoad conn (rq_body r) (rq_header r ''X-Luna-Body-Mac'') (pl_Timestamp parsed) (ae_now env 0)
        (ae_now env 1) (sv_replay s) = (replay, None)" by blast
    from v have "VerifyBodyHMAC conn (rq_body r) (rq_header r ''X-Luna-Body-Mac'') = None"
      "ValidateTimestampAt (pl_Timestamp parsed) (ae_now env 0) timestampWindowSec = None"
      by (auto simp: ValidateCLIKeysLoad_def split: option.splits)
    with k(1) cli_peer_Inr [OF d] rest show ?thesis by blast
  qed
  show ?thesis
    using keys serve_registries [of r s ctx route env] serve_store [of ctx route env r s] serve_pending [of ctx route env r s]
    unfolding s' by blast
qed

theorem routes_separate_roles_witness:
  "\<exists>s'. serve ErrContextCanceled MobileApprove demo_mobile_env demo_post demo_mobile_server = (s', bare_response 200, [])
     \<and> sv_store s' \<noteq> sv_store demo_mobile_server \<and> peer_cert demo_post \<noteq> None"
proof -
  let ?s' = "demo_mobile_server\<lparr>sv_store := Approve demo_ssh (700 * second) (700 * second) demo_ca ''tx_1'' minute ''device:dev_1'' demo_store\<rparr>"
  have "peer_cert demo_post \<noteq> None" by (simp add: demo_post_def peer_cert_def)
  then have r: "serve ErrContextCanceled MobileApprove demo_mobile_env demo_post demo_mobile_server = (?s', bare_response 200, [])"
    using demo_approval_run by (auto simp: withMTLS_def)
  have pos: "(0 :: int) < minute" by (simp add: duration_defs)
  from Approve_answers [OF demo_store_inv demo_store_tx(1,2) pos demo_store_issue, of "''device:dev_1''"]
  have "map_of (st_txs (sv_store ?s')) ''tx_1'' \<noteq> Some demo_entry" by (auto simp: demo_entry_def)
  moreover have "map_of (st_txs (sv_store demo_mobile_server)) ''tx_1'' = Some demo_entry"
    by (simp add: demo_mobile_server_def demo_store_tx(1))
  ultimately have ne: "sv_store ?s' \<noteq> sv_store demo_mobile_server" by metis
  from routes_separate_roles [OF r] ne r show ?thesis by blast
qed

end
