(* ===== verification/Api_Run.thy ===== *)
theory Api_Run
  imports Device_Api
begin

text \<open>
  The API as a machine: any sequence of requests on any routes. The invariants of the components
  hold in every state it reaches, an enrolled client is recognised by the certificate it was given,
  and the number of enrolment tokens that can be tried is bounded.
\<close>

section \<open>Invariants of the stores under whole operations\<close>

lemma issue_fits: "issueForTransaction lib now ks s tx u = Inr res \<Longrightarrow> state_fits StateApproved (res\<lparr>rs_LeaseExpiresAt := v\<rparr>)"
  using issue_ok by simp

lemma Approve_inv [inv_rules]:
  assumes "approval_inv s" shows "approval_inv (Approve lib now now' ks txID ttl ap s)"
proof -
  obtain s1 txo where c: "claimApproval txID s = (s1, txo)" by fastforce
  have s1: "approval_inv s1" using claimApproval_inv [OF assms, of txID] c by simp
  define t where "t = (if ttl \<le> 0 then DefaultDevCertTTL else ttl)"
  show ?thesis
  proof (cases txo)
    case None
    with c s1 show ?thesis by (simp add: Approve_def approveWithIssuer_def)
  next
    case (Some tx)
    show ?thesis
    proof (cases "issueForTransaction lib now' ks s1 tx (now + t)")
      case (Inl err)
      have "approval_inv (fst (finishClaimed txID StateDenied (err_Result err) s1))" using s1 by (rule finishClaimed_inv) simp
      with c Some Inl show ?thesis by (simp add: Approve_def approveWithIssuer_def t_def)
    next
      case (Inr res)
      have f: "approval_inv (fst (finishClaimed txID StateApproved (res\<lparr>rs_LeaseExpiresAt := now + t\<rparr>) s1))"
        using s1 issue_fits [OF Inr] by (rule finishClaimed_inv)
      obtain s2 ok where fc: "finishClaimed txID StateApproved (res\<lparr>rs_LeaseExpiresAt := now + t\<rparr>) s1 = (s2, ok)" by fastforce
      with f have "approval_inv s2" by simp
      with c Some Inr fc show ?thesis
        by (cases ok) (simp_all add: Approve_def approveWithIssuer_def t_def put_lease_inv)
    qed
  qed
qed

lemma Wait_inv [inv_rules]:
  assumes "approval_inv s" shows "approval_inv (fst (Wait ctx txID s))"
proof -
  obtain s1 so where w: "waitResult txID s = (s1, so)" by fastforce
  have s1: "approval_inv s1" using waitResult_inv [OF assms, of txID] w by simp
  show ?thesis
  proof (cases so)
    case None
    with w s1 show ?thesis by (simp add: Wait_def)
  next
    case (Some slot)
    with w s1 show ?thesis
      by (cases "chan_recv slot s1") (auto simp: Wait_def intro: cancelWait_inv intro!: remove_tx_inv dest: chan_recv_inv)
  qed
qed

lemma CreateBound_inv [inv_rules]: "approval_inv s \<Longrightarrow> approval_inv (fst (CreateBound ulid now a s))"
  by (simp add: CreateBound_def Let_def arm_timer_inv create_locked_inv)

lemma IssueFromLease_ok: "IssueFromLease lib a b c d ks k pub x fp s = (res, True) \<Longrightarrow> rs_Err res = None"
  by (auto simp: IssueFromLease_def Let_def dest: issue_ok split: option.splits prod.splits bool.splits if_splits sum.splits)

lemma ValidateSignRequest_inv [inv_rules]:
  "replay_inv c \<Longrightarrow> replay_inv (fst (ValidateSignRequest lib conn raw req now now' c))"
  using AddIfNew_inv [of c now' "sha256_Sum256 raw"]
  by (auto simp: ValidateSignRequest_def split: option.split prod.splits bool.split sum.split)

lemma ValidateCLIKeysLoad_inv [inv_rules]:
  "replay_inv c \<Longrightarrow> replay_inv (fst (ValidateCLIKeysLoad conn raw mac ts now now' c))"
  using AddIfNew_inv [of c now' "sha256_Sum256 raw"]
  by (auto simp: ValidateCLIKeysLoad_def split: option.split prod.splits bool.split)

section \<open>The invariant of the server\<close>

definition server_inv :: "server \<Rightarrow> bool" where
  "server_inv s \<longleftrightarrow> approval_inv (sv_store s) \<and> replay_inv (sv_replay s) \<and> ks_inv (sv_keystore s)
     \<and> pending_inv (sv_pending s) \<and> cli_inv (sv_cli s)"

text \<open>New identifiers are not in use.\<close>

definition fresh_ids :: "api_env \<Rightarrow> server \<Rightarrow> bool" where
  "fresh_ids env s \<longleftrightarrow> map_of (ps_entries (sv_pending s)) (''pend_'' @ ae_ulid env) = None
     \<and> map_of (cs_devices (sv_cli s)) (''cli_'' @ ae_ulid env) = None"

lemma sign_admitted_inv:
  assumes "approval_inv (sv_store s)"
  shows "approval_inv (sv_store (fst (sign_admitted env r req fp dst s)))"
proof -
  obtain s' resp jobs where a: "sign_admitted env r req fp dst s = (s', resp, jobs)" by (metis prod_cases3)
  then have "approval_inv (sv_store s')"
  proof (cases rule: sign_admitted_cases)
    case (hit res tx)
    with CreateInstantApproved_inv [OF assms IssueFromLease_ok [OF hit(3)]] show ?thesis by (metis fst_conv)
  next
    case (new tx calls jobs')
    with CreateBound_inv [OF assms] show ?thesis by (metis fst_conv)
  qed
  with a show ?thesis by simp
qed

lemma log_replay [simp]: "sv_replay (logSignRequest r t t' i u p out m s) = sv_replay s"
  by (simp add: logSignRequest_def emitSignLog_def)

text \<open>A predicate on the server after a reply, with rules that follow the shape of the handlers.\<close>

definition after :: "(server \<Rightarrow> bool) \<Rightarrow> server \<times> 'r \<Rightarrow> bool" where
  "after P rep \<longleftrightarrow> P (fst rep)"

lemma after_Let: "after P (f x) \<Longrightarrow> after P (let y = x in f y)"
  by simp

lemma after_if: "(c \<Longrightarrow> after P a) \<Longrightarrow> (\<not> c \<Longrightarrow> after P b) \<Longrightarrow> after P (if c then a else b)"
  by simp

lemma after_option: "after P a \<Longrightarrow> (\<And>y. x = Some y \<Longrightarrow> after P (f y)) \<Longrightarrow> after P (case x of None \<Rightarrow> a | Some y \<Rightarrow> f y)"
  by (simp split: option.split)

lemma after_sum:
  "(\<And>y. x = Inl y \<Longrightarrow> after P (f y)) \<Longrightarrow> (\<And>y. x = Inr y \<Longrightarrow> after P (g y)) \<Longrightarrow> after P (case x of Inl y \<Rightarrow> f y | Inr y \<Rightarrow> g y)"
  by (simp split: sum.split)

lemma after_prod: "(\<And>y z. x = (y, z) \<Longrightarrow> after P (f y z)) \<Longrightarrow> after P (case x of (y, z) \<Rightarrow> f y z)"
  by (simp split: prod.split)

lemma after_bool: "after P a \<Longrightarrow> after P b \<Longrightarrow> after P (case x of True \<Rightarrow> a | False \<Rightarrow> b)"
  by (simp split: bool.split)

lemma after_read_error: "after P a \<Longrightarrow> after P b \<Longrightarrow> after P (case x of MaxBytesError \<Rightarrow> a | ReadError \<Rightarrow> b)"
  by (simp split: read_error.split)

lemma after_reply: "P t \<Longrightarrow> after P (t, resp)"
  by (simp add: after_def)

lemmas after_rules = after_Let after_if after_option after_sum after_prod after_bool after_read_error after_reply

lemma announce_replay: "announce tx s = (s', jobs) \<Longrightarrow> sv_replay s' = sv_replay s"
  by (auto simp: announce_def logTelegramEvent_def emitSignLog_def split: if_splits)

lemma sign_admitted_replay: "sv_replay s = c \<Longrightarrow> after (\<lambda>t. sv_replay t = c) (sign_admitted env r req fp dst s)"
  unfolding sign_admitted_def by (intro after_rules) (auto dest: announce_replay)

lemma handleSign_replay:
  assumes "replay_inv (sv_replay s)" shows "after (\<lambda>t. replay_inv (sv_replay t)) (handleSign env r s)"
proof -
  have v: "ValidateSignRequest lib conn raw req now now' (sv_replay s) = (c, e) \<Longrightarrow> replay_inv c" for lib conn raw req now now' c e
    using ValidateSignRequest_inv [OF assms, of lib conn raw req now now'] by simp
  have a: "after (\<lambda>t. replay_inv (sv_replay t)) (sign_admitted env r req fp dst (s\<lparr>sv_replay := c\<rparr>))"
    if "replay_inv c" for req fp dst c
    using sign_admitted_replay [of "s\<lparr>sv_replay := c\<rparr>" c env r req fp dst] that by (simp add: after_def)
  show ?thesis
    unfolding handleSign_def by (intro after_rules a) (auto simp: assms intro: v)
qed

lemma handleSign_store:
  assumes "approval_inv (sv_store s)" shows "approval_inv (sv_store (fst (handleSign env r s)))"
proof (cases rule: handleSign_cases [of env r s])
  case (rejected s' resp)
  with assms show ?thesis by (auto simp: only_log_and_cache_def)
next
  case (admitted req fp dst replay)
  with sign_admitted_inv [of "s\<lparr>sv_replay := replay\<rparr>" env r req fp dst] assms show ?thesis by simp
qed

lemma handleWait_store: "approval_inv (sv_store s) \<Longrightarrow> approval_inv (sv_store (fst (handleWait ctx env r s)))"
  using Wait_inv [of "sv_store s" ctx "rq_PathValue r ''tx_id''"]
  by (auto simp: handleWait_def Let_def split: prod.splits sum.splits)

lemma handleMobileApprove_store:
  "approval_inv (sv_store s) \<Longrightarrow> approval_inv (sv_store (fst (handleMobileApprove env r s)))"
  using handleMobileApprove_cases [of env r s]
  by (cases "handleMobileApprove env r s") (auto intro: Approve_inv)

lemma handleMobileKeysPending_pending:
  assumes "pending_inv (sv_pending s)" and "fresh_ids env s"
  shows "after (\<lambda>t. pending_inv (sv_pending t)) (handleMobileKeysPending env r s)"
proof -
  have "pending_Add (ae_ulid env) now d l c b (sv_pending s) = (p, x) \<Longrightarrow> pending_inv p" for now d l c b p x
    using pending_Add_inv [OF assms(1), of "ae_ulid env" now d l c b] assms(2) by (simp add: fresh_ids_def)
  then show ?thesis
    unfolding handleMobileKeysPending_def by (intro after_rules) (auto simp: assms(1))
qed

lemma handleCLIEnroll_cli:
  assumes "cli_inv (sv_cli s)" and "fresh_ids env s"
  shows "after (\<lambda>t. cli_inv (sv_cli t)) (handleCLIEnroll env r s)"
proof -
  have "cli_Enroll (ae_ulid env) now l fp (sv_cli s) = (c, x) \<Longrightarrow> cli_inv c" for now l fp c x
    using cli_Enroll_inv [OF assms(1), of "ae_ulid env" now l fp] assms(2) by (simp add: fresh_ids_def)
  then show ?thesis
    unfolding handleCLIEnroll_def by (intro after_rules) (auto simp: assms(1))
qed

lemma handleCLIDeleteDevice_cli:
  assumes "cli_inv (sv_cli s)" shows "after (\<lambda>t. cli_inv (sv_cli t)) (handleCLIDeleteDevice env r s)"
proof -
  have "cli_Delete d (sv_cli s) = (c, x) \<Longrightarrow> cli_inv c" for d c x
    using cli_Delete_inv [OF assms, of d] by simp
  then show ?thesis
    unfolding handleCLIDeleteDevice_def by (intro after_rules) (auto simp: assms)
qed

lemma cli_load_key_ks: "ks_inv (sv_keystore s) \<Longrightarrow> after (\<lambda>t. ks_inv (sv_keystore t)) (cli_load_key env dev p s)"
  unfolding cli_load_key_def
  by (intro after_rules) (auto dest: LoadPEMBytes_inv [of "sv_keystore s" "ae_lib env" "ae_mlock env"] simp: prod_eq_iff)

lemma cli_load_key_replay: "after (\<lambda>t. sv_replay t = sv_replay s) (cli_load_key env dev p s)"
  unfolding cli_load_key_def by (intro after_rules) auto

lemma handleCLIKeysLoad_keys:
  assumes "ks_inv (sv_keystore s)" and "replay_inv (sv_replay s)"
  shows "after (\<lambda>t. ks_inv (sv_keystore t)) (handleCLIKeysLoad env r s)"
    and "after (\<lambda>t. replay_inv (sv_replay t)) (handleCLIKeysLoad env r s)"
proof -
  have v: "ValidateCLIKeysLoad conn raw mac ts now now' (sv_replay s) = (c, e) \<Longrightarrow> replay_inv c" for conn raw mac ts now now' c e
    using ValidateCLIKeysLoad_inv [OF assms(2), of conn raw mac ts now now'] by simp
  have k: "after (\<lambda>t. ks_inv (sv_keystore t)) (cli_load_key env dev p (s\<lparr>sv_replay := c\<rparr>))" for dev p c
    using assms(1) by (intro cli_load_key_ks) simp
  have l: "after (\<lambda>t. replay_inv (sv_replay t)) (cli_load_key env dev p (s\<lparr>sv_replay := c\<rparr>))" if "replay_inv c" for dev p c
    using cli_load_key_replay [of "s\<lparr>sv_replay := c\<rparr>" env dev p] that by (simp add: after_def)
  show "after (\<lambda>t. ks_inv (sv_keystore t)) (handleCLIKeysLoad env r s)"
    unfolding handleCLIKeysLoad_def by (intro after_rules k) (auto simp: assms)
  show "after (\<lambda>t. replay_inv (sv_replay t)) (handleCLIKeysLoad env r s)"
    unfolding handleCLIKeysLoad_def by (intro after_rules l) (auto simp: assms intro: v)
qed

lemma serve_inv:
  assumes "server_inv s" and "fresh_ids env s"
  shows "server_inv (fst (serve ctx route env r s))"
proof -
  note inv = assms(1) [unfolded server_inv_def]
  note rules = handleSign_store handleWait_store handleMobileApprove_store handleSign_replay [unfolded after_def]
    handleMobileKeysPending_pending [OF _ assms(2), unfolded after_def] handleCLIEnroll_cli [OF _ assms(2), unfolded after_def]
    handleCLIDeleteDevice_cli [unfolded after_def] handleCLIKeysLoad_keys [unfolded after_def]
  show ?thesis
    using inv by (cases route) (auto simp: server_inv_def withMTLS_fst withAdminMTLS_fst handler_views intro: rules)
qed

section \<open>Runs\<close>

text \<open>A request as it arrives: its route, what its handler gets from outside, and the error with
  which its context ends. Identifiers are taken to be new.\<close>

record api_call =
  ac_route :: route
  ac_env :: api_env
  ac_request :: http_request
  ac_ctx :: go_error

definition api_exec :: "api_call \<Rightarrow> server \<Rightarrow> server" where
  "api_exec c s =
     (if fresh_ids (ac_env c) s then fst (serve (ac_ctx c) (ac_route c) (ac_env c) (ac_request c) s) else s)"

interpretation api_machine: op_machine api_exec server_inv
  by unfold_locales (simp add: api_exec_def serve_inv)

lemma NewServer_inv:
  assumes "approval_inv (sd_Store deps)" and "ks_inv (sd_Keystore deps)" and "replay_inv (sd_Replay deps)"
    and "sd_Pending deps = None" and "sd_CLI deps = None"
  shows "server_inv (api_NewServer env deps)"
  using assms by (simp add: server_inv_def api_NewServer_def or_new_def NewPendingStore_inv cli_NewStore_inv)

text \<open>
  Every state the API reaches is sound: started as the program starts it, and after any
  sequence of requests on any routes, with any answers of the libraries and the clock, the stores
  satisfy their invariants: the state of each transaction says what its result says, the replay
  cache and the keystore are well formed, the upload queue respects its limits, and no two CLI
  devices share a certificate.
\<close>

theorem api_reachable_inv:
  assumes "approval_inv (sd_Store deps)" and "ks_inv (sd_Keystore deps)" and "replay_inv (sd_Replay deps)"
    and "sd_Pending deps = None" and "sd_CLI deps = None"
  shows "server_inv (fold api_exec calls (api_NewServer env deps))"
  by (rule api_machine.run_inv) (rule NewServer_inv [OF assms])

theorem api_reachable_inv_witness:
  "server_inv (fold api_exec [\<lparr>ac_route = SshSign, ac_env = demo_env [], ac_request = demo_post, ac_ctx = ErrContextCanceled\<rparr>]
     (api_NewServer (demo_env []) \<lparr>sd_Config = zero_Config, sd_Keystore = NewWithMode ModeLocalCA, sd_Store = demo_store,
        sd_Replay = serve_cache, sd_Telegram = None, sd_Pending = None, sd_Mobile = None, sd_CLI = None,
        sd_CSRSigner = None, sd_LoadLimiter = None\<rparr>))"
  by (rule api_reachable_inv) (simp_all add: demo_store_inv ks_inv_new serve_cache_def NewReplayLRU_inv)

section \<open>Guessing the enrolment token\<close>

text \<open>The requests to the token route that were not turned away by the rate limit, each with the
  name under which the limiter counts it and its time.\<close>

definition enroll_name :: "api_call \<Rightarrow> string" where
  "enroll_name c = ''mtls-enroll:'' @ clientIPFromRemoteAddr (rq_RemoteAddr (ac_request c))"

abbreviation call_time :: "api_call \<Rightarrow> gotime" where
  "call_time c \<equiv> ae_now (ac_env c) 0"

definition api_serve :: "api_call \<Rightarrow> server \<Rightarrow> reply" where
  "api_serve c s = serve (ac_ctx c) (ac_route c) (ac_env c) (ac_request c) s"

fun token_tries :: "api_call list \<Rightarrow> server \<Rightarrow> (string \<times> gotime) list" where
  "token_tries [] s = []"
| "token_tries (c # cs) s =
     (if ac_route c = MTLSEnroll \<and> rp_status (fst (snd (api_serve c s))) \<noteq> 429 then [(enroll_name c, call_time c)] else []) @
     token_tries cs (fst (api_serve c s))"

definition enroll_calls :: "api_call list \<Rightarrow> limit_call list" where
  "enroll_calls cs = map (\<lambda>c. LRecord (call_time c) (enroll_name c)) (filter (\<lambda>c. ac_route c = MTLSEnroll) cs)"

lemma handleMTLSEnroll_limiter:
  "after (\<lambda>t. sv_loadLimiter t = fst (TryRecordSuccess (ae_now env 0)
     (''mtls-enroll:'' @ clientIPFromRemoteAddr (rq_RemoteAddr r)) (sv_loadLimiter s))) (handleMTLSEnroll env r s)"
  unfolding handleMTLSEnroll_def by (intro after_rules) auto

lemma handleMTLSEnroll_refused:
  "\<not> snd (TryRecordSuccess (ae_now env 0) (''mtls-enroll:'' @ clientIPFromRemoteAddr (rq_RemoteAddr r)) (sv_loadLimiter s))
     \<Longrightarrow> rp_status (fst (snd (handleMTLSEnroll env r s))) = 429"
  by (cases "TryRecordSuccess (ae_now env 0) (''mtls-enroll:'' @ clientIPFromRemoteAddr (rq_RemoteAddr r)) (sv_loadLimiter s)")
    (simp add: handleMTLSEnroll_def)

text \<open>Every registered CLI device has a name that starts with \<open>cli_\<close>, so that it is not an enrolment name.\<close>

definition cli_named :: "server \<Rightarrow> bool" where
  "cli_named s \<longleftrightarrow> (\<forall>(i, d) \<in> set (cs_devices (sv_cli s)). cd_ID d = i \<and> HasPrefix i ''cli_'')"

lemma map_put_set: "set (map_put k v m) \<subseteq> insert (k, v) (set m)"
  by (induction m) auto

lemma cli_named_Enroll:
  assumes "cli_named s" "cli_Enroll u now l fp (sv_cli s) = (c, x)" shows "cli_named (s\<lparr>sv_cli := c\<rparr>)"
proof (cases x)
  case (Inl e)
  with assms(2) have "c = sv_cli s" by (auto simp: cli_Enroll_def Let_def split: option.splits if_splits)
  with assms(1) show ?thesis by (simp add: cli_named_def)
next
  case (Inr d)
  with assms(2) have c: "cs_devices c = map_put (''cli_'' @ u) d (cs_devices (sv_cli s))" and d: "cd_ID d = ''cli_'' @ u"
    by (auto simp: cli_Enroll_def Let_def split: option.splits if_splits)
  have p: "HasPrefix (''cli_'' @ u) ''cli_''" by (simp add: HasPrefix_def)
  have "set (cs_devices c) \<subseteq> insert (''cli_'' @ u, d) (set (cs_devices (sv_cli s)))" unfolding c by (rule map_put_set)
  with d p assms(1) show ?thesis unfolding cli_named_def by auto
qed

lemma cli_named_Delete: "cli_named s \<Longrightarrow> cli_Delete i (sv_cli s) = (c, x) \<Longrightarrow> cli_named (s\<lparr>sv_cli := c\<rparr>)"
  by (auto simp: cli_named_def cli_Delete_def set_map_del split: option.splits)

lemma serve_cli_named:
  assumes "cli_named s" shows "cli_named (fst (serve ctx route env r s))"
proof -
  have e: "after cli_named (handleCLIEnroll env r s)"
    unfolding handleCLIEnroll_def by (intro after_rules) (auto simp: assms intro: cli_named_Enroll [OF assms])
  have d: "after cli_named (handleCLIDeleteDevice env r s)"
    unfolding handleCLIDeleteDevice_def by (intro after_rules) (use cli_named_Delete [OF assms] assms in \<open>auto simp: cli_named_def\<close>)
  show ?thesis
  proof (cases "sv_cli (fst (serve ctx route env r s)) = sv_cli s")
    case True
    with assms show ?thesis by (simp add: cli_named_def)
  next
    case False
    then have "route = CLIEnroll \<or> route = CLIDelete"
      by (cases route) (simp_all add: withMTLS_fst withAdminMTLS_fst handler_views split: if_splits)
    with e d assms show ?thesis by (auto simp: after_def withAdminMTLS_fst)
  qed
qed

lemma announce_limiter: "announce tx s = (s', jobs) \<Longrightarrow> sv_loadLimiter s' = sv_loadLimiter s"
  by (auto simp: announce_def logTelegramEvent_def emitSignLog_def split: if_splits)

lemma log_limiter [simp]: "sv_loadLimiter (logSignRequest r t t' i u p out m s) = sv_loadLimiter s"
  by (simp add: logSignRequest_def emitSignLog_def)

lemma sign_admitted_limiter: "sv_loadLimiter s = c \<Longrightarrow> after (\<lambda>t. sv_loadLimiter t = c) (sign_admitted env r req fp dst s)"
  unfolding sign_admitted_def by (intro after_rules) (auto dest: announce_limiter)

lemma handlers_limiter:
  "after (\<lambda>t. sv_loadLimiter t = sv_loadLimiter s) (handleSign env r s)"
  "after (\<lambda>t. sv_loadLimiter t = sv_loadLimiter s) (handleWait ctx env r s)"
  "after (\<lambda>t. sv_loadLimiter t = sv_loadLimiter s) (handleCapabilities env r s)"
  "after (\<lambda>t. sv_loadLimiter t = sv_loadLimiter s) (handleMobileEnroll env r s)"
  "after (\<lambda>t. sv_loadLimiter t = sv_loadLimiter s) (handleMobileDeleteDevice env r s)"
  "after (\<lambda>t. sv_loadLimiter t = sv_loadLimiter s) (handleMobileApprove env r s)"
  "after (\<lambda>t. sv_loadLimiter t = sv_loadLimiter s) (handleMobileKeysPending env r s)"
  "after (\<lambda>t. sv_loadLimiter t = sv_loadLimiter s) (handleCLIEnroll env r s)"
  unfolding handleSign_def handleWait_def handleCapabilities_def logCapabilitiesRequest_def emitSignLog_def handleMobileEnroll_def
    handleMobileDeleteDevice_def handleMobileApprove_def handleMobileKeysPending_def handleCLIEnroll_def
  by (intro after_rules sign_admitted_limiter; simp)+


text \<open>No route but the enrolment route itself touches what the limiter holds for an enrolment name.\<close>

lemma load_route_limiter:
  assumes "cd_ID dev \<noteq> d"
  shows "after (\<lambda>t. loads_of (sv_loadLimiter t) d = loads_of (sv_loadLimiter s) d) (cli_load_key env dev p s)"
proof -
  have a: "Allowed t (cd_ID dev) (sv_loadLimiter s) = (lim, ok) \<Longrightarrow> loads_of lim d = loads_of (sv_loadLimiter s) d" for t lim ok
    using loads_of_other(2) [OF assms, of t "sv_loadLimiter s"] by simp
  show ?thesis
    unfolding cli_load_key_def by (intro after_rules) (auto simp: assms dest: a)
qed

lemma cli_name_differs: "HasPrefix i ''cli_'' \<Longrightarrow> i \<noteq> ''mtls-enroll:'' @ ip"
  by (auto simp: HasPrefix_def)

lemma keys_load_limiter:
  assumes "cli_named s"
  shows "after (\<lambda>t. loads_of (sv_loadLimiter t) (''mtls-enroll:'' @ ip) = loads_of (sv_loadLimiter s) (''mtls-enroll:'' @ ip))
    (handleCLIKeysLoad env r s)"
proof -
  have n: "cd_ID dev \<noteq> ''mtls-enroll:'' @ ip" if "cli_peer r s = Inr dev" for dev
  proof -
    from cli_peer_Inr [OF that] have "dev \<in> snd ` set (cs_devices (sv_cli s))"
      by (auto simp: GetByFingerprint_def find_Some_iff)
    then obtain i where "(i, dev) \<in> set (cs_devices (sv_cli s))" by force
    with assms have "HasPrefix (cd_ID dev) ''cli_''" unfolding cli_named_def by fast
    then show ?thesis by (rule cli_name_differs)
  qed
  have l: "after (\<lambda>t. loads_of (sv_loadLimiter t) (''mtls-enroll:'' @ ip) = loads_of (sv_loadLimiter s) (''mtls-enroll:'' @ ip))
      (cli_load_key env dev p (s\<lparr>sv_replay := c\<rparr>))" if "cli_peer r s = Inr dev" for dev p c
    using load_route_limiter [OF n [OF that], of "s\<lparr>sv_replay := c\<rparr>"] by simp
  show ?thesis unfolding handleCLIKeysLoad_def by (intro after_rules l) auto
qed

lemma delete_route_limiter:
  assumes "cli_named s"
  shows "after (\<lambda>t. loads_of (sv_loadLimiter t) (''mtls-enroll:'' @ ip) = loads_of (sv_loadLimiter s) (''mtls-enroll:'' @ ip))
    (handleCLIDeleteDevice env r s)"
proof -
  have "i \<noteq> ''mtls-enroll:'' @ ip" if "cli_Delete i (sv_cli s) = (c, Inr u)" for i c u
    using that assms by (auto simp: cli_Delete_def cli_named_def HasPrefix_def dest!: map_of_SomeD split: option.splits)
  then show ?thesis unfolding handleCLIDeleteDevice_def by (intro after_rules) auto
qed

lemma serve_enroll_loads:
  assumes "cli_named s" and "route \<noteq> MTLSEnroll"
  shows "loads_of (sv_loadLimiter (fst (serve ctx route env r s))) (''mtls-enroll:'' @ ip) = loads_of (sv_loadLimiter s) (''mtls-enroll:'' @ ip)"
  using assms(2) handlers_limiter [of s, unfolded after_def] keys_load_limiter [OF assms(1), unfolded after_def]
    delete_route_limiter [OF assms(1), unfolded after_def]
  by (cases route) (simp_all add: withMTLS_fst withAdminMTLS_fst handler_views)

lemma token_tries_recorded:
  fixes ip defines "d \<equiv> ''mtls-enroll:'' @ ip"
  assumes "cli_named s" and "loads_of (sv_loadLimiter s) d = loads_of l d"
  shows "length (in_window w d (token_tries cs s)) \<le> length (in_window w d (snd (limit_run (enroll_calls cs) l)))"
  using assms(2,3)
proof (induction cs arbitrary: s l)
  case (Cons c cs)
  let ?s = "fst (api_serve c s)"
  have named: "cli_named ?s" using serve_cli_named [OF Cons.prems(1)] by (simp add: api_serve_def)
  show ?case
  proof (cases "ac_route c = MTLSEnroll")
    case False
    then have "loads_of (sv_loadLimiter ?s) d = loads_of l d"
      using serve_enroll_loads [OF Cons.prems(1)] Cons.prems(2) unfolding d_def api_serve_def by simp
    from Cons.IH [OF named this] False show ?thesis by (simp add: enroll_calls_def)
  next
    case True
    let ?e = "enroll_name c"
    obtain l' ok where l: "TryRecordSuccess (call_time c) ?e l = (l', ok)" by fastforce
    have calls: "enroll_calls (c # cs) = LRecord (call_time c) ?e # enroll_calls cs"
      using True by (simp add: enroll_calls_def)
    have lim: "sv_loadLimiter ?s = fst (TryRecordSuccess (call_time c) ?e (sv_loadLimiter s))"
      using True handleMTLSEnroll_limiter [of "ac_env c" "ac_request c" s] by (simp add: api_serve_def after_def enroll_name_def)
    have same: "loads_of (sv_loadLimiter ?s) d = loads_of l' d"
    proof (cases "?e = d")
      case e: True
      from record_depends(2) [OF Cons.prems(2)] l lim e show ?thesis by (metis fst_conv)
    next
      case e: False
      from loads_of_other(1) [OF e] Cons.prems(2) l lim show ?thesis by (metis fst_conv)
    qed
    have refused: "rp_status (fst (snd (api_serve c s))) = 429" if "\<not> ok" "?e = d"
    proof -
      have "\<not> snd (TryRecordSuccess (call_time c) ?e (sv_loadLimiter s))"
        using record_depends(1) [OF Cons.prems(2), of "call_time c"] l that by simp
      with handleMTLSEnroll_refused [of "ac_env c" "ac_request c" s] True show ?thesis by (simp add: api_serve_def enroll_name_def)
    qed
    from Cons.IH [OF named same] refused l calls True show ?thesis
      by (cases ok; cases "?e = d") (auto simp: in_window_def case_prod_beta)
  qed
qed (simp add: enroll_calls_def in_window_def)

text \<open>
  (C36) The enrolment token cannot be searched for: on a server started with an empty rate limiter
  and no CLI devices, whatever clients with or without certificates send to whatever routes of the
  API, at non-decreasing times, in every window of one hour at most ten requests from an address
  get past the rate limit of the token route, and only these have their token compared.
\<close>

theorem token_guess_bound:
  assumes "sorted (map (\<lambda>c. ae_now (ac_env c) 0) cs)"
    and "sv_loadLimiter s = NewLoadRateLimiter" and "sv_cli s = cli_NewStore"
  shows "length (in_window w (''mtls-enroll:'' @ ip) (token_tries cs s)) \<le> 10"
proof -
  have "map limit_time (enroll_calls cs) = map call_time (filter (\<lambda>c. ac_route c = MTLSEnroll) cs)"
    by (simp add: enroll_calls_def)
  then have "sorted (map limit_time (enroll_calls cs))" using assms(1) by (simp add: sorted_filter)
  moreover have "cli_named s" using assms(3) by (simp add: cli_named_def cli_NewStore_def)
  ultimately show ?thesis
    using new_limiter_windows [of "enroll_calls cs" w "''mtls-enroll:'' @ ip"]
      token_tries_recorded [of s ip NewLoadRateLimiter w cs] assms(2) by simp
qed

section \<open>Enrolled clients\<close>

lemma find_only:
  assumes "x \<in> set xs" and "P x" and "\<forall>y \<in> set xs. P y \<longrightarrow> y = x" shows "find P xs = Some x"
proof (cases "find P xs")
  case None
  with assms(1,2) show ?thesis by (simp add: find_None_iff)
next
  case (Some y)
  then have "y \<in> set xs" "P y" unfolding find_Some_iff by auto
  with assms(3) Some show ?thesis by simp
qed

lemma set_map_put_values: "snd ` set (map_put k v m) \<subseteq> insert v (snd ` set m)" "v \<in> snd ` set (map_put k v m)"
  by (induction m) auto

lemma cli_Enroll_found:
  assumes "cli_Enroll ulid now l fp st = (st', Inr d)" shows "GetByFingerprint fp st' = Some d"
proof -
  from assms have st': "st' = st\<lparr>cs_devices := map_put (''cli_'' @ ulid) d (cs_devices st)\<rparr>" and d: "cd_CertFingerprint d = fp"
    and new: "\<not> list_ex (\<lambda>(_, e). cd_CertFingerprint e = fp) (cs_devices st)"
    by (auto simp: cli_Enroll_def Let_def split: option.splits if_splits)
  have old: "cd_CertFingerprint e \<noteq> fp" if "e \<in> snd ` set (cs_devices st)" for e
    using that new by (auto simp: list_ex_iff)
  have "e = d" if "e \<in> snd ` set (map_put (''cli_'' @ ulid) d (cs_devices st))" "cd_CertFingerprint e = fp" for e
    using set_map_put_values(1) [of "''cli_'' @ ulid" d "cs_devices st"] that old [of e] by blast
  with d set_map_put_values(2) [of d "''cli_'' @ ulid" "cs_devices st"] show ?thesis
    unfolding GetByFingerprint_def st' by (intro find_only) auto
qed

lemma handleCLIEnroll_201:
  assumes "handleCLIEnroll env r s = (s', resp, jobs)" and "rp_status resp = 201"
  shows "\<exists>signer (req :: cliEnrollRequest) pem fp (d :: cli_Device). sv_csrSigner s = Some signer
    \<and> csr_Sign (ae_x5 env) (ae_serial env) (ae_now env 0) (ce_CSRPEM req) signer = Inr (pem, fp)
    \<and> cli_Enroll (ae_ulid env) (ae_now env 1) (ce_Label req) fp (sv_cli s) = (sv_cli s', Inr d)
    \<and> resp = json_response 201 (JObject [(''device_id'', JString (cd_ID d)), (''certificate_pem'', JString pem)])
    \<and> sv_cfg s' = sv_cfg s"
proof -
  from assms obtain signer raw req where a: "sv_csrSigner s = Some signer" "ReadAll maxCLIEnrollBody r = Inr raw"
      "Unmarshal (ae_js env) cli_enroll_fields raw \<lparr>ce_Label = [], ce_CSRPEM = []\<rparr> = Some req"
    by (auto simp: handleCLIEnroll_def split: option.splits sum.splits)
  note h = assms(1) [unfolded handleCLIEnroll_def a option.case sum.case]
  from h assms(2) have b: "ce_CSRPEM req \<noteq> []" by (auto split: if_splits)
  from h b assms(2) have c: "ValidateLabel (ce_Label req) = None"
    by (auto simp: label_error_def split: option.splits if_splits)
  from h b c assms(2) obtain pem fp where e: "csr_Sign (ae_x5 env) (ae_serial env) (ae_now env 0) (ce_CSRPEM req) signer = Inr (pem, fp)"
    by (auto simp: csr_error_def split: sum.splits if_splits)
  obtain st res where en: "cli_Enroll (ae_ulid env) (ae_now env 1) (ce_Label req) fp (sv_cli s) = (st, res)" by fastforce
  from h b c e en assms(2) obtain d where d: "res = Inr d" by (cases res) (auto simp: cli_enroll_error_def split: if_splits)
  from h b c e en d have "s' = s\<lparr>sv_cli := st\<rparr>"
    "resp = json_response 201 (JObject [(''device_id'', JString (cd_ID d)), (''certificate_pem'', JString pem)])" by simp_all
  with a(1) e en d show ?thesis
    by (intro exI [of _ signer] exI [of _ req] exI [of _ pem] exI [of _ fp] exI [of _ d]) simp
qed

text \<open>
  Enrolment is enough to come back: after an administrator's enrolment request is answered with
  201, a client that presents the certificate of that answer is recognised, at the key-loading
  route, as the device of that answer, provided the server runs in \<open>local-key\<close> mode and its signer
  uses the configured CLI unit, which is not the administrators'.
\<close>

theorem enrolled_cli_recognised:
  assumes "issues_as_told (ae_x5 env)" and "handleCLIEnroll env r s = (s', resp, jobs)" and "rp_status resp = 201"
    and "sv_csrSigner s = Some signer" and "cx_requiredOU signer = cfg_CliClientOU (sv_cfg s)"
    and "cfg_CliClientOU (sv_cfg s) \<noteq> []" and "cfg_AdminClientOU (sv_cfg s) \<noteq> cfg_CliClientOU (sv_cfg s)"
    and "cfg_SignerMode (sv_cfg s) = SignerModeLocalKey"
  shows "\<exists>pem c d. resp = json_response 201 (JObject [(''device_id'', JString (cd_ID d)), (''certificate_pem'', JString pem)])
    \<and> cert_of_pem (ae_x5 env) pem = Some c \<and> (\<forall>w. peer_cert w = Some c \<longrightarrow> cli_peer w s' = Inr d)"
proof -
  from handleCLIEnroll_201 [OF assms(2,3)] assms(4) obtain req :: cliEnrollRequest and pem fp d where
      s: "csr_Sign (ae_x5 env) (ae_serial env) (ae_now env 0) (ce_CSRPEM req) signer = Inr (pem, fp)"
    and e: "cli_Enroll (ae_ulid env) (ae_now env 1) (ce_Label req) fp (sv_cli s) = (sv_cli s', Inr d)"
    and resp: "resp = json_response 201 (JObject [(''device_id'', JString (cd_ID d)), (''certificate_pem'', JString pem)])"
    and cfg: "sv_cfg s' = sv_cfg s" by auto
  from csr_Sign_cert [OF assms(1) s] obtain c where c: "cert_of_pem (ae_x5 env) pem = Some c" "fp = CertFingerprint c"
      "xc_OrganizationalUnit c = [cfg_CliClientOU (sv_cfg s)]" using assms(5) by auto
  have "cli_peer w s' = Inr d" if "peer_cert w = Some c" for w
    using that c cfg assms(6-8) cli_Enroll_found [OF e]
    by (simp add: cli_peer_def cliDeviceFromPeer_def adminClientAllowed_def cliClientAllowed_def)
  with resp c(1) show ?thesis by blast
qed

definition demo_enroll_env :: api_env where
  "demo_enroll_env = (demo_env [])\<lparr>ae_js := \<lparr>js_parse = \<lambda>_. Some (JObject [(''label'', JString ''laptop''),
     (''csr_pem'', JString (''CERTIFICATE REQUEST'' @ [CHR 0x0A] @ ''cli''))]), js_print = \<lambda>_. []\<rparr>, ae_now := \<lambda>_. 0\<rparr>"

definition demo_enroll_server :: server where
  "demo_enroll_server = (demo_server SignerModeLocalKey demo_host)\<lparr>sv_cfg :=
     zero_Config\<lparr>cfg_SignerMode := SignerModeLocalKey, cfg_CliClientOU := ''cli'', cfg_AdminClientOU := ''admin''\<rparr>\<rparr>"

lemma demo_enroll_run:
  "\<exists>s' j. handleCLIEnroll demo_enroll_env demo_post demo_enroll_server = (s', json_response 201 j, [])"
proof -
  have keys: "fold_key ''label'' = ''LABEL''" "fold_key ''csr_pem'' = ''CSR_PEM''" by code_simp+
  have u: "Unmarshal (ae_js demo_enroll_env) cli_enroll_fields raw \<lparr>ce_Label = [], ce_CSRPEM = []\<rparr> =
      Some \<lparr>ce_Label = ''laptop'', ce_CSRPEM = ''CERTIFICATE REQUEST'' @ [CHR 0x0A] @ ''cli''\<rparr>" for raw
    by (simp add: Unmarshal_def demo_enroll_env_def decode_struct_def cli_enroll_fields_def json_field_defs keys)
  have v: "ValidateLabel ''laptop'' = None" by (simp add: ValidateLabel_def MaxLabelLen_def)
  have b: "ReadAll maxCLIEnrollBody demo_post = Inr ''body''" by (simp add: ReadAll_def demo_post_def maxCLIEnrollBody_def)
  have c: "sv_csrSigner demo_enroll_server = Some demo_csr_signer" "sv_cli demo_enroll_server = cli_NewStore"
    "ae_x5 demo_enroll_env = demo_x5" "ae_serial demo_enroll_env = Inr 1" "ae_now demo_enroll_env n = 0" for n
    by (simp_all add: demo_enroll_server_def demo_server_def demo_enroll_env_def demo_env_def)
  have e: "\<exists>st d. cli_Enroll i 0 ''laptop'' fp cli_NewStore = (st, Inr d)" for i fp
    using v by (simp add: cli_Enroll_def cli_NewStore_def Let_def)
  obtain fp where f: "csr_Sign demo_x5 (Inr 1) 0 (''CERTIFICATE REQUEST'' @ [CHR 0x0A] @ ''cli'') demo_csr_signer =
      Inr (''CERTIFICATE'' @ [CHR 0x0A] @ ''1cli'', fp)" using demo_csr_run(1) by blast
  obtain st d where g: "cli_Enroll (ae_ulid demo_enroll_env) 0 ''laptop'' fp cli_NewStore = (st, Inr d)" using e by blast
  have n: "''CERTIFICATE REQUEST'' @ [CHR 0x0A] @ ''cli'' \<noteq> []" by simp
  show ?thesis
    unfolding handleCLIEnroll_def u b c option.case sum.case cliEnrollRequest.simps if_not_P [OF n] v f prod.case g
    by blast
qed

theorem enrolled_cli_recognised_witness:
  "\<exists>s' j pem c d. handleCLIEnroll demo_enroll_env demo_post demo_enroll_server = (s', json_response 201 j, [])
     \<and> cert_of_pem demo_x5 pem = Some c \<and> cli_peer (demo_post\<lparr>rq_TLS := Some [c]\<rparr>) s' = Inr d"
proof -
  obtain s' j where r: "handleCLIEnroll demo_enroll_env demo_post demo_enroll_server = (s', json_response 201 j, [])"
    using demo_enroll_run by blast
  have x5: "ae_x5 demo_enroll_env = demo_x5" by (simp add: demo_enroll_env_def demo_env_def)
  have "\<exists>pem c d. json_response 201 j = json_response 201 (JObject [(''device_id'', JString (cd_ID d)), (''certificate_pem'', JString pem)])
    \<and> cert_of_pem (ae_x5 demo_enroll_env) pem = Some c \<and> (\<forall>w. peer_cert w = Some c \<longrightarrow> cli_peer w s' = Inr d)"
    by (rule enrolled_cli_recognised [OF _ r, where signer = demo_csr_signer])
      (simp_all add: x5 demo_x5_issues, simp_all add: demo_enroll_server_def demo_server_def demo_csr_signer_def NewCSRSigner_def)
  then obtain pem c d where "cert_of_pem demo_x5 pem = Some c" "\<forall>w. peer_cert w = Some c \<longrightarrow> cli_peer w s' = Inr d"
    unfolding x5 by blast
  moreover have "peer_cert (demo_post\<lparr>rq_TLS := Some [c]\<rparr>) = Some c" by (simp add: peer_cert_def)
  ultimately show ?thesis using r by blast
qed

section \<open>A search for the token\<close>

text \<open>Token enrolment is on; an administrator enrols a CLI device first, then a stranger tries tokens.\<close>

definition demo_token_server :: server where
  "demo_token_server = demo_enroll_server\<lparr>sv_cfg := (sv_cfg demo_enroll_server)\<lparr>cfg_MTLSEnrollToken := ''secret''\<rparr>\<rparr>"

definition demo_guess :: api_call where
  "demo_guess = \<lparr>ac_route = MTLSEnroll, ac_env = demo_enroll_env,
     ac_request = demo_post\<lparr>rq_TLS := None, rq_header := \<lambda>_. ''guess''\<rparr>, ac_ctx = ErrContextCanceled\<rparr>"

definition demo_admin_enrols :: api_call where
  "demo_admin_enrols = \<lparr>ac_route = CLIEnroll, ac_env = demo_enroll_env,
     ac_request = demo_post\<lparr>rq_TLS := Some [\<lparr>xc_Raw = ''admin'', xc_OrganizationalUnit = [''admin'']\<rparr>]\<rparr>, ac_ctx = ErrContextCanceled\<rparr>"

theorem token_guess_bound_witness:
  "fst (snd (api_serve demo_guess demo_token_server)) = http_Error ''invalid enroll token'' 401
   \<and> length (in_window hour (''mtls-enroll:'' @ ''203.0.113.10'')
       (token_tries (replicate 6 demo_guess @ demo_admin_enrols # replicate 6 demo_guess) demo_token_server)) \<le> 10"
proof
  have "TrimSpace ''secret'' = ''secret''" "TrimSpace ''guess'' = ''guess''"
    "clientIPFromRemoteAddr ''203.0.113.10:5000'' = ''203.0.113.10''" by code_simp+
  then show "fst (snd (api_serve demo_guess demo_token_server)) = http_Error ''invalid enroll token'' 401"
    by (simp add: api_serve_def demo_guess_def demo_token_server_def demo_enroll_server_def demo_server_def demo_enroll_env_def
      demo_env_def demo_post_def handleMTLSEnroll_def TryRecordSuccess_def pruneLocked_def loads_of_def NewLoadRateLimiter_def loadRateLimitCount_def Let_def)
  show "length (in_window hour (''mtls-enroll:'' @ ''203.0.113.10'')
       (token_tries (replicate 6 demo_guess @ demo_admin_enrols # replicate 6 demo_guess) demo_token_server)) \<le> 10"
    by (rule token_guess_bound) (simp_all add: sorted_append demo_guess_def demo_admin_enrols_def demo_enroll_env_def
      demo_token_server_def demo_enroll_server_def demo_server_def)
qed

end
