(* ===== verification/Control.thy ===== *)
theory Control
  imports Api_Run
begin

text \<open>
  The control socket of the operator (\<open>control/ops.go\<close>, \<open>control/server.go\<close>, \<open>control/types.go\<close>,
  \<open>control/peer_linux.go\<close>, \<open>control/secret.go\<close>). Its server shares keystore, queue and registries with
  the API, so that its operations act on the same state, the record \<open>server\<close>.
\<close>

section \<open>Requests and responses\<close>

record Request =
  rq_Op :: string
  rq_ID :: string
  rq_Data :: "json option"

record Response =
  rs_OK :: bool
  rs_ID :: string
  rs_Data :: "json option"
  rs_Error :: string
  rs_Code :: string

definition ctl_ok :: "string \<Rightarrow> json option \<Rightarrow> Response" where
  "ctl_ok i data = \<lparr>rs_OK = True, rs_ID = i, rs_Data = data, rs_Error = [], rs_Code = []\<rparr>"

definition ctl_fail :: "string \<Rightarrow> string \<Rightarrow> string \<Rightarrow> Response" where
  "ctl_fail i msg code = \<lparr>rs_OK = False, rs_ID = i, rs_Data = None, rs_Error = msg, rs_Code = code\<rparr>"

text \<open>\<open>json.Unmarshal(req.Data, &in)\<close>: a request without data does not decode.\<close>

definition decode_data :: "'s json_field list \<Rightarrow> json option \<Rightarrow> 's \<Rightarrow> 's option" where
  "decode_data fs data s = (case data of None \<Rightarrow> None | Some j \<Rightarrow> decode_struct fs j s)"

definition ZeroBytes :: "bytes \<Rightarrow> bytes" where
  "ZeroBytes b = map (\<lambda>_. CHR 0x00) b"

section \<open>Answers that only read\<close>

definition signers_json :: "ssh_lib \<Rightarrow> Keystore \<Rightarrow> json" where
  "signers_json lib k =
     (if ListSigners lib k = [] \<and> (ks_mode k = ModeLocalCA \<or> ks_pool k = None) then JNull
      else JArray (map signer_entry_json (ListSigners lib k)))"

definition statusData :: "api_env \<Rightarrow> server \<Rightarrow> server \<times> json" where
  "statusData env s =
     (let (p, n) = pending_Count (ae_now env 0) (sv_pending s)
      in (s\<lparr>sv_pending := p\<rparr>,
          JObject [(''loaded'', signers_json (ae_lib env) (sv_keystore s)), (''pending'', JInt (int n)),
                   (''sealed'', JBool (\<not> ks_Available (sv_keystore s))),
                   (''signer_mode'', JString (cfg_SignerMode (sv_cfg s)))]))"

definition keyListData :: "api_env \<Rightarrow> server \<Rightarrow> json" where
  "keyListData env s = JObject [(''signers'', signers_json (ae_lib env) (sv_keystore s))]"

definition pending_item_json :: "PendingKey \<Rightarrow> json" where
  "pending_item_json p = JObject
     ([(''id'', JString (pd_ID p)), (''device_id'', JString (pd_DeviceID p)), (''label'', JString (pd_Label p))] @
      omit_string ''comment'' (pd_Comment p) @ [(''expires_at'', JString (Format_RFC3339 (pd_ExpiresAt p)))])"

definition pendingListData :: "api_env \<Rightarrow> server \<Rightarrow> server \<times> json" where
  "pendingListData env s =
     (let (p, xs) = pending_List (ae_now env 0) (sv_pending s)
      in (s\<lparr>sv_pending := p\<rparr>, JObject [(''pending'', JArray (map pending_item_json xs))]))"

text \<open>The mobile devices are printed as the Go struct, whose time has its fraction of a second.\<close>

definition Format_RFC3339Nano :: "gotime \<Rightarrow> string" where
  "Format_RFC3339Nano t = butlast (Format_RFC3339 t) @ format_frac 9 (t mod second) @ ''Z''"

definition mobile_device_json :: "mobile_Device \<Rightarrow> json" where
  "mobile_device_json d = JObject
     [(''ID'', JString (md_ID d)), (''Label'', JString (md_Label d)),
      (''PubKey'', JString (StdEncoding_EncodeToString (md_PubKey d))),
      (''CertFingerprint'', JString (md_CertFingerprint d)), (''EnrolledAt'', JString (Format_RFC3339Nano (md_EnrolledAt d)))]"

definition mobileListData :: "server \<Rightarrow> json" where
  "mobileListData s = JObject [(''devices'', JArray (map mobile_device_json (mobile_List (sv_mobile s))))]"

definition cliListData :: "server \<Rightarrow> json" where
  "cliListData s = JObject [(''devices'', JArray (map cli_device_json (cli_List (sv_cli s))))]"

section \<open>Operations on keys\<close>

record keyLoadData =
  kl_Path :: string
  kl_Passphrase :: string
  kl_Comment :: string

definition keyLoad_fields :: "keyLoadData json_field list" where
  "keyLoad_fields =
     [string_field ''path'' (\<lambda>v q. q\<lparr>kl_Path := v\<rparr>), string_field ''passphrase'' (\<lambda>v q. q\<lparr>kl_Passphrase := v\<rparr>),
      string_field ''comment'' (\<lambda>v q. q\<lparr>kl_Comment := v\<rparr>)]"

definition fingerprint_json :: "string \<Rightarrow> json" where
  "fingerprint_json fp = JObject [(''fingerprint'', JString fp)]"

definition load_failure :: "string \<Rightarrow> go_error \<Rightarrow> string \<Rightarrow> Response" where
  "load_failure i err msg =
     (if errors_Is err ErrUnsealLocked then ctl_fail i (error_text err) ''LOCKED'' else ctl_fail i msg ''FORBIDDEN'')"

definition handleKeyLoad :: "api_env \<Rightarrow> Request \<Rightarrow> server \<Rightarrow> server \<times> Response" where
  "handleKeyLoad env req s =
     (case decode_data keyLoad_fields (rq_Data req) \<lparr>kl_Path = [], kl_Passphrase = [], kl_Comment = []\<rparr> of
        None \<Rightarrow> (s, ctl_fail (rq_ID req) ''invalid json'' ''BAD_REQUEST'')
      | Some d \<Rightarrow>
          if kl_Path d = [] \<or> kl_Passphrase d = []
          then (s, ctl_fail (rq_ID req) ''path and passphrase required'' ''BAD_REQUEST'')
          else (case LoadPEMFile (ae_lib env) (ae_mlock env) (ae_ReadFile env) (ae_now env 0) (ae_now env 1) (kl_Path d)
                       (kl_Passphrase d) (kl_Comment d) (sv_keystore s) of
                  (k, Inl err) \<Rightarrow> (s\<lparr>sv_keystore := k\<rparr>, load_failure (rq_ID req) err ''load failed'')
                | (k, Inr fp) \<Rightarrow> (s\<lparr>sv_keystore := k\<rparr>, ctl_ok (rq_ID req) (Some (fingerprint_json fp)))))"

definition handleKeyRemove :: "Request \<Rightarrow> server \<Rightarrow> server \<times> Response" where
  "handleKeyRemove req s =
     (case decode_data [string_field ''fingerprint'' (\<lambda>v _. v)] (rq_Data req) [] of
        None \<Rightarrow> (s, ctl_fail (rq_ID req) ''invalid json'' ''BAD_REQUEST'')
      | Some fp \<Rightarrow>
          (case RemoveSigner fp (sv_keystore s) of
             (k, Inl err) \<Rightarrow> (s\<lparr>sv_keystore := k\<rparr>, ctl_fail (rq_ID req) (error_text err) ''NOT_FOUND'')
           | (k, Inr _) \<Rightarrow> (s\<lparr>sv_keystore := k\<rparr>, ctl_ok (rq_ID req) None)))"

record keyConfirmData =
  kc_PendingID :: string
  kc_Passphrase :: string

definition keyConfirm_fields :: "keyConfirmData json_field list" where
  "keyConfirm_fields =
     [string_field ''pending_id'' (\<lambda>v q. q\<lparr>kc_PendingID := v\<rparr>), string_field ''passphrase'' (\<lambda>v q. q\<lparr>kc_Passphrase := v\<rparr>)]"

text \<open>\<open>Get\<close> returns a pointer into the queue and \<open>LoadPEMBytes\<close> overwrites the blob it is handed, so
  that the entry in the queue is overwritten with it.\<close>

definition handleKeyConfirm :: "api_env \<Rightarrow> Request \<Rightarrow> server \<Rightarrow> server \<times> Response" where
  "handleKeyConfirm env req s =
     (if cfg_SignerMode (sv_cfg s) \<noteq> SignerModeLocalKey
      then (s, ctl_fail (rq_ID req) ''local-key mode required'' ''BAD_REQUEST'')
      else
     (case decode_data keyConfirm_fields (rq_Data req) \<lparr>kc_PendingID = [], kc_Passphrase = []\<rparr> of
        None \<Rightarrow> (s, ctl_fail (rq_ID req) ''invalid json'' ''BAD_REQUEST'')
      | Some d \<Rightarrow>
     (case pending_Get (ae_now env 0) (kc_PendingID d) (sv_pending s) of
        (p, Inl err) \<Rightarrow> (s\<lparr>sv_pending := p\<rparr>, ctl_fail (rq_ID req) (error_text err) ''NOT_FOUND'')
      | (p, Inr e) \<Rightarrow>
     (case LoadPEMBytes (ae_lib env) (ae_mlock env) (ae_now env 1) (ae_now env 2) (pd_Blob e) (kc_Passphrase d) (pd_Label e)
             (sv_keystore s) of
        (k, blob, Inl err) \<Rightarrow>
          (s\<lparr>sv_keystore := k, sv_pending := pending_write_blob (kc_PendingID d) blob p\<rparr>,
           load_failure (rq_ID req) err ''confirm failed'')
      | (k, blob, Inr fp) \<Rightarrow>
          (s\<lparr>sv_keystore := k, sv_pending := fst (pending_Delete (kc_PendingID d) (pending_write_blob (kc_PendingID d) blob p))\<rparr>,
           ctl_ok (rq_ID req) (Some (fingerprint_json fp)))))))"

definition handleKeyReject :: "Request \<Rightarrow> server \<Rightarrow> server \<times> Response" where
  "handleKeyReject req s =
     (case decode_data [string_field ''pending_id'' (\<lambda>v _. v)] (rq_Data req) [] of
        None \<Rightarrow> (s, ctl_fail (rq_ID req) ''invalid json'' ''BAD_REQUEST'')
      | Some pid \<Rightarrow>
          (case pending_Delete pid (sv_pending s) of
             (p, Inl err) \<Rightarrow> (s\<lparr>sv_pending := p\<rparr>, ctl_fail (rq_ID req) (error_text err) ''NOT_FOUND'')
           | (p, Inr _) \<Rightarrow> (s\<lparr>sv_pending := p\<rparr>, ctl_ok (rq_ID req) None)))"

section \<open>Operations on devices\<close>

definition ctl_MobileEnroll :: "api_env \<Rightarrow> Request \<Rightarrow> server \<Rightarrow> server \<times> Response" where
  "ctl_MobileEnroll env req s =
     (case decode_data enroll_fields (rq_Data req) zero_mobileEnroll of
        None \<Rightarrow> (s, ctl_fail (rq_ID req) ''invalid json'' ''BAD_REQUEST'')
      | Some d \<Rightarrow>
          if me_CertFingerprint d = [] then (s, ctl_fail (rq_ID req) ''cert_fingerprint required'' ''BAD_REQUEST'')
          else (case EnrollBound (ae_ulid env) (ae_now env 0) (me_Label d) (me_DevicePubKey d) (me_CertFingerprint d) (sv_mobile s) of
                  (m, Inl err) \<Rightarrow> (s\<lparr>sv_mobile := m\<rparr>, ctl_fail (rq_ID req) (error_text err) ''BAD_REQUEST'')
                | (m, Inr dev) \<Rightarrow>
                    (s\<lparr>sv_mobile := m\<rparr>, ctl_ok (rq_ID req) (Some (JObject [(''device_id'', JString (md_ID dev))])))))"

definition ctl_MobileDelete :: "Request \<Rightarrow> server \<Rightarrow> server \<times> Response" where
  "ctl_MobileDelete req s =
     (case decode_data [string_field ''device_id'' (\<lambda>v _. v)] (rq_Data req) [] of
        None \<Rightarrow> (s, ctl_fail (rq_ID req) ''invalid json'' ''BAD_REQUEST'')
      | Some devID \<Rightarrow>
          (case mobile_Delete devID (sv_mobile s) of
             (m, Inl err) \<Rightarrow> (s\<lparr>sv_mobile := m\<rparr>, ctl_fail (rq_ID req) (error_text err) ''NOT_FOUND'')
           | (m, Inr _) \<Rightarrow> (s\<lparr>sv_mobile := m\<rparr>, ctl_ok (rq_ID req) None)))"

definition ctl_CLIEnroll :: "api_env \<Rightarrow> Request \<Rightarrow> server \<Rightarrow> server \<times> Response" where
  "ctl_CLIEnroll env req s =
     (case sv_csrSigner s of
        None \<Rightarrow> (s, ctl_fail (rq_ID req) ''CLI CSR signing not configured'' ''UNAVAILABLE'')
      | Some signer \<Rightarrow>
     (case decode_data cli_enroll_fields (rq_Data req) \<lparr>ce_Label = [], ce_CSRPEM = []\<rparr> of
        None \<Rightarrow> (s, ctl_fail (rq_ID req) ''invalid json'' ''BAD_REQUEST'')
      | Some d \<Rightarrow>
          if ce_Label d = [] \<or> ce_CSRPEM d = [] then (s, ctl_fail (rq_ID req) ''label and csr_pem required'' ''BAD_REQUEST'')
          else
     (case ValidateLabel (ce_Label d) of
        Some err \<Rightarrow>
          (s, if errors_Is err ErrCliEmptyLabel \<or> errors_Is err ErrLabelTooLong
              then ctl_fail (rq_ID req) (error_text err) ''BAD_REQUEST''
              else ctl_fail (rq_ID req) ''invalid label'' ''BAD_REQUEST'')
      | None \<Rightarrow>
     (case csr_Sign (ae_x5 env) (ae_serial env) (ae_now env 0) (ce_CSRPEM d) signer of
        Inl err \<Rightarrow>
          (s, if errors_Is err ErrCSRInvalid then ctl_fail (rq_ID req) (error_text err) ''BAD_REQUEST''
              else ctl_fail (rq_ID req) ''sign failed'' ''FORBIDDEN'')
      | Inr (certPEM, fp) \<Rightarrow>
     (case cli_Enroll (ae_ulid env) (ae_now env 1) (ce_Label d) fp (sv_cli s) of
        (c, Inl err) \<Rightarrow>
          (s\<lparr>sv_cli := c\<rparr>,
           if errors_Is err ErrCliEmptyLabel \<or> errors_Is err ErrLabelTooLong
           then ctl_fail (rq_ID req) (error_text err) ''BAD_REQUEST''
           else if errors_Is err ErrDuplicateFingerprint then ctl_fail (rq_ID req) (error_text err) ''CONFLICT''
           else ctl_fail (rq_ID req) ''enroll failed'' ''FORBIDDEN'')
      | (c, Inr dev) \<Rightarrow>
          (s\<lparr>sv_cli := c\<rparr>,
           ctl_ok (rq_ID req) (Some (JObject [(''certificate_pem'', JString certPEM), (''device_id'', JString (cd_ID dev))]))))))))"

definition ctl_CLIDelete :: "Request \<Rightarrow> server \<Rightarrow> server \<times> Response" where
  "ctl_CLIDelete req s =
     (case decode_data [string_field ''device_id'' (\<lambda>v _. v)] (rq_Data req) [] of
        None \<Rightarrow> (s, ctl_fail (rq_ID req) ''invalid json'' ''BAD_REQUEST'')
      | Some devID \<Rightarrow>
          (case cli_Delete devID (sv_cli s) of
             (c, Inl err) \<Rightarrow> (s\<lparr>sv_cli := c\<rparr>, ctl_fail (rq_ID req) (error_text err) ''NOT_FOUND'')
           | (c, Inr _) \<Rightarrow>
               (s\<lparr>sv_cli := c, sv_loadLimiter := Forget devID (sv_loadLimiter s)\<rparr>, ctl_ok (rq_ID req) None)))"

section \<open>Dispatch\<close>

definition ctl_handle :: "api_env \<Rightarrow> Request \<Rightarrow> server \<Rightarrow> server \<times> Response" where
  "ctl_handle env req s =
     (let oper = rq_Op req; i = rq_ID req
      in if oper = ''status'' then (let (s', j) = statusData env s in (s', ctl_ok i (Some j)))
         else if oper = ''key.load'' then handleKeyLoad env req s
         else if oper = ''key.list'' then (s, ctl_ok i (Some (keyListData env s)))
         else if oper = ''key.remove'' then handleKeyRemove req s
         else if oper = ''key.confirm'' then handleKeyConfirm env req s
         else if oper = ''key.reject'' then handleKeyReject req s
         else if oper = ''key.pending.list'' then (let (s', j) = pendingListData env s in (s', ctl_ok i (Some j)))
         else if oper = ''mobile.enroll'' then ctl_MobileEnroll env req s
         else if oper = ''mobile.list'' then (s, ctl_ok i (Some (mobileListData s)))
         else if oper = ''mobile.delete'' then ctl_MobileDelete req s
         else if oper = ''cli.enroll'' then ctl_CLIEnroll env req s
         else if oper = ''cli.list'' then (s, ctl_ok i (Some (cliListData s)))
         else if oper = ''cli.delete'' then ctl_CLIDelete req s
         else (s, ctl_fail i ''unknown op'' ''UNKNOWN''))"

section \<open>Connections\<close>

text \<open>The peer's credentials, the process's own user and the group database are parameters. The
  reason why a group number does not parse, which is only logged, is left out.\<close>

record os_ids =
  os_euid :: int
  os_LookupGroup :: "string \<Rightarrow> string result"

text \<open>\<open>fmt.Sscanf\<close> with \<open>%d\<close> into a 32-bit unsigned number: blanks are skipped and digits are read as
  far as they go.\<close>

definition scan_uint32 :: "string \<Rightarrow> int option" where
  "scan_uint32 txt =
     (case parse_nat (takeWhile (\<lambda>c. char_digit c \<noteq> None) (dropWhile (\<lambda>c. c = CHR '' '') txt)) of
        None \<Rightarrow> None | Some n \<Rightarrow> if int n < 2 ^ 32 then Some (int n) else None)"

definition credAllowed :: "os_ids \<Rightarrow> int \<Rightarrow> int \<Rightarrow> string \<Rightarrow> go_error option" where
  "credAllowed os peerUID peerGID groupName =
     (if peerUID = 0 then None
      else if peerUID = os_euid os then None
      else if groupName = [] then Some (Errorf (''peer uid '' @ FormatInt peerUID @ '' not allowed''))
      else case os_LookupGroup os groupName of
             Inl err \<Rightarrow> Some (Wrapf (''lookup group '' @ strconv_Quote groupName @ '': '') err '''')
           | Inr gid \<Rightarrow>
               (case scan_uint32 gid of
                  None \<Rightarrow> Some (Errorf ''parse gid'')
                | Some wantGID \<Rightarrow>
                    if peerGID = wantGID then None
                    else Some (Errorf (''peer uid '' @ FormatInt peerUID @ '' gid '' @ FormatInt peerGID @
                           '' not in group '' @ groupName))))"

text \<open>What the socket reports about its peer, or why it cannot.\<close>

definition peerAllowed :: "os_ids \<Rightarrow> (int \<times> int) result \<Rightarrow> string \<Rightarrow> go_error option" where
  "peerAllowed os cred groupName =
     (case cred of
        Inl err \<Rightarrow> Some (Wrapf ''peer cred: '' err '''')
      | Inr (uid, gid) \<Rightarrow> credAllowed os uid gid groupName)"

text \<open>The first line of the input as \<open>bufio.Scanner\<close> finds it: without its line end, \<open>None\<close> when there
  is no input or the line does not fit its buffer.\<close>

definition scan_line :: "bytes \<Rightarrow> bytes option" where
  "scan_line input =
     (let line = takeWhile (\<lambda>c. c \<noteq> CHR 0x0A) input
      in if input = [] \<or> 65536 \<le> length line then None
         else if line \<noteq> [] \<and> last line = CHR 0x0D then Some (butlast line) else Some line)"

definition request_fields :: "Request json_field list" where
  "request_fields =
     [string_field ''op'' (\<lambda>v q. q\<lparr>rq_Op := v\<rparr>), string_field ''id'' (\<lambda>v q. q\<lparr>rq_ID := v\<rparr>),
      raw_field ''data'' (\<lambda>v q. q\<lparr>rq_Data := Some v\<rparr>)]"

definition serveConn ::
  "os_ids \<Rightarrow> api_env \<Rightarrow> (int \<times> int) result \<Rightarrow> string \<Rightarrow> bytes \<Rightarrow> server \<Rightarrow> server \<times> Response option" where
  "serveConn os env cred groupName input s =
     (case peerAllowed os cred groupName of
        Some _ \<Rightarrow> (s, None)
      | None \<Rightarrow>
     (case scan_line input of
        None \<Rightarrow> (s, None)
      | Some line \<Rightarrow>
     (case Unmarshal (ae_js env) request_fields line \<lparr>rq_Op = [], rq_ID = [], rq_Data = None\<rparr> of
        None \<Rightarrow> (s, Some \<lparr>rs_OK = False, rs_ID = [], rs_Data = None, rs_Error = ''invalid json'', rs_Code = ''BAD_REQUEST''\<rparr>)
      | Some req \<Rightarrow> (let (s', resp) = ctl_handle env req s in (s', Some resp)))))"

text \<open>The modes of the socket and its directory.\<close>

definition socket_modes :: "os_ids \<Rightarrow> string \<Rightarrow> int \<times> int" where
  "socket_modes os groupName =
     (case os_LookupGroup os groupName of
        Inr _ \<Rightarrow> if groupName \<noteq> [] then (488, 432) else (448, 384)
      | Inl _ \<Rightarrow> (448, 384))"


section \<open>Invariants\<close>

lemma purge_views: "pending_Get now pid p = (p', r) \<Longrightarrow> p' = purgeExpiredLocked now p"
  "pending_List now p = (p', xs) \<Longrightarrow> p' = purgeExpiredLocked now p"
  "pending_Count now p = (p', n) \<Longrightarrow> p' = purgeExpiredLocked now p"
  by (auto simp: pending_Get_def pending_List_def pending_Count_def Let_def split: option.splits)

lemma LoadPEMBytes_keeps: "ks_inv k \<Longrightarrow> LoadPEMBytes lib ml a b pem pass c k = (k', r) \<Longrightarrow> ks_inv k'"
  using LoadPEMBytes_inv [of k lib ml a b pem pass c] by simp

lemma LoadPEMFile_keeps: "ks_inv k \<Longrightarrow> LoadPEMFile lib ml rf a b path pass c k = (k', r) \<Longrightarrow> ks_inv k'"
  by (auto simp: LoadPEMFile_def split: sum.splits prod.splits dest: LoadPEMBytes_keeps)

lemma RemoveSigner_keeps: "ks_inv k \<Longrightarrow> RemoveSigner fp k = (k', r) \<Longrightarrow> ks_inv k'"
  using RemoveSigner_inv [of k fp] by simp

lemma pending_Delete_keeps: "pending_inv p \<Longrightarrow> pending_Delete pid p = (p', r) \<Longrightarrow> pending_inv p'"
  using pending_Delete_inv [of p pid] by simp

lemma cli_Delete_keeps: "cli_inv c \<Longrightarrow> cli_Delete d c = (c', r) \<Longrightarrow> cli_inv c'"
  using cli_Delete_inv [of c d] by simp

lemma cli_Enroll_keeps:
  "cli_inv c \<Longrightarrow> map_of (cs_devices c) (''cli_'' @ ulid) = None \<Longrightarrow> cli_Enroll ulid now l fp c = (c', r) \<Longrightarrow> cli_inv c'"
  using cli_Enroll_inv [of c ulid now l fp] by simp

lemmas keep_rules = LoadPEMBytes_keeps LoadPEMFile_keeps RemoveSigner_keeps pending_Delete_keeps cli_Delete_keeps
  cli_Enroll_keeps

lemma server_inv_parts:
  "server_inv s \<Longrightarrow> ks_inv k \<Longrightarrow> server_inv (s\<lparr>sv_keystore := k\<rparr>)"
  "server_inv s \<Longrightarrow> pending_inv p \<Longrightarrow> server_inv (s\<lparr>sv_pending := p\<rparr>)"
  "server_inv s \<Longrightarrow> cli_inv c \<Longrightarrow> server_inv (s\<lparr>sv_cli := c\<rparr>)"
  "server_inv s \<Longrightarrow> server_inv (s\<lparr>sv_mobile := m\<rparr>)"
  "server_inv s \<Longrightarrow> server_inv (s\<lparr>sv_loadLimiter := l\<rparr>)"
  by (simp_all add: server_inv_def)

lemma handleKeyLoad_inv: "server_inv s \<Longrightarrow> after server_inv (handleKeyLoad env req s)"
  unfolding handleKeyLoad_def
  by (intro after_rules server_inv_parts) (auto simp: server_inv_def intro: keep_rules)

lemma handleKeyRemove_inv: "server_inv s \<Longrightarrow> after server_inv (handleKeyRemove req s)"
  unfolding handleKeyRemove_def
  by (intro after_rules server_inv_parts) (auto simp: server_inv_def intro: keep_rules)

lemma handleKeyReject_inv: "server_inv s \<Longrightarrow> after server_inv (handleKeyReject req s)"
  unfolding handleKeyReject_def
  by (intro after_rules server_inv_parts) (auto simp: server_inv_def intro: keep_rules)

lemma handleKeyConfirm_inv:
  assumes "server_inv s" shows "after server_inv (handleKeyConfirm env req s)"
proof -
  note inv = assms [unfolded server_inv_def]
  have p: "pending_Get now pid (sv_pending s) = (p, r) \<Longrightarrow> pending_inv p" for now pid p r
    using purge_views(1) purge_inv inv by metis
  have k: "LoadPEMBytes lib ml a b pem pass c (sv_keystore s) = (k, r) \<Longrightarrow> ks_inv k" for lib ml a b pem pass c k r
    using inv by (auto intro: keep_rules)
  show ?thesis
    unfolding handleKeyConfirm_def
    by (intro after_rules) (auto simp: server_inv_def inv intro: inv_rules p k)
qed

lemma ctl_MobileEnroll_inv: "server_inv s \<Longrightarrow> after server_inv (ctl_MobileEnroll env req s)"
  unfolding ctl_MobileEnroll_def by (intro after_rules) (auto intro: server_inv_parts)

lemma ctl_MobileDelete_inv: "server_inv s \<Longrightarrow> after server_inv (ctl_MobileDelete req s)"
  unfolding ctl_MobileDelete_def by (intro after_rules) (auto intro: server_inv_parts)

lemma ctl_CLIEnroll_inv:
  "server_inv s \<Longrightarrow> fresh_ids env s \<Longrightarrow> after server_inv (ctl_CLIEnroll env req s)"
  unfolding ctl_CLIEnroll_def
  by (intro after_rules) (auto simp: server_inv_def fresh_ids_def intro: keep_rules)

lemma ctl_CLIDelete_inv: "server_inv s \<Longrightarrow> after server_inv (ctl_CLIDelete req s)"
  unfolding ctl_CLIDelete_def
  by (intro after_rules) (auto simp: server_inv_def intro: keep_rules)

lemma statusData_inv: "server_inv s \<Longrightarrow> after server_inv (statusData env s)"
  unfolding statusData_def by (intro after_rules) (auto simp: server_inv_def dest: purge_views(3) intro: purge_inv)

lemma pendingListData_inv: "server_inv s \<Longrightarrow> after server_inv (pendingListData env s)"
  unfolding pendingListData_def by (intro after_rules) (auto simp: server_inv_def dest: purge_views(2) intro: purge_inv)

lemmas ctl_inv = handleKeyLoad_inv handleKeyRemove_inv handleKeyConfirm_inv handleKeyReject_inv ctl_MobileEnroll_inv
  ctl_MobileDelete_inv ctl_CLIEnroll_inv ctl_CLIDelete_inv

lemma ctl_handle_inv:
  assumes "server_inv s" and "fresh_ids env s" shows "server_inv (fst (ctl_handle env req s))"
proof -
  have "after server_inv (ctl_handle env req s)"
    using statusData_inv [OF assms(1), of env] pendingListData_inv [OF assms(1), of env]
    unfolding ctl_handle_def Let_def
    by (intro after_if ctl_inv assms after_prod after_reply) (simp_all add: after_def)
  then show ?thesis by (simp add: after_def)
qed

lemma serveConn_inv:
  assumes "server_inv s" and "fresh_ids env s" shows "server_inv (fst (serveConn os env cred g input s))"
  using assms by (auto simp: serveConn_def case_prod_beta intro: ctl_handle_inv split: option.split)


section \<open>Refused operations\<close>

text \<open>What a refused operation leaves alone: the signers that can be found, the devices, and
  everything that belongs to approvals.\<close>

definition same_power :: "server \<Rightarrow> server \<Rightarrow> bool" where
  "same_power s s' \<longleftrightarrow> (\<forall>fp. SignerForFingerprint fp (sv_keystore s') = SignerForFingerprint fp (sv_keystore s))
     \<and> SSHSigner (sv_keystore s') = SSHSigner (sv_keystore s)
     \<and> sv_mobile s' = sv_mobile s \<and> sv_cli s' = sv_cli s \<and> sv_store s' = sv_store s \<and> sv_cfg s' = sv_cfg s
     \<and> sv_replay s' = sv_replay s \<and> sv_loadLimiter s' = sv_loadLimiter s"

lemma same_power_refl [simp]: "same_power s s"
  by (simp add: same_power_def)

lemma same_power_pending [simp]: "same_power s (s'\<lparr>sv_pending := p\<rparr>) = same_power s s'"
  by (simp add: same_power_def)

definition same_signers :: "Keystore \<Rightarrow> Keystore \<Rightarrow> bool" where
  "same_signers k k' \<longleftrightarrow> ks_mode k' = ks_mode k \<and> ks_pool k' = ks_pool k \<and> ks_caSigner k' = ks_caSigner k"

lemma same_power_keystore: "same_signers (sv_keystore s) k \<Longrightarrow> same_power s (s\<lparr>sv_keystore := k\<rparr>)"
  by (simp add: same_power_def same_signers_def SignerForFingerprint_def SSHSigner_def)

lemma LoadPEMBytes_refused: "LoadPEMBytes lib ml a b pem pass c k = (k', buf, Inl err) \<Longrightarrow> same_signers k k'"
proof -
  assume l: "LoadPEMBytes lib ml a b pem pass c k = (k', buf, Inl err)"
  obtain k1 e where k1: "checkUnsealLock a k = (k1, e)" by fastforce
  have st: "store_signer sg c k1 \<noteq> (k2, Inl err)" for sg k2
    using store_signer_result [of sg c k1] by auto
  from checkUnsealLock_frame [OF k1] show ?thesis
    using l k1 st
    by (auto simp: LoadPEMBytes_def same_signers_def recordUnsealFailure_def Let_def split: option.splits sum.splits prod.splits if_splits)
qed

lemma LoadPEMFile_refused: "LoadPEMFile lib ml rf a b path pass c k = (k', Inl err) \<Longrightarrow> same_signers k k'"
  by (auto simp: LoadPEMFile_def same_signers_def split: sum.splits prod.splits dest: LoadPEMBytes_refused [unfolded same_signers_def])

lemma RemoveSigner_refused: "RemoveSigner fp k = (k', Inl err) \<Longrightarrow> same_signers k k'"
  by (auto simp: RemoveSigner_def same_signers_def Let_def pool_Remove_def split: Mode.splits option.splits prod.splits if_splits)

lemma registry_refused:
  "EnrollBound i t l p fp m = (m', Inl err) \<Longrightarrow> m' = m" "mobile_Delete d m = (m', Inl err) \<Longrightarrow> m' = m"
  "cli_Enroll i t l fp c = (c', Inl err) \<Longrightarrow> c' = c" "cli_Delete d c = (c', Inl err) \<Longrightarrow> c' = c"
  by (auto simp: EnrollBound_def mobile_Delete_def cli_Enroll_def cli_Delete_def Let_def split: option.splits if_splits sum.splits)

definition answers :: "Request \<Rightarrow> server \<Rightarrow> server \<times> Response \<Rightarrow> bool" where
  "answers req s out \<longleftrightarrow> rs_ID (snd out) = rq_ID req \<and> (\<not> rs_OK (snd out) \<longrightarrow> same_power s (fst out))"

lemma answers_ok [intro]: "answers req s (s', ctl_ok (rq_ID req) d)"
  by (simp add: answers_def ctl_ok_def)

lemma answers_fail [intro]: "same_power s s' \<Longrightarrow> answers req s (s', ctl_fail (rq_ID req) msg code)"
  by (simp add: answers_def ctl_fail_def)

lemma answers_load_failure [intro]: "same_power s s' \<Longrightarrow> answers req s (s', load_failure (rq_ID req) err msg)"
  by (auto simp: load_failure_def)

lemma ctl_handle_answers: "answers req s (ctl_handle env req s)"
proof -
  have "answers req s (handleKeyLoad env req s)" "answers req s (handleKeyRemove req s)" "answers req s (handleKeyConfirm env req s)"
    by (auto simp: handleKeyLoad_def handleKeyRemove_def handleKeyConfirm_def same_power_keystore
        dest!: LoadPEMFile_refused LoadPEMBytes_refused RemoveSigner_refused purge_views(1) split: option.split sum.split prod.split)
  moreover have "answers req s (handleKeyReject req s)" "answers req s (ctl_MobileEnroll env req s)"
      "answers req s (ctl_MobileDelete req s)" "answers req s (ctl_CLIDelete req s)"
    by (auto simp: handleKeyReject_def ctl_MobileEnroll_def ctl_MobileDelete_def ctl_CLIDelete_def
        dest!: registry_refused split: option.split sum.split prod.split)
  moreover have "answers req s (ctl_CLIEnroll env req s)"
    unfolding ctl_CLIEnroll_def
    by (auto dest!: registry_refused split: option.split sum.split prod.split)
  ultimately show ?thesis
    by (auto simp: ctl_handle_def Let_def split: prod.split)
qed


text \<open>
  (C30) A control operation either succeeds or changes nothing that confers power: when the answer to
  any request, well-formed or not, is an error, then every signer that could be found before is
  found and no other, no device was enrolled or removed, and approvals, leases, replay cache and
  rate limits are as they were. Every answer carries the identifier of its request.
\<close>

theorem control_refusal_changes_nothing:
  assumes "ctl_handle env req s = (s', resp)"
  shows "rs_ID resp = rq_ID req \<and> (\<not> rs_OK resp \<longrightarrow> same_power s s')"
  using ctl_handle_answers [of req s env] assms by (simp add: answers_def)

theorem control_refusal_changes_nothing_witness:
  "\<exists>s' resp. ctl_handle (demo_env []) \<lparr>rq_Op = ''key.remove'', rq_ID = ''7'', rq_Data = Some (JString ''x'')\<rparr>
      (demo_server SignerModeLocalKey demo_host) = (s', resp)
    \<and> \<not> rs_OK resp \<and> same_power (demo_server SignerModeLocalKey demo_host) s'"
proof -
  let ?req = "\<lparr>rq_Op = ''key.remove'', rq_ID = ''7'', rq_Data = Some (JString ''x'')\<rparr>"
  let ?s = "demo_server SignerModeLocalKey demo_host"
  obtain s' resp where h: "ctl_handle (demo_env []) ?req ?s = (s', resp)" by fastforce
  then have "\<not> rs_OK resp"
    by (auto simp: ctl_handle_def handleKeyRemove_def decode_data_def decode_struct_def ctl_fail_def Let_def)
  with h control_refusal_changes_nothing [OF h] show ?thesis by blast
qed

section \<open>Confirming an uploaded key\<close>

lemma pending_Get_found:
  assumes "pending_inv p" and "map_of (ps_entries p) pid = Some e" and "now \<le> pd_ExpiresAt e"
  shows "pending_Get now pid p = (purgeExpiredLocked now p, Inr e)"
    and "map_of (ps_entries (purgeExpiredLocked now p)) pid = Some e"
  using assms by (simp_all add: pending_Get_def Let_def purge_lookup)

lemma pending_write_blob_lookup:
  "map_of (ps_entries (pending_write_blob pid b p)) i =
     (if i = pid then map_option (pd_Blob_update (\<lambda>_. b)) (map_of (ps_entries p) i) else map_of (ps_entries p) i)"
  by (auto simp: pending_write_blob_def split: option.split)

lemma pending_Delete_lookup:
  "map_of (ps_entries (fst (pending_Delete pid p))) i = (if i = pid then None else map_of (ps_entries p) i)"
  by (auto simp: pending_Delete_def split: option.split)

definition confirm_request :: "string \<Rightarrow> string \<Rightarrow> string \<Rightarrow> Request" where
  "confirm_request i pid pass = \<lparr>rq_Op = ''key.confirm'', rq_ID = i,
     rq_Data = Some (JObject [(''pending_id'', JString pid), (''passphrase'', JString pass)])\<rparr>"

lemma confirm_folds: "fold_key ''pending_id'' = ''PENDING_ID''" "fold_key ''passphrase'' = ''PASSPHRASE''"
  by code_simp+

lemma confirm_decodes:
  "decode_data keyConfirm_fields (rq_Data (confirm_request i pid pass)) \<lparr>kc_PendingID = [], kc_Passphrase = []\<rparr> =
     Some \<lparr>kc_PendingID = pid, kc_Passphrase = pass\<rparr>"
  by (simp add: confirm_request_def decode_data_def decode_struct_def keyConfirm_fields_def json_field_defs confirm_folds)

lemma confirm_dispatch: "ctl_handle env (confirm_request i pid pass) s = handleKeyConfirm env (confirm_request i pid pass) s"
  by (simp add: ctl_handle_def confirm_request_def)

lemma confirm_run:
  assumes "server_inv s" and "cfg_SignerMode (sv_cfg s) = SignerModeLocalKey"
    and "map_of (ps_entries (sv_pending s)) pid = Some e" and "ae_now env 0 \<le> pd_ExpiresAt e"
    and "LoadPEMBytes (ae_lib env) (ae_mlock env) (ae_now env 1) (ae_now env 2) (pd_Blob e) pass (pd_Label e) (sv_keystore s) = (k, blob, r)"
  shows "ctl_handle env (confirm_request i pid pass) s =
    (let p = pending_write_blob pid blob (purgeExpiredLocked (ae_now env 0) (sv_pending s))
     in case r of Inl err \<Rightarrow> (s\<lparr>sv_keystore := k, sv_pending := p\<rparr>, load_failure i err ''confirm failed'')
        | Inr fp \<Rightarrow> (s\<lparr>sv_keystore := k, sv_pending := fst (pending_Delete pid p)\<rparr>, ctl_ok i (Some (fingerprint_json fp))))"
proof -
  have "pending_inv (sv_pending s)" using assms(1) by (simp add: server_inv_def)
  note g = pending_Get_found(1) [OF this assms(3,4)]
  have d: "rq_ID (confirm_request i pid pass) = i" by (simp add: confirm_request_def)
  show ?thesis
    unfolding confirm_dispatch handleKeyConfirm_def confirm_decodes option.case keyConfirmData.simps g prod.case sum.case assms(5) d
    using assms(2) by (cases r) simp_all
qed

text \<open>
  (C20) Confirming an upload makes exactly the uploaded key a signer: for an entry of the queue that has
  not expired, and outside a lock-out, the right passphrase loads the key under its own
  fingerprint, the answer names that fingerprint, all other signers are found as before, and the
  entry, and no other unexpired one, has left the queue.
\<close>

theorem key_confirm_loads:
  assumes "server_inv s" and "cfg_SignerMode (sv_cfg s) = SignerModeLocalKey" and "ks_mode (sv_keystore s) = ModeLocalKey"
    and "map_of (ps_entries (sv_pending s)) pid = Some e" and "ae_now env 0 \<le> pd_ExpiresAt e"
    and "ks_unsealLockedUntil (sv_keystore s) \<le> ae_now env 1" and "ae_mlock env = mlock_ok"
    and "parseEncryptedPEM (ae_lib env) mlock_ok (pd_Blob e) pass = Inr sg"
  shows "\<exists>s'. ctl_handle env (confirm_request i pid pass) s = (s', ctl_ok i (Some (fingerprint_json (Fingerprint (sg_PublicKey sg)))))
    \<and> (\<forall>fp. SignerForFingerprint fp (sv_keystore s') =
         (if NormalizeFingerprintInput fp = Fingerprint (sg_PublicKey sg) then Inr sg else SignerForFingerprint fp (sv_keystore s)))
    \<and> (\<forall>j. map_of (ps_entries (sv_pending s')) j =
         (case map_of (ps_entries (sv_pending s)) j of None \<Rightarrow> None
          | Some q \<Rightarrow> if j = pid \<or> pd_ExpiresAt q < ae_now env 0 then None else Some q))"
proof -
  let ?k = "sv_keystore s"
  from assms(6) obtain k1 where k1: "checkUnsealLock (ae_now env 1) ?k = (k1, None)"
    by (cases "checkUnsealLock (ae_now env 1) ?k") (auto simp: checkUnsealLock_def split: if_splits)
  note f = checkUnsealLock_frame [OF k1]
  have pool: "ks_pool ?k \<noteq> None" using assms(1,3) by (auto simp: server_inv_def ks_inv_def)
  note l = load_unlocked [OF k1 assms(8), of "ae_now env 2" "pd_Label e"]
  have p: "pending_inv (sv_pending s)" using assms(1) by (simp add: server_inv_def)
  have look: "SignerForFingerprint fp (fst (store_signer sg (pd_Label e) k1)) =
      (if NormalizeFingerprintInput fp = Fingerprint (sg_PublicKey sg) then Inr sg else SignerForFingerprint fp ?k)" for fp
    using f assms(3) pool store_signer_lookup [of k1 fp sg "pd_Label e"] by (auto simp: SignerForFingerprint_def [of fp k1]
        SignerForFingerprint_def [of fp ?k])
  from confirm_run [OF assms(1,2,4,5) l [folded assms(7)]] look show ?thesis
    by (auto simp: Let_def pending_Delete_lookup pending_write_blob_lookup purge_lookup [OF p] split: option.split)
qed


definition demo_upload :: server where
  "demo_upload = (demo_server SignerModeLocalKey (NewWithMode ModeLocalKey))\<lparr>sv_pending :=
     fst (pending_Add ''1'' (1000 * second) ''dev_1'' ''host'' [] ''pem'' NewPendingStore)\<rparr>"

definition demo_uploaded :: PendingKey where
  "demo_uploaded = \<lparr>pd_ID = ''pend_1'', pd_DeviceID = ''dev_1'', pd_Label = ''host'', pd_Comment = [], pd_Blob = ''pem'',
     pd_ExpiresAt = 1000 * second + defaultPendingTTL\<rparr>"

lemma demo_upload_facts:
  "server_inv demo_upload" "cfg_SignerMode (sv_cfg demo_upload) = SignerModeLocalKey"
  "sv_keystore demo_upload = NewWithMode ModeLocalKey" "map_of (ps_entries (sv_pending demo_upload)) ''pend_1'' = Some demo_uploaded"
  "ae_now (demo_env []) n \<le> pd_ExpiresAt demo_uploaded" "ae_mlock (demo_env []) = mlock_ok"
  "ks_unsealLockedUntil (NewWithMode ModeLocalKey) \<le> ae_now (demo_env []) n"
proof -
  have "approval_inv (sv_store (demo_server SignerModeLocalKey (NewWithMode ModeLocalKey)))"
    by (simp add: demo_server_def approval_inv_def SetConfig_def SetKeySigner_def SetLeases_def SetIssuer_def approval_NewStore_def
        lease_inv_init Let_def)
  moreover have "pending_inv (fst (pending_Add ''1'' (1000 * second) ''dev_1'' ''host'' [] ''pem'' NewPendingStore))"
    by (rule pending_Add_inv) (simp_all add: NewPendingStore_inv, simp add: NewPendingStore_def)
  moreover have "replay_inv serve_cache" by (simp add: serve_cache_def NewReplayLRU_inv)
  ultimately show "server_inv demo_upload"
    by (simp add: server_inv_def demo_upload_def) (simp add: demo_server_def ks_inv_new cli_NewStore_inv)
  show "map_of (ps_entries (sv_pending demo_upload)) ''pend_1'' = Some demo_uploaded"
    by (simp add: demo_upload_def demo_uploaded_def pending_Add_def NewPendingStore_def maxPendingGlobal_def maxPendingPerDevice_def
        dev_get_def Let_def)
qed (simp_all add: demo_upload_def demo_server_def demo_uploaded_def demo_env_def defaultPendingTTL_def NewWithMode_def time_zero_def
  duration_defs)

theorem key_confirm_loads_witness:
  "\<exists>s'. ctl_handle (demo_env []) (confirm_request ''7'' ''pend_1'' ''good'') demo_upload =
      (s', ctl_ok ''7'' (Some (fingerprint_json (Fingerprint demo_hostkey))))
    \<and> SignerForFingerprint (Fingerprint demo_hostkey) (sv_keystore s') = Inr \<lparr>sg_PublicKey = demo_hostkey, sg_private = ''pem''\<rparr>"
proof -
  have sg: "parseEncryptedPEM (ae_lib (demo_env [])) mlock_ok (pd_Blob demo_uploaded) ''good'' =
      Inr \<lparr>sg_PublicKey = demo_hostkey, sg_private = ''pem''\<rparr>"
    by (simp add: parseEncryptedPEM_def demo_env_def demo_uploaded_def demo_ssh_def load_signer_def demo_hostkey_def)
  note f = demo_upload_facts
  have m: "ks_mode (sv_keystore demo_upload) = ModeLocalKey" by (simp add: f(3) NewWithMode_def)
  show ?thesis
    using key_confirm_loads [OF f(1,2) m f(4,5) f(7) [folded f(3)] f(6) sg, of "''7''"] by auto
qed

text \<open>
  (C31) A mistyped passphrase costs the upload: when the passphrase of a confirmation does not decrypt the
  uploaded key, the operator is refused and no signer changes, but the entry stays in the queue
  with its key overwritten by zeros, so that no later confirmation, with whatever passphrase,
  can load the key that was uploaded.
\<close>

theorem key_confirm_wrong_passphrase:
  assumes "server_inv s" and "cfg_SignerMode (sv_cfg s) = SignerModeLocalKey"
    and "map_of (ps_entries (sv_pending s)) pid = Some e" and "ae_now env 0 \<le> pd_ExpiresAt e"
    and "ks_unsealLockedUntil (sv_keystore s) \<le> ae_now env 1" and "ae_mlock env = mlock_ok"
    and "ssh_ParseRawPrivateKeyWithPassphrase (ae_lib env) (pd_Blob e) pass = Inl err" and "\<not> errors_Is err ErrUnsealLocked"
  shows "\<exists>s'. ctl_handle env (confirm_request i pid pass) s = (s', ctl_fail i ''confirm failed'' ''FORBIDDEN'')
    \<and> same_power s s'
    \<and> map_of (ps_entries (sv_pending s')) pid = Some (e\<lparr>pd_Blob := replicate (length (pd_Blob e)) (CHR 0x00)\<rparr>)"
proof -
  from assms(5) obtain k1 where k1: "checkUnsealLock (ae_now env 1) (sv_keystore s) = (k1, None)"
    by (cases "checkUnsealLock (ae_now env 1) (sv_keystore s)") (auto simp: checkUnsealLock_def split: if_splits)
  have "wrong_key (ae_lib env) (pd_Blob e) pass" using assms(7) by (simp add: wrong_key_def)
  from wrong_key_load [OF this, of "ae_now env 1" "ae_now env 2" "pd_Label e" "sv_keystore s"] k1 assms(7)
  have l: "LoadPEMBytes (ae_lib env) mlock_ok (ae_now env 1) (ae_now env 2) (pd_Blob e) pass (pd_Label e) (sv_keystore s) =
      (recordUnsealFailure (ae_now env 2) k1, zeroBytes (pd_Blob e), Inl (Wrapf ''decrypt private key: '' err ''''))" by simp
  have p: "pending_inv (sv_pending s)" using assms(1) by (simp add: server_inv_def)
  have "same_power s (s\<lparr>sv_keystore := recordUnsealFailure (ae_now env 2) k1\<rparr>)"
    by (rule same_power_keystore [OF LoadPEMBytes_refused [OF l]])
  with confirm_run [OF assms(1-4) l [folded assms(6)], of i] assms(3,4,8) show ?thesis
    by (auto simp: Let_def load_failure_def pending_write_blob_lookup purge_lookup [OF p] zeroBytes_def)
qed


theorem key_confirm_wrong_passphrase_witness:
  "\<exists>s'. ctl_handle (demo_env []) (confirm_request ''7'' ''pend_1'' ''typo'') demo_upload = (s', ctl_fail ''7'' ''confirm failed'' ''FORBIDDEN'')
    \<and> map_of (ps_entries (sv_pending s')) ''pend_1'' = Some (demo_uploaded\<lparr>pd_Blob := replicate 3 (CHR 0x00)\<rparr>)"
proof -
  note f = demo_upload_facts
  have w: "ssh_ParseRawPrivateKeyWithPassphrase (ae_lib (demo_env [])) (pd_Blob demo_uploaded) ''typo'' = Inl (Errorf ''bad passphrase'')"
    by (simp add: demo_env_def demo_ssh_def)
  have "\<not> errors_Is (Errorf ''bad passphrase'') ErrUnsealLocked" "length (pd_Blob demo_uploaded) = 3" by (simp_all add: demo_uploaded_def)
  with key_confirm_wrong_passphrase [OF f(1,2,4,5) f(7) [folded f(3)] f(6) w, of "''7''"] show ?thesis by auto
qed

section \<open>Who may use the socket\<close>

lemma serveConn_peer:
  assumes "serveConn os env cred groupName input s = (s', out)" and "s' \<noteq> s \<or> out \<noteq> None"
  shows "\<exists>uid gid. cred = Inr (uid, gid)
    \<and> (uid = 0 \<or> uid = os_euid os
       \<or> groupName \<noteq> [] \<and> (\<exists>g. os_LookupGroup os groupName = Inr g \<and> scan_uint32 g = Some gid))"
proof -
  have "peerAllowed os cred groupName = None" using assms by (auto simp: serveConn_def split: option.splits)
  then show ?thesis
    by (auto simp: peerAllowed_def credAllowed_def split: sum.splits if_splits option.splits)
qed

text \<open>
  Only root, the user the proxy runs as, and members of the configured group operate the proxy:
  for any other peer, and when its credentials or the group cannot be read, the connection
  changes nothing and gets no answer.
\<close>

theorem control_peers:
  assumes "serveConn os env cred groupName input s = (s', out)" and "s' \<noteq> s \<or> out \<noteq> None"
  shows "\<exists>uid gid. cred = Inr (uid, gid)
    \<and> (uid = 0 \<or> uid = os_euid os
       \<or> groupName \<noteq> [] \<and> (\<exists>g. os_LookupGroup os groupName = Inr g \<and> scan_uint32 g = Some gid))"
  by (rule serveConn_peer [OF assms])

theorem control_peers_witness:
  "\<exists>s' resp. serveConn \<lparr>os_euid = 900, os_LookupGroup = \<lambda>_. Inr ''1001''\<rparr> (demo_env []) (Inr (1000, 1001)) ''luna'' ''{}'' demo_upload
       = (s', Some resp)
     \<and> (\<exists>g. Inr ''1001'' = (Inr g :: string result) \<and> scan_uint32 g = Some 1001)"
proof -
  let ?os = "\<lparr>os_euid = 900, os_LookupGroup = \<lambda>_. Inr ''1001''\<rparr>"
  have g: "scan_uint32 ''1001'' = Some 1001" by (simp add: scan_uint32_def parse_nat_def char_digit_def)
  then have p: "peerAllowed ?os (Inr (1000, 1001)) ''luna'' = None" by (simp add: peerAllowed_def credAllowed_def)
  have l: "scan_line ''{}'' = Some ''{}''" by (simp add: scan_line_def)
  have "\<exists>s' resp. serveConn ?os (demo_env []) (Inr (1000, 1001)) ''luna'' ''{}'' demo_upload = (s', Some resp)"
    by (cases "Unmarshal (ae_js (demo_env [])) request_fields ''{}'' \<lparr>rq_Op = [], rq_ID = [], rq_Data = None\<rparr>")
      (simp_all add: serveConn_def p l case_prod_beta)
  then obtain s' resp where r: "serveConn ?os (demo_env []) (Inr (1000, 1001)) ''luna'' ''{}'' demo_upload = (s', Some resp)" by blast
  with control_peers [OF r] show ?thesis by auto
qed

end
