(* ===== verification/Config_Load.thy ===== *)
theory Config_Load
  imports Go_Path Config
begin

text \<open>
  How the proxy gets its configuration (\<open>config/load.go\<close>, \<open>config/certs.go\<close>, \<open>config/mtls.go\<close>,
  \<open>config/paths.go\<close>). The library that reads files and environment (\<open>viper\<close>) and what the operating
  system answers are parameters.
\<close>

section \<open>What the loader gets from outside\<close>

text \<open>\<open>gotenv.Load\<close> has run: \<open>os_Getenv\<close> sees what the \<open>.env\<close> file adds.\<close>

datatype stat_result = StatOK | StatNotExist go_error | StatFailed go_error

record os_env =
  os_Getenv :: "string \<Rightarrow> string"
  os_UserConfigDir :: "string result"
  os_UserHomeDir :: "string result"
  os_Getwd :: "string result"
  os_Stat :: "string \<Rightarrow> stat_result"
  os_frac :: frac_ns

text \<open>The operations of \<open>viper\<close> that are used; reading and merging include \<open>SetConfigFile\<close>.\<close>

record 'v viper_lib =
  vl_New :: 'v
  vl_SetDefault :: "string \<Rightarrow> string \<Rightarrow> 'v \<Rightarrow> 'v"
  vl_ReadInConfig :: "string \<Rightarrow> 'v \<Rightarrow> 'v result"
  vl_MergeInConfig :: "string \<Rightarrow> 'v \<Rightarrow> 'v result"
  vl_BindEnv :: "string \<Rightarrow> string \<Rightarrow> 'v \<Rightarrow> 'v"
  vl_AutomaticEnv :: "'v \<Rightarrow> 'v"
  vl_GetString :: "string \<Rightarrow> 'v \<Rightarrow> string"

section \<open>Paths\<close>

definition defaultControlSocketName :: string where
  "defaultControlSocketName = ''control.sock''"

definition ProductionControlSocket :: string where
  "ProductionControlSocket = ''/run/luna/control.sock''"

definition DefaultProxyConfigPath :: string where
  "DefaultProxyConfigPath = ''/etc/luna/proxy.yml''"

definition userLunaConfigDir :: "os_env \<Rightarrow> string" where
  "userLunaConfigDir os =
     (case os_UserConfigDir os of
        Inr dir \<Rightarrow> filepath_Join [dir, ''luna'']
      | Inl _ \<Rightarrow>
          (case os_UserHomeDir os of
             Inl _ \<Rightarrow> filepath_Join [''.config'', ''luna'']
           | Inr home \<Rightarrow> filepath_Join [home, ''.config'', ''luna'']))"

definition DefaultControlSocket :: "os_env \<Rightarrow> string" where
  "DefaultControlSocket os =
     (if os_Getenv os ''XDG_RUNTIME_DIR'' \<noteq> []
      then filepath_Join [os_Getenv os ''XDG_RUNTIME_DIR'', ''luna'', defaultControlSocketName]
      else case os_UserHomeDir os of
             Inr home \<Rightarrow> filepath_Join [home, ''.local'', ''run'', ''luna'', defaultControlSocketName]
           | Inl _ \<Rightarrow> filepath_Join [''/run'', ''luna'', defaultControlSocketName])"

definition proxyConfigPaths :: "os_env \<Rightarrow> string list" where
  "proxyConfigPaths os =
     concat (map (\<lambda>base. map (\<lambda>ext. filepath_Join [base, ''proxy'' @ ext]) [''.yml'', ''.yaml''])
       [''.'', userLunaConfigDir os, ''/etc/luna''])"

definition read_config_error :: "string \<Rightarrow> go_error \<Rightarrow> go_error" where
  "read_config_error path err = Wrapf (''read config '' @ strconv_Quote path @ '': '') err ''''"

fun mergeConfigFiles :: "os_env \<Rightarrow> 'v viper_lib \<Rightarrow> string list \<Rightarrow> 'v \<Rightarrow> 'v result" where
  "mergeConfigFiles os vl [] v = Inr v"
| "mergeConfigFiles os vl (path # paths) v =
     (if os_Stat os path \<noteq> StatOK then mergeConfigFiles os vl paths v
      else case vl_MergeInConfig vl path v of
             Inl err \<Rightarrow> Inl (read_config_error path err)
           | Inr v' \<Rightarrow> mergeConfigFiles os vl paths v')"

definition readConfigFileIfExists :: "os_env \<Rightarrow> 'v viper_lib \<Rightarrow> string \<Rightarrow> 'v \<Rightarrow> 'v result" where
  "readConfigFileIfExists os vl path v =
     (case os_Stat os path of
        StatNotExist _ \<Rightarrow> Inr v
      | StatFailed err \<Rightarrow> Inl (Wrapf (''stat config '' @ strconv_Quote path @ '': '') err '''')
      | StatOK \<Rightarrow>
          (case vl_ReadInConfig vl path v of
             Inl err \<Rightarrow> Inl (read_config_error path err)
           | Inr v' \<Rightarrow> Inr v'))"

section \<open>Defaults and checks\<close>

definition isDevOrTestEnv :: "string \<Rightarrow> bool" where
  "isDevOrTestEnv env = (TrimSpace env = ''dev'' \<or> TrimSpace env = ''test'')"

definition ProductionCertPath :: "string \<Rightarrow> string" where
  "ProductionCertPath name = filepath_Join [''/etc/luna/certs'', name]"

definition devCertPath :: "os_env \<Rightarrow> string \<Rightarrow> string" where
  "devCertPath os name =
     (case find (\<lambda>p. os_Stat os p = StatOK)
             (map (\<lambda>base. filepath_Join [base, name]) [''testdata/ca'', filepath_Join [''..'', ''..'', ''testdata'', ''ca'']]) of
        Some p \<Rightarrow> p
      | None \<Rightarrow> filepath_Join [''testdata'', ''ca'', name])"

definition or_default :: "string \<Rightarrow> string \<Rightarrow> string" where
  "or_default v d = (if v = [] then d else v)"

definition applyMTLSDefaults :: "os_env \<Rightarrow> Config \<Rightarrow> Config" where
  "applyMTLSDefaults os cfg =
     (if isDevOrTestEnv (cfg_Env cfg)
      then cfg\<lparr>cfg_MTLSServerCert := or_default (cfg_MTLSServerCert cfg) (devCertPath os ''server.crt''),
               cfg_MTLSServerKey := or_default (cfg_MTLSServerKey cfg) (devCertPath os ''server.key''),
               cfg_MTLSClientCA := or_default (cfg_MTLSClientCA cfg) (devCertPath os ''ca.crt'')\<rparr>
      else cfg\<lparr>cfg_MTLSServerCert := or_default (cfg_MTLSServerCert cfg) (ProductionCertPath ''server.crt''),
               cfg_MTLSServerKey := or_default (cfg_MTLSServerKey cfg) (ProductionCertPath ''server.key''),
               cfg_MTLSClientCA := or_default (cfg_MTLSClientCA cfg) (ProductionCertPath ''ca.crt''),
               cfg_MTLSCACertPath := or_default (cfg_MTLSCACertPath cfg) (ProductionCertPath ''ca.crt''),
               cfg_MTLSCAKeyPath := or_default (cfg_MTLSCAKeyPath cfg) (ProductionCertPath ''ca.key'')\<rparr>)"

definition applyRuntimeDefaults :: "os_env \<Rightarrow> Config \<Rightarrow> Config" where
  "applyRuntimeDefaults os cfg0 =
     (let cfg = cfg0\<lparr>cfg_ControlSocketGroup := or_default (cfg_ControlSocketGroup cfg0) ''luna-admin''\<rparr>
      in if isDevOrTestEnv (cfg_Env cfg)
         then cfg\<lparr>cfg_ControlSocket := or_default (cfg_ControlSocket cfg) (DefaultControlSocket os)\<rparr>
         else cfg\<lparr>cfg_ControlSocket := or_default (cfg_ControlSocket cfg) ProductionControlSocket\<rparr>)"

definition rejectTestdataCAPath :: "os_env \<Rightarrow> string \<Rightarrow> string \<Rightarrow> go_error option" where
  "rejectTestdataCAPath os name path =
     (case filepath_Abs (os_Getwd os) path of
        Inl err \<Rightarrow> Some (Wrapf (name @ '': '') err '''')
      | Inr full \<Rightarrow>
          if strings_Contains (filepath_Clean full) ''/testdata/ca/''
          then Some (Errorf (name @ '' must not use repository testdata/ca (got '' @ strconv_Quote path @ '')''))
          else None)"

text \<open>The loop over the three files.\<close>

fun check_files :: "os_env \<Rightarrow> (string \<times> string) list \<Rightarrow> go_error option" where
  "check_files os [] = None"
| "check_files os ((name, path) # rest) =
     (case rejectTestdataCAPath os name path of
        Some err \<Rightarrow> Some err
      | None \<Rightarrow>
          (case os_Stat os path of
             StatOK \<Rightarrow> check_files os rest
           | StatNotExist err \<Rightarrow> Some (Wrapf (name @ '' '' @ strconv_Quote path @ '': '') err '''')
           | StatFailed err \<Rightarrow> Some (Wrapf (name @ '' '' @ strconv_Quote path @ '': '') err '''')))"

fun join_comma :: "string list \<Rightarrow> string" where
  "join_comma [] = []"
| "join_comma [x] = x"
| "join_comma (x # y # xs) = x @ '', '' @ join_comma (y # xs)"

definition validateMTLS :: "os_env \<Rightarrow> Config \<Rightarrow> go_error option" where
  "validateMTLS os cfg =
     (if isDevOrTestEnv (cfg_Env cfg) then None
      else
        (let missing =
           (if cfg_MTLSServerCert cfg = [] then [''mtls_server_cert (LUNA_MTLS_SERVER_CERT)''] else []) @
           (if cfg_MTLSServerKey cfg = [] then [''mtls_server_key (LUNA_MTLS_SERVER_KEY)''] else []) @
           (if cfg_MTLSClientCA cfg = [] then [''mtls_client_ca (LUNA_MTLS_CLIENT_CA)''] else [])
         in if missing \<noteq> [] then Some (Errorf (''production requires explicit mTLS paths: '' @ join_comma missing))
            else check_files os [(''mtls_server_cert'', cfg_MTLSServerCert cfg), (''mtls_server_key'', cfg_MTLSServerKey cfg),
                   (''mtls_client_ca'', cfg_MTLSClientCA cfg)]))"

section \<open>Loading\<close>

definition defaultAllowedTTLSeconds :: "int list" where
  "defaultAllowedTTLSeconds = [180, 300, 900]"

definition defaultApprovalPeriod :: duration where
  "defaultApprovalPeriod = 60 * second"

definition viper_defaults :: "(string \<times> string) list" where
  "viper_defaults =
     [(''listen_addr'', '':8443''), (''admin_client_ou'', ''luna-admin''), (''cli_client_ou'', ''luna-cli''),
      (''signer_mode'', ''local-key''), (''approval_timeout'', Duration_String defaultApprovalPeriod)]"

definition env_bindings :: "(string \<times> string) list" where
  "env_bindings =
     [(''env'', ''LUNA_ENV''), (''approval_timeout'', ''LUNA_APPROVAL_TIMEOUT''), (''listen_addr'', ''LUNA_LISTEN_ADDR''),
      (''telegram_bot_token'', ''TELEGRAM_BOT_TOKEN''), (''telegram_webhook_secret'', ''TELEGRAM_WEBHOOK_SECRET''),
      (''telegram_chat_id'', ''TELEGRAM_CHAT_ID''), (''telegram_user_ids'', ''TELEGRAM_USER_IDS''),
      (''admin_client_ou'', ''LUNA_ADMIN_CLIENT_OU''), (''cli_client_ou'', ''LUNA_CLI_CLIENT_OU''),
      (''key_path'', ''LUNA_KEY_PATH''), (''signer_mode'', ''LUNA_SIGNER_MODE''),
      (''mtls_server_cert'', ''LUNA_MTLS_SERVER_CERT''), (''mtls_server_key'', ''LUNA_MTLS_SERVER_KEY''),
      (''mtls_client_ca'', ''LUNA_MTLS_CLIENT_CA''), (''mtls_ca_cert_path'', ''LUNA_MTLS_CA_CERT''),
      (''mtls_ca_key_path'', ''LUNA_MTLS_CA_KEY''), (''mtls_enroll_token'', ''LUNA_MTLS_ENROLL_TOKEN''),
      (''fcm_credentials'', ''FCM_CREDENTIALS''), (''control_socket'', ''LUNA_CONTROL_SOCKET''),
      (''control_socket_group'', ''LUNA_CONTROL_SOCKET_GROUP'')]"

definition newViper :: "os_env \<Rightarrow> 'v viper_lib \<Rightarrow> 'v result" where
  "newViper os vl =
     (let v = fold (\<lambda>(k, d). vl_SetDefault vl k d) viper_defaults (vl_New vl);
          path = os_Getenv os ''LUNA_CONFIG''
      in case (if path \<noteq> [] then readConfigFileIfExists os vl path v else mergeConfigFiles os vl (proxyConfigPaths os) v) of
           Inl err \<Rightarrow> Inl err
         | Inr v' \<Rightarrow> Inr (vl_AutomaticEnv vl (fold (\<lambda>(k, e). vl_BindEnv vl k e) env_bindings v')))"

text \<open>The struct literal of \<open>configFromViper\<close>, with the three fallbacks that follow it.\<close>

definition raw_config :: "(string \<Rightarrow> string) \<Rightarrow> duration \<Rightarrow> Config" where
  "raw_config GetString approvalTimeout =
     (let get = (\<lambda>k. TrimSpace (GetString k))
      in \<lparr>cfg_Env = get ''env'', cfg_ApprovalTimeout = approvalTimeout,
          cfg_ListenAddr = or_default (get ''listen_addr'') '':8443'',
          cfg_TelegramBotToken = get ''telegram_bot_token'', cfg_TelegramWebhookSecret = get ''telegram_webhook_secret'',
          cfg_TelegramChatID = get ''telegram_chat_id'', cfg_TelegramUserIDs = get ''telegram_user_ids'',
          cfg_AdminClientOU = or_default (get ''admin_client_ou'') ''luna-admin'', cfg_CliClientOU = get ''cli_client_ou'',
          cfg_KeyPath = get ''key_path'', cfg_SignerMode = or_default (get ''signer_mode'') ''local-key'',
          cfg_AllowedTTLSeconds = defaultAllowedTTLSeconds, cfg_MTLSServerCert = get ''mtls_server_cert'',
          cfg_MTLSServerKey = get ''mtls_server_key'', cfg_MTLSClientCA = get ''mtls_client_ca'',
          cfg_MTLSCACertPath = get ''mtls_ca_cert_path'', cfg_MTLSCAKeyPath = get ''mtls_ca_key_path'',
          cfg_MTLSEnrollToken = get ''mtls_enroll_token'', cfg_FCMCredentials = get ''fcm_credentials'',
          cfg_ControlSocket = get ''control_socket'', cfg_ControlSocketGroup = get ''control_socket_group''\<rparr>)"

definition configFromViper :: "os_env \<Rightarrow> (string \<Rightarrow> string) \<Rightarrow> Config result" where
  "configFromViper os GetString =
     (case ParseDuration (os_frac os) (GetString ''approval_timeout'') of
        Inl err \<Rightarrow> Inl (Wrapf ''approval_timeout: '' err '''')
      | Inr approvalTimeout \<Rightarrow>
          (let cfg = applyRuntimeDefaults os (applyMTLSDefaults os (raw_config GetString approvalTimeout))
           in case validateMTLS os cfg of Some err \<Rightarrow> Inl err | None \<Rightarrow> Inr cfg))"

definition config_Load :: "os_env \<Rightarrow> 'v viper_lib \<Rightarrow> Config result" where
  "config_Load os vl =
     (case newViper os vl of
        Inl err \<Rightarrow> Inl err
      | Inr v \<Rightarrow> configFromViper os (\<lambda>k. vl_GetString vl k v))"


section \<open>What a loaded configuration guarantees\<close>

lemma or_default_nonempty [simp]: "d \<noteq> [] \<Longrightarrow> or_default v d \<noteq> []"
  by (simp add: or_default_def)

lemma Join_nonempty: "p \<noteq> [] \<Longrightarrow> Join (p # ps) sep \<noteq> []"
  by (cases ps) simp_all

lemma Clean_nonempty [simp]: "filepath_Clean path \<noteq> []"
proof (cases "path_parts path")
  case (Cons p ps)
  with path_parts_shape [of p path] show ?thesis by (simp add: filepath_Clean_def Join_nonempty)
qed (simp add: filepath_Clean_def)

lemma filepath_Join_nonempty [simp]: "\<exists>e \<in> set es. e \<noteq> [] \<Longrightarrow> filepath_Join es \<noteq> []"
  by (auto simp: filepath_Join_def dropWhile_eq_Nil_conv split: list.split)

lemma devCertPath_nonempty [simp]: "name \<noteq> [] \<Longrightarrow> devCertPath os name \<noteq> []"
  by (auto simp: devCertPath_def find_Some_iff split: option.splits)

lemma ProductionCertPath_nonempty [simp]: "ProductionCertPath name \<noteq> []"
  by (simp add: ProductionCertPath_def)

lemma DefaultControlSocket_nonempty [simp]: "DefaultControlSocket os \<noteq> []"
  by (auto simp: DefaultControlSocket_def split: sum.split)

lemma applyRuntimeDefaults_frame [simp]:
  "cfg_MTLSServerCert (applyRuntimeDefaults os cfg) = cfg_MTLSServerCert cfg"
  "cfg_MTLSServerKey (applyRuntimeDefaults os cfg) = cfg_MTLSServerKey cfg"
  "cfg_MTLSClientCA (applyRuntimeDefaults os cfg) = cfg_MTLSClientCA cfg"
  "cfg_AdminClientOU (applyRuntimeDefaults os cfg) = cfg_AdminClientOU cfg"
  "cfg_ListenAddr (applyRuntimeDefaults os cfg) = cfg_ListenAddr cfg"
  "cfg_SignerMode (applyRuntimeDefaults os cfg) = cfg_SignerMode cfg"
  "cfg_AllowedTTLSeconds (applyRuntimeDefaults os cfg) = cfg_AllowedTTLSeconds cfg"
  "cfg_ApprovalTimeout (applyRuntimeDefaults os cfg) = cfg_ApprovalTimeout cfg"
  by (simp_all add: applyRuntimeDefaults_def Let_def)

lemma applyMTLSDefaults_frame [simp]:
  "cfg_AdminClientOU (applyMTLSDefaults os cfg) = cfg_AdminClientOU cfg"
  "cfg_ListenAddr (applyMTLSDefaults os cfg) = cfg_ListenAddr cfg"
  "cfg_SignerMode (applyMTLSDefaults os cfg) = cfg_SignerMode cfg"
  "cfg_AllowedTTLSeconds (applyMTLSDefaults os cfg) = cfg_AllowedTTLSeconds cfg"
  "cfg_ApprovalTimeout (applyMTLSDefaults os cfg) = cfg_ApprovalTimeout cfg"
  by (simp_all add: applyMTLSDefaults_def)

text \<open>A configuration that was loaded is one that was completed and passed the checks.\<close>

lemma configFromViper_Inr:
  "configFromViper os g = Inr cfg \<longleftrightarrow>
     (\<exists>d. ParseDuration (os_frac os) (g ''approval_timeout'') = Inr d
        \<and> cfg = applyRuntimeDefaults os (applyMTLSDefaults os (raw_config g d)) \<and> validateMTLS os cfg = None)"
  by (auto simp: configFromViper_def Let_def split: sum.splits option.splits)

lemma raw_config_timeout [simp]: "cfg_ApprovalTimeout (raw_config g d) = d"
  by (simp add: raw_config_def Let_def)

text \<open>The settings without which the proxy could not work and for which there is a fallback, with their
  fields: outside the development environments also the two files of the CA.\<close>

definition required_settings :: "bool \<Rightarrow> (string \<times> (Config \<Rightarrow> string)) list" where
  "required_settings dev =
     [(''listen_addr'', cfg_ListenAddr), (''admin_client_ou'', cfg_AdminClientOU), (''signer_mode'', cfg_SignerMode),
      (''control_socket'', cfg_ControlSocket), (''control_socket_group'', cfg_ControlSocketGroup),
      (''mtls_server_cert'', cfg_MTLSServerCert), (''mtls_server_key'', cfg_MTLSServerKey), (''mtls_client_ca'', cfg_MTLSClientCA)]
     @ (if dev then [] else [(''mtls_ca_cert_path'', cfg_MTLSCACertPath), (''mtls_ca_key_path'', cfg_MTLSCAKeyPath)])"

lemma completed_settings:
  assumes "cfg = applyRuntimeDefaults os (applyMTLSDefaults os (raw_config g d))"
    and "(k, f) \<in> set (required_settings (isDevOrTestEnv (cfg_Env cfg)))"
  shows "\<exists>def. def \<noteq> [] \<and> f cfg = or_default (TrimSpace (g k)) def"
proof -
  have filled: "\<exists>def'. def' \<noteq> [] \<and> or_default v def = or_default v def'" if "def \<noteq> []" for v def :: string
    using that by blast
  have env: "cfg_Env cfg = cfg_Env (raw_config g d)"
    by (simp add: assms(1) applyRuntimeDefaults_def applyMTLSDefaults_def Let_def)
  show ?thesis
    using assms(2) unfolding required_settings_def env
    by (auto simp: assms(1) applyRuntimeDefaults_def applyMTLSDefaults_def raw_config_def Let_def ProductionControlSocket_def
        split: if_splits intro!: filled)
qed

text \<open>
  (C38) The settings that have a fallback are complete: whatever the files and the environment say, in a
  configuration that \<open>Load\<close> returns the address, the administrators' unit, the signer mode, the
  control socket, its group and the three paths of mutual TLS, and in production also the two paths of
  the CA, are not empty, and each that was set to more than blanks has the value it was set to.
  The branch of the checks that reports missing paths is therefore never taken. (The unit of the CLI
  clients is not among them: it can be blank. The approval timeout only has to be a duration.)
\<close>

theorem config_complete:
  assumes "config_Load os vl = Inr cfg"
  shows "\<exists>v. newViper os vl = Inr v \<and> (\<forall>(k, f) \<in> set (required_settings (isDevOrTestEnv (cfg_Env cfg))).
     f cfg \<noteq> [] \<and> (TrimSpace (vl_GetString vl k v) \<noteq> [] \<longrightarrow> f cfg = TrimSpace (vl_GetString vl k v)))"
proof -
  from assms obtain v where v: "newViper os vl = Inr v" "configFromViper os (\<lambda>k. vl_GetString vl k v) = Inr cfg"
    by (auto simp: config_Load_def split: sum.splits)
  then obtain d where cfg: "cfg = applyRuntimeDefaults os (applyMTLSDefaults os (raw_config (\<lambda>k. vl_GetString vl k v) d))"
    by (auto simp: configFromViper_Inr)
  have "f cfg \<noteq> [] \<and> (TrimSpace (vl_GetString vl k v) \<noteq> [] \<longrightarrow> f cfg = TrimSpace (vl_GetString vl k v))"
    if "(k, f) \<in> set (required_settings (isDevOrTestEnv (cfg_Env cfg)))" for k f
    using completed_settings [OF cfg that] by (auto simp: or_default_def split: if_splits)
  with v(1) show ?thesis by blast
qed

lemma check_files_None:
  "check_files os files = None \<Longrightarrow> (name, path) \<in> set files \<Longrightarrow> rejectTestdataCAPath os name path = None \<and> os_Stat os path = StatOK"
  by (induction os files rule: check_files.induct) (auto split: option.splits stat_result.splits)

lemma filepath_Abs_IsAbs:
  assumes "filepath_Abs wd path = Inr full" and "\<And>d. wd = Inr d \<Longrightarrow> IsAbs d"
  shows "IsAbs full \<and> filepath_Clean full = full"
proof (cases "IsAbs path")
  case True
  with assms(1) show ?thesis using Clean_parts [OF True] Clean_idem [OF True] by (auto simp: filepath_Abs_def)
next
  case False
  with assms obtain d where d: "wd = Inr d" "IsAbs d" "full = filepath_Join [d, path]" by (auto simp: filepath_Abs_def split: sum.splits)
  then have j: "IsAbs (d @ CHR ''/'' # path)" "d \<noteq> []" by (cases d; simp add: IsAbs_def HasPrefix_def)+
  then have "full = filepath_Clean (d @ CHR ''/'' # path)" using d(3) by (simp add: filepath_Join_def)
  then show ?thesis using Clean_parts [OF j(1)] Clean_idem [OF j(1)] by simp
qed

lemma testdata_rejected:
  assumes "rejectTestdataCAPath os name path = None" and "\<And>d. os_Getwd os = Inr d \<Longrightarrow> IsAbs d"
  shows "\<exists>full. filepath_Abs (os_Getwd os) path = Inr full
    \<and> (\<forall>pre post. path_parts full = pre @ [''testdata'', ''ca''] @ post \<longrightarrow> post = [])"
proof -
  from assms(1) obtain full where full: "filepath_Abs (os_Getwd os) path = Inr full"
      "\<not> strings_Contains (filepath_Clean full) ''/testdata/ca/''" by (auto simp: rejectTestdataCAPath_def split: sum.splits if_splits)
  have "IsAbs full" using filepath_Abs_IsAbs [OF full(1) assms(2)] by blast
  have "post = []" if p: "path_parts full = pre @ [''testdata'', ''ca''] @ post" for pre post
  proof (rule ccontr)
    assume "post \<noteq> []"
    then obtain a b where "CHR ''/'' # Join (path_parts full) (CHR ''/'') = a @ CHR ''/'' # Join [''testdata'', ''ca''] (CHR ''/'') @ CHR ''/'' # b"
      using Join_contains [of "[''testdata'', ''ca'']" post "CHR ''/''" pre] unfolding p by auto
    then have "filepath_Clean full = a @ ''/testdata/ca/'' @ b" using \<open>IsAbs full\<close> by (simp add: filepath_Clean_def)
    with full(2) show False by (auto simp: Contains_iff)
  qed
  with full(1) show ?thesis by blast
qed

text \<open>
  (C37) In production the proxy does not start with the keys of the repository: when the configuration
  loads and the environment is neither \<open>dev\<close> nor \<open>test\<close>, the server's certificate, its key and the
  clients' CA are files that exist, and none of them, made absolute and cleaned, lies under a
  directory \<open>testdata/ca\<close>.
\<close>

theorem production_certificates:
  assumes "config_Load os vl = Inr cfg" and "\<not> isDevOrTestEnv (cfg_Env cfg)" and "\<forall>d. os_Getwd os = Inr d \<longrightarrow> IsAbs d"
    and "path \<in> {cfg_MTLSServerCert cfg, cfg_MTLSServerKey cfg, cfg_MTLSClientCA cfg}"
  shows "os_Stat os path = StatOK \<and> (\<exists>full. filepath_Abs (os_Getwd os) path = Inr full
    \<and> (\<forall>pre post. path_parts full = pre @ [''testdata'', ''ca''] @ post \<longrightarrow> post = []))"
proof -
  from assms(1) have "validateMTLS os cfg = None" by (auto simp: config_Load_def configFromViper_Inr split: sum.splits)
  then have "check_files os [(''mtls_server_cert'', cfg_MTLSServerCert cfg), (''mtls_server_key'', cfg_MTLSServerKey cfg),
                   (''mtls_client_ca'', cfg_MTLSClientCA cfg)] = None"
    using assms(2) by (simp only: validateMTLS_def Let_def) (auto split: if_splits)
  note c = check_files_None [OF this]
  from assms(4) obtain name where "rejectTestdataCAPath os name path = None" "os_Stat os path = StatOK"
    using c [of "''mtls_server_cert''"] c [of "''mtls_server_key''"] c [of "''mtls_client_ca''"] by auto
  with testdata_rejected [of os name path] assms(3) show ?thesis by blast
qed


section \<open>A proxy without configuration files\<close>

text \<open>An instance of the library: it keeps what was set, has no files and,
  but for the unit of the CLI clients, no environment.\<close>

definition demo_viper :: "string \<Rightarrow> (string \<times> string) list viper_lib" where
  "demo_viper unit = \<lparr>vl_New = [], vl_SetDefault = \<lambda>k d v. map_put k d v, vl_ReadInConfig = \<lambda>_. Inr, vl_MergeInConfig = \<lambda>_. Inr,
     vl_BindEnv = \<lambda>_ _ v. v, vl_AutomaticEnv = \<lambda>v. v,
     vl_GetString = \<lambda>k v. if k = ''cli_client_ou'' then unit else (case map_of v k of None \<Rightarrow> [] | Some x \<Rightarrow> x)\<rparr>"

definition demo_os :: os_env where
  "demo_os = \<lparr>os_Getenv = \<lambda>_. [], os_UserConfigDir = Inr ''/root/.config'', os_UserHomeDir = Inr ''/root'', os_Getwd = Inr ''/srv'',
     os_Stat = \<lambda>p. if HasPrefix p ''/etc/luna/certs/'' then StatOK else StatNotExist (Errorf ''no such file''), os_frac = \<lambda>_ _. 0\<rparr>"

lemma demo_cert_paths:
  "ProductionCertPath ''server.crt'' = ''/etc/luna/certs/server.crt''" "ProductionCertPath ''server.key'' = ''/etc/luna/certs/server.key''"
  "ProductionCertPath ''ca.crt'' = ''/etc/luna/certs/ca.crt''" "ProductionCertPath ''ca.key'' = ''/etc/luna/certs/ca.key''"
  by code_simp+

lemma demo_paths_ok:
  "rejectTestdataCAPath demo_os ''mtls_server_cert'' ''/etc/luna/certs/server.crt'' = None"
  "rejectTestdataCAPath demo_os ''mtls_server_key'' ''/etc/luna/certs/server.key'' = None"
  "rejectTestdataCAPath demo_os ''mtls_client_ca'' ''/etc/luna/certs/ca.crt'' = None"
  by code_simp+

lemma demo_stats:
  "os_Stat demo_os ''/etc/luna/certs/server.crt'' = StatOK" "os_Stat demo_os ''/etc/luna/certs/server.key'' = StatOK"
  "os_Stat demo_os ''/etc/luna/certs/ca.crt'' = StatOK"
  by (simp_all add: demo_os_def HasPrefix_def)

lemma demo_merge: "\<forall>p \<in> set ps. os_Stat os p \<noteq> StatOK \<Longrightarrow> mergeConfigFiles os vl ps v = Inr v"
  by (induction ps) auto

lemma demo_new_viper: "newViper demo_os (demo_viper unit) = Inr viper_defaults"
proof -
  have "\<forall>p \<in> set (proxyConfigPaths demo_os). os_Stat demo_os p \<noteq> StatOK" by code_simp
  note m = demo_merge [OF this, of "demo_viper unit"]
  have "fold (\<lambda>(k, e). vl_BindEnv (demo_viper unit) k e) bs v = v" for bs v by (induction bs) (auto simp: demo_viper_def)
  with m show ?thesis by (simp add: newViper_def Let_def demo_os_def viper_defaults_def) (simp add: demo_viper_def)
qed

lemma demo_config: "\<exists>cfg. config_Load demo_os (demo_viper unit) = Inr cfg \<and> cfg_Env cfg = [] \<and> cfg_ApprovalTimeout cfg = minute
    \<and> cfg_CliClientOU cfg = TrimSpace unit
    \<and> cfg_MTLSServerCert cfg = ''/etc/luna/certs/server.crt'' \<and> cfg_MTLSCACertPath cfg = ''/etc/luna/certs/ca.crt''
    \<and> cfg_MTLSCAKeyPath cfg = ''/etc/luna/certs/ca.key''"
proof -
  let ?g = "\<lambda>k. vl_GetString (demo_viper unit) k viper_defaults"
  have period: "ParseDuration fr (?g ''approval_timeout'') = Inr minute" for fr
    using parse_printed_seconds [of 60 fr] by (simp add: demo_viper_def viper_defaults_def defaultApprovalPeriod_def minute_def second_def)
  have blank: "TrimSpace [] = []" "\<not> isDevOrTestEnv []" by code_simp+
  have g: "?g ''env'' = []" "?g ''mtls_server_cert'' = []" "?g ''mtls_server_key'' = []" "?g ''mtls_client_ca'' = []"
    "?g ''mtls_ca_cert_path'' = []" "?g ''mtls_ca_key_path'' = []"
    by (simp_all add: demo_viper_def viper_defaults_def)
  let ?cfg = "applyRuntimeDefaults demo_os (applyMTLSDefaults demo_os (raw_config ?g minute))"
  have env: "cfg_Env (raw_config ?g minute) = []" by (simp add: raw_config_def Let_def g blank)
  have c: "cfg_Env ?cfg = []" "cfg_MTLSServerCert ?cfg = ''/etc/luna/certs/server.crt''"
      "cfg_MTLSServerKey ?cfg = ''/etc/luna/certs/server.key''" "cfg_MTLSClientCA ?cfg = ''/etc/luna/certs/ca.crt''"
      "cfg_MTLSCACertPath ?cfg = ''/etc/luna/certs/ca.crt''" "cfg_MTLSCAKeyPath ?cfg = ''/etc/luna/certs/ca.key''"
      "cfg_CliClientOU ?cfg = TrimSpace unit"
    by (simp_all add: applyRuntimeDefaults_def Let_def applyMTLSDefaults_def env blank demo_cert_paths)
      (simp_all add: raw_config_def Let_def g blank or_default_def, simp add: demo_viper_def)
  have "validateMTLS demo_os ?cfg = None"
    unfolding validateMTLS_def c by (simp add: blank Let_def demo_paths_ok demo_stats)
  then have "config_Load demo_os (demo_viper unit) = Inr ?cfg"
    using period by (simp add: config_Load_def demo_new_viper configFromViper_Inr)
  with c show ?thesis by (intro exI [of _ ?cfg]) (simp del: split_paired_Ex)
qed

theorem config_complete_witness:
  "\<exists>cfg v. config_Load demo_os (demo_viper ''luna-cli'') = Inr cfg \<and> newViper demo_os (demo_viper ''luna-cli'') = Inr v
     \<and> cfg_ControlSocket cfg \<noteq> [] \<and> cfg_MTLSClientCA cfg \<noteq> []
     \<and> (TrimSpace (vl_GetString (demo_viper ''luna-cli'') ''listen_addr'' v) \<noteq> [] \<longrightarrow>
          cfg_ListenAddr cfg = TrimSpace (vl_GetString (demo_viper ''luna-cli'') ''listen_addr'' v))"
proof -
  obtain cfg where c: "config_Load demo_os (demo_viper ''luna-cli'') = Inr cfg" using demo_config by blast
  then obtain v where "newViper demo_os (demo_viper ''luna-cli'') = Inr v"
    and "\<forall>(k, f) \<in> set (required_settings (isDevOrTestEnv (cfg_Env cfg))). f cfg \<noteq> []
      \<and> (TrimSpace (vl_GetString (demo_viper ''luna-cli'') k v) \<noteq> [] \<longrightarrow> f cfg = TrimSpace (vl_GetString (demo_viper ''luna-cli'') k v))"
    using config_complete [OF c] by blast
  with c show ?thesis by (auto simp: required_settings_def)
qed

theorem production_certificates_witness:
  "\<exists>cfg full. config_Load demo_os (demo_viper ''luna-cli'') = Inr cfg \<and> filepath_Abs (Inr ''/srv'') (cfg_MTLSServerCert cfg) = Inr full
     \<and> (\<forall>pre post. path_parts full = pre @ [''testdata'', ''ca''] @ post \<longrightarrow> post = [])"
proof -
  obtain cfg where c: "config_Load demo_os (demo_viper ''luna-cli'') = Inr cfg" "cfg_Env cfg = []" using demo_config by blast
  have "\<not> isDevOrTestEnv []" by code_simp
  moreover have "os_Getwd demo_os = Inr ''/srv''" by (simp add: demo_os_def)
  ultimately show ?thesis
    using production_certificates [OF c(1), of "cfg_MTLSServerCert cfg"] c by auto
qed

end
