(* ===== verification/Proxy.thy ===== *)
theory Proxy
  imports Control Config_Load Telegram
begin

text \<open>
  The whole program: how \<open>luna-proxy serve\<close> puts the components together (\<open>cmd/luna-proxy/serve.go\<close>)
  and what can then happen to it. Requests to the API, connections to the control socket, updates
  from Telegram, expiring timers and the work that handlers leave behind all act on one state.
\<close>

section \<open>Starting\<close>

datatype client_auth = VerifyClientCertIfGiven

record tls_config =
  tl_ClientAuth :: client_auth
  tl_MinVersion :: int

definition VersionTLS12 :: int where
  "VersionTLS12 = 771"

text \<open>Reading the certificates is left to the libraries: whether a file holds a certificate, and
  why a pair of files cannot be loaded.\<close>

record tls_lib =
  tlb_AppendCertsFromPEM :: "bytes \<Rightarrow> bool"
  tlb_LoadX509KeyPair :: "string \<Rightarrow> string \<Rightarrow> go_error option"

definition LoadTLSConfig :: "tls_lib \<Rightarrow> (string \<Rightarrow> bytes result) \<Rightarrow> string \<Rightarrow> string \<Rightarrow> string \<Rightarrow> tls_config result" where
  "LoadTLSConfig tlib ReadFile certFile keyFile caFile =
     (case ReadFile caFile of
        Inl err \<Rightarrow> Inl (Wrapf ''read client CA: '' err '''')
      | Inr caPEM \<Rightarrow>
          if \<not> tlb_AppendCertsFromPEM tlib caPEM then Inl (Errorf ''parse client CA'')
          else case tlb_LoadX509KeyPair tlib certFile keyFile of
                 Some err \<Rightarrow> Inl (Wrapf ''load server cert: '' err '''')
               | None \<Rightarrow> Inr \<lparr>tl_ClientAuth = VerifyClientCertIfGiven, tl_MinVersion = VersionTLS12\<rparr>)"

text \<open>The running proxy: the state its servers share, the poller if there is one, the jobs that
  handlers have left behind, the requests that jobs have sent, and what the listeners were given.\<close>

record proxy =
  px_server :: server
  px_poller :: "Poller option"
  px_jobs :: "job list"
  px_sent :: "out_request list"
  px_listen :: "string \<times> tls_config"
  px_control :: "string \<times> string"

definition serve_store :: "Config \<Rightarrow> Store" where
  "serve_store cfg =
     (let store = SetConfig cfg (approval_NewStore (cfg_ApprovalTimeout cfg));
          store = (if cfg_SignerMode cfg = SignerModeLocalKey then SetKeySigner (Some LocalKey) store
                   else SetIssuer (Some LocalCA) store)
      in SetLeases (Some lease_NewStore) store)"

definition serve_mode :: "Config \<Rightarrow> Mode" where
  "serve_mode cfg = (if cfg_SignerMode cfg = SignerModeLocalKey then ModeLocalKey else ModeLocalCA)"

definition serve_notifier_config :: "Config \<Rightarrow> NotifierConfig" where
  "serve_notifier_config cfg = \<lparr>nc_BotToken = cfg_TelegramBotToken cfg, nc_ChatID = cfg_TelegramChatID cfg,
     nc_AllowedTTLSeconds = cfg_AllowedTTLSeconds cfg, nc_BaseURL = []\<rparr>"

definition serve_deps :: "Config \<Rightarrow> CSRSigner option \<Rightarrow> server_deps" where
  "serve_deps cfg csrSigner =
     \<lparr>sd_Config = cfg, sd_Keystore = NewWithMode (serve_mode cfg), sd_Store = serve_store cfg,
      sd_Replay = NewReplayLRU (60 * second) 1000, sd_Telegram = Some (NewNotifier (serve_notifier_config cfg)),
      sd_Pending = Some NewPendingStore, sd_Mobile = Some mobile_NewStore, sd_CLI = Some cli_NewStore,
      sd_CSRSigner = csrSigner, sd_LoadLimiter = Some NewLoadRateLimiter\<rparr>"

definition control_path :: "os_env \<Rightarrow> string \<Rightarrow> Config \<Rightarrow> string" where
  "control_path os socketPath cfg =
     or_default (or_default socketPath (cfg_ControlSocket cfg)) (DefaultControlSocket os)"

definition runServe ::
  "os_env \<Rightarrow> 'v viper_lib \<Rightarrow> tls_lib \<Rightarrow> api_env \<Rightarrow> string \<Rightarrow> proxy result" where
  "runServe os vl tlib env socketPath =
     (case config_Load os vl of
        Inl err \<Rightarrow> Inl err
      | Inr cfg \<Rightarrow>
     (case LoadTLSConfig tlib (ae_ReadFile env) (cfg_MTLSServerCert cfg) (cfg_MTLSServerKey cfg) (cfg_MTLSClientCA cfg) of
        Inl err \<Rightarrow> Inl err
      | Inr tlsCfg \<Rightarrow>
     (case NewCSRSignerFromConfig (ae_x5 env) (ae_ReadFile env) cfg of
        Inl csrErr \<Rightarrow> Inl (Wrapf ''CLI CSR signer: '' csrErr '''')
      | Inr csrSigner \<Rightarrow>
          (let deps = serve_deps cfg csrSigner; s = api_NewServer env deps
           in Inr \<lparr>px_server = s,
                px_poller =
                  (if cfg_Env cfg \<noteq> ''dev'' \<and> Configured (sv_telegram s)
                   then Some (NewPoller (serve_notifier_config cfg) (sv_store s) 0 (cfg_TelegramUserIDs cfg)) else None),
                px_jobs = [], px_sent = [], px_listen = (cfg_ListenAddr cfg, tlsCfg),
                px_control = (control_path os socketPath cfg, cfg_ControlSocketGroup cfg)\<rparr>))))"

section \<open>Events\<close>

record run_env =
  re_lib :: ssh_lib
  re_js :: json_lib
  re_client :: http_client
  re_now :: gotime
  re_now' :: gotime

datatype event =
    ApiRequest api_call
  | ControlConn os_ids api_env "(int \<times> int) result" bytes
  | TelegramUpdate json_lib http_client decider telegramUpdate
  | TimerFires string
  | RunJob nat run_env

text \<open>A job runs once. Push notifications are not implemented and do nothing.\<close>

definition notify_job :: "run_env \<Rightarrow> Transaction \<Rightarrow> proxy \<Rightarrow> proxy" where
  "notify_job re tx p =
     (let s = px_server p
      in case sv_telegram s of
           None \<Rightarrow> p
         | Some n \<Rightarrow>
             (case Notify (re_js re) (re_client re) tx (n, px_sent p) of
                ((n', sent'), err) \<Rightarrow>
                  p\<lparr>px_server := logTelegramEvent ''notify'' (tx_ID tx) (if err = None then ''sent'' else ''failed'')
                      (s\<lparr>sv_telegram := Some n'\<rparr>), px_sent := sent'\<rparr>))"

fun run_job :: "run_env \<Rightarrow> job \<Rightarrow> proxy \<Rightarrow> proxy" where
  "run_job re (JobApprove (txID, ttl, ap)) p =
     (let s = px_server p
      in p\<lparr>px_server := s\<lparr>sv_store := Approve (re_lib re) (re_now re) (re_now' re) (sv_keystore s) txID ttl ap (sv_store s)\<rparr>\<rparr>)"
| "run_job re (JobNotify tx) p = notify_job re tx p"
| "run_job re (JobPush tx) p = p"

text \<open>New identifiers are not in use.\<close>

definition fresh_names :: "api_env \<Rightarrow> server \<Rightarrow> bool" where
  "fresh_names env s \<longleftrightarrow> fresh_ids env s \<and> map_of (st_txs (sv_store s)) (newTxID (ae_ulid env)) = None"

fun proxy_exec :: "event \<Rightarrow> proxy \<Rightarrow> proxy" where
  "proxy_exec (ApiRequest c) p =
     (if fresh_names (ac_env c) (px_server p)
      then (case serve (ac_ctx c) (ac_route c) (ac_env c) (ac_request c) (px_server p) of
              (s', resp, jobs) \<Rightarrow> p\<lparr>px_server := s', px_jobs := px_jobs p @ jobs\<rparr>)
      else p)"
| "proxy_exec (ControlConn os env cred input) p =
     (if fresh_names env (px_server p)
      then p\<lparr>px_server := fst (serveConn os env cred (snd (px_control p)) input (px_server p))\<rparr> else p)"
| "proxy_exec (TelegramUpdate js client d upd) p =
     (case px_poller p of
        None \<Rightarrow> p
      | Some q \<Rightarrow>
          (let q' = take_update js client (d\<lparr>de_ks := sv_keystore (px_server p)\<rparr>) upd (q\<lparr>po_store := sv_store (px_server p)\<rparr>)
           in p\<lparr>px_poller := Some q', px_server := (px_server p)\<lparr>sv_store := po_store q'\<rparr>\<rparr>))"
| "proxy_exec (TimerFires txID) p =
     p\<lparr>px_server := (px_server p)\<lparr>sv_store := expire txID (sv_store (px_server p))\<rparr>\<rparr>"
| "proxy_exec (RunJob i re) p =
     (if i < length (px_jobs p)
      then run_job re (px_jobs p ! i) (p\<lparr>px_jobs := take i (px_jobs p) @ drop (Suc i) (px_jobs p)\<rparr>) else p)"


section \<open>What the operations of the store leave alone\<close>

lemma finishLocked_cfg [simp]: "st_cfg (finishLocked txID e state res s) = st_cfg s" "st_leases (finishLocked txID e state res s) = st_leases s"
  by (simp_all add: finishLocked_def chan_send_def split: option.split list.split)

lemma finish_cfg [simp]:
  "st_cfg (finishPending txID state res s) = st_cfg s" "st_leases (finishPending txID state res s) = st_leases s"
  "st_cfg (fst (finishClaimed txID state res s)) = st_cfg s" "st_leases (fst (finishClaimed txID state res s)) = st_leases s"
  by (simp_all add: finishPending_def finishClaimed_def split: option.split)

lemma Deny_cfg [simp]: "st_cfg (Deny txID s) = st_cfg s" "st_leases (Deny txID s) = st_leases s"
  by (simp_all add: Deny_def)

lemma expire_cfg [simp]: "st_cfg (expire txID s) = st_cfg s" "st_leases (expire txID s) = st_leases s"
  by (simp_all add: expire_def)

lemma claimApproval_cfg: "claimApproval txID s = (s', tx) \<Longrightarrow> st_cfg s' = st_cfg s"
  by (auto simp: claimApproval_def Let_def split: option.splits if_splits)

lemma put_lease_cfg [simp]: "st_cfg (put_lease tx ap until s) = st_cfg s" "st_txs (put_lease tx ap until s) = st_txs s"
  by (simp_all add: put_lease_def split: option.split)

lemma Approve_cfg [simp]: "st_cfg (Approve lib now now' ks txID ttl ap s) = st_cfg s"
proof -
  have "st_cfg s2 = st_cfg s1" if "finishClaimed txID StateApproved r s1 = (s2, b)" for r s1 s2 b
    using finish_cfg(3) [of txID StateApproved r s1] that by simp
  then show ?thesis
    by (auto simp: Approve_def approveWithIssuer_def Let_def dest!: claimApproval_cfg split: prod.split option.split sum.split bool.split)
qed

lemma Create_cfg [simp]:
  "st_cfg (fst (CreateBound ulid now a s)) = st_cfg s" "st_leases (fst (CreateBound ulid now a s)) = st_leases s"
  "st_cfg (fst (CreateInstantApproved ulid now u ip pk src fp res s)) = st_cfg s"
  "st_leases (fst (CreateInstantApproved ulid now u ip pk src fp res s)) = st_leases s"
  by (simp_all add: CreateBound_def Let_def arm_timer_def create_locked_def CreateInstantApproved_def split: option.split)

lemma Wait_cfg [simp]: "st_cfg (fst (Wait ctx txID s)) = st_cfg s" "st_leases (fst (Wait ctx txID s)) = st_leases s"
  by (simp_all add: Wait_def waitResult_def chan_recv_def cancelWait_def remove_tx_def Let_def
      split: option.split prod.split list.split waitSlot.split)

text \<open>The state of a transaction.\<close>

definition tx_state :: "Store \<Rightarrow> string \<Rightarrow> State option" where
  "tx_state s i = map_option (\<lambda>e. tx_State (te_tx e)) (map_of (st_txs s) i)"

lemma finishLocked_state:
  "tx_state (finishLocked txID e state res s) i = (if i = txID then Some state else tx_state s i)"
  by (auto simp: tx_state_def finishLocked_def chan_send_def finish_entry_def split: option.split list.split)

lemma finishPending_state:
  "tx_state (finishPending txID state res s) i \<in> {tx_state s i, if i = txID then Some state else tx_state s i}"
  by (auto simp: finishPending_def finishLocked_state split: option.split)

lemma finishClaimed_state:
  "i \<noteq> txID \<Longrightarrow> finishClaimed txID state res s = (s', b) \<Longrightarrow> tx_state s' i = tx_state s i"
  by (auto simp: finishClaimed_def finishLocked_state split: option.splits if_splits)

lemma Deny_state: "tx_state (Deny txID s) i \<noteq> Some StateApproved \<or> tx_state (Deny txID s) i = tx_state s i"
  using finishPending_state [of txID StateDenied "err_Result ErrDenied" s i] by (auto simp: Deny_def split: if_splits)

lemma expire_state: "tx_state (expire txID s) i \<noteq> Some StateApproved \<or> tx_state (expire txID s) i = tx_state s i"
  using finishPending_state [of txID StateExpired "err_Result ErrTimeout" s i] by (auto simp: expire_def split: if_splits)

lemma claimApproval_state: "i \<noteq> txID \<Longrightarrow> claimApproval txID s = (s', tx) \<Longrightarrow> tx_state s' i = tx_state s i"
  by (auto simp: claimApproval_def tx_state_def Let_def split: option.splits if_splits)

lemma put_lease_state [simp]: "tx_state (put_lease tx ap until s) i = tx_state s i"
  by (simp add: tx_state_def)

lemma Approve_state:
  assumes "i \<noteq> txID" shows "tx_state (Approve lib now now' ks txID ttl ap s) i = tx_state s i"
proof -
  define t where "t = (if ttl \<le> 0 then DefaultDevCertTTL else ttl)"
  obtain s1 txo where c: "claimApproval txID s = (s1, txo)" by fastforce
  note s1 = claimApproval_state [OF assms c]
  have f: "tx_state (fst (finishClaimed txID st r s1)) i = tx_state s i" for st r
    using finishClaimed_state [OF assms, of st r s1] s1 by (metis prod.collapse)
  then have "tx_state s2 i = tx_state s i" if "finishClaimed txID StateApproved r s1 = (s2, b)" for r s2 b
    using f [of StateApproved r] that by simp
  then show ?thesis
    unfolding Approve_def approveWithIssuer_def c t_def [symmetric] Let_def
    by (auto simp: s1 f split: option.split sum.split prod.split bool.split)
qed

lemma Create_state:
  "tx_state (fst (CreateBound ulid now a s)) i = (if i = newTxID ulid then Some StatePending else tx_state s i)"
  "tx_state (fst (CreateInstantApproved ulid now u ip pk src fp res s)) i =
     (if i = newTxID ulid then Some StateApproved else tx_state s i)"
  by (simp_all add: CreateBound_def Let_def arm_timer_def create_locked_def CreateInstantApproved_def tx_state_def new_transaction_def)

lemma Wait_state: "tx_state (fst (Wait ctx txID s)) i \<in> {None, tx_state s i}"
  by (auto simp: Wait_def waitResult_def chan_recv_def cancelWait_def remove_tx_def tx_state_def Let_def
      split: option.split prod.split list.split waitSlot.split)


section \<open>The jobs a handler leaves behind\<close>

definition quiet :: "reply \<Rightarrow> bool" where
  "quiet rep \<longleftrightarrow> snd (snd rep) = []"

lemma quiet_Let: "quiet (f x) \<Longrightarrow> quiet (let y = x in f y)"
  by simp

lemma quiet_if: "quiet a \<Longrightarrow> quiet b \<Longrightarrow> quiet (if c then a else b)"
  by simp

lemma quiet_option: "quiet a \<Longrightarrow> (\<And>y. quiet (f y)) \<Longrightarrow> quiet (case x of None \<Rightarrow> a | Some y \<Rightarrow> f y)"
  by (simp split: option.split)

lemma quiet_sum: "(\<And>y. quiet (f y)) \<Longrightarrow> (\<And>y. quiet (g y)) \<Longrightarrow> quiet (case x of Inl y \<Rightarrow> f y | Inr y \<Rightarrow> g y)"
  by (simp split: sum.split)

lemma quiet_prod: "(\<And>y z. quiet (f y z)) \<Longrightarrow> quiet (case x of (y, z) \<Rightarrow> f y z)"
  by (simp split: prod.split)

lemma quiet_bool: "quiet a \<Longrightarrow> quiet b \<Longrightarrow> quiet (case x of True \<Rightarrow> a | False \<Rightarrow> b)"
  by (simp split: bool.split)

lemma quiet_read_error: "quiet a \<Longrightarrow> quiet b \<Longrightarrow> quiet (case x of MaxBytesError \<Rightarrow> a | ReadError \<Rightarrow> b)"
  by (simp split: read_error.split)

lemma quiet_reply: "quiet (s, resp, [])"
  by (simp add: quiet_def)

lemmas quiet_rules = quiet_Let quiet_if quiet_option quiet_sum quiet_prod quiet_bool quiet_read_error quiet_reply

lemma handlers_quiet:
  "quiet (handleHealthz env r s)" "quiet (handleMTLSCA env r s)" "quiet (handleMTLSEnroll env r s)" "quiet (handleUnseal env r s)"
  "quiet (handleSealStatus env r s)" "quiet (handleCapabilities env r s)" "quiet (handleWait ctx env r s)"
  "quiet (handleMobileEnroll env r s)" "quiet (handleMobileDeleteDevice env r s)" "quiet (handleMobileApprove env r s)"
  "quiet (handleMobileKeysPending env r s)" "quiet (handleCLIEnroll env r s)" "quiet (handleCLIListDevices env r s)"
  "quiet (handleCLIDeleteDevice env r s)" "quiet (cli_load_key env dev k s)"
  unfolding handleHealthz_def handleMTLSCA_def handleMTLSEnroll_def handleUnseal_def handleSealStatus_def handleCapabilities_def
    handleWait_def handleMobileEnroll_def handleMobileDeleteDevice_def handleMobileApprove_def handleMobileKeysPending_def
    handleCLIEnroll_def handleCLIListDevices_def handleCLIDeleteDevice_def cli_load_key_def
  by (intro quiet_rules)+

lemma handleCLIKeysLoad_quiet: "quiet (handleCLIKeysLoad env r s)"
  unfolding handleCLIKeysLoad_def by (intro quiet_rules handlers_quiet)

lemma withMTLS_quiet: "quiet (h env r s) \<Longrightarrow> quiet (withMTLS h env r s)"
  by (simp add: withMTLS_def quiet_reply split: option.split)

lemma withAdminMTLS_quiet: "quiet (h env r s) \<Longrightarrow> quiet (withAdminMTLS h env r s)"
  by (simp add: withAdminMTLS_def quiet_reply split: option.split)

text \<open>Only the development environment approves by itself.\<close>

lemma announce_jobs: "announce tx s = (s', jobs) \<Longrightarrow> JobApprove c \<notin> set jobs"
  by (auto simp: announce_def split: if_splits)

lemma sign_admitted_jobs:
  assumes "JobApprove c \<in> set (snd (snd (sign_admitted env r req fp dst s)))"
  shows "cfg_Env (st_cfg (sv_store s)) = ''dev''"
proof -
  have a: "JobApprove c \<notin> set (snd (announce tx s1))" for tx s1
    using announce_jobs [of tx s1] by (cases "announce tx s1") simp
  show ?thesis
    using assms a unfolding sign_admitted_def Let_def case_prod_beta CreateBound_def dev_approvals_def
    by (auto split: if_splits)
qed

lemma serve_jobs:
  assumes "serve ctx route env r s = (s', resp, jobs)" and "JobApprove c \<in> set jobs"
  shows "cfg_Env (st_cfg (sv_store s)) = ''dev''"
proof -
  have "\<not> quiet (serve ctx route env r s)" using assms by (auto simp: quiet_def)
  then have "route = SshSign"
    by (cases route) (auto simp: handlers_quiet handleCLIKeysLoad_quiet dest!: withMTLS_quiet withAdminMTLS_quiet
        intro: withMTLS_quiet withAdminMTLS_quiet)
  with assms have h: "JobApprove c \<in> set (snd (snd (handleSign env r s)))" by (auto simp: withMTLS_def split: option.splits)
  then show ?thesis
  proof (cases rule: handleSign_cases [of env r s])
    case (admitted req fp dst replay)
    with h sign_admitted_jobs [of c env r req fp dst "s\<lparr>sv_replay := replay\<rparr>"] show ?thesis by simp
  qed simp
qed


section \<open>What a request can do to the transactions\<close>

text \<open>A device's approval that was accepted: the request names an enrolled device, came over the
  certificate of that device and carries its signature.\<close>

definition device_approval :: "api_env \<Rightarrow> http_request \<Rightarrow> server \<Rightarrow> string \<Rightarrow> bool" where
  "device_approval env r s txID \<longleftrightarrow> (\<exists>req dev.
      Unmarshal (ae_js env) approve_fields (rq_body r) zero_mobileApprove = Some req
    \<and> ma_Action req = ''approve'' \<and> ma_TxID req = txID
    \<and> mobile_Get (ma_DeviceID req) (sv_mobile s) = Some dev \<and> clientCertFPFromRequest r = md_CertFingerprint dev
    \<and> verifyDeviceSignature (ae_ed25519_Verify env) (md_PubKey dev) (js_print (ae_js env) (approve_payload req))
        (ma_Signature req) (ae_now env 0) (ma_Timestamp req) = None)"

text \<open>An effect on the store that approves none of the transactions there and leaves the leases
  alone, except for transactions of the given names, which may be new.\<close>

definition harmless :: "string set \<Rightarrow> Store \<Rightarrow> Store \<Rightarrow> bool" where
  "harmless new st st' \<longleftrightarrow> st_cfg st' = st_cfg st \<and> st_leases st' = st_leases st
     \<and> (\<forall>i. i \<notin> new \<longrightarrow> tx_state st' i = Some StateApproved \<longrightarrow> tx_state st i = Some StateApproved)"

lemma harmless_refl [simp]: "harmless new st st"
  by (simp add: harmless_def)

lemma sign_admitted_harmless:
  "harmless {newTxID (ae_ulid env)} (sv_store s) (sv_store (fst (sign_admitted env r req fp dst s)))"
proof -
  obtain s' resp jobs where a: "sign_admitted env r req fp dst s = (s', resp, jobs)" by (metis prod_cases3)
  then have "harmless {newTxID (ae_ulid env)} (sv_store s) (sv_store s')"
  proof (cases rule: sign_admitted_cases)
    case (hit res tx)
    have "harmless {newTxID (ae_ulid env)} (sv_store s) (fst (CreateInstantApproved (ae_ulid env) (ae_now env 7) (sr_TargetUser req)
        (sr_TargetIP req) (sr_PublicKey req) (clientIPFromRemoteAddr (rq_RemoteAddr r)) (clientCertFPFromRequest r) res (sv_store s)))"
      by (simp add: harmless_def Create_state)
    then show ?thesis unfolding hit(4) fst_conv .
  next
    case (new tx calls jobs')
    have "harmless {newTxID (ae_ulid env)} (sv_store s) (fst (CreateBound (ae_ulid env) (ae_now env 7) a (sv_store s)))" for a
      by (simp add: harmless_def Create_state)
    from this [of "\<lparr>ta_targetUser = sr_TargetUser req, ta_targetIP = sr_TargetIP req, ta_publicKey = sr_PublicKey req,
          ta_sourceIP = clientIPFromRemoteAddr (rq_RemoteAddr r), ta_clientCertFP = clientCertFPFromRequest r,
          ta_agentSignData = sr_AgentSignData req, ta_hostKeyFP = fp,
          ta_destinationHostKeyFP = dn_hostKeyFP dst, ta_client = dn_meta dst\<rparr>"] show ?thesis unfolding new(1) fst_conv .
  qed
  with a show ?thesis by simp
qed

lemma handleSign_harmless: "harmless {newTxID (ae_ulid env)} (sv_store s) (sv_store (fst (handleSign env r s)))"
proof (cases rule: handleSign_cases [of env r s])
  case (admitted req fp dst replay)
  with sign_admitted_harmless [of env "s\<lparr>sv_replay := replay\<rparr>" r req fp dst] show ?thesis by simp
next
  case (rejected s' resp)
  then show ?thesis by (auto simp: only_log_and_cache_def)
qed

lemma Wait_harmless: "harmless new st (fst (Wait ctx txID st))"
proof -
  have "tx_state st i = Some StateApproved" if "tx_state (fst (Wait ctx txID st)) i = Some StateApproved" for i
    using Wait_state [of ctx txID st i] that by auto
  then show ?thesis by (simp add: harmless_def)
qed

lemma handleWait_harmless: "harmless new (sv_store s) (sv_store (fst (handleWait ctx env r s)))"
  using Wait_harmless [of new "sv_store s" ctx "rq_PathValue r ''tx_id''"]
  by (auto simp: handleWait_def Let_def split: prod.splits sum.splits)

lemma handleMobileApprove_effect:
  "sv_store (fst (handleMobileApprove env r s)) = sv_store s
   \<or> (\<exists>txID lib now now' ttl ap. device_approval env r s txID
        \<and> sv_store (fst (handleMobileApprove env r s)) = Approve lib now now' (sv_keystore s) txID ttl ap (sv_store s))"
proof -
  obtain s' resp jobs where h: "handleMobileApprove env r s = (s', resp, jobs)" by (metis prod_cases3)
  show ?thesis
    using handleMobileApprove_cases [OF h] unfolding h fst_conv device_approval_def by fastforce
qed

lemma serve_effect:
  "harmless {newTxID (ae_ulid env)} (sv_store s) (sv_store (fst (serve ctx route env r s)))
   \<or> route = MobileApprove \<and> (\<exists>txID lib now now' ttl ap. device_approval env r s txID
        \<and> sv_store (fst (serve ctx route env r s)) = Approve lib now now' (sv_keystore s) txID ttl ap (sv_store s))"
proof (cases "sv_store (fst (serve ctx route env r s)) = sv_store s")
  case False
  note ss = serve_store [OF False]
  then consider "route = SshSign" | "route = SshWait" | "route = MobileApprove" by blast
  then show ?thesis
  proof cases
    case 1
    with ss handleSign_harmless [of env s r] show ?thesis by (simp add: withMTLS_fst)
  next
    case 2
    with ss handleWait_harmless [of _ s ctx env r] show ?thesis by (simp add: withMTLS_fst)
  next
    case 3
    with False ss handleMobileApprove_effect [of env r s] show ?thesis by (simp add: withMTLS_fst)
  qed
qed simp

lemma serve_cfg: "sv_cfg (fst (serve ctx route env r s)) = sv_cfg s"
  by (cases route) (simp_all add: withMTLS_fst withAdminMTLS_fst handler_views handleCapabilities_def logCapabilitiesRequest_def
      emitSignLog_def Let_def)


section \<open>What an update from Telegram can do to them\<close>

text \<open>A press of an approval button for the transaction, in the configured chat, by a user who may
  decide, with a time that may be granted.\<close>

definition chat_approval :: "Poller \<Rightarrow> telegramUpdate \<Rightarrow> string \<Rightarrow> bool" where
  "chat_approval q upd txID \<longleftrightarrow> (\<exists>cq msg ttl. tu_CallbackQuery upd = Some cq \<and> tq_Message cq = Some msg
     \<and> ChatAllowed (po_chatID q) (tm_ChatID msg) \<and> TelegramUserAllowed (po_chatID q) (po_allowedUserIDs q) (tq_FromID cq)
     \<and> ParseCallbackData (tq_Data cq) (po_allowedTTLs q) = Some (''approve'', txID, ttl))"

lemma decide_effect:
  assumes "action = ''approve'' \<or> action = ''deny''"
  shows "po_store (decide js client d msg action txID ttl p) = Deny txID (po_store p)
   \<or> action = ''approve'' \<and> (\<exists>t. po_store (decide js client d msg action txID ttl p) =
        Approve (de_lib d) (de_now d) (de_now' d) (de_ks d) txID t (FormatApproverChatID (tm_ChatID msg)) (po_store p))"
  using assms by (auto simp: decide_def Let_def)

lemma handleUpdate_effect:
  "po_store (handleUpdate js client d upd q) = po_store q
   \<or> (\<exists>txID. po_store (handleUpdate js client d upd q) = Deny txID (po_store q))
   \<or> (\<exists>txID t ap. chat_approval q upd txID
        \<and> po_store (handleUpdate js client d upd q) = Approve (de_lib d) (de_now d) (de_now' d) (de_ks d) txID t ap (po_store q))"
proof (cases "po_store (handleUpdate js client d upd q) = po_store q")
  case False
  then obtain cq where cq: "tu_CallbackQuery upd = Some cq" "tq_Data cq \<noteq> []" by (auto simp: handleUpdate_def split: option.splits if_splits)
  with False obtain action txID ttl where pc: "ParseCallbackData (tq_Data cq) (po_allowedTTLs q) = Some (action, txID, ttl)"
    by (auto simp: handleUpdate_def split: option.splits if_splits)
  from False cq pc obtain msg where msg: "tq_Message cq = Some msg" "ChatAllowed (po_chatID q) (tm_ChatID msg)"
      "TelegramUserAllowed (po_chatID q) (po_allowedUserIDs q) (tq_FromID cq)"
    by (auto simp: handleUpdate_def Let_def split: option.splits if_splits)
  have st: "po_store (handleUpdate js client d upd q) = po_store (decide js client d msg action txID ttl q)"
    using cq pc msg by (simp add: handleUpdate_def Let_def)
  have "action = ''approve'' \<or> action = ''deny''" using ParseCallbackData_Some [OF pc] by blast
  from decide_effect [OF this, of js client d msg txID ttl q] cq(1) pc msg st show ?thesis
    unfolding chat_approval_def by metis
qed simp

lemma take_update_effect:
  "harmless {} (po_store q) (po_store (take_update js client d upd q))
   \<or> (\<exists>txID t ap. chat_approval q upd txID
        \<and> po_store (take_update js client d upd q) = Approve (de_lib d) (de_now d) (de_now' d) (de_ks d) txID t ap (po_store q))"
proof -
  define q1 where "q1 = (if po_offset q \<le> tu_UpdateID upd then q\<lparr>po_offset := wrap64 (tu_UpdateID upd + 1)\<rparr> else q)"
  have same: "po_store q1 = po_store q" "chat_approval q1 upd = chat_approval q upd"
    by (auto simp: q1_def chat_approval_def fun_eq_iff)
  have "harmless {} st (Deny i st)" for i st using Deny_state [of i st] by (auto simp: harmless_def)
  with handleUpdate_effect [of js client d upd q1] show ?thesis
    unfolding take_update_def q1_def [symmetric] same by auto
qed

section \<open>The invariant of the proxy\<close>

definition proxy_inv :: "proxy \<Rightarrow> bool" where
  "proxy_inv p \<longleftrightarrow> server_inv (px_server p) \<and> st_cfg (sv_store (px_server p)) = sv_cfg (px_server p)
     \<and> (\<forall>c. JobApprove c \<in> set (px_jobs p) \<longrightarrow> cfg_Env (sv_cfg (px_server p)) = ''dev'')"

lemma server_inv_store: "server_inv s \<Longrightarrow> approval_inv st \<Longrightarrow> server_inv (s\<lparr>sv_store := st\<rparr>)"
  by (simp add: server_inv_def)

lemma server_inv_approval: "server_inv s \<Longrightarrow> approval_inv (sv_store s)"
  by (simp add: server_inv_def)

lemma serve_st_cfg: "st_cfg (sv_store (fst (serve ctx route env r s))) = st_cfg (sv_store s)"
  using serve_effect [of env s ctx route r] by (auto simp: harmless_def)

lemma ctl_frame: "sv_cfg (fst (serveConn os env cred g input s)) = sv_cfg s"
  "sv_store (fst (serveConn os env cred g input s)) = sv_store s"
proof -
  have "after (\<lambda>t. sv_cfg t = sv_cfg s \<and> sv_store t = sv_store s) (ctl_handle env req s)" for req
    unfolding ctl_handle_def Let_def statusData_def pendingListData_def handleKeyLoad_def handleKeyRemove_def handleKeyConfirm_def
      handleKeyReject_def ctl_MobileEnroll_def ctl_MobileDelete_def ctl_CLIEnroll_def ctl_CLIDelete_def
    by (intro after_rules) (auto split: prod.splits)
  then have "sv_cfg (fst (ctl_handle env req s)) = sv_cfg s" "sv_store (fst (ctl_handle env req s)) = sv_store s" for req
    by (simp_all add: after_def)
  then show "sv_cfg (fst (serveConn os env cred g input s)) = sv_cfg s"
    "sv_store (fst (serveConn os env cred g input s)) = sv_store s"
    by (auto simp: serveConn_def case_prod_beta split: option.split)
qed


lemma run_job_inv:
  assumes "proxy_inv p" shows "proxy_inv (run_job re j p)"
proof (cases j)
  case (JobApprove c)
  obtain txID ttl ap where c: "c = (txID, ttl, ap)" by (metis prod_cases3)
  have "approval_inv (Approve lib now now' ks txID ttl ap (sv_store (px_server p)))" for lib now now' ks
    using assms by (simp add: proxy_inv_def server_inv_approval Approve_inv)
  with assms show ?thesis unfolding JobApprove c by (simp add: proxy_inv_def Let_def server_inv_store)
next
  case (JobNotify tx)
  with assms show ?thesis
    by (simp add: notify_job_def Let_def proxy_inv_def server_inv_def logTelegramEvent_def emitSignLog_def split: option.split prod.split)
qed (use assms in simp)

lemma proxy_exec_inv:
  assumes "proxy_inv p" shows "proxy_inv (proxy_exec ev p)"
proof (cases ev)
  case (ApiRequest c)
  obtain s' resp jobs where h: "serve (ac_ctx c) (ac_route c) (ac_env c) (ac_request c) (px_server p) = (s', resp, jobs)"
    by (metis prod_cases3)
  have s': "s' = fst (serve (ac_ctx c) (ac_route c) (ac_env c) (ac_request c) (px_server p))" using h by simp
  have "proxy_inv (p\<lparr>px_server := s', px_jobs := px_jobs p @ jobs\<rparr>)" if "fresh_names (ac_env c) (px_server p)"
  proof -
    have "server_inv s'" using assms that serve_inv unfolding s' proxy_inv_def fresh_names_def by blast
    moreover have "sv_cfg s' = sv_cfg (px_server p)" "st_cfg (sv_store s') = st_cfg (sv_store (px_server p))"
      unfolding s' by (rule serve_cfg, rule serve_st_cfg)
    ultimately show ?thesis using assms serve_jobs [OF h] by (auto simp: proxy_inv_def)
  qed
  with assms ApiRequest h show ?thesis by simp
next
  case (ControlConn os env cred input)
  with assms show ?thesis by (auto simp: proxy_inv_def ctl_frame fresh_names_def intro: serveConn_inv)
next
  case (TelegramUpdate js client d upd)
  show ?thesis
  proof (cases "px_poller p")
    case (Some q)
    let ?st = "sv_store (px_server p)" and ?d = "d\<lparr>de_ks := sv_keystore (px_server p)\<rparr>"
    let ?q = "take_update js client ?d upd (q\<lparr>po_store := ?st\<rparr>)"
    have "approval_inv ?st" using assms by (simp add: proxy_inv_def server_inv_approval)
    with take_update_store [of "q\<lparr>po_store := ?st\<rparr>" upd js client ?d] have inv: "approval_inv (po_store ?q)"
      by (auto simp: may_decide_def telegram_decision.simps intro: Approve_inv Deny_inv)
    have "st_cfg (po_store ?q) = st_cfg ?st"
      using take_update_effect [of "q\<lparr>po_store := ?st\<rparr>" js client ?d upd] by (auto simp: harmless_def)
    with assms inv Some TelegramUpdate show ?thesis by (auto simp: proxy_inv_def Let_def intro: server_inv_store)
  qed (use assms TelegramUpdate in simp)
next
  case (TimerFires txID)
  with assms show ?thesis by (auto simp: proxy_inv_def server_inv_approval intro!: server_inv_store expire_inv)
next
  case (RunJob i re)
  let ?p = "p\<lparr>px_jobs := take i (px_jobs p) @ drop (Suc i) (px_jobs p)\<rparr>"
  have "proxy_inv ?p" using assms by (auto simp: proxy_inv_def dest: in_set_takeD in_set_dropD)
  with assms RunJob show ?thesis by (simp add: run_job_inv)
qed

interpretation proxy_machine: op_machine proxy_exec proxy_inv
  by unfold_locales (rule proxy_exec_inv)

lemma serve_store_inv: "approval_inv (serve_store cfg)"
proof -
  have "approval_inv (st\<lparr>st_leases := Some lease_NewStore\<rparr>)" if "approval_inv st" for st
    using that lease_inv_init by (simp add: approval_inv_def)
  moreover have "approval_inv (SetConfig cfg (approval_NewStore t))" for t
    by (simp add: approval_inv_def SetConfig_def approval_NewStore_def Let_def)
  then have "approval_inv (SetKeySigner x (SetConfig cfg (approval_NewStore t)))"
      "approval_inv (SetIssuer y (SetConfig cfg (approval_NewStore t)))" for x y t
    by (simp_all add: approval_inv_def SetKeySigner_def SetIssuer_def)
  ultimately show ?thesis by (simp add: serve_store_def SetLeases_def Let_def)
qed

lemma serve_store_cfg [simp]: "st_cfg (serve_store cfg) = cfg"
  by (simp add: serve_store_def SetLeases_def SetKeySigner_def SetIssuer_def SetConfig_def Let_def)

lemma runServe_server:
  assumes "runServe os vl tlib env socketPath = Inr p"
  obtains cfg csr where "config_Load os vl = Inr cfg" and "px_server p = api_NewServer env (serve_deps cfg csr)" and "px_jobs p = []"
    and "snd (px_control p) = cfg_ControlSocketGroup cfg"
    and "NewCSRSignerFromConfig (ae_x5 env) (ae_ReadFile env) cfg = Inr csr"
  using assms by (auto simp: runServe_def Let_def split: sum.splits)

lemma runServe_inv:
  assumes "runServe os vl tlib env socketPath = Inr p" shows "proxy_inv p"
  using assms
proof (cases rule: runServe_server)
  case (1 cfg csr)
  have "server_inv (px_server p)"
    unfolding 1(2) server_inv_def api_NewServer_def serve_deps_def or_new_def
    by (simp add: serve_store_inv ks_inv_new NewReplayLRU_inv NewPendingStore_inv cli_NewStore_inv)
  moreover have "st_cfg (sv_store (px_server p)) = sv_cfg (px_server p)"
    unfolding 1(2) by (simp add: api_NewServer_def serve_deps_def)
  ultimately show ?thesis using 1(3) by (simp add: proxy_inv_def)
qed


text \<open>
  (C2) Every state the proxy reaches is sound: started with whatever configuration loads, and after any
  sequence of requests, control connections, Telegram updates, timeouts and background work, in any
  order, the stores satisfy their invariants: a transaction's state says what its result says,
  replay cache and keystore are well formed, the upload queue respects its limits, no two CLI
  devices share a certificate, and all parts see one configuration.
\<close>

theorem proxy_reachable_inv:
  assumes "runServe os vl tlib env socketPath = Inr p"
  shows "server_inv (px_server (fold proxy_exec evs p))
    \<and> st_cfg (sv_store (px_server (fold proxy_exec evs p))) = sv_cfg (px_server (fold proxy_exec evs p))"
  using proxy_machine.run_inv [OF runServe_inv [OF assms], of evs] by (simp add: proxy_inv_def)

section \<open>Where approvals come from\<close>

text \<open>The events that may approve a transaction: a press of a button in the configured chat, the signed
  request of an enrolled device, and, in the development environment only, the proxy itself.\<close>

inductive authorised :: "proxy \<Rightarrow> event \<Rightarrow> string \<Rightarrow> bool" for p where
  by_chat: "authorised p (TelegramUpdate js client d upd) txID"
    if "px_poller p = Some q" and "chat_approval q upd txID"
| by_device: "authorised p (ApiRequest c) txID"
    if "ac_route c = MobileApprove" and "device_approval (ac_env c) (ac_request c) (px_server p) txID"
| by_dev_mode: "authorised p (RunJob i re) txID"
    if "cfg_Env (sv_cfg (px_server p)) = ''dev''"

lemma Approve_effect:
  assumes "tx_state (Approve lib now now' ks txID ttl ap st) i = Some StateApproved" and "tx_state st i \<noteq> Some StateApproved"
  shows "i = txID"
  using Approve_state [of i txID lib now now' ks ttl ap st] assms by auto

definition approves :: "proxy \<Rightarrow> proxy \<Rightarrow> string \<Rightarrow> bool" where
  "approves p p' i \<longleftrightarrow> tx_state (sv_store (px_server p)) i \<noteq> None \<and> tx_state (sv_store (px_server p)) i \<noteq> Some StateApproved
     \<and> tx_state (sv_store (px_server p')) i = Some StateApproved"

definition leases_of :: "proxy \<Rightarrow> lease_store option" where
  "leases_of p = st_leases (sv_store (px_server p))"

lemma harmless_no_approval:
  assumes "harmless new (sv_store (px_server p)) (sv_store (px_server p'))" and "\<forall>j \<in> new. tx_state (sv_store (px_server p)) j = None"
  shows "\<not> approves p p' i \<and> leases_of p' = leases_of p"
proof -
  have "i \<notin> new" if "approves p p' i" using that assms(2) by (auto simp: approves_def)
  with assms(1) show ?thesis unfolding harmless_def approves_def leases_of_def by metis
qed

lemma api_sources:
  assumes "approves p (proxy_exec (ApiRequest c) p) i \<or> leases_of (proxy_exec (ApiRequest c) p) \<noteq> leases_of p"
  shows "(approves p (proxy_exec (ApiRequest c) p) i \<longrightarrow> authorised p (ApiRequest c) i) \<and> (\<exists>j. authorised p (ApiRequest c) j)"
proof -
  let ?s = "px_server p" and ?p' = "proxy_exec (ApiRequest c) p"
  let ?s' = "fst (serve (ac_ctx c) (ac_route c) (ac_env c) (ac_request c) ?s)"
  have fresh: "fresh_names (ac_env c) ?s" using assms by (auto simp: approves_def leases_of_def split: if_splits)
  then have s': "px_server ?p' = ?s'" by (simp split: prod.split)
  have "tx_state (sv_store ?s) (newTxID (ae_ulid (ac_env c))) = None" using fresh by (simp add: fresh_names_def tx_state_def)
  with assms have "\<not> harmless {newTxID (ae_ulid (ac_env c))} (sv_store ?s) (sv_store ?s')"
    using harmless_no_approval [of "{newTxID (ae_ulid (ac_env c))}" p ?p'] s' by auto
  with serve_effect [of "ac_env c" ?s "ac_ctx c" "ac_route c" "ac_request c"] obtain txID lib now now' ttl ap where
      m: "ac_route c = MobileApprove" "device_approval (ac_env c) (ac_request c) ?s txID"
        "sv_store ?s' = Approve lib now now' (sv_keystore ?s) txID ttl ap (sv_store ?s)" by blast
  have a: "authorised p (ApiRequest c) txID" using m(1,2) by (rule by_device)
  have "i = txID" if "approves p ?p' i" using that s' m(3) Approve_effect unfolding approves_def by metis
  with a show ?thesis by blast
qed

lemma telegram_sources:
  assumes "approves p (proxy_exec (TelegramUpdate js client d upd) p) i
    \<or> leases_of (proxy_exec (TelegramUpdate js client d upd) p) \<noteq> leases_of p"
  shows "(approves p (proxy_exec (TelegramUpdate js client d upd) p) i \<longrightarrow> authorised p (TelegramUpdate js client d upd) i)
    \<and> (\<exists>j. authorised p (TelegramUpdate js client d upd) j)"
proof -
  let ?ev = "TelegramUpdate js client d upd"
  let ?st = "sv_store (px_server p)" and ?p' = "proxy_exec ?ev p" and ?d = "d\<lparr>de_ks := sv_keystore (px_server p)\<rparr>"
  obtain q where q: "px_poller p = Some q" using assms by (cases "px_poller p") (auto simp: approves_def leases_of_def)
  let ?q = "q\<lparr>po_store := ?st\<rparr>"
  have st': "sv_store (px_server ?p') = po_store (take_update js client ?d upd ?q)" using q by (simp add: Let_def)
  have conf: "chat_approval ?q upd j \<Longrightarrow> chat_approval q upd j" for j by (auto simp: chat_approval_def)
  have "\<not> harmless {} ?st (sv_store (px_server ?p'))"
    using assms harmless_no_approval [of "{}" p ?p'] by blast
  with take_update_effect [of ?q js client ?d upd] st' obtain txID t ap where
      m: "chat_approval ?q upd txID" "sv_store (px_server ?p') = Approve (de_lib ?d) (de_now ?d) (de_now' ?d) (de_ks ?d) txID t ap ?st"
    by auto
  have "i = txID" if "approves p ?p' i" using that m(2) Approve_effect unfolding approves_def by metis
  with by_chat [OF q conf [OF m(1)]] show ?thesis by blast
qed


lemma job_sources:
  assumes "proxy_inv p" and "approves p (proxy_exec (RunJob k re) p) i \<or> leases_of (proxy_exec (RunJob k re) p) \<noteq> leases_of p"
  shows "cfg_Env (sv_cfg (px_server p)) = ''dev''"
proof -
  have k: "k < length (px_jobs p)" using assms(2) by (auto simp: approves_def leases_of_def split: if_splits)
  have "\<exists>c. px_jobs p ! k = JobApprove c"
  proof (cases "px_jobs p ! k")
    case (JobNotify tx)
    with k assms(2) show ?thesis
      by (auto simp: notify_job_def Let_def approves_def leases_of_def logTelegramEvent_def emitSignLog_def split: option.splits prod.splits)
  next
    case (JobPush tx)
    with k assms(2) show ?thesis by (auto simp: approves_def leases_of_def)
  qed blast
  then show ?thesis using assms(1) k nth_mem unfolding proxy_inv_def by metis
qed

text \<open>
  (C1) Nobody is let in without an approval. In every state the proxy reaches, and whatever happens next: a
  transaction that exists becomes approved only by a press of its button in the configured chat by
  a user who may decide, by the signed request of an enrolled device over its own certificate, or,
  in the development environment, by the proxy itself; and the leases change only with such an
  event. No other request, control command, timeout or background job approves anything.
\<close>

theorem approval_sources:
  assumes "runServe os vl tlib env socketPath = Inr p0"
  shows "let p = fold proxy_exec evs p0; p' = proxy_exec ev p
    in (approves p p' i \<longrightarrow> authorised p ev i) \<and> (leases_of p' \<noteq> leases_of p \<longrightarrow> (\<exists>j. authorised p ev j))"
proof -
  define p where "p = fold proxy_exec evs p0"
  have inv: "proxy_inv p" unfolding p_def by (rule proxy_machine.run_inv [OF runServe_inv [OF assms]])
  have "(approves p (proxy_exec ev p) i \<longrightarrow> authorised p ev i) \<and> (\<exists>j. authorised p ev j)"
    if a: "approves p (proxy_exec ev p) i \<or> leases_of (proxy_exec ev p) \<noteq> leases_of p"
  proof (cases ev)
    case (ApiRequest c)
    with a api_sources [of p c i] show ?thesis by simp
  next
    case (ControlConn os env cred input)
    have "sv_store (px_server (proxy_exec ev p)) = sv_store (px_server p)" unfolding ControlConn by (simp add: ctl_frame)
    with a show ?thesis by (auto simp: approves_def leases_of_def)
  next
    case (TelegramUpdate js client d upd)
    with a telegram_sources [of p js client d upd i] show ?thesis by simp
  next
    case (TimerFires txID)
    with a expire_state [of txID "sv_store (px_server p)" i] show ?thesis by (auto simp: approves_def leases_of_def)
  next
    case (RunJob k re)
    with a job_sources [OF inv] have "authorised p ev j" for j unfolding RunJob by (blast intro: by_dev_mode)
    then show ?thesis by blast
  qed
  then show ?thesis unfolding Let_def p_def [symmetric] by blast
qed

section \<open>Who may collect\<close>

text \<open>The client for whom a transaction was made, by the fingerprint of its certificate. Outside the
  given names, which may be new, a transaction keeps its client for as long as it exists.\<close>

definition tx_owner :: "Store \<Rightarrow> string \<Rightarrow> string option" where
  "tx_owner st i = map_option (\<lambda>e. tx_ClientCertFP (te_tx e)) (map_of (st_txs st) i)"

definition owners_kept :: "string set \<Rightarrow> Store \<Rightarrow> Store \<Rightarrow> bool" where
  "owners_kept new st st' \<longleftrightarrow> (\<forall>i. i \<notin> new \<longrightarrow> tx_owner st' i \<in> {None, tx_owner st i})"

lemma owners_kept_refl [simp]: "owners_kept new st st"
  by (simp add: owners_kept_def)

lemma owners_kept_trans: "owners_kept new st st' \<Longrightarrow> owners_kept new st' st'' \<Longrightarrow> owners_kept new st st''"
  unfolding owners_kept_def by fastforce

lemma owners_keptI: "(\<And>i. i \<notin> new \<Longrightarrow> tx_owner st' i = tx_owner st i) \<Longrightarrow> owners_kept new st st'"
  by (simp add: owners_kept_def)

lemma finishLocked_owner:
  "map_of (st_txs s) txID = Some e \<Longrightarrow> tx_owner (finishLocked txID e state res s) i = tx_owner s i"
  by (auto simp: tx_owner_def finishLocked_def chan_send_def finish_entry_def split: option.split list.split)

lemma finish_owner:
  "tx_owner (finishPending txID state res s) i = tx_owner s i"
  "tx_owner (fst (finishClaimed txID state res s)) i = tx_owner s i"
  by (auto simp: finishPending_def finishClaimed_def finishLocked_owner split: option.split)

lemma claimApproval_owner: "claimApproval txID s = (s', tx) \<Longrightarrow> tx_owner s' i = tx_owner s i"
  by (auto simp: claimApproval_def tx_owner_def Let_def split: option.splits if_splits)

lemma Approve_owner: "tx_owner (Approve lib now now' ks txID ttl ap s) i = tx_owner s i"
proof -
  have f: "tx_owner s2 i = tx_owner s1 i" if "finishClaimed txID StateApproved r s1 = (s2, b)" for r s1 s2 b
    using finish_owner(2) [of txID StateApproved r s1 i] that by simp
  have l: "tx_owner (put_lease tx ap until st) i = tx_owner st i" for tx until st by (simp add: tx_owner_def)
  show ?thesis
    by (auto simp: Approve_def approveWithIssuer_def Let_def finish_owner f l dest: claimApproval_owner
      split: prod.split option.split sum.split bool.split)
qed

lemma decided_owners:
  "owners_kept new st (Deny txID st)" "owners_kept new st (expire txID st)"
  "owners_kept new st (Approve lib now now' ks txID ttl ap st)"
  by (simp_all add: owners_keptI Deny_def expire_def finish_owner Approve_owner)

lemma Create_owners:
  "owners_kept {newTxID ulid} st (fst (CreateBound ulid now a st))"
  "owners_kept {newTxID ulid} st (fst (CreateInstantApproved ulid now u ip pk src fp res st))"
  by (auto intro!: owners_keptI simp: CreateBound_def Let_def arm_timer_def create_locked_def CreateInstantApproved_def tx_owner_def split: if_splits)

lemma Wait_owners: "owners_kept new st (fst (Wait ctx txID st))"
  by (auto simp: owners_kept_def Wait_def waitResult_def chan_recv_def cancelWait_def remove_tx_def tx_owner_def Let_def
      split: option.split prod.split list.split waitSlot.split)

lemma handleSign_owners: "owners_kept {newTxID (ae_ulid env)} (sv_store s) (sv_store (fst (handleSign env r s)))"
proof (cases rule: handleSign_cases [of env r s])
  case (admitted req fp dst replay)
  obtain s' resp jobs where a: "sign_admitted env r req fp dst (s\<lparr>sv_replay := replay\<rparr>) = (s', resp, jobs)" by (metis prod_cases3)
  then have "owners_kept {newTxID (ae_ulid env)} (sv_store s) (sv_store s')"
  proof (cases rule: sign_admitted_cases)
    case (hit res tx)
    from Create_owners(2) have "owners_kept {newTxID (ae_ulid env)} (sv_store s) (fst (CreateInstantApproved (ae_ulid env) (ae_now env 7)
        (sr_TargetUser req) (sr_TargetIP req) (sr_PublicKey req) (clientIPFromRemoteAddr (rq_RemoteAddr r))
        (clientCertFPFromRequest r) res (sv_store s)))" .
    with hit(4) show ?thesis by simp
  next
    case (new tx calls jobs')
    from Create_owners(1) have "owners_kept {newTxID (ae_ulid env)} (sv_store s) (fst (CreateBound (ae_ulid env) (ae_now env 7) a (sv_store s)))" for a .
    from this [of "\<lparr>ta_targetUser = sr_TargetUser req, ta_targetIP = sr_TargetIP req, ta_publicKey = sr_PublicKey req,
          ta_sourceIP = clientIPFromRemoteAddr (rq_RemoteAddr r), ta_clientCertFP = clientCertFPFromRequest r,
          ta_agentSignData = sr_AgentSignData req, ta_hostKeyFP = fp,
          ta_destinationHostKeyFP = dn_hostKeyFP dst, ta_client = dn_meta dst\<rparr>"] new(1) show ?thesis by simp
  qed
  with a admitted(2) show ?thesis by simp
next
  case (rejected s' resp)
  then show ?thesis by (auto simp: only_log_and_cache_def)
qed

lemma serve_owners: "owners_kept {newTxID (ae_ulid env)} (sv_store s) (sv_store (fst (serve ctx route env r s)))"
proof (cases "sv_store (fst (serve ctx route env r s)) = sv_store s")
  case False
  note ss = serve_store [OF False]
  have w: "owners_kept new (sv_store s) (sv_store (fst (handleWait ctx env r s)))" for new
    using Wait_owners [of new "sv_store s" ctx "rq_PathValue r ''tx_id''"]
    by (auto simp: handleWait_def Let_def split: prod.splits sum.splits)
  have m: "owners_kept new (sv_store s) (sv_store (fst (handleMobileApprove env r s)))" for new
    using handleMobileApprove_effect [of env r s] by (auto simp: decided_owners)
  from ss w m handleSign_owners [of env s r] show ?thesis by (auto simp: withMTLS_fst)
qed simp

lemma take_update_owners: "owners_kept new (po_store q) (po_store (take_update js client d upd q))"
proof -
  have "owners_kept new (po_store q1) (po_store (handleUpdate js client d upd q1))" for q1
    using handleUpdate_effect [of js client d upd q1] by (auto simp: decided_owners)
  from this [of "if po_offset q \<le> tu_UpdateID upd then q\<lparr>po_offset := wrap64 (tu_UpdateID upd + 1)\<rparr> else q"]
  show ?thesis by (simp add: take_update_def split: if_splits)
qed

lemma run_job_owners: "owners_kept new (sv_store (px_server p)) (sv_store (px_server (run_job re j p)))"
  by (cases "(re, j, p)" rule: run_job.cases)
    (simp_all add: Let_def decided_owners notify_job_def logTelegramEvent_def emitSignLog_def split: option.split prod.split)

text \<open>The names an event may give to a new transaction.\<close>

fun new_names :: "event \<Rightarrow> string set" where
  "new_names (ApiRequest c) = {newTxID (ae_ulid (ac_env c))}"
| "new_names _ = {}"

lemma proxy_exec_owners: "owners_kept (new_names ev) (sv_store (px_server p)) (sv_store (px_server (proxy_exec ev p)))"
proof (cases ev)
  case (ApiRequest c)
  with serve_owners [of "ac_env c" "px_server p" "ac_ctx c" "ac_route c" "ac_request c"] show ?thesis
    by (auto split: prod.split)
next
  case (TelegramUpdate js client d upd)
  with take_update_owners [of "{}" "_\<lparr>po_store := sv_store (px_server p)\<rparr>"] show ?thesis
    by (auto simp: Let_def split: option.split)
next
  case (RunJob i re)
  then show ?thesis
    using run_job_owners [of "{}" "p\<lparr>px_jobs := take i (px_jobs p) @ drop (Suc i) (px_jobs p)\<rparr>"] by simp
qed (simp_all add: ctl_frame decided_owners)

lemma run_owner:
  assumes "tx_owner (sv_store (px_server p)) i \<in> {None, Some fp}" and "\<forall>ev \<in> set evs. i \<notin> new_names ev"
  shows "tx_owner (sv_store (px_server (fold proxy_exec evs p))) i \<in> {None, Some fp}"
  using assms
proof (induction evs arbitrary: p)
  case (Cons ev evs)
  then have "i \<notin> new_names ev" by simp
  with proxy_exec_owners [of ev p] Cons.prems(1)
  have "tx_owner (sv_store (px_server (proxy_exec ev p))) i \<in> {None, Some fp}" unfolding owners_kept_def by fastforce
  with Cons show ?case by simp
qed simp

lemma wait_needs_owner:
  assumes "tx_owner (sv_store s) (rq_PathValue w ''tx_id'') \<in> {None, Some fp}" and "fp \<noteq> []" and "clientCertFPFromRequest w \<noteq> fp"
  shows "\<exists>resp. serve ctx SshWait env w s = (s, resp, []) \<and> rp_status resp \<in> {401, 403, 404}"
proof (cases "tx_owner (sv_store s) (rq_PathValue w ''tx_id'')")
  case None
  then have "handleWait ctx env w s = (s, writeWaitError ErrTxNotFound, [])"
    by (simp add: tx_owner_def handleWait_def store_ClientCertFP_def Wait_def waitResult_def)
  moreover have "rp_status (writeWaitError ErrTxNotFound) = 404"
    by (simp add: writeWaitError_def)
  ultimately show ?thesis by (simp add: withMTLS_def split: option.split)
next
  case (Some fp')
  with assms obtain e where "map_of (st_txs (sv_store s)) (rq_PathValue w ''tx_id'') = Some e" "tx_ClientCertFP (te_tx e) = fp"
    by (auto simp: tx_owner_def)
  with handleWait_other_client [of s w e ctx env] assms(2,3) show ?thesis by (simp add: withMTLS_def split: option.split)
qed

text \<open>
  (C18) Only the client that asked can collect: after a post that was accepted, and after whatever
  happens then, approvals included, a wait for its transaction by a client without a certificate
  or with another certificate fingerprint is refused with 401 or 403, or with 404 once the
  transaction is gone, and leaves the server as it was. Identifiers are taken to be new: no later
  request brings the same one.
\<close>

theorem only_requester_collects:
  assumes "ac_route c = SshSign" and "fresh_names (ac_env c) (px_server p)"
    and "rp_status (fst (snd (api_serve c (px_server p)))) = 202"
    and "\<forall>ev \<in> set evs. newTxID (ae_ulid (ac_env c)) \<notin> new_names ev"
    and "rq_PathValue w ''tx_id'' = newTxID (ae_ulid (ac_env c))"
    and "clientCertFPFromRequest w \<noteq> clientCertFPFromRequest (ac_request c)"
  shows "let s = px_server (fold proxy_exec (ApiRequest c # evs) p)
    in \<exists>resp. serve ctx SshWait env w s = (s, resp, []) \<and> rp_status resp \<in> {401, 403, 404}"
proof -
  let ?i = "newTxID (ae_ulid (ac_env c))" and ?fp = "clientCertFPFromRequest (ac_request c)"
  obtain s' resp jobs where h: "api_serve c (px_server p) = (s', resp, jobs)" by (metis prod_cases3)
  with assms(1,3) have peer: "peer_cert (ac_request c) \<noteq> None"
    and sign: "handleSign (ac_env c) (ac_request c) (px_server p) = (s', resp, jobs)" "rp_status resp = 202"
    by (auto simp: api_serve_def withMTLS_def split: option.splits)
  have "sv_store (px_server (proxy_exec (ApiRequest c) p)) = sv_store s'" using h assms(2) by (simp add: api_serve_def)
  with posted_owner [OF sign] have "tx_owner (sv_store (px_server (proxy_exec (ApiRequest c) p))) ?i \<in> {None, Some ?fp}"
    by (auto simp: tx_owner_def)
  from run_owner [OF this assms(4)]
  have "tx_owner (sv_store (px_server (fold proxy_exec (ApiRequest c # evs) p))) (rq_PathValue w ''tx_id'') \<in> {None, Some ?fp}"
    unfolding assms(5) by simp
  from wait_needs_owner [OF this clientCertFP_nonempty [OF peer] assms(6)] show ?thesis unfolding Let_def .
qed

section \<open>Where keys and devices come from\<close>

lemma serve_power:
  assumes "s' = fst (serve ctx route env r s)" and "sv_keystore s' \<noteq> sv_keystore s \<or> sv_mobile s' \<noteq> sv_mobile s \<or> sv_cli s' \<noteq> sv_cli s"
  shows "\<exists>cert. peer_cert r = Some cert
    \<and> (adminClientAllowed (cfg_AdminClientOU (sv_cfg s)) cert \<and> sv_keystore s' = sv_keystore s
       \<or> route = CLIKeysLoad \<and> (\<exists>dev conn. cli_peer r s = Inr dev \<and> rq_conn r = Some conn
            \<and> VerifyBodyHMAC conn (rq_body r) (rq_header r ''X-Luna-Body-Mac'') = None))"
proof (cases "sv_keystore s' = sv_keystore s")
  case True
  with assms serve_registries [of r s ctx route env] show ?thesis by auto
next
  case False
  with assms(1) serve_keystore [of ctx route env r s] have k: "route = CLIKeysLoad"
    "sv_keystore (fst (handleCLIKeysLoad env r s)) \<noteq> sv_keystore s" by auto
  from handleCLIKeysLoad_keystore [OF k(2)] obtain dev conn parsed replay where
      d: "cli_peer r s = Inr dev" and c: "rq_conn r = Some conn" "parseCLIKeysLoadBody (ae_js env) (rq_body r) = Some parsed"
    and v: "ValidateCLIKeysLoad conn (rq_body r) (rq_header r ''X-Luna-Body-Mac'') (pl_Timestamp parsed) (ae_now env 0)
      (ae_now env 1) (sv_replay s) = (replay, None)" by blast
  from v have "VerifyBodyHMAC conn (rq_body r) (rq_header r ''X-Luna-Body-Mac'') = None"
    by (auto simp: ValidateCLIKeysLoad_def split: option.splits)
  with k(1) d c cli_peer_Inr [OF d] show ?thesis by blast
qed

lemma run_job_frame:
  "sv_keystore (px_server (run_job re j p)) = sv_keystore (px_server p) \<and> sv_mobile (px_server (run_job re j p)) = sv_mobile (px_server p)
   \<and> sv_cli (px_server (run_job re j p)) = sv_cli (px_server p)"
  by (cases "(re, j, p)" rule: run_job.cases)
    (simp_all add: Let_def notify_job_def logTelegramEvent_def emitSignLog_def split: option.split prod.split)

text \<open>
  (C3) Keys and devices are in the hands of those entitled to them. Whatever happens in whatever reachable
  state: when a signer that can be found changes, the event was a control connection by root, the
  proxy's user or a member of the configured group, or a request to load a key by an enrolled CLI
  device that authenticated its body; and when a device is enrolled or removed, it was such a control
  connection or a request by an administrator. Telegram, timeouts and background jobs change neither.
\<close>

theorem key_sources:
  assumes "runServe os vl tlib env socketPath = Inr p0" and "p = fold proxy_exec evs p0" and "s' = px_server (proxy_exec ev p)"
    and "sv_keystore s' \<noteq> sv_keystore (px_server p) \<or> sv_mobile s' \<noteq> sv_mobile (px_server p) \<or> sv_cli s' \<noteq> sv_cli (px_server p)"
  shows "(\<exists>ids e uid gid input. ev = ControlConn ids e (Inr (uid, gid)) input
            \<and> (uid = 0 \<or> uid = os_euid ids
               \<or> (\<exists>g. os_LookupGroup ids (snd (px_control p)) = Inr g \<and> scan_uint32 g = Some gid)))
    \<or> (\<exists>c cert. ev = ApiRequest c \<and> peer_cert (ac_request c) = Some cert
         \<and> (adminClientAllowed (cfg_AdminClientOU (sv_cfg (px_server p))) cert \<and> sv_keystore s' = sv_keystore (px_server p)
            \<or> ac_route c = CLIKeysLoad \<and> (\<exists>dev conn. cli_peer (ac_request c) (px_server p) = Inr dev \<and> rq_conn (ac_request c) = Some conn
                 \<and> VerifyBodyHMAC conn (rq_body (ac_request c)) (rq_header (ac_request c) ''X-Luna-Body-Mac'') = None)))"
proof (cases ev)
  case (ApiRequest c)
  have "s' = fst (serve (ac_ctx c) (ac_route c) (ac_env c) (ac_request c) (px_server p)) \<or> s' = px_server p"
    unfolding assms(3) ApiRequest by (simp split: prod.split)
  with assms(4) have s': "s' = fst (serve (ac_ctx c) (ac_route c) (ac_env c) (ac_request c) (px_server p))" by blast
  from serve_power [OF this assms(4)] ApiRequest show ?thesis by blast
next
  case (ControlConn ids e cred input)
  obtain s2 out where h: "serveConn ids e cred (snd (px_control p)) input (px_server p) = (s2, out)" by fastforce
  have "s' = s2 \<or> s' = px_server p" unfolding assms(3) ControlConn by (simp add: h)
  with assms(4) have "s2 \<noteq> px_server p" by blast
  from serveConn_peer [OF h] this ControlConn show ?thesis by blast
next
  case (RunJob i re)
  with assms(3,4) run_job_frame [of re "px_jobs p ! i" "p\<lparr>px_jobs := take i (px_jobs p) @ drop (Suc i) (px_jobs p)\<rparr>"]
  show ?thesis by (auto split: if_splits)
qed (use assms(3,4) in \<open>auto simp: Let_def split: option.splits\<close>)


section \<open>A configuration that locks its clients out\<close>

lemma run_job_cfg: "sv_cfg (px_server (run_job re j p)) = sv_cfg (px_server p)"
  by (cases "(re, j, p)" rule: run_job.cases)
    (simp_all add: Let_def notify_job_def logTelegramEvent_def emitSignLog_def split: option.split prod.split)

lemma proxy_exec_cfg: "sv_cfg (px_server (proxy_exec ev p)) = sv_cfg (px_server p)"
proof (cases ev)
  case (ApiRequest c)
  obtain s' resp jobs where h: "serve (ac_ctx c) (ac_route c) (ac_env c) (ac_request c) (px_server p) = (s', resp, jobs)"
    by (metis prod_cases3)
  with serve_cfg [of "ac_ctx c" "ac_route c" "ac_env c" "ac_request c" "px_server p"] have "sv_cfg s' = sv_cfg (px_server p)" by simp
  with ApiRequest h show ?thesis by simp
qed (simp_all add: ctl_frame run_job_cfg Let_def split: option.split)

lemma run_cfg: "sv_cfg (px_server (fold proxy_exec evs p)) = sv_cfg (px_server p)"
  by (induction evs arbitrary: p) (simp_all add: proxy_exec_cfg)

text \<open>
  A blank CLI unit locks every CLI client out: with \<open>cli_client_ou\<close> set to blanks the proxy starts, and
  its signer, which falls back to \<open>luna-cli\<close>, goes on enrolling clients; but the check at the
  key-loading route has no such fallback, so that in every state the proxy reaches every client is
  refused there with an error, whatever certificate it presents.
\<close>

theorem blank_cli_unit:
  assumes "runServe os vl tlib env socketPath = Inr p0" and "cfg_CliClientOU (sv_cfg (px_server p0)) = []"
  shows "(\<forall>signer. sv_csrSigner (px_server p0) = Some signer \<longrightarrow> cx_requiredOU signer = ''luna-cli'')
    \<and> (\<forall>r. \<exists>err. cli_peer r (px_server (fold proxy_exec evs p0)) = Inl err)"
proof
  from assms(1) obtain cfg csr where s: "px_server p0 = api_NewServer env (serve_deps cfg csr)"
      and c: "NewCSRSignerFromConfig (ae_x5 env) (ae_ReadFile env) cfg = Inr csr" by (cases rule: runServe_server)
  have blank: "TrimSpace [] = []" by code_simp
  have "cfg_CliClientOU cfg = []" using assms(2) unfolding s by (simp add: api_NewServer_def serve_deps_def)
  then have "cx_requiredOU signer = ''luna-cli''" if "csr = Some signer" for signer
    using c that blank by (auto simp: NewCSRSignerFromConfig_def Let_def NewCSRSigner_def split: if_splits sum.splits)
  moreover have "sv_csrSigner (px_server p0) = csr"
    unfolding s using c by (simp add: api_NewServer_def serve_deps_def csr_signer_or_config_def split: option.split)
  ultimately show "\<forall>signer. sv_csrSigner (px_server p0) = Some signer \<longrightarrow> cx_requiredOU signer = ''luna-cli''" by blast
  have "\<exists>err. cli_peer r (px_server (fold proxy_exec evs p0)) = Inl err" for r
  proof (cases "cli_peer r (px_server (fold proxy_exec evs p0))")
    case (Inr dev)
    from cli_peer_Inr [OF this] show ?thesis unfolding run_cfg assms(2) by (auto simp: cliClientAllowed_def)
  qed simp
  then show "\<forall>r. \<exists>err. cli_peer r (px_server (fold proxy_exec evs p0)) = Inl err" by blast
qed

section \<open>A proxy that has started\<close>

definition demo_tls :: tls_lib where
  "demo_tls = \<lparr>tlb_AppendCertsFromPEM = \<lambda>b. b \<noteq> [], tlb_LoadX509KeyPair = \<lambda>_ _. None\<rparr>"

definition demo_serve_env :: api_env where
  "demo_serve_env = (demo_env [])\<lparr>ae_ReadFile := \<lambda>p.
     Inr ((if p = ProductionCertPath ''ca.key'' then ''PRIVATE KEY'' else ''CERTIFICATE'') @ [CHR 0x0A] @ ''x'')\<rparr>"

lemma demo_ca_loads: "\<exists>c. loadCAFromFiles demo_x5 (ae_ReadFile demo_serve_env) ''/etc/luna/certs/ca.crt'' ''/etc/luna/certs/ca.key'' = Inr c"
proof -
  have "ProductionCertPath ''ca.key'' = ''/etc/luna/certs/ca.key''" by code_simp
  then show ?thesis by (simp add: loadCAFromFiles_def demo_serve_env_def demo_x5_def parse_ca_key_def)
qed

lemma demo_csr_loads:
  assumes "cfg_MTLSCACertPath cfg = ''/etc/luna/certs/ca.crt''" "cfg_MTLSCAKeyPath cfg = ''/etc/luna/certs/ca.key''"
  shows "\<exists>c. NewCSRSignerFromConfig (ae_x5 demo_serve_env) (ae_ReadFile demo_serve_env) cfg = Inr c"
proof -
  have t: "TrimSpace ''/etc/luna/certs/ca.crt'' = ''/etc/luna/certs/ca.crt''" "TrimSpace ''/etc/luna/certs/ca.key'' = ''/etc/luna/certs/ca.key''"
    by code_simp+
  have "ae_x5 demo_serve_env = demo_x5" by (simp add: demo_serve_env_def demo_env_def)
  then show ?thesis using demo_ca_loads
    by (auto simp: NewCSRSignerFromConfig_def assms t Let_def split: prod.splits)
qed

lemma demo_tls_loads: "\<exists>t. LoadTLSConfig demo_tls (ae_ReadFile demo_serve_env) a b c = Inr t"
  by (simp add: LoadTLSConfig_def demo_tls_def demo_serve_env_def)

lemma demo_serves:
  "\<exists>p. runServe demo_os (demo_viper unit) demo_tls demo_serve_env [] = Inr p \<and> cfg_CliClientOU (sv_cfg (px_server p)) = TrimSpace unit"
proof -
  obtain cfg where c: "config_Load demo_os (demo_viper unit) = Inr cfg" "cfg_MTLSCACertPath cfg = ''/etc/luna/certs/ca.crt''"
      "cfg_MTLSCAKeyPath cfg = ''/etc/luna/certs/ca.key''" "cfg_CliClientOU cfg = TrimSpace unit" using demo_config by blast
  obtain s where "NewCSRSignerFromConfig (ae_x5 demo_serve_env) (ae_ReadFile demo_serve_env) cfg = Inr s"
    using demo_csr_loads [OF c(2,3)] by blast
  with c(1,4) demo_tls_loads [of "cfg_MTLSServerCert cfg" "cfg_MTLSServerKey cfg" "cfg_MTLSClientCA cfg"] show ?thesis
    by (auto simp: runServe_def Let_def api_NewServer_def serve_deps_def)
qed

theorem proxy_reachable_inv_witness:
  "\<exists>p. runServe demo_os (demo_viper ''luna-cli'') demo_tls demo_serve_env [] = Inr p
     \<and> server_inv (px_server (fold proxy_exec [TimerFires ''tx_1''] p))"
  using demo_serves proxy_reachable_inv [of demo_os "demo_viper ''luna-cli''" demo_tls demo_serve_env "[]" _ "[TimerFires ''tx_1'']"] by blast

theorem approval_sources_witness:
  "\<exists>p0. runServe demo_os (demo_viper ''luna-cli'') demo_tls demo_serve_env [] = Inr p0
     \<and> (\<forall>i. approves p0 (proxy_exec (TimerFires i) p0) i \<longrightarrow> authorised p0 (TimerFires i) i)"
proof -
  obtain p0 where r: "runServe demo_os (demo_viper ''luna-cli'') demo_tls demo_serve_env [] = Inr p0" using demo_serves by blast
  have "approves p0 (proxy_exec (TimerFires i) p0) i \<longrightarrow> authorised p0 (TimerFires i) i" for i
    using approval_sources [OF r, of "[]" "TimerFires i" i] by (simp add: Let_def)
  with r show ?thesis by blast
qed

text \<open>The transaction is approved in between, by a job of the proxy itself.\<close>

theorem only_requester_collects_witness:
  "\<forall>re env ctx. \<exists>p w. rq_TLS w = None
     \<and> (let s = px_server (fold proxy_exec [ApiRequest \<lparr>ac_route = SshSign, ac_env = demo_env [], ac_request = demo_post, ac_ctx = ErrContextCanceled\<rparr>,
              RunJob 0 re] p)
        in \<exists>resp. serve ctx SshWait env w s = (s, resp, []) \<and> rp_status resp \<in> {401, 403, 404})"
proof (intro allI)
  fix re env ctx
  let ?c = "\<lparr>ac_route = SshSign, ac_env = demo_env [], ac_request = demo_post, ac_ctx = ErrContextCanceled\<rparr>"
  let ?w = "demo_post\<lparr>rq_TLS := None\<rparr>"
  obtain p0 where "runServe demo_os (demo_viper ''luna-cli'') demo_tls demo_serve_env [] = Inr p0" using demo_serves by blast
  define p where "p = p0\<lparr>px_server := demo_server SignerModeLocalCA demo_ca, px_jobs := [JobApprove (''tx_1'', minute, ''dev'')]\<rparr>"
  obtain s' jobs where h: "handleSign (demo_env []) demo_post (demo_server SignerModeLocalCA demo_ca) = (s', tx_response ''tx_1'', jobs)"
    using demo_posted by blast
  have peer: "peer_cert demo_post \<noteq> None" by (simp add: demo_post_def peer_cert_def)
  have "fresh_names (demo_env []) (demo_server SignerModeLocalCA demo_ca)"
    by (simp add: fresh_names_def fresh_ids_def demo_server_def NewPendingStore_def cli_NewStore_def approval_NewStore_def
      SetConfig_def SetKeySigner_def SetLeases_def SetIssuer_def Let_def)
  moreover have "rp_status (fst (snd (api_serve ?c (px_server p)))) = 202"
    using h peer by (auto simp: api_serve_def p_def withMTLS_def)
  moreover have "rq_PathValue ?w ''tx_id'' = newTxID (ae_ulid (demo_env []))"
    by (simp add: demo_post_def demo_env_def newTxID_def)
  moreover have "clientCertFPFromRequest ?w \<noteq> clientCertFPFromRequest demo_post"
    using clientCertFP_nonempty [OF peer] by (simp add: clientCertFPFromRequest_def peer_cert_def clientCertFingerprint_def)
  ultimately have "let s = px_server (fold proxy_exec [ApiRequest ?c, RunJob 0 re] p)
      in \<exists>resp. serve ctx SshWait env ?w s = (s, resp, []) \<and> rp_status resp \<in> {401, 403, 404}"
    by (intro only_requester_collects) (simp_all add: p_def)
  then show "\<exists>p w. rq_TLS w = None \<and> (let s = px_server (fold proxy_exec [ApiRequest ?c, RunJob 0 re] p)
        in \<exists>resp. serve ctx SshWait env w s = (s, resp, []) \<and> rp_status resp \<in> {401, 403, 404})"
    by (intro exI [of _ p] exI [of _ ?w]) simp
qed

theorem blank_cli_unit_witness:
  "\<exists>p0. runServe demo_os (demo_viper '' '') demo_tls demo_serve_env [] = Inr p0
     \<and> (\<forall>r. \<exists>err. cli_peer r (px_server (fold proxy_exec [TimerFires ''tx_1''] p0)) = Inl err)"
proof -
  have "TrimSpace '' '' = []" by code_simp
  with demo_serves [of "'' ''"] obtain p0 where r: "runServe demo_os (demo_viper '' '') demo_tls demo_serve_env [] = Inr p0"
    "cfg_CliClientOU (sv_cfg (px_server p0)) = []" by auto
  from blank_cli_unit [OF r] r(1) show ?thesis by blast
qed

definition demo_load_env :: api_env where
  "demo_load_env = demo_serve_env\<lparr>ae_js := \<lparr>js_parse = \<lambda>_. Some (JObject [(''op'', JString ''key.load''),
     (''data'', JObject [(''path'', JString ''/key''), (''passphrase'', JString ''typo'')])]), js_print = \<lambda>_. []\<rparr>\<rparr>"

lemma demo_load_decodes:
  "Unmarshal (ae_js demo_load_env) request_fields input \<lparr>rq_Op = [], rq_ID = [], rq_Data = None\<rparr> =
     Some \<lparr>rq_Op = ''key.load'', rq_ID = [], rq_Data = Some (JObject [(''path'', JString ''/key''), (''passphrase'', JString ''typo'')])\<rparr>"
  "decode_data keyLoad_fields (Some (JObject [(''path'', JString ''/key''), (''passphrase'', JString ''typo'')]))
     \<lparr>kl_Path = [], kl_Passphrase = [], kl_Comment = []\<rparr> = Some \<lparr>kl_Path = ''/key'', kl_Passphrase = ''typo'', kl_Comment = []\<rparr>"
proof -
  have keys: "fold_key ''op'' = ''OP''" "fold_key ''id'' = ''ID''" "fold_key ''data'' = ''DATA''"
    "fold_key ''path'' = ''PATH''" "fold_key ''passphrase'' = ''PASSPHRASE''" "fold_key ''comment'' = ''COMMENT''" by code_simp+
  show "Unmarshal (ae_js demo_load_env) request_fields input \<lparr>rq_Op = [], rq_ID = [], rq_Data = None\<rparr> =
     Some \<lparr>rq_Op = ''key.load'', rq_ID = [], rq_Data = Some (JObject [(''path'', JString ''/key''), (''passphrase'', JString ''typo'')])\<rparr>"
    by (simp add: Unmarshal_def demo_load_env_def decode_struct_def request_fields_def json_field_defs keys)
  show "decode_data keyLoad_fields (Some (JObject [(''path'', JString ''/key''), (''passphrase'', JString ''typo'')]))
     \<lparr>kl_Path = [], kl_Passphrase = [], kl_Comment = []\<rparr> = Some \<lparr>kl_Path = ''/key'', kl_Passphrase = ''typo'', kl_Comment = []\<rparr>"
    by (simp add: decode_data_def decode_struct_def keyLoad_fields_def json_field_defs keys)
qed

lemma demo_load_counts:
  assumes "sv_keystore s = NewWithMode m"
  shows "sv_keystore (fst (serveConn ids demo_load_env (Inr (0, 0)) g ''{}'' s)) \<noteq> sv_keystore s"
proof -
  have p: "peerAllowed ids (Inr (0, 0)) g = None" by (simp add: peerAllowed_def credAllowed_def)
  have l: "scan_line ''{}'' = Some ''{}''" by (simp add: scan_line_def)
  have e: "ae_lib demo_load_env = demo_ssh" "ae_mlock demo_load_env = mlock_ok"
    by (simp_all add: demo_load_env_def demo_serve_env_def demo_env_def)
  obtain pem where rf: "ae_ReadFile demo_load_env ''/key'' = Inr pem" by (simp add: demo_load_env_def demo_serve_env_def)
  have w: "wrong_key demo_ssh pem ''typo''" by (simp add: wrong_key_def demo_ssh_def)
  have lock: "checkUnsealLock t (NewWithMode m) = (NewWithMode m, None)" for t
    by (simp add: checkUnsealLock_def NewWithMode_def time_IsZero_def)
  have "recordUnsealFailure t (NewWithMode m) \<noteq> NewWithMode m" for t
    by (simp add: recordUnsealFailure_def Let_def NewWithMode_def maxUnsealAttempts_def wrap64_id int64_def)
  moreover have "\<exists>t resp. handleKeyLoad demo_load_env \<lparr>rq_Op = ''key.load'', rq_ID = [], rq_Data =
      Some (JObject [(''path'', JString ''/key''), (''passphrase'', JString ''typo'')])\<rparr> s = (s\<lparr>sv_keystore := recordUnsealFailure t (NewWithMode m)\<rparr>, resp)"
    using wrong_key_load [OF w] by (simp add: handleKeyLoad_def demo_load_decodes LoadPEMFile_def e(1,2) rf assms lock) blast
  ultimately show ?thesis
    by (auto simp: serveConn_def p l demo_load_decodes ctl_handle_def Let_def assms)
qed

theorem key_sources_witness:
  "\<exists>p0 s'. runServe demo_os (demo_viper ''luna-cli'') demo_tls demo_serve_env [] = Inr p0
     \<and> s' = px_server (proxy_exec (ControlConn \<lparr>os_euid = 900, os_LookupGroup = \<lambda>_. Inr ''1001''\<rparr> demo_load_env (Inr (0, 0)) ''{}'') p0)
     \<and> sv_keystore s' \<noteq> sv_keystore (px_server p0)
     \<and> (\<exists>ids e uid gid input. ControlConn \<lparr>os_euid = 900, os_LookupGroup = \<lambda>_. Inr ''1001''\<rparr> demo_load_env (Inr (0, 0)) ''{}''
            = ControlConn ids e (Inr (uid, gid)) input \<and> (uid = 0 \<or> uid = os_euid ids \<or> (\<exists>g. os_LookupGroup ids (snd (px_control p0)) = Inr g)))"
proof -
  let ?ids = "\<lparr>os_euid = 900, os_LookupGroup = \<lambda>_. Inr ''1001''\<rparr> :: os_ids"
  let ?ev = "ControlConn ?ids demo_load_env (Inr (0, 0)) ''{}''"
  obtain p0 where r: "runServe demo_os (demo_viper ''luna-cli'') demo_tls demo_serve_env [] = Inr p0" using demo_serves by blast
  from r obtain cfg csr where s: "px_server p0 = api_NewServer demo_serve_env (serve_deps cfg csr)" by (cases rule: runServe_server)
  have k: "sv_keystore (px_server p0) = NewWithMode (serve_mode cfg)" unfolding s by (simp add: api_NewServer_def serve_deps_def)
  have f: "fresh_names demo_load_env (px_server p0)"
    unfolding s by (simp add: fresh_names_def fresh_ids_def api_NewServer_def serve_deps_def or_new_def NewPendingStore_def cli_NewStore_def
        serve_store_def SetLeases_def SetKeySigner_def SetIssuer_def SetConfig_def approval_NewStore_def Let_def)
  let ?s' = "px_server (proxy_exec ?ev p0)"
  have ne: "sv_keystore ?s' \<noteq> sv_keystore (px_server p0)" using demo_load_counts [OF k] f by simp
  from key_sources [OF r, of p0 "[]" ?s' ?ev] ne show ?thesis using r by auto
qed

end
