(* ===== verification/Sdk.thy ===== *)
theory Sdk
  imports Sign_Api Go_Path
begin

text \<open>
  The client library (\<open>sdk/\<close> and \<open>sdk/sign/\<close>): building a signing request, proving possession of
  the ephemeral key, posting the request over a connection of its own with a MAC bound to that
  connection, and waiting for the answer.

  The record \<open>sdk_lib\<close> holds what comes from outside (key generation and signing, the SSH and
  JSON libraries, \<open>url.Parse\<close>, the clock), the record \<open>network\<close> what the other side does: its
  answers depend on everything that has been sent before. An operation returns the longer list
  of \<open>net_event\<close>s, what it has put on the network, together with its result. The end of a
  \<open>context\<close> is one of the errors the network may return.
\<close>

section \<open>Data\<close>

record ClientInfo =
  ci_SourceUser :: string
  ci_ClientName :: string
  ci_ClientVersion :: string

record CertRequest =
  cq_TargetUser :: string
  cq_TargetIP :: string
  cq_Client :: ClientInfo

record sdk_SessionBinding =
  bd_HostPublicKey :: bytes
  bd_SessionID :: bytes
  bd_Signature :: bytes
  bd_Forwarding :: bool

record SignatureRequest =
  sq_TargetUser :: string
  sq_TargetIP :: string
  sq_HostKeyFingerprint :: string
  sq_SessionBinding :: sdk_SessionBinding
  sq_DestinationHostPublicKey :: bytes
  sq_SignatureFormat :: string
  sq_Client :: ClientInfo

record sign_Request =
  rt_PublicKey :: string
  rt_TargetUser :: string
  rt_TargetIP :: string
  rt_Timestamp :: int
  rt_PopSignature :: string
  rt_SourceUser :: string
  rt_ClientName :: string
  rt_ClientVersion :: string
  rt_AgentSignData :: string
  rt_HostKeyFingerprint :: string
  rt_SessionBinding :: sdk_SessionBinding
  rt_DestinationHostPublicKey :: bytes

record WaitResponse =
  wr_SSHCertificate :: string
  wr_SSHSignature :: string
  wr_ExpiresAt :: string
  wr_LeaseExpiresAt :: string

record LoadedSigner =
  ls_Fingerprint :: string
  ls_PublicKey :: string
  ls_Comment :: string

record Capabilities =
  cap_SignerMode :: string
  cap_LeaseSupported :: bool
  cap_AllowedTTLSeconds :: "int list"
  cap_Sealed :: bool
  cap_LoadedSigners :: "LoadedSigner list"

definition zero_binding :: sdk_SessionBinding where
  "zero_binding = \<lparr>bd_HostPublicKey = [], bd_SessionID = [], bd_Signature = [], bd_Forwarding = False\<rparr>"

section \<open>JSON of the requests and responses\<close>

text \<open>A byte slice is printed as base64 text. \<open>omitempty\<close> has no effect on a struct, so that
  \<open>session_binding\<close> is always there.\<close>

definition bytes_json :: "bytes \<Rightarrow> json" where
  "bytes_json b = (if b = [] then JNull else JString (StdEncoding_EncodeToString b))"

definition sessionBindingRequest_json :: "sdk_SessionBinding \<Rightarrow> json" where
  "sessionBindingRequest_json b = JObject
     [(''host_public_key'', bytes_json (bd_HostPublicKey b)), (''session_id'', bytes_json (bd_SessionID b)),
      (''signature'', bytes_json (bd_Signature b)), (''forwarding'', JBool (bd_Forwarding b))]"

definition Request_json :: "sign_Request \<Rightarrow> json" where
  "Request_json q = JObject
     ([(''public_key'', JString (rt_PublicKey q)), (''target_user'', JString (rt_TargetUser q)),
       (''target_ip'', JString (rt_TargetIP q)), (''timestamp'', JInt (rt_Timestamp q)),
       (''pop_signature'', JString (rt_PopSignature q))] @
      omit_string ''source_user'' (rt_SourceUser q) @ omit_string ''client_name'' (rt_ClientName q) @
      omit_string ''client_version'' (rt_ClientVersion q) @ omit_string ''agent_sign_data'' (rt_AgentSignData q) @
      omit_string ''host_key_fingerprint'' (rt_HostKeyFingerprint q) @
      [(''session_binding'', sessionBindingRequest_json (rt_SessionBinding q))] @
      (if rt_DestinationHostPublicKey q = [] then []
       else [(''destination_host_public_key'', bytes_json (rt_DestinationHostPublicKey q))]))"

definition Response_fields :: "string json_field list" where
  "Response_fields = [string_field ''tx_id'' (\<lambda>v _. v)]"

definition WaitResponse_fields :: "WaitResponse json_field list" where
  "WaitResponse_fields =
     [string_field ''ssh_certificate'' (\<lambda>v w. w\<lparr>wr_SSHCertificate := v\<rparr>),
      string_field ''ssh_signature'' (\<lambda>v w. w\<lparr>wr_SSHSignature := v\<rparr>),
      string_field ''expires_at'' (\<lambda>v w. w\<lparr>wr_ExpiresAt := v\<rparr>),
      string_field ''lease_expires_at'' (\<lambda>v w. w\<lparr>wr_LeaseExpiresAt := v\<rparr>)]"

definition zero_WaitResponse :: WaitResponse where
  "zero_WaitResponse = \<lparr>wr_SSHCertificate = [], wr_SSHSignature = [], wr_ExpiresAt = [], wr_LeaseExpiresAt = []\<rparr>"

definition LoadedSigner_fields :: "LoadedSigner json_field list" where
  "LoadedSigner_fields =
     [string_field ''fingerprint'' (\<lambda>v l. l\<lparr>ls_Fingerprint := v\<rparr>),
      string_field ''public_key'' (\<lambda>v l. l\<lparr>ls_PublicKey := v\<rparr>),
      string_field ''comment'' (\<lambda>v l. l\<lparr>ls_Comment := v\<rparr>)]"

definition LoadedSigner_elem :: "json \<Rightarrow> LoadedSigner option" where
  "LoadedSigner_elem j = decode_struct LoadedSigner_fields j \<lparr>ls_Fingerprint = [], ls_PublicKey = [], ls_Comment = []\<rparr>"

definition Capabilities_fields :: "Capabilities json_field list" where
  "Capabilities_fields =
     [string_field ''signer_mode'' (\<lambda>v c. c\<lparr>cap_SignerMode := v\<rparr>),
      bool_field ''lease_supported'' (\<lambda>v c. c\<lparr>cap_LeaseSupported := v\<rparr>),
      slice_field ''allowed_ttl_seconds'' int_elem (\<lambda>v c. c\<lparr>cap_AllowedTTLSeconds := v\<rparr>),
      bool_field ''sealed'' (\<lambda>v c. c\<lparr>cap_Sealed := v\<rparr>),
      slice_field ''loaded_signers'' LoadedSigner_elem (\<lambda>v c. c\<lparr>cap_LoadedSigners := v\<rparr>)]"

definition zero_Capabilities :: Capabilities where
  "zero_Capabilities = \<lparr>cap_SignerMode = [], cap_LeaseSupported = False, cap_AllowedTTLSeconds = [], cap_Sealed = False,
     cap_LoadedSigners = []\<rparr>"

section \<open>What comes from outside\<close>

record URL =
  url_Scheme :: string
  url_Host :: string

text \<open>\<open>sx_Decode\<close> is \<open>json.NewDecoder(r).Decode\<close>, the first value in a stream; \<open>sx_AsCertificate\<close> is the
  assertion that a public key is a certificate; \<open>sx_valid_url\<close> says that
  \<open>http.NewRequestWithContext\<close> accepts an address.\<close>

record sdk_lib =
  sx_ssh :: ssh_lib
  sx_GenerateKey :: "(bytes \<times> bytes) result"
  sx_NewPublicKey :: "bytes \<Rightarrow> PublicKey result"
  sx_ed25519_Sign :: "bytes \<Rightarrow> bytes \<Rightarrow> bytes"
  sx_AsCertificate :: "PublicKey \<Rightarrow> Certificate option"
  sx_NewCertSigner :: "Certificate \<Rightarrow> Signer \<Rightarrow> Signer result"
  sx_js :: json_lib
  sx_Decode :: "bytes \<Rightarrow> json option"
  sx_url_Parse :: "string \<Rightarrow> URL result"
  sx_valid_url :: "string \<Rightarrow> bool"
  sx_now :: gotime

record ('c, 'p) client_tls =
  ctl_Certificate :: 'c
  ctl_RootCAs :: 'p
  ctl_ServerName :: string
  ctl_MinVersion :: nat

datatype net_event =
    Dialed string
  | Wrote tls_conn out_request
  | Did out_request
  | ClosedIdle

text \<open>Opening a TCP connection, the handshake over it, a request written to it, and a request of
  the pooled HTTP client.\<close>

record ('c, 'p) network =
  nw_DialContext :: "net_event list \<Rightarrow> string \<Rightarrow> go_error option"
  nw_Handshake :: "net_event list \<Rightarrow> ('c, 'p) client_tls \<Rightarrow> tls_conn result"
  nw_RoundTrip :: "net_event list \<Rightarrow> tls_conn \<Rightarrow> out_request \<Rightarrow> in_response result"
  nw_Do :: "net_event list \<Rightarrow> duration \<Rightarrow> out_request \<Rightarrow> in_response result"

type_synonym 'a traced = "net_event list \<times> 'a result"

section \<open>The client\<close>

record ('c, 'p) sign_Config =
  sf_ProxyURL :: string
  sf_TLSCert :: 'c
  sf_TLSRootCAs :: 'p
  sf_Timeout :: duration

record ('c, 'p) sign_Client =
  sc_timeout :: duration
  sc_proxyURL :: string
  sc_tlsCfg :: "('c, 'p) client_tls"
  sc_addr :: string

definition defaultTimeout :: duration where
  "defaultTimeout = 90 * second"

definition tls_VersionTLS12 :: nat where
  "tls_VersionTLS12 = 0x0303"

text \<open>\<open>URL.Hostname\<close>: the host without its port and without the brackets of an IPv6 address.\<close>

definition validOptionalPort :: "string \<Rightarrow> bool" where
  "validOptionalPort port =
     (case port of [] \<Rightarrow> True | c # ds \<Rightarrow> c = CHR '':'' \<and> list_all is_digit ds)"

definition URL_Hostname :: "URL \<Rightarrow> string" where
  "URL_Hostname u =
     (let hp = url_Host u;
          host = (case last_index CHR '':'' hp of
                    None \<Rightarrow> hp
                  | Some colon \<Rightarrow> if validOptionalPort (drop colon hp) then take colon hp else hp)
      in if HasPrefix host ''['' \<and> host \<noteq> [] \<and> last host = CHR '']'' then butlast (drop 1 host) else host)"

definition JoinHostPort :: "string \<Rightarrow> string \<Rightarrow> string" where
  "JoinHostPort host port =
     (if CHR '':'' \<in> set host then ''['' @ host @ '']:'' @ port else host @ '':'' @ port)"

definition NewClient :: "sdk_lib \<Rightarrow> ('c, 'p) sign_Config \<Rightarrow> ('c, 'p) sign_Client result" where
  "NewClient sx cfg =
     (if sf_ProxyURL cfg = [] then Inl (Errorf ''ProxyURL is required'')
      else case sx_url_Parse sx (sf_ProxyURL cfg) of
             Inl err \<Rightarrow> Inl (Wrapf ''parse ProxyURL: '' err '''')
           | Inr u \<Rightarrow>
      if url_Scheme u \<noteq> ''https'' then Inl (Errorf ''ProxyURL must use https'')
      else (let timeout = (if sf_Timeout cfg = 0 then defaultTimeout else sf_Timeout cfg);
                name = URL_Hostname u;
                serverName = (if name = [] \<or> name = ''127.0.0.1'' \<or> name = ''::1'' then ''localhost'' else name);
                host = (if strings_Contains (url_Host u) '':'' then url_Host u else JoinHostPort (url_Host u) ''443'')
            in Inr \<lparr>sc_timeout = timeout, sc_proxyURL = TrimRight (sf_ProxyURL cfg) ''/'',
                    sc_tlsCfg = \<lparr>ctl_Certificate = sf_TLSCert cfg, ctl_RootCAs = sf_TLSRootCAs cfg,
                                 ctl_ServerName = serverName, ctl_MinVersion = tls_VersionTLS12\<rparr>,
                    sc_addr = host\<rparr>))"

section \<open>Proof of possession and body MAC\<close>

definition signPoP :: "sdk_lib \<Rightarrow> PublicKey \<Rightarrow> bytes \<Rightarrow> string \<Rightarrow> string \<Rightarrow> int \<Rightarrow> string result" where
  "signPoP sx pub priv user ip ts =
     (let msg = ((((([] @ user) @ '':'') @ ip) @ '':'') @ FormatInt ts);
          sig = sx_ed25519_Sign sx priv msg;
          sshSig = \<lparr>sig_Format = pk_Type pub, sig_Blob = sig\<rparr>
      in Inr (hex_EncodeToString (sig_Blob sshSig)))"

definition challenge :: "string \<Rightarrow> string \<Rightarrow> int \<Rightarrow> bytes" where
  "challenge user ip ts = (((([] @ user) @ '':'') @ ip) @ '':'') @ FormatInt ts"

definition sdk_SignPoP :: "sdk_lib \<Rightarrow> PublicKey \<Rightarrow> bytes \<Rightarrow> string \<Rightarrow> string \<Rightarrow> int \<Rightarrow> string result" where
  "sdk_SignPoP sx pub priv user ip ts =
     (let sig = sx_ed25519_Sign sx priv (challenge user ip ts);
          sshSig = \<lparr>sig_Format = pk_Type pub, sig_Blob = sig\<rparr>
      in Inr (hex_EncodeToString (sig_Blob sshSig)))"

definition sdk_VerifyPoP :: "ssh_lib \<Rightarrow> PublicKey \<Rightarrow> string \<Rightarrow> string \<Rightarrow> int \<Rightarrow> string \<Rightarrow> go_error option" where
  "sdk_VerifyPoP lib pub user ip ts sigHex =
     (case hex_DecodeString sigHex of
        None \<Rightarrow> Some (Errorf ''encoding/hex: invalid input'')
      | Some blob \<Rightarrow> ssh_Verify lib pub (challenge user ip ts) \<lparr>sig_Format = pk_Type pub, sig_Blob = blob\<rparr>)"

definition sdk_exporterLabel :: string where
  "sdk_exporterLabel = ''luna-request-hmac''"

definition sdk_ComputeBodyHMAC :: "tls_conn \<Rightarrow> bytes \<Rightarrow> bytes result" where
  "sdk_ComputeBodyHMAC conn body =
     (case tc_ExportKeyingMaterial conn sdk_exporterLabel 32 of
        Inl err \<Rightarrow> Inl err
      | Inr key \<Rightarrow> Inr (hmac_Sum key body))"

definition FormatMACHeader :: "bytes \<Rightarrow> string" where
  "FormatMACHeader mac = hex_EncodeToString mac"

section \<open>Errors worth a second attempt\<close>

text \<open>
  \<open>strings.ToLower\<close> as far as a search for ASCII text can tell: ASCII letters, and the two other
  characters whose lower case is an ASCII letter (the Kelvin sign and the dotted capital I).
\<close>

fun ToLower_ascii :: "string \<Rightarrow> string" where
  "ToLower_ascii [] = []"
| "ToLower_ascii (c # s) =
     (let n = of_char c :: nat
      in if c = CHR 0xC4 \<and> take 1 s = [CHR 0xB0] then CHR ''i'' # ToLower_ascii (drop 1 s)
         else if c = CHR 0xE2 \<and> take 2 s = [CHR 0x84, CHR 0xAA] then CHR ''k'' # ToLower_ascii (drop 2 s)
         else (if 65 \<le> n \<and> n \<le> 90 then char_of (n + 32) else c) # ToLower_ascii s)"

definition isRetryableConnErr :: "go_error \<Rightarrow> bool" where
  "isRetryableConnErr err =
     (let msg = ToLower_ascii (error_text err)
      in strings_Contains msg ''eof'' \<or> strings_Contains msg ''connection reset'' \<or> strings_Contains msg ''broken pipe''
         \<or> strings_Contains msg ''use of closed network connection'' \<or> strings_Contains msg ''tls: '')"

definition readHTTPError :: "in_response \<Rightarrow> string \<Rightarrow> go_error" where
  "readHTTPError resp op1 = Errorf (op1 @ '': HTTP '' @ FormatInt (in_status resp))"

text \<open>
  The loop that \<open>postSign\<close>, \<open>getWait\<close> and \<open>FetchCapabilities\<close> share: \<open>attempt\<close> counts up to two, an
  error of the first attempt that is worth it leads to \<open>continue\<close> (after \<open>idle\<close>), every other one
  to \<open>break\<close>. After the loop stands the last error, which is nil before the first attempt.
\<close>

function attempts ::
  "('t \<Rightarrow> 't \<times> 'a result) \<Rightarrow> ('t \<Rightarrow> 't) \<Rightarrow> nat \<Rightarrow> go_error option \<Rightarrow> 't \<Rightarrow> 't \<times> (go_error option + 'a)" where
  "attempts once idle attempt lastErr t =
     (if \<not> attempt < 2 then (t, Inl lastErr)
      else case once t of
             (t', Inr x) \<Rightarrow> (t', Inr x)
           | (t', Inl err) \<Rightarrow>
               if attempt = 0 \<and> isRetryableConnErr err then attempts once idle (attempt + 1) (Some err) (idle t')
               else (t', Inl (Some err)))"
  by pat_completeness auto
termination
  by (relation "measure (\<lambda>(_, _, attempt, _, _). 2 - attempt)") auto

declare attempts.simps [simp del]

section \<open>Posting and waiting\<close>

definition dialTLS :: "('c, 'p) network \<Rightarrow> ('c, 'p) sign_Client \<Rightarrow> net_event list \<Rightarrow> tls_conn traced" where
  "dialTLS nw c t =
     (let t' = t @ [Dialed (sc_addr c)]
      in case nw_DialContext nw t (sc_addr c) of
           Some err \<Rightarrow> (t', Inl err)
         | None \<Rightarrow> (t', nw_Handshake nw t' (sc_tlsCfg c)))"

definition doHTTPOverConn :: "('c, 'p) network \<Rightarrow> tls_conn \<Rightarrow> out_request \<Rightarrow> net_event list \<Rightarrow> in_response traced" where
  "doHTTPOverConn nw conn req t = (t @ [Wrote conn req], nw_RoundTrip nw t conn req)"

definition client_Do :: "('c, 'p) network \<Rightarrow> ('c, 'p) sign_Client \<Rightarrow> out_request \<Rightarrow> net_event list \<Rightarrow> in_response traced" where
  "client_Do nw c req t = (t @ [Did req], nw_Do nw t (sc_timeout c) req)"

definition sign_post :: "('c, 'p) sign_Client \<Rightarrow> bytes \<Rightarrow> bytes \<Rightarrow> out_request" where
  "sign_post c body mac =
     \<lparr>or_method = POST, or_url = sc_proxyURL c @ ''/api/v1/ssh/sign'', or_body = body,
      or_headers = [(''Content-Type'', ''application/json''), (''X-Luna-Body-Mac'', FormatMACHeader mac)]\<rparr>"

definition maxResponse :: nat where
  "maxResponse = 2 ^ 20"

definition Decode_limited :: "sdk_lib \<Rightarrow> 's json_field list \<Rightarrow> in_response \<Rightarrow> 's \<Rightarrow> 's option" where
  "Decode_limited sx fs resp s =
     (case sx_Decode sx (take maxResponse (in_body resp)) of None \<Rightarrow> None | Some j \<Rightarrow> decode_struct fs j s)"

definition postSignOnce ::
  "sdk_lib \<Rightarrow> ('c, 'p) network \<Rightarrow> ('c, 'p) sign_Client \<Rightarrow> bytes \<Rightarrow> net_event list \<Rightarrow> string traced" where
  "postSignOnce sx nw c body t =
     (case dialTLS nw c t of
        (t1, Inl err) \<Rightarrow> (t1, Inl (Wrapf ''tls dial: '' err ''''))
      | (t1, Inr conn) \<Rightarrow>
     (case sdk_ComputeBodyHMAC conn body of
        Inl err \<Rightarrow> (t1, Inl (Wrapf ''body HMAC: '' err ''''))
      | Inr mac \<Rightarrow>
     (let req = sign_post c body mac
      in if \<not> sx_valid_url sx (or_url req) then (t1, Inl bad_url)
         else case doHTTPOverConn nw conn req t1 of
                (t2, Inl err) \<Rightarrow> (t2, Inl (Wrapf ''POST sign: '' err ''''))
              | (t2, Inr resp) \<Rightarrow>
                  if in_status resp \<noteq> 202 then (t2, Inl (readHTTPError resp ''POST sign''))
                  else case Decode_limited sx Response_fields resp [] of
                         None \<Rightarrow> (t2, Inl (Errorf ''decode sign response: invalid json''))
                       | Some txID \<Rightarrow>
                           if txID = [] then (t2, Inl (Errorf ''empty tx_id in sign response'')) else (t2, Inr txID))))"

text \<open>The result of a function that ends in \<open>return "", lastErr\<close>: a nil error makes it the zero
  value.\<close>

definition or_zero :: "'a \<Rightarrow> go_error option + 'a \<Rightarrow> 'a result" where
  "or_zero z r = (case r of Inr x \<Rightarrow> Inr x | Inl None \<Rightarrow> Inr z | Inl (Some err) \<Rightarrow> Inl err)"

definition postSign ::
  "sdk_lib \<Rightarrow> ('c, 'p) network \<Rightarrow> ('c, 'p) sign_Client \<Rightarrow> bytes \<Rightarrow> net_event list \<Rightarrow> string traced" where
  "postSign sx nw c body t =
     (let (t', r) = attempts (postSignOnce sx nw c body) (\<lambda>t. t) 0 None t in (t', or_zero [] r))"

definition wait_result :: "sdk_lib \<Rightarrow> in_response \<Rightarrow> WaitResponse result" where
  "wait_result sx resp =
     (if in_status resp \<noteq> 200 then Inl (readHTTPError resp ''GET wait'')
      else case Decode_limited sx WaitResponse_fields resp zero_WaitResponse of
             None \<Rightarrow> Inl (Errorf ''decode wait response: invalid json'')
           | Some out \<Rightarrow> Inr out)"

text \<open>An answer ends the loop whatever it says; \<open>%w\<close> of a nil error prints \<open>%!w(<nil>)\<close>.\<close>

definition getWait ::
  "sdk_lib \<Rightarrow> ('c, 'p) network \<Rightarrow> ('c, 'p) sign_Client \<Rightarrow> string \<Rightarrow> net_event list \<Rightarrow> WaitResponse traced" where
  "getWait sx nw c txID t =
     (let req = \<lparr>or_method = GET, or_url = sc_proxyURL c @ ''/api/v1/ssh/sign/'' @ txID @ ''/wait'', or_body = [],
                 or_headers = []\<rparr>
      in if \<not> sx_valid_url sx (or_url req) then (t, Inl bad_url)
         else case attempts (client_Do nw c req) (\<lambda>t. t @ [ClosedIdle]) 0 None t of
                (t', Inr resp) \<Rightarrow> (t', wait_result sx resp)
              | (t', Inl (Some err)) \<Rightarrow> (t', Inl (Wrapf ''GET wait: '' err ''''))
              | (t', Inl None) \<Rightarrow> (t', Inl (Errorf ''GET wait: %!w(<nil>)'')))"

section \<open>Requesting a certificate or a signature\<close>

definition parseCertificate :: "sdk_lib \<Rightarrow> string \<Rightarrow> Certificate result" where
  "parseCertificate sx line =
     (case ssh_ParseAuthorizedKey (sx_ssh sx) line of
        Inl err \<Rightarrow> Inl (Wrapf ''parse ssh certificate: '' err '''')
      | Inr pub \<Rightarrow>
          (case sx_AsCertificate sx pub of
             None \<Rightarrow> Inl (Errorf ''authorized key is not an SSH certificate'')
           | Some cert \<Rightarrow> Inr cert))"

text \<open>The ephemeral key and the proof that the client holds it, the same lines in both requests.
  \<open>json.Marshal\<close> does not fail on strings, integers and byte slices.\<close>

record ephemeral =
  ep_pub :: PublicKey
  ep_priv :: bytes
  ep_ts :: int
  ep_pop :: string

definition new_ephemeral :: "sdk_lib \<Rightarrow> string \<Rightarrow> string \<Rightarrow> ephemeral result" where
  "new_ephemeral sx user ip =
     (case sx_GenerateKey sx of
        Inl err \<Rightarrow> Inl (Wrapf ''generate key: '' err '''')
      | Inr (pub, priv) \<Rightarrow>
     (case sx_NewPublicKey sx pub of
        Inl err \<Rightarrow> Inl (Wrapf ''ssh public key: '' err '''')
      | Inr sshPub \<Rightarrow>
     (let ts = time_Unix (sx_now sx)
      in case signPoP sx sshPub priv user ip ts of
           Inl err \<Rightarrow> Inl err
         | Inr popSig \<Rightarrow> Inr \<lparr>ep_pub = sshPub, ep_priv = priv, ep_ts = ts, ep_pop = popSig\<rparr>)))"

definition cert_body :: "sdk_lib \<Rightarrow> CertRequest \<Rightarrow> ephemeral \<Rightarrow> sign_Request" where
  "cert_body sx req e =
     \<lparr>rt_PublicKey = ssh_MarshalAuthorizedKey (sx_ssh sx) (ep_pub e), rt_TargetUser = cq_TargetUser req,
      rt_TargetIP = cq_TargetIP req, rt_Timestamp = ep_ts e, rt_PopSignature = ep_pop e,
      rt_SourceUser = ci_SourceUser (cq_Client req), rt_ClientName = ci_ClientName (cq_Client req),
      rt_ClientVersion = ci_ClientVersion (cq_Client req), rt_AgentSignData = [], rt_HostKeyFingerprint = [],
      rt_SessionBinding = zero_binding, rt_DestinationHostPublicKey = []\<rparr>"

definition RequestCertificate ::
  "sdk_lib \<Rightarrow> ('c, 'p) network \<Rightarrow> ('c, 'p) sign_Client \<Rightarrow> CertRequest \<Rightarrow> net_event list \<Rightarrow> (Certificate \<times> bytes) traced" where
  "RequestCertificate sx nw c req t =
     (if cq_TargetUser req = [] \<or> cq_TargetIP req = [] then (t, Inl (Errorf ''TargetUser and TargetIP are required''))
      else case new_ephemeral sx (cq_TargetUser req) (cq_TargetIP req) of
             Inl err \<Rightarrow> (t, Inl err)
           | Inr e \<Rightarrow>
     (case postSign sx nw c (js_print (sx_js sx) (Request_json (cert_body sx req e))) t of
             (t1, Inl err) \<Rightarrow> (t1, Inl err)
           | (t1, Inr txID) \<Rightarrow>
     (case getWait sx nw c txID t1 of
             (t2, Inl err) \<Rightarrow> (t2, Inl err)
           | (t2, Inr wait) \<Rightarrow>
               if wr_SSHCertificate wait = [] then (t2, Inl (Errorf ''empty ssh_certificate in wait response''))
               else case parseCertificate sx (wr_SSHCertificate wait) of
                      Inl err \<Rightarrow> (t2, Inl err)
                    | Inr cert \<Rightarrow> (t2, Inr (cert, ep_priv e)))))"

definition sessionBindingFields :: "sdk_SessionBinding \<Rightarrow> nat" where
  "sessionBindingFields b =
     (if 0 < length (bd_HostPublicKey b) then 1 else 0) + (if 0 < length (bd_SessionID b) then 1 else 0)
     + (if 0 < length (bd_Signature b) then 1 else 0)"

text \<open>The checks before the first key is generated.\<close>

definition check_signature_request :: "SignatureRequest \<Rightarrow> bytes \<Rightarrow> go_error option" where
  "check_signature_request req signData =
     (let n = sessionBindingFields (sq_SessionBinding req); hasSessionBinding = (n = 3)
      in if sq_TargetUser req = [] \<or> sq_TargetIP req = [] then Some (Errorf ''TargetUser and TargetIP are required'')
         else if length signData = 0 then Some (Errorf ''signData is required'')
         else if n \<noteq> 0 \<and> n \<noteq> 3 then Some (Errorf ''SessionBinding is incomplete'')
         else if \<not> hasSessionBinding \<and> length (sq_DestinationHostPublicKey req) = 0
         then Some (Errorf ''SessionBinding or DestinationHostPublicKey is required'')
         else if hasSessionBinding \<and> 0 < length (sq_DestinationHostPublicKey req)
         then Some (Errorf ''SessionBinding and DestinationHostPublicKey are mutually exclusive'')
         else if bd_Forwarding (sq_SessionBinding req) then Some (Errorf ''forwarded SessionBinding is not allowed'')
         else None)"

definition signature_body :: "sdk_lib \<Rightarrow> SignatureRequest \<Rightarrow> bytes \<Rightarrow> ephemeral \<Rightarrow> sign_Request" where
  "signature_body sx req signData e =
     \<lparr>rt_PublicKey = ssh_MarshalAuthorizedKey (sx_ssh sx) (ep_pub e), rt_TargetUser = sq_TargetUser req,
      rt_TargetIP = sq_TargetIP req, rt_Timestamp = ep_ts e, rt_PopSignature = ep_pop e,
      rt_SourceUser = ci_SourceUser (sq_Client req), rt_ClientName = ci_ClientName (sq_Client req),
      rt_ClientVersion = ci_ClientVersion (sq_Client req), rt_AgentSignData = StdEncoding_EncodeToString signData,
      rt_HostKeyFingerprint = sq_HostKeyFingerprint req, rt_SessionBinding = sq_SessionBinding req,
      rt_DestinationHostPublicKey = sq_DestinationHostPublicKey req\<rparr>"

definition RequestSignature ::
  "sdk_lib \<Rightarrow> ('c, 'p) network \<Rightarrow> ('c, 'p) sign_Client \<Rightarrow> SignatureRequest \<Rightarrow> bytes \<Rightarrow> net_event list \<Rightarrow> Signature traced" where
  "RequestSignature sx nw c req signData t =
     (case check_signature_request req signData of
        Some err \<Rightarrow> (t, Inl err)
      | None \<Rightarrow>
     (case new_ephemeral sx (sq_TargetUser req) (sq_TargetIP req) of
        Inl err \<Rightarrow> (t, Inl err)
      | Inr e \<Rightarrow>
     (case postSign sx nw c (js_print (sx_js sx) (Request_json (signature_body sx req signData e))) t of
        (t1, Inl err) \<Rightarrow> (t1, Inl err)
      | (t1, Inr txID) \<Rightarrow>
     (case getWait sx nw c txID t1 of
        (t2, Inl err) \<Rightarrow> (t2, Inl err)
      | (t2, Inr wait) \<Rightarrow>
          if wr_SSHSignature wait = [] then (t2, Inl (Errorf ''empty ssh_signature in wait response''))
          else case StdEncoding_DecodeString (wr_SSHSignature wait) of
                 None \<Rightarrow> (t2, Inl (Errorf ''decode ssh_signature: invalid base64''))
               | Some blob \<Rightarrow>
                   (let format = (if sq_SignatureFormat req = [] then pk_Type (ep_pub e) else sq_SignatureFormat req)
                    in (t2, Inr \<lparr>sig_Format = format, sig_Blob = blob\<rparr>))))))"

section \<open>Capabilities\<close>

definition fetchCapabilitiesOnce ::
  "sdk_lib \<Rightarrow> ('c, 'p) network \<Rightarrow> ('c, 'p) sign_Client \<Rightarrow> out_request \<Rightarrow> net_event list \<Rightarrow> Capabilities traced" where
  "fetchCapabilitiesOnce sx nw c req t =
     (case client_Do nw c req t of
        (t', Inl err) \<Rightarrow> (t', Inl (Wrapf ''GET capabilities: '' err ''''))
      | (t', Inr resp) \<Rightarrow>
          if in_status resp \<noteq> 200 then (t', Inl (readHTTPError resp ''GET capabilities''))
          else case Decode_limited sx Capabilities_fields resp zero_Capabilities of
                 None \<Rightarrow> (t', Inl (Errorf ''decode capabilities: invalid json''))
               | Some caps \<Rightarrow>
                   if cap_SignerMode caps = [] then (t', Inl (Errorf ''capabilities: empty signer_mode''))
                   else (t', Inr caps))"

definition FetchCapabilities ::
  "sdk_lib \<Rightarrow> ('c, 'p) network \<Rightarrow> ('c, 'p) sign_Client \<Rightarrow> net_event list \<Rightarrow> Capabilities traced" where
  "FetchCapabilities sx nw c t =
     (let req = \<lparr>or_method = GET, or_url = sc_proxyURL c @ ''/api/v1/capabilities'', or_body = [], or_headers = []\<rparr>
      in if \<not> sx_valid_url sx (or_url req) then (t, Inl bad_url)
         else let (t', r) = attempts (fetchCapabilitiesOnce sx nw c req) (\<lambda>t. t @ [ClosedIdle]) 0 None t
              in (t', or_zero zero_Capabilities r))"

section \<open>The outer package\<close>

record ('c, 'p) sdk_Config =
  kf_ProxyURL :: string
  kf_TLSCert :: 'c
  kf_TLSRootCAs :: 'p
  kf_Timeout :: duration
  kf_SignerMode :: string

record ('c, 'p) sdk_Client =
  kc_inner :: "('c, 'p) sign_Client"
  kc_signerMode :: string

definition sdk_NewClient :: "sdk_lib \<Rightarrow> ('c, 'p) sdk_Config \<Rightarrow> ('c, 'p) sdk_Client result" where
  "sdk_NewClient sx cfg =
     (case NewClient sx \<lparr>sf_ProxyURL = kf_ProxyURL cfg, sf_TLSCert = kf_TLSCert cfg, sf_TLSRootCAs = kf_TLSRootCAs cfg,
                         sf_Timeout = kf_Timeout cfg\<rparr> of
        Inl err \<Rightarrow> Inl err
      | Inr inner \<Rightarrow> Inr \<lparr>kc_inner = inner, kc_signerMode = kf_SignerMode cfg\<rparr>)"

definition sdk_SignerMode :: "('c, 'p) sdk_Client \<Rightarrow> string" where
  "sdk_SignerMode c = (if kc_signerMode c \<noteq> [] then kc_signerMode c else SignerModeLocalCA)"

definition sdk_RequestCertificate ::
  "sdk_lib \<Rightarrow> ('c, 'p) network \<Rightarrow> ('c, 'p) sdk_Client \<Rightarrow> CertRequest \<Rightarrow> net_event list \<Rightarrow> (Certificate \<times> bytes) traced" where
  "sdk_RequestCertificate sx nw c req t =
     RequestCertificate sx nw (kc_inner c)
       \<lparr>cq_TargetUser = cq_TargetUser req, cq_TargetIP = cq_TargetIP req,
        cq_Client = \<lparr>ci_SourceUser = ci_SourceUser (cq_Client req), ci_ClientName = ci_ClientName (cq_Client req),
                     ci_ClientVersion = ci_ClientVersion (cq_Client req)\<rparr>\<rparr> t"

definition sdk_RequestSignature ::
  "sdk_lib \<Rightarrow> ('c, 'p) network \<Rightarrow> ('c, 'p) sdk_Client \<Rightarrow> SignatureRequest \<Rightarrow> bytes \<Rightarrow> net_event list \<Rightarrow> Signature traced" where
  "sdk_RequestSignature sx nw c req signData t = RequestSignature sx nw (kc_inner c) req signData t"

definition sdk_FetchCapabilities ::
  "sdk_lib \<Rightarrow> ('c, 'p) network \<Rightarrow> ('c, 'p) sdk_Client \<Rightarrow> net_event list \<Rightarrow> Capabilities traced" where
  "sdk_FetchCapabilities sx nw c t = FetchCapabilities sx nw (kc_inner c) t"

text \<open>\<open>NewCertSigner\<close>; a nil certificate is \<open>None\<close>.\<close>

definition sdk_NewCertSigner :: "sdk_lib \<Rightarrow> Certificate option \<Rightarrow> bytes \<Rightarrow> Signer result" where
  "sdk_NewCertSigner sx cert priv =
     (case cert of
        None \<Rightarrow> Inl (Errorf ''certificate is nil'')
      | Some ct \<Rightarrow>
          (case ssh_NewSignerFromKey (sx_ssh sx) priv of
             Inl err \<Rightarrow> Inl (Wrapf ''signer from private key: '' err '''')
           | Inr signer \<Rightarrow> sx_NewCertSigner sx ct signer))"

text \<open>The certificate pool that a PEM file gives, \<open>None\<close> when it holds no certificate.\<close>

definition sdk_LoadTLSConfig ::
  "(string \<Rightarrow> string \<Rightarrow> 'c result) \<Rightarrow> (bytes \<Rightarrow> 'p option) \<Rightarrow> (string \<Rightarrow> bytes result) \<Rightarrow>
   string \<Rightarrow> string \<Rightarrow> string \<Rightarrow> ('c \<times> 'p) result" where
  "sdk_LoadTLSConfig LoadX509KeyPair AppendCertsFromPEM ReadFile certFile keyFile caFile =
     (case LoadX509KeyPair certFile keyFile of
        Inl err \<Rightarrow> Inl (Wrapf ''load client cert: '' err '''')
      | Inr cert \<Rightarrow>
     (case ReadFile caFile of
        Inl err \<Rightarrow> Inl (Wrapf ''read CA: '' err '''')
      | Inr caPEM \<Rightarrow>
     (case AppendCertsFromPEM caPEM of
        None \<Rightarrow> Inl (Errorf (''parse CA PEM from '' @ caFile))
      | Some pool \<Rightarrow> Inr (cert, pool))))"

section \<open>At most two attempts\<close>

lemma attempts_unfold:
  "attempts once idle 0 None t =
     (case once t of
        (t', Inr x) \<Rightarrow> (t', Inr x)
      | (t', Inl err) \<Rightarrow>
          if isRetryableConnErr err
          then (case once (idle t') of (t'', Inr x) \<Rightarrow> (t'', Inr x) | (t'', Inl err') \<Rightarrow> (t'', Inl (Some err')))
          else (t', Inl (Some err)))"
  by (subst attempts.simps) (auto simp: attempts.simps [of _ _ "Suc 0"] split: prod.split sum.split)

lemma attempts_not_nil: "snd (attempts once idle 0 None t) \<noteq> Inl None"
  by (auto simp: attempts_unfold split: prod.split sum.split)

text \<open>What one attempt may put on the network.\<close>

definition posts :: "('c, 'p) sign_Client \<Rightarrow> bytes \<Rightarrow> net_event list \<Rightarrow> bool" where
  "posts c body evs \<longleftrightarrow>
     evs = [Dialed (sc_addr c)]
     \<or> (\<exists>conn mac. evs = [Dialed (sc_addr c), Wrote conn (sign_post c body mac)] \<and> sdk_ComputeBodyHMAC conn body = Inr mac)"

lemma postSignOnce_posts: "\<exists>evs. fst (postSignOnce sx nw c body t) = t @ evs \<and> posts c body evs"
  by (auto simp: postSignOnce_def dialTLS_def doHTTPOverConn_def posts_def Let_def split: option.split sum.split prod.split)

lemma postSignOnce_txID: "postSignOnce sx nw c body t = (t', Inr txID) \<Longrightarrow> txID \<noteq> []"
  by (auto simp: postSignOnce_def Let_def split: option.splits sum.splits prod.splits if_splits)

lemma postSign_cases:
  obtains (once) t' r where "postSign sx nw c body t = (t', r)" "postSignOnce sx nw c body t = (t', r)"
      "\<And>err. r = Inl err \<Longrightarrow> \<not> isRetryableConnErr err"
  | (twice) t1 err t' r where "postSign sx nw c body t = (t', r)" "postSignOnce sx nw c body t = (t1, Inl err)"
      "isRetryableConnErr err" "postSignOnce sx nw c body t1 = (t', r)"
proof -
  obtain t1 r1 where a: "postSignOnce sx nw c body t = (t1, r1)" by fastforce
  obtain t2 r2 where b: "postSignOnce sx nw c body t1 = (t2, r2)" by fastforce
  show ?thesis
  proof (cases "\<exists>err. r1 = Inl err \<and> isRetryableConnErr err")
    case True
    then obtain err where "r1 = Inl err" "isRetryableConnErr err" by blast
    with a b twice [of t2 r2 t1 err] show ?thesis
      by (simp add: postSign_def attempts_unfold or_zero_def split: sum.splits)
  next
    case False
    with a once [of t1 r1] show ?thesis
      by (auto simp: postSign_def attempts_unfold or_zero_def split: sum.splits)
  qed
qed

lemma postSign_posts:
  "\<exists>evs. fst (postSign sx nw c body t) = t @ concat evs \<and> length evs \<le> 2 \<and> (\<forall>e \<in> set evs. posts c body e)"
proof (cases rule: postSign_cases [of sx nw c body t])
  case (once t' r)
  with postSignOnce_posts [of sx nw c body t] obtain e where "t' = t @ e" "posts c body e" by auto
  then show ?thesis using once(1) by (intro exI [of _ "[e]"]) simp
next
  case (twice t1 err t' r)
  with postSignOnce_posts [of sx nw c body t] obtain e where e: "t1 = t @ e" "posts c body e" by auto
  from twice postSignOnce_posts [of sx nw c body t1] obtain e' where "t' = t1 @ e'" "posts c body e'" by auto
  with e show ?thesis using twice(1) by (intro exI [of _ "[e, e']"]) simp
qed

lemma postSign_dials: "\<exists>g. fst (postSign sx nw c body t) = t @ Dialed (sc_addr c) # g"
proof -
  have one: "\<exists>g. fst (postSignOnce sx nw c body t) = t @ Dialed (sc_addr c) # g" for t
    using postSignOnce_posts [of sx nw c body t] by (auto simp: posts_def)
  show ?thesis
  proof (cases rule: postSign_cases [of sx nw c body t])
    case (twice t1 err t' r)
    from twice one [of t] one [of t1] show ?thesis by auto
  qed (use one [of t] in auto)
qed

lemma postSign_txID: "postSign sx nw c body t = (t', Inr txID) \<Longrightarrow> txID \<noteq> []"
  by (cases rule: postSign_cases [of sx nw c body t]) (auto dest: postSignOnce_txID)

text \<open>Requests that are not posts.\<close>

definition reads_only :: "net_event list \<Rightarrow> bool" where
  "reads_only evs \<longleftrightarrow> list_all (\<lambda>e. case e of Did q \<Rightarrow> or_method q = GET | ClosedIdle \<Rightarrow> True | _ \<Rightarrow> False) evs"

lemma getWait_reads:
  "\<exists>evs. fst (getWait sx nw c txID t) = t @ evs \<and> reads_only evs \<and> length (filter (\<lambda>e. e \<noteq> ClosedIdle) evs) \<le> 2"
  by (auto simp: getWait_def attempts_unfold client_Do_def reads_only_def Let_def split: prod.split sum.split)

lemma reads_only_no_write: "reads_only evs \<Longrightarrow> Wrote conn w \<notin> set evs"
  by (auto simp: reads_only_def list_all_iff)

text \<open>Every post of a request carries the same body.\<close>

lemma RequestCertificate_writes:
  assumes "new_ephemeral sx (cq_TargetUser req) (cq_TargetIP req) = Inr e"
    and "Wrote conn w \<in> set (drop (length t) (fst (RequestCertificate sx nw c req t)))"
  shows "\<exists>mac body. body = js_print (sx_js sx) (Request_json (cert_body sx req e))
    \<and> w = sign_post c body mac \<and> sdk_ComputeBodyHMAC conn body = Inr mac"
proof -
  let ?body = "js_print (sx_js sx) (Request_json (cert_body sx req e))"
  obtain t1 r where p: "postSign sx nw c ?body t = (t1, r)" by fastforce
  obtain evs where evs: "t1 = t @ concat evs" "\<forall>e \<in> set evs. posts c ?body e"
    using postSign_posts [of sx nw c ?body t] p by auto
  have "\<exists>g. fst (RequestCertificate sx nw c req t) = t1 @ g \<and> reads_only g
      \<or> RequestCertificate sx nw c req t = (t, Inl (Errorf ''TargetUser and TargetIP are required''))"
  proof (cases r)
    case (Inl err)
    then show ?thesis using assms(1) p by (auto simp: RequestCertificate_def reads_only_def)
  next
    case (Inr txID)
    then show ?thesis using assms(1) p getWait_reads [of sx nw c txID t1]
      by (auto simp: RequestCertificate_def split: prod.split sum.split)
  qed
  with assms(2) evs(1) have "Wrote conn w \<in> set (concat evs)" by (auto dest: reads_only_no_write)
  then obtain g where "g \<in> set evs" "Wrote conn w \<in> set g" by auto
  with evs(2) show ?thesis by (auto simp: posts_def)
qed

lemma RequestSignature_writes:
  assumes "new_ephemeral sx (sq_TargetUser req) (sq_TargetIP req) = Inr e"
    and "Wrote conn w \<in> set (drop (length t) (fst (RequestSignature sx nw c req signData t)))"
  shows "\<exists>mac body. body = js_print (sx_js sx) (Request_json (signature_body sx req signData e))
    \<and> w = sign_post c body mac \<and> sdk_ComputeBodyHMAC conn body = Inr mac
    \<and> check_signature_request req signData = None"
proof -
  let ?body = "js_print (sx_js sx) (Request_json (signature_body sx req signData e))"
  obtain t1 r where p: "postSign sx nw c ?body t = (t1, r)" by fastforce
  obtain evs where evs: "t1 = t @ concat evs" "\<forall>e \<in> set evs. posts c ?body e"
    using postSign_posts [of sx nw c ?body t] p by auto
  have ok: "check_signature_request req signData = None"
    using assms(2) by (auto simp: RequestSignature_def split: option.splits)
  have "\<exists>g. fst (RequestSignature sx nw c req signData t) = t1 @ g \<and> reads_only g"
  proof (cases r)
    case (Inl err)
    then show ?thesis using assms(1) p ok by (auto simp: RequestSignature_def reads_only_def)
  next
    case (Inr txID)
    then show ?thesis using assms(1) p ok getWait_reads [of sx nw c txID t1]
      by (auto simp: RequestSignature_def Let_def split: prod.split sum.split option.split)
  qed
  with assms(2) evs(1) have "Wrote conn w \<in> set (concat evs)" by (auto dest: reads_only_no_write)
  then obtain g where "g \<in> set evs" "Wrote conn w \<in> set g" by auto
  with evs(2) ok show ?thesis by (auto simp: posts_def)
qed

end
