(* ===== verification/Go_Files.thy ===== *)
theory Go_Files
  imports Go_Path Api_Server
begin

text \<open>
  The part of the file system that the command-line tools use: files with their contents and
  permission bits under their paths. What the operating system refuses is the record \<open>fs_rules\<close>.
  Directories carry no state: creating one can fail and otherwise shows only in that a later write
  succeeds. A write that fails may have emptied the file and written a part of its contents before.
  The bits a new file gets are the ones that were asked for, before the process's mask.
\<close>

record file_entry =
  fi_data :: bytes
  fi_mode :: nat

type_synonym files = "(string, file_entry) gomap"

record fs_rules =
  fr_ReadFile :: "string \<Rightarrow> go_error option"
  fr_WriteFile :: "string \<Rightarrow> go_error option"
  fr_Partial :: "string \<Rightarrow> nat option"
  fr_Rename :: "string \<Rightarrow> string \<Rightarrow> go_error option"
  fr_MkdirAll :: "string \<Rightarrow> go_error option"

datatype fs_error = NotExist go_error | OtherError go_error

fun fs_err :: "fs_error \<Rightarrow> go_error" where
  "fs_err (NotExist e) = e"
| "fs_err (OtherError e) = e"

definition no_such_file :: "string \<Rightarrow> go_error" where
  "no_such_file path = Errorf (''open '' @ path @ '': no such file or directory'')"

definition os_ReadFile :: "fs_rules \<Rightarrow> files \<Rightarrow> string \<Rightarrow> fs_error + bytes" where
  "os_ReadFile fr fs path =
     (case map_of fs path of
        None \<Rightarrow> Inl (NotExist (no_such_file path))
      | Some f \<Rightarrow> (case fr_ReadFile fr path of Some err \<Rightarrow> Inl (OtherError err) | None \<Rightarrow> Inr (fi_data f)))"

definition file_exists :: "files \<Rightarrow> string \<Rightarrow> bool" where
  "file_exists fs path \<longleftrightarrow> map_of fs path \<noteq> None"

text \<open>\<open>os.WriteFile\<close> truncates a file that exists and then keeps its permission bits. When it fails,
  \<open>fr_Partial\<close> is \<open>None\<close> if the file could not be opened, and otherwise how much was written.\<close>

definition write_entry :: "string \<Rightarrow> bytes \<Rightarrow> nat \<Rightarrow> files \<Rightarrow> files" where
  "write_entry path data perm fs =
     map_put path \<lparr>fi_data = data, fi_mode = (case map_of fs path of Some f \<Rightarrow> fi_mode f | None \<Rightarrow> perm)\<rparr> fs"

definition os_WriteFile :: "fs_rules \<Rightarrow> string \<Rightarrow> bytes \<Rightarrow> nat \<Rightarrow> files \<Rightarrow> files \<times> go_error option" where
  "os_WriteFile fr path data perm fs =
     (case fr_WriteFile fr path of
        None \<Rightarrow> (write_entry path data perm fs, None)
      | Some err \<Rightarrow>
          (case fr_Partial fr path of
             None \<Rightarrow> (fs, Some err)
           | Some n \<Rightarrow> (write_entry path (take n data) perm fs, Some err)))"

lemmas os_WriteFile_defs = os_WriteFile_def write_entry_def

lemma os_WriteFile_other: "p \<noteq> path \<Longrightarrow> os_WriteFile fr path data perm fs = (fs', e) \<Longrightarrow> map_of fs' p = map_of fs p"
  by (auto simp: os_WriteFile_defs split: option.splits)

lemma os_WriteFile_fails:
  assumes "fr_WriteFile fr path = Some err"
  shows "\<exists>fs'. os_WriteFile fr path data perm fs = (fs', Some err) \<and> (\<forall>p. p \<noteq> path \<longrightarrow> map_of fs' p = map_of fs p)"
  using assms by (auto simp: os_WriteFile_defs split: option.split)

definition os_Remove :: "string \<Rightarrow> files \<Rightarrow> files" where
  "os_Remove path fs = map_del path fs"

definition os_Rename :: "fs_rules \<Rightarrow> string \<Rightarrow> string \<Rightarrow> files \<Rightarrow> files \<times> go_error option" where
  "os_Rename fr a b fs =
     (case fr_Rename fr a b of
        Some err \<Rightarrow> (fs, Some err)
      | None \<Rightarrow>
          (case map_of fs a of
             None \<Rightarrow> (fs, Some (no_such_file a))
           | Some f \<Rightarrow> (map_put b f (map_del a fs), None)))"

definition filepath_Dir :: "string \<Rightarrow> string" where
  "filepath_Dir path = filepath_Clean (case last_index CHR ''/'' path of None \<Rightarrow> [] | Some i \<Rightarrow> take (Suc i) path)"

text \<open>\<open>filepath.Base\<close>.\<close>

definition filepath_Base :: "string \<Rightarrow> string" where
  "filepath_Base path =
     (if path = [] then ''.''
      else let p = TrimRight path ''/''
           in if p = [] then ''/''
              else (case last_index CHR ''/'' p of None \<Rightarrow> p | Some i \<Rightarrow> drop (Suc i) p))"

definition mode_0400 :: nat where "mode_0400 = 4 * 64"
definition mode_0600 :: nat where "mode_0600 = 6 * 64"
definition mode_0644 :: nat where "mode_0644 = 6 * 64 + 4 * 8 + 4"

lemmas mode_defs = mode_0400_def mode_0600_def mode_0644_def

text \<open>Writing beside the target and renaming, as \<open>writeFileAtomic\<close> and \<open>FetchCA\<close> do.\<close>

definition write_and_rename ::
  "fs_rules \<Rightarrow> (go_error \<Rightarrow> go_error) \<Rightarrow> (go_error \<Rightarrow> go_error) \<Rightarrow> string \<Rightarrow> bytes \<Rightarrow> nat \<Rightarrow> files \<Rightarrow> files \<times> go_error option" where
  "write_and_rename fr werr rerr path data perm fs =
     (let tmp = path @ ''.tmp''
      in case os_WriteFile fr tmp data perm fs of
           (fs1, Some err) \<Rightarrow> (fs1, Some (werr err))
         | (fs1, None) \<Rightarrow>
             (case os_Rename fr tmp path fs1 of
                (fs2, Some err) \<Rightarrow> (os_Remove tmp fs2, Some (rerr err))
              | (fs2, None) \<Rightarrow> (fs2, None)))"

text \<open>What is at a path, and how an atomic write changes it.\<close>

lemma write_and_rename_ok:
  assumes "write_and_rename fr werr rerr path data perm fs = (fs', None)"
  shows "\<exists>m. map_of fs' path = Some \<lparr>fi_data = data, fi_mode = m\<rparr>
      \<and> (map_of fs (path @ ''.tmp'') = None \<longrightarrow> m = perm)"
    and "p \<noteq> path \<Longrightarrow> p \<noteq> path @ ''.tmp'' \<Longrightarrow> map_of fs' p = map_of fs p"
    and "map_of fs' (path @ ''.tmp'') = None"
  using assms
  by (auto simp: write_and_rename_def os_WriteFile_defs os_Rename_def Let_def split: option.splits prod.splits if_splits)

lemma write_and_rename_fails:
  assumes "write_and_rename fr werr rerr path data perm fs = (fs', Some err)" and "p \<noteq> path @ ''.tmp''"
  shows "map_of fs' p = map_of fs p"
  using assms
  by (auto simp: write_and_rename_def os_WriteFile_defs os_Rename_def os_Remove_def Let_def split: option.splits prod.splits if_splits)

text \<open>A system that refuses nothing, for examples.\<close>

definition demo_rules :: fs_rules where
  "demo_rules = \<lparr>fr_ReadFile = \<lambda>_. None, fr_WriteFile = \<lambda>_. None, fr_Partial = \<lambda>_. None, fr_Rename = \<lambda>_ _. None, fr_MkdirAll = \<lambda>_. None\<rparr>"

end
