(* ===== verification/Agent_Config.thy ===== *)
theory Agent_Config
  imports Config_Load Sdk Go_Files
begin

text \<open>
  The configuration of the agent (\<open>agent/config*.go\<close>, \<open>agent/socket.go\<close>, \<open>agent/client_info.go\<close>,
  \<open>agent/fingerprint.go\<close>). The libraries are those of the proxy's loader; what the agent asks the
  operating system on top is in the record \<open>agent_os\<close>.
\<close>

section \<open>Data\<close>

record agent_Config =
  gc_ProxyURL :: string
  gc_MTLSCert :: string
  gc_MTLSKey :: string
  gc_MTLSCA :: string
  gc_TargetUser :: string
  gc_TargetHost :: string
  gc_SocketPath :: string
  gc_SignerMode :: string
  gc_ApprovalTimeout :: duration
  gc_HostKeyFingerprint :: string
  gc_HostedPublicKey :: string

text \<open>Whether a path is a directory, whether a temporary file can be made in it, the user and the
  version the binary was linked with.\<close>

record agent_os =
  go_env :: os_env
  go_IsDir :: "string \<Rightarrow> bool result"
  go_CreateTemp :: "string \<Rightarrow> string result"
  go_Geteuid :: int
  go_Username :: "string result"
  go_Version :: string
  go_ReadFile :: "string \<Rightarrow> bytes result"
  go_MkdirAll :: "string \<Rightarrow> go_error option"

definition defaultSocketPath :: string where
  "defaultSocketPath = ''/run/luna/agent.sock''"

definition agent_defaultApprovalTimeout :: duration where
  "agent_defaultApprovalTimeout = 90 * second"

section \<open>The socket\<close>

definition UserSocketPath :: "agent_os \<Rightarrow> string" where
  "UserSocketPath os =
     (let d = TrimSpace (os_Getenv (go_env os) ''XDG_RUNTIME_DIR'')
      in if d \<noteq> [] then filepath_Join [d, ''luna'', ''agent.sock'']
         else case os_UserHomeDir (go_env os) of
                Inl _ \<Rightarrow> filepath_Join [''.cache'', ''luna'', ''agent.sock'']
              | Inr home \<Rightarrow> filepath_Join [home, ''.cache'', ''luna'', ''agent.sock''])"

definition isProductionRuntimeSocket :: "string \<Rightarrow> bool" where
  "isProductionRuntimeSocket socketPath0 =
     (let socketPath = filepath_Clean socketPath0
      in socketPath = defaultSocketPath \<or> HasPrefix socketPath ''/run/luna/'')"

definition productionSocketDirUsable :: "agent_os \<Rightarrow> string \<Rightarrow> bool" where
  "productionSocketDirUsable os dir =
     (case go_IsDir os dir of
        Inl _ \<Rightarrow> False
      | Inr isDir \<Rightarrow> isDir \<and> (case go_CreateTemp os dir of Inl _ \<Rightarrow> False | Inr _ \<Rightarrow> True))"

definition ResolveSocketPath :: "agent_os \<Rightarrow> string \<Rightarrow> string" where
  "ResolveSocketPath os configured0 =
     (let configured = or_default (TrimSpace configured0) defaultSocketPath
      in if \<not> isProductionRuntimeSocket configured then configured
         else if productionSocketDirUsable os (filepath_Dir configured) then configured
         else if go_Geteuid os = 0 then configured
         else UserSocketPath os)"

definition formatSocketDirError :: "agent_os \<Rightarrow> string \<Rightarrow> string \<Rightarrow> go_error \<Rightarrow> go_error" where
  "formatSocketDirError os socketPath dir err =
     (if \<not> isProductionRuntimeSocket socketPath then Wrapf (''create socket directory '' @ dir @ '': '') err ''''
      else Wrapf (''create socket directory '' @ dir @ '': '') err
        ([CHR 0x0A, CHR 0x0A] @ ''/run/luna requires root or systemd (RuntimeDirectory=luna).'' @ [CHR 0x0A] @
         ''Start with: sudo systemctl enable --now luna-agent'' @ [CHR 0x0A, CHR 0x0A] @
         ''For a manual non-root run, set agent_socket in agent.yml, for example:'' @ [CHR 0x0A] @
         ''  agent_socket: '' @ UserSocketPath os))"

definition EnsureSocketDir :: "agent_os \<Rightarrow> string \<Rightarrow> go_error option" where
  "EnsureSocketDir os socketPath =
     (let dir = filepath_Dir socketPath
      in if dir = [] \<or> dir = ''.'' then None
         else case go_MkdirAll os dir of
                Some err \<Rightarrow> Some (formatSocketDirError os socketPath dir err)
              | None \<Rightarrow> None)"

section \<open>Loading\<close>

definition isDevEnv :: "os_env \<Rightarrow> bool" where
  "isDevEnv os = (TrimSpace (os_Getenv os ''LUNA_ENV'') \<in> set [''dev'', ''test''])"

definition applyAgentDefaults :: "os_env \<Rightarrow> agent_Config \<Rightarrow> agent_Config" where
  "applyAgentDefaults os cfg =
     (if isDevEnv os then cfg
      else let certsDir = filepath_Join [''/etc/luna/certs'']
           in cfg\<lparr>gc_MTLSCert := or_default (gc_MTLSCert cfg) (filepath_Join [certsDir, ''client.crt'']),
                  gc_MTLSKey := or_default (gc_MTLSKey cfg) (filepath_Join [certsDir, ''client.key'']),
                  gc_MTLSCA := or_default (gc_MTLSCA cfg) (filepath_Join [certsDir, ''ca.crt''])\<rparr>)"

definition agent_userLunaConfigDir :: "os_env \<Rightarrow> string" where
  "agent_userLunaConfigDir os =
     (case os_UserConfigDir os of
        Inr dir \<Rightarrow> filepath_Join [dir, ''luna'']
      | Inl _ \<Rightarrow>
          (case os_UserHomeDir os of
             Inl _ \<Rightarrow> filepath_Join [''.config'', ''luna'']
           | Inr home \<Rightarrow> filepath_Join [home, ''.config'', ''luna'']))"

definition agentConfigPaths :: "os_env \<Rightarrow> string list" where
  "agentConfigPaths os =
     concat (map (\<lambda>base. map (\<lambda>ext. filepath_Join [base, ''agent'' @ ext]) [''.yml'', ''.yaml''])
       [''.'', agent_userLunaConfigDir os, ''/etc/luna''])"

fun agent_mergeConfigFiles :: "os_env \<Rightarrow> 'v viper_lib \<Rightarrow> string list \<Rightarrow> 'v \<Rightarrow> 'v result" where
  "agent_mergeConfigFiles os vl [] v = Inr v"
| "agent_mergeConfigFiles os vl (path # paths) v =
     (if os_Stat os path \<noteq> StatOK then agent_mergeConfigFiles os vl paths v
      else case vl_MergeInConfig vl path v of
             Inl err \<Rightarrow> Inl (read_config_error path err)
           | Inr v' \<Rightarrow> agent_mergeConfigFiles os vl paths v')"

definition readAgentConfigFileIfExists :: "os_env \<Rightarrow> 'v viper_lib \<Rightarrow> string \<Rightarrow> 'v \<Rightarrow> 'v result" where
  "readAgentConfigFileIfExists os vl path v =
     (case os_Stat os path of
        StatNotExist _ \<Rightarrow> Inr v
      | StatFailed err \<Rightarrow> Inl (Wrapf (''stat config '' @ strconv_Quote path @ '': '') err '''')
      | StatOK \<Rightarrow>
          (case vl_ReadInConfig vl path v of
             Inl err \<Rightarrow> Inl (read_config_error path err)
           | Inr v' \<Rightarrow> Inr v'))"

definition agent_defaults :: "(string \<times> string) list" where
  "agent_defaults =
     [(''agent_socket'', defaultSocketPath), (''signer_mode'', SignerModeLocalKey),
      (''approval_timeout'', Duration_String agent_defaultApprovalTimeout)]"

definition agent_bindings :: "(string \<times> string) list" where
  "agent_bindings =
     [(''proxy_url'', ''LUNA_PROXY_URL''), (''mtls_cert'', ''LUNA_MTLS_CERT''), (''mtls_key'', ''LUNA_MTLS_KEY''),
      (''mtls_ca'', ''LUNA_MTLS_CA''), (''target_user'', ''LUNA_TARGET_USER''), (''target_host'', ''LUNA_TARGET_HOST''),
      (''agent_socket'', ''LUNA_AGENT_SOCKET''), (''signer_mode'', ''LUNA_SIGNER_MODE''),
      (''host_key_fingerprint'', ''LUNA_HOST_KEY_FINGERPRINT''), (''hosted_public_key'', ''LUNA_HOSTED_PUBLIC_KEY''),
      (''approval_timeout'', ''LUNA_APPROVAL_TIMEOUT'')]"

definition newAgentViper :: "os_env \<Rightarrow> 'v viper_lib \<Rightarrow> 'v result" where
  "newAgentViper os vl =
     (let v = fold (\<lambda>(k, d). vl_SetDefault vl k d) agent_defaults (vl_New vl);
          path = os_Getenv os ''LUNA_CONFIG''
      in case (if path \<noteq> [] then readAgentConfigFileIfExists os vl path v
               else agent_mergeConfigFiles os vl (agentConfigPaths os) v) of
           Inl err \<Rightarrow> Inl err
         | Inr v' \<Rightarrow> Inr (vl_AutomaticEnv vl (fold (\<lambda>(k, e). vl_BindEnv vl k e) agent_bindings v')))"

definition agent_missing :: "agent_Config \<Rightarrow> string list" where
  "agent_missing cfg =
     (if gc_ProxyURL cfg = [] then [''LUNA_PROXY_URL''] else []) @
     (if gc_MTLSCert cfg = [] then [''LUNA_MTLS_CERT''] else []) @
     (if gc_MTLSKey cfg = [] then [''LUNA_MTLS_KEY''] else []) @
     (if gc_MTLSCA cfg = [] then [''LUNA_MTLS_CA''] else []) @
     (if gc_TargetUser cfg = [] then [''LUNA_TARGET_USER''] else []) @
     (if gc_TargetHost cfg = [] then [''LUNA_TARGET_HOST''] else [])"

text \<open>The struct literal with the fallbacks that follow it.\<close>

definition agent_raw_config :: "(string \<Rightarrow> string) \<Rightarrow> duration \<Rightarrow> agent_Config" where
  "agent_raw_config GetString timeout =
     (let get = (\<lambda>k. TrimSpace (GetString k))
      in \<lparr>gc_ProxyURL = get ''proxy_url'', gc_MTLSCert = get ''mtls_cert'', gc_MTLSKey = get ''mtls_key'',
          gc_MTLSCA = get ''mtls_ca'', gc_TargetUser = get ''target_user'', gc_TargetHost = get ''target_host'',
          gc_SocketPath = or_default (get ''agent_socket'') defaultSocketPath,
          gc_SignerMode = or_default (get ''signer_mode'') SignerModeLocalKey,
          gc_ApprovalTimeout = (if timeout \<le> 0 then agent_defaultApprovalTimeout else timeout),
          gc_HostKeyFingerprint = get ''host_key_fingerprint'', gc_HostedPublicKey = get ''hosted_public_key''\<rparr>)"

definition agent_configFromViper :: "agent_os \<Rightarrow> (string \<Rightarrow> string) \<Rightarrow> agent_Config result" where
  "agent_configFromViper os GetString =
     (case ParseDuration (os_frac (go_env os)) (GetString ''approval_timeout'') of
        Inl err \<Rightarrow> Inl (Wrapf ''approval_timeout: '' err '''')
      | Inr timeout \<Rightarrow>
     (let cfg1 = applyAgentDefaults (go_env os) (agent_raw_config GetString timeout);
          cfg = cfg1\<lparr>gc_SocketPath := ResolveSocketPath os (gc_SocketPath cfg1)\<rparr>
      in if agent_missing cfg \<noteq> []
         then Inl (Errorf (''missing required environment: '' @ join_comma (agent_missing cfg)))
         else Inr cfg))"

definition agent_Load :: "agent_os \<Rightarrow> 'v viper_lib \<Rightarrow> agent_Config result" where
  "agent_Load os vl =
     (case newAgentViper (go_env os) vl of
        Inl err \<Rightarrow> Inl err
      | Inr v \<Rightarrow> agent_configFromViper os (\<lambda>k. vl_GetString vl k v))"

definition DefaultClientInfo :: "agent_os \<Rightarrow> ClientInfo" where
  "DefaultClientInfo os =
     (let sourceUser = (case go_Username os of
                          Inr u \<Rightarrow> if u \<noteq> [] then u else os_Getenv (go_env os) ''USER''
                        | Inl _ \<Rightarrow> os_Getenv (go_env os) ''USER'')
      in \<lparr>ci_SourceUser = sourceUser, ci_ClientName = ''luna-agent'', ci_ClientVersion = go_Version os\<rparr>)"

section \<open>Fingerprints\<close>

definition PublicKeyFingerprint :: "PublicKey \<Rightarrow> string" where
  "PublicKeyFingerprint pub = RawStdEncoding_EncodeToString (sha256_Sum256 (pk_Marshal pub))"

definition normalizeFingerprintHint :: "string \<Rightarrow> string" where
  "normalizeFingerprintHint s = TrimRight (TrimPrefix (TrimSpace s) ''SHA256:'') ''=''"

section \<open>Properties\<close>

lemma agent_same_as_proxy:
  "agent_userLunaConfigDir = userLunaConfigDir" "agent_mergeConfigFiles os vl ps v = mergeConfigFiles os vl ps v"
  "readAgentConfigFileIfExists = readConfigFileIfExists"
  "PublicKeyFingerprint = Fingerprint" "normalizeFingerprintHint = NormalizeFingerprintInput"
proof -
  show "agent_userLunaConfigDir = userLunaConfigDir"
    by (rule ext) (simp add: agent_userLunaConfigDir_def userLunaConfigDir_def)
  show "agent_mergeConfigFiles os vl ps v = mergeConfigFiles os vl ps v"
    by (induction ps arbitrary: v) (auto split: sum.split)
  show "readAgentConfigFileIfExists = readConfigFileIfExists"
    by (intro ext) (simp add: readAgentConfigFileIfExists_def readConfigFileIfExists_def)
  show "PublicKeyFingerprint = Fingerprint" by (rule ext) (simp add: PublicKeyFingerprint_def Fingerprint_def)
  show "normalizeFingerprintHint = NormalizeFingerprintInput"
    by (rule ext) (simp add: normalizeFingerprintHint_def NormalizeFingerprintInput_def)
qed

text \<open>
  An agent that starts knows where to go and as whom: every setting it needs is there, the
  time to wait is positive, and outside of development the certificates default to those under
  \<open>/etc/luna/certs\<close>. The socket is a path of the production directory only for root or when a file
  could be created next to it.
\<close>

theorem agent_config_complete:
  assumes "agent_configFromViper os GetString = Inr cfg"
  shows "gc_ProxyURL cfg \<noteq> [] \<and> gc_TargetUser cfg \<noteq> [] \<and> gc_TargetHost cfg \<noteq> [] \<and> gc_SignerMode cfg \<noteq> []
    \<and> gc_MTLSCert cfg \<noteq> [] \<and> gc_MTLSKey cfg \<noteq> [] \<and> gc_MTLSCA cfg \<noteq> [] \<and> 0 < gc_ApprovalTimeout cfg
    \<and> (isProductionRuntimeSocket (gc_SocketPath cfg) \<longrightarrow>
         go_Geteuid os = 0 \<or> productionSocketDirUsable os (filepath_Dir (gc_SocketPath cfg))
         \<or> gc_SocketPath cfg = UserSocketPath os)"
proof -
  from assms obtain timeout c1 where c1: "c1 = applyAgentDefaults (go_env os) (agent_raw_config GetString timeout)"
      and c: "cfg = c1\<lparr>gc_SocketPath := ResolveSocketPath os (gc_SocketPath c1)\<rparr>" and m: "agent_missing cfg = []"
    by (auto simp: agent_configFromViper_def Let_def split: sum.splits if_splits)
  have "gc_SignerMode c1 = gc_SignerMode (agent_raw_config GetString timeout)"
      "gc_ApprovalTimeout c1 = gc_ApprovalTimeout (agent_raw_config GetString timeout)"
    by (simp_all add: c1 applyAgentDefaults_def Let_def)
  then have "gc_SignerMode cfg \<noteq> []" "0 < gc_ApprovalTimeout cfg"
    by (auto simp: c agent_raw_config_def Let_def SignerModeLocalKey_def agent_defaultApprovalTimeout_def second_def)
  moreover have "isProductionRuntimeSocket (gc_SocketPath cfg) \<longrightarrow>
         go_Geteuid os = 0 \<or> productionSocketDirUsable os (filepath_Dir (gc_SocketPath cfg))
         \<or> gc_SocketPath cfg = UserSocketPath os"
    unfolding c by (auto simp: ResolveSocketPath_def Let_def)
  moreover have "gc_ProxyURL cfg \<noteq> []" "gc_MTLSCert cfg \<noteq> []" "gc_MTLSKey cfg \<noteq> []" "gc_MTLSCA cfg \<noteq> []"
      "gc_TargetUser cfg \<noteq> []" "gc_TargetHost cfg \<noteq> []"
    using m by (auto simp: agent_missing_def)
  ultimately show ?thesis by blast
qed

definition demo_agent_os :: agent_os where
  "demo_agent_os = \<lparr>go_env = demo_os, go_IsDir = \<lambda>_. Inr True, go_CreateTemp = \<lambda>_. Inl (Errorf ''read-only''), go_Geteuid = 1000,
     go_Username = Inr ''ann'', go_Version = ''dev'', go_ReadFile = \<lambda>_. Inl (Errorf ''no file''), go_MkdirAll = \<lambda>_. None\<rparr>"

definition demo_settings :: "string \<Rightarrow> string" where
  "demo_settings k = (case map_of [(''proxy_url'', '' https://proxy ''), (''target_user'', ''deploy''), (''target_host'', ''10.0.1.50''),
     (''approval_timeout'', ''0s'')] k of None \<Rightarrow> [] | Some v \<Rightarrow> v)"

lemma demo_agent_loads:
  "case agent_configFromViper demo_agent_os demo_settings of
     Inl _ \<Rightarrow> False
   | Inr cfg \<Rightarrow> gc_SocketPath cfg = ''/root/.cache/luna/agent.sock'' \<and> gc_MTLSCA cfg = ''/etc/luna/certs/ca.crt''"
  by code_simp

theorem agent_config_complete_witness:
  "\<exists>cfg. agent_configFromViper demo_agent_os demo_settings = Inr cfg \<and> 0 < gc_ApprovalTimeout cfg"
proof -
  obtain cfg where "agent_configFromViper demo_agent_os demo_settings = Inr cfg"
    using demo_agent_loads by (auto split: sum.splits)
  with agent_config_complete [OF this] show ?thesis by blast
qed

end
