(* ===== verification/Sdk_Server.thy ===== *)
theory Sdk_Server
  imports Sdk Api_Run
begin

text \<open>
  The client library against the proxy: what the one sends the other understands and accepts, what
  the other answers the one reads back, and what happens to a second attempt.
\<close>

section \<open>A request read back\<close>

definition b64_or_empty :: "bytes \<Rightarrow> string" where
  "b64_or_empty b = (if b = [] then [] else StdEncoding_EncodeToString b)"

definition server_view :: "sign_Request \<Rightarrow> SignRequest" where
  "server_view q =
     \<lparr>sr_PublicKey = rt_PublicKey q, sr_TargetUser = rt_TargetUser q, sr_TargetIP = rt_TargetIP q,
      sr_Timestamp = rt_Timestamp q, sr_PopSignature = rt_PopSignature q, sr_AgentSignData = rt_AgentSignData q,
      sr_HostPublicKey = [], sr_HostKeyFingerprint = rt_HostKeyFingerprint q, sr_SourceUser = rt_SourceUser q,
      sr_ClientName = rt_ClientName q, sr_ClientVersion = rt_ClientVersion q,
      sr_SessionBinding =
        \<lparr>sb_HostPublicKey = b64_or_empty (bd_HostPublicKey (rt_SessionBinding q)),
         sb_SessionID = b64_or_empty (bd_SessionID (rt_SessionBinding q)),
         sb_Signature = b64_or_empty (bd_Signature (rt_SessionBinding q)),
         sb_Forwarding = bd_Forwarding (rt_SessionBinding q)\<rparr>,
      sr_DestinationHostPublicKey = b64_or_empty (rt_DestinationHostPublicKey q), sr_BodyMAC = []\<rparr>"

lemma binding_folds:
  "fold_key ''session_id'' = ''SESSION_ID''" "fold_key ''signature'' = ''SIGNATURE''" "fold_key ''forwarding'' = ''FORWARDING''"
  by code_simp+

lemma decode_members_append:
  "decode_members fs (ms @ ms') s =
     (case decode_members fs ms s of None \<Rightarrow> None | Some s' \<Rightarrow> decode_members fs ms' s')"
  by (induction fs ms s rule: decode_members.induct) (auto split: option.split)

lemma decode_omit_string:
  assumes "find_field fs n = Some (\<lambda>j s. case j of JNull \<Rightarrow> Some s | JString v \<Rightarrow> Some (upd v s) | _ \<Rightarrow> None)"
    and "upd [] s = s"
  shows "decode_members fs (omit_string n v) s = Some (upd v s)"
  using assms by (simp add: omit_string_def)

lemma decode_binding:
  "decode_struct binding_fields (sessionBindingRequest_json b)
     \<lparr>sb_HostPublicKey = [], sb_SessionID = [], sb_Signature = [], sb_Forwarding = False\<rparr> =
   Some \<lparr>sb_HostPublicKey = b64_or_empty (bd_HostPublicKey b), sb_SessionID = b64_or_empty (bd_SessionID b),
         sb_Signature = b64_or_empty (bd_Signature b), sb_Forwarding = bd_Forwarding b\<rparr>"
  by (simp add: decode_struct_def binding_fields_def json_field_defs sessionBindingRequest_json_def bytes_json_def
      demo_folds binding_folds b64_or_empty_def)

lemma decode_request:
  assumes "int64 (rt_Timestamp q)"
  shows "decode_struct sign_fields (Request_json q) zero_SignRequest = Some (server_view q)"
proof -
  note fields_defs = sign_fields_def json_field_defs demo_folds
  have names: "find_field sign_fields ''source_user'' = Some (\<lambda>j s. case j of JNull \<Rightarrow> Some s
      | JString v \<Rightarrow> Some (s\<lparr>sr_SourceUser := v\<rparr>) | _ \<Rightarrow> None)"
    "find_field sign_fields ''client_name'' = Some (\<lambda>j s. case j of JNull \<Rightarrow> Some s
      | JString v \<Rightarrow> Some (s\<lparr>sr_ClientName := v\<rparr>) | _ \<Rightarrow> None)"
    "find_field sign_fields ''client_version'' = Some (\<lambda>j s. case j of JNull \<Rightarrow> Some s
      | JString v \<Rightarrow> Some (s\<lparr>sr_ClientVersion := v\<rparr>) | _ \<Rightarrow> None)"
    "find_field sign_fields ''agent_sign_data'' = Some (\<lambda>j s. case j of JNull \<Rightarrow> Some s
      | JString v \<Rightarrow> Some (s\<lparr>sr_AgentSignData := v\<rparr>) | _ \<Rightarrow> None)"
    "find_field sign_fields ''host_key_fingerprint'' = Some (\<lambda>j s. case j of JNull \<Rightarrow> Some s
      | JString v \<Rightarrow> Some (s\<lparr>sr_HostKeyFingerprint := v\<rparr>) | _ \<Rightarrow> None)"
    by (simp_all add: fields_defs)
  let ?q1 = "zero_SignRequest\<lparr>sr_PublicKey := rt_PublicKey q, sr_TargetUser := rt_TargetUser q, sr_TargetIP := rt_TargetIP q,
      sr_Timestamp := rt_Timestamp q, sr_PopSignature := rt_PopSignature q\<rparr>"
  have five: "decode_members sign_fields
      [(''public_key'', JString (rt_PublicKey q)), (''target_user'', JString (rt_TargetUser q)),
       (''target_ip'', JString (rt_TargetIP q)), (''timestamp'', JInt (rt_Timestamp q)),
       (''pop_signature'', JString (rt_PopSignature q))] zero_SignRequest = Some ?q1"
    using assms by (simp add: fields_defs zero_SignRequest_def)
  have last: "decode_members sign_fields (if rt_DestinationHostPublicKey q = [] then []
       else [(''destination_host_public_key'', bytes_json (rt_DestinationHostPublicKey q))]) s =
      Some (s\<lparr>sr_DestinationHostPublicKey := b64_or_empty (rt_DestinationHostPublicKey q)\<rparr>)"
    if "sr_DestinationHostPublicKey s = []" for s
    using that by (auto simp: fields_defs bytes_json_def b64_or_empty_def)
  have bind: "decode_members sign_fields [(''session_binding'', sessionBindingRequest_json b)] s =
      Some (s\<lparr>sr_SessionBinding := \<lparr>sb_HostPublicKey = b64_or_empty (bd_HostPublicKey b),
        sb_SessionID = b64_or_empty (bd_SessionID b), sb_Signature = b64_or_empty (bd_Signature b),
        sb_Forwarding = bd_Forwarding b\<rparr>\<rparr>)"
    if "sr_SessionBinding s = \<lparr>sb_HostPublicKey = [], sb_SessionID = [], sb_Signature = [], sb_Forwarding = False\<rparr>" for s b
    using that by (simp add: fields_defs decode_binding)
  show ?thesis
    unfolding Request_json_def decode_struct_def json.case decode_members_append five option.case
    by (simp add: decode_omit_string [OF names(1)] decode_omit_string [OF names(2)] decode_omit_string [OF names(3)]
        decode_omit_string [OF names(4)] decode_omit_string [OF names(5)] last bind zero_SignRequest_def server_view_def
        del: decode_members.simps split del: if_split)
qed

section \<open>Delivery\<close>

text \<open>
  What the network and the libraries are trusted with. A request written to a TLS connection
  arrives with its body and headers, over a server connection that exports the same keying
  material; a document that was printed is read back; and the ephemeral key is usable: its
  authorized-key line is read back and a signature made with the private half verifies.
\<close>

definition delivers :: "tls_conn \<Rightarrow> out_request \<Rightarrow> http_request \<Rightarrow> bool" where
  "delivers conn w r \<longleftrightarrow>
     rq_body r = or_body w \<and> \<not> rq_body_fails r \<and> (\<forall>(n, v) \<in> set (or_headers w). rq_header r n = v)
     \<and> (\<exists>sconn. rq_conn r = Some sconn
          \<and> tc_ExportKeyingMaterial sconn exporterLabel 32 = tc_ExportKeyingMaterial conn exporterLabel 32)"

definition reads_back :: "json_lib \<Rightarrow> json_lib \<Rightarrow> json \<Rightarrow> bool" where
  "reads_back writer reader j \<longleftrightarrow> js_parse reader (js_print writer j) = Some j"

definition key_works :: "sdk_lib \<Rightarrow> ephemeral \<Rightarrow> bool" where
  "key_works sx e \<longleftrightarrow>
     ssh_ParseAuthorizedKey (sx_ssh sx) (ssh_MarshalAuthorizedKey (sx_ssh sx) (ep_pub e)) = Inr (ep_pub e)
     \<and> (\<forall>msg. ssh_Verify (sx_ssh sx) (ep_pub e) msg
               \<lparr>sig_Format = pk_Type (ep_pub e), sig_Blob = sx_ed25519_Sign sx (ep_priv e) msg\<rparr> = None)"

definition in_step :: "sdk_lib \<Rightarrow> api_env \<Rightarrow> bool" where
  "in_step sx env \<longleftrightarrow> ae_lib env = sx_ssh sx \<and> int64 (time_Unix (sx_now sx))
     \<and> \<bar>time_Unix (ae_now env 1) - time_Unix (sx_now sx)\<bar> \<le> timestampWindowSec"

definition presentable :: "sign_Request \<Rightarrow> bool" where
  "presentable q \<longleftrightarrow> ValidateDisplayFields (rt_TargetUser q) (rt_TargetIP q)
     (NormalizeSignClientMeta (rt_SourceUser q) (rt_ClientName q) (rt_ClientVersion q)) = None"

lemma challenge_agrees: "challenge user ip ts = popChallenge user ip ts"
  by (simp add: challenge_def popChallenge_def)

lemma signPoP_verifies:
  assumes "key_works sx e" and "signPoP sx (ep_pub e) (ep_priv e) user ip ts = Inr pop"
  shows "VerifyPoP (sx_ssh sx) (ep_pub e) user ip ts pop = None"
  using assms by (auto simp: signPoP_def VerifyPoP_def Let_def key_works_def popChallenge_def codec_simps)

lemma FormatMACHeader_verifies:
  assumes "sdk_ComputeBodyHMAC conn body = Inr mac"
    and "tc_ExportKeyingMaterial sconn exporterLabel 32 = tc_ExportKeyingMaterial conn exporterLabel 32"
  shows "VerifyBodyHMAC sconn body (FormatMACHeader mac) = None"
  using assms by (auto simp: sdk_ComputeBodyHMAC_def VerifyBodyHMAC_def computeBodyHMAC_def sdk_exporterLabel_def
      exporterLabel_def FormatMACHeader_def hmac_Equal_def codec_simps split: sum.splits)

lemma in_window: "\<bar>time_Unix now - ts\<bar> \<le> timestampWindowSec \<Longrightarrow> ValidateTimestampAt ts now timestampWindowSec = None"
proof -
  assume "\<bar>time_Unix now - ts\<bar> \<le> timestampWindowSec"
  then have d: "\<bar>time_Unix now - ts\<bar> \<le> 30" by (simp add: timestampWindowSec_def)
  then have "int64 (time_Unix now - ts)" "int64 (- (time_Unix now - ts))" by (auto simp: int64_def)
  then have "wrap64 (time_Unix now - ts) = time_Unix now - ts" "wrap64 (- (time_Unix now - ts)) = - (time_Unix now - ts)"
    by (simp_all only: wrap64_id)
  with d show ?thesis by (simp add: ValidateTimestampAt_def Let_def timestampWindowSec_def) linarith
qed

definition carries :: "sdk_lib \<Rightarrow> ephemeral \<Rightarrow> string \<Rightarrow> string \<Rightarrow> sign_Request \<Rightarrow> bool" where
  "carries sx e user ip q \<longleftrightarrow>
     rt_PublicKey q = ssh_MarshalAuthorizedKey (sx_ssh sx) (ep_pub e) \<and> rt_TargetUser q = user \<and> rt_TargetIP q = ip
     \<and> rt_Timestamp q = ep_ts e \<and> rt_PopSignature q = ep_pop e"

lemma body_carries:
  "carries sx e (cq_TargetUser req) (cq_TargetIP req) (cert_body sx req e)"
  "carries sx e (sq_TargetUser sreq) (sq_TargetIP sreq) (signature_body sx sreq signData e)"
  by (simp_all add: carries_def cert_body_def signature_body_def)

lemma new_ephemeral_Inr:
  assumes "new_ephemeral sx user ip = Inr e"
  shows "ep_ts e = time_Unix (sx_now sx)" "signPoP sx (ep_pub e) (ep_priv e) user ip (ep_ts e) = Inr (ep_pop e)"
  using assms by (auto simp: new_ephemeral_def Let_def split: sum.splits)

lemma sdk_authenticates:
  assumes e: "new_ephemeral sx user ip = Inr e" "key_works sx e" and q: "carries sx e user ip q" "presentable q"
    and env: "in_step sx env" and js: "reads_back (sx_js sx) (ae_js env) (Request_json q)"
    and w: "w = sign_post c (js_print (sx_js sx) (Request_json q)) mac"
      "sdk_ComputeBodyHMAC conn (js_print (sx_js sx) (Request_json q)) = Inr mac"
    and d: "delivers conn w r" and sc: "rq_conn r = Some sconn"
  shows "Unmarshal (ae_js env) sign_fields (rq_body r) zero_SignRequest = Some (server_view q)" (is ?A)
    and "ValidateSignRequest (ae_lib env) sconn (rq_body r) ((server_view q)\<lparr>sr_BodyMAC := rq_header r ''X-Luna-Body-Mac''\<rparr>)
           (ae_now env 1) now' cache =
         (snd (AddIfNew now' (sha256_Sum256 (rq_body r)) cache),
          if fst (AddIfNew now' (sha256_Sum256 (rq_body r)) cache) then None else Some ErrReplay)" (is ?B)
proof -
  have body: "rq_body r = js_print (sx_js sx) (Request_json q)" using d w by (simp add: delivers_def sign_post_def)
  have hdr: "rq_header r ''X-Luna-Body-Mac'' = FormatMACHeader mac" using d w by (simp add: delivers_def sign_post_def)
  have ts: "rt_Timestamp q = time_Unix (sx_now sx)" using q(1) new_ephemeral_Inr [OF e(1)] by (simp add: carries_def)
  have "int64 (rt_Timestamp q)" using env ts by (simp add: in_step_def)
  with decode_request js body show ?A by (simp add: Unmarshal_def reads_back_def)
  have "VerifyBodyHMAC sconn (rq_body r) (FormatMACHeader mac) = None"
    using d sc w(2) body by (auto simp: delivers_def intro: FormatMACHeader_verifies)
  moreover have "ValidateTimestampAt (rt_Timestamp q) (ae_now env 1) timestampWindowSec = None"
    using env ts by (auto simp: in_step_def intro: in_window)
  moreover have "ssh_ParseAuthorizedKey (ae_lib env) (rt_PublicKey q) = Inr (ep_pub e)"
    using e(2) q(1) env by (simp add: key_works_def carries_def in_step_def)
  moreover have "VerifyPoP (ae_lib env) (ep_pub e) (rt_TargetUser q) (rt_TargetIP q) (rt_Timestamp q) (rt_PopSignature q) = None"
    using signPoP_verifies [OF e(2) new_ephemeral_Inr(2) [OF e(1)]] q(1) env by (simp add: carries_def in_step_def)
  ultimately show ?B using q(2) hdr
    by (simp add: ValidateSignRequest_def server_view_def presentable_def split: prod.split bool.split)
qed

section \<open>Accepted and refused posts\<close>

lemma admits_handles:
  "admits env r s req fp dst replay \<Longrightarrow> handleSign env r s = sign_admitted env r req fp dst (s\<lparr>sv_replay := replay\<rparr>)"
  by (auto simp: admits_def handleSign_def Let_def split: sum.splits)

lemma sign_admitted_response: "\<exists>s' txID jobs. sign_admitted env r req fp dst s = (s', tx_response txID, jobs)"
  by (auto simp: sign_admitted_def Let_def split: prod.splits)

lemma admits_answered:
  assumes "admits env r s req fp dst replay" and "handleSign env r s = (s', resp, jobs)"
  shows "\<exists>txID. resp = tx_response txID"
proof -
  obtain s1 txID jobs1 where "sign_admitted env r req fp dst (s\<lparr>sv_replay := replay\<rparr>) = (s1, tx_response txID, jobs1)"
    using sign_admitted_response by blast
  with admits_handles [OF assms(1)] assms(2) have "(s', resp, jobs) = (s1, tx_response txID, jobs1)" by argo
  then show ?thesis by blast
qed

lemma replayed_handles:
  assumes "ReadAll maxSignRequestBody r = Inr (rq_body r)"
    and "Unmarshal (ae_js env) sign_fields (rq_body r) zero_SignRequest = Some req0" and "rq_conn r = Some conn"
    and "ValidateSignRequest (ae_lib env) conn (rq_body r) (req0\<lparr>sr_BodyMAC := rq_header r ''X-Luna-Body-Mac''\<rparr>)
           (ae_now env 1) (ae_now env 2) (sv_replay s) = (replay, Some ErrReplay)"
  shows "fst (snd (handleSign env r s)) = http_Error (error_text ErrReplay) 409"
  using assms by (simp add: handleSign_def Let_def writeAuthError_def)

lemma admits_local_ca:
  assumes "ReadAll maxSignRequestBody r = Inr (rq_body r)"
    and "Unmarshal (ae_js env) sign_fields (rq_body r) zero_SignRequest = Some req0" and "rq_conn r = Some conn"
    and "ValidateSignRequest (ae_lib env) conn (rq_body r) (req0\<lparr>sr_BodyMAC := rq_header r ''X-Luna-Body-Mac''\<rparr>)
           (ae_now env 1) (ae_now env 2) (sv_replay s) = (replay, None)"
    and "ks_Available (sv_keystore s)" and "cfg_SignerMode (sv_cfg s) = SignerModeLocalCA" and "sr_AgentSignData req0 = []"
  shows "\<exists>dst. admits env r s (req0\<lparr>sr_BodyMAC := rq_header r ''X-Luna-Body-Mac''\<rparr>) [] dst replay"
  using assms by (auto simp: admits_def resolveHostKeyFingerprint_def check_destination_def Let_def SignerModeLocalCA_def
      SignerModeLocalKey_def)

lemma cert_post_admitted:
  assumes e: "new_ephemeral sx (cq_TargetUser req) (cq_TargetIP req) = Inr e" "key_works sx e"
    and shown: "presentable (cert_body sx req e)" and env: "in_step sx env"
    and js: "reads_back (sx_js sx) (ae_js env) (Request_json (cert_body sx req e))"
    and w: "Wrote conn w \<in> set (drop (length t) (fst (RequestCertificate sx nw c req t)))" and d: "delivers conn w r"
    and size: "length (or_body w) \<le> maxSignRequestBody"
    and s: "cfg_SignerMode (sv_cfg s) = SignerModeLocalCA" "ks_Available (sv_keystore s)"
    and new: "fst (AddIfNew (ae_now env 2) (sha256_Sum256 (or_body w)) (sv_replay s))"
  shows "\<exists>dst replay. admits env r s ((server_view (cert_body sx req e))\<lparr>sr_BodyMAC := rq_header r ''X-Luna-Body-Mac''\<rparr>) [] dst replay"
proof -
  let ?q = "cert_body sx req e"
  from RequestCertificate_writes [OF e(1) w] obtain mac where
    mac: "w = sign_post c (js_print (sx_js sx) (Request_json ?q)) mac"
      "sdk_ComputeBodyHMAC conn (js_print (sx_js sx) (Request_json ?q)) = Inr mac" by blast
  from d obtain sconn where sc: "rq_conn r = Some sconn" by (auto simp: delivers_def)
  have body: "rq_body r = or_body w" "\<not> rq_body_fails r" using d by (simp_all add: delivers_def)
  then have rd: "ReadAll maxSignRequestBody r = Inr (rq_body r)" using size by (simp add: ReadAll_def)
  note v = sdk_authenticates [OF e body_carries(1) shown env js mac d sc]
  have "ValidateSignRequest (ae_lib env) sconn (rq_body r) ((server_view ?q)\<lparr>sr_BodyMAC := rq_header r ''X-Luna-Body-Mac''\<rparr>)
           (ae_now env 1) (ae_now env 2) (sv_replay s) =
         (snd (AddIfNew (ae_now env 2) (sha256_Sum256 (rq_body r)) (sv_replay s)), None)"
    unfolding v(2) using new body by simp
  from admits_local_ca [OF rd v(1) sc this s(2,1)] show ?thesis by (auto simp: server_view_def cert_body_def)
qed

text \<open>
  (C9) A client is understood: a post of a certificate request that the library puts on the network
  is answered 202 with the identifier of a transaction, under these conditions. The proxy runs in
  \<open>local-ca\<close> mode with an open keystore and has not seen the body before; the post is delivered
  within the window of its timestamp; its user, address and client fields pass the proxy's check of
  display fields; and its body is not longer than the proxy reads. The library itself checks neither
  the display fields nor the length, and a post that misses one of these conditions is refused.
\<close>

theorem client_request_accepted:
  assumes e: "new_ephemeral sx (cq_TargetUser req) (cq_TargetIP req) = Inr e" "key_works sx e"
    and shown: "presentable (cert_body sx req e)" and env: "in_step sx env"
    and js: "reads_back (sx_js sx) (ae_js env) (Request_json (cert_body sx req e))"
    and w: "Wrote conn w \<in> set (drop (length t) (fst (RequestCertificate sx nw c req t)))" and d: "delivers conn w r"
    and size: "length (or_body w) \<le> maxSignRequestBody"
    and s: "cfg_SignerMode (sv_cfg s) = SignerModeLocalCA" "ks_Available (sv_keystore s)"
    and new: "fst (AddIfNew (ae_now env 2) (sha256_Sum256 (or_body w)) (sv_replay s))"
  shows "\<exists>s' txID jobs. handleSign env r s = (s', tx_response txID, jobs)"
proof -
  obtain dst replay where
    "admits env r s ((server_view (cert_body sx req e))\<lparr>sr_BodyMAC := rq_header r ''X-Luna-Body-Mac''\<rparr>) [] dst replay"
    using cert_post_admitted [OF assms] by blast
  from admits_answered [OF this] show ?thesis by (cases "handleSign env r s") fastforce
qed

lemma accepted_cache:
  assumes "handleSign env r s = (s', resp, jobs)" and "rp_status resp = 202"
  shows "fst (AddIfNew (ae_now env 2) (sha256_Sum256 (rq_body r)) (sv_replay s))"
    and "sv_replay s' = snd (AddIfNew (ae_now env 2) (sha256_Sum256 (rq_body r)) (sv_replay s))"
proof -
  from assms obtain req fp dst replay where a: "admits env r s req fp dst replay"
      "handleSign env r s = sign_admitted env r req fp dst (s\<lparr>sv_replay := replay\<rparr>)"
    by (cases rule: handleSign_cases [of env r s]) auto
  from a(1) obtain conn where
    "ValidateSignRequest (ae_lib env) conn (rq_body r) req (ae_now env 1) (ae_now env 2) (sv_replay s) = (replay, None)"
    by (auto simp: admits_def)
  note n = accepted_AddIfNew [OF this]
  have "after (\<lambda>t. sv_replay t = replay) (handleSign env r s)"
    unfolding a(2) by (rule sign_admitted_replay) simp
  then have "sv_replay s' = replay" using assms(1) by (simp add: after_def)
  with n show "fst (AddIfNew (ae_now env 2) (sha256_Sum256 (rq_body r)) (sv_replay s))"
    and "sv_replay s' = snd (AddIfNew (ae_now env 2) (sha256_Sum256 (rq_body r)) (sv_replay s))" by auto
qed

text \<open>
  (C40) A second attempt cannot succeed after a first one that did: both posts of a request have the
  same body, so that the proxy, having accepted the first, answers the second with 409 for as long
  as its cache holds the digest. A client that lost the answer to its first post is told of a
  replay, and the transaction it started stays behind.
\<close>

theorem retry_is_a_replay:
  assumes e: "new_ephemeral sx (cq_TargetUser req) (cq_TargetIP req) = Inr e" "key_works sx e"
    and shown: "presentable (cert_body sx req e)" and env': "in_step sx env'"
    and js: "reads_back (sx_js sx) (ae_js env') (Request_json (cert_body sx req e))"
    and w1: "Wrote conn1 w1 \<in> set (drop (length t) (fst (RequestCertificate sx nw c req t)))" and d1: "delivers conn1 w1 r1"
    and w2: "Wrote conn2 w2 \<in> set (drop (length t) (fst (RequestCertificate sx nw c req t)))" and d2: "delivers conn2 w2 r2"
    and first: "handleSign env r1 s = (s', resp, jobs)" "rp_status resp = 202"
    and cache: "replay_inv (sv_replay s)" "0 < rp_max (sv_replay s)"
    and soon: "ae_now env' 2 < ae_now env 2 + rp_ttl (sv_replay s)" and size: "length (or_body w2) \<le> maxSignRequestBody"
  shows "fst (snd (handleSign env' r2 s')) = http_Error ''replay detected'' 409"
proof -
  let ?q = "cert_body sx req e"
  let ?body = "js_print (sx_js sx) (Request_json ?q)"
  from RequestCertificate_writes [OF e(1) w1] d1 have b1: "rq_body r1 = ?body" by (auto simp: sign_post_def delivers_def)
  from RequestCertificate_writes [OF e(1) w2] obtain mac where
    mac: "w2 = sign_post c ?body mac" "sdk_ComputeBodyHMAC conn2 ?body = Inr mac" by blast
  from d2 obtain sconn where sc: "rq_conn r2 = Some sconn" by (auto simp: delivers_def)
  have body: "rq_body r2 = or_body w2" "\<not> rq_body_fails r2" using d2 by (simp_all add: delivers_def)
  have b2: "rq_body r2 = ?body" using body mac by (simp add: sign_post_def)
  have rd: "ReadAll maxSignRequestBody r2 = Inr (rq_body r2)" using size body by (simp add: ReadAll_def)
  note n = accepted_cache [OF first]
  have "remembered (sha256_Sum256 ?body) (ae_now env 2 + rp_ttl (sv_replay s)) 0 (sv_replay s')"
    using AddIfNew_True_remembers [OF cache(1) n(1) cache(2)] n(2) b1 by simp
  moreover have "replay_inv (sv_replay s')" using n(2) AddIfNew_inv [OF cache(1)] by simp
  ultimately have "\<not> fst (AddIfNew (ae_now env' 2) (sha256_Sum256 ?body) (sv_replay s'))"
    using soon remembered_rejects by blast
  then have "ValidateSignRequest (ae_lib env') sconn (rq_body r2) ((server_view ?q)\<lparr>sr_BodyMAC := rq_header r2 ''X-Luna-Body-Mac''\<rparr>)
       (ae_now env' 1) (ae_now env' 2) (sv_replay s') =
     (snd (AddIfNew (ae_now env' 2) (sha256_Sum256 (rq_body r2)) (sv_replay s')), Some ErrReplay)"
    unfolding sdk_authenticates(2) [OF e body_carries(1) shown env' js mac d2 sc] using b2 by simp
  from replayed_handles [OF rd sdk_authenticates(1) [OF e body_carries(1) shown env' js mac d2 sc] sc this]
  show ?thesis by simp
qed

section \<open>An example\<close>

text \<open>A network that loses the answer to the first post and delivers the second.\<close>

definition demo_ephemeral :: ephemeral where
  "demo_ephemeral = \<lparr>ep_pub = \<lparr>pk_Type = ''ssh-ed25519'', pk_Marshal = ''key''\<rparr>, ep_priv = ''key'', ep_ts = 1000,
     ep_pop = hex_EncodeToString (''key'' @ popChallenge ''deploy'' ''10.0.1.50'' 1000)\<rparr>"

definition demo_cert_request :: CertRequest where
  "demo_cert_request = \<lparr>cq_TargetUser = ''deploy'', cq_TargetIP = ''10.0.1.50'',
     cq_Client = \<lparr>ci_SourceUser = [], ci_ClientName = [], ci_ClientVersion = []\<rparr>\<rparr>"

definition demo_request_json :: json where
  "demo_request_json = Request_json
     \<lparr>rt_PublicKey = ''key'', rt_TargetUser = ''deploy'', rt_TargetIP = ''10.0.1.50'', rt_Timestamp = 1000,
      rt_PopSignature = ep_pop demo_ephemeral, rt_SourceUser = [], rt_ClientName = [], rt_ClientVersion = [],
      rt_AgentSignData = [], rt_HostKeyFingerprint = [], rt_SessionBinding = zero_binding, rt_DestinationHostPublicKey = []\<rparr>"

definition demo_js :: json_lib where
  "demo_js = \<lparr>js_parse = \<lambda>_. Some demo_request_json, js_print = \<lambda>_. ''body''\<rparr>"

definition demo_sdk :: sdk_lib where
  "demo_sdk =
     \<lparr>sx_ssh = demo_ssh, sx_GenerateKey = Inr (''key'', ''key''),
      sx_NewPublicKey = \<lambda>b. Inr \<lparr>pk_Type = ''ssh-ed25519'', pk_Marshal = b\<rparr>,
      sx_ed25519_Sign = \<lambda>priv msg. priv @ msg, sx_AsCertificate = \<lambda>_. None, sx_NewCertSigner = \<lambda>_ sg. Inr sg, sx_js = demo_js,
      sx_Decode = \<lambda>_. Some (JObject [(''tx_id'', JString ''tx_1'')]),
      sx_url_Parse = \<lambda>_. Inr \<lparr>url_Scheme = ''https'', url_Host = ''proxy''\<rparr>, sx_valid_url = \<lambda>_. True, sx_now = 1000 * second\<rparr>"

definition demo_network :: "(unit, unit) network" where
  "demo_network =
     \<lparr>nw_DialContext = \<lambda>_ _. None, nw_Handshake = \<lambda>_ _. Inr demo_conn,
      nw_RoundTrip = \<lambda>t _ _. if length t < 2 then Inl (Errorf ''unexpected EOF'')
                             else Inr \<lparr>in_status = 202, in_body = ''answer'', in_read_err = None\<rparr>,
      nw_Do = \<lambda>_ _ _. Inl (Errorf ''no route'')\<rparr>"

definition demo_sdk_client :: "(unit, unit) sign_Client" where
  "demo_sdk_client = \<lparr>sc_timeout = 0, sc_proxyURL = ''https://proxy'', sc_tlsCfg = \<lparr>ctl_Certificate = (), ctl_RootCAs = (),
     ctl_ServerName = ''proxy'', ctl_MinVersion = tls_VersionTLS12\<rparr>, sc_addr = ''proxy:443''\<rparr>"

definition demo_write :: out_request where
  "demo_write = sign_post demo_sdk_client ''body'' (hmac_Sum ''exported key'' ''body'')"

lemma demo_eof: "isRetryableConnErr (Wrapf ''POST sign: '' (Errorf ''unexpected EOF'') '''')"
  by code_simp

lemma demo_new_ephemeral: "new_ephemeral demo_sdk ''deploy'' ''10.0.1.50'' = Inr demo_ephemeral"
  by (simp add: new_ephemeral_def demo_sdk_def signPoP_def Let_def demo_ephemeral_def time_Unix_def second_def popChallenge_def)

lemma demo_key_works: "key_works demo_sdk demo_ephemeral"
  by (simp add: key_works_def demo_sdk_def demo_ephemeral_def demo_ssh_def)

lemma demo_cert_body:
  "Request_json (cert_body demo_sdk demo_cert_request demo_ephemeral) = demo_request_json"
  by (simp add: cert_body_def demo_sdk_def demo_ssh_def demo_request_json_def demo_cert_request_def demo_ephemeral_def)

lemma demo_sdk_mac: "sdk_ComputeBodyHMAC demo_conn ''body'' = Inr (hmac_Sum ''exported key'' ''body'')"
  by (simp add: sdk_ComputeBodyHMAC_def demo_conn_def)

lemma demo_once:
  "postSignOnce demo_sdk demo_network demo_sdk_client ''body'' t =
     (t @ [Dialed ''proxy:443'', Wrote demo_conn demo_write],
      if t = [] then Inl (Wrapf ''POST sign: '' (Errorf ''unexpected EOF'') '''') else Inr ''tx_1'')"
proof -
  have f: "fold_key ''tx_id'' = ''TX_ID''" by code_simp
  have m: "sdk_ComputeBodyHMAC demo_conn ''body'' = Inr (hmac_Sum ''exported key'' ''body'')" by (rule demo_sdk_mac)
  have d: "dialTLS demo_network demo_sdk_client t = (t @ [Dialed ''proxy:443''], Inr demo_conn)"
    by (simp add: dialTLS_def demo_network_def demo_sdk_client_def)
  have v: "sx_valid_url demo_sdk u" for u by (simp add: demo_sdk_def)
  have r: "doHTTPOverConn demo_network demo_conn w (t @ [Dialed a]) = (t @ [Dialed a, Wrote demo_conn w],
      if t = [] then Inl (Errorf ''unexpected EOF'') else Inr \<lparr>in_status = 202, in_body = ''answer'', in_read_err = None\<rparr>)" for w a
    by (cases t) (simp_all add: doHTTPOverConn_def demo_network_def)
  have x: "Decode_limited demo_sdk Response_fields resp [] = Some ''tx_1''" for resp
    by (simp add: Decode_limited_def demo_sdk_def decode_struct_def Response_fields_def string_field_def f)
  show ?thesis unfolding postSignOnce_def d
    by (simp add: m v r x Let_def demo_write_def)
qed

lemma demo_posts:
  "postSign demo_sdk demo_network demo_sdk_client ''body'' [] =
     ([Dialed ''proxy:443'', Wrote demo_conn demo_write, Dialed ''proxy:443'', Wrote demo_conn demo_write], Inr ''tx_1'')"
  by (simp add: postSign_def attempts_unfold demo_once demo_eof or_zero_def)

lemma demo_written:
  "Wrote demo_conn demo_write \<in> set (drop (length []) (fst (RequestCertificate demo_sdk demo_network demo_sdk_client demo_cert_request [])))"
proof -
  have n: "new_ephemeral demo_sdk (cq_TargetUser demo_cert_request) (cq_TargetIP demo_cert_request) = Inr demo_ephemeral"
    using demo_new_ephemeral by (simp add: demo_cert_request_def)
  have p: "js_print (sx_js demo_sdk) j = ''body''" for j by (simp add: demo_sdk_def demo_js_def)
  obtain evs where "fst (getWait demo_sdk demo_network demo_sdk_client ''tx_1''
      [Dialed ''proxy:443'', Wrote demo_conn demo_write, Dialed ''proxy:443'', Wrote demo_conn demo_write]) =
      [Dialed ''proxy:443'', Wrote demo_conn demo_write, Dialed ''proxy:443'', Wrote demo_conn demo_write] @ evs"
    using getWait_reads by blast
  then have "Wrote demo_conn demo_write \<in> set (fst (getWait demo_sdk demo_network demo_sdk_client ''tx_1''
      [Dialed ''proxy:443'', Wrote demo_conn demo_write, Dialed ''proxy:443'', Wrote demo_conn demo_write]))"
    by simp
  moreover have "cq_TargetUser demo_cert_request \<noteq> []" "cq_TargetIP demo_cert_request \<noteq> []"
    by (simp_all add: demo_cert_request_def)
  ultimately show ?thesis
    by (auto simp: RequestCertificate_def n p demo_posts split: prod.split sum.split)
qed

definition demo_sdk_env :: api_env where
  "demo_sdk_env = (demo_env [])\<lparr>ae_js := demo_js\<rparr>"

lemma demo_delivers: "delivers demo_conn demo_write (demo_post\<lparr>rq_header :=
    \<lambda>n. if n = ''Content-Type'' then ''application/json'' else hex_EncodeToString (hmac_Sum ''exported key'' ''body'')\<rparr>)"
  by (simp add: delivers_def demo_write_def sign_post_def demo_post_def FormatMACHeader_def)

lemma demo_in_step: "in_step demo_sdk demo_sdk_env"
  by (simp add: in_step_def demo_sdk_def demo_sdk_env_def demo_env_def time_Unix_def second_def int64_def timestampWindowSec_def)

lemma demo_presentable: "presentable (cert_body demo_sdk demo_cert_request demo_ephemeral)"
  using demo_display by (simp add: presentable_def cert_body_def demo_cert_request_def)

lemma demo_reads_back:
  "reads_back (sx_js demo_sdk) (ae_js demo_sdk_env) (Request_json (cert_body demo_sdk demo_cert_request demo_ephemeral))"
  by (simp add: reads_back_def demo_cert_body) (simp add: demo_sdk_env_def demo_js_def)

lemma demo_request_key:
  "new_ephemeral demo_sdk (cq_TargetUser demo_cert_request) (cq_TargetIP demo_cert_request) = Inr demo_ephemeral"
  using demo_new_ephemeral by (simp add: demo_cert_request_def)

lemma demo_open: "cfg_SignerMode (sv_cfg (demo_server SignerModeLocalCA demo_ca)) = SignerModeLocalCA"
  "ks_Available (sv_keystore (demo_server SignerModeLocalCA demo_ca))"
  "fst (AddIfNew now k (sv_replay (demo_server SignerModeLocalCA demo_ca)))"
  by (simp_all add: demo_server_def ks_Available_def demo_ca_def NewWithMode_def serve_cache_def AddIfNew_empty)

lemma demo_write_size: "length (or_body demo_write) \<le> maxSignRequestBody"
  by (simp add: demo_write_def sign_post_def maxSignRequestBody_def)

theorem client_request_accepted_witness:
  "\<exists>s' txID jobs. handleSign demo_sdk_env (demo_post\<lparr>rq_header :=
     \<lambda>n. if n = ''Content-Type'' then ''application/json'' else hex_EncodeToString (hmac_Sum ''exported key'' ''body'')\<rparr>)
     (demo_server SignerModeLocalCA demo_ca) = (s', tx_response txID, jobs)"
  by (rule client_request_accepted [OF demo_request_key demo_key_works demo_presentable demo_in_step demo_reads_back
        demo_written demo_delivers demo_write_size demo_open])

theorem retry_is_a_replay_witness:
  "\<exists>s' txID jobs r. handleSign demo_sdk_env r (demo_server SignerModeLocalCA demo_ca) = (s', tx_response txID, jobs)
     \<and> fst (snd (handleSign demo_sdk_env r s')) = http_Error ''replay detected'' 409"
proof -
  let ?r = "demo_post\<lparr>rq_header :=
     \<lambda>n. if n = ''Content-Type'' then ''application/json'' else hex_EncodeToString (hmac_Sum ''exported key'' ''body'')\<rparr>"
  let ?s = "demo_server SignerModeLocalCA demo_ca"
  obtain s' resp jobs where h: "handleSign demo_sdk_env ?r ?s = (s', resp, jobs)" by (metis prod_cases3)
  obtain dst replay where "admits demo_sdk_env ?r ?s
      ((server_view (cert_body demo_sdk demo_cert_request demo_ephemeral))\<lparr>sr_BodyMAC := rq_header ?r ''X-Luna-Body-Mac''\<rparr>) [] dst replay"
    using cert_post_admitted [OF demo_request_key demo_key_works demo_presentable demo_in_step demo_reads_back
        demo_written demo_delivers demo_write_size demo_open] by blast
  from admits_answered [OF this h] obtain txID where id1: "resp = tx_response txID" by blast
  have st: "rp_status resp = 202" using id1 by simp
  have c: "replay_inv (sv_replay ?s)" "0 < rp_max (sv_replay ?s)" "rp_ttl (sv_replay ?s) = 60 * second"
    by (simp_all add: demo_server_def serve_cache_def NewReplayLRU_inv) (simp_all add: NewReplayLRU_def)
  have soon: "ae_now demo_sdk_env 2 < ae_now demo_sdk_env 2 + rp_ttl (sv_replay ?s)" by (simp add: c(3) second_def)
  from retry_is_a_replay [OF demo_request_key demo_key_works demo_presentable demo_in_step demo_reads_back
      demo_written demo_delivers demo_written demo_delivers h st c(1,2) soon demo_write_size] h id1
  show ?thesis by blast
qed

section \<open>Agreement on the two sides\<close>

text \<open>
  (C22) The two sides compute the same things: the challenge that the library signs, in both of its
  copies, is the one the proxy verifies, the library's own verification decides like the
  proxy's, and the MAC in the header is the one the proxy expects on the same connection.
\<close>

theorem sides_agree:
  "challenge user ip ts = popChallenge user ip ts
   \<and> signPoP sx pub priv user ip ts = sdk_SignPoP sx pub priv user ip ts
   \<and> sdk_VerifyPoP lib pub user ip ts sigHex = VerifyPoP lib pub user ip ts sigHex
   \<and> sdk_ComputeBodyHMAC conn body = ComputeBodyHMAC conn body
   \<and> (VerifyBodyHMAC conn body (FormatMACHeader mac) = None \<longleftrightarrow> sdk_ComputeBodyHMAC conn body = Inr mac)"
proof -
  have c: "challenge user ip ts = popChallenge user ip ts" by (rule challenge_agrees)
  have "signPoP sx pub priv user ip ts = sdk_SignPoP sx pub priv user ip ts"
    by (simp add: signPoP_def sdk_SignPoP_def challenge_def Let_def)
  moreover have "sdk_VerifyPoP lib pub user ip ts sigHex = VerifyPoP lib pub user ip ts sigHex"
    unfolding sdk_VerifyPoP_def VerifyPoP_def challenge_agrees by (rule refl)
  moreover have m: "sdk_ComputeBodyHMAC conn body = ComputeBodyHMAC conn body"
    by (simp add: sdk_ComputeBodyHMAC_def ComputeBodyHMAC_def computeBodyHMAC_def sdk_exporterLabel_def exporterLabel_def)
  moreover have "VerifyBodyHMAC conn body (FormatMACHeader mac) = None \<longleftrightarrow> sdk_ComputeBodyHMAC conn body = Inr mac"
    by (auto simp: m ComputeBodyHMAC_def VerifyBodyHMAC_def FormatMACHeader_def hmac_Equal_def codec_simps split: sum.splits)
  ultimately show ?thesis using c by blast
qed

definition loaded_view :: "SignerInfo \<Rightarrow> LoadedSigner" where
  "loaded_view i = \<lparr>ls_Fingerprint = si_Fingerprint i, ls_PublicKey = si_PublicKey i, ls_Comment = si_Comment i\<rparr>"

lemma capability_folds:
  "fold_key ''fingerprint'' = ''FINGERPRINT''" "fold_key ''comment'' = ''COMMENT''"
  "fold_key ''signer_mode'' = ''SIGNER_MODE''" "fold_key ''lease_supported'' = ''LEASE_SUPPORTED''"
  "fold_key ''allowed_ttl_seconds'' = ''ALLOWED_TTL_SECONDS''" "fold_key ''sealed'' = ''SEALED''"
  "fold_key ''loaded_signers'' = ''LOADED_SIGNERS''"
  by code_simp+

lemma wait_folds:
  "fold_key ''ssh_certificate'' = ''SSH_CERTIFICATE''" "fold_key ''ssh_signature'' = ''SSH_SIGNATURE''"
  "fold_key ''expires_at'' = ''EXPIRES_AT''" "fold_key ''lease_expires_at'' = ''LEASE_EXPIRES_AT''" "fold_key ''tx_id'' = ''TX_ID''"
  by code_simp+

lemma decode_list_map: "(\<And>x. x \<in> set xs \<Longrightarrow> f (g x) = Some (h x)) \<Longrightarrow> decode_list f (map g xs) = Some (map h xs)"
  by (induction xs) auto

lemma decode_signer: "LoadedSigner_elem (signer_entry_json i) = Some (loaded_view i)"
  by (simp add: LoadedSigner_elem_def signer_entry_json_def decode_struct_def LoadedSigner_fields_def json_field_defs
      omit_string_def capability_folds demo_folds loaded_view_def)

lemma decode_ttls: "list_all int64 ns \<Longrightarrow> decode_list int_elem (map JInt ns) = Some ns"
  using decode_list_map [of ns int_elem JInt "\<lambda>n. n"] by (simp add: int_elem_def list_all_iff)

text \<open>
  The client reads what the proxy says: decoding the proxy's answers gives back the transaction
  identifier, the result of the wait, and the capabilities with every loaded signer, as long as the
  configured lease times are 64-bit integers.
\<close>

theorem answers_read_back:
  assumes "list_all int64 (cfg_AllowedTTLSeconds (sv_cfg s))"
  shows "(\<exists>j. tx_response txID = json_response 202 j \<and> decode_struct Response_fields j [] = Some txID)
    \<and> decode_struct WaitResponse_fields (wait_json now a) zero_WaitResponse =
        Some \<lparr>wr_SSHCertificate = wa_cert a, wr_SSHSignature = wa_signature a,
              wr_ExpiresAt = formatTimeRFC3339 now (wa_expiresAt a) (5 * minute),
              wr_LeaseExpiresAt = (if time_IsZero (wa_leaseExpiresAt a) then [] else Format_RFC3339 (wa_leaseExpiresAt a))\<rparr>
    \<and> (\<exists>j. fst (snd (handleCapabilities env r s)) = json_response 200 j
         \<and> decode_struct Capabilities_fields j zero_Capabilities =
             Some \<lparr>cap_SignerMode = cfg_SignerMode (sv_cfg s), cap_LeaseSupported = True,
                   cap_AllowedTTLSeconds = cfg_AllowedTTLSeconds (sv_cfg s), cap_Sealed = (\<not> ks_Available (sv_keystore s)),
                   cap_LoadedSigners = (if ks_Available (sv_keystore s)
                     then map loaded_view (ListSigners (ae_lib env) (sv_keystore s)) else [])\<rparr>)"
proof -
  have "\<exists>j. tx_response txID = json_response 202 j \<and> decode_struct Response_fields j [] = Some txID"
    by (simp add: tx_response_def json_response_def Response_fields_def decode_struct_def string_field_def wait_folds)
  moreover have "decode_struct WaitResponse_fields (wait_json now a) zero_WaitResponse =
        Some \<lparr>wr_SSHCertificate = wa_cert a, wr_SSHSignature = wa_signature a,
              wr_ExpiresAt = formatTimeRFC3339 now (wa_expiresAt a) (5 * minute),
              wr_LeaseExpiresAt = (if time_IsZero (wa_leaseExpiresAt a) then [] else Format_RFC3339 (wa_leaseExpiresAt a))\<rparr>"
    by (simp add: wait_json_def WaitResponse_fields_def decode_struct_def json_field_defs omit_string_def wait_folds
        zero_WaitResponse_def)
  moreover have "decode_list LoadedSigner_elem (map signer_entry_json is1) = Some (map loaded_view is1)" for is1
    by (rule decode_list_map) (rule decode_signer)
  then have "\<exists>j. fst (snd (handleCapabilities env r s)) = json_response 200 j
         \<and> decode_struct Capabilities_fields j zero_Capabilities =
             Some \<lparr>cap_SignerMode = cfg_SignerMode (sv_cfg s), cap_LeaseSupported = True,
                   cap_AllowedTTLSeconds = cfg_AllowedTTLSeconds (sv_cfg s), cap_Sealed = (\<not> ks_Available (sv_keystore s)),
                   cap_LoadedSigners = (if ks_Available (sv_keystore s)
                     then map loaded_view (ListSigners (ae_lib env) (sv_keystore s)) else [])\<rparr>"
    using decode_ttls [OF assms]
    by (auto simp: handleCapabilities_def Let_def json_response_def decode_struct_def Capabilities_fields_def json_field_defs
        capability_folds zero_Capabilities_def)
  ultimately show ?thesis by blast
qed

theorem answers_read_back_witness:
  "\<exists>j. tx_response ''tx_1'' = json_response 202 j \<and> decode_struct Response_fields j [] = Some ''tx_1''"
proof -
  have "list_all int64 (cfg_AllowedTTLSeconds (sv_cfg (demo_server SignerModeLocalCA demo_ca)))"
    by (simp add: demo_server_def zero_Config_def)
  from answers_read_back [OF this] show ?thesis by blast
qed

section \<open>What the client refuses and how often it tries\<close>

definition names_destination :: "SignatureRequest \<Rightarrow> bytes \<Rightarrow> bool" where
  "names_destination req signData \<longleftrightarrow>
     sq_TargetUser req \<noteq> [] \<and> sq_TargetIP req \<noteq> [] \<and> signData \<noteq> [] \<and> \<not> bd_Forwarding (sq_SessionBinding req)
     \<and> (bd_HostPublicKey (sq_SessionBinding req) \<noteq> [] \<and> bd_SessionID (sq_SessionBinding req) \<noteq> []
          \<and> bd_Signature (sq_SessionBinding req) \<noteq> [] \<and> sq_DestinationHostPublicKey req = []
        \<or> bd_HostPublicKey (sq_SessionBinding req) = [] \<and> bd_SessionID (sq_SessionBinding req) = []
          \<and> bd_Signature (sq_SessionBinding req) = [] \<and> sq_DestinationHostPublicKey req \<noteq> [])"

lemma check_signature_request_iff: "check_signature_request req signData = None \<longleftrightarrow> names_destination req signData"
  by (auto simp: names_destination_def check_signature_request_def sessionBindingFields_def Let_def split: if_splits)

text \<open>
  A signature request that does not say where the signature goes never leaves the client:
  without a user, an address or data, with a forwarded or incomplete session binding, with neither
  a binding nor a host key or with both, it fails and nothing is put on the network. A request
  that does gets as far as the connection to the proxy, once the ephemeral key is there.
\<close>

theorem signature_request_checked:
  "if names_destination req signData
   then new_ephemeral sx (sq_TargetUser req) (sq_TargetIP req) = Inr e
        \<longrightarrow> (\<exists>evs. fst (RequestSignature sx nw c req signData t) = t @ Dialed (sc_addr c) # evs)
   else (\<exists>err. RequestSignature sx nw c req signData t = (t, Inl err))"
proof (cases "names_destination req signData")
  case False
  then show ?thesis by (auto simp: check_signature_request_iff [symmetric] RequestSignature_def)
next
  case True
  then have ok: "check_signature_request req signData = None" by (simp add: check_signature_request_iff)
  have "\<exists>evs. fst (RequestSignature sx nw c req signData t) = t @ Dialed (sc_addr c) # evs"
    if e: "new_ephemeral sx (sq_TargetUser req) (sq_TargetIP req) = Inr e"
  proof -
    let ?body = "js_print (sx_js sx) (Request_json (signature_body sx req signData e))"
    obtain t1 r where p: "postSign sx nw c ?body t = (t1, r)" by fastforce
    obtain g where g: "t1 = t @ Dialed (sc_addr c) # g" using postSign_dials [of sx nw c ?body t] p by auto
    show ?thesis
    proof (cases r)
      case (Inl err)
      with p ok e g show ?thesis by (simp add: RequestSignature_def)
    next
      case (Inr txID)
      obtain g' where "fst (getWait sx nw c txID t1) = t1 @ g'" using getWait_reads by blast
      with Inr p ok e g show ?thesis
        by (auto simp: RequestSignature_def Let_def split: prod.split sum.split option.split)
    qed
  qed
  with True show ?thesis by simp
qed

definition demo_signature_request :: SignatureRequest where
  "demo_signature_request =
     \<lparr>sq_TargetUser = ''deploy'', sq_TargetIP = ''10.0.1.50'', sq_HostKeyFingerprint = [],
      sq_SessionBinding = zero_binding\<lparr>bd_HostPublicKey := ''host'', bd_SessionID := ''sid''\<rparr>,
      sq_DestinationHostPublicKey = [], sq_SignatureFormat = [],
      sq_Client = \<lparr>ci_SourceUser = [], ci_ClientName = [], ci_ClientVersion = []\<rparr>\<rparr>"

theorem signature_request_checked_witness:
  "(\<exists>err. RequestSignature demo_sdk demo_network demo_sdk_client demo_signature_request ''data'' [] = ([], Inl err))
   \<and> (\<exists>evs. fst (RequestSignature demo_sdk demo_network demo_sdk_client
        (demo_signature_request\<lparr>sq_SessionBinding := zero_binding, sq_DestinationHostPublicKey := ''host''\<rparr>) ''data'' [])
        = Dialed ''proxy:443'' # evs)"
proof -
  let ?r = "demo_signature_request\<lparr>sq_SessionBinding := zero_binding, sq_DestinationHostPublicKey := ''host''\<rparr>"
  have a: "\<not> names_destination demo_signature_request ''data''" "names_destination ?r ''data''"
    by (simp_all add: names_destination_def demo_signature_request_def zero_binding_def)
  have e: "new_ephemeral demo_sdk (sq_TargetUser ?r) (sq_TargetIP ?r) = Inr demo_ephemeral"
    using demo_new_ephemeral by (simp add: demo_signature_request_def)
  have addr: "sc_addr demo_sdk_client = ''proxy:443''" by (simp add: demo_sdk_client_def)
  have one: "\<exists>err. RequestSignature demo_sdk demo_network demo_sdk_client demo_signature_request ''data'' [] = ([], Inl err)"
    using signature_request_checked [of demo_signature_request "''data''" demo_sdk demo_ephemeral demo_network demo_sdk_client "[]"]
    by (simp only: a if_False)
  have "\<exists>evs. fst (RequestSignature demo_sdk demo_network demo_sdk_client ?r ''data'' []) = [] @ Dialed (sc_addr demo_sdk_client) # evs"
    using signature_request_checked [of ?r "''data''" demo_sdk demo_ephemeral demo_network demo_sdk_client "[]"] e
    by (simp only: a if_True simp_thms)
  with one show ?thesis by (simp only: addr append_Nil)
qed

text \<open>
  (C23) Posting ends after at most two connections: each one carries nothing but the one request,
  with a MAC under that connection's own key; a second one is opened only after an error of the
  connection, and success always comes with the identifier of a transaction.
\<close>

theorem post_at_most_twice:
  "\<exists>evs. fst (postSign sx nw c body t) = t @ concat evs \<and> 1 \<le> length evs \<and> length evs \<le> 2
     \<and> (\<forall>e \<in> set evs. posts c body e)
     \<and> (length evs = 2 \<longrightarrow> (\<exists>err. snd (postSignOnce sx nw c body t) = Inl err \<and> isRetryableConnErr err))
     \<and> (case snd (postSign sx nw c body t) of Inl _ \<Rightarrow> True | Inr txID \<Rightarrow> txID \<noteq> [])"
proof -
  have id1: "case snd (postSign sx nw c body t) of Inl _ \<Rightarrow> True | Inr txID \<Rightarrow> txID \<noteq> []"
    using postSign_txID [of sx nw c body t] by (auto split: sum.split) (metis prod.collapse)
  show ?thesis
  proof (cases rule: postSign_cases [of sx nw c body t])
    case (once t' r)
    with postSignOnce_posts [of sx nw c body t] obtain e where "t' = t @ e" "posts c body e" by auto
    then show ?thesis using once(1) id1 by (intro exI [of _ "[e]"]) simp
  next
    case (twice t1 err t' r)
    with postSignOnce_posts [of sx nw c body t] obtain e where e: "t1 = t @ e" "posts c body e" by auto
    from twice postSignOnce_posts [of sx nw c body t1] obtain e' where "t' = t1 @ e'" "posts c body e'" by auto
    with e show ?thesis using twice(1-3) id1 by (intro exI [of _ "[e, e']"]) simp
  qed
qed

theorem post_at_most_twice_witness:
  "\<exists>evs. fst (postSign demo_sdk demo_network demo_sdk_client ''body'' []) = [] @ concat evs \<and> length evs \<le> 2"
  using post_at_most_twice [of demo_sdk demo_network demo_sdk_client "''body''" "[]"] by blast

end
