(* ===== verification/Agent.thy ===== *)
theory Agent
  imports Agent_Config Sdk_Server
begin

text \<open>
  The agent (\<open>agent/agent.go\<close>, \<open>agent/identities.go\<close>, \<open>agent/session_bind.go\<close>): an SSH agent that signs by
  asking the proxy. Its one state is shared by the connections, each of which keeps the session
  binding that \<open>ssh\<close> announced on it. The provider of credentials is an interface, here the record
  \<open>AccessProvider\<close> of its operations over a state of its own; the client library is the provider
  the program uses. The log lines of the debug mode are left out.
\<close>

section \<open>Data\<close>

record agent_Key =
  ak_Format :: string
  ak_Blob :: bytes

record 's AccessProvider =
  ap_SignerMode :: string
  ap_RequestCertificate :: "duration \<Rightarrow> CertRequest \<Rightarrow> 's \<Rightarrow> 's \<times> (Certificate \<times> bytes) result"
  ap_RequestSignature :: "duration \<Rightarrow> SignatureRequest \<Rightarrow> bytes \<Rightarrow> 's \<Rightarrow> 's \<times> Signature result"

record LunaAgent =
  la_signerMode :: string
  la_targetUser :: string
  la_targetHost :: string
  la_hostKeyFingerprint :: string
  la_approvalTimeout :: duration
  la_identities :: "agent_Key list"
  la_locked :: bool

text \<open>The wire decoder of a \<open>session-bind@openssh.com\<close> message stands beside the other ones.\<close>

record agent_lib =
  gl_sdk :: sdk_lib
  gl_wire :: ssh_wire
  gl_binding :: "bytes \<Rightarrow> sdk_SessionBinding result"

text \<open>The client library as a provider; the network knows how long it has.\<close>

definition sdk_provider ::
  "sdk_lib \<Rightarrow> (duration \<Rightarrow> ('c, 'p) network) \<Rightarrow> ('c, 'p) sdk_Client \<Rightarrow> net_event list AccessProvider" where
  "sdk_provider sx nw c =
     \<lparr>ap_SignerMode = sdk_SignerMode c,
      ap_RequestCertificate = \<lambda>d req t. sdk_RequestCertificate sx (nw d) c req t,
      ap_RequestSignature = \<lambda>d req data t. sdk_RequestSignature sx (nw d) c req data t\<rparr>"

section \<open>The agent\<close>

definition NewLunaAgent ::
  "string \<Rightarrow> string \<Rightarrow> string \<Rightarrow> string \<Rightarrow> agent_Key list \<Rightarrow> duration \<Rightarrow> LunaAgent" where
  "NewLunaAgent mode targetUser targetHost hostKeyFingerprint identities approvalTimeout =
     \<lparr>la_signerMode = or_default mode SignerModeLocalCA, la_targetUser = targetUser, la_targetHost = targetHost,
      la_hostKeyFingerprint = hostKeyFingerprint,
      la_approvalTimeout = (if approvalTimeout \<le> 0 then agent_defaultApprovalTimeout else approvalTimeout),
      la_identities = identities, la_locked = False\<rparr>"

definition agent_List :: "LunaAgent \<Rightarrow> agent_Key list" where
  "agent_List a = (if la_locked a then [] else la_identities a)"

definition signWithBinding ::
  "agent_lib \<Rightarrow> agent_os \<Rightarrow> 's AccessProvider \<Rightarrow> LunaAgent \<Rightarrow> PublicKey option \<Rightarrow> bytes \<Rightarrow> sdk_SessionBinding \<Rightarrow> 's \<Rightarrow>
   's \<times> Signature result" where
  "signWithBinding gl os p a pub data binding s =
     (if la_locked a then (s, Inl (Errorf ''agent locked''))
      else let mode = (if ap_SignerMode p \<noteq> [] then ap_SignerMode p else la_signerMode a)
           in if mode = SignerModeLocalKey
              then if length (bd_HostPublicKey binding) = 0 \<or> length (bd_SessionID binding) = 0
                      \<or> length (bd_Signature binding) = 0
                   then (s, Inl (Errorf ''session-bind@openssh.com required for local-key signing''))
                   else (let fp = (case pub of Some k \<Rightarrow> PublicKeyFingerprint k | None \<Rightarrow> la_hostKeyFingerprint a)
                         in ap_RequestSignature p (la_approvalTimeout a)
                              \<lparr>sq_TargetUser = la_targetUser a, sq_TargetIP = la_targetHost a, sq_HostKeyFingerprint = fp,
                               sq_SessionBinding = binding, sq_DestinationHostPublicKey = [], sq_SignatureFormat = [],
                               sq_Client = DefaultClientInfo os\<rparr> data s)
              else case ap_RequestCertificate p (la_approvalTimeout a)
                          \<lparr>cq_TargetUser = la_targetUser a, cq_TargetIP = la_targetHost a, cq_Client = DefaultClientInfo os\<rparr> s of
                     (s', Inl err) \<Rightarrow> (s', Inl err)
                   | (s', Inr (cert, priv)) \<Rightarrow>
                       (case sdk_NewCertSigner (gl_sdk gl) (Some cert) priv of
                          Inl err \<Rightarrow> (s', Inl err)
                        | Inr signer \<Rightarrow> (s', ssh_Sign (sx_ssh (gl_sdk gl)) signer data)))"

definition agent_Sign ::
  "agent_lib \<Rightarrow> agent_os \<Rightarrow> 's AccessProvider \<Rightarrow> LunaAgent \<Rightarrow> PublicKey option \<Rightarrow> bytes \<Rightarrow> 's \<Rightarrow> 's \<times> Signature result" where
  "agent_Sign gl os p a pub data s = signWithBinding gl os p a pub data zero_binding s"

definition agent_Lock :: "LunaAgent \<Rightarrow> LunaAgent" where
  "agent_Lock a = a\<lparr>la_locked := True\<rparr>"

definition agent_Unlock :: "LunaAgent \<Rightarrow> LunaAgent" where
  "agent_Unlock a = a\<lparr>la_locked := False\<rparr>"

section \<open>One connection\<close>

definition sessionBindExtension :: string where
  "sessionBindExtension = ''session-bind@openssh.com''"

definition NewConnectionAgent :: sdk_SessionBinding where
  "NewConnectionAgent = zero_binding"

text \<open>The extension request, on the binding of the connection.\<close>

definition Extension ::
  "agent_lib \<Rightarrow> string \<Rightarrow> bytes \<Rightarrow> sdk_SessionBinding \<Rightarrow> sdk_SessionBinding \<times> go_error option" where
  "Extension gl extensionType contents binding =
     (if extensionType \<noteq> sessionBindExtension then (binding, Some ErrExtensionUnsupported)
      else case gl_binding gl contents of
             Inl err \<Rightarrow> (binding, Some (Wrapf ''invalid session binding: '' err ''''))
           | Inr msg \<Rightarrow>
      if bd_Forwarding msg then (binding, Some (Errorf ''forwarded session binding is not allowed''))
      else case ssh_ParsePublicKey (sx_ssh (gl_sdk gl)) (bd_HostPublicKey msg) of
             Inl err \<Rightarrow> (binding, Some (Wrapf ''invalid session host key: '' err ''''))
           | Inr hostKey \<Rightarrow>
      (case wire_Signature (gl_wire gl) (bd_Signature msg) of
             Inl err \<Rightarrow> (binding, Some (Wrapf ''invalid session signature: '' err ''''))
           | Inr sig \<Rightarrow>
      (case ssh_Verify (sx_ssh (gl_sdk gl)) hostKey (bd_SessionID msg) sig of
             Some err \<Rightarrow> (binding, Some (Wrapf ''verify session binding: '' err ''''))
           | None \<Rightarrow>
               (\<lparr>bd_HostPublicKey = bd_HostPublicKey msg, bd_SessionID = bd_SessionID msg, bd_Signature = bd_Signature msg,
                 bd_Forwarding = False\<rparr>, None))))"

definition SignWithFlags ::
  "agent_lib \<Rightarrow> agent_os \<Rightarrow> 's AccessProvider \<Rightarrow> LunaAgent \<Rightarrow> sdk_SessionBinding \<Rightarrow> PublicKey option \<Rightarrow> bytes \<Rightarrow> nat \<Rightarrow> 's \<Rightarrow>
   's \<times> Signature result" where
  "SignWithFlags gl os p a binding pub data flags s = signWithBinding gl os p a pub data binding s"

definition conn_Sign ::
  "agent_lib \<Rightarrow> agent_os \<Rightarrow> 's AccessProvider \<Rightarrow> LunaAgent \<Rightarrow> sdk_SessionBinding \<Rightarrow> PublicKey option \<Rightarrow> bytes \<Rightarrow> 's \<Rightarrow>
   's \<times> Signature result" where
  "conn_Sign gl os p a binding pub data s = SignWithFlags gl os p a binding pub data 0 s"

section \<open>Identities\<close>

definition agentKeyFromPublic :: "PublicKey \<Rightarrow> agent_Key" where
  "agentKeyFromPublic pub = \<lparr>ak_Format = pk_Type pub, ak_Blob = pk_Marshal pub\<rparr>"

definition parsePublicKeyLine :: "ssh_lib \<Rightarrow> string \<Rightarrow> PublicKey result" where
  "parsePublicKeyLine lib line =
     (if line = [] then Inl (Errorf ''empty public key'')
      else case ssh_ParseAuthorizedKey lib line of
             Inr pub \<Rightarrow> Inr pub
           | Inl _ \<Rightarrow> ssh_ParsePublicKey lib line)"

definition loadHostedPublicKeyLine :: "agent_os \<Rightarrow> string \<Rightarrow> string result" where
  "loadHostedPublicKeyLine os pathOrLine0 =
     (let pathOrLine = TrimSpace pathOrLine0
      in if pathOrLine = [] then Inr []
         else if HasPrefix pathOrLine ''ssh-'' then Inr pathOrLine
         else case go_ReadFile os pathOrLine of
                Inl err \<Rightarrow> Inl (Wrapf ''read hosted_public_key: '' err '''')
              | Inr raw \<Rightarrow> Inr (TrimSpace raw))"

definition resolveLocalCAIdentities :: "sdk_lib \<Rightarrow> agent_Key list result" where
  "resolveLocalCAIdentities sx =
     (case sx_GenerateKey sx of
        Inl err \<Rightarrow> Inl (Wrapf ''generate ephemeral key: '' err '''')
      | Inr (_, priv) \<Rightarrow>
     (case ssh_NewSignerFromKey (sx_ssh sx) priv of
        Inl err \<Rightarrow> Inl (Wrapf ''ssh signer: '' err '''')
      | Inr signer \<Rightarrow> Inr [agentKeyFromPublic (sg_PublicKey signer)]))"

text \<open>The line of one loaded signer: its own, or the configured one where it may stand in for it.\<close>

definition signer_line :: "string \<Rightarrow> PublicKey option \<Rightarrow> string \<Rightarrow> nat \<Rightarrow> LoadedSigner \<Rightarrow> string" where
  "signer_line fallbackLine fallbackPub flt n s =
     (let pubLine = TrimSpace (ls_PublicKey s)
      in case fallbackPub of
           None \<Rightarrow> pubLine
         | Some k \<Rightarrow>
             if pubLine = [] \<and> (flt \<noteq> [] \<or> n = 1)
                \<and> (flt = [] \<or> normalizeFingerprintHint (ls_Fingerprint s) = PublicKeyFingerprint k)
             then fallbackLine else pubLine)"

fun collect_keys ::
  "ssh_lib \<Rightarrow> (LoadedSigner \<Rightarrow> string) \<Rightarrow> string \<Rightarrow> LoadedSigner list \<Rightarrow> agent_Key list \<Rightarrow> nat \<Rightarrow> (agent_Key list \<times> nat) result" where
  "collect_keys lib line flt [] keys missing = Inr (keys, missing)"
| "collect_keys lib line flt (s # ss) keys missing =
     (if flt \<noteq> [] \<and> normalizeFingerprintHint (ls_Fingerprint s) \<noteq> flt then collect_keys lib line flt ss keys missing
      else if line s = [] then collect_keys lib line flt ss keys (missing + 1)
      else case parsePublicKeyLine lib (line s) of
             Inl err \<Rightarrow> Inl (Wrapf ''parse loaded signer public key: '' err '''')
           | Inr pub \<Rightarrow> collect_keys lib line flt ss (keys @ [agentKeyFromPublic pub]) missing)"

definition resolveLocalKeyIdentities :: "ssh_lib \<Rightarrow> agent_os \<Rightarrow> Capabilities \<Rightarrow> agent_Config \<Rightarrow> agent_Key list result" where
  "resolveLocalKeyIdentities lib os caps cfg =
     (if cap_Sealed caps
      then Inl (Errorf ''proxy keystore is sealed; on the proxy host load a signing key: luna-proxy key load <encrypted-key>'')
      else if length (cap_LoadedSigners caps) = 0
      then Inl (Errorf ''no host signing keys loaded on proxy (use: luna-proxy key load)'')
      else case loadHostedPublicKeyLine os (gc_HostedPublicKey cfg) of
             Inl err \<Rightarrow> Inl err
           | Inr fallbackLine \<Rightarrow>
     (let fallbackPub = (case parsePublicKeyLine lib fallbackLine of Inl _ \<Rightarrow> None | Inr k \<Rightarrow> Some k);
          flt = normalizeFingerprintHint (gc_HostKeyFingerprint cfg)
      in case collect_keys lib (signer_line fallbackLine fallbackPub flt (length (cap_LoadedSigners caps))) flt
                (cap_LoadedSigners caps) [] 0 of
           Inl err \<Rightarrow> Inl err
         | Inr (keys, missing) \<Rightarrow>
             if keys = [] \<and> 0 < missing
             then Inl (Errorf (''proxy has '' @ FormatInt (int missing) @ '' loaded key(s) but capabilities returned no public_key; ''
                    @ ''rebuild luna-proxy (make build) or set hosted_public_key in agent config''))
             else if keys = []
             then Inl (Errorf ''no matching host signing keys (check host_key_fingerprint or hosted_public_key)'')
             else Inr keys))"

definition ResolveIdentities ::
  "sdk_lib \<Rightarrow> agent_os \<Rightarrow> string \<Rightarrow> Capabilities result \<Rightarrow> agent_Config \<Rightarrow> agent_Key list result" where
  "ResolveIdentities sx os clientMode fetched cfg =
     (case fetched of
        Inl err \<Rightarrow> Inl (Wrapf ''fetch capabilities: '' err '''')
      | Inr caps \<Rightarrow>
          (let mode = or_default (or_default (cap_SignerMode caps) clientMode) (gc_SignerMode cfg)
           in if mode = SignerModeLocalKey then resolveLocalKeyIdentities (sx_ssh sx) os caps cfg
              else resolveLocalCAIdentities sx))"

section \<open>Starting\<close>

text \<open>Clearing the old socket, listening on the path and restricting it to the user.\<close>

datatype remove_result = Removed | RemoveNotExist | RemoveFailed go_error

record listen_os =
  lo_Remove :: "string \<Rightarrow> remove_result"
  lo_Listen :: "string \<Rightarrow> go_error option"
  lo_Chmod :: "string \<Rightarrow> nat \<Rightarrow> go_error option"

record ('c, 'p) agent_tls =
  gt_LoadX509KeyPair :: "string \<Rightarrow> string \<Rightarrow> 'c result"
  gt_AppendCertsFromPEM :: "bytes \<Rightarrow> 'p option"

text \<open>The mode \<open>0o600\<close>.\<close>

definition owner_only :: nat where
  "owner_only = 6 * 64"

definition open_socket :: "agent_os \<Rightarrow> listen_os \<Rightarrow> string \<Rightarrow> go_error option" where
  "open_socket os lo path =
     (case EnsureSocketDir os path of
        Some err \<Rightarrow> Some err
      | None \<Rightarrow>
     (case lo_Remove lo path of
        RemoveFailed err \<Rightarrow> Some (Wrapf ''remove socket: '' err '''')
      | _ \<Rightarrow>
     (case lo_Listen lo path of
        Some err \<Rightarrow> Some (Wrapf (''listen '' @ path @ '': '') err '''')
      | None \<Rightarrow>
     (case lo_Chmod lo path owner_only of
        Some err \<Rightarrow> Some (Wrapf ''chmod socket: '' err '''')
      | None \<Rightarrow> None))))"

definition agent_client ::
  "sdk_lib \<Rightarrow> agent_os \<Rightarrow> ('c, 'p) agent_tls \<Rightarrow> agent_Config \<Rightarrow> ('c, 'p) sdk_Client result" where
  "agent_client sx os gt cfg =
     (case sdk_LoadTLSConfig (gt_LoadX509KeyPair gt) (gt_AppendCertsFromPEM gt) (go_ReadFile os)
             (gc_MTLSCert cfg) (gc_MTLSKey cfg) (gc_MTLSCA cfg) of
        Inl err \<Rightarrow> Inl (Wrapf ''tls: '' err '''')
      | Inr (tlsCert, tlsCA) \<Rightarrow>
     (case sdk_NewClient sx \<lparr>kf_ProxyURL = gc_ProxyURL cfg, kf_TLSCert = tlsCert, kf_TLSRootCAs = tlsCA,
             kf_Timeout = gc_ApprovalTimeout cfg, kf_SignerMode = gc_SignerMode cfg\<rparr> of
        Inl err \<Rightarrow> Inl (Wrapf ''sdk client: '' err '''')
      | Inr client \<Rightarrow> Inr client))"

definition runAgent ::
  "sdk_lib \<Rightarrow> agent_os \<Rightarrow> listen_os \<Rightarrow> ('c, 'p) agent_tls \<Rightarrow> ('c, 'p) network \<Rightarrow> 'v viper_lib \<Rightarrow>
   net_event list \<Rightarrow> net_event list \<times> (LunaAgent \<times> ('c, 'p) sdk_Client \<times> string) result" where
  "runAgent sx os lo gt nw vl t =
     (case agent_Load os vl of
        Inl err \<Rightarrow> (t, Inl (Wrapf ''config: '' err ''''))
      | Inr cfg \<Rightarrow>
     (case agent_client sx os gt cfg of
        Inl err \<Rightarrow> (t, Inl err)
      | Inr client \<Rightarrow>
     (let (t', caps) = sdk_FetchCapabilities sx nw client t
      in case ResolveIdentities sx os (sdk_SignerMode client) caps cfg of
           Inl err \<Rightarrow> (t', Inl (Wrapf ''identities: '' err ''''))
         | Inr identities \<Rightarrow>
             (let la = NewLunaAgent (gc_SignerMode cfg) (gc_TargetUser cfg) (gc_TargetHost cfg) (gc_HostKeyFingerprint cfg)
                         identities (gc_ApprovalTimeout cfg)
              in case open_socket os lo (gc_SocketPath cfg) of
                   Some err \<Rightarrow> (t', Inl err)
                 | None \<Rightarrow> (t', Inr (la, client, gc_SocketPath cfg))))))"

section \<open>A running agent\<close>

text \<open>The connections in the order in which they were accepted, each with its binding, and the
  state of the provider. The operations that change nothing (adding and removing keys, listing)
  are not events.\<close>

record 's agent_run =
  ar_agent :: LunaAgent
  ar_conns :: "sdk_SessionBinding list"
  ar_world :: 's

datatype agent_event =
    Accept
  | OnExtension nat string bytes
  | OnSign nat "PublicKey option" bytes
  | OnLock
  | OnUnlock

fun agent_exec :: "agent_lib \<Rightarrow> agent_os \<Rightarrow> 's AccessProvider \<Rightarrow> agent_event \<Rightarrow> 's agent_run \<Rightarrow> 's agent_run" where
  "agent_exec gl os p Accept r = r\<lparr>ar_conns := ar_conns r @ [NewConnectionAgent]\<rparr>"
| "agent_exec gl os p (OnExtension i extType contents) r =
     (if i < length (ar_conns r)
      then r\<lparr>ar_conns := (ar_conns r)[i := fst (Extension gl extType contents (ar_conns r ! i))]\<rparr> else r)"
| "agent_exec gl os p (OnSign i pub data) r =
     (if i < length (ar_conns r)
      then r\<lparr>ar_world := fst (conn_Sign gl os p (ar_agent r) (ar_conns r ! i) pub data (ar_world r))\<rparr> else r)"
| "agent_exec gl os p OnLock r = r\<lparr>ar_agent := agent_Lock (ar_agent r)\<rparr>"
| "agent_exec gl os p OnUnlock r = r\<lparr>ar_agent := agent_Unlock (ar_agent r)\<rparr>"

definition binding_verified :: "agent_lib \<Rightarrow> sdk_SessionBinding \<Rightarrow> bool" where
  "binding_verified gl b \<longleftrightarrow> \<not> bd_Forwarding b
     \<and> (\<exists>hostKey sig. ssh_ParsePublicKey (sx_ssh (gl_sdk gl)) (bd_HostPublicKey b) = Inr hostKey
          \<and> wire_Signature (gl_wire gl) (bd_Signature b) = Inr sig
          \<and> ssh_Verify (sx_ssh (gl_sdk gl)) hostKey (bd_SessionID b) sig = None)"

definition agent_inv :: "agent_lib \<Rightarrow> 's agent_run \<Rightarrow> bool" where
  "agent_inv gl r \<longleftrightarrow> (\<forall>b \<in> set (ar_conns r). b = zero_binding \<or> binding_verified gl b)"

lemma Extension_verified:
  "Extension gl extType contents b = (b', None) \<Longrightarrow> extType = sessionBindExtension \<and> binding_verified gl b'"
  by (auto simp: Extension_def binding_verified_def split: if_splits sum.splits option.splits)

lemma Extension_refused: "Extension gl extType contents b = (b', Some err) \<Longrightarrow> b' = b"
  by (auto simp: Extension_def split: if_splits sum.splits option.splits)

lemma Extension_keeps: "b = zero_binding \<or> binding_verified gl b \<Longrightarrow>
  fst (Extension gl extType contents b) = zero_binding \<or> binding_verified gl (fst (Extension gl extType contents b))"
  by (cases "Extension gl extType contents b"; cases "snd (Extension gl extType contents b)")
    (auto dest: Extension_verified Extension_refused)

interpretation agent_machine: op_machine "agent_exec gl os p" "agent_inv gl" for gl os and p :: "'s AccessProvider"
proof
  fix r :: "'s agent_run" and ev :: agent_event
  assume inv: "agent_inv gl r"
  show "agent_inv gl (agent_exec gl os p ev r)"
  proof (cases ev)
    case (OnExtension i extType contents)
    have "i < length (ar_conns r) \<Longrightarrow> fst (Extension gl extType contents (ar_conns r ! i)) = zero_binding
        \<or> binding_verified gl (fst (Extension gl extType contents (ar_conns r ! i)))"
      using inv by (intro Extension_keeps) (simp add: agent_inv_def)
    with OnExtension inv show ?thesis
      by (auto simp: agent_inv_def dest!: set_update_subset_insert [THEN subsetD])
  qed (use inv in \<open>auto simp: agent_inv_def NewConnectionAgent_def\<close>)
qed

lemma zero_binding_empty [simp]: "bd_HostPublicKey zero_binding = []" "bd_SessionID zero_binding = []"
  "bd_Signature zero_binding = []" "\<not> bd_Forwarding zero_binding"
  by (simp_all add: zero_binding_def)

lemma signWithBinding_local_key:
  assumes "ap_SignerMode p = SignerModeLocalKey" and "signWithBinding gl os p a pub data b s = (s', res)"
  shows "(\<exists>err. res = Inl err \<and> s' = s)
    \<or> \<not> la_locked a \<and> bd_HostPublicKey b \<noteq> [] \<and> bd_SessionID b \<noteq> [] \<and> bd_Signature b \<noteq> []
      \<and> (\<exists>req. sq_SessionBinding req = b \<and> sq_TargetUser req = la_targetUser a \<and> sq_TargetIP req = la_targetHost a
           \<and> ap_RequestSignature p (la_approvalTimeout a) req data s = (s', res))"
  using assms by (auto simp: signWithBinding_def Let_def SignerModeLocalKey_def split: if_splits intro!: exI)

lemma agent_exec_agent:
  "la_targetUser (ar_agent (agent_exec gl os p ev r)) = la_targetUser (ar_agent r)"
  "la_targetHost (ar_agent (agent_exec gl os p ev r)) = la_targetHost (ar_agent r)"
  by (cases ev; simp add: agent_Lock_def agent_Unlock_def)+

lemma agent_run_agent:
  "la_targetUser (ar_agent (fold (agent_exec gl os p) evs r)) = la_targetUser (ar_agent r)"
  "la_targetHost (ar_agent (fold (agent_exec gl os p) evs r)) = la_targetHost (ar_agent r)"
  by (induction evs arbitrary: r) (simp_all add: agent_exec_agent)

text \<open>
  (C8) No hosted-key signature without a proved destination: whatever requests arrive on whatever
  connections, in \<open>local-key\<close> mode an attempt to sign either fails with the provider untouched, or it
  asks the provider for the configured user and host with the binding of that very connection,
  which the destination's host key has signed and which is not a forwarded one.
\<close>

theorem agent_signs_bound_sessions:
  assumes "ap_SignerMode p = SignerModeLocalKey"
    and "r = fold (agent_exec gl os p) evs \<lparr>ar_agent = a, ar_conns = [], ar_world = w\<rparr>" and "i < length (ar_conns r)"
    and "conn_Sign gl os p (ar_agent r) (ar_conns r ! i) pub data (ar_world r) = (w', res)"
  shows "(\<exists>err. res = Inl err \<and> w' = ar_world r)
    \<or> binding_verified gl (ar_conns r ! i)
      \<and> (\<exists>req d. sq_SessionBinding req = ar_conns r ! i \<and> sq_TargetUser req = la_targetUser a \<and> sq_TargetIP req = la_targetHost a
           \<and> ap_RequestSignature p d req data (ar_world r) = (w', res))"
proof -
  have "agent_inv gl \<lparr>ar_agent = a, ar_conns = [], ar_world = w\<rparr>" by (simp add: agent_inv_def)
  from agent_machine.run_inv [OF this] assms(2) have "agent_inv gl r" by blast
  with assms(3) have b: "ar_conns r ! i = zero_binding \<or> binding_verified gl (ar_conns r ! i)"
    by (auto simp: agent_inv_def)
  have t: "la_targetUser (ar_agent r) = la_targetUser a" "la_targetHost (ar_agent r) = la_targetHost a"
    by (simp_all add: assms(2) agent_run_agent)
  from assms(4) have "signWithBinding gl os p (ar_agent r) pub data (ar_conns r ! i) (ar_world r) = (w', res)"
    by (simp add: conn_Sign_def SignWithFlags_def)
  from signWithBinding_local_key [OF assms(1) this] b t show ?thesis by auto
qed

lemma locked_exec:
  assumes "la_locked (ar_agent r)" and "ev \<noteq> OnUnlock"
  shows "la_locked (ar_agent (agent_exec gl os p ev r))" and "ar_world (agent_exec gl os p ev r) = ar_world r"
  using assms by (cases ev; simp add: agent_Lock_def conn_Sign_def SignWithFlags_def signWithBinding_def)+

text \<open>
  A locked agent is silent: until it is unlocked it lists no identity and asks the provider for
  nothing.
\<close>

theorem locked_agent_silent:
  assumes "la_locked (ar_agent r)" and "OnUnlock \<notin> set evs"
  shows "agent_List (ar_agent (fold (agent_exec gl os p) evs r)) = []
    \<and> ar_world (fold (agent_exec gl os p) evs r) = ar_world r"
proof -
  have "la_locked (ar_agent (fold (agent_exec gl os p) evs r)) \<and> ar_world (fold (agent_exec gl os p) evs r) = ar_world r"
    using assms
  proof (induction evs arbitrary: r)
    case (Cons ev evs)
    from Cons.prems have "ev \<noteq> OnUnlock" by auto
    from locked_exec [OF Cons.prems(1) this, of gl os p] Cons.IH [of "agent_exec gl os p ev r"] Cons.prems(2)
    show ?case by simp
  qed simp
  then show ?thesis by (simp add: agent_List_def)
qed

section \<open>The agent and the proxy\<close>

lemma decodeRequired_encoded: "b \<noteq> [] \<Longrightarrow> decodeRequiredBase64 (b64_or_empty b) = Inr b"
proof -
  assume b: "b \<noteq> []"
  have d: "StdEncoding_DecodeString (StdEncoding_EncodeToString b) = Some b" by (simp add: codec_simps)
  have "StdEncoding_EncodeToString b \<noteq> []" using d b StdEncoding_Decode_empty by (metis option.inject)
  with b d show ?thesis by (simp add: decodeRequiredBase64_def b64_or_empty_def)
qed

text \<open>
  (C21) The agent's check and the proxy's agree: for a binding that the agent has accepted, once it
  has travelled through the request, all that can still make the proxy refuse it is the data to be
  signed. The host key that the approver is shown is the one the agent verified.
\<close>

theorem agent_binding_convinces_proxy:
  assumes "Extension gl extType contents b = (b', None)" and "bd_HostPublicKey b' \<noteq> []" and "bd_SessionID b' \<noteq> []"
    and "bd_Signature b' \<noteq> []"
  shows "\<exists>hostKey. ssh_ParsePublicKey (sx_ssh (gl_sdk gl)) (bd_HostPublicKey b') = Inr hostKey
    \<and> ValidateLocalKeySignData (sx_ssh (gl_sdk gl)) (gl_wire gl)
        (sr_SessionBinding (server_view (signature_body sx (req\<lparr>sq_SessionBinding := b'\<rparr>) signData e))) signData user expected =
      (case validateUserAuthSignData (gl_wire gl) signData (bd_SessionID b') user expected hostKey of
         Some err \<Rightarrow> Inl err
       | None \<Rightarrow> Inr \<lparr>vb_HostKeyFingerprint = PublicKeyFingerprint hostKey, vb_SessionID = bd_SessionID b'\<rparr>)"
proof -
  from Extension_verified [OF assms(1)] obtain hostKey sig where
    v: "\<not> bd_Forwarding b'" "ssh_ParsePublicKey (sx_ssh (gl_sdk gl)) (bd_HostPublicKey b') = Inr hostKey"
      "wire_Signature (gl_wire gl) (bd_Signature b') = Inr sig"
      "ssh_Verify (sx_ssh (gl_sdk gl)) hostKey (bd_SessionID b') sig = None"
    by (auto simp: binding_verified_def)
  have "sr_SessionBinding (server_view (signature_body sx (req\<lparr>sq_SessionBinding := b'\<rparr>) signData e)) =
      \<lparr>sb_HostPublicKey = b64_or_empty (bd_HostPublicKey b'), sb_SessionID = b64_or_empty (bd_SessionID b'),
       sb_Signature = b64_or_empty (bd_Signature b'), sb_Forwarding = bd_Forwarding b'\<rparr>"
    by (simp add: server_view_def signature_body_def)
  with v show ?thesis
    by (intro exI [of _ hostKey])
      (simp add: ValidateLocalKeySignData_def decodeRequired_encoded [OF assms(2)] decodeRequired_encoded [OF assms(3)]
        decodeRequired_encoded [OF assms(4)] agent_same_as_proxy split: option.split)
qed

section \<open>Which identities are offered\<close>

lemma collect_keys_sources:
  assumes "collect_keys lib line flt ss keys missing = Inr (keys', missing')" and "k \<in> set keys'" and "k \<notin> set keys"
  shows "\<exists>s \<in> set ss. \<exists>pub. (flt = [] \<or> normalizeFingerprintHint (ls_Fingerprint s) = flt)
    \<and> parsePublicKeyLine lib (line s) = Inr pub \<and> k = agentKeyFromPublic pub"
  using assms
  by (induction lib line flt ss keys missing rule: collect_keys.induct) (fastforce split: if_splits sum.splits)+

lemma signer_line_cases:
  "signer_line fallbackLine fallbackPub flt n s = TrimSpace (ls_PublicKey s)
   \<or> signer_line fallbackLine fallbackPub flt n s = fallbackLine
     \<and> (\<exists>k. fallbackPub = Some k \<and> (flt = [] \<or> normalizeFingerprintHint (ls_Fingerprint s) = PublicKeyFingerprint k))"
  by (auto simp: signer_line_def Let_def split: option.split)

text \<open>
  With a fingerprint configured the agent offers only what was asked for: every identity comes
  from a loaded signer with that fingerprint, and is the public key the proxy reported for it or the
  configured key, which then has that fingerprint itself.
\<close>

theorem identities_match_fingerprint:
  assumes "resolveLocalKeyIdentities lib os caps cfg = Inr keys"
    and "normalizeFingerprintHint (gc_HostKeyFingerprint cfg) \<noteq> []" and "k \<in> set keys"
  shows "\<exists>s \<in> set (cap_LoadedSigners caps). \<exists>pub.
     normalizeFingerprintHint (ls_Fingerprint s) = normalizeFingerprintHint (gc_HostKeyFingerprint cfg)
     \<and> k = agentKeyFromPublic pub
     \<and> (parsePublicKeyLine lib (TrimSpace (ls_PublicKey s)) = Inr pub
        \<or> PublicKeyFingerprint pub = normalizeFingerprintHint (gc_HostKeyFingerprint cfg))"
proof -
  let ?flt = "normalizeFingerprintHint (gc_HostKeyFingerprint cfg)"
  from assms(1) obtain fallbackLine missing fallbackPub where
    c: "collect_keys lib (signer_line fallbackLine fallbackPub ?flt (length (cap_LoadedSigners caps))) ?flt
       (cap_LoadedSigners caps) [] 0 = Inr (keys, missing)" (is "collect_keys _ ?line _ _ _ _ = _")
    and f: "\<And>q. fallbackPub = Some q \<Longrightarrow> parsePublicKeyLine lib fallbackLine = Inr q"
    unfolding resolveLocalKeyIdentities_def Let_def
    by (force split: if_splits sum.splits)
  from collect_keys_sources [OF c assms(3)] assms(2) obtain s pub where
    s: "s \<in> set (cap_LoadedSigners caps)" "normalizeFingerprintHint (ls_Fingerprint s) = ?flt"
      "parsePublicKeyLine lib (?line s) = Inr pub" "k = agentKeyFromPublic pub" by auto
  have "parsePublicKeyLine lib (TrimSpace (ls_PublicKey s)) = Inr pub \<or> PublicKeyFingerprint pub = ?flt"
    using signer_line_cases [of fallbackLine fallbackPub ?flt "length (cap_LoadedSigners caps)" s] s(2,3) assms(2) f
    by auto
  with s show ?thesis by blast
qed

text \<open>
  In \<open>local-ca\<close> mode the key that the caller names plays no part: the signature is made with a
  fresh key, whatever identity of the list it was asked for.
\<close>

theorem local_ca_ignores_key:
  assumes "ap_SignerMode p = SignerModeLocalCA"
  shows "signWithBinding gl os p a pub data b s = signWithBinding gl os p a pub' data b' s"
  using assms by (simp add: signWithBinding_def SignerModeLocalCA_def SignerModeLocalKey_def)

section \<open>An example\<close>

definition demo_agent_lib :: agent_lib where
  "demo_agent_lib = \<lparr>gl_sdk = demo_sdk, gl_wire = demo_wire,
     gl_binding = \<lambda>b. Inr \<lparr>bd_HostPublicKey = ''host'', bd_SessionID = b, bd_Signature = ''host'' @ b, bd_Forwarding = False\<rparr>\<rparr>"

text \<open>A provider that counts what it is asked for.\<close>

definition demo_provider :: "nat AccessProvider" where
  "demo_provider = \<lparr>ap_SignerMode = SignerModeLocalKey,
     ap_RequestCertificate = \<lambda>_ _ n. (Suc n, Inl (Errorf ''no CA'')),
     ap_RequestSignature = \<lambda>_ req data n. (Suc n, Inr \<lparr>sig_Format = ''ssh-ed25519'', sig_Blob = data\<rparr>)\<rparr>"

definition demo_agent :: LunaAgent where
  "demo_agent = NewLunaAgent SignerModeLocalKey ''deploy'' ''10.0.1.50'' [] [] 0"

definition demo_bound :: sdk_SessionBinding where
  "demo_bound = \<lparr>bd_HostPublicKey = ''host'', bd_SessionID = ''sid'', bd_Signature = ''hostsid'', bd_Forwarding = False\<rparr>"

lemma demo_extension: "Extension demo_agent_lib ''session-bind@openssh.com'' ''sid'' zero_binding = (demo_bound, None)"
  by (simp add: Extension_def sessionBindExtension_def demo_agent_lib_def demo_sdk_def demo_ssh_def demo_wire_def demo_bound_def)

definition demo_agent_events :: "agent_event list" where
  "demo_agent_events = [Accept, Accept, OnExtension 1 ''session-bind@openssh.com'' ''sid'']"

lemma demo_agent_run:
  "fold (agent_exec demo_agent_lib demo_agent_os demo_provider) demo_agent_events
     \<lparr>ar_agent = demo_agent, ar_conns = [], ar_world = 0\<rparr> =
   \<lparr>ar_agent = demo_agent, ar_conns = [zero_binding, demo_bound], ar_world = 0\<rparr>"
  by (simp add: demo_agent_events_def NewConnectionAgent_def demo_extension)

lemma demo_conn_sign:
  "conn_Sign demo_agent_lib demo_agent_os demo_provider demo_agent demo_bound None ''data'' 0 =
     (1, Inr \<lparr>sig_Format = ''ssh-ed25519'', sig_Blob = ''data''\<rparr>)"
  by (simp add: conn_Sign_def SignWithFlags_def signWithBinding_def demo_agent_def NewLunaAgent_def demo_provider_def
      demo_bound_def Let_def SignerModeLocalKey_def)

theorem agent_signs_bound_sessions_witness:
  "conn_Sign demo_agent_lib demo_agent_os demo_provider demo_agent demo_bound None ''data'' 0 =
     (1, Inr \<lparr>sig_Format = ''ssh-ed25519'', sig_Blob = ''data''\<rparr>) \<and> binding_verified demo_agent_lib demo_bound"
proof -
  let ?r = "\<lparr>ar_agent = demo_agent, ar_conns = [zero_binding, demo_bound], ar_world = (0 :: nat)\<rparr>"
  have m: "ap_SignerMode demo_provider = SignerModeLocalKey" by (simp add: demo_provider_def)
  have i: "1 < length (ar_conns ?r)" by simp
  have c: "conn_Sign demo_agent_lib demo_agent_os demo_provider (ar_agent ?r) (ar_conns ?r ! 1) None ''data'' (ar_world ?r) =
      (1, Inr \<lparr>sig_Format = ''ssh-ed25519'', sig_Blob = ''data''\<rparr>)" using demo_conn_sign by simp
  from agent_signs_bound_sessions [OF m demo_agent_run [symmetric] i c] demo_conn_sign show ?thesis by simp
qed

theorem locked_agent_silent_witness:
  "ar_world (fold (agent_exec demo_agent_lib demo_agent_os demo_provider) [OnSign 0 None ''data'']
     \<lparr>ar_agent = agent_Lock demo_agent, ar_conns = [demo_bound], ar_world = 0\<rparr>) = 0"
  using locked_agent_silent [of "\<lparr>ar_agent = agent_Lock demo_agent, ar_conns = [demo_bound], ar_world = 0\<rparr>"
      "[OnSign 0 None ''data'']" demo_agent_lib demo_agent_os demo_provider]
  by (simp add: agent_Lock_def del: agent_exec.simps)

theorem agent_binding_convinces_proxy_witness:
  "ValidateLocalKeySignData demo_ssh demo_wire
     (sr_SessionBinding (server_view (signature_body demo_sdk (demo_signature_request\<lparr>sq_SessionBinding := demo_bound\<rparr>) ''data'' demo_ephemeral)))
     ''data'' ''deploy'' (Some \<lparr>pk_Type = ''ssh-ed25519'', pk_Marshal = ''pem''\<rparr>) =
   Inr \<lparr>vb_HostKeyFingerprint = PublicKeyFingerprint \<lparr>pk_Type = ''ssh-ed25519'', pk_Marshal = ''host''\<rparr>, vb_SessionID = ''sid''\<rparr>"
proof -
  have ne: "bd_HostPublicKey demo_bound \<noteq> []" "bd_SessionID demo_bound \<noteq> []" "bd_Signature demo_bound \<noteq> []"
    by (simp_all add: demo_bound_def)
  have g: "sx_ssh (gl_sdk demo_agent_lib) = demo_ssh" "gl_wire demo_agent_lib = demo_wire"
    by (simp_all add: demo_agent_lib_def demo_sdk_def)
  have v: "validateUserAuthSignData demo_wire ''data'' ''sid'' ''deploy'' (Some \<lparr>pk_Type = ''ssh-ed25519'', pk_Marshal = ''pem''\<rparr>) k = None" for k
    by (simp add: validateUserAuthSignData_def parseUserAuthSignData_def demo_wire_def validateParsedUserAuth_def)
  have k: "ssh_ParsePublicKey demo_ssh ''host'' = Inr \<lparr>pk_Type = ''ssh-ed25519'', pk_Marshal = ''host''\<rparr>" by (simp add: demo_ssh_def)
  have sid: "bd_SessionID demo_bound = ''sid''" "bd_HostPublicKey demo_bound = ''host''" by (simp_all add: demo_bound_def)
  from agent_binding_convinces_proxy [OF demo_extension ne, of demo_sdk demo_signature_request "''data''" demo_ephemeral "''deploy''"
      "Some \<lparr>pk_Type = ''ssh-ed25519'', pk_Marshal = ''pem''\<rparr>"]
  show ?thesis unfolding g sid k by (auto simp: v)
qed

definition demo_caps :: "string \<Rightarrow> Capabilities" where
  "demo_caps fp = \<lparr>cap_SignerMode = SignerModeLocalKey, cap_LeaseSupported = True, cap_AllowedTTLSeconds = [], cap_Sealed = False,
     cap_LoadedSigners = [\<lparr>ls_Fingerprint = fp, ls_PublicKey = ''key'', ls_Comment = []\<rparr>]\<rparr>"

definition demo_agent_config :: "string \<Rightarrow> string \<Rightarrow> agent_Config" where
  "demo_agent_config fp line = \<lparr>gc_ProxyURL = ''https://proxy'', gc_MTLSCert = [], gc_MTLSKey = [], gc_MTLSCA = [], gc_TargetUser = ''deploy'',
     gc_TargetHost = ''10.0.1.50'', gc_SocketPath = [], gc_SignerMode = SignerModeLocalKey, gc_ApprovalTimeout = 0,
     gc_HostKeyFingerprint = fp, gc_HostedPublicKey = line\<rparr>"

lemma demo_hints: "normalizeFingerprintHint ''SHA256:abc='' = ''abc''" "normalizeFingerprintHint ''abc'' = ''abc''"
  "normalizeFingerprintHint [] = []" "TrimSpace ''key'' = ''key''" "TrimSpace [] = []"
  by code_simp+

theorem identities_match_fingerprint_witness:
  "resolveLocalKeyIdentities demo_ssh demo_agent_os (demo_caps ''abc'') (demo_agent_config ''SHA256:abc='' []) =
     Inr [\<lparr>ak_Format = ''ssh-ed25519'', ak_Blob = ''key''\<rparr>]
   \<and> (\<exists>s \<in> set (cap_LoadedSigners (demo_caps ''abc'')). normalizeFingerprintHint (ls_Fingerprint s) = ''abc'')"
proof -
  have a: "resolveLocalKeyIdentities demo_ssh demo_agent_os (demo_caps ''abc'') (demo_agent_config ''SHA256:abc='' []) =
     Inr [\<lparr>ak_Format = ''ssh-ed25519'', ak_Blob = ''key''\<rparr>]"
    by (simp add: resolveLocalKeyIdentities_def demo_caps_def demo_agent_config_def loadHostedPublicKeyLine_def demo_hints
        signer_line_def parsePublicKeyLine_def demo_ssh_def agentKeyFromPublic_def Let_def)
  have n: "normalizeFingerprintHint (gc_HostKeyFingerprint (demo_agent_config ''SHA256:abc='' [])) = ''abc''"
    by (simp add: demo_agent_config_def demo_hints)
  from identities_match_fingerprint [OF a, of "\<lparr>ak_Format = ''ssh-ed25519'', ak_Blob = ''key''\<rparr>", unfolded n] a
  show ?thesis by auto
qed

theorem local_ca_ignores_key_witness:
  "signWithBinding demo_agent_lib demo_agent_os (demo_provider\<lparr>ap_SignerMode := SignerModeLocalCA\<rparr>) demo_agent None ''data'' zero_binding 0 =
   signWithBinding demo_agent_lib demo_agent_os (demo_provider\<lparr>ap_SignerMode := SignerModeLocalCA\<rparr>) demo_agent
     (Some \<lparr>pk_Type = ''ssh-ed25519'', pk_Marshal = ''other''\<rparr>) ''data'' demo_bound 0"
  by (rule local_ca_ignores_key) simp

text \<open>
  Without a configured fingerprint the configured key is offered in place of the only loaded signer
  although it is not that signer's key.
\<close>

lemma fallback_key_mismatch:
  "\<exists>caps cfg k. resolveLocalKeyIdentities demo_ssh demo_agent_os caps cfg = Inr [agentKeyFromPublic k]
     \<and> (\<forall>s \<in> set (cap_LoadedSigners caps). ls_Fingerprint s = Fingerprint \<lparr>pk_Type = ''ssh-ed25519'', pk_Marshal = ''loaded''\<rparr>)
     \<and> k = \<lparr>pk_Type = ''ssh-ed25519'', pk_Marshal = ''ssh-other''\<rparr>"
proof -
  let ?fp = "Fingerprint \<lparr>pk_Type = ''ssh-ed25519'', pk_Marshal = ''loaded''\<rparr>"
  let ?caps = "(demo_caps ?fp)\<lparr>cap_LoadedSigners := [\<lparr>ls_Fingerprint = ?fp, ls_PublicKey = [], ls_Comment = []\<rparr>]\<rparr>"
  have t: "TrimSpace ''ssh-other'' = ''ssh-other''" "HasPrefix ''ssh-other'' ''ssh-''" by code_simp+
  have "resolveLocalKeyIdentities demo_ssh demo_agent_os ?caps (demo_agent_config [] ''ssh-other'') =
      Inr [agentKeyFromPublic \<lparr>pk_Type = ''ssh-ed25519'', pk_Marshal = ''ssh-other''\<rparr>]"
    by (simp add: resolveLocalKeyIdentities_def demo_caps_def demo_agent_config_def loadHostedPublicKeyLine_def demo_hints t
        signer_line_def parsePublicKeyLine_def demo_ssh_def Let_def)
  then show ?thesis by (intro exI [of _ ?caps] exI conjI) auto
qed

end
