(* ===== verification/Cli_Client.thy ===== *)
theory Cli_Client
  imports Control Sdk_Server Go_Files
begin

text \<open>
  The clients of the command-line tool: HTTPS with a client certificate
  (\<open>cli/httpclient\<close>) and the control socket (\<open>control/client\<close>). \<open>cli_env\<close> holds what comes from
  outside: the TLS and X.509 libraries, the network and the socket.
\<close>

section \<open>What comes from outside\<close>

text \<open>\<open>hx_Fetch\<close> is a request of a new HTTP client with the given TLS settings, \<open>None\<close> for one that
  does not check the server's certificate. \<open>hx_exchange\<close> writes to the control socket and returns
  what is read until it is closed.\<close>

record ('c, 'p) cli_env =
  hx_fr :: fs_rules
  hx_LoadX509KeyPair :: "files \<Rightarrow> string \<Rightarrow> string \<Rightarrow> 'c result"
  hx_AppendCertsFromPEM :: "bytes \<Rightarrow> 'p option"
  hx_x5 :: x509_lib
  hx_VerifyCert :: "x509_cert \<Rightarrow> 'p \<Rightarrow> go_error option"
  hx_url_Parse :: "string \<Rightarrow> URL result"
  hx_valid_url :: "string \<Rightarrow> bool"
  hx_js :: json_lib
  hx_nw :: "('c, 'p) network"
  hx_Fetch :: "('c, 'p) client_tls option \<Rightarrow> duration \<Rightarrow> out_request \<Rightarrow> in_response result"
  hx_Dial :: "string \<Rightarrow> go_error option"
  hx_exchange :: "string \<Rightarrow> bytes \<Rightarrow> bytes result"
  hx_now :: gotime

text \<open>\<open>io.ReadAll(io.LimitReader(body, n))\<close>.\<close>

definition read_limited :: "nat \<Rightarrow> in_response \<Rightarrow> bytes result" where
  "read_limited n resp =
     (case in_read_err resp of
        Some err \<Rightarrow> if length (in_body resp) < n then Inl err else Inr (take n (in_body resp))
      | None \<Rightarrow> Inr (take n (in_body resp)))"

section \<open>TLS settings\<close>

record MTLSConfig =
  mt_ProxyURL :: string
  mt_Cert :: string
  mt_Key :: string
  mt_CA :: string

definition read_err :: "string \<Rightarrow> fs_error \<Rightarrow> go_error" where
  "read_err what e = Wrapf what (fs_err e) ''''"

definition tlsConfigAndHost :: "('c, 'p) cli_env \<Rightarrow> files \<Rightarrow> MTLSConfig \<Rightarrow> (('c, 'p) client_tls \<times> string) result" where
  "tlsConfigAndHost hx fs c =
     (case hx_LoadX509KeyPair hx fs (mt_Cert c) (mt_Key c) of
        Inl err \<Rightarrow> Inl (Wrapf ''load client cert/key: '' err '''')
      | Inr cert \<Rightarrow>
     (case os_ReadFile (hx_fr hx) fs (mt_CA c) of
        Inl err \<Rightarrow> Inl (read_err ''read CA: '' err)
      | Inr caPEM \<Rightarrow>
     (case hx_AppendCertsFromPEM hx caPEM of
        None \<Rightarrow> Inl (Errorf ''parse CA certificate'')
      | Some pool \<Rightarrow>
     (let name0 = (case hx_url_Parse hx (mt_ProxyURL c) of
                     Inl _ \<Rightarrow> ''localhost''
                   | Inr u \<Rightarrow> if URL_Hostname u \<noteq> [] then URL_Hostname u else ''localhost'');
          serverName = (if name0 = ''127.0.0.1'' \<or> name0 = ''::1'' then ''localhost'' else name0);
          host0 = (case hx_url_Parse hx (mt_ProxyURL c) of
                     Inl _ \<Rightarrow> serverName
                   | Inr u \<Rightarrow> if url_Host u \<noteq> [] then url_Host u else serverName);
          host = (if strings_Contains host0 '':'' then host0 else JoinHostPort host0 ''443'')
      in Inr (\<lparr>ctl_Certificate = cert, ctl_RootCAs = pool, ctl_ServerName = serverName, ctl_MinVersion = tls_VersionTLS12\<rparr>,
              host)))))"

definition cli_dialTLS ::
  "('c, 'p) cli_env \<Rightarrow> string \<Rightarrow> ('c, 'p) client_tls \<Rightarrow> net_event list \<Rightarrow> tls_conn traced" where
  "cli_dialTLS hx addr cfg t =
     (let t' = t @ [Dialed addr]
      in case nw_DialContext (hx_nw hx) t addr of
           Some err \<Rightarrow> (t', Inl err)
         | None \<Rightarrow> (t', nw_Handshake (hx_nw hx) t' cfg))"

section \<open>Loading a key remotely\<close>

record load_Config =
  lc_ProxyURL :: string
  lc_CliCert :: string
  lc_CliKey :: string
  lc_CA :: string

definition loadRequest_json :: "bytes \<Rightarrow> bytes \<Rightarrow> string \<Rightarrow> int \<Rightarrow> json" where
  "loadRequest_json pemBytes passphrase label ts = JObject
     [(''encrypted_pem'', JString (StdEncoding_EncodeToString pemBytes)), (''passphrase'', JString passphrase),
      (''label'', JString label), (''timestamp'', JInt ts)]"

definition loadResponse_fields :: "string json_field list" where
  "loadResponse_fields = [string_field ''fingerprint'' (\<lambda>v _. v)]"

definition loadErrorResponse_fields :: "(string \<times> string) json_field list" where
  "loadErrorResponse_fields = [string_field ''error'' (\<lambda>v (e, c). (v, c)), string_field ''code'' (\<lambda>v (e, c). (e, v))]"

definition loadHTTPError :: "json_lib \<Rightarrow> int \<Rightarrow> bytes \<Rightarrow> go_error" where
  "loadHTTPError js status body =
     (case Unmarshal js loadErrorResponse_fields body ([], []) of
        Some (e, code) \<Rightarrow>
          if e = [] then Errorf (''remote key load: HTTP '' @ FormatInt status)
          else if code \<noteq> [] then Errorf (''remote key load ('' @ FormatInt status @ ''): error code '' @ code)
          else Errorf (''remote key load ('' @ FormatInt status @ ''): API returned an error'')
      | None \<Rightarrow> Errorf (''remote key load: HTTP '' @ FormatInt status))"

definition load_post :: "string \<Rightarrow> bytes \<Rightarrow> bytes \<Rightarrow> out_request" where
  "load_post proxyURL body mac =
     \<lparr>or_method = POST, or_url = TrimRight proxyURL ''/'' @ ''/api/v1/cli/keys/load'', or_body = body,
      or_headers = [(''Content-Type'', ''application/json''), (''X-Luna-Body-Mac'', hex_EncodeToString mac)]\<rparr>"

definition load_result :: "json_lib \<Rightarrow> in_response \<Rightarrow> string result" where
  "load_result js resp =
     (case read_limited maxResponse resp of
        Inl err \<Rightarrow> Inl err
      | Inr respBody \<Rightarrow>
          if in_status resp \<noteq> 200 then Inl (loadHTTPError js (in_status resp) respBody)
          else case Unmarshal js loadResponse_fields respBody [] of
                 None \<Rightarrow> Inl (Errorf ''decode response: invalid json'')
               | Some fp \<Rightarrow> if fp = [] then Inl (Errorf ''response missing fingerprint'') else Inr fp)"

definition cli_Load ::
  "('c, 'p) cli_env \<Rightarrow> files \<Rightarrow> load_Config \<Rightarrow> string \<Rightarrow> bytes \<Rightarrow> string \<Rightarrow> net_event list \<Rightarrow> string traced" where
  "cli_Load hx fs cfg pemPath passphrase label t =
     (case os_ReadFile (hx_fr hx) fs pemPath of
        Inl err \<Rightarrow> (t, Inl (fs_err err))
      | Inr pemBytes \<Rightarrow>
     (case tlsConfigAndHost hx fs \<lparr>mt_ProxyURL = lc_ProxyURL cfg, mt_Cert = lc_CliCert cfg, mt_Key = lc_CliKey cfg, mt_CA = lc_CA cfg\<rparr> of
        Inl err \<Rightarrow> (t, Inl err)
      | Inr (tlsCfg, host) \<Rightarrow>
     (let body = js_print (hx_js hx) (loadRequest_json pemBytes passphrase label (time_Unix (hx_now hx)))
      in case cli_dialTLS hx host tlsCfg t of
           (t1, Inl err) \<Rightarrow> (t1, Inl (Wrapf ''tls dial: '' err ''''))
         | (t1, Inr conn) \<Rightarrow>
     (case ComputeBodyHMAC conn body of
        Inl err \<Rightarrow> (t1, Inl (Wrapf ''body HMAC: '' err ''''))
      | Inr mac \<Rightarrow>
     (let req = load_post (lc_ProxyURL cfg) body mac
      in if \<not> hx_valid_url hx (or_url req) then (t1, Inl bad_url)
         else case nw_RoundTrip (hx_nw hx) t1 conn req of
                Inl err \<Rightarrow> (t1 @ [Wrote conn req], Inl err)
              | Inr resp \<Rightarrow> (t1 @ [Wrote conn req], load_result (hx_js hx) resp))))))"

section \<open>Enrolling remotely\<close>

record EnrollResult =
  er_DeviceID :: string
  er_CertificatePEM :: string

definition loadPEMCertificate :: "('c, 'p) cli_env \<Rightarrow> files \<Rightarrow> string \<Rightarrow> x509_cert result" where
  "loadPEMCertificate hx fs path =
     (case os_ReadFile (hx_fr hx) fs path of
        Inl err \<Rightarrow> Inl (read_err ''read client certificate: '' err)
      | Inr pemBytes \<Rightarrow>
     (case x5_pem_Decode (hx_x5 hx) pemBytes of
        None \<Rightarrow> Inl (Errorf (''parse client certificate: no CERTIFICATE PEM in '' @ path))
      | Some (ty, der) \<Rightarrow>
          if ty \<noteq> ''CERTIFICATE'' then Inl (Errorf (''parse client certificate: no CERTIFICATE PEM in '' @ path))
          else case x5_ParseCertificate (hx_x5 hx) der of
                 Inl err \<Rightarrow> Inl (Wrapf ''parse client certificate: '' err '''')
               | Inr cert \<Rightarrow> Inr cert))"

definition lines_text :: "string list \<Rightarrow> string" where
  "lines_text ls = Join ls (CHR 0x0A)"

definition VerifyClientCertAgainstCA :: "('c, 'p) cli_env \<Rightarrow> files \<Rightarrow> string \<Rightarrow> string \<Rightarrow> go_error option" where
  "VerifyClientCertAgainstCA hx fs clientCertPath caPath =
     (case loadPEMCertificate hx fs clientCertPath of
        Inl err \<Rightarrow> Some err
      | Inr clientCert \<Rightarrow>
     (case os_ReadFile (hx_fr hx) fs caPath of
        Inl err \<Rightarrow> Some (read_err ''read CA: '' err)
      | Inr caPEM \<Rightarrow>
     (case hx_AppendCertsFromPEM hx caPEM of
        None \<Rightarrow> Some (Errorf ''parse CA certificate'')
      | Some pool \<Rightarrow>
     (case hx_VerifyCert hx clientCert pool of
        None \<Rightarrow> None
      | Some err \<Rightarrow>
          Some (Wrapf (''admin certificate is not signed by the proxy CA at '' @ caPath @ '': '') err
            (lines_text [[], [], ''On the proxy host run:'',
               ''  sudo luna-proxy setup admin-client --dir /etc/luna/certs --force'',
               ''Then copy admin-client.crt and admin-client.key here again.'']))))))"

definition formatEnrollTLS :: "go_error \<Rightarrow> go_error" where
  "formatEnrollTLS err =
     (let msg = error_text err
      in if strings_Contains msg ''unknown certificate authority'' \<or> strings_Contains msg ''bad certificate''
         then Wrapf (lines_text
           [''proxy rejected the admin client certificate during mTLS'', [],
            ''The admin-client.crt on this machine is not signed by the CA the proxy trusts (often after PKI was regenerated).'',
            ''On the proxy:'', ''  sudo luna-proxy setup admin-client --dir /etc/luna/certs --force'',
            ''Copy the new admin-client.crt and admin-client.key here, then re-run enroll.'', [], ''Original error: '']) err ''''
         else err)"

definition enrollHTTPError :: "int \<Rightarrow> bytes \<Rightarrow> go_error" where
  "enrollHTTPError status body = Errorf (''cli enroll: HTTP '' @ FormatInt status)"

definition enroll_result_fields :: "EnrollResult json_field list" where
  "enroll_result_fields =
     [string_field ''device_id'' (\<lambda>v r. r\<lparr>er_DeviceID := v\<rparr>),
      string_field ''certificate_pem'' (\<lambda>v r. r\<lparr>er_CertificatePEM := v\<rparr>)]"

definition cli_enroll_post :: "string \<Rightarrow> bytes \<Rightarrow> out_request" where
  "cli_enroll_post proxyURL body =
     \<lparr>or_method = POST, or_url = TrimRight proxyURL ''/'' @ ''/api/v1/cli/enroll'', or_body = body,
      or_headers = [(''Content-Type'', ''application/json'')]\<rparr>"

definition enroll_result :: "json_lib \<Rightarrow> in_response \<Rightarrow> EnrollResult result" where
  "enroll_result js resp =
     (case read_limited maxResponse resp of
        Inl err \<Rightarrow> Inl err
      | Inr respBody \<Rightarrow>
          if in_status resp \<noteq> 201 then Inl (enrollHTTPError (in_status resp) respBody)
          else case Unmarshal js enroll_result_fields respBody \<lparr>er_DeviceID = [], er_CertificatePEM = []\<rparr> of
                 None \<Rightarrow> Inl (Errorf ''decode response: invalid json'')
               | Some out \<Rightarrow>
                   if er_DeviceID out = [] \<or> er_CertificatePEM out = []
                   then Inl (Errorf ''response missing device_id or certificate_pem'') else Inr out)"

definition httpclient_Enroll :: "('c, 'p) cli_env \<Rightarrow> files \<Rightarrow> MTLSConfig \<Rightarrow> string \<Rightarrow> string \<Rightarrow> EnrollResult result" where
  "httpclient_Enroll hx fs cfg label0 csrPEM0 =
     (let label = TrimSpace label0; csrPEM = TrimSpace csrPEM0
      in if label = [] then Inl (Errorf ''label required'')
         else if csrPEM = [] then Inl (Errorf ''csr_pem required'')
         else case tlsConfigAndHost hx fs cfg of
                Inl err \<Rightarrow> Inl err
              | Inr (tlsCfg, _) \<Rightarrow>
         (case VerifyClientCertAgainstCA hx fs (mt_Cert cfg) (mt_CA cfg) of
            Some err \<Rightarrow> Inl err
          | None \<Rightarrow>
         (let req = cli_enroll_post (mt_ProxyURL cfg)
                (js_print (hx_js hx) (JObject [(''label'', JString label), (''csr_pem'', JString csrPEM)]))
          in if \<not> hx_valid_url hx (or_url req) then Inl bad_url
             else case hx_Fetch hx (Some tlsCfg) (2 * minute) req of
                    Inl err \<Rightarrow> Inl (formatEnrollTLS err)
                  | Inr resp \<Rightarrow> enroll_result (hx_js hx) resp)))"

section \<open>Fetching the CA\<close>

definition mtlsCAPath :: string where
  "mtlsCAPath = ''/api/v1/mtls/ca''"

definition fetch_timeout :: "gotime \<Rightarrow> gotime option \<Rightarrow> duration" where
  "fetch_timeout now deadline = (case deadline of None \<Rightarrow> 30 * second | Some d \<Rightarrow> time_Until now d)"

definition FetchCA ::
  "('c, 'p) cli_env \<Rightarrow> gotime option \<Rightarrow> string \<Rightarrow> string \<Rightarrow> files \<Rightarrow> files \<times> string result" where
  "FetchCA hx deadline proxyURL0 destPath0 fs =
     (let proxyURL = TrimRight (TrimSpace proxyURL0) ''/''
      in if proxyURL = [] then (fs, Inl (Errorf ''proxy URL is empty''))
         else if \<not> HasPrefix proxyURL ''https://'' then (fs, Inl (Errorf ''proxy URL must use https://''))
         else (let destPath = filepath_Clean destPath0
               in if destPath = [] then (fs, Inl (Errorf ''destination path is empty''))
         else (let req = \<lparr>or_method = GET, or_url = proxyURL @ mtlsCAPath, or_body = [], or_headers = []\<rparr>;
                   fail = (\<lambda>msg. Errorf (''GET '' @ mtlsCAPath @ msg))
               in if \<not> hx_valid_url hx (or_url req) then (fs, Inl bad_url)
         else case hx_Fetch hx None (fetch_timeout (hx_now hx) deadline) req of
                Inl err \<Rightarrow> (fs, Inl (Wrapf (''GET '' @ mtlsCAPath @ '': '') err ''''))
              | Inr resp \<Rightarrow>
         (case read_limited (2 ^ 18) resp of
            Inl err \<Rightarrow> (fs, Inl err)
          | Inr body \<Rightarrow>
              if in_status resp \<noteq> 200 then (fs, Inl (fail ('': HTTP '' @ FormatInt (in_status resp))))
              else if \<not> strings_Contains body ''BEGIN CERTIFICATE'' then (fs, Inl (fail '': response is not a PEM certificate''))
              else case fr_MkdirAll (hx_fr hx) (filepath_Dir destPath) of
                     Some err \<Rightarrow> (fs, Inl err)
                   | None \<Rightarrow>
              (case write_and_rename (hx_fr hx) (\<lambda>e. e) (\<lambda>e. e) destPath body mode_0644 fs of
                 (fs', Some err) \<Rightarrow> (fs', Inl err)
               | (fs', None) \<Rightarrow> (fs', Inr destPath))))))"

section \<open>The control socket\<close>

definition request_json :: "string \<Rightarrow> json option \<Rightarrow> json" where
  "request_json op1 data = JObject ([(''op'', JString op1)] @ (case data of None \<Rightarrow> [] | Some j \<Rightarrow> [(''data'', j)]))"

definition response_fields :: "Response json_field list" where
  "response_fields =
     [bool_field ''ok'' (\<lambda>v r. r\<lparr>rs_OK := v\<rparr>), string_field ''id'' (\<lambda>v r. r\<lparr>rs_ID := v\<rparr>),
      raw_field ''data'' (\<lambda>v r. r\<lparr>rs_Data := Some v\<rparr>), string_field ''error'' (\<lambda>v r. r\<lparr>rs_Error := v\<rparr>),
      string_field ''code'' (\<lambda>v r. r\<lparr>rs_Code := v\<rparr>)]"

definition zero_Response :: Response where
  "zero_Response = \<lparr>rs_OK = False, rs_ID = [], rs_Data = None, rs_Error = [], rs_Code = []\<rparr>"

definition Call :: "('c, 'p) cli_env \<Rightarrow> string \<Rightarrow> string \<Rightarrow> json option \<Rightarrow> json option result" where
  "Call hx socketPath op1 data =
     (case hx_Dial hx socketPath of
        Some err \<Rightarrow> Inl err
      | None \<Rightarrow>
     (case hx_exchange hx socketPath (js_print (hx_js hx) (request_json op1 data) @ [CHR 0x0A]) of
        Inl err \<Rightarrow> Inl err
      | Inr input \<Rightarrow>
     (case scan_line input of
        None \<Rightarrow> Inl (Errorf ''no response'')
      | Some line \<Rightarrow>
     (case Unmarshal (hx_js hx) response_fields line zero_Response of
        None \<Rightarrow> Inl (Errorf ''invalid json'')
      | Some resp \<Rightarrow>
          if rs_OK resp then Inr (rs_Data resp)
          else if rs_Error resp \<noteq> [] then Inl (Errorf (rs_Error resp))
          else Inl (Errorf ''control error'')))))"

text \<open>The server's side of the exchange: \<open>writeResponse\<close>.\<close>

definition response_json :: "Response \<Rightarrow> json" where
  "response_json r = JObject
     ([(''ok'', JBool (rs_OK r))] @ omit_string ''id'' (rs_ID r) @
      (case rs_Data r of None \<Rightarrow> [] | Some j \<Rightarrow> [(''data'', j)]) @ omit_string ''error'' (rs_Error r) @ omit_string ''code'' (rs_Code r))"

definition writeResponse :: "json_lib \<Rightarrow> Response \<Rightarrow> bytes" where
  "writeResponse js r = js_print js (response_json r) @ [CHR 0x0A]"

section \<open>A call over the control socket\<close>

text \<open>A printed document is one line that the scanner takes whole.\<close>

definition one_line :: "bytes \<Rightarrow> bool" where
  "one_line b \<longleftrightarrow> CHR 0x0A \<notin> set b \<and> b \<noteq> [] \<and> last b \<noteq> CHR 0x0D \<and> length b < 65536"

lemma scan_line_printed: "one_line b \<Longrightarrow> scan_line (b @ [CHR 0x0A]) = Some b"
proof -
  assume b: "one_line b"
  then have "takeWhile (\<lambda>c. c \<noteq> CHR 0x0A) (b @ [CHR 0x0A]) = b"
    by (subst takeWhile_append2) (auto simp: one_line_def)
  with b show ?thesis unfolding scan_line_def Let_def one_line_def by simp
qed

lemma control_folds:
  "fold_key ''op'' = ''OP''" "fold_key ''id'' = ''ID''" "fold_key ''data'' = ''DATA''" "fold_key ''ok'' = ''OK''"
  "fold_key ''error'' = ''ERROR''" "fold_key ''code'' = ''CODE''"
  by code_simp+

lemma decode_control_request:
  "decode_struct request_fields (request_json op1 data) \<lparr>rq_Op = [], rq_ID = [], rq_Data = None\<rparr> =
     Some \<lparr>rq_Op = op1, rq_ID = [], rq_Data = data\<rparr>"
  by (simp add: request_json_def decode_struct_def request_fields_def json_field_defs control_folds split: option.split)

lemma decode_control_response: "decode_struct response_fields (response_json r) zero_Response = Some r"
  by (cases r) (simp add: response_json_def decode_struct_def response_fields_def json_field_defs control_folds omit_string_def
      zero_Response_def split: option.split)

definition served_by :: "('c, 'p) cli_env \<Rightarrow> os_ids \<Rightarrow> api_env \<Rightarrow> (int \<times> int) result \<Rightarrow> string \<Rightarrow> string \<Rightarrow> server \<Rightarrow> bool" where
  "served_by hx os env cred groupName socketPath s \<longleftrightarrow>
     hx_js hx = ae_js env \<and> hx_Dial hx socketPath = None
     \<and> (\<forall>line. hx_exchange hx socketPath line =
          Inr (case snd (serveConn os env cred groupName line s) of None \<Rightarrow> [] | Some resp \<Rightarrow> writeResponse (ae_js env) resp))"

lemma serveConn_handles:
  assumes "peerAllowed os cred groupName = None" and "reads_back js js (request_json op1 data)"
    and "one_line (js_print js (request_json op1 data))" and "ae_js env = js"
  shows "serveConn os env cred groupName (js_print js (request_json op1 data) @ [CHR 0x0A]) s =
    (fst (ctl_handle env \<lparr>rq_Op = op1, rq_ID = [], rq_Data = data\<rparr> s),
     Some (snd (ctl_handle env \<lparr>rq_Op = op1, rq_ID = [], rq_Data = data\<rparr> s)))"
  using assms
  by (simp add: serveConn_def scan_line_printed Unmarshal_def reads_back_def decode_control_request case_prod_beta)

lemma call_answered:
  assumes served: "served_by hx os env cred groupName socketPath s" and peer: "peerAllowed os cred groupName = None"
    and req: "reads_back (hx_js hx) (hx_js hx) (request_json op1 data)" "one_line (js_print (hx_js hx) (request_json op1 data))"
    and r: "ctl_handle env \<lparr>rq_Op = op1, rq_ID = [], rq_Data = data\<rparr> s = (s', resp)"
    and resp: "reads_back (hx_js hx) (hx_js hx) (response_json resp)" "one_line (js_print (hx_js hx) (response_json resp))"
  shows "Call hx socketPath op1 data =
    (if rs_OK resp then Inr (rs_Data resp)
     else Inl (Errorf (if rs_Error resp \<noteq> [] then rs_Error resp else ''control error'')))"
proof -
  have js: "ae_js env = hx_js hx" using served by (simp add: served_by_def)
  let ?line = "js_print (hx_js hx) (request_json op1 data) @ [CHR 0x0A]"
  have "snd (serveConn os env cred groupName ?line s) = Some resp"
    using serveConn_handles [OF peer req js, of s] r by simp
  with served js have "hx_exchange hx socketPath ?line = Inr (writeResponse (hx_js hx) resp)"
    by (simp add: served_by_def)
  moreover have "hx_Dial hx socketPath = None" using served by (simp add: served_by_def)
  moreover have "scan_line (writeResponse (hx_js hx) resp) = Some (js_print (hx_js hx) (response_json resp))"
    unfolding writeResponse_def by (rule scan_line_printed [OF resp(2)])
  moreover have "Unmarshal (hx_js hx) response_fields (js_print (hx_js hx) (response_json resp)) zero_Response = Some resp"
    using resp(1) by (simp add: Unmarshal_def reads_back_def decode_control_response)
  ultimately show ?thesis by (simp add: Call_def)
qed

text \<open>
  (C29) A call returns what the operation answered: over a socket that the proxy serves to this user, the
  client gets the data of the operation's response, or its error text, as long as request and
  response each fit into one line of the scanner.
\<close>

theorem control_call_exact:
  assumes served: "served_by hx os env cred groupName socketPath s" and peer: "peerAllowed os cred groupName = None"
    and req: "reads_back (hx_js hx) (hx_js hx) (request_json op1 data)" "one_line (js_print (hx_js hx) (request_json op1 data))"
    and r: "ctl_handle env \<lparr>rq_Op = op1, rq_ID = [], rq_Data = data\<rparr> s = (s', resp)"
    and resp: "reads_back (hx_js hx) (hx_js hx) (response_json resp)" "one_line (js_print (hx_js hx) (response_json resp))"
  shows "Call hx socketPath op1 data =
    (if rs_OK resp then Inr (rs_Data resp)
     else Inl (Errorf (if rs_Error resp \<noteq> [] then rs_Error resp else ''control error'')))"
  by (rule call_answered [OF assms])

text \<open>An answer of 64 kilobytes or more is not seen, although the operation has been carried out.\<close>

lemma long_answer_lost:
  assumes "hx_Dial hx socketPath = None" and "CHR 0x0A \<notin> set answer" and "65536 \<le> length answer"
    and "hx_exchange hx socketPath (js_print (hx_js hx) (request_json op1 data) @ [CHR 0x0A]) = Inr (answer @ [CHR 0x0A])"
  shows "Call hx socketPath op1 data = Inl (Errorf ''no response'')"
proof -
  have "takeWhile (\<lambda>c. c \<noteq> CHR 0x0A) (answer @ [CHR 0x0A]) = answer"
    using assms(2) by (subst takeWhile_append2) auto
  then have "scan_line (answer @ [CHR 0x0A]) = None"
    using assms(3) unfolding scan_line_def Let_def by simp
  with assms(1,4) show ?thesis by (simp add: Call_def)
qed

section \<open>A key loaded remotely\<close>

lemma load_folds:
  "fold_key ''encrypted_pem'' = ''ENCRYPTED_PEM''" "fold_key ''passphrase'' = ''PASSPHRASE''" "fold_key ''label'' = ''LABEL''"
  "fold_key ''comment'' = ''COMMENT''" "fold_key ''timestamp'' = ''TIMESTAMP''" "fold_key ''fingerprint'' = ''FINGERPRINT''"
  by code_simp+

definition load_view :: "bytes \<Rightarrow> bytes \<Rightarrow> string \<Rightarrow> int \<Rightarrow> parsedCLIKeysLoad" where
  "load_view pem pass label ts = \<lparr>pl_EncryptedPEM = StdEncoding_EncodeToString pem, pl_Passphrase = pass, pl_Label = label,
     pl_Comment = [], pl_Timestamp = ts\<rparr>"

lemma decode_load:
  assumes "int64 ts" and "reads_back js js' (loadRequest_json pem pass label ts)"
  shows "parseCLIKeysLoadBody js' (js_print js (loadRequest_json pem pass label ts)) = Some (load_view pem pass label ts)"
  using assms
  by (simp add: parseCLIKeysLoadBody_def Unmarshal_def reads_back_def loadRequest_json_def decode_struct_def load_fields_def
      json_field_defs load_folds decodeJSONStringField_def load_view_def)

lemma cli_Load_writes:
  assumes "Wrote conn w \<in> set (drop (length t) (fst (cli_Load hx fs cfg pemPath pass label t)))"
  shows "\<exists>pem mac. os_ReadFile (hx_fr hx) fs pemPath = Inr pem
    \<and> ComputeBodyHMAC conn (js_print (hx_js hx) (loadRequest_json pem pass label (time_Unix (hx_now hx)))) = Inr mac
    \<and> w = load_post (lc_ProxyURL cfg) (js_print (hx_js hx) (loadRequest_json pem pass label (time_Unix (hx_now hx)))) mac"
proof -
  have d: "fst (cli_dialTLS hx host c t) = t @ [Dialed host]" for host c by (simp add: cli_dialTLS_def Let_def split: option.split)
  have d': "cli_dialTLS hx host c t = (t1, x) \<Longrightarrow> t1 = t @ [Dialed host]" for host c t1 x using d [of host c] by simp
  from assms show ?thesis
    by (auto simp: cli_Load_def Let_def split: sum.splits prod.splits if_splits dest!: d')
qed

lemma authenticated_load:
  assumes d: "delivers conn w r" and sc: "rq_conn r = Some sconn"
    and w: "w = load_post url body mac" "ComputeBodyHMAC conn body = Inr mac"
    and ts: "\<bar>time_Unix now - ts\<bar> \<le> timestampWindowSec" and new: "AddIfNew now' (sha256_Sum256 body) cache = (True, cache')"
  shows "ValidateCLIKeysLoad sconn body (rq_header r ''X-Luna-Body-Mac'') ts now now' cache = (cache', None)"
proof -
  have m: "sdk_ComputeBodyHMAC conn body = Inr mac"
    using w(2) by (simp add: ComputeBodyHMAC_def computeBodyHMAC_def sdk_ComputeBodyHMAC_def sdk_exporterLabel_def exporterLabel_def)
  have "rq_header r ''X-Luna-Body-Mac'' = FormatMACHeader mac"
    using d w(1) by (simp add: delivers_def load_post_def FormatMACHeader_def)
  moreover have "VerifyBodyHMAC sconn body (FormatMACHeader mac) = None"
    using d sc by (intro FormatMACHeader_verifies [OF m]) (auto simp: delivers_def)
  ultimately show ?thesis using in_window [OF ts] new by (simp add: ValidateCLIKeysLoad_def)
qed

text \<open>
  What the operator typed is what the keystore is asked to load: a key that \<open>luna-proxy key load\<close> sends to a
  proxy reaches it authenticated, and the handler goes on to load the bytes of that file with that
  passphrase under that label, when the device is enrolled and the request arrives in time and for
  the first time.
\<close>

theorem remote_load_delivered:
  assumes w: "Wrote conn w \<in> set (drop (length t) (fst (cli_Load hx fs cfg pemPath pass label t)))"
    and pem: "os_ReadFile (hx_fr hx) fs pemPath = Inr pem" "pem \<noteq> []" "pass \<noteq> []" "ValidateLabel label = None" "label \<noteq> []"
    and js: "reads_back (hx_js hx) (ae_js env) (loadRequest_json pem pass label (time_Unix (hx_now hx)))"
    and d: "delivers conn w r" "length (or_body w) \<le> maxCLIKeyLoadBody" and peer: "cli_peer r s = Inr dev"
    and time: "int64 (time_Unix (hx_now hx))" "\<bar>time_Unix (ae_now env 0) - time_Unix (hx_now hx)\<bar> \<le> timestampWindowSec"
    and new: "AddIfNew (ae_now env 1) (sha256_Sum256 (or_body w)) (sv_replay s) = (True, cache)"
  shows "handleCLIKeysLoad env r s =
    cli_load_key env dev (load_view pem pass label (time_Unix (hx_now hx))) (s\<lparr>sv_replay := cache\<rparr>)
    \<and> StdEncoding_DecodeString (pl_EncryptedPEM (load_view pem pass label (time_Unix (hx_now hx)))) = Some pem"
proof -
  let ?body = "js_print (hx_js hx) (loadRequest_json pem pass label (time_Unix (hx_now hx)))"
  from cli_Load_writes [OF w] pem(1) obtain mac where
    m: "ComputeBodyHMAC conn ?body = Inr mac" "w = load_post (lc_ProxyURL cfg) ?body mac" by auto
  from d(1) obtain sconn where sc: "rq_conn r = Some sconn" by (auto simp: delivers_def)
  have body: "rq_body r = ?body" "or_body w = ?body" "\<not> rq_body_fails r"
    using d(1) m(2) by (simp_all add: delivers_def load_post_def)
  have rd: "ReadAll maxCLIKeyLoadBody r = Inr ?body" using d(2) body by (simp add: ReadAll_def)
  have auth: "ValidateCLIKeysLoad sconn ?body (rq_header r ''X-Luna-Body-Mac'') (time_Unix (hx_now hx)) (ae_now env 0) (ae_now env 1)
      (sv_replay s) = (cache, None)"
    by (rule authenticated_load [OF d(1) sc m(2,1) time(2)]) (use new body in simp)
  have dec: "StdEncoding_DecodeString (StdEncoding_EncodeToString pem) = Some pem" by (simp add: codec_simps)
  then have ne: "StdEncoding_EncodeToString pem \<noteq> []" using pem(2) StdEncoding_Decode_empty by (metis option.inject)
  have "handleCLIKeysLoad env r s =
    cli_load_key env dev (load_view pem pass label (time_Unix (hx_now hx))) (s\<lparr>sv_replay := cache\<rparr>)"
    using peer rd sc decode_load [OF time(1) js] auth ne pem(3-5)
    by (simp add: handleCLIKeysLoad_def load_view_def)
  with dec show ?thesis by (simp add: load_view_def)
qed

section \<open>The downloaded CA\<close>

lemma pair_of_True: "fst p \<Longrightarrow> \<exists>c. p = (True, c)"
  by (cases p) simp

text \<open>
  A download replaces the CA file as a whole or not at all: on success the file holds a document with
  a certificate in it, the whole of what arrived; on failure the file is what it was; no other
  file but the temporary one is touched.
\<close>

theorem FetchCA_all_or_nothing:
  assumes "FetchCA hx deadline url dest fs = (fs', r)"
  shows "(case r of
       Inr p \<Rightarrow> p = filepath_Clean dest
         \<and> (\<exists>f resp. map_of fs' p = Some f \<and> strings_Contains (fi_data f) ''BEGIN CERTIFICATE''
              \<and> read_limited (2 ^ 18) resp = Inr (fi_data f) \<and> in_status resp = 200)
     | Inl _ \<Rightarrow> map_of fs' (filepath_Clean dest) = map_of fs (filepath_Clean dest))
   \<and> (\<forall>q. q \<noteq> filepath_Clean dest \<longrightarrow> q \<noteq> filepath_Clean dest @ ''.tmp'' \<longrightarrow> map_of fs' q = map_of fs q)"
proof (cases "fs' = fs \<and> (\<exists>err. r = Inl err)")
  case True
  then show ?thesis by auto
next
  case False
  let ?p = "filepath_Clean dest"
  from assms False obtain body resp out where
    w: "read_limited (2 ^ 18) resp = Inr body" "in_status resp = 200" "strings_Contains body ''BEGIN CERTIFICATE''"
      "write_and_rename (hx_fr hx) (\<lambda>e. e) (\<lambda>e. e) ?p body mode_0644 fs = (fs', out)"
      "r = (case out of None \<Rightarrow> Inr ?p | Some err \<Rightarrow> Inl err)"
    unfolding FetchCA_def Let_def by (auto split: if_splits sum.splits option.splits prod.splits) (metis sum.simps(4))
  show ?thesis
  proof (cases out)
    case None
    note ok = write_and_rename_ok [OF w(4) [unfolded None]]
    obtain m where m: "map_of fs' ?p = Some \<lparr>fi_data = body, fi_mode = m\<rparr>" using ok(1) by blast
    have r: "r = Inr ?p" using w(5) None by simp
    show ?thesis unfolding r sum.case
      by (intro conjI refl allI impI exI [of _ "\<lparr>fi_data = body, fi_mode = m\<rparr>"] exI [of _ resp] m ok(2))
        (simp_all only: file_entry.simps w not_False_eq_True)
  next
    case (Some err)
    have "map_of fs' q = map_of fs q" if "q \<noteq> ?p @ ''.tmp''" for q
      using write_and_rename_fails [OF w(4) [unfolded Some] that] .
    with w(5) Some show ?thesis by simp
  qed
qed

section \<open>Examples\<close>

definition demo_cli_env :: "json_lib \<Rightarrow> (bytes \<Rightarrow> bytes result) \<Rightarrow> (unit, unit) cli_env" where
  "demo_cli_env js exchange =
     \<lparr>hx_fr = demo_rules, hx_LoadX509KeyPair = \<lambda>_ _ _. Inr (), hx_AppendCertsFromPEM = \<lambda>_. Some (), hx_x5 = demo_x5,
      hx_VerifyCert = \<lambda>_ _. None, hx_url_Parse = \<lambda>_. Inr \<lparr>url_Scheme = ''https'', url_Host = ''proxy''\<rparr>, hx_valid_url = \<lambda>_. True,
      hx_js = js, hx_nw = demo_network,
      hx_Fetch = \<lambda>_ _ _. Inr \<lparr>in_status = 200, in_body = ''BEGIN CERTIFICATE'', in_read_err = None\<rparr>,
      hx_Dial = \<lambda>_. None, hx_exchange = \<lambda>_. exchange, hx_now = 1000 * second\<rparr>"

theorem FetchCA_all_or_nothing_witness:
  "\<exists>fs' p f. FetchCA (demo_cli_env demo_js (\<lambda>_. Inr [])) None ''https://proxy/'' ''ca.crt'' [] = (fs', Inr p)
     \<and> map_of fs' p = Some f \<and> strings_Contains (fi_data f) ''BEGIN CERTIFICATE''"
proof -
  let ?hx = "demo_cli_env demo_js (\<lambda>_. Inr [])"
  have "filepath_Clean ''ca.crt'' = ''ca.crt''" "TrimRight (TrimSpace ''https://proxy/'') ''/'' = ''https://proxy''"
    "HasPrefix ''https://proxy'' ''https://''" "strings_Contains ''BEGIN CERTIFICATE'' ''BEGIN CERTIFICATE''" by code_simp+
  then have "\<exists>fs'. FetchCA ?hx None ''https://proxy/'' ''ca.crt'' [] = (fs', Inr ''ca.crt'')"
    by (simp add: FetchCA_def demo_cli_env_def demo_rules_def read_limited_def write_and_rename_def os_WriteFile_defs os_Rename_def Let_def)
  then obtain fs' where r: "FetchCA ?hx None ''https://proxy/'' ''ca.crt'' [] = (fs', Inr ''ca.crt'')" by blast
  with FetchCA_all_or_nothing [OF r] show ?thesis by auto
qed

definition demo_call :: json where
  "demo_call = request_json ''cli.list'' None"

definition demo_call_js :: json_lib where
  "demo_call_js = \<lparr>js_parse = \<lambda>b. if b = ''q'' then Some demo_call
       else Some (response_json (ctl_ok [] (Some (cliListData demo_enroll_server)))),
     js_print = \<lambda>j. if j = demo_call then ''q'' else ''r''\<rparr>"

theorem control_call_exact_witness:
  "\<exists>hx :: (unit, unit) cli_env. Call hx ''sock'' ''cli.list'' None = Inr (Some (cliListData demo_enroll_server))"
proof -
  let ?env = "(demo_env [])\<lparr>ae_js := demo_call_js\<rparr>"
  let ?os = "\<lparr>os_euid = 900, os_LookupGroup = \<lambda>_. Inl (Errorf ''none'')\<rparr>"
  let ?ex = "\<lambda>line. Inr (case snd (serveConn ?os ?env (Inr (0, 0)) [] line demo_enroll_server) of None \<Rightarrow> []
      | Some resp \<Rightarrow> writeResponse (ae_js ?env) resp)"
  let ?hx = "demo_cli_env demo_call_js ?ex"
  let ?resp = "ctl_ok [] (Some (cliListData demo_enroll_server))"
  have js: "hx_js ?hx = demo_call_js" by (simp add: demo_cli_env_def)
  have ne: "response_json ?resp \<noteq> demo_call" by (simp add: response_json_def demo_call_def request_json_def ctl_ok_def omit_string_def)
  have served: "served_by ?hx ?os ?env (Inr (0, 0)) [] ''sock'' demo_enroll_server"
    unfolding served_by_def by (simp add: demo_cli_env_def)
  have peer: "peerAllowed ?os (Inr (0, 0)) [] = None" by (simp add: peerAllowed_def credAllowed_def)
  have q: "reads_back demo_call_js demo_call_js (request_json ''cli.list'' None)"
      "one_line (js_print demo_call_js (request_json ''cli.list'' None))"
    unfolding demo_call_def [symmetric] by (simp_all add: reads_back_def one_line_def demo_call_js_def)
  have h: "ctl_handle ?env \<lparr>rq_Op = ''cli.list'', rq_ID = [], rq_Data = None\<rparr> demo_enroll_server = (demo_enroll_server, ?resp)"
    by (simp add: ctl_handle_def)
  have a: "reads_back demo_call_js demo_call_js (response_json ?resp)" "one_line (js_print demo_call_js (response_json ?resp))"
    using ne by (simp_all add: reads_back_def one_line_def demo_call_js_def)
  have "Call ?hx ''sock'' ''cli.list'' None = (if rs_OK ?resp then Inr (rs_Data ?resp)
     else Inl (Errorf (if rs_Error ?resp \<noteq> [] then rs_Error ?resp else ''control error'')))"
    by (rule control_call_exact [OF served peer _ _ h]) (simp_all only: js q a)
  then show ?thesis by (intro exI [of _ ?hx]) (simp add: ctl_ok_def)
qed

text \<open>An operator whose laptop is enrolled.\<close>

definition demo_cli_cert :: x509_cert where
  "demo_cli_cert = \<lparr>xc_Raw = ''laptop'', xc_OrganizationalUnit = [''cli'']\<rparr>"

definition demo_operator_server :: server where
  "demo_operator_server = demo_enroll_server\<lparr>sv_cli := fst (cli_Enroll ''1'' 0 ''laptop'' (CertFingerprint demo_cli_cert) cli_NewStore)\<rparr>"

definition demo_load_json :: json where
  "demo_load_json = loadRequest_json ''pem'' ''good'' ''host'' 1000"

definition demo_load_js :: json_lib where
  "demo_load_js = \<lparr>js_parse = \<lambda>_. Some demo_load_json, js_print = \<lambda>_. ''body''\<rparr>"

lemma demo_operator:
  assumes "rq_TLS r = Some [demo_cli_cert]"
  shows "\<exists>dev. cli_peer r demo_operator_server = Inr dev"
proof -
  have "\<exists>st d. cli_Enroll ''1'' 0 ''laptop'' (CertFingerprint demo_cli_cert) cli_NewStore = (st, Inr d)"
    by (simp add: cli_Enroll_def cli_NewStore_def ValidateLabel_def MaxLabelLen_def Let_def)
  then obtain st d where e: "cli_Enroll ''1'' 0 ''laptop'' (CertFingerprint demo_cli_cert) cli_NewStore = (st, Inr d)" by blast
  have "sv_cli demo_operator_server = st" by (simp add: demo_operator_server_def e)
  moreover have "cfg_AdminClientOU (sv_cfg demo_operator_server) = ''admin''" "cfg_CliClientOU (sv_cfg demo_operator_server) = ''cli''"
    "cfg_SignerMode (sv_cfg demo_operator_server) = SignerModeLocalKey"
    by (simp_all add: demo_operator_server_def demo_enroll_server_def)
  moreover have "peer_cert r = Some demo_cli_cert" using assms by (simp add: peer_cert_def)
  ultimately show ?thesis using cli_Enroll_found [OF e]
    by (simp add: cli_peer_def cliDeviceFromPeer_def adminClientAllowed_def cliClientAllowed_def) (simp add: demo_cli_cert_def)
qed

theorem remote_load_delivered_witness:
  "\<exists>r dev cache. handleCLIKeysLoad (demo_sdk_env\<lparr>ae_js := demo_load_js\<rparr>) r demo_operator_server =
     cli_load_key (demo_sdk_env\<lparr>ae_js := demo_load_js\<rparr>) dev (load_view ''pem'' ''good'' ''host'' 1000)
       (demo_operator_server\<lparr>sv_replay := cache\<rparr>)"
proof -
  let ?hx = "demo_cli_env demo_load_js (\<lambda>_. Inr [])"
  let ?env = "demo_sdk_env\<lparr>ae_js := demo_load_js\<rparr>"
  let ?fs = "[(''key.pem'', \<lparr>fi_data = ''pem'', fi_mode = mode_0600\<rparr>), (''ca.crt'', \<lparr>fi_data = [], fi_mode = mode_0644\<rparr>)]"
  let ?cfg = "\<lparr>lc_ProxyURL = ''https://proxy'', lc_CliCert = [], lc_CliKey = [], lc_CA = ''ca.crt''\<rparr>"
  let ?w = "load_post ''https://proxy'' ''body'' (hmac_Sum ''exported key'' ''body'')"
  let ?r = "demo_post\<lparr>rq_TLS := Some [demo_cli_cert], rq_header :=
     \<lambda>n. if n = ''Content-Type'' then ''application/json'' else hex_EncodeToString (hmac_Sum ''exported key'' ''body'')\<rparr>"
  have now: "time_Unix (hx_now ?hx) = 1000" by (simp add: demo_cli_env_def time_Unix_def second_def)
  have mac: "ComputeBodyHMAC demo_conn ''body'' = Inr (hmac_Sum ''exported key'' ''body'')"
    by (simp add: ComputeBodyHMAC_def computeBodyHMAC_def demo_conn_def)
  have tls: "\<exists>c host. tlsConfigAndHost ?hx ?fs \<lparr>mt_ProxyURL = ''https://proxy'', mt_Cert = [], mt_Key = [], mt_CA = ''ca.crt''\<rparr> = Inr (c, host)"
    by (simp add: tlsConfigAndHost_def demo_cli_env_def os_ReadFile_def demo_rules_def Let_def)
  then obtain c host where tls: "tlsConfigAndHost ?hx ?fs \<lparr>mt_ProxyURL = ''https://proxy'', mt_Cert = [], mt_Key = [], mt_CA = ''ca.crt''\<rparr>
      = Inr (c, host)" by blast
  have dial: "cli_dialTLS ?hx host c [] = ([Dialed host], Inr demo_conn)"
    by (simp add: cli_dialTLS_def demo_cli_env_def demo_network_def)
  have rd: "os_ReadFile (hx_fr ?hx) ?fs ''key.pem'' = Inr ''pem''" by (simp add: os_ReadFile_def demo_cli_env_def demo_rules_def)
  have pr: "js_print (hx_js ?hx) j = ''body''" for j by (simp add: demo_cli_env_def demo_load_js_def)
  have url: "hx_valid_url ?hx u" for u by (simp add: demo_cli_env_def)
  have w: "Wrote demo_conn ?w \<in> set (drop (length []) (fst (cli_Load ?hx ?fs ?cfg ''key.pem'' ''good'' ''host'' [])))"
    by (simp add: cli_Load_def rd tls dial mac pr url Let_def del: hmac_Sum_def split: sum.split)
  have js: "reads_back (hx_js ?hx) (ae_js ?env) (loadRequest_json ''pem'' ''good'' ''host'' (time_Unix (hx_now ?hx)))"
    unfolding now by (simp add: reads_back_def demo_load_js_def demo_load_json_def)
  have d: "delivers demo_conn ?w ?r" by (simp add: delivers_def load_post_def demo_post_def)
  have size: "length (or_body ?w) \<le> maxCLIKeyLoadBody" by (simp add: load_post_def maxCLIKeyLoadBody_def)
  obtain dev where dev: "cli_peer ?r demo_operator_server = Inr dev" using demo_operator [of ?r] by auto
  have time: "int64 (time_Unix (hx_now ?hx))" "\<bar>time_Unix (ae_now ?env 0) - time_Unix (hx_now ?hx)\<bar> \<le> timestampWindowSec"
    unfolding now by (simp_all add: int64_def demo_sdk_env_def demo_env_def time_Unix_def second_def timestampWindowSec_def)
  have "fst (AddIfNew now k (sv_replay demo_operator_server))" for now k
    by (simp add: demo_operator_server_def demo_enroll_server_def demo_server_def serve_cache_def AddIfNew_empty)
  then obtain cache where new: "AddIfNew (ae_now ?env 1) (sha256_Sum256 (or_body ?w)) (sv_replay demo_operator_server) = (True, cache)"
    using pair_of_True by blast
  have lab: "''pem'' \<noteq> []" "''good'' \<noteq> []" "ValidateLabel ''host'' = None" "''host'' \<noteq> []"
    by (simp_all add: ValidateLabel_def MaxLabelLen_def)
  from remote_load_delivered [OF w rd lab js d size dev time new] show ?thesis unfolding now by blast
qed

end
