(* ===== verification/Cli_Cmd.thy ===== *)
theory Cli_Cmd
  imports Cli_Client Config_Load "HOL-Library.Char_ord" "HOL-Library.List_Lexorder" "HOL-Library.Multiset"
begin

text \<open>
  The commands of \<open>luna-proxy\<close> that talk to a running proxy (\<open>cmd/luna-proxy\<close>: \<open>key.go\<close>, \<open>cli.go\<close>,
  \<open>mobile.go\<close>, \<open>status.go\<close>), the profile with which they reach a remote one (\<open>cli_config.go\<close>) and what
  they print (\<open>output.go\<close>). A command works on the files and the network and adds to the output;
  the settings of its flags are a function, the empty string standing for a flag that is not given
  or not defined. Hints on standard error are left out.
\<close>

section \<open>Output\<close>

record signerRow =
  sg_Fingerprint :: string
  sg_Comment :: string

definition newline_str :: string where
  "newline_str = [CHR 0x0A]"

definition formatSHA256 :: "string \<Rightarrow> string" where
  "formatSHA256 fingerprint = (if fingerprint = [] then ''SHA256:'' else ''SHA256:'' @ fingerprint)"

definition writeFingerprintLine :: "string \<Rightarrow> string \<Rightarrow> string \<Rightarrow> string" where
  "writeFingerprintLine prefix1 fingerprint comment =
     (if comment \<noteq> [] then prefix1 @ formatSHA256 fingerprint @ ''  '' @ comment @ newline_str
      else prefix1 @ formatSHA256 fingerprint @ newline_str)"

text \<open>\<open>sort.Slice\<close> leaves the order of rows with the same fingerprint open; here they keep theirs.\<close>

definition writeSigners :: "string \<Rightarrow> signerRow list \<Rightarrow> string" where
  "writeSigners prefix1 signers =
     (if signers = [] then prefix1 @ ''(none)'' @ newline_str
      else concat (map (\<lambda>s. writeFingerprintLine prefix1 (sg_Fingerprint s) (sg_Comment s)) (sort_key sg_Fingerprint signers)))"

definition signerRow_fields :: "signerRow json_field list" where
  "signerRow_fields =
     [string_field ''fingerprint'' (\<lambda>v r. r\<lparr>sg_Fingerprint := v\<rparr>), string_field ''comment'' (\<lambda>v r. r\<lparr>sg_Comment := v\<rparr>)]"

definition signerRow_elem :: "json \<Rightarrow> signerRow option" where
  "signerRow_elem j = decode_struct signerRow_fields j \<lparr>sg_Fingerprint = [], sg_Comment = []\<rparr>"

text \<open>\<open>json.Unmarshal\<close> of the data of a response; there being none, it fails.\<close>

definition bad_data :: go_error where
  "bad_data = Errorf ''unexpected end of JSON input''"

definition formatKeyLoadResult :: "json option \<Rightarrow> string result" where
  "formatKeyLoadResult data =
     (case decode_data [string_field ''fingerprint'' (\<lambda>v _. v)] data [] of
        None \<Rightarrow> Inl bad_data
      | Some fp \<Rightarrow> Inr (formatSHA256 fp @ newline_str))"

definition formatKeyListResult :: "json option \<Rightarrow> string result" where
  "formatKeyListResult data =
     (case decode_data [slice_field ''signers'' signerRow_elem (\<lambda>v _. v)] data [] of
        None \<Rightarrow> Inl bad_data
      | Some signers \<Rightarrow> Inr (writeSigners [] signers))"

record statusRow =
  su_Sealed :: bool
  su_SignerMode :: string
  su_Loaded :: "signerRow list"
  su_Pending :: int

definition statusRow_fields :: "statusRow json_field list" where
  "statusRow_fields =
     [bool_field ''sealed'' (\<lambda>v r. r\<lparr>su_Sealed := v\<rparr>), string_field ''signer_mode'' (\<lambda>v r. r\<lparr>su_SignerMode := v\<rparr>),
      slice_field ''loaded'' signerRow_elem (\<lambda>v r. r\<lparr>su_Loaded := v\<rparr>), int_field ''pending'' (\<lambda>v r. r\<lparr>su_Pending := v\<rparr>)]"

definition formatStatusResult :: "json option \<Rightarrow> string result" where
  "formatStatusResult data =
     (case decode_data statusRow_fields data \<lparr>su_Sealed = False, su_SignerMode = [], su_Loaded = [], su_Pending = 0\<rparr> of
        None \<Rightarrow> Inl bad_data
      | Some r \<Rightarrow> Inr (''sealed: '' @ (if su_Sealed r then ''true'' else ''false'') @ newline_str @
          ''signer_mode: '' @ su_SignerMode r @ newline_str @ ''loaded:'' @ newline_str @ writeSigners ''  '' (su_Loaded r) @
          ''pending: '' @ FormatInt (su_Pending r) @ newline_str))"

record cliDeviceRow =
  dr_DeviceID :: string
  dr_Label :: string
  dr_CertFingerprint :: string
  dr_EnrolledAt :: string

definition cliDeviceRow_fields :: "cliDeviceRow json_field list" where
  "cliDeviceRow_fields =
     [string_field ''device_id'' (\<lambda>v r. r\<lparr>dr_DeviceID := v\<rparr>), string_field ''label'' (\<lambda>v r. r\<lparr>dr_Label := v\<rparr>),
      string_field ''cert_fingerprint'' (\<lambda>v r. r\<lparr>dr_CertFingerprint := v\<rparr>),
      string_field ''enrolled_at'' (\<lambda>v r. r\<lparr>dr_EnrolledAt := v\<rparr>)]"

definition cliDeviceRow_elem :: "json \<Rightarrow> cliDeviceRow option" where
  "cliDeviceRow_elem j =
     decode_struct cliDeviceRow_fields j \<lparr>dr_DeviceID = [], dr_Label = [], dr_CertFingerprint = [], dr_EnrolledAt = []\<rparr>"

definition formatCLIListResult :: "json option \<Rightarrow> string result" where
  "formatCLIListResult data =
     (case decode_data [slice_field ''devices'' cliDeviceRow_elem (\<lambda>v _. v)] data [] of
        None \<Rightarrow> Inl bad_data
      | Some devices \<Rightarrow>
          Inr (if devices = [] then ''(none)'' @ newline_str
               else concat (map (\<lambda>d. dr_DeviceID d @ ''  '' @ dr_Label d @ ''  '' @ dr_CertFingerprint d @ ''  '' @ dr_EnrolledAt d
                      @ newline_str) (sort_key dr_DeviceID devices))))"

section \<open>The profile\<close>

record CLIProfile =
  cp_ProxyURL :: string
  cp_AdminCert :: string
  cp_AdminKey :: string
  cp_CA :: string
  cp_CliCert :: string
  cp_CliKey :: string

definition zero_CLIProfile :: CLIProfile where
  "zero_CLIProfile = \<lparr>cp_ProxyURL = [], cp_AdminCert = [], cp_AdminKey = [], cp_CA = [], cp_CliCert = [], cp_CliKey = []\<rparr>"

text \<open>The YAML reader fills a struct of the same fields.\<close>

record cli_os =
  co_home :: "string result"
  co_yaml :: "bytes \<Rightarrow> CLIProfile result"
  co_flag :: "string \<Rightarrow> string"

definition cliProfilePath :: "cli_os \<Rightarrow> string" where
  "cliProfilePath os =
     (case co_home os of
        Inl _ \<Rightarrow> filepath_Join [''.config'', ''luna'', ''cli.yaml'']
      | Inr home \<Rightarrow> filepath_Join [home, ''.config'', ''luna'', ''cli.yaml''])"

definition defaultCLIAutoCAPath :: "cli_os \<Rightarrow> string" where
  "defaultCLIAutoCAPath os = filepath_Join [filepath_Dir (cliProfilePath os), ''ca.crt'']"

definition expandCLIPath :: "string result \<Rightarrow> string \<Rightarrow> string result" where
  "expandCLIPath homeDir p =
     (if p = [] then Inr []
      else if p = ''~'' then homeDir
      else if HasPrefix p ''~/''
      then (case homeDir of Inl err \<Rightarrow> Inl err | Inr home \<Rightarrow> Inr (filepath_Join [home, drop 2 p]))
      else Inr p)"

definition expandPaths :: "string result \<Rightarrow> CLIProfile \<Rightarrow> CLIProfile result" where
  "expandPaths homeDir p =
     (case expandCLIPath homeDir (cp_AdminCert p) of Inl err \<Rightarrow> Inl err | Inr adminCert \<Rightarrow>
     (case expandCLIPath homeDir (cp_AdminKey p) of Inl err \<Rightarrow> Inl err | Inr adminKey \<Rightarrow>
     (case expandCLIPath homeDir (cp_CliCert p) of Inl err \<Rightarrow> Inl err | Inr cliCert \<Rightarrow>
     (case expandCLIPath homeDir (cp_CliKey p) of Inl err \<Rightarrow> Inl err | Inr cliKey \<Rightarrow>
     (case expandCLIPath homeDir (cp_CA p) of Inl err \<Rightarrow> Inl err | Inr ca \<Rightarrow>
        Inr (p\<lparr>cp_AdminCert := adminCert, cp_AdminKey := adminKey, cp_CliCert := cliCert, cp_CliKey := cliKey, cp_CA := ca\<rparr>))))))"

definition loadCLIProfileFile :: "fs_rules \<Rightarrow> cli_os \<Rightarrow> files \<Rightarrow> string \<Rightarrow> CLIProfile option result" where
  "loadCLIProfileFile fr os fs path =
     (case os_ReadFile fr fs path of
        Inl (NotExist _) \<Rightarrow> Inr None
      | Inl (OtherError err) \<Rightarrow> Inl err
      | Inr raw \<Rightarrow>
     (case co_yaml os raw of
        Inl err \<Rightarrow> Inl (Wrapf (''parse '' @ path @ '': '') err '''')
      | Inr y \<Rightarrow>
     (case expandPaths (co_home os)
             \<lparr>cp_ProxyURL = TrimSpace (cp_ProxyURL y), cp_AdminCert = TrimSpace (cp_AdminCert y),
              cp_AdminKey = TrimSpace (cp_AdminKey y), cp_CA = TrimSpace (cp_CA y), cp_CliCert = TrimSpace (cp_CliCert y),
              cp_CliKey = TrimSpace (cp_CliKey y)\<rparr> of
        Inl err \<Rightarrow> Inl err
      | Inr prof \<Rightarrow> Inr (Some prof))))"

definition LoadCLIProfile :: "fs_rules \<Rightarrow> cli_os \<Rightarrow> files \<Rightarrow> CLIProfile option result" where
  "LoadCLIProfile fr os fs = loadCLIProfileFile fr os fs (cliProfilePath os)"

definition or_flag :: "cli_os \<Rightarrow> string \<Rightarrow> string \<Rightarrow> string" where
  "or_flag os name v = (if TrimSpace (co_flag os name) \<noteq> [] then TrimSpace (co_flag os name) else v)"

definition resolveCLIProfile :: "fs_rules \<Rightarrow> cli_os \<Rightarrow> files \<Rightarrow> CLIProfile option result" where
  "resolveCLIProfile fr os fs =
     (case LoadCLIProfile fr os fs of
        Inl err \<Rightarrow> Inl err
      | Inr fileProf \<Rightarrow>
     (let p = (case fileProf of None \<Rightarrow> zero_CLIProfile | Some q \<Rightarrow> q);
          prof = \<lparr>cp_ProxyURL = or_flag os ''proxy-url'' (cp_ProxyURL p), cp_AdminCert = or_flag os ''admin-cert'' (cp_AdminCert p),
                  cp_AdminKey = or_flag os ''admin-key'' (cp_AdminKey p), cp_CA = or_flag os ''ca'' (cp_CA p),
                  cp_CliCert = or_flag os ''cli-cert'' (cp_CliCert p), cp_CliKey = or_flag os ''cli-key'' (cp_CliKey p)\<rparr>
      in if cp_ProxyURL prof = [] then Inr None
         else case expandPaths (co_home os) prof of Inl err \<Rightarrow> Inl err | Inr q \<Rightarrow> Inr (Some q)))"

definition validateKeyLoad :: "CLIProfile \<Rightarrow> go_error option" where
  "validateKeyLoad p =
     (if cp_ProxyURL p = [] then Some (Errorf ''proxy URL required'')
      else if cp_CliCert p = [] then Some (Errorf ''cli client certificate path required'')
      else if cp_CliKey p = [] then Some (Errorf ''cli client key path required'')
      else None)"

fun add_dirs :: "string list \<Rightarrow> string list \<Rightarrow> string list" where
  "add_dirs [] dirs = dirs"
| "add_dirs (d0 # ds) dirs =
     (let d = TrimSpace d0
      in if d = [] \<or> d = ''.'' \<or> d \<in> set dirs then add_dirs ds dirs else add_dirs ds (dirs @ [d]))"

definition adminMaterialDirs :: "cli_os \<Rightarrow> string \<Rightarrow> string list" where
  "adminMaterialDirs os csrPath =
     add_dirs
       ((if csrPath \<noteq> [] then [filepath_Dir csrPath] else []) @ [filepath_Dir (cliProfilePath os)] @
        (case co_home os of
           Inl _ \<Rightarrow> []
         | Inr home \<Rightarrow> [filepath_Join [home, ''.config'', ''luna''], filepath_Join [home, ''.config'', ''luna'', ''certs'']]) @
        [''/etc/luna/certs'']) []"

definition applyAdminDefaults :: "cli_os \<Rightarrow> files \<Rightarrow> string \<Rightarrow> CLIProfile \<Rightarrow> CLIProfile" where
  "applyAdminDefaults os fs csrPath p =
     (if cp_AdminCert p \<noteq> [] \<and> cp_AdminKey p \<noteq> [] then p
      else case find (\<lambda>dir. file_exists fs (filepath_Join [dir, ''admin-client.crt''])
                           \<and> file_exists fs (filepath_Join [dir, ''admin-client.key''])) (adminMaterialDirs os csrPath) of
             None \<Rightarrow> p
           | Some dir \<Rightarrow> p\<lparr>cp_AdminCert := or_default (cp_AdminCert p) (filepath_Join [dir, ''admin-client.crt'']),
                          cp_AdminKey := or_default (cp_AdminKey p) (filepath_Join [dir, ''admin-client.key''])\<rparr>)"

text \<open>The advice that follows the first line of two of the messages is left out.\<close>

definition validateAdminEnroll :: "files \<Rightarrow> CLIProfile \<Rightarrow> go_error option" where
  "validateAdminEnroll fs p =
     (if cp_ProxyURL p = [] then Some (Errorf ''proxy URL required'')
      else if cp_AdminCert p = [] then Some (Errorf ''admin client certificate required (OU=luna-admin)'')
      else if cp_AdminKey p = []
      then Some (Errorf ''admin client key required (--admin-key or admin-client.key beside admin-client.crt)'')
      else if \<not> file_exists fs (cp_AdminCert p) then Some (Errorf (''admin certificate not found: '' @ cp_AdminCert p))
      else if \<not> file_exists fs (cp_AdminKey p) then Some (Errorf (''admin client key not found: '' @ cp_AdminKey p))
      else None)"

definition ensureProfileCA :: "('c, 'p) cli_env \<Rightarrow> cli_os \<Rightarrow> CLIProfile \<Rightarrow> files \<Rightarrow> files \<times> CLIProfile result" where
  "ensureProfileCA hx os p fs =
     (if TrimSpace (cp_CA p) \<noteq> [] then (fs, Inr p)
      else case FetchCA hx None (cp_ProxyURL p) (defaultCLIAutoCAPath os) fs of
             (fs', Inl err) \<Rightarrow> (fs', Inl err)
           | (fs', Inr path) \<Rightarrow> (fs', Inr (p\<lparr>cp_CA := path\<rparr>)))"

section \<open>What a command works on\<close>

text \<open>The outside of a command: the environment of the clients, the configuration, the flags and the
  terminal. \<open>ce_IsOpError\<close> tells whether an error of the socket wraps a \<open>net.OpError\<close>; RSA keys
  are made and certificate requests signed by \<open>ce_GenerateKey\<close>, \<open>ce_MarshalPKCS1PrivateKey\<close> and
  \<open>ce_CreateCertificateRequest\<close>, and \<open>ce_IsRSA\<close> is the type test of \<open>loadCLIKey\<close>.\<close>

record ('c, 'p, 'v) cmd_env =
  ce_hx :: "('c, 'p) cli_env"
  ce_cli :: cli_os
  ce_os :: os_env
  ce_viper :: "'v viper_lib"
  ce_socketPath :: string
  ce_passphraseStdin :: bool
  ce_cliForce :: bool
  ce_stdin :: bytes
  ce_stdin_err :: "go_error option"
  ce_IsTerminal :: bool
  ce_ReadPassword :: "bytes result"
  ce_IsOpError :: "go_error \<Rightarrow> bool"
  ce_GenerateKey :: "nat \<Rightarrow> private_key result"
  ce_MarshalPKCS1PrivateKey :: "private_key \<Rightarrow> bytes"
  ce_IsRSA :: "private_key \<Rightarrow> bool"
  ce_CreateCertificateRequest :: "pkix_Name \<Rightarrow> private_key \<Rightarrow> bytes result"

record cmd_state =
  cs_files :: files
  cs_trace :: "net_event list"
  cs_out :: string

type_synonym cmd = "cmd_state \<Rightarrow> cmd_state \<times> go_error option"

definition cmd_fail :: "go_error \<Rightarrow> cmd" where
  "cmd_fail err s = (s, Some err)"

definition print_result :: "string result \<Rightarrow> cmd" where
  "print_result r s = (case r of Inl err \<Rightarrow> (s, Some err) | Inr line \<Rightarrow> (s\<lparr>cs_out := cs_out s @ line\<rparr>, None))"

definition resolveSocket :: "('c, 'p, 'v) cmd_env \<Rightarrow> string result" where
  "resolveSocket ce =
     (if ce_socketPath ce \<noteq> [] then Inr (ce_socketPath ce)
      else case config_Load (ce_os ce) (ce_viper ce) of
             Inl err \<Rightarrow> Inl err
           | Inr cfg \<Rightarrow>
               if cfg_ControlSocket cfg \<noteq> [] then Inr (cfg_ControlSocket cfg) else Inr (DefaultControlSocket (ce_os ce)))"

text \<open>The socket is resolved and called; the answer's data goes on.\<close>

definition socket_call :: "('c, 'p, 'v) cmd_env \<Rightarrow> string \<Rightarrow> json option \<Rightarrow> (json option \<Rightarrow> cmd) \<Rightarrow> cmd" where
  "socket_call ce op1 data k s =
     (case resolveSocket ce of
        Inl err \<Rightarrow> (s, Some err)
      | Inr path \<Rightarrow> (case Call (ce_hx ce) path op1 data of Inl err \<Rightarrow> (s, Some err) | Inr d \<Rightarrow> k d s))"

definition done_quietly :: "json option \<Rightarrow> cmd" where
  "done_quietly d s = (s, None)"

definition token_too_long :: go_error where
  "token_too_long = Errorf ''bufio.Scanner: token too long''"

definition scan_passphrase :: "bytes \<Rightarrow> go_error option \<Rightarrow> bytes result" where
  "scan_passphrase input rerr =
     (case scan_line input of
        Some line \<Rightarrow> Inr (TrimSpace line)
      | None \<Rightarrow>
          if input \<noteq> [] then Inl token_too_long
          else case rerr of Some err \<Rightarrow> Inl err | None \<Rightarrow> Inr [])"

definition readPassphrase :: "('c, 'p, 'v) cmd_env \<Rightarrow> bytes result" where
  "readPassphrase ce =
     (if ce_passphraseStdin ce then scan_passphrase (ce_stdin ce) (ce_stdin_err ce)
      else if ce_IsTerminal ce then ce_ReadPassword ce
      else scan_passphrase (ce_stdin ce) (ce_stdin_err ce))"

section \<open>Commands on keys\<close>

definition printKeyLoadResult :: "json option \<Rightarrow> cmd" where
  "printKeyLoadResult data = print_result (formatKeyLoadResult data)"

definition printKeyListResult :: "json option \<Rightarrow> cmd" where
  "printKeyListResult data = print_result (formatKeyListResult data)"

definition printStatusResult :: "json option \<Rightarrow> cmd" where
  "printStatusResult data = print_result (formatStatusResult data)"

definition printCLIListResult :: "json option \<Rightarrow> cmd" where
  "printCLIListResult data = print_result (formatCLIListResult data)"

definition load_remotely :: "('c, 'p, 'v) cmd_env \<Rightarrow> CLIProfile \<Rightarrow> string \<Rightarrow> bytes \<Rightarrow> cmd" where
  "load_remotely ce prof pemPath pass s =
     (case validateKeyLoad prof of
        Some err \<Rightarrow> (s, Some err)
      | None \<Rightarrow>
     (case ensureProfileCA (ce_hx ce) (ce_cli ce) prof (cs_files s) of
        (fs, Inl err) \<Rightarrow> (s\<lparr>cs_files := fs\<rparr>, Some (Wrapf ''fetch CA: '' err ''''))
      | (fs, Inr q) \<Rightarrow>
     (let label = co_flag (ce_cli ce) ''label''; s1 = s\<lparr>cs_files := fs\<rparr>
      in if label = [] then (s1, Some (Errorf ''--label is required for remote key load''))
         else case cli_Load (ce_hx ce) fs \<lparr>lc_ProxyURL = cp_ProxyURL q, lc_CliCert = cp_CliCert q, lc_CliKey = cp_CliKey q,
                     lc_CA = cp_CA q\<rparr> pemPath pass label (cs_trace s1) of
                (t, Inl err) \<Rightarrow> (s1\<lparr>cs_trace := t\<rparr>, Some err)
              | (t, Inr fp) \<Rightarrow> printKeyLoadResult (Some (fingerprint_json fp)) (s1\<lparr>cs_trace := t\<rparr>))))"

definition load_on_host :: "('c, 'p, 'v) cmd_env \<Rightarrow> string \<Rightarrow> bytes \<Rightarrow> cmd" where
  "load_on_host ce pemPath pass s =
     (case resolveSocket ce of
        Inl err \<Rightarrow> (s, Some (Wrapf (''configure '' @ cliProfilePath (ce_cli ce) @ '' or use --socket for on-host key load: '') err ''''))
      | Inr path \<Rightarrow>
     (case Call (ce_hx ce) path ''key.load'' (Some (JObject [(''passphrase'', JString pass), (''path'', JString pemPath)])) of
        Inl err \<Rightarrow>
          (s, Some (if ce_IsOpError ce err
                    then Errorf (''configure '' @ cliProfilePath (ce_cli ce) @
                      '' for remote key load or run on the central host with control socket access'')
                    else err))
      | Inr data \<Rightarrow> printKeyLoadResult data s))"

definition runKeyLoad :: "('c, 'p, 'v) cmd_env \<Rightarrow> string \<Rightarrow> cmd" where
  "runKeyLoad ce pemPath s =
     (case readPassphrase ce of
        Inl err \<Rightarrow> (s, Some err)
      | Inr pass \<Rightarrow>
     (case resolveCLIProfile (hx_fr (ce_hx ce)) (ce_cli ce) (cs_files s) of
        Inl err \<Rightarrow> (s, Some err)
      | Inr (Some prof) \<Rightarrow> load_remotely ce prof pemPath pass s
      | Inr None \<Rightarrow> load_on_host ce pemPath pass s))"

definition runKeyList :: "('c, 'p, 'v) cmd_env \<Rightarrow> cmd" where
  "runKeyList ce = socket_call ce ''key.list'' None printKeyListResult"

definition runKeyRemove :: "('c, 'p, 'v) cmd_env \<Rightarrow> string \<Rightarrow> cmd" where
  "runKeyRemove ce fp = socket_call ce ''key.remove'' (Some (JObject [(''fingerprint'', JString fp)])) done_quietly"

definition runKeyConfirm :: "('c, 'p, 'v) cmd_env \<Rightarrow> string \<Rightarrow> cmd" where
  "runKeyConfirm ce pendingID s =
     (case readPassphrase ce of
        Inl err \<Rightarrow> (s, Some err)
      | Inr pass \<Rightarrow>
          socket_call ce ''key.confirm'' (Some (JObject [(''passphrase'', JString pass), (''pending_id'', JString pendingID)]))
            printKeyLoadResult s)"

definition runKeyReject :: "('c, 'p, 'v) cmd_env \<Rightarrow> string \<Rightarrow> cmd" where
  "runKeyReject ce pendingID = socket_call ce ''key.reject'' (Some (JObject [(''pending_id'', JString pendingID)])) done_quietly"

definition runStatus :: "('c, 'p, 'v) cmd_env \<Rightarrow> cmd" where
  "runStatus ce = socket_call ce ''status'' None printStatusResult"

section \<open>Commands on phones\<close>

text \<open>The raw data is printed as it arrived, which is as the library prints it.\<close>

definition print_raw :: "json_lib \<Rightarrow> json option \<Rightarrow> cmd" where
  "print_raw js data = print_result (Inr ((case data of None \<Rightarrow> [] | Some j \<Rightarrow> js_print js j) @ newline_str))"

definition runMobileEnroll :: "('c, 'p, 'v) cmd_env \<Rightarrow> cmd" where
  "runMobileEnroll ce =
     socket_call ce ''mobile.enroll''
       (Some (JObject [(''cert_fingerprint'', JString (co_flag (ce_cli ce) ''cert-fingerprint'')),
                       (''device_pubkey'', JString (co_flag (ce_cli ce) ''pubkey'')), (''label'', JString (co_flag (ce_cli ce) ''label''))]))
       (print_raw (hx_js (ce_hx ce)))"

definition runMobileList :: "('c, 'p, 'v) cmd_env \<Rightarrow> cmd" where
  "runMobileList ce = socket_call ce ''mobile.list'' None (print_raw (hx_js (ce_hx ce)))"

definition runMobileDelete :: "('c, 'p, 'v) cmd_env \<Rightarrow> string \<Rightarrow> cmd" where
  "runMobileDelete ce deviceID = socket_call ce ''mobile.delete'' (Some (JObject [(''device_id'', JString deviceID)])) done_quietly"


section \<open>Commands on CLI devices\<close>

definition cliKeyFile :: string where "cliKeyFile = ''cli.key''"
definition cliCSRFile :: string where "cliCSRFile = ''cli.csr.pem''"
definition cliCertFile :: string where "cliCertFile = ''cli.crt''"
definition cliClientOU :: string where "cliClientOU = ''luna-cli''"

definition resolveCLIDir :: "cli_os \<Rightarrow> string \<Rightarrow> string result" where
  "resolveCLIDir os flagDir =
     (if flagDir \<noteq> [] then Inr flagDir
      else case co_home os of Inl err \<Rightarrow> Inl err | Inr home \<Rightarrow> Inr (filepath_Join [home, ''.config'', ''luna'']))"

definition defaultCLICertOut :: "string \<Rightarrow> string" where
  "defaultCLICertOut csrFile =
     (let dir = filepath_Dir csrFile
      in if dir = [] \<or> dir = ''.'' then cliCertFile else filepath_Join [dir, cliCertFile])"

definition loadCLIKey :: "('c, 'p, 'v) cmd_env \<Rightarrow> files \<Rightarrow> string \<Rightarrow> private_key result" where
  "loadCLIKey ce fs path =
     (let x5 = hx_x5 (ce_hx ce)
      in case os_ReadFile (hx_fr (ce_hx ce)) fs path of
           Inl err \<Rightarrow> Inl (fs_err err)
         | Inr pemBytes \<Rightarrow>
     (case x5_pem_Decode x5 pemBytes of
        None \<Rightarrow> Inl (Errorf (''read '' @ path @ '': no PEM block''))
      | Some (ty, der) \<Rightarrow>
          if ty = ''RSA PRIVATE KEY'' then x5_ParsePKCS1PrivateKey x5 der
          else if ty = ''PRIVATE KEY''
          then (case x5_ParsePKCS8PrivateKey x5 der of
                  Inl err \<Rightarrow> Inl err
                | Inr key \<Rightarrow> if ce_IsRSA ce key then Inr key else Inl (Errorf (''read '' @ path @ '': expected RSA private key'')))
          else Inl (Errorf (''read '' @ path @ '': unsupported PEM type '' @ strconv_Quote ty))))"

definition write_cmd :: "('c, 'p, 'v) cmd_env \<Rightarrow> string \<Rightarrow> bytes \<Rightarrow> nat \<Rightarrow> cmd" where
  "write_cmd ce path data perm s =
     (case os_WriteFile (hx_fr (ce_hx ce)) path data perm (cs_files s) of (fs, err) \<Rightarrow> (s\<lparr>cs_files := fs\<rparr>, err))"

definition runCLIInit :: "('c, 'p, 'v) cmd_env \<Rightarrow> cmd" where
  "runCLIInit ce s =
     (case resolveCLIDir (ce_cli ce) (co_flag (ce_cli ce) ''dir'') of
        Inl err \<Rightarrow> (s, Some err)
      | Inr dir \<Rightarrow>
     (let keyPath = filepath_Join [dir, cliKeyFile]
      in if file_exists (cs_files s) keyPath \<and> \<not> ce_cliForce ce then (s, None)
         else case fr_MkdirAll (hx_fr (ce_hx ce)) dir of
                Some err \<Rightarrow> (s, Some err)
              | None \<Rightarrow>
         (case ce_GenerateKey ce 2048 of
            Inl err \<Rightarrow> (s, Some err)
          | Inr key \<Rightarrow>
              write_cmd ce keyPath
                (x5_pem_EncodeToMemory (hx_x5 (ce_hx ce)) ''RSA PRIVATE KEY'' (ce_MarshalPKCS1PrivateKey ce key)) mode_0600 s)))"

definition cli_csr_subject :: pkix_Name where
  "cli_csr_subject = \<lparr>pn_CommonName = ''Luna CLI'', pn_OrganizationalUnit = [cliClientOU]\<rparr>"

definition runCLICSR :: "('c, 'p, 'v) cmd_env \<Rightarrow> cmd" where
  "runCLICSR ce s =
     (case resolveCLIDir (ce_cli ce) (co_flag (ce_cli ce) ''dir'') of
        Inl err \<Rightarrow> (s, Some err)
      | Inr dir \<Rightarrow>
     (case loadCLIKey ce (cs_files s) (filepath_Join [dir, cliKeyFile]) of
        Inl err \<Rightarrow> (s, Some err)
      | Inr key \<Rightarrow>
     (case ce_CreateCertificateRequest ce cli_csr_subject key of
        Inl err \<Rightarrow> (s, Some err)
      | Inr csrDER \<Rightarrow>
          write_cmd ce (filepath_Join [dir, cliCSRFile])
            (x5_pem_EncodeToMemory (hx_x5 (ce_hx ce)) ''CERTIFICATE REQUEST'' csrDER) mode_0644 s)))"

definition save_certificate :: "('c, 'p, 'v) cmd_env \<Rightarrow> string \<Rightarrow> EnrollResult \<Rightarrow> cmd" where
  "save_certificate ce csrPath out s =
     (let certOut = or_default (co_flag (ce_cli ce) ''cert-out'') (defaultCLICertOut csrPath)
      in case write_cmd ce certOut (er_CertificatePEM out) mode_0644 s of
           (s', Some err) \<Rightarrow> (s', Some err)
         | (s', None) \<Rightarrow> print_result (Inr (er_DeviceID out @ newline_str)) s')"

definition enroll_remotely :: "('c, 'p, 'v) cmd_env \<Rightarrow> CLIProfile \<Rightarrow> string \<Rightarrow> bytes \<Rightarrow> cmd" where
  "enroll_remotely ce prof0 csrPath csrPEM s =
     (let prof = applyAdminDefaults (ce_cli ce) (cs_files s) csrPath prof0
      in case validateAdminEnroll (cs_files s) prof of
           Some err \<Rightarrow> (s, Some err)
         | None \<Rightarrow>
     (case ensureProfileCA (ce_hx ce) (ce_cli ce) prof (cs_files s) of
        (fs, Inl err) \<Rightarrow> (s\<lparr>cs_files := fs\<rparr>, Some (Wrapf ''fetch CA: '' err ''''))
      | (fs, Inr q) \<Rightarrow>
     (case httpclient_Enroll (ce_hx ce) fs \<lparr>mt_ProxyURL = cp_ProxyURL q, mt_Cert = cp_AdminCert q, mt_Key = cp_AdminKey q,
             mt_CA = cp_CA q\<rparr> (co_flag (ce_cli ce) ''label'') csrPEM of
        Inl err \<Rightarrow> (s\<lparr>cs_files := fs\<rparr>, Some err)
      | Inr out \<Rightarrow> save_certificate ce csrPath out (s\<lparr>cs_files := fs\<rparr>))))"

definition enroll_on_host :: "('c, 'p, 'v) cmd_env \<Rightarrow> string \<Rightarrow> bytes \<Rightarrow> cmd" where
  "enroll_on_host ce csrPath csrPEM s =
     (case resolveSocket ce of
        Inl err \<Rightarrow> (s, Some (Wrapf (''use --proxy-url with admin mTLS for remote enroll, or run on the proxy host with '' @
          ''control socket access: '') err ''''))
      | Inr path \<Rightarrow>
     (case Call (ce_hx ce) path ''cli.enroll''
             (Some (JObject [(''csr_pem'', JString csrPEM), (''label'', JString (co_flag (ce_cli ce) ''label''))])) of
        Inl err \<Rightarrow> (s, Some err)
      | Inr data \<Rightarrow>
     (case decode_data enroll_result_fields data \<lparr>er_DeviceID = [], er_CertificatePEM = []\<rparr> of
        None \<Rightarrow> (s, Some bad_data)
      | Some out \<Rightarrow>
          if er_DeviceID out = [] \<or> er_CertificatePEM out = []
          then (s, Some (Errorf ''enroll response missing device_id or certificate_pem''))
          else save_certificate ce csrPath out s)))"

definition runCLIEnroll :: "('c, 'p, 'v) cmd_env \<Rightarrow> cmd" where
  "runCLIEnroll ce s =
     (let csrPath = co_flag (ce_cli ce) ''csr-file''
      in case os_ReadFile (hx_fr (ce_hx ce)) (cs_files s) csrPath of
           Inl err \<Rightarrow> (s, Some (fs_err err))
         | Inr csrPEM \<Rightarrow>
     (case resolveCLIProfile (hx_fr (ce_hx ce)) (ce_cli ce) (cs_files s) of
        Inl err \<Rightarrow> (s, Some err)
      | Inr (Some prof) \<Rightarrow> enroll_remotely ce prof csrPath csrPEM s
      | Inr None \<Rightarrow> enroll_on_host ce csrPath csrPEM s))"

definition runCLIList :: "('c, 'p, 'v) cmd_env \<Rightarrow> cmd" where
  "runCLIList ce = socket_call ce ''cli.list'' None printCLIListResult"

definition runCLIDelete :: "('c, 'p, 'v) cmd_env \<Rightarrow> string \<Rightarrow> cmd" where
  "runCLIDelete ce deviceID = socket_call ce ''cli.delete'' (Some (JObject [(''device_id'', JString deviceID)])) done_quietly"


section \<open>What the key list shows\<close>

definition signer_row :: "SignerInfo \<Rightarrow> signerRow" where
  "signer_row i = \<lparr>sg_Fingerprint = si_Fingerprint i, sg_Comment = si_Comment i\<rparr>"

definition row_line :: "signerRow \<Rightarrow> string" where
  "row_line r = ''SHA256:'' @ sg_Fingerprint r @ (if sg_Comment r = [] then [] else ''  '' @ sg_Comment r) @ [CHR 0x0A]"

lemma sort_key_empty: "sort_key f xs = [] \<longleftrightarrow> xs = []"
  by (metis set_empty set_sort)

lemma writeFingerprintLine_row: "writeFingerprintLine [] (sg_Fingerprint r) (sg_Comment r) = row_line r"
  by (simp add: writeFingerprintLine_def formatSHA256_def row_line_def newline_str_def)

lemma signer_folds: "fold_key ''signers'' = ''SIGNERS''" "fold_key ''public_key'' = ''PUBLIC_KEY''"
  by code_simp+

lemma decode_row: "signerRow_elem (signer_entry_json i) = Some (signer_row i)"
  by (simp add: signerRow_elem_def signer_entry_json_def decode_struct_def signerRow_fields_def json_field_defs omit_string_def
      signer_folds load_folds signer_row_def)

lemma decode_rows: "decode_list signerRow_elem (map signer_entry_json is1) = Some (map signer_row is1)"
  by (induction is1) (simp_all add: decode_row)

lemma formatKeyListResult_rows:
  "formatKeyListResult (Some (keyListData env s)) = Inr (writeSigners [] (map signer_row (ListSigners (ae_lib env) (sv_keystore s))))"
  by (simp add: formatKeyListResult_def keyListData_def signers_json_def decode_data_def decode_struct_def json_field_defs
      signer_folds decode_rows)

text \<open>
  The list of keys on the operator's screen is the proxy's: over a socket that the proxy serves to
  this user, \<open>key list\<close> succeeds and adds to the output one line for every signer of the keystore,
  with its fingerprint and comment, in the order of the fingerprints; or the line that there is none.
\<close>

theorem key_list_prints_keystore:
  assumes sock: "resolveSocket ce = Inr path" and served: "served_by (ce_hx ce) os env cred groupName path s"
    and peer: "peerAllowed os cred groupName = None"
    and req: "reads_back (hx_js (ce_hx ce)) (hx_js (ce_hx ce)) (request_json ''key.list'' None)"
      "one_line (js_print (hx_js (ce_hx ce)) (request_json ''key.list'' None))"
    and resp: "reads_back (hx_js (ce_hx ce)) (hx_js (ce_hx ce)) (response_json (ctl_ok [] (Some (keyListData env s))))"
      "one_line (js_print (hx_js (ce_hx ce)) (response_json (ctl_ok [] (Some (keyListData env s)))))"
  shows "\<exists>rows. mset rows = mset (map signer_row (ListSigners (ae_lib env) (sv_keystore s)))
    \<and> sorted (map sg_Fingerprint rows)
    \<and> runKeyList ce st =
        (st\<lparr>cs_out := cs_out st @ (if rows = [] then ''(none)'' @ [CHR 0x0A] else concat (map row_line rows))\<rparr>, None)"
proof -
  let ?rows = "map signer_row (ListSigners (ae_lib env) (sv_keystore s))"
  have h: "ctl_handle env \<lparr>rq_Op = ''key.list'', rq_ID = [], rq_Data = None\<rparr> s = (s, ctl_ok [] (Some (keyListData env s)))"
    by (simp add: ctl_handle_def)
  have call: "Call (ce_hx ce) path ''key.list'' None = Inr (Some (keyListData env s))"
    unfolding call_answered [OF served peer req h resp] by (simp add: ctl_ok_def)
  have "runKeyList ce st = (st\<lparr>cs_out := cs_out st @ writeSigners [] ?rows\<rparr>, None)"
    by (simp add: runKeyList_def socket_call_def sock call printKeyListResult_def formatKeyListResult_rows print_result_def)
  moreover have "writeSigners [] rs =
    (if sort_key sg_Fingerprint rs = [] then ''(none)'' @ [CHR 0x0A] else concat (map row_line (sort_key sg_Fingerprint rs)))" for rs
    unfolding writeSigners_def newline_str_def writeFingerprintLine_row sort_key_empty by simp
  ultimately show ?thesis by (intro exI [of _ "sort_key sg_Fingerprint ?rows"]) simp
qed


section \<open>From a new key to an accepted request\<close>

text \<open>What is relied on of the cryptographic library: PEM blocks and PKCS#1 keys are read back, and a
  certificate request carries the units it was asked for and the key that signed it.\<close>

definition requests_as_told :: "('c, 'p, 'v) cmd_env \<Rightarrow> bool" where
  "requests_as_told ce \<longleftrightarrow>
     (let x5 = hx_x5 (ce_hx ce)
      in (\<forall>ty \<in> {''RSA PRIVATE KEY'', ''CERTIFICATE REQUEST''}. \<forall>b.
            x5_pem_Decode x5 (x5_pem_EncodeToMemory x5 ty b) = Some (ty, b))
       \<and> (\<forall>bits key. ce_GenerateKey ce bits = Inr key \<longrightarrow>
            x5_ParsePKCS1PrivateKey x5 (ce_MarshalPKCS1PrivateKey ce key) = Inr key
            \<and> (\<forall>subj der. ce_CreateCertificateRequest ce subj key = Inr der \<longrightarrow>
                 (\<exists>csr pub. x5_ParseCertificateRequest x5 der = Inr csr \<and> x5_CheckSignature x5 csr
                    \<and> cr_OrganizationalUnit csr = pn_OrganizationalUnit subj \<and> cr_PublicKey csr = RSAKey bits pub))))"

lemma write_cmd_ok:
  "fr_WriteFile (hx_fr (ce_hx ce)) path = None \<Longrightarrow>
   \<exists>fs m. write_cmd ce path data perm s = (s\<lparr>cs_files := fs\<rparr>, None) \<and> map_of fs path = Some \<lparr>fi_data = data, fi_mode = m\<rparr>
     \<and> (\<not> file_exists (cs_files s) path \<longrightarrow> m = perm) \<and> (\<forall>q. q \<noteq> path \<longrightarrow> map_of fs q = map_of (cs_files s) q)"
  by (rule exI [of _ "map_put path \<lparr>fi_data = data, fi_mode = (case map_of (cs_files s) path of Some f \<Rightarrow> fi_mode f | None \<Rightarrow> perm)\<rparr>
        (cs_files s)"], rule exI [of _ "case map_of (cs_files s) path of Some f \<Rightarrow> fi_mode f | None \<Rightarrow> perm"])
    (simp add: write_cmd_def os_WriteFile_defs file_exists_def)

lemma cli_request_valid:
  assumes "requests_as_told ce" and "ce_GenerateKey ce 2048 = Inr key"
    and "ce_CreateCertificateRequest ce cli_csr_subject key = Inr der" and "cx_requiredOU signer = cliClientOU"
    and "cx_caCert signer = Some ca" and "cx_caKey signer = Some caKey"
  shows "\<exists>csr. x5_ParseCertificateRequest (hx_x5 (ce_hx ce)) der = Inr csr
    \<and> csr_Sign (hx_x5 (ce_hx ce)) rnd now (x5_pem_EncodeToMemory (hx_x5 (ce_hx ce)) ''CERTIFICATE REQUEST'' der) signer =
        signCSRWithTTL (hx_x5 (ce_hx ce)) rnd now ca caKey csr (cx_ttl signer) (cli_subject cliClientOU)"
proof -
  let ?x5 = "hx_x5 (ce_hx ce)"
  obtain csr pub where csr: "x5_ParseCertificateRequest ?x5 der = Inr csr" "x5_CheckSignature ?x5 csr"
    "cr_OrganizationalUnit csr = pn_OrganizationalUnit cli_csr_subject" "cr_PublicKey csr = RSAKey 2048 pub"
    using assms(1-3) unfolding requests_as_told_def Let_def by blast
  have pem: "x5_pem_Decode ?x5 (x5_pem_EncodeToMemory ?x5 ''CERTIFICATE REQUEST'' der) = Some (''CERTIFICATE REQUEST'', der)"
    using assms(1) by (simp add: requests_as_told_def Let_def)
  have "parseCSR ?x5 (x5_pem_EncodeToMemory ?x5 ''CERTIFICATE REQUEST'' der) = Inr csr"
    by (simp add: parseCSR_def pem csr(1))
  moreover have "validateCSR ?x5 csr (cx_requiredOU signer) = None"
    using csr(2-4) assms(4) by (simp add: validateCSR_def validateCSRPublicKey_def cli_csr_subject_def cliClientOU_def)
  ultimately show ?thesis using csr(1) assms(4-6) by (intro exI [of _ csr]) (simp add: csr_Sign_def)
qed

text \<open>The unit is a constant of the command: a proxy that is configured for another one refuses the request.\<close>

lemma other_unit_refused:
  assumes "requests_as_told ce" and "ce_GenerateKey ce 2048 = Inr key"
    and "ce_CreateCertificateRequest ce cli_csr_subject key = Inr der" and "cx_requiredOU signer \<notin> {[], cliClientOU}"
    and "cx_caCert signer = Some ca" and "cx_caKey signer = Some caKey"
  shows "csr_Sign (hx_x5 (ce_hx ce)) rnd now (x5_pem_EncodeToMemory (hx_x5 (ce_hx ce)) ''CERTIFICATE REQUEST'' der) signer = Inl ErrCSRInvalid"
proof -
  let ?x5 = "hx_x5 (ce_hx ce)"
  obtain csr pub where csr: "x5_ParseCertificateRequest ?x5 der = Inr csr" "cr_OrganizationalUnit csr = pn_OrganizationalUnit cli_csr_subject"
    using assms(1-3) unfolding requests_as_told_def Let_def by blast
  have "x5_pem_Decode ?x5 (x5_pem_EncodeToMemory ?x5 ''CERTIFICATE REQUEST'' der) = Some (''CERTIFICATE REQUEST'', der)"
    using assms(1) by (simp add: requests_as_told_def Let_def)
  then have "parseCSR ?x5 (x5_pem_EncodeToMemory ?x5 ''CERTIFICATE REQUEST'' der) = Inr csr"
    by (simp add: parseCSR_def csr(1))
  moreover have "validateCSR ?x5 csr (cx_requiredOU signer) = Some ErrCSRInvalid"
    using csr(2) assms(4) by (auto simp: validateCSR_def cli_csr_subject_def)
  ultimately show ?thesis using assms(5,6) by (simp add: csr_Sign_def)
qed

text \<open>
  A new operator gets as far as the proxy's CA: on a machine without a key (or with \<open>--force\<close>), \<open>cli
  init\<close> followed by \<open>cli csr\<close> leaves a key file, readable by its owner only when it is new, and a
  request file whose contents the proxy's signer validates and signs, when it expects the unit that
  the command writes.
\<close>

theorem new_device_request_signed:
  assumes dir: "resolveCLIDir (ce_cli ce) (co_flag (ce_cli ce) ''dir'') = Inr dir"
    and new: "\<not> file_exists (cs_files s) (filepath_Join [dir, cliKeyFile]) \<or> ce_cliForce ce"
    and os: "fr_MkdirAll (hx_fr (ce_hx ce)) dir = None"
      "fr_WriteFile (hx_fr (ce_hx ce)) (filepath_Join [dir, cliKeyFile]) = None"
      "fr_WriteFile (hx_fr (ce_hx ce)) (filepath_Join [dir, cliCSRFile]) = None"
      "fr_ReadFile (hx_fr (ce_hx ce)) (filepath_Join [dir, cliKeyFile]) = None"
    and lib: "requests_as_told ce" "ce_GenerateKey ce 2048 = Inr key"
      "ce_CreateCertificateRequest ce cli_csr_subject key = Inr der"
    and signer: "cx_requiredOU signer = cliClientOU" "cx_caCert signer = Some ca" "cx_caKey signer = Some caKey"
  shows "\<exists>s1 s2 k f csr. runCLIInit ce s = (s1, None) \<and> runCLICSR ce s1 = (s2, None)
    \<and> map_of (cs_files s1) (filepath_Join [dir, cliKeyFile]) = Some k
    \<and> (\<not> file_exists (cs_files s) (filepath_Join [dir, cliKeyFile]) \<longrightarrow> fi_mode k = mode_0600)
    \<and> map_of (cs_files s2) (filepath_Join [dir, cliCSRFile]) = Some f
    \<and> x5_ParseCertificateRequest (hx_x5 (ce_hx ce)) der = Inr csr
    \<and> csr_Sign (hx_x5 (ce_hx ce)) rnd now (fi_data f) signer =
        signCSRWithTTL (hx_x5 (ce_hx ce)) rnd now ca caKey csr (cx_ttl signer) (cli_subject cliClientOU)"
proof -
  let ?x5 = "hx_x5 (ce_hx ce)" and ?key = "filepath_Join [dir, cliKeyFile]" and ?csr = "filepath_Join [dir, cliCSRFile]"
  let ?pem = "x5_pem_EncodeToMemory ?x5 ''RSA PRIVATE KEY'' (ce_MarshalPKCS1PrivateKey ce key)"
  let ?req = "x5_pem_EncodeToMemory ?x5 ''CERTIFICATE REQUEST'' der"
  obtain fs m where w: "write_cmd ce ?key ?pem mode_0600 s = (s\<lparr>cs_files := fs\<rparr>, None)"
      "map_of fs ?key = Some \<lparr>fi_data = ?pem, fi_mode = m\<rparr>" "\<not> file_exists (cs_files s) ?key \<longrightarrow> m = mode_0600"
    using write_cmd_ok [OF os(2), of ?pem mode_0600 s] by blast
  have init: "runCLIInit ce s = (s\<lparr>cs_files := fs\<rparr>, None)"
    using new by (auto simp: runCLIInit_def dir os(1) lib(2) w(1) Let_def)
  have pem: "x5_pem_Decode ?x5 ?pem = Some (''RSA PRIVATE KEY'', ce_MarshalPKCS1PrivateKey ce key)"
    "x5_ParsePKCS1PrivateKey ?x5 (ce_MarshalPKCS1PrivateKey ce key) = Inr key"
    using lib(1,2) by (simp_all add: requests_as_told_def Let_def)
  have load: "loadCLIKey ce fs ?key = Inr key"
    by (simp add: loadCLIKey_def os_ReadFile_def w(2) os(4) pem)
  obtain fs2 m2 where w2: "write_cmd ce ?csr ?req mode_0644 (s\<lparr>cs_files := fs\<rparr>) = (s\<lparr>cs_files := fs2\<rparr>, None)"
      "map_of fs2 ?csr = Some \<lparr>fi_data = ?req, fi_mode = m2\<rparr>"
    using write_cmd_ok [OF os(3), of ?req mode_0644 "s\<lparr>cs_files := fs\<rparr>"] by auto
  have csr: "runCLICSR ce (s\<lparr>cs_files := fs\<rparr>) = (s\<lparr>cs_files := fs2\<rparr>, None)"
    by (simp add: runCLICSR_def dir load lib(3) w2(1))
  from cli_request_valid [OF lib signer, of rnd now] init csr w(2,3) w2(2) show ?thesis by auto
qed


section \<open>Enrolment over the socket\<close>

definition enroll_data :: "string \<Rightarrow> bytes \<Rightarrow> json" where
  "enroll_data label csrPEM = JObject [(''csr_pem'', JString csrPEM), (''label'', JString label)]"

definition enroll_call :: "string \<Rightarrow> bytes \<Rightarrow> Request" where
  "enroll_call label csrPEM = \<lparr>rq_Op = ''cli.enroll'', rq_ID = [], rq_Data = Some (enroll_data label csrPEM)\<rparr>"

definition cert_out :: "('c, 'p, 'v) cmd_env \<Rightarrow> string" where
  "cert_out ce = or_default (co_flag (ce_cli ce) ''cert-out'') (defaultCLICertOut (co_flag (ce_cli ce) ''csr-file''))"

lemma enroll_folds:
  "fold_key ''csr_pem'' = ''CSR_PEM''" "fold_key ''device_id'' = ''DEVICE_ID''" "fold_key ''certificate_pem'' = ''CERTIFICATE_PEM''"
  by code_simp+

lemma enroll_decodes:
  "decode_data cli_enroll_fields (rq_Data (enroll_call label csrPEM)) \<lparr>ce_Label = [], ce_CSRPEM = []\<rparr> =
     Some \<lparr>ce_Label = label, ce_CSRPEM = csrPEM\<rparr>"
  by (simp add: decode_data_def enroll_call_def enroll_data_def decode_struct_def cli_enroll_fields_def json_field_defs
      enroll_folds load_folds)

text \<open>What the operation answers: a device that is now registered with the certificate in the answer,
  or a refusal that leaves the registry alone.\<close>

lemma ctl_CLIEnroll_answer:
  assumes x5: "issues_as_told (ae_x5 env)" and h: "ctl_handle env (enroll_call label csrPEM) s = (s', resp)"
  shows "if rs_OK resp
    then \<exists>dev pem c. rs_Data resp = Some (JObject [(''certificate_pem'', JString pem), (''device_id'', JString (cd_ID dev))])
           \<and> cert_of_pem (ae_x5 env) pem = Some c \<and> cd_ID dev \<noteq> [] \<and> cd_Label dev = label
           \<and> GetByFingerprint (CertFingerprint c) (sv_cli s') = Some dev
           \<and> (\<exists>der. pem = x5_pem_EncodeToMemory (ae_x5 env) ''CERTIFICATE'' der)
    else sv_cli s' = sv_cli s"
proof -
  have run: "ctl_CLIEnroll env (enroll_call label csrPEM) s = (s', resp)"
    using h by (simp add: ctl_handle_def enroll_call_def)
  show ?thesis
  proof (cases "rs_OK resp")
    case True
    from run True obtain signer pem fp dev st where
      sg: "csr_Sign (ae_x5 env) (ae_serial env) (ae_now env 0) csrPEM signer = Inr (pem, fp)" and
      e: "cli_Enroll (ae_ulid env) (ae_now env 1) label fp (sv_cli s) = (st, Inr dev)" and
      s': "sv_cli s' = st" and
      d: "rs_Data resp = Some (JObject [(''certificate_pem'', JString pem), (''device_id'', JString (cd_ID dev))])"
      unfolding ctl_CLIEnroll_def enroll_decodes
      by (auto simp: ctl_fail_def ctl_ok_def split: option.splits sum.splits prod.splits if_splits)
    from csr_Sign_cert [OF x5 sg] obtain c where c: "cert_of_pem (ae_x5 env) pem = Some c" "fp = CertFingerprint c" by blast
    have "\<exists>der. pem = x5_pem_EncodeToMemory (ae_x5 env) ''CERTIFICATE'' der"
      using sg by (auto simp: csr_Sign_def signCSRWithTTL_def split: option.splits sum.splits)
    moreover have "cd_ID dev \<noteq> []" "cd_Label dev = label"
      using e by (auto simp: cli_Enroll_def Let_def split: option.splits if_splits)
    ultimately show ?thesis using True d c cli_Enroll_found [OF e] s' by auto
  next
    case False
    with run have "sv_cli s' = sv_cli s" unfolding ctl_CLIEnroll_def enroll_decodes
      by (auto simp: ctl_ok_def cli_Enroll_def Let_def split: option.splits sum.splits prod.splits if_splits)
    with False show ?thesis by simp
  qed
qed


lemma enroll_answer_decodes:
  "decode_data enroll_result_fields (Some (JObject [(''certificate_pem'', JString pem), (''device_id'', JString devID)]))
     \<lparr>er_DeviceID = [], er_CertificatePEM = []\<rparr> = Some \<lparr>er_DeviceID = devID, er_CertificatePEM = pem\<rparr>"
  by (simp add: decode_data_def decode_struct_def enroll_result_fields_def json_field_defs enroll_folds)

text \<open>How the last step of an enrolment ends: with the certificate in the output file and the device
  printed, or with the error of the write, after which only that file can have changed.\<close>

lemma save_certificate_ends:
  "\<exists>fs. (\<forall>p. p \<noteq> cert_out ce \<longrightarrow> map_of fs p = map_of (cs_files st) p)
    \<and> (case fr_WriteFile (hx_fr (ce_hx ce)) (cert_out ce) of
         None \<Rightarrow> save_certificate ce (co_flag (ce_cli ce) ''csr-file'') out st =
             (st\<lparr>cs_files := fs, cs_out := cs_out st @ er_DeviceID out @ [CHR 0x0A]\<rparr>, None)
           \<and> (\<exists>m. map_of fs (cert_out ce) = Some \<lparr>fi_data = er_CertificatePEM out, fi_mode = m\<rparr>)
       | Some err \<Rightarrow> save_certificate ce (co_flag (ce_cli ce) ''csr-file'') out st = (st\<lparr>cs_files := fs\<rparr>, Some err))"
proof (cases "fr_WriteFile (hx_fr (ce_hx ce)) (cert_out ce)")
  case None
  from write_cmd_ok [OF None, of "er_CertificatePEM out" mode_0644 st] obtain fs m where
    w: "write_cmd ce (cert_out ce) (er_CertificatePEM out) mode_0644 st = (st\<lparr>cs_files := fs\<rparr>, None)"
      "map_of fs (cert_out ce) = Some \<lparr>fi_data = er_CertificatePEM out, fi_mode = m\<rparr>"
      "\<forall>p. p \<noteq> cert_out ce \<longrightarrow> map_of fs p = map_of (cs_files st) p" by blast
  with None show ?thesis
    by (intro exI [of _ fs]) (simp add: save_certificate_def cert_out_def [symmetric] print_result_def newline_str_def)
next
  case (Some err)
  from os_WriteFile_fails [OF Some, of "er_CertificatePEM out" mode_0644 "cs_files st"] obtain fs where
    w: "os_WriteFile (hx_fr (ce_hx ce)) (cert_out ce) (er_CertificatePEM out) mode_0644 (cs_files st) = (fs, Some err)"
      "\<forall>p. p \<noteq> cert_out ce \<longrightarrow> map_of fs p = map_of (cs_files st) p" by blast
  with Some show ?thesis
    by (intro exI [of _ fs]) (simp add: save_certificate_def cert_out_def [symmetric] write_cmd_def)
qed

text \<open>
  (C24) Enrolment on the proxy's host is carried through: \<open>cli enroll\<close> over a socket that the proxy serves to
  this user, with request and answer of one line each, ends in one of three ways. When the proxy
  accepts, it has registered a device with the given label for a new certificate; if the output
  file can be written, it holds that certificate and the device is printed; if the write fails,
  the command returns its error without output, no other file has changed, and the device stays
  registered although its certificate was not stored. When the proxy refuses, the command returns the
  proxy's error, with no file or output touched and the registry as before.
\<close>

theorem cli_enroll_end_to_end:
  assumes csr: "os_ReadFile (hx_fr (ce_hx ce)) (cs_files st) (co_flag (ce_cli ce) ''csr-file'') = Inr csrPEM"
    and label: "co_flag (ce_cli ce) ''label'' = label"
    and prof: "resolveCLIProfile (hx_fr (ce_hx ce)) (ce_cli ce) (cs_files st) = Inr None"
    and sock: "resolveSocket ce = Inr path" and served: "served_by (ce_hx ce) os env cred groupName path s"
    and peer: "peerAllowed os cred groupName = None"
    and req: "reads_back (hx_js (ce_hx ce)) (hx_js (ce_hx ce)) (request_json ''cli.enroll'' (Some (enroll_data label csrPEM)))"
      "one_line (js_print (hx_js (ce_hx ce)) (request_json ''cli.enroll'' (Some (enroll_data label csrPEM))))"
    and run: "ctl_handle env (enroll_call label csrPEM) s = (s', resp)"
    and resp: "reads_back (hx_js (ce_hx ce)) (hx_js (ce_hx ce)) (response_json resp)"
      "one_line (js_print (hx_js (ce_hx ce)) (response_json resp))"
    and x5: "issues_as_told (ae_x5 env)" "\<forall>der. x5_pem_EncodeToMemory (ae_x5 env) ''CERTIFICATE'' der \<noteq> []"
  shows "if rs_OK resp
    then \<exists>dev pem c fs. cert_of_pem (ae_x5 env) pem = Some c \<and> GetByFingerprint (CertFingerprint c) (sv_cli s') = Some dev
           \<and> cd_Label dev = label \<and> (\<forall>p. p \<noteq> cert_out ce \<longrightarrow> map_of fs p = map_of (cs_files st) p)
           \<and> (case fr_WriteFile (hx_fr (ce_hx ce)) (cert_out ce) of
                None \<Rightarrow> runCLIEnroll ce st = (st\<lparr>cs_files := fs, cs_out := cs_out st @ cd_ID dev @ [CHR 0x0A]\<rparr>, None)
                  \<and> (\<exists>m. map_of fs (cert_out ce) = Some \<lparr>fi_data = pem, fi_mode = m\<rparr>)
              | Some err \<Rightarrow> runCLIEnroll ce st = (st\<lparr>cs_files := fs\<rparr>, Some err))
    else runCLIEnroll ce st = (st, Some (Errorf (if rs_Error resp \<noteq> [] then rs_Error resp else ''control error'')))
           \<and> sv_cli s' = sv_cli s"
proof -
  note run1 = run [unfolded enroll_call_def]
  note call = call_answered [OF served peer req run1 resp]
  have on_host: "runCLIEnroll ce st = enroll_on_host ce (co_flag (ce_cli ce) ''csr-file'') csrPEM st"
    by (simp add: runCLIEnroll_def csr prof)
  show ?thesis
  proof (cases "rs_OK resp")
    case True
    with ctl_CLIEnroll_answer [OF x5(1) run] obtain dev pem c der where
      d: "rs_Data resp = Some (JObject [(''certificate_pem'', JString pem), (''device_id'', JString (cd_ID dev))])"
        "cert_of_pem (ae_x5 env) pem = Some c" "cd_ID dev \<noteq> []" "cd_Label dev = label"
        "GetByFingerprint (CertFingerprint c) (sv_cli s') = Some dev" "pem = x5_pem_EncodeToMemory (ae_x5 env) ''CERTIFICATE'' der"
      by auto
    have "pem \<noteq> []" using x5(2) d(6) by simp
    with call True d(1,3) have "enroll_on_host ce (co_flag (ce_cli ce) ''csr-file'') csrPEM st =
        save_certificate ce (co_flag (ce_cli ce) ''csr-file'') \<lparr>er_DeviceID = cd_ID dev, er_CertificatePEM = pem\<rparr> st"
      by (simp add: enroll_on_host_def sock label enroll_answer_decodes flip: enroll_data_def)
    then have run: "runCLIEnroll ce st =
        save_certificate ce (co_flag (ce_cli ce) ''csr-file'') \<lparr>er_DeviceID = cd_ID dev, er_CertificatePEM = pem\<rparr> st"
      by (simp add: on_host)
    obtain fs where "\<forall>p. p \<noteq> cert_out ce \<longrightarrow> map_of fs p = map_of (cs_files st) p"
      "case fr_WriteFile (hx_fr (ce_hx ce)) (cert_out ce) of
         None \<Rightarrow> runCLIEnroll ce st = (st\<lparr>cs_files := fs, cs_out := cs_out st @ cd_ID dev @ [CHR 0x0A]\<rparr>, None)
           \<and> (\<exists>m. map_of fs (cert_out ce) = Some \<lparr>fi_data = pem, fi_mode = m\<rparr>)
       | Some err \<Rightarrow> runCLIEnroll ce st = (st\<lparr>cs_files := fs\<rparr>, Some err)"
      using save_certificate_ends [of ce st "\<lparr>er_DeviceID = cd_ID dev, er_CertificatePEM = pem\<rparr>"] unfolding run EnrollResult.simps by blast
    with True d(2,4,5) show ?thesis by auto
  next
    case False
    with call have "enroll_on_host ce (co_flag (ce_cli ce) ''csr-file'') csrPEM st =
        (st, Some (Errorf (if rs_Error resp \<noteq> [] then rs_Error resp else ''control error'')))"
      by (simp add: enroll_on_host_def sock label flip: enroll_data_def)
    with False ctl_CLIEnroll_answer [OF x5(1) run] on_host show ?thesis by simp
  qed
qed


section \<open>Examples\<close>

definition demo_cmd_env :: "(unit, unit) cli_env \<Rightarrow> (unit, unit, (string \<times> string) list) cmd_env" where
  "demo_cmd_env hx =
     \<lparr>ce_hx = hx, ce_cli = \<lparr>co_home = Inr ''/home/op'', co_yaml = \<lambda>_. Inr zero_CLIProfile,
        co_flag = \<lambda>n. if n = ''label'' then ''laptop'' else if n = ''csr-file'' then ''cli.csr.pem'' else []\<rparr>,
      ce_os = demo_os, ce_viper = demo_viper ''local-ca'', ce_socketPath = ''sock'', ce_passphraseStdin = False, ce_cliForce = False,
      ce_stdin = [], ce_stdin_err = None, ce_IsTerminal = True, ce_ReadPassword = Inr ''good'', ce_IsOpError = \<lambda>_. False,
      ce_GenerateKey = \<lambda>n. Inr (replicate n CHR ''k''), ce_MarshalPKCS1PrivateKey = \<lambda>k. k, ce_IsRSA = \<lambda>_. True,
      ce_CreateCertificateRequest = \<lambda>subj key. if pn_OrganizationalUnit subj = [cliClientOU] then Inr key else Inl (Errorf ''unit'')\<rparr>"

definition demo_cmd_x5 :: x509_lib where
  "demo_cmd_x5 = demo_x5\<lparr>x5_ParseCertificateRequest := \<lambda>b.
     Inr \<lparr>cr_OrganizationalUnit = [cliClientOU], cr_PublicKey = RSAKey (length b) [], cr_Raw = b\<rparr>\<rparr>"


definition demo_no_state :: cmd_state where
  "demo_no_state = \<lparr>cs_files = [], cs_trace = [], cs_out = []\<rparr>"

definition demo_cli_signer :: CSRSigner where
  "demo_cli_signer = demo_csr_signer\<lparr>cx_requiredOU := cliClientOU\<rparr>"

lemma demo_requests: "requests_as_told (demo_cmd_env ((demo_cli_env demo_js ex)\<lparr>hx_x5 := demo_cmd_x5\<rparr>))"
  by (auto simp: requests_as_told_def demo_cmd_env_def demo_cmd_x5_def demo_x5_def Let_def split: if_splits)

theorem new_device_request_signed_witness:
  "\<exists>s1 s2 f. runCLIInit (demo_cmd_env ((demo_cli_env demo_js (\<lambda>_. Inr []))\<lparr>hx_x5 := demo_cmd_x5\<rparr>)) demo_no_state = (s1, None)
     \<and> runCLICSR (demo_cmd_env ((demo_cli_env demo_js (\<lambda>_. Inr []))\<lparr>hx_x5 := demo_cmd_x5\<rparr>)) s1 = (s2, None)
     \<and> map_of (cs_files s2) (filepath_Join [filepath_Join [''/home/op'', ''.config'', ''luna''], ''cli.csr.pem'']) = Some f"
proof -
  let ?ce = "demo_cmd_env ((demo_cli_env demo_js (\<lambda>_. Inr []))\<lparr>hx_x5 := demo_cmd_x5\<rparr>)"
  let ?dir = "filepath_Join [''/home/op'', ''.config'', ''luna'']" and ?key = "replicate 2048 CHR ''k''"
  have dir: "resolveCLIDir (ce_cli ?ce) (co_flag (ce_cli ?ce) ''dir'') = Inr ?dir"
    by (simp add: resolveCLIDir_def demo_cmd_env_def)
  have new: "\<not> file_exists (cs_files demo_no_state) p \<or> ce_cliForce ?ce" for p
    by (simp add: demo_no_state_def file_exists_def)
  have os: "fr_MkdirAll (hx_fr (ce_hx ?ce)) p = None" "fr_WriteFile (hx_fr (ce_hx ?ce)) p = None"
    "fr_ReadFile (hx_fr (ce_hx ?ce)) p = None" for p
    by (simp_all add: demo_cmd_env_def demo_cli_env_def demo_rules_def)
  have key: "ce_GenerateKey ?ce 2048 = Inr ?key" "ce_CreateCertificateRequest ?ce cli_csr_subject ?key = Inr ?key"
    by (simp_all add: demo_cmd_env_def cli_csr_subject_def)
  have signer: "cx_requiredOU demo_cli_signer = cliClientOU" "cx_caCert demo_cli_signer = Some \<lparr>xc_Raw = ''ca'', xc_OrganizationalUnit = []\<rparr>"
    "cx_caKey demo_cli_signer = Some ''k''"
    by (simp_all add: demo_cli_signer_def demo_csr_signer_def NewCSRSigner_def)
  from new_device_request_signed [OF dir new os(1) os(2) os(2) os(3) demo_requests key signer, of "Inr 1" 0] show ?thesis
    unfolding cliCSRFile_def by blast
qed

text \<open>The commands over a socket behind which the example proxy sits.\<close>

definition demo_pair_js :: "json \<Rightarrow> json \<Rightarrow> json_lib" where
  "demo_pair_js q a = \<lparr>js_parse = \<lambda>b. if b = ''q'' then Some q else Some a, js_print = \<lambda>j. if j = q then ''q'' else ''r''\<rparr>"

definition demo_ids :: os_ids where
  "demo_ids = \<lparr>os_euid = 900, os_LookupGroup = \<lambda>_. Inl (Errorf ''none'')\<rparr>"

definition demo_served :: "api_env \<Rightarrow> server \<Rightarrow> (unit, unit) cli_env" where
  "demo_served env s = demo_cli_env (ae_js env)
     (\<lambda>line. Inr (case snd (serveConn demo_ids env (Inr (0, 0)) [] line s) of None \<Rightarrow> [] | Some resp \<Rightarrow> writeResponse (ae_js env) resp))"

lemma demo_served_by: "served_by (demo_served env s) demo_ids env (Inr (0, 0)) [] path s"
  unfolding served_by_def demo_served_def by (simp add: demo_cli_env_def)

lemma demo_peer: "peerAllowed demo_ids (Inr (0, 0)) [] = None"
  by (simp add: peerAllowed_def credAllowed_def)

lemma demo_pair_reads:
  "reads_back (demo_pair_js q a) (demo_pair_js q a) q" "one_line (js_print (demo_pair_js q a) q)"
  "a \<noteq> q \<Longrightarrow> reads_back (demo_pair_js q a) (demo_pair_js q a) a" "one_line (js_print (demo_pair_js q a) a)"
  by (simp_all add: reads_back_def one_line_def demo_pair_js_def)

lemma response_not_request: "response_json r \<noteq> request_json op1 data"
  by (simp add: response_json_def request_json_def)


lemma demo_cmd_parts:
  "ce_hx (demo_cmd_env hx) = hx" "resolveSocket (demo_cmd_env hx) = Inr ''sock''" "hx_js (demo_served env s) = ae_js env"
  "hx_fr (demo_served env s) = demo_rules"
  by (simp_all add: demo_cmd_env_def resolveSocket_def demo_served_def demo_cli_env_def)


lemma demo_exchange:
  assumes "env = env0\<lparr>ae_js := demo_pair_js (request_json op1 data) (response_json resp)\<rparr>" and "ce = demo_cmd_env (demo_served env s)"
  shows "served_by (ce_hx ce) demo_ids env (Inr (0, 0)) [] ''sock'' s" "resolveSocket ce = Inr ''sock''"
    "reads_back (hx_js (ce_hx ce)) (hx_js (ce_hx ce)) (request_json op1 data)" "one_line (js_print (hx_js (ce_hx ce)) (request_json op1 data))"
    "reads_back (hx_js (ce_hx ce)) (hx_js (ce_hx ce)) (response_json resp)" "one_line (js_print (hx_js (ce_hx ce)) (response_json resp))"
proof -
  have js: "hx_js (ce_hx ce) = demo_pair_js (request_json op1 data) (response_json resp)"
    by (simp add: assms demo_cmd_parts)
  show "served_by (ce_hx ce) demo_ids env (Inr (0, 0)) [] ''sock'' s" "resolveSocket ce = Inr ''sock''"
    unfolding assms(2) demo_cmd_parts by (simp_all add: demo_served_by)
  show "reads_back (hx_js (ce_hx ce)) (hx_js (ce_hx ce)) (request_json op1 data)" "one_line (js_print (hx_js (ce_hx ce)) (request_json op1 data))"
    "reads_back (hx_js (ce_hx ce)) (hx_js (ce_hx ce)) (response_json resp)" "one_line (js_print (hx_js (ce_hx ce)) (response_json resp))"
    unfolding js using demo_pair_reads response_not_request by blast+
qed

theorem key_list_prints_keystore_witness:
  "\<exists>ce :: (unit, unit, (string \<times> string) list) cmd_env. \<exists>s'. runKeyList ce demo_no_state = (s', None) \<and> cs_out s' \<noteq> []"
proof -
  define resp where "resp = ctl_ok [] (Some (keyListData (demo_env []) demo_enroll_server))"
  define env where env: "env = (demo_env [])\<lparr>ae_js := demo_pair_js (request_json ''key.list'' None) (response_json resp)\<rparr>"
  define ce where ce: "ce = demo_cmd_env (demo_served env demo_enroll_server)"
  note x = demo_exchange [OF env ce]
  have r: "resp = ctl_ok [] (Some (keyListData env demo_enroll_server))" by (simp add: resp_def env keyListData_def)
  from key_list_prints_keystore [OF x(2,1) demo_peer x(3,4) x(5,6) [unfolded r], of demo_no_state] obtain rows where
    out: "runKeyList ce demo_no_state =
        (demo_no_state\<lparr>cs_out := cs_out demo_no_state @ (if rows = [] then ''(none)'' @ [CHR 0x0A] else concat (map row_line rows))\<rparr>, None)"
    by blast
  have "(if rows = [] then ''(none)'' @ [CHR 0x0A] else concat (map row_line rows)) \<noteq> []"
    by (cases rows) (simp_all add: row_line_def)
  with out show ?thesis by (intro exI [of _ ce]) simp
qed


definition demo_csr_pem :: bytes where
  "demo_csr_pem = ''CERTIFICATE REQUEST'' @ [CHR 0x0A] @ ''cli''"

definition demo_enroll_state :: cmd_state where
  "demo_enroll_state = demo_no_state\<lparr>cs_files := [(''cli.csr.pem'', \<lparr>fi_data = demo_csr_pem, fi_mode = mode_0644\<rparr>)]\<rparr>"

lemma demo_no_profile: "resolveCLIProfile demo_rules (ce_cli (demo_cmd_env hx)) (cs_files demo_enroll_state) = Inr None"
proof -
  have p: "cliProfilePath (ce_cli (demo_cmd_env hx)) = ''/home/op/.config/luna/cli.yaml''"
    unfolding cliProfilePath_def demo_cmd_env_def by simp code_simp
  have "LoadCLIProfile demo_rules (ce_cli (demo_cmd_env hx)) (cs_files demo_enroll_state) = Inr None"
    unfolding LoadCLIProfile_def p loadCLIProfileFile_def by (simp add: os_ReadFile_def demo_enroll_state_def)
  then show ?thesis by (simp add: resolveCLIProfile_def or_flag_def demo_cmd_env_def zero_CLIProfile_def)
qed

lemma demo_ctl_enroll:
  "\<exists>s' resp. ctl_handle (demo_enroll_env\<lparr>ae_js := js\<rparr>) (enroll_call ''laptop'' demo_csr_pem) demo_enroll_server = (s', resp) \<and> rs_OK resp"
proof -
  have v: "ValidateLabel ''laptop'' = None" by (simp add: ValidateLabel_def MaxLabelLen_def)
  have c: "sv_csrSigner demo_enroll_server = Some demo_csr_signer" "sv_cli demo_enroll_server = cli_NewStore"
    "ae_x5 (demo_enroll_env\<lparr>ae_js := js\<rparr>) = demo_x5" "ae_serial (demo_enroll_env\<lparr>ae_js := js\<rparr>) = Inr 1"
    "ae_now (demo_enroll_env\<lparr>ae_js := js\<rparr>) n = 0" for n
    by (simp_all add: demo_enroll_server_def demo_server_def demo_enroll_env_def demo_env_def)
  obtain fp where f: "csr_Sign demo_x5 (Inr 1) 0 demo_csr_pem demo_csr_signer = Inr (''CERTIFICATE'' @ [CHR 0x0A] @ ''1cli'', fp)"
    using demo_csr_run(1) unfolding demo_csr_pem_def by blast
  have e: "\<exists>st d. cli_Enroll i 0 ''laptop'' fp cli_NewStore = (st, Inr d)" for i fp
    using v by (simp add: cli_Enroll_def cli_NewStore_def Let_def)
  obtain st d where g: "cli_Enroll (ae_ulid (demo_enroll_env\<lparr>ae_js := js\<rparr>)) 0 ''laptop'' fp cli_NewStore = (st, Inr d)" using e by blast
  have n: "\<not> (''laptop'' = [] \<or> demo_csr_pem = [])" by (simp add: demo_csr_pem_def)
  have "ctl_handle (demo_enroll_env\<lparr>ae_js := js\<rparr>) (enroll_call ''laptop'' demo_csr_pem) demo_enroll_server =
      ctl_CLIEnroll (demo_enroll_env\<lparr>ae_js := js\<rparr>) (enroll_call ''laptop'' demo_csr_pem) demo_enroll_server"
    by (simp add: ctl_handle_def enroll_call_def)
  then show ?thesis
    unfolding ctl_CLIEnroll_def enroll_decodes c option.case cliEnrollRequest.simps if_not_P [OF n] v f sum.case prod.case g
    by (simp add: ctl_ok_def)
qed

theorem cli_enroll_end_to_end_witness:
  "\<exists>ce :: (unit, unit, (string \<times> string) list) cmd_env. \<exists>s' f. runCLIEnroll ce demo_enroll_state = (s', None)
     \<and> map_of (cs_files s') (cert_out ce) = Some f \<and> cert_of_pem demo_x5 (fi_data f) \<noteq> None"
proof -
  define resp where "resp = snd (ctl_handle demo_enroll_env (enroll_call ''laptop'' demo_csr_pem) demo_enroll_server)"
  define env where env: "env = demo_enroll_env\<lparr>ae_js :=
     demo_pair_js (request_json ''cli.enroll'' (Some (enroll_data ''laptop'' demo_csr_pem))) (response_json resp)\<rparr>"
  define ce where ce: "ce = demo_cmd_env (demo_served env demo_enroll_server)"
  note x = demo_exchange [OF env ce]
  obtain s' resp' where run: "ctl_handle env (enroll_call ''laptop'' demo_csr_pem) demo_enroll_server = (s', resp')" "rs_OK resp'"
    unfolding env using demo_ctl_enroll by blast
  have "ctl_CLIEnroll (e\<lparr>ae_js := js\<rparr>) q s = ctl_CLIEnroll e q s" for e js q s
    by (cases e, hypsubst) (unfold ctl_CLIEnroll_def api_env.simps, rule refl)
  then have "resp' = resp" using run(1) unfolding resp_def env by (simp add: ctl_handle_def enroll_call_def)
  note r = x(5,6) [folded this]
  have csr: "os_ReadFile (hx_fr (ce_hx ce)) (cs_files demo_enroll_state) (co_flag (ce_cli ce) ''csr-file'') = Inr demo_csr_pem"
    by (simp add: ce demo_cmd_env_def demo_served_def demo_cli_env_def demo_rules_def demo_enroll_state_def os_ReadFile_def)
  have label: "co_flag (ce_cli ce) ''label'' = ''laptop''" by (simp add: ce demo_cmd_env_def)
  have prof: "resolveCLIProfile (hx_fr (ce_hx ce)) (ce_cli ce) (cs_files demo_enroll_state) = Inr None"
    unfolding ce demo_cmd_parts by (rule demo_no_profile)
  have wr: "fr_WriteFile (hx_fr (ce_hx ce)) (cert_out ce) = None" unfolding ce demo_cmd_parts by (simp add: demo_rules_def)
  have x5: "ae_x5 env = demo_x5" by (simp add: env demo_enroll_env_def demo_env_def)
  have issues: "issues_as_told (ae_x5 env)" unfolding x5 by (rule demo_x5_issues)
  have pem: "\<forall>der. x5_pem_EncodeToMemory (ae_x5 env) ''CERTIFICATE'' der \<noteq> []" unfolding x5 by (simp add: demo_x5_def)
  from cli_enroll_end_to_end [OF csr label prof x(2,1) demo_peer x(3,4) run(1) r issues pem, unfolded if_P [OF run(2)] wr option.case]
  obtain dev :: cli_Device and cert :: bytes and c :: x509_cert and m fs where
    out: "runCLIEnroll ce demo_enroll_state = (demo_enroll_state\<lparr>cs_files := fs, cs_out := cs_out demo_enroll_state @ cd_ID dev @ [CHR 0x0A]\<rparr>, None)"
      "map_of fs (cert_out ce) = Some \<lparr>fi_data = cert, fi_mode = m\<rparr>" "cert_of_pem (ae_x5 env) cert = Some c"
    by blast
  then show ?thesis unfolding x5 by (intro exI [of _ ce]) auto
qed

end
