(* ===== verification/Setup_PKI.thy ===== *)
theory Setup_PKI
  imports Go_Files CSR Config_Load
begin

text \<open>
  The certificates of a new proxy (\<open>setup/mtls.go\<close>, \<open>setup/admin_client.go\<close>): a CA, the proxy's own
  certificate, the administrator's, and a sample client's. Keys and certificates are made by the
  record \<open>pki_lib\<close>; its numbers say which of a command's keys or serial numbers is meant. Random
  numbers do not fail. The messages on the terminal are left out.
\<close>

section \<open>The library\<close>

datatype cert_usage = UsageCertSign | UsageCRLSign | UsageDigitalSignature | UsageKeyEncipherment

datatype cert_ext_usage = UsageServerAuth | UsageClientAuth

record cert_template =
  ct_SerialNumber :: int
  ct_CommonName :: string
  ct_Organization :: "string list"
  ct_OrganizationalUnit :: "string list"
  ct_NotBefore :: gotime
  ct_NotAfter :: gotime
  ct_KeyUsage :: "cert_usage list"
  ct_ExtKeyUsage :: "cert_ext_usage list"
  ct_DNSNames :: "string list"
  ct_IsCA :: bool

datatype cert_parent = SelfSigned | SignedBy x509_cert

record pki_lib =
  pk_x5 :: x509_lib
  pk_GenerateKey :: "nat \<Rightarrow> nat \<Rightarrow> private_key result"
  pk_PublicKey :: "private_key \<Rightarrow> csr_key"
  pk_IsRSA :: "private_key \<Rightarrow> bool"
  pk_CreateCertificate :: "cert_template \<Rightarrow> cert_parent \<Rightarrow> csr_key \<Rightarrow> private_key \<Rightarrow> bytes result"
  pk_MarshalPKCS8PrivateKey :: "private_key \<Rightarrow> bytes result"
  pk_mustSerial :: "nat \<Rightarrow> int"
  pk_now :: gotime
  pk_fr :: fs_rules
  pk_Getwd :: "string result"

text \<open>A step that works on the files, or on another state, and the next one when it has succeeded.\<close>

type_synonym 'a fs_step = "files \<Rightarrow> files \<times> 'a result"

definition and_then :: "('s \<Rightarrow> 's \<times> 'a result) \<Rightarrow> ('a \<Rightarrow> 's \<Rightarrow> 's \<times> 'b result) \<Rightarrow> 's \<Rightarrow> 's \<times> 'b result" where
  "and_then m k fs = (case m fs of (fs', Inl err) \<Rightarrow> (fs', Inl err) | (fs', Inr x) \<Rightarrow> k x fs')"

definition lift_result :: "'a result \<Rightarrow> 's \<Rightarrow> 's \<times> 'a result" where
  "lift_result r fs = (fs, r)"

definition wrap_err :: "string \<Rightarrow> 'a result \<Rightarrow> 'a result" where
  "wrap_err what r = (case r of Inl err \<Rightarrow> Inl (Wrapf what err '''') | Inr x \<Rightarrow> Inr x)"

section \<open>Options\<close>

definition defaultValidityDays :: int where
  "defaultValidityDays = 3650"

definition ErrExists :: go_error where
  "ErrExists = Errorf ''mTLS material already exists (use --force to overwrite)''"

definition DefaultCertsDir :: string where
  "DefaultCertsDir = ''/etc/luna/certs''"

record MTLSOptions =
  mo_Dir :: string
  mo_Force :: bool
  mo_CACommonName :: string
  mo_Organization :: string
  mo_ServerCommonName :: string
  mo_ServerDNSNames :: "string list"
  mo_AdminClientOU :: string
  mo_ValidityDays :: int
  mo_IncludeSampleClients :: bool

definition zero_MTLSOptions :: MTLSOptions where
  "zero_MTLSOptions = \<lparr>mo_Dir = [], mo_Force = False, mo_CACommonName = [], mo_Organization = [], mo_ServerCommonName = [],
     mo_ServerDNSNames = [], mo_AdminClientOU = [], mo_ValidityDays = 0, mo_IncludeSampleClients = False\<rparr>"

definition mtls_withDefaults :: "MTLSOptions \<Rightarrow> MTLSOptions" where
  "mtls_withDefaults o1 =
     o1\<lparr>mo_Dir := filepath_Clean (if TrimSpace (mo_Dir o1) = [] then DefaultCertsDir else mo_Dir o1),
        mo_CACommonName := or_default (mo_CACommonName o1) ''Luna mTLS CA'',
        mo_Organization := or_default (mo_Organization o1) ''Luna Z-Trust'',
        mo_ServerCommonName := or_default (mo_ServerCommonName o1) ''luna-proxy'',
        mo_ServerDNSNames := (if length (mo_ServerDNSNames o1) = 0 then [''localhost''] else mo_ServerDNSNames o1),
        mo_AdminClientOU := or_default (mo_AdminClientOU o1) ''luna-admin'',
        mo_ValidityDays := (if mo_ValidityDays o1 \<le> 0 then defaultValidityDays else mo_ValidityDays o1)\<rparr>"

section \<open>Writing\<close>

definition writeFileAtomic :: "fs_rules \<Rightarrow> string \<Rightarrow> bytes \<Rightarrow> nat \<Rightarrow> unit fs_step" where
  "writeFileAtomic fr path data mode fs =
     (case write_and_rename fr (\<lambda>e. Wrapf (''write '' @ path @ '': '') e '''') (\<lambda>e. Wrapf (''rename '' @ path @ '': '') e '''')
             path data mode fs of
        (fs', Some err) \<Rightarrow> (fs', Inl err)
      | (fs', None) \<Rightarrow> (fs', Inr ()))"

definition abs_or_empty :: "pki_lib \<Rightarrow> string \<Rightarrow> string" where
  "abs_or_empty pk path = (case filepath_Abs (pk_Getwd pk) path of Inl _ \<Rightarrow> [] | Inr p \<Rightarrow> p)"

definition writePair :: "pki_lib \<Rightarrow> string \<Rightarrow> string \<Rightarrow> nat \<Rightarrow> nat \<Rightarrow> bytes \<Rightarrow> private_key \<Rightarrow> (string list) fs_step" where
  "writePair pk dir base certMode keyMode certDER key =
     (let certPath = filepath_Join [dir, base @ ''.crt'']; keyPath = filepath_Join [dir, base @ ''.key'']
      in and_then (writeFileAtomic (pk_fr pk) certPath (x5_pem_EncodeToMemory (pk_x5 pk) ''CERTIFICATE'' certDER) certMode) (\<lambda>_.
         and_then (lift_result (wrap_err (''marshal '' @ base @ '' key: '') (pk_MarshalPKCS8PrivateKey pk key))) (\<lambda>keyDER.
         and_then (writeFileAtomic (pk_fr pk) keyPath (x5_pem_EncodeToMemory (pk_x5 pk) ''PRIVATE KEY'' keyDER) keyMode) (\<lambda>_.
         lift_result (Inr [abs_or_empty pk certPath, abs_or_empty pk keyPath])))))"

section \<open>A new hierarchy\<close>

definition mtls_outputs :: "MTLSOptions \<Rightarrow> string list" where
  "mtls_outputs opts =
     [''ca.crt'', ''ca.key'', ''server.crt'', ''server.key'', ''admin-client.crt'', ''admin-client.key''] @
     (if mo_IncludeSampleClients opts then [''client.crt'', ''client.key''] else [])"

text \<open>The product of days and hours is computed in 64 bits.\<close>

definition not_before :: "pki_lib \<Rightarrow> gotime" where
  "not_before pk = pk_now pk + - minute"

definition not_after :: "pki_lib \<Rightarrow> int \<Rightarrow> gotime" where
  "not_after pk days = not_before pk + wrap64 (days * 24 * hour)"

definition ca_template :: "pki_lib \<Rightarrow> MTLSOptions \<Rightarrow> cert_template" where
  "ca_template pk opts =
     \<lparr>ct_SerialNumber = pk_mustSerial pk 0, ct_CommonName = mo_CACommonName opts, ct_Organization = [mo_Organization opts],
      ct_OrganizationalUnit = [], ct_NotBefore = not_before pk, ct_NotAfter = not_after pk (mo_ValidityDays opts),
      ct_KeyUsage = [UsageCertSign, UsageCRLSign], ct_ExtKeyUsage = [], ct_DNSNames = [], ct_IsCA = True\<rparr>"

definition server_template :: "pki_lib \<Rightarrow> MTLSOptions \<Rightarrow> cert_template" where
  "server_template pk opts =
     \<lparr>ct_SerialNumber = pk_mustSerial pk 1, ct_CommonName = mo_ServerCommonName opts, ct_Organization = [mo_Organization opts],
      ct_OrganizationalUnit = [], ct_NotBefore = not_before pk, ct_NotAfter = not_after pk (mo_ValidityDays opts),
      ct_KeyUsage = [UsageDigitalSignature, UsageKeyEncipherment], ct_ExtKeyUsage = [UsageServerAuth],
      ct_DNSNames = mo_ServerDNSNames opts, ct_IsCA = False\<rparr>"

definition client_cert_template :: "pki_lib \<Rightarrow> nat \<Rightarrow> string \<Rightarrow> string \<Rightarrow> string list \<Rightarrow> int \<Rightarrow> cert_template" where
  "client_cert_template pk i cn org units days =
     \<lparr>ct_SerialNumber = pk_mustSerial pk i, ct_CommonName = cn, ct_Organization = [org], ct_OrganizationalUnit = units,
      ct_NotBefore = not_before pk, ct_NotAfter = not_after pk days, ct_KeyUsage = [UsageDigitalSignature],
      ct_ExtKeyUsage = [UsageClientAuth], ct_DNSNames = [], ct_IsCA = False\<rparr>"

text \<open>A key, a certificate for it by the CA, and their two files.\<close>

definition issue_pair ::
  "pki_lib \<Rightarrow> nat \<Rightarrow> string \<Rightarrow> cert_template \<Rightarrow> x509_cert \<Rightarrow> private_key \<Rightarrow> string \<Rightarrow> string \<Rightarrow> nat \<Rightarrow> (string list) fs_step" where
  "issue_pair pk i what tmpl caCert caKey dir base keyMode =
     and_then (lift_result (wrap_err (''generate '' @ what @ '' key: '') (pk_GenerateKey pk i 2048))) (\<lambda>key.
     and_then (lift_result (wrap_err (''sign '' @ what @ '' certificate: '')
                 (pk_CreateCertificate pk tmpl (SignedBy caCert) (pk_PublicKey pk key) caKey))) (\<lambda>der.
     writePair pk dir base mode_0644 keyMode der key))"

definition new_ca :: "pki_lib \<Rightarrow> MTLSOptions \<Rightarrow> (bytes \<times> private_key \<times> x509_cert) result" where
  "new_ca pk opts =
     (case wrap_err ''generate CA key: '' (pk_GenerateKey pk 0 4096) of
        Inl err \<Rightarrow> Inl err
      | Inr caKey \<Rightarrow>
     (case wrap_err ''sign CA certificate: '' (pk_CreateCertificate pk (ca_template pk opts) SelfSigned (pk_PublicKey pk caKey) caKey) of
        Inl err \<Rightarrow> Inl err
      | Inr caDER \<Rightarrow>
     (case wrap_err ''parse CA certificate: '' (x5_ParseCertificate (pk_x5 pk) caDER) of
        Inl err \<Rightarrow> Inl err
      | Inr caCert \<Rightarrow> Inr (caDER, caKey, caCert))))"

definition admin_template :: "pki_lib \<Rightarrow> nat \<Rightarrow> string \<Rightarrow> string \<Rightarrow> int \<Rightarrow> cert_template" where
  "admin_template pk i org ou days = client_cert_template pk i ''Luna Admin Client'' org [ou] days"

definition GenerateMTLS :: "pki_lib \<Rightarrow> MTLSOptions \<Rightarrow> (string list) fs_step" where
  "GenerateMTLS pk opts0 fs =
     (let opts = mtls_withDefaults opts0; dir = mo_Dir opts; org = mo_Organization opts; days = mo_ValidityDays opts
      in case fr_MkdirAll (pk_fr pk) dir of
           Some err \<Rightarrow> (fs, Inl (Wrapf ''create output dir: '' err ''''))
         | None \<Rightarrow>
     (case (if mo_Force opts then None else find (\<lambda>name. file_exists fs (filepath_Join [dir, name])) (mtls_outputs opts)) of
        Some name \<Rightarrow> (fs, Inl (Wrapf [] ErrExists ('': '' @ name)))
      | None \<Rightarrow>
          and_then (lift_result (new_ca pk opts)) (\<lambda>(caDER, caKey, caCert).
          and_then (writePair pk dir ''ca'' mode_0644 mode_0400 caDER caKey) (\<lambda>w0.
          and_then (issue_pair pk 1 ''server'' (server_template pk opts) caCert caKey dir ''server'' mode_0400) (\<lambda>w1.
          and_then (issue_pair pk 2 ''admin client'' (admin_template pk 2 org (mo_AdminClientOU opts) days) caCert caKey
                      dir ''admin-client'' mode_0600) (\<lambda>w2.
          if mo_IncludeSampleClients opts
          then and_then (issue_pair pk 3 ''client'' (client_cert_template pk 3 ''Luna Automation Client'' org [] days) caCert caKey
                           dir ''client'' mode_0600) (\<lambda>w3. lift_result (Inr (w0 @ w1 @ w2 @ w3)))
          else lift_result (Inr (w0 @ w1 @ w2)))))) fs))"

section \<open>A new certificate for the administrator\<close>

record AdminClientOptions =
  ao_Dir :: string
  ao_Force :: bool
  ao_AdminClientOU :: string
  ao_Organization :: string
  ao_ValidityDays :: int

definition defaultCertsDirFromMTLS :: string where
  "defaultCertsDirFromMTLS = mo_Dir (mtls_withDefaults zero_MTLSOptions)"

definition admin_withDefaults :: "AdminClientOptions \<Rightarrow> AdminClientOptions" where
  "admin_withDefaults o1 =
     o1\<lparr>ao_Dir := filepath_Clean (or_default (ao_Dir o1) defaultCertsDirFromMTLS),
        ao_AdminClientOU := or_default (ao_AdminClientOU o1) ''luna-admin'',
        ao_Organization := or_default (ao_Organization o1) ''Luna Z-Trust'',
        ao_ValidityDays := (if ao_ValidityDays o1 \<le> 0 then defaultValidityDays else ao_ValidityDays o1)\<rparr>"

definition loadCAKeyPair :: "pki_lib \<Rightarrow> files \<Rightarrow> string \<Rightarrow> string \<Rightarrow> (x509_cert \<times> private_key) result" where
  "loadCAKeyPair pk fs certPath keyPath =
     (let x5 = pk_x5 pk
      in case os_ReadFile (pk_fr pk) fs certPath of
           Inl err \<Rightarrow> Inl (Wrapf ''read CA cert: '' (fs_err err) '''')
         | Inr certPEM \<Rightarrow>
     (case x5_pem_Decode x5 certPEM of
        None \<Rightarrow> Inl (Errorf ''parse CA cert: no PEM block'')
      | Some (_, certDER) \<Rightarrow>
     (case x5_ParseCertificate x5 certDER of
        Inl err \<Rightarrow> Inl (Wrapf ''parse CA cert: '' err '''')
      | Inr caCert \<Rightarrow>
     (case os_ReadFile (pk_fr pk) fs keyPath of
        Inl err \<Rightarrow> Inl (Wrapf ''read CA key: '' (fs_err err) '''')
      | Inr keyPEM \<Rightarrow>
     (case x5_pem_Decode x5 keyPEM of
        None \<Rightarrow> Inl (Errorf ''parse CA key: no PEM block'')
      | Some (ty, der) \<Rightarrow>
          if ty = ''RSA PRIVATE KEY''
          then (case x5_ParsePKCS1PrivateKey x5 der of
                  Inl err \<Rightarrow> Inl (Wrapf ''parse CA key: '' err '''')
                | Inr key \<Rightarrow> Inr (caCert, key))
          else if ty = ''PRIVATE KEY''
          then (case x5_ParsePKCS8PrivateKey x5 der of
                  Inl err \<Rightarrow> Inl (Wrapf ''parse CA key: '' err '''')
                | Inr key \<Rightarrow> if pk_IsRSA pk key then Inr (caCert, key) else Inl (Errorf ''parse CA key: expected RSA private key''))
          else Inl (Errorf (''parse CA key: unsupported PEM type '' @ strconv_Quote ty)))))))"

definition GenerateAdminClient :: "pki_lib \<Rightarrow> AdminClientOptions \<Rightarrow> (string list) fs_step" where
  "GenerateAdminClient pk opts0 fs =
     (let opts = admin_withDefaults opts0; dir = ao_Dir opts
      in case fr_MkdirAll (pk_fr pk) dir of
           Some err \<Rightarrow> (fs, Inl (Wrapf ''create output dir: '' err ''''))
         | None \<Rightarrow>
     (case (if ao_Force opts then None
            else find (\<lambda>p. file_exists fs p) [filepath_Join [dir, ''admin-client.crt''], filepath_Join [dir, ''admin-client.key'']]) of
        Some p \<Rightarrow> (fs, Inl (Wrapf [] ErrExists ('': '' @ filepath_Base p)))
      | None \<Rightarrow>
     (case loadCAKeyPair pk fs (filepath_Join [dir, ''ca.crt'']) (filepath_Join [dir, ''ca.key'']) of
        Inl err \<Rightarrow> (fs, Inl err)
      | Inr (caCert, caKey) \<Rightarrow>
          issue_pair pk 0 ''admin client'' (admin_template pk 0 (ao_Organization opts) (ao_AdminClientOU opts) (ao_ValidityDays opts))
            caCert caKey dir ''admin-client'' mode_0600 fs)))"


section \<open>Paths of a directory\<close>

definition plain_name :: "string \<Rightarrow> bool" where
  "plain_name n \<longleftrightarrow> n \<noteq> [] \<and> n \<noteq> ''.'' \<and> n \<noteq> ''..'' \<and> CHR ''/'' \<notin> set n"

lemma Split_append: "Split (s @ sep # t) sep = Split s sep @ Split t sep"
  by (induction s) (auto split: list.split)

lemma clean_parts_append: "clean_parts r acc (xs @ ys) = clean_parts r (rev (clean_parts r acc xs)) ys"
  by (induction xs arbitrary: acc) (auto split: list.split)

lemma join_name:
  assumes "IsAbs dir" and "plain_name n"
  shows "filepath_Join [dir, n] = CHR ''/'' # Join (path_parts dir @ [n]) (CHR ''/'')"
proof -
  have d: "dir \<noteq> []" "IsAbs (dir @ CHR ''/'' # n)" using assms(1) by (cases dir; simp add: IsAbs_def HasPrefix_def)+
  have s: "Split (dir @ CHR ''/'' # n) CHR ''/'' = Split dir CHR ''/'' @ [n]"
    using assms(2) by (simp add: plain_name_def Split_append_sep Split_append Split_no_sep)
  have "path_parts (dir @ CHR ''/'' # n) = path_parts dir @ [n]"
    using assms d(2) unfolding path_parts_def s clean_parts_append plain_name_def by simp
  with d show ?thesis by (simp add: filepath_Join_def filepath_Clean_def)
qed


lemma Join_snoc_inj: "Join (ps @ [n]) sep = Join (ps @ [m]) sep \<longleftrightarrow> n = m"
  by (cases "ps = []") (simp_all add: Join_append)

lemma join_inj: "IsAbs dir \<Longrightarrow> plain_name n \<Longrightarrow> plain_name m \<Longrightarrow> filepath_Join [dir, n] = filepath_Join [dir, m] \<longleftrightarrow> n = m"
  by (simp add: join_name Join_snoc_inj)

lemma plain_tmp: "plain_name n \<Longrightarrow> plain_name (n @ ''.tmp'')"
  by (auto simp: plain_name_def)

lemma join_tmp: "IsAbs dir \<Longrightarrow> plain_name n \<Longrightarrow> filepath_Join [dir, n] @ ''.tmp'' = filepath_Join [dir, n @ ''.tmp'']"
  by (cases "path_parts dir = []") (simp_all add: join_name plain_tmp Join_append)

section \<open>What a step touches\<close>

lemma and_then_ok: "and_then m k fs = (fs2, Inr y) \<longleftrightarrow> (\<exists>fs1 x. m fs = (fs1, Inr x) \<and> k x fs1 = (fs2, Inr y))"
  by (auto simp: and_then_def split: prod.splits sum.splits)

lemma lift_result_ok: "lift_result r fs = (fs1, Inr x) \<longleftrightarrow> fs1 = fs \<and> r = Inr x"
  by (auto simp: lift_result_def)

lemma wrap_err_ok: "wrap_err what r = Inr x \<longleftrightarrow> r = Inr x"
  by (auto simp: wrap_err_def split: sum.split)

lemmas step_oks = and_then_ok lift_result_ok wrap_err_ok

text \<open>\<open>untouched P m\<close>: whatever becomes of the step, the files at other paths than those of \<open>P\<close> stay.\<close>

definition untouched :: "string set \<Rightarrow> 'a fs_step \<Rightarrow> bool" where
  "untouched P m \<longleftrightarrow> (\<forall>fs p. p \<notin> P \<longrightarrow> map_of (fst (m fs)) p = map_of fs p)"

lemma untouched_and_then: "untouched P m \<Longrightarrow> (\<And>x. untouched P (k x)) \<Longrightarrow> untouched P (and_then m k)"
  by (auto simp: untouched_def and_then_def split: prod.split sum.split) (metis fst_conv)+

lemma untouched_lift [simp]: "untouched P (lift_result r)"
  by (simp add: untouched_def lift_result_def)

lemma untouched_mono: "untouched P m \<Longrightarrow> P \<subseteq> Q \<Longrightarrow> untouched Q m"
  by (auto simp: untouched_def)

definition written_at :: "string \<Rightarrow> string set" where
  "written_at path = {path, path @ ''.tmp''}"

lemma untouched_write: "untouched (written_at path) (writeFileAtomic fr path data mode)"
  unfolding untouched_def
proof (intro allI impI)
  fix fs p
  assume p: "p \<notin> written_at path"
  obtain fs' r where w: "write_and_rename fr (\<lambda>e. Wrapf (''write '' @ path @ '': '') e '''')
      (\<lambda>e. Wrapf (''rename '' @ path @ '': '') e '''') path data mode fs = (fs', r)" by fastforce
  then have "fst (writeFileAtomic fr path data mode fs) = fs'" by (simp add: writeFileAtomic_def split: option.split)
  moreover have "map_of fs' p = map_of fs p"
    using p w write_and_rename_ok(2) write_and_rename_fails by (cases r) (auto simp: written_at_def)
  ultimately show "map_of (fst (writeFileAtomic fr path data mode fs)) p = map_of fs p" by simp
qed

definition pair_paths :: "string \<Rightarrow> string \<Rightarrow> string set" where
  "pair_paths dir base = written_at (filepath_Join [dir, base @ ''.crt'']) \<union> written_at (filepath_Join [dir, base @ ''.key''])"

lemma untouched_writePair: "untouched (pair_paths dir base) (writePair pk dir base cm km der key)"
  unfolding writePair_def Let_def pair_paths_def
  by (intro untouched_and_then untouched_lift untouched_mono [OF untouched_write]) auto

lemma untouched_issue: "untouched (pair_paths dir base) (issue_pair pk i what tmpl ca caKey dir base km)"
  unfolding issue_pair_def by (intro untouched_and_then untouched_lift untouched_writePair)

text \<open>The part of \<open>GenerateMTLS\<close> that writes.\<close>

definition issue_all :: "pki_lib \<Rightarrow> MTLSOptions \<Rightarrow> (string list) fs_step" where
  "issue_all pk opts =
     (let dir = mo_Dir opts; org = mo_Organization opts; days = mo_ValidityDays opts
      in and_then (lift_result (new_ca pk opts)) (\<lambda>(caDER, caKey, caCert).
          and_then (writePair pk dir ''ca'' mode_0644 mode_0400 caDER caKey) (\<lambda>w0.
          and_then (issue_pair pk 1 ''server'' (server_template pk opts) caCert caKey dir ''server'' mode_0400) (\<lambda>w1.
          and_then (issue_pair pk 2 ''admin client'' (admin_template pk 2 org (mo_AdminClientOU opts) days) caCert caKey
                      dir ''admin-client'' mode_0600) (\<lambda>w2.
          if mo_IncludeSampleClients opts
          then and_then (issue_pair pk 3 ''client'' (client_cert_template pk 3 ''Luna Automation Client'' org [] days) caCert caKey
                           dir ''client'' mode_0600) (\<lambda>w3. lift_result (Inr (w0 @ w1 @ w2 @ w3)))
          else lift_result (Inr (w0 @ w1 @ w2)))))))"

lemma GenerateMTLS_cases:
  assumes "GenerateMTLS pk opts0 fs = (fs', r)"
  obtains (refused) err where "fs' = fs" "r = Inl err"
  | (issued) "issue_all pk (mtls_withDefaults opts0) fs = (fs', r)"
      "mo_Force opts0 \<or> (\<forall>n \<in> set (mtls_outputs opts0). \<not> file_exists fs (filepath_Join [mo_Dir (mtls_withDefaults opts0), n]))"
proof -
  let ?opts = "mtls_withDefaults opts0"
  have same: "mo_Force ?opts = mo_Force opts0" "mtls_outputs ?opts = mtls_outputs opts0"
    by (simp_all add: mtls_withDefaults_def mtls_outputs_def)
  show thesis
  proof (cases "fr_MkdirAll (pk_fr pk) (mo_Dir ?opts)")
    case (Some err)
    with assms have "fs' = fs" "r = Inl (Wrapf ''create output dir: '' err '''')" by (simp_all add: GenerateMTLS_def Let_def)
    then show thesis by (rule refused)
  next
    case None
    show thesis
    proof (cases "if mo_Force ?opts then None else find (\<lambda>n. file_exists fs (filepath_Join [mo_Dir ?opts, n])) (mtls_outputs ?opts)")
      case (Some name)
      with None assms have "fs' = fs" "r = Inl (Wrapf [] ErrExists ('': '' @ name))" by (simp_all add: GenerateMTLS_def Let_def)
      then show thesis by (rule refused)
    next
      case clear: None
      have "issue_all pk ?opts fs = (fs', r)"
        using assms None clear by (simp add: GenerateMTLS_def issue_all_def Let_def)
      moreover from clear same have "mo_Force opts0 \<or> (\<forall>n \<in> set (mtls_outputs opts0). \<not> file_exists fs (filepath_Join [mo_Dir ?opts, n]))"
        by (auto simp: find_None_iff split: if_splits)
      ultimately show thesis using issued by blast
    qed
  qed
qed

lemma untouched_issue_all:
  "untouched (\<Union>n \<in> set (mtls_outputs opts). written_at (filepath_Join [mo_Dir opts, n])) (issue_all pk opts)"
proof -
  let ?P = "\<Union>n \<in> set (mtls_outputs opts). written_at (filepath_Join [mo_Dir opts, n])"
  have sub: "pair_paths (mo_Dir opts) b \<subseteq> ?P"
    if "b @ ''.crt'' \<in> set (mtls_outputs opts)" "b @ ''.key'' \<in> set (mtls_outputs opts)" for b
    using that unfolding pair_paths_def by blast
  have names: "{''ca.crt'', ''ca.key'', ''server.crt'', ''server.key'', ''admin-client.crt'', ''admin-client.key''} \<subseteq> set (mtls_outputs opts)"
    by (simp add: mtls_outputs_def)
  have ca: "untouched ?P (writePair pk (mo_Dir opts) ''ca'' cm km der key)" for cm km der key
    by (rule untouched_mono [OF untouched_writePair sub]) (use names in simp_all)
  have server: "untouched ?P (issue_pair pk i what tmpl c k (mo_Dir opts) ''server'' km)" for i what tmpl c k km
    by (rule untouched_mono [OF untouched_issue sub]) (use names in simp_all)
  have admin: "untouched ?P (issue_pair pk i what tmpl c k (mo_Dir opts) ''admin-client'' km)" for i what tmpl c k km
    by (rule untouched_mono [OF untouched_issue sub]) (use names in simp_all)
  have client: "untouched ?P (issue_pair pk i what tmpl c k (mo_Dir opts) ''client'' km)" if "mo_IncludeSampleClients opts"
    for i what tmpl c k km
    by (rule untouched_mono [OF untouched_issue sub]) (use that in \<open>simp_all add: mtls_outputs_def\<close>)
  show ?thesis unfolding issue_all_def Let_def case_prod_beta
  proof (intro untouched_and_then untouched_lift ca server admin)
    fix w0 w1 w2 :: "string list" and x :: "bytes \<times> private_key \<times> x509_cert"
    show "untouched ?P (if mo_IncludeSampleClients opts
       then and_then (issue_pair pk 3 ''client'' (client_cert_template pk 3 ''Luna Automation Client'' (mo_Organization opts) []
              (mo_ValidityDays opts)) (snd (snd x)) (fst (snd x)) (mo_Dir opts) ''client'' mode_0600)
              (\<lambda>w3. lift_result (Inr (w0 @ w1 @ w2 @ w3)))
       else lift_result (Inr (w0 @ w1 @ w2)))"
      by (cases "mo_IncludeSampleClients opts") (simp_all add: client untouched_and_then)
  qed
qed

text \<open>
  Setting up keeps what is there: without \<open>--force\<close>, however the generation of the certificates ends,
  every file that existed has its contents and permissions, temporary files beside the outputs aside.
\<close>

theorem setup_keeps_files:
  assumes "\<not> mo_Force opts" and "GenerateMTLS pk opts fs = (fs', r)" and "map_of fs p = Some f"
    and "\<forall>n \<in> set (mtls_outputs opts). p \<noteq> filepath_Join [mo_Dir (mtls_withDefaults opts), n] @ ''.tmp''"
  shows "map_of fs' p = Some f"
  using assms(2)
proof (cases rule: GenerateMTLS_cases)
  case (refused err)
  with assms(3) show ?thesis by simp
next
  case issued
  have "mtls_outputs (mtls_withDefaults opts) = mtls_outputs opts" by (simp add: mtls_withDefaults_def mtls_outputs_def)
  with issued(2) assms(1,3,4) have "p \<notin> (\<Union>n \<in> set (mtls_outputs (mtls_withDefaults opts)).
      written_at (filepath_Join [mo_Dir (mtls_withDefaults opts), n]))"
    by (auto simp: written_at_def file_exists_def)
  with untouched_issue_all issued(1) assms(3) show ?thesis unfolding untouched_def by (metis fst_conv)
qed


section \<open>The finished hierarchy\<close>

lemma writeFileAtomic_ok:
  assumes "writeFileAtomic fr path data mode fs = (fs', Inr u)" and "map_of fs (path @ ''.tmp'') = None"
  shows "map_of fs' path = Some \<lparr>fi_data = data, fi_mode = mode\<rparr>"
proof -
  from assms(1) have "write_and_rename fr (\<lambda>e. Wrapf (''write '' @ path @ '': '') e '''')
      (\<lambda>e. Wrapf (''rename '' @ path @ '': '') e '''') path data mode fs = (fs', None)"
    by (auto simp: writeFileAtomic_def split: prod.splits option.splits)
  from write_and_rename_ok(1) [OF this] assms(2) show ?thesis by auto
qed

text \<open>The two files of a certificate.\<close>

definition pair_at :: "pki_lib \<Rightarrow> files \<Rightarrow> string \<Rightarrow> string \<Rightarrow> bytes \<Rightarrow> private_key \<Rightarrow> nat \<Rightarrow> bool" where
  "pair_at pk fs dir base der key km \<longleftrightarrow>
     (\<exists>keyDER. pk_MarshalPKCS8PrivateKey pk key = Inr keyDER
        \<and> map_of fs (filepath_Join [dir, base @ ''.crt'']) =
            Some \<lparr>fi_data = x5_pem_EncodeToMemory (pk_x5 pk) ''CERTIFICATE'' der, fi_mode = mode_0644\<rparr>
        \<and> map_of fs (filepath_Join [dir, base @ ''.key'']) =
            Some \<lparr>fi_data = x5_pem_EncodeToMemory (pk_x5 pk) ''PRIVATE KEY'' keyDER, fi_mode = km\<rparr>)"

definition no_leftovers :: "files \<Rightarrow> string \<Rightarrow> string \<Rightarrow> bool" where
  "no_leftovers fs dir base \<longleftrightarrow>
     map_of fs (filepath_Join [dir, base @ ''.crt''] @ ''.tmp'') = None \<and> map_of fs (filepath_Join [dir, base @ ''.key''] @ ''.tmp'') = None"

definition cert_bases :: "string set" where
  "cert_bases = {''ca'', ''server'', ''admin-client'', ''client''}"

definition pair_names :: "string \<Rightarrow> string set" where
  "pair_names b = {b @ ''.crt'', b @ ''.crt.tmp'', b @ ''.key'', b @ ''.key.tmp''}"

lemma cert_names:
  assumes "b \<in> cert_bases"
  shows "plain_name (b @ ''.crt'')" "plain_name (b @ ''.key'')" "plain_name (b @ ''.crt.tmp'')" "plain_name (b @ ''.key.tmp'')"
  using assms by (auto simp: cert_bases_def plain_name_def)

lemma pair_paths_names:
  assumes "IsAbs dir" and "b \<in> cert_bases"
  shows "pair_paths dir b = (\<lambda>n. filepath_Join [dir, n]) ` pair_names b"
  using assms(1) cert_names [OF assms(2)] by (auto simp: pair_paths_def written_at_def join_tmp pair_names_def)

lemma names_apart:
  assumes "b \<in> cert_bases" "c \<in> cert_bases" "b \<noteq> c"
  shows "pair_names b \<inter> pair_names c = {}"
  using assms by (auto simp: cert_bases_def pair_names_def)

lemma pairs_apart:
  assumes "IsAbs dir" "b \<in> cert_bases" "c \<in> cert_bases" "b \<noteq> c"
  shows "pair_paths dir b \<inter> pair_paths dir c = {}"
proof -
  have "filepath_Join [dir, n] \<noteq> filepath_Join [dir, m]"
    if "n \<in> pair_names b" "m \<in> pair_names c"
    for n m
  proof -
    have "plain_name n" "plain_name m" using that cert_names [OF assms(2)] cert_names [OF assms(3)] by (auto simp: pair_names_def)
    moreover have "n \<noteq> m" using that names_apart [OF assms(2-4)] by blast
    ultimately show ?thesis using join_inj [OF assms(1)] by blast
  qed
  then show ?thesis unfolding pair_paths_names [OF assms(1,2)] pair_paths_names [OF assms(1,3)] by blast
qed

lemma pair_kept:
  assumes "untouched (pair_paths dir c) m" "m fs = (fs', r)" "IsAbs dir" "b \<in> cert_bases" "c \<in> cert_bases" "b \<noteq> c"
  shows "pair_at pk fs dir b der key km \<Longrightarrow> pair_at pk fs' dir b der key km" "no_leftovers fs dir b \<Longrightarrow> no_leftovers fs' dir b"
proof -
  have "map_of fs' p = map_of fs p" if "p \<in> pair_paths dir b" for p
    using assms(1,2) that pairs_apart [OF assms(3-6)] unfolding untouched_def by (metis disjoint_iff fst_conv)
  then show "pair_at pk fs dir b der key km \<Longrightarrow> pair_at pk fs' dir b der key km" "no_leftovers fs dir b \<Longrightarrow> no_leftovers fs' dir b"
    by (simp_all add: pair_at_def no_leftovers_def pair_paths_def written_at_def)
qed

lemma writePair_ok:
  assumes "writePair pk dir b mode_0644 km der key fs = (fs', Inr w)" "no_leftovers fs dir b" "IsAbs dir" "b \<in> cert_bases"
  shows "pair_at pk fs' dir b der key km"
proof -
  let ?c = "filepath_Join [dir, b @ ''.crt'']" and ?k = "filepath_Join [dir, b @ ''.key'']"
  note names = cert_names [OF assms(4)]
  have "?k \<notin> written_at ?c" "?k @ ''.tmp'' \<notin> written_at ?c" "?c \<notin> written_at ?k"
    using assms(3) names join_inj [OF assms(3)] by (simp_all add: written_at_def join_tmp)
  from assms(1) obtain fs1 keyDER u u' where
    w: "writeFileAtomic (pk_fr pk) ?c (x5_pem_EncodeToMemory (pk_x5 pk) ''CERTIFICATE'' der) mode_0644 fs = (fs1, Inr u)"
      "pk_MarshalPKCS8PrivateKey pk key = Inr keyDER"
      "writeFileAtomic (pk_fr pk) ?k (x5_pem_EncodeToMemory (pk_x5 pk) ''PRIVATE KEY'' keyDER) km fs1 = (fs', Inr u')"
    unfolding writePair_def Let_def by (auto simp: step_oks)
  have "map_of fs1 (?k @ ''.tmp'') = None"
    using untouched_write [unfolded untouched_def] w(1) assms(2) \<open>?k @ ''.tmp'' \<notin> written_at ?c\<close> unfolding no_leftovers_def by (metis fst_conv)
  then have "map_of fs' ?k = Some \<lparr>fi_data = x5_pem_EncodeToMemory (pk_x5 pk) ''PRIVATE KEY'' keyDER, fi_mode = km\<rparr>"
    by (rule writeFileAtomic_ok [OF w(3)])
  moreover have "map_of fs1 ?c = Some \<lparr>fi_data = x5_pem_EncodeToMemory (pk_x5 pk) ''CERTIFICATE'' der, fi_mode = mode_0644\<rparr>"
    using writeFileAtomic_ok [OF w(1)] assms(2) by (simp add: no_leftovers_def)
  then have "map_of fs' ?c = Some \<lparr>fi_data = x5_pem_EncodeToMemory (pk_x5 pk) ''CERTIFICATE'' der, fi_mode = mode_0644\<rparr>"
    using untouched_write [unfolded untouched_def] w(3) \<open>?c \<notin> written_at ?k\<close> by (metis fst_conv)
  ultimately show ?thesis using w(2) by (simp add: pair_at_def)
qed

lemma issue_pair_ok:
  assumes "issue_pair pk i what tmpl c caKey dir b km fs = (fs', Inr w)" "no_leftovers fs dir b" "IsAbs dir" "b \<in> cert_bases"
  shows "\<exists>key der. pk_GenerateKey pk i 2048 = Inr key \<and> pk_CreateCertificate pk tmpl (SignedBy c) (pk_PublicKey pk key) caKey = Inr der
     \<and> pair_at pk fs' dir b der key km"
  using assms(1) writePair_ok [OF _ assms(2-4)] unfolding issue_pair_def by (fastforce simp: step_oks)


text \<open>What is relied on of the library: PEM blocks and PKCS#8 keys are read back, generated keys are RSA
  keys, and a certificate carries the units of its template.\<close>

definition pki_as_told :: "pki_lib \<Rightarrow> bool" where
  "pki_as_told pk \<longleftrightarrow>
     (\<forall>ty \<in> {''CERTIFICATE'', ''PRIVATE KEY''}. \<forall>b. x5_pem_Decode (pk_x5 pk) (x5_pem_EncodeToMemory (pk_x5 pk) ty b) = Some (ty, b))
     \<and> (\<forall>t par pub key der. pk_CreateCertificate pk t par pub key = Inr der \<longrightarrow>
          (\<exists>c. x5_ParseCertificate (pk_x5 pk) der = Inr c \<and> xc_OrganizationalUnit c = ct_OrganizationalUnit t))
     \<and> (\<forall>key der. pk_MarshalPKCS8PrivateKey pk key = Inr der \<longrightarrow> x5_ParsePKCS8PrivateKey (pk_x5 pk) der = Inr key)
     \<and> (\<forall>i n key. pk_GenerateKey pk i n = Inr key \<longrightarrow> pk_IsRSA pk key)"

lemma pki_as_told_create:
  "pki_as_told pk \<Longrightarrow> pk_CreateCertificate pk t par pub key = Inr der \<Longrightarrow>
   \<exists>c. x5_ParseCertificate (pk_x5 pk) der = Inr c \<and> xc_OrganizationalUnit c = ct_OrganizationalUnit t"
  unfolding pki_as_told_def by blast

definition read_from :: "fs_rules \<Rightarrow> files \<Rightarrow> string \<Rightarrow> bytes result" where
  "read_from fr fs path = (case os_ReadFile fr fs path of Inl err \<Rightarrow> Inl (fs_err err) | Inr b \<Rightarrow> Inr b)"

lemma new_ca_ok:
  "new_ca pk opts = Inr (der, key, c) \<Longrightarrow> pk_GenerateKey pk 0 4096 = Inr key \<and> x5_ParseCertificate (pk_x5 pk) der = Inr c"
  by (auto simp: new_ca_def wrap_err_ok split: sum.splits)

lemma ca_pair_loads:
  assumes lib: "pki_as_told pk" and ok: "\<And>p. fr_ReadFile (pk_fr pk) p = None"
    and ca: "pair_at pk fs dir ''ca'' der key km" "x5_ParseCertificate (pk_x5 pk) der = Inr c" "pk_IsRSA pk key"
  shows "loadCAFromFiles (pk_x5 pk) (read_from (pk_fr pk) fs) (filepath_Join [dir, ''ca.crt'']) (filepath_Join [dir, ''ca.key'']) = Inr (c, key)"
    and "loadCAKeyPair pk fs (filepath_Join [dir, ''ca.crt'']) (filepath_Join [dir, ''ca.key'']) = Inr (c, key)"
proof -
  from ca(1) obtain keyDER where f: "pk_MarshalPKCS8PrivateKey pk key = Inr keyDER"
      "map_of fs (filepath_Join [dir, ''ca.crt'']) = Some \<lparr>fi_data = x5_pem_EncodeToMemory (pk_x5 pk) ''CERTIFICATE'' der, fi_mode = mode_0644\<rparr>"
      "map_of fs (filepath_Join [dir, ''ca.key'']) = Some \<lparr>fi_data = x5_pem_EncodeToMemory (pk_x5 pk) ''PRIVATE KEY'' keyDER, fi_mode = km\<rparr>"
    by (auto simp: pair_at_def)
  have rd: "os_ReadFile (pk_fr pk) fs (filepath_Join [dir, ''ca.crt'']) = Inr (x5_pem_EncodeToMemory (pk_x5 pk) ''CERTIFICATE'' der)"
    "os_ReadFile (pk_fr pk) fs (filepath_Join [dir, ''ca.key'']) = Inr (x5_pem_EncodeToMemory (pk_x5 pk) ''PRIVATE KEY'' keyDER)"
    by (simp_all add: os_ReadFile_def f(2,3) ok)
  have pem: "x5_pem_Decode (pk_x5 pk) (x5_pem_EncodeToMemory (pk_x5 pk) ''CERTIFICATE'' b) = Some (''CERTIFICATE'', b)"
    "x5_pem_Decode (pk_x5 pk) (x5_pem_EncodeToMemory (pk_x5 pk) ''PRIVATE KEY'' b) = Some (''PRIVATE KEY'', b)"
    "x5_ParsePKCS8PrivateKey (pk_x5 pk) keyDER = Inr key" for b
    using lib f(1) by (simp_all add: pki_as_told_def)
  show "loadCAFromFiles (pk_x5 pk) (read_from (pk_fr pk) fs) (filepath_Join [dir, ''ca.crt'']) (filepath_Join [dir, ''ca.key'']) = Inr (c, key)"
    by (simp add: loadCAFromFiles_def read_from_def rd pem ca(2) parse_ca_key_def)
  show "loadCAKeyPair pk fs (filepath_Join [dir, ''ca.crt'']) (filepath_Join [dir, ''ca.key'']) = Inr (c, key)"
    by (simp add: loadCAKeyPair_def rd pem ca(2,3))
qed

lemma issue_all_ok:
  assumes run: "issue_all pk opts fs = (fs', Inr w)" and dir: "IsAbs (mo_Dir opts)"
    and clean: "\<forall>b \<in> cert_bases. no_leftovers fs (mo_Dir opts) b"
  shows "\<exists>caDER caKey c sKey sDER aKey aDER. new_ca pk opts = Inr (caDER, caKey, c)
    \<and> pair_at pk fs' (mo_Dir opts) ''ca'' caDER caKey mode_0400
    \<and> pk_CreateCertificate pk (server_template pk opts) (SignedBy c) (pk_PublicKey pk sKey) caKey = Inr sDER
    \<and> pair_at pk fs' (mo_Dir opts) ''server'' sDER sKey mode_0400
    \<and> pk_CreateCertificate pk (admin_template pk 2 (mo_Organization opts) (mo_AdminClientOU opts) (mo_ValidityDays opts)) (SignedBy c)
        (pk_PublicKey pk aKey) caKey = Inr aDER
    \<and> pair_at pk fs' (mo_Dir opts) ''admin-client'' aDER aKey mode_0600"
proof -
  let ?d = "mo_Dir opts"
  have bases: "''ca'' \<in> cert_bases" "''server'' \<in> cert_bases" "''admin-client'' \<in> cert_bases" "''client'' \<in> cert_bases"
    by (simp_all add: cert_bases_def)
  from run obtain caDER caKey c fs1 w0 fs2 w1 fs3 w2 where
    ca: "new_ca pk opts = Inr (caDER, caKey, c)" "writePair pk ?d ''ca'' mode_0644 mode_0400 caDER caKey fs = (fs1, Inr w0)" and
    sv: "issue_pair pk 1 ''server'' (server_template pk opts) c caKey ?d ''server'' mode_0400 fs1 = (fs2, Inr w1)" and
    ad: "issue_pair pk 2 ''admin client'' (admin_template pk 2 (mo_Organization opts) (mo_AdminClientOU opts) (mo_ValidityDays opts)) c
      caKey ?d ''admin-client'' mode_0600 fs2 = (fs3, Inr w2)" and
    cl: "fs' = fs3 \<or> (\<exists>tmpl w3. issue_pair pk 3 ''client'' tmpl c caKey ?d ''client'' mode_0600 fs3 = (fs', Inr w3))"
    unfolding issue_all_def Let_def by (fastforce simp: step_oks split: if_splits)
  note p1 = writePair_ok [OF ca(2) clean [rule_format, OF bases(1)] dir bases(1)]
  note k1 = pair_kept [OF untouched_writePair ca(2) dir]
  note k2 = pair_kept [OF untouched_issue sv dir]
  note k3 = pair_kept [OF untouched_issue ad dir]
  have l1: "no_leftovers fs1 ?d ''server''" "no_leftovers fs1 ?d ''admin-client''"
    using k1(2) [OF _ bases(1)] clean bases by simp_all
  obtain sKey sDER where s: "pk_CreateCertificate pk (server_template pk opts) (SignedBy c) (pk_PublicKey pk sKey) caKey = Inr sDER"
      "pair_at pk fs2 ?d ''server'' sDER sKey mode_0400"
    using issue_pair_ok [OF sv l1(1) dir bases(2)] by blast
  have l2: "no_leftovers fs2 ?d ''admin-client''" using k2(2) [OF bases(3,2)] l1(2) by simp
  obtain aKey aDER where a: "pk_CreateCertificate pk (admin_template pk 2 (mo_Organization opts) (mo_AdminClientOU opts) (mo_ValidityDays opts))
      (SignedBy c) (pk_PublicKey pk aKey) caKey = Inr aDER" "pair_at pk fs3 ?d ''admin-client'' aDER aKey mode_0600"
    using issue_pair_ok [OF ad l2 dir bases(3)] by blast
  have three: "pair_at pk fs3 ?d ''ca'' caDER caKey mode_0400" "pair_at pk fs3 ?d ''server'' sDER sKey mode_0400"
    using k3(1) [OF bases(1,3)] k2(1) [OF bases(1,2)] k3(1) [OF bases(2,3)] p1 s(2) by simp_all
  have "pair_at pk fs' ?d b der key km" if "pair_at pk fs3 ?d b der key km" "b \<in> cert_bases" "b \<noteq> ''client''" for b der key km
    using cl that pair_kept(1) [OF untouched_issue _ dir _ bases(4)] by blast
  with three a(2) bases have "pair_at pk fs' ?d ''ca'' caDER caKey mode_0400" "pair_at pk fs' ?d ''server'' sDER sKey mode_0400"
    "pair_at pk fs' ?d ''admin-client'' aDER aKey mode_0600" by simp_all
  with ca(1) s(1) a(1) show ?thesis by blast
qed


text \<open>
  (C27) A generated hierarchy is complete: after a successful generation into an absolute directory without
  left-over temporary files, the proxy's certificate signer and the reissue command both load
  the new CA from its files, whose key only the owner can read; the proxy's own certificate and the
  administrator's are signed by it and stored with their keys, the proxy's readable and the
  administrator's readable and writable by the owner only; and the administrator's is accepted
  as one under the chosen unit.
\<close>

theorem generated_pki_usable:
  assumes lib: "pki_as_told pk" and run: "GenerateMTLS pk opts0 fs = (fs', Inr written)"
    and opts: "opts = mtls_withDefaults opts0" and dir: "IsAbs (mo_Dir opts)"
    and clean: "\<forall>b \<in> cert_bases. no_leftovers fs (mo_Dir opts) b" and ok: "\<forall>p. fr_ReadFile (pk_fr pk) p = None"
  shows "\<exists>c caKey caDER sKey sDER aKey aDER admin.
      loadCAFromFiles (pk_x5 pk) (read_from (pk_fr pk) fs') (filepath_Join [mo_Dir opts, ''ca.crt'']) (filepath_Join [mo_Dir opts, ''ca.key''])
        = Inr (c, caKey)
    \<and> loadCAKeyPair pk fs' (filepath_Join [mo_Dir opts, ''ca.crt'']) (filepath_Join [mo_Dir opts, ''ca.key'']) = Inr (c, caKey)
    \<and> pair_at pk fs' (mo_Dir opts) ''ca'' caDER caKey mode_0400
    \<and> pk_CreateCertificate pk (server_template pk opts) (SignedBy c) (pk_PublicKey pk sKey) caKey = Inr sDER
    \<and> pair_at pk fs' (mo_Dir opts) ''server'' sDER sKey mode_0400
    \<and> pk_CreateCertificate pk (admin_template pk 2 (mo_Organization opts) (mo_AdminClientOU opts) (mo_ValidityDays opts)) (SignedBy c)
        (pk_PublicKey pk aKey) caKey = Inr aDER
    \<and> pair_at pk fs' (mo_Dir opts) ''admin-client'' aDER aKey mode_0600
    \<and> x5_ParseCertificate (pk_x5 pk) aDER = Inr admin \<and> adminClientAllowed (mo_AdminClientOU opts) admin"
proof -
  from run have "issue_all pk opts fs = (fs', Inr written)" by (cases rule: GenerateMTLS_cases) (simp_all add: opts)
  from issue_all_ok [OF this dir clean] obtain caDER caKey c sKey sDER aKey aDER where
    r: "new_ca pk opts = Inr (caDER, caKey, c)" "pair_at pk fs' (mo_Dir opts) ''ca'' caDER caKey mode_0400"
      "pk_CreateCertificate pk (server_template pk opts) (SignedBy c) (pk_PublicKey pk sKey) caKey = Inr sDER"
      "pair_at pk fs' (mo_Dir opts) ''server'' sDER sKey mode_0400"
      "pk_CreateCertificate pk (admin_template pk 2 (mo_Organization opts) (mo_AdminClientOU opts) (mo_ValidityDays opts)) (SignedBy c)
        (pk_PublicKey pk aKey) caKey = Inr aDER"
      "pair_at pk fs' (mo_Dir opts) ''admin-client'' aDER aKey mode_0600" by blast
  have rsa: "pk_IsRSA pk caKey" using lib new_ca_ok [OF r(1)] unfolding pki_as_told_def by blast
  note ca = ca_pair_loads [OF lib ok [rule_format] r(2) new_ca_ok [OF r(1), THEN conjunct2] rsa]
  obtain admin where a: "x5_ParseCertificate (pk_x5 pk) aDER = Inr admin"
      "xc_OrganizationalUnit admin = [mo_AdminClientOU opts]"
    using pki_as_told_create [OF lib r(5)] by (auto simp: admin_template_def client_cert_template_def)
  have "mo_AdminClientOU opts \<noteq> []" by (simp add: opts mtls_withDefaults_def)
  with a(2) have "adminClientAllowed (mo_AdminClientOU opts) admin" by (simp add: adminClientAllowed_def)
  then show ?thesis
    by (intro exI [of _ c] exI [of _ caKey] exI [of _ caDER] exI [of _ sKey] exI [of _ sDER] exI [of _ aKey] exI [of _ aDER]
        exI [of _ admin] conjI ca r a(1))
qed

section \<open>The time of validity\<close>

text \<open>A validity of 106751 days is the longest that is granted as asked for; with one day more the
  certificates have expired before they were issued.\<close>

lemma validity_days:
  "0 \<le> days \<Longrightarrow> days \<le> 106751 \<Longrightarrow> not_after pk days = not_before pk + days * (24 * hour)"
  "not_after pk 106752 < not_before pk"
proof -
  assume "0 \<le> days" "days \<le> 106751"
  then have "int64 (days * 24 * hour)" by (simp add: int64_def hour_def minute_def second_def)
  then show "not_after pk days = not_before pk + days * (24 * hour)" by (simp add: not_after_def wrap64_id mult.assoc)
next
  show "not_after pk 106752 < not_before pk" by (simp add: not_after_def wrap64_def hour_def minute_def second_def)
qed


section \<open>Examples\<close>

definition demo_pki :: pki_lib where
  "demo_pki = \<lparr>pk_x5 = demo_x5, pk_GenerateKey = \<lambda>i n. Inr [char_of i], pk_PublicKey = \<lambda>k. RSAKey 2048 k, pk_IsRSA = \<lambda>_. True,
     pk_CreateCertificate = \<lambda>t _ _ _. (case ct_OrganizationalUnit t of
        [] \<Rightarrow> Inr ''0'' | [u] \<Rightarrow> Inr (CHR ''1'' # u) | _ \<Rightarrow> Inl (Errorf ''too many units'')),
     pk_MarshalPKCS8PrivateKey = Inr, pk_mustSerial = int, pk_now = 0, pk_fr = demo_rules, pk_Getwd = Inr ''/''\<rparr>"

lemma demo_pki_told: "pki_as_told demo_pki"
  by (auto simp: pki_as_told_def demo_pki_def demo_x5_def split: list.splits)

lemma demo_dir: "mo_Dir (mtls_withDefaults zero_MTLSOptions) = ''/etc/luna/certs''"
  by code_simp

definition succeeds :: "'a fs_step \<Rightarrow> bool" where
  "succeeds m \<longleftrightarrow> (\<forall>fs. \<exists>fs' x. m fs = (fs', Inr x))"

lemma succeeds_and_then: "succeeds m \<Longrightarrow> (\<And>x. succeeds (k x)) \<Longrightarrow> succeeds (and_then m k)"
  unfolding succeeds_def and_then_def by (metis (no_types, lifting) case_prod_conv sum.case(2))

lemma succeeds_lift [simp]: "succeeds (lift_result (Inr x))"
  by (simp add: succeeds_def lift_result_def)

lemma demo_write: "succeeds (writeFileAtomic demo_rules path data mode)"
  by (simp add: succeeds_def writeFileAtomic_def write_and_rename_def os_WriteFile_defs os_Rename_def demo_rules_def Let_def)

lemma demo_parts: "pk_fr demo_pki = demo_rules" "pk_MarshalPKCS8PrivateKey demo_pki key = Inr key" "pk_GenerateKey demo_pki i n = Inr [char_of i]"
  by (simp_all add: demo_pki_def)

lemma demo_pair: "succeeds (writePair demo_pki dir base cm km der key)"
  unfolding writePair_def Let_def demo_parts wrap_err_def sum.case by (intro succeeds_and_then demo_write succeeds_lift)

lemma demo_issue:
  assumes "length (ct_OrganizationalUnit tmpl) \<le> 1"
  shows "succeeds (issue_pair demo_pki i what tmpl c k dir base km)"
proof -
  obtain der where "pk_CreateCertificate demo_pki tmpl (SignedBy c) (pk_PublicKey demo_pki key) k = Inr der" for key
    using assms by (cases "ct_OrganizationalUnit tmpl" rule: remdups_adj.cases) (auto simp: demo_pki_def)
  then show ?thesis unfolding issue_pair_def demo_parts wrap_err_def sum.case
    by (simp add: succeeds_and_then demo_pair)
qed

lemma demo_pki_run: "\<exists>fs' w. GenerateMTLS demo_pki zero_MTLSOptions [] = (fs', Inr w)"
proof -
  let ?o = "mtls_withDefaults zero_MTLSOptions"
  have o: "\<not> mo_IncludeSampleClients ?o" "\<not> mo_Force ?o" by (simp_all add: mtls_withDefaults_def zero_MTLSOptions_def)
  have "\<exists>x. new_ca demo_pki ?o = Inr x"
    by (simp add: new_ca_def wrap_err_def demo_pki_def ca_template_def demo_x5_def)
  then obtain x where ca: "new_ca demo_pki ?o = Inr x" by blast
  have "succeeds (issue_all demo_pki ?o)"
    unfolding issue_all_def Let_def ca case_prod_beta using o
    by (auto intro!: succeeds_and_then demo_pair demo_issue simp: server_template_def admin_template_def client_cert_template_def)
  moreover have "fr_MkdirAll (pk_fr demo_pki) d = None" for d by (simp add: demo_parts demo_rules_def)
  moreover have "find (\<lambda>name. file_exists [] (filepath_Join [d, name])) ns = None" for d ns
    by (simp add: find_None_iff file_exists_def)
  ultimately show ?thesis unfolding GenerateMTLS_def Let_def issue_all_def succeeds_def using o by simp
qed

theorem generated_pki_usable_witness:
  "\<exists>fs' w c key. GenerateMTLS demo_pki zero_MTLSOptions [] = (fs', Inr w)
     \<and> loadCAFromFiles demo_x5 (read_from demo_rules fs') (filepath_Join [''/etc/luna/certs'', ''ca.crt''])
         (filepath_Join [''/etc/luna/certs'', ''ca.key'']) = Inr (c, key)"
proof -
  obtain fs' w where g: "GenerateMTLS demo_pki zero_MTLSOptions [] = (fs', Inr w)" using demo_pki_run by blast
  have abs: "IsAbs (mo_Dir (mtls_withDefaults zero_MTLSOptions))" unfolding demo_dir by (simp add: IsAbs_def HasPrefix_def)
  have clean: "\<forall>b \<in> cert_bases. no_leftovers [] (mo_Dir (mtls_withDefaults zero_MTLSOptions)) b" by (simp add: no_leftovers_def)
  have ok: "\<forall>p. fr_ReadFile (pk_fr demo_pki) p = None" by (simp add: demo_parts demo_rules_def)
  have x5: "pk_x5 demo_pki = demo_x5" by (simp add: demo_pki_def)
  from generated_pki_usable [OF demo_pki_told g refl abs clean ok] g show ?thesis
    unfolding demo_dir demo_parts x5 by blast
qed

theorem setup_keeps_files_witness:
  "map_of (fst (GenerateMTLS demo_pki zero_MTLSOptions [(''/etc/luna/certs/ca.crt'', \<lparr>fi_data = ''old'', fi_mode = mode_0644\<rparr>)]))
     ''/etc/luna/certs/ca.crt'' = Some \<lparr>fi_data = ''old'', fi_mode = mode_0644\<rparr>"
proof -
  let ?p = "''/etc/luna/certs/ca.crt''" and ?f = "\<lparr>fi_data = ''old'', fi_mode = mode_0644\<rparr>"
  obtain fs' r where g: "GenerateMTLS demo_pki zero_MTLSOptions [(?p, ?f)] = (fs', r)" by fastforce
  have tmp: "\<forall>n \<in> set (mtls_outputs zero_MTLSOptions). ?p \<noteq> filepath_Join [mo_Dir (mtls_withDefaults zero_MTLSOptions), n] @ ''.tmp''"
    unfolding demo_dir by code_simp
  have "map_of fs' ?p = Some ?f"
    by (rule setup_keeps_files [OF _ g _ tmp]) (simp_all add: zero_MTLSOptions_def)
  with g show ?thesis by simp
qed

end
