(* ===== verification/Setup.thy ===== *)
theory Setup
  imports Setup_PKI Sdk "HOL-Library.Char_ord" "HOL-Library.List_Lexorder"
begin

text \<open>
  Setting up a proxy: the options and their checks (\<open>setup/options.go\<close>), the questions of the wizard
  (\<open>setup/prompter.go\<close>, \<open>setup/interactive.go\<close>), the configuration file (\<open>setup/proxy_config.go\<close>), the
  service (\<open>install/systemd.go\<close>, \<open>install/user_linux.go\<close>, \<open>install/proxy_config.go\<close>) and the whole
  (\<open>setup/run.go\<close>, \<open>cmd/luna-proxy/setup.go\<close>). What is printed on the terminal is left out.
\<close>

section \<open>The host\<close>

text \<open>The files, the users and groups with their numbers as the system prints them, and the calls of
  \<open>systemctl\<close> that were made. What the system refuses, the numbers it gives to new users and groups,
  and the owners of files are parameters.\<close>

record host =
  ho_files :: files
  ho_users :: "(string, string) gomap"
  ho_groups :: "(string, string) gomap"
  ho_systemctl :: "string list list"

record host_env =
  he_pk :: pki_lib
  he_os :: os_env
  he_euid :: int
  he_rand :: "bytes result"
  he_useradd :: "string \<Rightarrow> (go_error \<times> bytes) + string"
  he_groupadd :: "string \<Rightarrow> (go_error \<times> bytes) + string"
  he_systemctl :: "string list \<Rightarrow> go_error option"
  he_Chown :: "string \<Rightarrow> int \<Rightarrow> int \<Rightarrow> go_error option"
  he_Chmod :: "string \<Rightarrow> nat \<Rightarrow> go_error option"
  he_Uid :: "string \<Rightarrow> int"

type_synonym 'a host_step = "host \<Rightarrow> host \<times> 'a result"

definition on_files :: "'a fs_step \<Rightarrow> 'a host_step" where
  "on_files m h = (case m (ho_files h) of (fs, r) \<Rightarrow> (h\<lparr>ho_files := fs\<rparr>, r))"

definition check :: "go_error option \<Rightarrow> 's \<Rightarrow> 's \<times> unit result" where
  "check e s = (s, case e of Some err \<Rightarrow> Inl err | None \<Rightarrow> Inr ())"

definition wrap_opt :: "string \<Rightarrow> go_error option \<Rightarrow> go_error option" where
  "wrap_opt what e = (case e of Some err \<Rightarrow> Some (Wrapf what err '''') | None \<Rightarrow> None)"

definition HasSuffix :: "string \<Rightarrow> string \<Rightarrow> bool" where
  "HasSuffix s suf \<longleftrightarrow> length suf \<le> length s \<and> drop (length s - length suf) s = suf"

text \<open>\<open>fmt.Sscanf(s, "%d", &n)\<close> of a text that does not begin with a space: what follows the number is
  not looked at.\<close>

definition Sscanf_d :: "string \<Rightarrow> int option" where
  "Sscanf_d s =
     (let sign = takeWhile (\<lambda>c. c = CHR ''+'' \<or> c = CHR ''-'') (take 1 s); digits = takeWhile is_digit (drop (length sign) s)
      in if digits = [] then None else ParseInt (sign @ digits))"

section \<open>Options\<close>

definition envProduction :: string where "envProduction = ''production''"
definition envDev :: string where "envDev = ''dev''"

record Options =
  op_Env :: string
  op_Hostname :: string
  op_ListenAddr :: string
  op_SignerMode :: string
  op_KeyPath :: string
  op_TelegramBotToken :: string
  op_TelegramWebhookSecret :: string
  op_TelegramChatID :: string
  op_CertsDir :: string
  op_ConfigPath :: string
  op_EnrollToken :: string
  op_IncludeLocalhostSAN :: bool
  op_SkipSampleClients :: bool
  op_Force :: bool
  op_RewriteConfig :: bool
  op_InstallSystemd :: bool
  op_SystemdEnable :: bool
  op_SkipUserCreate :: bool

definition zero_Options :: Options where
  "zero_Options = \<lparr>op_Env = [], op_Hostname = [], op_ListenAddr = [], op_SignerMode = [], op_KeyPath = [], op_TelegramBotToken = [],
     op_TelegramWebhookSecret = [], op_TelegramChatID = [], op_CertsDir = [], op_ConfigPath = [], op_EnrollToken = [],
     op_IncludeLocalhostSAN = False, op_SkipSampleClients = False, op_Force = False, op_RewriteConfig = False,
     op_InstallSystemd = False, op_SystemdEnable = False, op_SkipUserCreate = False\<rparr>"

definition cut_at :: "char \<Rightarrow> string \<Rightarrow> string" where
  "cut_at c s = takeWhile (\<lambda>x. x \<noteq> c) s"

definition NormalizeHostname :: "string \<Rightarrow> string" where
  "NormalizeHostname s =
     TrimSpace (cut_at CHR '':'' (cut_at CHR ''/'' (TrimPrefix (TrimPrefix (TrimSpace s) ''https://'') ''http://'')))"

definition defaultKeyPath :: "string \<Rightarrow> string" where
  "defaultKeyPath mode =
     (if mode = ''local-key'' then ''/etc/luna/ssh/encrypted_host.key'' else ''/etc/luna/ssh/encrypted_ca.key'')"

definition defaultUserConfigDir :: "os_env \<Rightarrow> string" where
  "defaultUserConfigDir os =
     (case os_UserConfigDir os of
        Inr dir \<Rightarrow> dir @ ''/luna''
      | Inl _ \<Rightarrow> (case os_UserHomeDir os of Inr home \<Rightarrow> home | Inl _ \<Rightarrow> []) @ ''/.config/luna'')"

definition defaultUserCertsDir :: "os_env \<Rightarrow> string" where
  "defaultUserCertsDir os = defaultUserConfigDir os @ ''/certs''"

definition defaultUserProxyConfigPath :: "os_env \<Rightarrow> string" where
  "defaultUserProxyConfigPath os = defaultUserConfigDir os @ ''/proxy.yml''"

definition defaultPublicProxyURL :: "string \<Rightarrow> string \<Rightarrow> string" where
  "defaultPublicProxyURL hostname listenAddr =
     ''https://'' @ hostname @ '':'' @ (if HasPrefix listenAddr '':'' then TrimPrefix listenAddr '':'' else ''8443'')"

definition options_withDefaults :: "host_env \<Rightarrow> Options \<Rightarrow> Options" where
  "options_withDefaults he o1 =
     (let mode = or_default (op_SignerMode o1) ''local-ca''
      in o1\<lparr>op_Env := or_default (op_Env o1) envProduction, op_ListenAddr := or_default (op_ListenAddr o1) '':8443'',
           op_SignerMode := mode,
           op_CertsDir := TrimSpace (or_default (op_CertsDir o1)
              (if he_euid he = 0 then DefaultCertsDir else defaultUserCertsDir (he_os he))),
           op_ConfigPath := TrimSpace (or_default (op_ConfigPath o1)
              (if he_euid he = 0 then DefaultProxyConfigPath else defaultUserProxyConfigPath (he_os he))),
           op_KeyPath := or_default (op_KeyPath o1) (defaultKeyPath mode),
           op_Hostname := NormalizeHostname (op_Hostname o1)\<rparr>)"

definition options_Validate :: "host_env \<Rightarrow> Options \<Rightarrow> go_error option" where
  "options_Validate he o0 =
     (let o1 = options_withDefaults he o0
      in if op_Hostname o1 = [] then Some (Errorf ''hostname is required (used for mTLS server certificate DNS name)'')
         else if op_Env o1 \<noteq> envDev \<and> TrimSpace (op_TelegramBotToken o1) = []
         then Some (Errorf ''telegram_bot_token is required in production (or choose env=dev for lab only)'')
         else if op_Env o1 \<noteq> envDev \<and> TrimSpace (op_TelegramChatID o1) = []
         then Some (Errorf ''telegram_chat_id is required in production'')
         else if op_SignerMode o1 \<noteq> ''local-ca'' \<and> op_SignerMode o1 \<noteq> ''local-key''
         then Some (Errorf ''signer_mode must be local-ca or local-key'')
         else None)"


section \<open>Questions\<close>

text \<open>The state is what has not been read of the input; a question is asked again until the answer can
  be used. The input of a terminal ends with the end of the process, here it is finite.\<close>

definition io_EOF :: go_error where
  "io_EOF = Errorf ''EOF''"

definition readLine :: "bytes \<Rightarrow> bytes \<times> string result" where
  "readLine input =
     (if CHR 0x0A \<in> set input
      then (drop 1 (dropWhile (\<lambda>c. c \<noteq> CHR 0x0A) input), Inr (takeWhile (\<lambda>c. c \<noteq> CHR 0x0A) input))
      else ([], Inl io_EOF))"

lemma readLine_shorter: "readLine input = (rest, Inr line) \<Longrightarrow> length rest < length input"
proof -
  assume r: "readLine input = (rest, Inr line)"
  then have "CHR 0x0A \<in> set input" "rest = drop 1 (dropWhile (\<lambda>c. c \<noteq> CHR 0x0A) input)"
    by (auto simp: readLine_def split: if_splits)
  then have "dropWhile (\<lambda>c. c \<noteq> CHR 0x0A) input \<noteq> []" "rest = tl (dropWhile (\<lambda>c. c \<noteq> CHR 0x0A) input)"
    by (auto simp: dropWhile_eq_Nil_conv drop_Suc)
  then have "length rest < length (dropWhile (\<lambda>c. c \<noteq> CHR 0x0A) input)" by simp
  also have "\<dots> \<le> length input" by (rule length_dropWhile_le)
  finally show ?thesis .
qed

function askString :: "string \<Rightarrow> bytes \<Rightarrow> bytes \<times> string result" where
  "askString defaultVal input =
     (case readLine input of
        (rest, Inl err) \<Rightarrow> (rest, Inl err)
      | (rest, Inr line) \<Rightarrow>
          if TrimSpace line = [] then if defaultVal \<noteq> [] then (rest, Inr defaultVal) else askString defaultVal rest
          else (rest, Inr (TrimSpace line)))"
  by pat_completeness auto
termination
  by (relation "measure (\<lambda>(_, input). length input)") (auto dest: readLine_shorter [OF sym])

function askYesNo :: "bool \<Rightarrow> bytes \<Rightarrow> bytes \<times> bool result" where
  "askYesNo defaultYes input =
     (case readLine input of
        (rest, Inl err) \<Rightarrow> (rest, Inl err)
      | (rest, Inr line0) \<Rightarrow>
          (let line = TrimSpace (ToLower_ascii line0)
           in if line = [] then (rest, Inr defaultYes)
              else if line = ''y'' \<or> line = ''yes'' then (rest, Inr True)
              else if line = ''n'' \<or> line = ''no'' then (rest, Inr False)
              else askYesNo defaultYes rest))"
  by pat_completeness auto
termination
  by (relation "measure (\<lambda>(_, input). length input)") (auto dest: readLine_shorter [OF sym])

function askChoice :: "string list \<Rightarrow> nat \<Rightarrow> bytes \<Rightarrow> bytes \<times> string result" where
  "askChoice choices defaultIdx input =
     (case readLine input of
        (rest, Inl err) \<Rightarrow> (rest, Inl err)
      | (rest, Inr line0) \<Rightarrow>
          (let line = or_default (TrimSpace line0) (FormatInt (int defaultIdx + 1))
           in case ParseInt line of
                None \<Rightarrow> askChoice choices defaultIdx rest
              | Some n \<Rightarrow>
                  if n < 1 \<or> int (length choices) < n then askChoice choices defaultIdx rest
                  else (rest, Inr (choices ! nat (n - 1)))))"
  by pat_completeness auto
termination
  by (relation "measure (\<lambda>(_, _, input). length input)") (auto dest: readLine_shorter [OF sym])

declare askString.simps [simp del] askYesNo.simps [simp del] askChoice.simps [simp del]

fun firstNonEmpty :: "string list \<Rightarrow> string" where
  "firstNonEmpty [] = []"
| "firstNonEmpty (v # vals) = (if TrimSpace v \<noteq> [] then TrimSpace v else firstNonEmpty vals)"

section \<open>The wizard\<close>

definition configDefaultPath :: "host_env \<Rightarrow> string" where
  "configDefaultPath he = (if he_euid he = 0 then ''/etc/luna/proxy.yml'' else defaultUserProxyConfigPath (he_os he))"

definition loadExistingProxyConfig :: "host_env \<Rightarrow> 'v viper_lib \<Rightarrow> files \<Rightarrow> string \<Rightarrow> Options" where
  "loadExistingProxyConfig he vl fs path0 =
     (let path = or_default path0 (configDefaultPath he)
      in if \<not> file_exists fs path then zero_Options
         else case vl_ReadInConfig vl path (vl_New vl) of
                Inl _ \<Rightarrow> zero_Options
              | Inr v \<Rightarrow>
                  zero_Options\<lparr>op_Env := vl_GetString vl ''env'' v, op_ListenAddr := vl_GetString vl ''listen_addr'' v,
                    op_SignerMode := vl_GetString vl ''signer_mode'' v, op_KeyPath := vl_GetString vl ''key_path'' v,
                    op_TelegramBotToken := vl_GetString vl ''telegram_bot_token'' v,
                    op_TelegramWebhookSecret := vl_GetString vl ''telegram_webhook_secret'' v,
                    op_TelegramChatID := vl_GetString vl ''telegram_chat_id'' v, op_ConfigPath := path,
                    op_EnrollToken := vl_GetString vl ''mtls_enroll_token'' v\<rparr>)"

definition envChoiceIndex :: "string \<Rightarrow> nat" where
  "envChoiceIndex env = (if env = envDev then 1 else 0)"

definition signerChoiceIndex :: "string \<Rightarrow> nat" where
  "signerChoiceIndex mode = (if mode = ''local-key'' then 1 else 0)"

text \<open>The questions about the service, and the last one.\<close>

definition ask_service :: "host_env \<Rightarrow> bool \<Rightarrow> files \<Rightarrow> Options \<Rightarrow> bytes \<Rightarrow> bytes \<times> Options result" where
  "ask_service he assumeYes fs o1 =
     (if he_euid he \<noteq> 0 then lift_result (Inr o1)
      else and_then (askYesNo (assumeYes \<or> \<not> file_exists fs (op_ConfigPath o1))) (\<lambda>inst.
           if \<not> inst then lift_result (Inr (o1\<lparr>op_InstallSystemd := False\<rparr>))
           else and_then (askYesNo True) (\<lambda>enable. lift_result (Inr (o1\<lparr>op_InstallSystemd := True, op_SystemdEnable := enable\<rparr>)))))"

definition ask_proceed :: "bool \<Rightarrow> Options \<Rightarrow> bytes \<Rightarrow> bytes \<times> Options result" where
  "ask_proceed assumeYes o1 =
     (if assumeYes then lift_result (Inr o1)
      else and_then (askYesNo True) (\<lambda>ok. lift_result (if ok then Inr o1 else Inl (Errorf ''setup cancelled''))))"

definition RunInteractive :: "host_env \<Rightarrow> 'v viper_lib \<Rightarrow> files \<Rightarrow> Options \<Rightarrow> bool \<Rightarrow> bytes \<Rightarrow> bytes \<times> Options result" where
  "RunInteractive he vl fs prefill assumeYes =
     (let o0 = options_withDefaults he prefill; ex = loadExistingProxyConfig he vl fs (op_ConfigPath o0)
      in and_then (askChoice [envProduction, envDev] (envChoiceIndex (firstNonEmpty [op_Env o0, op_Env ex, envProduction]))) (\<lambda>env.
         and_then (askString (firstNonEmpty [op_Hostname o0, op_Hostname ex])) (\<lambda>host0.
         let host = NormalizeHostname host0
         in if host = [] then lift_result (Inl (Errorf ''hostname is required'')) else
         and_then (askString (firstNonEmpty [op_ListenAddr o0, op_ListenAddr ex, '':8443''])) (\<lambda>listen.
         and_then (askChoice [''local-ca'', ''local-key'']
                     (signerChoiceIndex (firstNonEmpty [op_SignerMode o0, op_SignerMode ex, ''local-ca'']))) (\<lambda>signer.
         and_then (askString (firstNonEmpty [op_KeyPath o0, op_KeyPath ex, defaultKeyPath signer])) (\<lambda>keyPath.
         and_then (askString (firstNonEmpty [op_TelegramBotToken o0, op_TelegramBotToken ex])) (\<lambda>token.
         and_then (askString (firstNonEmpty [op_TelegramChatID o0, op_TelegramChatID ex])) (\<lambda>chat.
         and_then (askString (firstNonEmpty [op_CertsDir o0, op_CertsDir ex, op_CertsDir o0])) (\<lambda>certs0.
         and_then (askString (firstNonEmpty [op_ConfigPath o0, op_ConfigPath ex, op_ConfigPath o0])) (\<lambda>cfgPath.
         and_then (askYesNo True) (\<lambda>localhost.
         let certs = filepath_Clean certs0
         in and_then (ask_service he assumeYes fs
              (o0\<lparr>op_Env := env, op_Hostname := host, op_ListenAddr := listen, op_SignerMode := signer, op_KeyPath := keyPath,
                 op_TelegramBotToken := token, op_TelegramChatID := chat, op_CertsDir := certs, op_ConfigPath := cfgPath,
                 op_IncludeLocalhostSAN := localhost, op_SkipSampleClients := True\<rparr>)) (\<lambda>o1.
         let o2 = o1\<lparr>op_RewriteConfig := True,
                    op_Force := file_exists fs (filepath_Join [certs, ''ca.crt'']) \<or> file_exists fs cfgPath\<rparr>
         in case options_Validate he o2 of
              Some err \<Rightarrow> lift_result (Inl err)
            | None \<Rightarrow> ask_proceed assumeYes o2))))))))))))"


section \<open>The configuration file\<close>

definition ErrConfigExists :: go_error where
  "ErrConfigExists = Errorf ''proxy config already exists''"

record ProxyConfigOptions =
  po_Path :: string
  po_Force :: bool
  po_EnrollToken :: string
  po_Env :: string
  po_Hostname :: string
  po_ListenAddr :: string
  po_SignerMode :: string
  po_KeyPath :: string
  po_TelegramBotToken :: string
  po_TelegramWebhookSecret :: string
  po_TelegramChatID :: string
  po_ControlSocket :: string
  po_ControlSocketGroup :: string
  po_AdminClientOU :: string
  po_ApprovalTimeout :: string
  po_User :: string
  po_Group :: string

definition zero_ProxyConfigOptions :: ProxyConfigOptions where
  "zero_ProxyConfigOptions = \<lparr>po_Path = [], po_Force = False, po_EnrollToken = [], po_Env = [], po_Hostname = [], po_ListenAddr = [],
     po_SignerMode = [], po_KeyPath = [], po_TelegramBotToken = [], po_TelegramWebhookSecret = [], po_TelegramChatID = [],
     po_ControlSocket = [], po_ControlSocketGroup = [], po_AdminClientOU = [], po_ApprovalTimeout = [], po_User = [], po_Group = []\<rparr>"

record ProxyConfigResult =
  pr_Path :: string
  pr_EnrollToken :: string
  pr_Created :: bool

definition GenerateEnrollToken :: "host_env \<Rightarrow> string result" where
  "GenerateEnrollToken he =
     (case he_rand he of Inl err \<Rightarrow> Inl (Wrapf ''generate enroll token: '' err '''') | Inr b \<Rightarrow> Inr (hex_EncodeToString b))"

definition proxy_config_withDefaults :: "ProxyConfigOptions \<Rightarrow> ProxyConfigOptions" where
  "proxy_config_withDefaults o1 =
     (let mode = or_default (po_SignerMode o1) ''local-ca''
      in o1\<lparr>po_Path := filepath_Clean (if TrimSpace (po_Path o1) = [] then DefaultProxyConfigPath else po_Path o1),
           po_Env := or_default (po_Env o1) envProduction, po_ListenAddr := or_default (po_ListenAddr o1) '':8443'',
           po_SignerMode := mode, po_KeyPath := or_default (po_KeyPath o1) (defaultKeyPath mode),
           po_ControlSocket := or_default (po_ControlSocket o1) ProductionControlSocket,
           po_ControlSocketGroup := or_default (po_ControlSocketGroup o1) ''luna-admin'',
           po_AdminClientOU := or_default (po_AdminClientOU o1) ''luna-admin'',
           po_ApprovalTimeout := or_default (po_ApprovalTimeout o1) ''60s'',
           po_Group := (if po_Group o1 = [] \<and> po_User o1 \<noteq> [] then po_User o1 else po_Group o1)\<rparr>)"

definition yamlQuote :: "string \<Rightarrow> string" where
  "yamlQuote s = [CHR 0x22] @ concat (map (\<lambda>c. if c = CHR 0x22 then [CHR 0x5C, c] else [c]) s) @ [CHR 0x22]"

text \<open>A line of the file; the dash of the title is the character U+2014.\<close>

definition yaml_line :: "string \<Rightarrow> string" where
  "yaml_line s = s @ [CHR 0x0A]"

definition renderProxyConfig :: "string \<Rightarrow> ProxyConfigOptions \<Rightarrow> string" where
  "renderProxyConfig enrollToken opts =
     (let q = (\<lambda>key v. yaml_line (key @ '': '' @ strconv_Quote v)); gap = yaml_line []
      in yaml_line (''# Luna Z-Trust '' @ [CHR 0xE2, CHR 0x80, CHR 0x94] @ '' luna-proxy'') @
         yaml_line ''# Generated by luna-proxy setup'' @
         (if po_Hostname opts \<noteq> []
          then yaml_line (''# Public hostname: '' @ po_Hostname opts @ '' (mTLS server certificate SAN)'') @
               yaml_line (''# Agent proxy_url: '' @ defaultPublicProxyURL (po_Hostname opts) (po_ListenAddr opts))
          else []) @
         yaml_line ''#'' @
         yaml_line (''# Agent bootstrap: export LUNA_MTLS_ENROLL_TOKEN='' @ [CHR 0x27] @ enrollToken @ [CHR 0x27]) @ gap @
         q ''env'' (po_Env opts) @ gap @
         q ''listen_addr'' (po_ListenAddr opts) @ q ''control_socket'' (po_ControlSocket opts) @
         q ''control_socket_group'' (po_ControlSocketGroup opts) @ gap @
         q ''signer_mode'' (po_SignerMode opts) @ q ''key_path'' (po_KeyPath opts) @ q ''admin_client_ou'' (po_AdminClientOU opts) @
         yaml_line (''approval_timeout: '' @ po_ApprovalTimeout opts) @ gap @
         yaml_line (''telegram_bot_token: '' @ yamlQuote (po_TelegramBotToken opts)) @
         yaml_line (''telegram_chat_id: '' @ yamlQuote (po_TelegramChatID opts)) @ gap @
         yaml_line (''mtls_enroll_token: '' @ yamlQuote enrollToken) @ gap @
         yaml_line ''# mTLS cert paths default to /etc/luna/certs/ after setup (override if --dir differs):'' @
         concat (map (\<lambda>(k, f). yaml_line (''# '' @ k @ '': '' @ DefaultCertsDir @ ''/'' @ f))
           [(''mtls_server_cert'', ''server.crt''), (''mtls_server_key'', ''server.key''), (''mtls_client_ca'', ''ca.crt''),
            (''mtls_ca_cert_path'', ''ca.crt''), (''mtls_ca_key_path'', ''ca.key'')]))"

definition chownProxyConfig :: "host_env \<Rightarrow> string \<Rightarrow> string \<Rightarrow> string \<Rightarrow> unit host_step" where
  "chownProxyConfig he path username group1 h =
     (case (map_of (ho_users h) username, map_of (ho_groups h) group1) of
        (Some u, Some g) \<Rightarrow>
          (case (Sscanf_d u, Sscanf_d g) of
             (Some uid, Some gid) \<Rightarrow> check (wrap_opt (''chown '' @ path @ '': '') (he_Chown he path uid gid)) h
           | _ \<Rightarrow> (h, Inr ()))
      | _ \<Rightarrow> (h, Inr ()))"

definition WriteProxyConfig :: "host_env \<Rightarrow> ProxyConfigOptions \<Rightarrow> ProxyConfigResult host_step" where
  "WriteProxyConfig he opts0 h =
     (let opts = proxy_config_withDefaults opts0; path = po_Path opts; fr = pk_fr (he_pk he)
      in if \<not> po_Force opts \<and> file_exists (ho_files h) path then (h, Inl (Wrapf [] ErrConfigExists ('': '' @ path)))
         else and_then (lift_result (if TrimSpace (po_EnrollToken opts) = [] then GenerateEnrollToken he
                                     else Inr (TrimSpace (po_EnrollToken opts)))) (\<lambda>token.
              and_then (check (wrap_opt (''mkdir '' @ filepath_Dir path @ '': '') (fr_MkdirAll fr (filepath_Dir path)))) (\<lambda>_.
              and_then (on_files (writeFileAtomic fr path (renderProxyConfig token opts) mode_0600)) (\<lambda>_.
              and_then (if po_User opts \<noteq> [] then chownProxyConfig he path (po_User opts) (po_Group opts) else lift_result (Inr ())) (\<lambda>_.
              lift_result (Inr \<lparr>pr_Path = path, pr_EnrollToken = token, pr_Created = True\<rparr>))))) h)"


section \<open>The service\<close>

record SystemdOptions =
  sy_BinaryPath :: string
  sy_ConfigPath :: string
  sy_User :: string
  sy_Group :: string
  sy_UnitPath :: string
  sy_CertsDir :: string
  sy_DryRun :: bool
  sy_Enable :: bool
  sy_SkipUserCreate :: bool

definition proxyUnitName :: string where
  "proxyUnitName = ''luna-proxy.service''"

definition DefaultProxySystemdOptions :: SystemdOptions where
  "DefaultProxySystemdOptions =
     \<lparr>sy_BinaryPath = ''/usr/local/bin/luna-proxy'', sy_ConfigPath = ''/etc/luna/proxy.yml'', sy_User = ''luna'', sy_Group = ''luna'',
      sy_UnitPath = filepath_Join [''/etc/systemd/system'', proxyUnitName], sy_CertsDir = [], sy_DryRun = False, sy_Enable = False,
      sy_SkipUserCreate = False\<rparr>"

definition systemd_withDefaults :: "SystemdOptions \<Rightarrow> SystemdOptions" where
  "systemd_withDefaults o1 =
     (let d = DefaultProxySystemdOptions
      in o1\<lparr>sy_BinaryPath := or_default (sy_BinaryPath o1) (sy_BinaryPath d), sy_ConfigPath := or_default (sy_ConfigPath o1) (sy_ConfigPath d),
           sy_User := or_default (sy_User o1) (sy_User d), sy_Group := or_default (sy_Group o1) (sy_Group d),
           sy_UnitPath := or_default (sy_UnitPath o1) (sy_UnitPath d)\<rparr>)"

definition RenderProxyUnit :: "SystemdOptions \<Rightarrow> string" where
  "RenderProxyUnit opts0 =
     (let opts = systemd_withDefaults opts0
      in concat (map yaml_line
        [''[Unit]'', ''Description=Luna Z-Trust central proxy (mTLS API and control socket)'',
         ''Documentation=https://github.com/ba0f3/luna-ztrust/blob/main/docs/deploy.md'', ''After=network-online.target'',
         ''Wants=network-online.target'', [], ''[Service]'', ''Type=simple'', ''User='' @ sy_User opts, ''Group='' @ sy_Group opts,
         ''ExecStart='' @ sy_BinaryPath opts @ '' serve'', ''Restart=on-failure'', ''RestartSec=5'', ''RuntimeDirectory=luna'',
         ''RuntimeDirectoryMode=0750'', ''# Set control_socket: /run/luna/control.sock in proxy.yml (matches RuntimeDirectory).'', [],
         ''[Install]'', ''WantedBy=multi-user.target'']))"

definition lookupGID :: "string \<Rightarrow> host \<Rightarrow> int" where
  "lookupGID group1 h =
     (case map_of (ho_groups h) group1 of None \<Rightarrow> - 1 | Some g \<Rightarrow> (case Sscanf_d g of None \<Rightarrow> - 1 | Some gid \<Rightarrow> gid))"

text \<open>A command that fails gives its error and what it has printed.\<close>

definition trimOutput :: "bytes \<Rightarrow> string" where
  "trimOutput b = TrimSpace b"

definition ensureGroup :: "host_env \<Rightarrow> string \<Rightarrow> unit host_step" where
  "ensureGroup he group1 h =
     (if 0 \<le> lookupGID group1 h then (h, Inr ())
      else case he_groupadd he group1 of
             Inl (err, out) \<Rightarrow> (h, Inl (Wrapf (''groupadd '' @ group1 @ '': '') err ('' ('' @ trimOutput out @ '')'')))
           | Inr gid \<Rightarrow> (h\<lparr>ho_groups := map_put group1 gid (ho_groups h)\<rparr>, Inr ()))"

definition EnsureServiceUser :: "host_env \<Rightarrow> string \<Rightarrow> string \<Rightarrow> unit host_step" where
  "EnsureServiceUser he username group0 =
     (if username = [] then lift_result (Inl (Errorf ''service user name required''))
      else and_then (ensureGroup he (or_default group0 username)) (\<lambda>_ h.
             case map_of (ho_users h) username of
               Some _ \<Rightarrow> (h, Inr ())
             | None \<Rightarrow>
                 (case he_useradd he username of
                    Inl (err, out) \<Rightarrow> (h, Inl (Wrapf (''useradd '' @ username @ '': '') err ('' ('' @ trimOutput out @ '')'')))
                  | Inr uid \<Rightarrow> (h\<lparr>ho_users := map_put username uid (ho_users h)\<rparr>, Inr ()))))"

fun make_dirs :: "host_env \<Rightarrow> int \<Rightarrow> string list \<Rightarrow> go_error option" where
  "make_dirs he gid [] = None"
| "make_dirs he gid (dir # dirs) =
     (case fr_MkdirAll (pk_fr (he_pk he)) dir of
        Some err \<Rightarrow> Some (Wrapf (''mkdir '' @ dir @ '': '') err '''')
      | None \<Rightarrow>
          (case (if 0 \<le> gid then wrap_opt (''chown '' @ dir @ '': '') (he_Chown he dir 0 gid) else None) of
             Some err \<Rightarrow> Some err
           | None \<Rightarrow> make_dirs he gid dirs))"

definition EnsureLunaDirs :: "host_env \<Rightarrow> string \<Rightarrow> string \<Rightarrow> unit host_step" where
  "EnsureLunaDirs he username group1 h =
     check (make_dirs he (lookupGID group1 h)
       [''/etc/luna'', ''/etc/luna/certs'', ''/etc/luna/ssh'', filepath_Join [''/var/lib'', username]]) h"

text \<open>The files directly in a directory, in the order in which \<open>os.ReadDir\<close> returns them; a directory
  that does not exist has none.\<close>

definition dir_entries :: "files \<Rightarrow> string \<Rightarrow> string list" where
  "dir_entries fs dir = sort (map filepath_Base (filter (\<lambda>p. filepath_Dir p = filepath_Clean dir) (map fst fs)))"

definition mode_0640 :: nat where "mode_0640 = 6 * 64 + 4 * 8"

definition cert_mode :: "string \<Rightarrow> nat option" where
  "cert_mode name =
     (if name = ''server.key'' \<or> name = ''ca.key'' then Some mode_0640
      else if name = ''admin-client.key'' \<or> name = ''client.key'' then Some mode_0600
      else if HasSuffix name ''.key'' then Some mode_0600
      else if HasSuffix name ''.crt'' then Some mode_0644
      else None)"

definition os_Chmod :: "host_env \<Rightarrow> string \<Rightarrow> nat \<Rightarrow> unit fs_step" where
  "os_Chmod he path mode fs =
     (case he_Chmod he path mode of
        Some err \<Rightarrow> (fs, Inl err)
      | None \<Rightarrow>
          (case map_of fs path of
             None \<Rightarrow> (fs, Inl (no_such_file path))
           | Some f \<Rightarrow> (map_put path (f\<lparr>fi_mode := mode\<rparr>) fs, Inr ())))"

fun permit_files :: "host_env \<Rightarrow> string \<Rightarrow> int \<Rightarrow> string list \<Rightarrow> unit fs_step" where
  "permit_files he dir gid [] = lift_result (Inr ())"
| "permit_files he dir gid (name # names) =
     (let path = filepath_Join [dir, name]
      in and_then (check (wrap_opt (''chown '' @ path @ '': '') (he_Chown he path (he_Uid he path) gid))) (\<lambda>_.
         and_then (case cert_mode name of None \<Rightarrow> lift_result (Inr ()) | Some mode \<Rightarrow> os_Chmod he path mode) (\<lambda>_.
         permit_files he dir gid names)))"

definition EnsureCertPermissions :: "host_env \<Rightarrow> string \<Rightarrow> string \<Rightarrow> unit host_step" where
  "EnsureCertPermissions he dir group1 h =
     (let gid = lookupGID group1 h
      in if gid < 0 then (h, Inl (Errorf (''group '' @ strconv_Quote group1 @ '' not found'')))
         else on_files (permit_files he dir gid (dir_entries (ho_files h) dir)) h)"

definition EnsureDefaultProxyConfig :: "string \<Rightarrow> unit host_step" where
  "EnsureDefaultProxyConfig path0 h =
     (let path = or_default path0 DefaultProxyConfigPath
      in if file_exists (ho_files h) path then (h, Inr ())
         else (h, Inl (Errorf (''missing '' @ path @ '' '' @ [CHR 0xE2, CHR 0x80, CHR 0x94] @ '' run: sudo luna-proxy setup''))))"

definition no_such_user :: "string \<Rightarrow> go_error" where
  "no_such_user u = Errorf (''systemd user '' @ strconv_Quote u @ '' does not exist (create with: useradd --system --home-dir /var/lib/'' @
     u @ '' --shell /usr/sbin/nologin --gid '' @ u @ '' '' @ u @ '', or re-run without --skip-user-create)'')"

definition prepareServiceUser :: "host_env \<Rightarrow> SystemdOptions \<Rightarrow> unit host_step" where
  "prepareServiceUser he opts =
     and_then (\<lambda>h.
       case map_of (ho_users h) (sy_User opts) of
         Some _ \<Rightarrow> (h, Inr ())
       | None \<Rightarrow>
           if sy_SkipUserCreate opts then (h, Inl (no_such_user (sy_User opts)))
           else EnsureServiceUser he (sy_User opts) (sy_Group opts) h) (\<lambda>_.
     and_then (EnsureLunaDirs he (sy_User opts) (sy_Group opts)) (\<lambda>_.
     and_then (\<lambda>h. let (h', r) = EnsureCertPermissions he (or_default (sy_CertsDir opts) DefaultCertsDir) (sy_Group opts) h
                    in (h', wrap_err ''cert permissions: '' r)) (\<lambda>_.
     EnsureDefaultProxyConfig (sy_ConfigPath opts))))"

definition runSystemctl :: "host_env \<Rightarrow> string list \<Rightarrow> unit host_step" where
  "runSystemctl he args h =
     check (wrap_opt (''systemctl '' @ hd args @ '': '') (he_systemctl he args)) (h\<lparr>ho_systemctl := ho_systemctl h @ [args]\<rparr>)"

definition InstallProxySystemd :: "host_env \<Rightarrow> SystemdOptions \<Rightarrow> unit host_step" where
  "InstallProxySystemd he opts0 =
     (let opts = systemd_withDefaults opts0; fr = pk_fr (he_pk he); body = RenderProxyUnit opts
      in if sy_DryRun opts then lift_result (Inr ())
         else if he_euid he \<noteq> 0 then lift_result (Inl (Errorf ''install systemd: must run as root (e.g. sudo luna-proxy install systemd)''))
         else and_then (prepareServiceUser he opts) (\<lambda>_.
              and_then (check (wrap_opt ''create unit directory: '' (fr_MkdirAll fr (filepath_Dir (sy_UnitPath opts))))) (\<lambda>_.
              and_then (on_files (\<lambda>fs. case os_WriteFile fr (sy_UnitPath opts) body mode_0644 fs of
                          (fs', e) \<Rightarrow> check (wrap_opt (''write '' @ sy_UnitPath opts @ '': '') e) fs')) (\<lambda>_.
              if sy_Enable opts
              then and_then (runSystemctl he [''daemon-reload'']) (\<lambda>_. runSystemctl he [''enable'', ''--now'', proxyUnitName])
              else lift_result (Inr ())))))"

section \<open>The whole\<close>

record setup_Result =
  sr_CertsDir :: string
  sr_ConfigPath :: string
  sr_EnrollToken :: string
  sr_Hostname :: string

definition wrapped :: "string \<Rightarrow> ('s \<Rightarrow> 's \<times> 'a result) \<Rightarrow> 's \<Rightarrow> 's \<times> 'a result" where
  "wrapped what m s = (case m s of (s', r) \<Rightarrow> (s', wrap_err what r))"

definition install_service :: "host_env \<Rightarrow> Options \<Rightarrow> unit host_step" where
  "install_service he opts =
     (if \<not> op_InstallSystemd opts then lift_result (Inr ())
      else if he_euid he \<noteq> 0 then lift_result (Inl (Errorf ''install systemd: must run as root (sudo luna-proxy setup)''))
      else and_then (EnsureCertPermissions he (op_CertsDir opts) ''luna'') (\<lambda>_.
           InstallProxySystemd he
             \<lparr>sy_BinaryPath = [], sy_ConfigPath = op_ConfigPath opts, sy_User = [], sy_Group = [], sy_UnitPath = [],
              sy_CertsDir = op_CertsDir opts, sy_DryRun = False, sy_Enable = op_SystemdEnable opts,
              sy_SkipUserCreate = op_SkipUserCreate opts\<rparr>))"

definition setup_Run :: "host_env \<Rightarrow> Options \<Rightarrow> setup_Result host_step" where
  "setup_Run he opts0 =
     (let opts = options_withDefaults he opts0; force = op_Force opts \<or> op_RewriteConfig opts;
          sans = op_Hostname opts # (if op_IncludeLocalhostSAN opts then [''localhost''] else [])
      in and_then (check (options_Validate he opts)) (\<lambda>_.
         and_then (wrapped ''mTLS: '' (on_files (GenerateMTLS (he_pk he)
             (zero_MTLSOptions\<lparr>mo_Dir := op_CertsDir opts, mo_Force := force, mo_ServerCommonName := op_Hostname opts,
                mo_ServerDNSNames := sans, mo_IncludeSampleClients := \<not> op_SkipSampleClients opts\<rparr>)))) (\<lambda>_.
         and_then (wrapped ''proxy.yml: '' (WriteProxyConfig he
             (zero_ProxyConfigOptions\<lparr>po_Path := op_ConfigPath opts, po_Force := force, po_EnrollToken := op_EnrollToken opts,
                po_Env := op_Env opts, po_Hostname := op_Hostname opts, po_ListenAddr := op_ListenAddr opts,
                po_SignerMode := op_SignerMode opts, po_KeyPath := op_KeyPath opts, po_TelegramBotToken := op_TelegramBotToken opts,
                po_TelegramWebhookSecret := op_TelegramWebhookSecret opts, po_TelegramChatID := op_TelegramChatID opts,
                po_User := ''luna'', po_Group := ''luna''\<rparr>))) (\<lambda>cfgRes.
         and_then (install_service he opts) (\<lambda>_.
         lift_result (Inr \<lparr>sr_CertsDir = op_CertsDir opts, sr_ConfigPath = pr_Path cfgRes, sr_EnrollToken = pr_EnrollToken cfgRes,
                            sr_Hostname = op_Hostname opts\<rparr>))))))"


section \<open>Commands\<close>

text \<open>The flags are the variables they are bound to.\<close>

record setup_flags =
  sf_string :: "string \<Rightarrow> string"
  sf_bool :: "string \<Rightarrow> bool"
  sf_setupMTLSDNS :: "string list"
  sf_setupMTLSDays :: int

definition flagsToSetupOptions :: "setup_flags \<Rightarrow> Options" where
  "flagsToSetupOptions sf =
     zero_Options\<lparr>op_Env := sf_string sf ''setupEnv'', op_Hostname := sf_string sf ''setupHostname'', op_ListenAddr := sf_string sf ''setupListen'',
       op_SignerMode := sf_string sf ''setupSignerMode'', op_KeyPath := sf_string sf ''setupKeyPath'',
       op_TelegramBotToken := sf_string sf ''setupTelegramToken'', op_TelegramChatID := sf_string sf ''setupTelegramChat'',
       op_CertsDir := sf_string sf ''setupCertsDir'', op_ConfigPath := sf_string sf ''setupConfigPath'',
       op_EnrollToken := sf_string sf ''setupEnrollToken'', op_Force := sf_bool sf ''setupForce'',
       op_InstallSystemd := sf_bool sf ''setupInstallSystemd'', op_SystemdEnable := sf_bool sf ''setupSystemdEnable'',
       op_SkipUserCreate := sf_bool sf ''setupSkipUserCreate'', op_IncludeLocalhostSAN := True, op_SkipSampleClients := True\<rparr>"

definition validateSetupNonInteractive :: "host_env \<Rightarrow> Options \<Rightarrow> go_error option" where
  "validateSetupNonInteractive he opts =
     (if NormalizeHostname (op_Hostname opts) = [] then Some (Errorf ''--hostname is required in non-interactive mode'')
      else options_Validate he opts)"

definition chosen_options :: "host_env \<Rightarrow> 'v viper_lib \<Rightarrow> setup_flags \<Rightarrow> bool \<Rightarrow> bytes \<Rightarrow> files \<Rightarrow> Options result" where
  "chosen_options he vl sf isInteractive input fs =
     (let opts = flagsToSetupOptions sf
      in if \<not> sf_bool sf ''setupNonInteractive'' \<and> isInteractive
         then snd (RunInteractive he vl fs opts (sf_bool sf ''setupAssumeYes'') input)
         else case validateSetupNonInteractive he opts of Some err \<Rightarrow> Inl err | None \<Rightarrow> Inr opts)"

definition runSetupAll :: "host_env \<Rightarrow> 'v viper_lib \<Rightarrow> setup_flags \<Rightarrow> bool \<Rightarrow> bytes \<Rightarrow> setup_Result host_step" where
  "runSetupAll he vl sf isInteractive input h =
     (case chosen_options he vl sf isInteractive input (ho_files h) of
        Inl err \<Rightarrow> (h, Inl err)
      | Inr opts \<Rightarrow>
          if op_InstallSystemd opts \<and> he_euid he \<noteq> 0
          then (h, Inl (Errorf ''install systemd requires root (sudo luna-proxy setup)''))
          else setup_Run he opts h)"

definition defaultSetupDir :: "host_env \<Rightarrow> string" where
  "defaultSetupDir he =
     (if he_euid he = 0 then DefaultCertsDir
      else case os_UserHomeDir (he_os he) of Inl _ \<Rightarrow> ''./certs'' | Inr home \<Rightarrow> TrimSpace home @ ''/.config/luna/certs'')"

definition defaultProxyConfigPath :: "host_env \<Rightarrow> string" where
  "defaultProxyConfigPath he =
     (if he_euid he = 0 then DefaultProxyConfigPath
      else case os_UserHomeDir (he_os he) of Inl _ \<Rightarrow> ''./proxy.yml'' | Inr home \<Rightarrow> TrimSpace home @ ''/.config/luna/proxy.yml'')"

text \<open>\<open>%w\<close> with the advice to force, when the material exists.\<close>

definition advise_force :: "go_error \<Rightarrow> 'a result \<Rightarrow> 'a result" where
  "advise_force kind r =
     (case r of
        Inl err \<Rightarrow> Inl (if errors_Is err kind then Wrapf [] err ('' '' @ [CHR 0xE2, CHR 0x80, CHR 0x94] @ '' re-run with --force'') else err)
      | Inr x \<Rightarrow> Inr x)"

definition runSetupMTLS :: "host_env \<Rightarrow> setup_flags \<Rightarrow> (string list) host_step" where
  "runSetupMTLS he sf h =
     (if length (sf_setupMTLSDNS sf) = 0
      then (h, Inl (Errorf ''specify --san with your public hostname (localhost-only breaks remote agents)''))
      else case on_files (GenerateMTLS (he_pk he)
             \<lparr>mo_Dir = or_default (sf_string sf ''setupMTLSDir'') (defaultSetupDir he), mo_Force = sf_bool sf ''setupMTLSForce'',
              mo_CACommonName = sf_string sf ''setupMTLSCACN'', mo_Organization = sf_string sf ''setupMTLSOrg'',
              mo_ServerCommonName = sf_string sf ''setupMTLSServerCN'', mo_ServerDNSNames = sf_setupMTLSDNS sf,
              mo_AdminClientOU = sf_string sf ''setupMTLSAdminOU'', mo_ValidityDays = sf_setupMTLSDays sf,
              mo_IncludeSampleClients = \<not> sf_bool sf ''setupMTLSSkipSamples''\<rparr>) h of
             (h', r) \<Rightarrow> (h', advise_force ErrExists r))"

definition runSetupAdminClient :: "host_env \<Rightarrow> setup_flags \<Rightarrow> (string list) host_step" where
  "runSetupAdminClient he sf h =
     (case on_files (GenerateAdminClient (he_pk he)
             \<lparr>ao_Dir = or_default (sf_string sf ''setupMTLSDir'') (defaultSetupDir he), ao_Force = sf_bool sf ''setupMTLSForce'',
              ao_AdminClientOU = sf_string sf ''setupMTLSAdminOU'', ao_Organization = [], ao_ValidityDays = 0\<rparr>) h of
        (h', r) \<Rightarrow> (h', advise_force ErrExists r))"

definition runSetupConfigOnly :: "host_env \<Rightarrow> setup_flags \<Rightarrow> ProxyConfigResult host_step" where
  "runSetupConfigOnly he sf h =
     (case WriteProxyConfig he
             (zero_ProxyConfigOptions\<lparr>po_Path := or_default (sf_string sf ''setupConfigPath'') (defaultProxyConfigPath he),
                po_Force := sf_bool sf ''setupConfigForce'', po_EnrollToken := sf_string sf ''setupConfigToken'',
                po_ListenAddr := sf_string sf ''setupConfigListen'', po_SignerMode := sf_string sf ''setupConfigSigner'',
                po_Env := sf_string sf ''setupEnv'', po_Hostname := sf_string sf ''setupHostname''\<rparr>) h of
        (h', r) \<Rightarrow> (h', advise_force ErrConfigExists r))"

definition runInstallSystemd :: "host_env \<Rightarrow> setup_flags \<Rightarrow> unit host_step" where
  "runInstallSystemd he sf =
     InstallProxySystemd he
       \<lparr>sy_BinaryPath = sf_string sf ''installBinary'', sy_ConfigPath = sf_string sf ''installConfig'', sy_User = sf_string sf ''installUser'',
        sy_Group = sf_string sf ''installGroup'', sy_UnitPath = sf_string sf ''installUnit'', sy_CertsDir = [],
        sy_DryRun = sf_bool sf ''installDryRun'', sy_Enable = sf_bool sf ''installEnable'', sy_SkipUserCreate = sf_bool sf ''installSkipUser''\<rparr>"

text \<open>The unit does not say which configuration file was chosen: the service reads the usual ones.\<close>

lemma unit_ignores_config: "RenderProxyUnit (opts\<lparr>sy_ConfigPath := path\<rparr>) = RenderProxyUnit opts"
  by (simp add: RenderProxyUnit_def systemd_withDefaults_def Let_def)

section \<open>The answers of the wizard\<close>

lemma askChoice_member: "askChoice choices d input = (rest, Inr c) \<Longrightarrow> c \<in> set choices"
proof (induction choices d input arbitrary: rest c rule: askChoice.induct)
  case (1 choices d input)
  obtain r1 x where rl: "readLine input = (r1, x)" by fastforce
  note u = "1.prems" [unfolded askChoice.simps [of choices d input] rl prod.case]
  then obtain l0 where x: "x = Inr l0" by (cases x) simp_all
  let ?l = "or_default (TrimSpace l0) (FormatInt (int d + 1))"
  note u = u [unfolded x sum.case Let_def]
  show ?case
  proof (cases "ParseInt ?l")
    case None
    with u have "askChoice choices d r1 = (rest, Inr c)" by simp
    then show ?thesis by (rule "1.IH"(1) [OF rl [symmetric] x refl None])
  next
    case (Some n)
    show ?thesis
    proof (cases "n < 1 \<or> int (length choices) < n")
      case True
      with u Some have "askChoice choices d r1 = (rest, Inr c)" by simp
      then show ?thesis by (rule "1.IH"(2) [OF rl [symmetric] x refl Some True])
    next
      case False
      with u Some have "c = choices ! nat (n - 1)" by simp
      moreover have "nat (n - 1) < length choices" using False by linarith
      ultimately show ?thesis by simp
    qed
  qed
qed

lemma and_then_okE:
  assumes "and_then m k s = (s', Inr y)" obtains s1 x where "m s = (s1, Inr x)" "k x s1 = (s', Inr y)"
  using assms unfolding and_then_ok by blast

lemma guard_okE:
  assumes "(if b then lift_result (Inl e) else m) s = (s', Inr y)" obtains "\<not> b" "m s = (s', Inr y)"
  using assms by (cases b) (simp_all add: lift_result_def)

lemma checked_okE:
  assumes "(case v of None \<Rightarrow> m | Some err \<Rightarrow> lift_result (Inl err)) s = (s', Inr y)" obtains "v = None" "m s = (s', Inr y)"
  using assms by (cases v) (simp_all add: lift_result_def)

lemma ask_service_keeps:
  assumes "ask_service he yes fs o1 s = (s', Inr o2)" shows "\<exists>a b. o2 = o1\<lparr>op_InstallSystemd := a, op_SystemdEnable := b\<rparr>"
proof (cases "he_euid he = 0")
  case False
  with assms have "o2 = o1\<lparr>op_InstallSystemd := op_InstallSystemd o1, op_SystemdEnable := op_SystemdEnable o1\<rparr>"
    by (simp add: ask_service_def lift_result_def)
  then show ?thesis by blast
next
  case True
  with assms obtain s1 inst where m: "(if \<not> inst then lift_result (Inr (o1\<lparr>op_InstallSystemd := False\<rparr>))
      else and_then (askYesNo True) (\<lambda>enable. lift_result (Inr (o1\<lparr>op_InstallSystemd := True, op_SystemdEnable := enable\<rparr>)))) s1 = (s', Inr o2)"
    unfolding ask_service_def by (auto elim: and_then_okE)
  show ?thesis
  proof (cases inst)
    case True
    with m obtain enable where "o2 = o1\<lparr>op_InstallSystemd := True, op_SystemdEnable := enable\<rparr>"
      by (auto elim!: and_then_okE simp: lift_result_def)
    then show ?thesis by blast
  next
    case False
    with m have "o2 = o1\<lparr>op_InstallSystemd := False, op_SystemdEnable := op_SystemdEnable o1\<rparr>" by (auto simp: lift_result_def)
    then show ?thesis by blast
  qed
qed

lemma ask_proceed_keeps: "ask_proceed yes o1 s = (s', Inr o2) \<Longrightarrow> o2 = o1"
  unfolding ask_proceed_def by (auto simp: step_oks split: if_splits)

lemma wizard_options_valid:
  assumes "RunInteractive he vl fs prefill yes input = (rest, Inr opts)"
  shows "options_Validate he opts = None \<and> op_Env opts \<in> {envProduction, envDev} \<and> op_SignerMode opts \<in> {''local-ca'', ''local-key''}
     \<and> op_Hostname opts \<noteq> [] \<and> op_SkipSampleClients opts"
  using assms unfolding RunInteractive_def Let_def
  by (elim and_then_okE guard_okE checked_okE) (drule askChoice_member, drule askChoice_member, drule ask_service_keeps, drule ask_proceed_keeps, auto)

section \<open>A fresh host\<close>

text \<open>What a step keeps of the state.\<close>

definition keeps_step :: "('s \<Rightarrow> 'v) \<Rightarrow> ('s \<Rightarrow> 's \<times> 'a) \<Rightarrow> bool" where
  "keeps_step view m \<longleftrightarrow> (\<forall>s. view (fst (m s)) = view s)"

named_theorems keeps_intros

lemma keeps_and_then [keeps_intros]:
  assumes "keeps_step view m" "\<And>x. keeps_step view (k x)" shows "keeps_step view (and_then m k)"
proof -
  have "view (fst (and_then m k s)) = view s" for s
  proof (cases "m s")
    case (Pair s1 r)
    have "view s1 = view s" using assms(1) Pair unfolding keeps_step_def by (metis fst_conv)
    moreover have "view (fst (k x s1)) = view s1" for x using assms(2) unfolding keeps_step_def by blast
    ultimately show ?thesis using Pair by (cases r) (simp_all add: and_then_def)
  qed
  then show ?thesis by (simp add: keeps_step_def)
qed

lemma keeps_lift [keeps_intros]: "keeps_step view (lift_result r)"
  by (simp add: keeps_step_def lift_result_def)

lemma keeps_check [keeps_intros]: "keeps_step view (check e)"
  by (simp add: keeps_step_def check_def)

lemma keeps_wrapped [keeps_intros]: "keeps_step view m \<Longrightarrow> keeps_step view (wrapped what m)"
  by (simp add: keeps_step_def wrapped_def split_beta)

lemma keeps_step_if [keeps_intros]: "keeps_step view a \<Longrightarrow> keeps_step view b \<Longrightarrow> keeps_step view (if c then a else b)"
  by simp

text \<open>The users, the groups and the services: what a write to the files leaves alone.\<close>

definition accounts :: "host \<Rightarrow> (string, string) gomap \<times> (string, string) gomap \<times> string list list" where
  "accounts h = (ho_users h, ho_groups h, ho_systemctl h)"

lemma keeps_on_files [keeps_intros]: "keeps_step accounts (on_files m)"
  by (simp add: keeps_step_def accounts_def on_files_def split: prod.split)

lemma keeps_chownProxyConfig [keeps_intros]: "keeps_step accounts (chownProxyConfig he path u g)"
  by (simp add: keeps_step_def chownProxyConfig_def check_def split: option.split)

lemma keeps_WriteProxyConfig [keeps_intros]: "keeps_step accounts (WriteProxyConfig he opts)"
proof -
  have "accounts (fst (WriteProxyConfig he opts h)) = accounts h" for h
  proof (cases "\<not> po_Force (proxy_config_withDefaults opts) \<and> file_exists (ho_files h) (po_Path (proxy_config_withDefaults opts))")
    case True
    then show ?thesis by (simp add: WriteProxyConfig_def Let_def)
  next
    case False
    have k: "keeps_step accounts (and_then a (\<lambda>t. and_then b (\<lambda>_. and_then (on_files (c t))
               (\<lambda>_. and_then (if d then chownProxyConfig he p u g else lift_result e) (\<lambda>_. lift_result (f t))))))"
      if "keeps_step accounts a" "keeps_step accounts b" for a :: "string host_step" and b :: "unit host_step" and c d p u g e f
      by (intro keeps_intros that)
    show ?thesis unfolding WriteProxyConfig_def Let_def if_not_P [OF False]
      by (rule k [unfolded keeps_step_def, rule_format]) (simp_all add: keeps_step_def lift_result_def check_def)
  qed
  then show ?thesis by (simp add: keeps_step_def)
qed

lemma keeps_stepD: "keeps_step view m \<Longrightarrow> m s = (s', r) \<Longrightarrow> view s' = view s"
  unfolding keeps_step_def by (metis fst_conv)

lemma and_then_keeps:
  assumes "keeps_step view m" "view s = v" "\<And>x s1. view s1 = v \<Longrightarrow> P (k x s1)" "\<And>s1 err. view s1 = v \<Longrightarrow> P (s1, Inl err)"
  shows "P (and_then m k s)"
proof (cases "m s")
  case (Pair s1 r)
  then have "view s1 = v" using keeps_stepD [OF assms(1) Pair] assms(2) by simp
  then show ?thesis using Pair assms(3,4) by (cases r) (simp_all add: and_then_def)
qed

lemma lookupGID_accounts: "accounts h' = accounts h \<Longrightarrow> lookupGID g h' = lookupGID g h"
  by (simp add: accounts_def lookupGID_def)

lemma no_group_no_service:
  assumes "op_InstallSystemd opts" "he_euid he = 0" "lookupGID ''luna'' h < 0"
  shows "install_service he opts h = (h, Inl (Errorf (''group '' @ strconv_Quote ''luna'' @ '' not found'')))"
  using assms by (simp add: install_service_def EnsureCertPermissions_def and_then_def)

lemma withDefaults_service [simp]: "op_InstallSystemd (options_withDefaults he opts) = op_InstallSystemd opts"
  by (simp add: options_withDefaults_def Let_def)

text \<open>(C32) Setting up a proxy with its service, as root on a host that has no group \<open>luna\<close>, never
  succeeds: the certificates are to be given to the group before the step that creates it. No user,
  no group and no service results.\<close>

theorem fresh_host_setup_fails:
  assumes "op_InstallSystemd opts" and "he_euid he = 0" and "lookupGID ''luna'' h < 0" and "setup_Run he opts h = (h', r)"
  shows "(\<exists>err. r = Inl err) \<and> ho_users h' = ho_users h \<and> ho_groups h' = ho_groups h \<and> ho_systemctl h' = ho_systemctl h"
proof -
  define P where "P x \<longleftrightarrow> (\<exists>h1 err. x = (h1, Inl err) \<and> accounts h1 = accounts h)" for x :: "host \<times> setup_Result result"
  have last: "P (and_then (install_service he (options_withDefaults he opts)) k h1)" if "accounts h1 = accounts h" for k h1
  proof -
    have "lookupGID ''luna'' h1 < 0" using assms(3) lookupGID_accounts [OF that] by simp
    then show ?thesis using that assms(1,2) by (simp add: P_def and_then_def no_group_no_service)
  qed
  have fail: "P (h1, Inl err)" if "accounts h1 = accounts h" for h1 err using that by (simp add: P_def)
  note step = and_then_keeps [where view = accounts and v = "accounts h" and P = P, OF _ _ _ fail]
  have "P (setup_Run he opts h)" unfolding setup_Run_def Let_def
    by (rule step [OF _ refl], rule keeps_intros, rule step, (rule keeps_intros)+, assumption,
        rule step, (rule keeps_intros)+, assumption, rule last)
  then show ?thesis unfolding P_def using assms(4) by (auto simp: accounts_def)
qed

definition demo_host_env :: host_env where
  "demo_host_env = \<lparr>he_pk = demo_pki, he_os = demo_os, he_euid = 0, he_rand = Inr ''0123'', he_useradd = \<lambda>_. Inr ''990'',
     he_groupadd = \<lambda>_. Inr ''990'', he_systemctl = \<lambda>_. None, he_Chown = \<lambda>_ _ _. None, he_Chmod = \<lambda>_ _. None, he_Uid = \<lambda>_. 0\<rparr>"

definition demo_setup :: Options where
  "demo_setup = zero_Options\<lparr>op_Env := ''dev'', op_Hostname := ''luna.example.com'', op_InstallSystemd := True, op_SkipSampleClients := True\<rparr>"

definition bare_host :: host where
  "bare_host = \<lparr>ho_files = [], ho_users = [], ho_groups = [], ho_systemctl = []\<rparr>"

theorem fresh_host_setup_fails_witness:
  "snd (setup_Run demo_host_env demo_setup bare_host) = Inl (Errorf (''group '' @ strconv_Quote ''luna'' @ '' not found''))
   \<and> ho_groups (fst (setup_Run demo_host_env demo_setup bare_host)) = []"
proof -
  have "snd (setup_Run demo_host_env demo_setup bare_host) = Inl (Errorf (''group '' @ strconv_Quote ''luna'' @ '' not found''))" by code_simp
  moreover have "ho_groups (fst (setup_Run demo_host_env demo_setup bare_host)) = ho_groups bare_host"
    using fresh_host_setup_fails [of demo_setup demo_host_env bare_host "fst (setup_Run demo_host_env demo_setup bare_host)"
        "snd (setup_Run demo_host_env demo_setup bare_host)"]
    by (simp add: demo_setup_def demo_host_env_def bare_host_def lookupGID_def)
  ultimately show ?thesis by (simp add: bare_host_def)
qed

end
