(* ===== verification/Agent_Setup.thy ===== *)
theory Agent_Setup
  imports Setup Agent_Config Cli_Client
begin

text \<open>
  Setting up an agent: the first contact with the proxy (\<open>agent/internal/setup/bootstrap.go\<close>), the
  client's key and certificate (\<open>client.go\<close>), its configuration file (\<open>config.go\<close>), the service
  (\<open>agent/internal/install\<close>) and the whole (\<open>setup.go\<close>, \<open>enroll_prompt.go\<close>). What the agent's
  installer shares word for word with the proxy's (users, groups and directories) is used from the
  theory of the proxy's. What is printed on the terminal is left out.
\<close>

section \<open>What comes from outside\<close>

text \<open>Whom an HTTPS client of the set-up trusts: anyone, the authorities of the system, or those of a file.\<close>

datatype 'p tls_trust = NoVerify | SystemRoots | Roots 'p

type_synonym 'p sent = "('p tls_trust \<times> out_request) list"

text \<open>\<open>ax_Fetch\<close> is one exchange of a new client, which may depend on the requests sent before it;
  \<open>ax_Location\<close> is the address that the answer to that request redirects to, resolved against the
  request's, if the answer has a \<open>Location\<close> header; \<open>ax_Handshake\<close> opens a TLS connection within a time, for a pool, a server name and an address. \<open>ax_Rest\<close> is what
  \<open>pem.Decode\<close> leaves, \<open>ax_Name\<close> the common name and the organisations of a request's subject.\<close>

record ('c, 'p) agent_setup_env =
  ax_he :: host_env
  ax_os :: agent_os
  ax_sx :: sdk_lib
  ax_nw :: "('c, 'p) network"
  ax_Fetch :: "'p sent \<Rightarrow> 'p tls_trust \<Rightarrow> duration \<Rightarrow> out_request \<Rightarrow> in_response result"
  ax_Location :: "'p sent \<Rightarrow> 'p tls_trust \<Rightarrow> out_request \<Rightarrow> string result option"
  ax_Handshake :: "duration \<Rightarrow> 'p \<Rightarrow> string \<Rightarrow> string \<Rightarrow> go_error option"
  ax_AppendCertsFromPEM :: "bytes \<Rightarrow> 'p option"
  ax_LoadX509KeyPair :: "files \<Rightarrow> string \<Rightarrow> string \<Rightarrow> 'c result"
  ax_Rest :: "bytes \<Rightarrow> bytes"
  ax_MarshalPKCS1PrivateKey :: "private_key \<Rightarrow> bytes"
  ax_CreateCertificateRequest :: "string \<Rightarrow> string list \<Rightarrow> private_key \<Rightarrow> bytes result"
  ax_CheckSignature :: "x509_csr \<Rightarrow> go_error option"
  ax_Name :: "x509_csr \<Rightarrow> string \<times> string list"
  ax_rand_Int :: "int result"
  ax_IsInteractive :: bool
  ax_Executable :: "string result"

abbreviation ax_pk :: "('c, 'p) agent_setup_env \<Rightarrow> pki_lib" where
  "ax_pk ax \<equiv> he_pk (ax_he ax)"

abbreviation ax_fr :: "('c, 'p) agent_setup_env \<Rightarrow> fs_rules" where
  "ax_fr ax \<equiv> pk_fr (ax_pk ax)"

text \<open>The host, what will still be typed, and the requests of the set-up's clients in their order.\<close>

record 'p setup_state =
  st_host :: host
  st_input :: bytes
  st_sent :: "'p sent"

type_synonym ('p, 'a) agent_step = "'p setup_state \<Rightarrow> 'p setup_state \<times> 'a result"

abbreviation st_files :: "'p setup_state \<Rightarrow> files" where
  "st_files s \<equiv> ho_files (st_host s)"

definition on_host :: "'a host_step \<Rightarrow> ('p, 'a) agent_step" where
  "on_host m s = (case m (st_host s) of (h, r) \<Rightarrow> (s\<lparr>st_host := h\<rparr>, r))"

definition on_disk :: "'a fs_step \<Rightarrow> ('p, 'a) agent_step" where
  "on_disk m = on_host (on_files m)"

definition on_input :: "(bytes \<Rightarrow> bytes \<times> 'a result) \<Rightarrow> ('p, 'a) agent_step" where
  "on_input m s = (case m (st_input s) of (i, r) \<Rightarrow> (s\<lparr>st_input := i\<rparr>, r))"

text \<open>The state as it is when the step begins.\<close>

definition with_files :: "(files \<Rightarrow> ('p, 'a) agent_step) \<Rightarrow> ('p, 'a) agent_step" where
  "with_files k s = k (st_files s) s"

text \<open>\<open>Client.Do\<close> of \<open>net/http\<close>, as \<open>bootstrapHTTPClient\<close> leaves it: without a \<open>CheckRedirect\<close> of its own,
  the client follows redirects, up to ten requests in all. The headers of the first request go
  with each of them; of the codes, 307 and 308 keep method and body, the others make it a \<open>GET\<close>. A
  redirect without \<open>Location\<close> is an answer like any other. (The \<open>Referer\<close> header is left out.)\<close>

definition is_redirect :: "int \<Rightarrow> bool" where
  "is_redirect status \<longleftrightarrow> status \<in> {301, 302, 303, 307, 308}"

definition redirected :: "int \<Rightarrow> string \<Rightarrow> out_request \<Rightarrow> out_request" where
  "redirected status url req =
     (if status \<in> {307, 308} then req\<lparr>or_url := url\<rparr> else req\<lparr>or_method := GET, or_url := url, or_body := []\<rparr>)"

primrec send_following :: "nat \<Rightarrow> ('c, 'p) agent_setup_env \<Rightarrow> 'p tls_trust \<Rightarrow> duration \<Rightarrow> out_request \<Rightarrow> ('p, in_response) agent_step" where
  "send_following 0 ax tr timeout req s = (s, Inl (Errorf ''stopped after 10 redirects''))"
| "send_following (Suc n) ax tr timeout req s =
     (let s1 = s\<lparr>st_sent := st_sent s @ [(tr, req)]\<rparr>
      in case ax_Fetch ax (st_sent s) tr timeout req of
           Inl err \<Rightarrow> (s1, Inl err)
         | Inr resp \<Rightarrow>
     (if \<not> is_redirect (in_status resp) then (s1, Inr resp)
      else case ax_Location ax (st_sent s) tr req of
             None \<Rightarrow> (s1, Inr resp)
           | Some (Inl err) \<Rightarrow> (s1, Inl err)
           | Some (Inr url) \<Rightarrow> send_following n ax tr timeout (redirected (in_status resp) url req) s1))"

definition bootstrap_Do :: "('c, 'p) agent_setup_env \<Rightarrow> 'p tls_trust \<Rightarrow> duration \<Rightarrow> out_request \<Rightarrow> ('p, in_response) agent_step" where
  "bootstrap_Do = send_following 10"

lemma send_following_frame: "\<exists>l. fst (send_following n ax tr t req s) = s\<lparr>st_sent := st_sent s @ l\<rparr>"
proof (induction n arbitrary: req s)
  case 0
  show ?case by (simp add: exI [of _ "[]"])
next
  case (Suc n)
  let ?s1 = "s\<lparr>st_sent := st_sent s @ [(tr, req)]\<rparr>"
  have rest: "\<exists>l. fst (send_following n ax tr t q ?s1) = s\<lparr>st_sent := st_sent s @ l\<rparr>" for q
  proof -
    obtain l where "fst (send_following n ax tr t q ?s1) = ?s1\<lparr>st_sent := st_sent ?s1 @ l\<rparr>" using Suc by blast
    then show ?thesis by (intro exI [of _ "(tr, req) # l"]) simp
  qed
  have one: "\<exists>l. ?s1 = s\<lparr>st_sent := st_sent s @ l\<rparr>" by blast
  show ?case by (auto simp: Let_def rest one split: sum.split option.split)
qed

lemma bootstrap_Do_frame: "\<exists>l. fst (bootstrap_Do ax tr t req s) = s\<lparr>st_sent := st_sent s @ l\<rparr>"
  unfolding bootstrap_Do_def by (rule send_following_frame)

text \<open>An exchange without a redirect.\<close>

lemma bootstrap_Do_plain:
  assumes "\<And>resp. ax_Fetch ax (st_sent s) tr t req = Inr resp \<Longrightarrow> \<not> is_redirect (in_status resp)"
  shows "bootstrap_Do ax tr t req s = (s\<lparr>st_sent := st_sent s @ [(tr, req)]\<rparr>, ax_Fetch ax (st_sent s) tr t req)"
proof -
  have ten: "(10 :: nat) = Suc 9" by simp
  show ?thesis using assms unfolding bootstrap_Do_def ten send_following.simps Let_def by (auto split: sum.split)
qed

section \<open>The first contact\<close>

definition mtlsEnrollPath :: string where
  "mtlsEnrollPath = ''/api/v1/mtls/enroll''"

definition enrollTokenHeader :: string where
  "enrollTokenHeader = ''X-Luna-Enroll-Token''"

definition defaultProbeTimeout :: duration where
  "defaultProbeTimeout = 10 * second"

definition get_request :: "string \<Rightarrow> out_request" where
  "get_request url = \<lparr>or_method = GET, or_url = url, or_body = [], or_headers = []\<rparr>"

text \<open>The loop over the two addresses; an address that cannot be used ends it.\<close>

fun probe_paths :: "('c, 'p) agent_setup_env \<Rightarrow> string \<Rightarrow> duration \<Rightarrow> string list \<Rightarrow> go_error \<Rightarrow> ('p, unit) agent_step" where
  "probe_paths ax proxyURL timeout [] lastErr s = (s, Inl (Wrapf (proxyURL @ '': '') lastErr ''''))"
| "probe_paths ax proxyURL timeout (path # paths) lastErr s =
     (if \<not> sx_valid_url (ax_sx ax) (proxyURL @ path) then (s, Inl bad_url)
      else case bootstrap_Do ax NoVerify timeout (get_request (proxyURL @ path)) s of
             (s', Inl err) \<Rightarrow> probe_paths ax proxyURL timeout paths err s'
           | (s', Inr resp) \<Rightarrow>
               if in_status resp = 200 then (s', Inr ())
               else probe_paths ax proxyURL timeout paths (Errorf (path @ '' returned HTTP '' @ FormatInt (in_status resp))) s')"

definition ProbeProxyURL :: "('c, 'p) agent_setup_env \<Rightarrow> string \<Rightarrow> duration \<Rightarrow> ('p, unit) agent_step" where
  "ProbeProxyURL ax url0 timeout0 =
     (let proxyURL = TrimRight (TrimSpace url0) ''/''; timeout = (if timeout0 \<le> 0 then defaultProbeTimeout else timeout0)
      in if proxyURL = [] then lift_result (Inl (Errorf ''proxy URL is empty''))
         else if \<not> HasPrefix proxyURL ''https://'' then lift_result (Inl (Errorf ''proxy URL must use https://''))
         else probe_paths ax proxyURL timeout [''/healthz'', mtlsCAPath] (Errorf ''no response''))"

record BootstrapOptions =
  bo_ProxyURL :: string
  bo_CertsDir :: string
  bo_EnrollToken :: string
  bo_CAFingerprint :: string
  bo_Timeout :: duration
  bo_InsecureSkipVerify :: bool
  bo_RefreshCA :: bool

definition bootstrap_withDefaults :: "BootstrapOptions \<Rightarrow> BootstrapOptions" where
  "bootstrap_withDefaults o1 =
     o1\<lparr>bo_Timeout := (if bo_Timeout o1 \<le> 0 then 30 * second else bo_Timeout o1), bo_ProxyURL := TrimSpace (bo_ProxyURL o1),
        bo_CertsDir := filepath_Clean (bo_CertsDir o1), bo_EnrollToken := TrimSpace (bo_EnrollToken o1),
        bo_CAFingerprint := TrimSpace (bo_CAFingerprint o1)\<rparr>"

definition loadCAPool :: "('c, 'p) agent_setup_env \<Rightarrow> files \<Rightarrow> string \<Rightarrow> 'p result" where
  "loadCAPool ax fs caPath =
     (case os_ReadFile (ax_fr ax) fs caPath of
        Inl err \<Rightarrow> Inl (fs_err err)
      | Inr pemBytes \<Rightarrow>
          (case ax_AppendCertsFromPEM ax pemBytes of None \<Rightarrow> Inl (Errorf ''parse CA PEM'') | Some pool \<Rightarrow> Inr pool))"

definition bootstrapHTTPClient :: "('c, 'p) agent_setup_env \<Rightarrow> files \<Rightarrow> string \<Rightarrow> bool \<Rightarrow> 'p tls_trust" where
  "bootstrapHTTPClient ax fs certsDir insecure =
     (if insecure then NoVerify
      else case loadCAPool ax fs (filepath_Join [certsDir, ''ca.crt'']) of Inr pool \<Rightarrow> Roots pool | Inl _ \<Rightarrow> SystemRoots)"

definition looksLikePEMCert :: "bytes \<Rightarrow> bool" where
  "looksLikePEMCert pemBytes = strings_Contains pemBytes ''BEGIN CERTIFICATE''"

definition verifyCAFingerprint :: "('c, 'p) agent_setup_env \<Rightarrow> bytes \<Rightarrow> string \<Rightarrow> go_error option" where
  "verifyCAFingerprint ax pemBytes expected0 =
     (let expected = ToLower_ascii (filter (\<lambda>c. c \<noteq> CHR '':'') (TrimSpace expected0)); x5 = pk_x5 (ax_pk ax)
      in if expected = [] then Some (Errorf ''CA fingerprint required for insecure first-contact download'')
         else case x5_pem_Decode x5 pemBytes of
                None \<Rightarrow> Some (Errorf ''parse fetched CA certificate'')
              | Some (ty, der) \<Rightarrow>
         if ty \<noteq> ''CERTIFICATE'' \<or> TrimSpace (ax_Rest ax pemBytes) \<noteq> [] then Some (Errorf ''parse fetched CA certificate'')
         else (case x5_ParseCertificate x5 der of
                 Inl err \<Rightarrow> Some (Wrapf ''parse fetched CA certificate: '' err '''')
               | Inr cert \<Rightarrow>
                   (let got = hex_EncodeToString (sha256_Sum256 (xc_Raw cert))
                    in if got \<noteq> expected then Some (Errorf (''fetched CA fingerprint mismatch: got '' @ got)) else None)))"

definition agent_writeFile :: "fs_rules \<Rightarrow> string \<Rightarrow> bytes \<Rightarrow> nat \<Rightarrow> unit fs_step" where
  "agent_writeFile fr path data mode fs =
     (case write_and_rename fr (\<lambda>e. Wrapf (''write '' @ path @ '': '') e '''') (\<lambda>e. Wrapf (''rename '' @ path @ '': '') e '''')
             path data mode fs of
        (fs', Some err) \<Rightarrow> (fs', Inl err)
      | (fs', None) \<Rightarrow> (fs', Inr ()))"

definition agent_FetchCA :: "('c, 'p) agent_setup_env \<Rightarrow> BootstrapOptions \<Rightarrow> ('p, string) agent_step" where
  "agent_FetchCA ax opts0 = with_files (\<lambda>fs.
     let opts = bootstrap_withDefaults opts0; dest = filepath_Join [bo_CertsDir opts, ''ca.crt''];
         tr = bootstrapHTTPClient ax fs (bo_CertsDir opts) (bo_InsecureSkipVerify opts);
         req = get_request (TrimRight (bo_ProxyURL opts) ''/'' @ mtlsCAPath);
         fail = (\<lambda>msg. lift_result (Inl (Errorf (''GET '' @ mtlsCAPath @ '': '' @ msg))))
     in if \<not> sx_valid_url (ax_sx ax) (or_url req) then lift_result (Inl bad_url) else
     and_then (wrapped (''GET '' @ mtlsCAPath @ '': '') (bootstrap_Do ax tr (bo_Timeout opts) req)) (\<lambda>resp.
     and_then (lift_result (read_limited (2 ^ 18) resp)) (\<lambda>body.
     if in_status resp \<noteq> 200 then fail (''HTTP '' @ FormatInt (in_status resp))
     else if \<not> looksLikePEMCert body then fail ''response is not a PEM certificate''
     else and_then (check (if bo_InsecureSkipVerify opts then verifyCAFingerprint ax body (bo_CAFingerprint opts) else None)) (\<lambda>_.
          and_then (on_disk (agent_writeFile (ax_fr ax) dest body mode_0644)) (\<lambda>_.
          lift_result (Inr dest))))))"

definition formatServerTrustError :: "string \<Rightarrow> go_error \<Rightarrow> go_error" where
  "formatServerTrustError proxyURL err =
     (let msg = error_text err
      in if strings_Contains msg ''x509:'' \<or> strings_Contains msg ''tls:''
         then Errorf (lines_text
           [''ca.crt does not trust the server certificate at '' @ proxyURL, ''common causes:'',
            ''  - stale ca.crt from an earlier luna-proxy setup (re-run setup; ca.crt is refreshed automatically)'',
            ''  - proxy PKI was regenerated with luna-proxy setup --force but the agent still has the old CA'',
            ''  - TLS terminates in front of luna-proxy (nginx/ingress) with a different certificate'',
            ''  - proxy hostname in the server cert SAN does not match the URL you entered'', [], msg])
         else Wrapf ''verify server TLS: '' err '''')"

text \<open>\<open>URL.Port\<close>.\<close>

definition URL_Port :: "URL \<Rightarrow> string" where
  "URL_Port u =
     (case last_index CHR '':'' (url_Host u) of
        None \<Rightarrow> []
      | Some colon \<Rightarrow> if validOptionalPort (drop colon (url_Host u)) then drop (Suc colon) (url_Host u) else [])"

definition VerifyProxyServerTrust :: "('c, 'p) agent_setup_env \<Rightarrow> string \<Rightarrow> string \<Rightarrow> duration \<Rightarrow> ('p, unit) agent_step" where
  "VerifyProxyServerTrust ax proxyURL certsDir timeout0 = with_files (\<lambda>fs.
     and_then (lift_result (wrap_err ''load ca.crt: '' (loadCAPool ax fs (filepath_Join [certsDir, ''ca.crt''])))) (\<lambda>pool.
     and_then (lift_result (wrap_err ''parse proxy URL: '' (sx_url_Parse (ax_sx ax) (TrimRight (TrimSpace proxyURL) ''/'')))) (\<lambda>u.
     let host = URL_Hostname u; port = or_default (URL_Port u) ''443''; timeout = (if timeout0 \<le> 0 then 30 * second else timeout0)
     in if host = [] then lift_result (Inl (Errorf ''proxy URL missing hostname''))
        else check (map_option (formatServerTrustError proxyURL) (ax_Handshake ax timeout pool host (JoinHostPort host port))))))"

definition RefreshTrustAnchor :: "('c, 'p) agent_setup_env \<Rightarrow> BootstrapOptions \<Rightarrow> ('p, unit) agent_step" where
  "RefreshTrustAnchor ax opts0 =
     (let opts = bootstrap_withDefaults opts0
      in and_then (wrapped ''download CA: '' (agent_FetchCA ax
             \<lparr>bo_ProxyURL = bo_ProxyURL opts, bo_CertsDir = bo_CertsDir opts, bo_EnrollToken = [], bo_CAFingerprint = bo_CAFingerprint opts,
              bo_Timeout = bo_Timeout opts, bo_InsecureSkipVerify = True, bo_RefreshCA = False\<rparr>)) (\<lambda>_.
         VerifyProxyServerTrust ax (bo_ProxyURL opts) (bo_CertsDir opts) (bo_Timeout opts)))"

definition enroll_answer_fields :: "string json_field list" where
  "enroll_answer_fields = [string_field ''certificate_pem'' (\<lambda>v _. v)]"

definition enroll_post :: "string \<Rightarrow> string \<Rightarrow> bytes \<Rightarrow> out_request" where
  "enroll_post proxyURL token payload =
     \<lparr>or_method = POST, or_url = TrimRight proxyURL ''/'' @ mtlsEnrollPath, or_body = payload,
      or_headers = [(''Content-Type'', ''application/json''), (enrollTokenHeader, token)]\<rparr>"

text \<open>What the proxy has answered: the certificate in it.\<close>

definition enrolled_certificate :: "json_lib \<Rightarrow> in_response \<Rightarrow> bytes result" where
  "enrolled_certificate js resp =
     (case read_limited (2 ^ 18) resp of
        Inl err \<Rightarrow> Inl err
      | Inr body \<Rightarrow>
          if in_status resp \<noteq> 201 then Inl (Errorf (''POST '' @ mtlsEnrollPath @ '': HTTP '' @ FormatInt (in_status resp)))
          else case Unmarshal js enroll_answer_fields body [] of
                 None \<Rightarrow> Inl (Errorf ''decode enroll response: invalid json'')
               | Some pem \<Rightarrow>
                   if \<not> looksLikePEMCert pem then Inl (Errorf ''enroll response missing certificate_pem'') else Inr pem)"

definition EnrollClientCSR :: "('c, 'p) agent_setup_env \<Rightarrow> BootstrapOptions \<Rightarrow> ('p, string) agent_step" where
  "EnrollClientCSR ax opts0 =
     (let opts = bootstrap_withDefaults opts0; dir = bo_CertsDir opts; js = sx_js (ax_sx ax); dest = filepath_Join [dir, ''client.crt'']
      in if TrimSpace (bo_EnrollToken opts) = []
         then lift_result (Inl (Errorf ''enroll token required (set LUNA_MTLS_ENROLL_TOKEN or proxy mtls_enroll_token)''))
         else and_then (if bo_RefreshCA opts then RefreshTrustAnchor ax opts else lift_result (Inr ())) (\<lambda>_.
              with_files (\<lambda>fs.
              and_then (lift_result (case os_ReadFile (ax_fr ax) fs (filepath_Join [dir, ''client.csr.pem'']) of
                          Inl err \<Rightarrow> Inl (Wrapf ''read client.csr.pem: '' (fs_err err) '''') | Inr b \<Rightarrow> Inr b)) (\<lambda>csrPEM.
              let req = enroll_post (bo_ProxyURL opts) (bo_EnrollToken opts) (js_print js (JObject [(''csr_pem'', JString csrPEM)]))
              in if \<not> sx_valid_url (ax_sx ax) (or_url req) then lift_result (Inl bad_url) else
              and_then (wrapped (''POST '' @ mtlsEnrollPath @ '': '')
                          (bootstrap_Do ax (bootstrapHTTPClient ax fs dir False) (bo_Timeout opts) req)) (\<lambda>resp.
              and_then (lift_result (enrolled_certificate js resp)) (\<lambda>pem.
              and_then (on_disk (agent_writeFile (ax_fr ax) dest pem mode_0644)) (\<lambda>_.
              lift_result (Inr dest))))))))"

definition formatEnrollError :: "go_error \<Rightarrow> string \<Rightarrow> go_error" where
  "formatEnrollError err certsDir =
     (let msg = error_text err
      in if strings_Contains msg ''invalid enroll token'' \<or> strings_Contains msg ''HTTP 401''
         then Wrapf [] err (lines_text [[], [], ''Check mtls_enroll_token on the proxy matches the token you entered.'',
           ''On the proxy: set mtls_enroll_token in proxy.yml and restart luna-proxy.''])
         else if strings_Contains msg ''x509:'' \<or> strings_Contains msg ''tls:'' \<or> strings_Contains msg ''does not trust the server certificate''
         then Wrapf [] err (lines_text [[], [], ''This is a TLS trust problem, not an enroll token mismatch.'',
           ''Re-run luna-agent setup (ca.crt will be re-downloaded), or delete '' @ certsDir @ ''/ca.crt and try again.'',
           ''Ensure the proxy URL hostname matches the certificate from luna-proxy setup.''])
         else err)"

section \<open>The client's key and certificate\<close>

definition defaultClientValidityDays :: int where
  "defaultClientValidityDays = 3650"

definition agent_ErrExists :: go_error where
  "agent_ErrExists = Errorf ''client material already exists (use --force to overwrite)''"

record ClientOptions =
  cl_Dir :: string
  cl_Force :: bool
  cl_CommonName :: string
  cl_Organization :: string
  cl_ValidityDays :: int

definition client_withDefaults :: "ClientOptions \<Rightarrow> ClientOptions" where
  "client_withDefaults o1 =
     o1\<lparr>cl_Dir := filepath_Clean (if TrimSpace (cl_Dir o1) = [] then DefaultCertsDir else cl_Dir o1),
        cl_Organization := or_default (cl_Organization o1) ''Luna Z-Trust''\<rparr>"

definition GenerateClientKey :: "('c, 'p) agent_setup_env \<Rightarrow> ClientOptions \<Rightarrow> (string \<times> string) fs_step" where
  "GenerateClientKey ax opts0 fs =
     (let opts = client_withDefaults opts0; pk = ax_pk ax; x5 = pk_x5 pk; fr = ax_fr ax;
          keyPath = filepath_Join [cl_Dir opts, ''client.key'']; csrPath = filepath_Join [cl_Dir opts, ''client.csr.pem'']
      in if \<not> cl_Force opts \<and> file_exists fs keyPath then (fs, Inl (Wrapf [] agent_ErrExists '': client.key''))
         else and_then (check (wrap_opt ''create dir: '' (fr_MkdirAll fr (cl_Dir opts)))) (\<lambda>_.
              and_then (lift_result (wrap_err ''generate client key: '' (pk_GenerateKey pk 0 2048))) (\<lambda>key.
              and_then (agent_writeFile fr keyPath (x5_pem_EncodeToMemory x5 ''RSA PRIVATE KEY'' (ax_MarshalPKCS1PrivateKey ax key)) mode_0600) (\<lambda>_.
              and_then (lift_result (wrap_err ''create CSR: ''
                          (ax_CreateCertificateRequest ax (or_default (cl_CommonName opts) ''Luna Automation Client'') [cl_Organization opts] key))) (\<lambda>csrDER.
              and_then (agent_writeFile fr csrPath (x5_pem_EncodeToMemory x5 ''CERTIFICATE REQUEST'' csrDER) mode_0644) (\<lambda>_.
              lift_result (Inr (keyPath, csrPath))))))) fs)"

definition agent_loadCA :: "('c, 'p) agent_setup_env \<Rightarrow> files \<Rightarrow> string \<Rightarrow> string \<Rightarrow> (x509_cert \<times> private_key) result" where
  "agent_loadCA ax fs certPath keyPath =
     (let x5 = pk_x5 (ax_pk ax)
      in case os_ReadFile (ax_fr ax) fs certPath of
           Inl err \<Rightarrow> Inl (Wrapf ''read CA cert: '' (fs_err err) '''')
         | Inr certPEM \<Rightarrow>
     (case x5_pem_Decode x5 certPEM of
        None \<Rightarrow> Inl (Errorf ''parse CA cert: no PEM block'')
      | Some (_, certDER) \<Rightarrow>
     (case x5_ParseCertificate x5 certDER of
        Inl err \<Rightarrow> Inl (Wrapf ''parse CA cert: '' err '''')
      | Inr caCert \<Rightarrow>
     (case os_ReadFile (ax_fr ax) fs keyPath of
        Inl err \<Rightarrow> Inl (Wrapf ''read CA key: '' (fs_err err) '''')
      | Inr keyPEM \<Rightarrow>
     (case x5_pem_Decode x5 keyPEM of
        None \<Rightarrow> Inl (Errorf ''parse CA key: no PEM block'')
      | Some (ty, der) \<Rightarrow>
          if ty = ''RSA PRIVATE KEY''
          then (case x5_ParsePKCS1PrivateKey x5 der of
                  Inl err \<Rightarrow> Inl (Wrapf ''parse CA key: '' err '''')
                | Inr key \<Rightarrow> Inr (caCert, key))
          else (case x5_ParsePKCS8PrivateKey x5 der of
                  Inl err \<Rightarrow> Inl (Wrapf ''parse CA key: '' err '''')
                | Inr key \<Rightarrow> if pk_IsRSA (ax_pk ax) key then Inr (caCert, key) else Inl (Errorf ''CA key is not RSA'')))))))"

definition csr_template :: "('c, 'p) agent_setup_env \<Rightarrow> int \<Rightarrow> int \<Rightarrow> x509_csr \<Rightarrow> cert_template" where
  "csr_template ax serial validityDays csr =
     \<lparr>ct_SerialNumber = serial, ct_CommonName = fst (ax_Name ax csr), ct_Organization = snd (ax_Name ax csr),
      ct_OrganizationalUnit = cr_OrganizationalUnit csr, ct_NotBefore = pk_now (ax_pk ax) + - minute,
      ct_NotAfter = pk_now (ax_pk ax) + wrap64 (validityDays * 24 * hour), ct_KeyUsage = [UsageDigitalSignature],
      ct_ExtKeyUsage = [UsageClientAuth], ct_DNSNames = [], ct_IsCA = False\<rparr>"

text \<open>The request in \<open>client.csr.pem\<close>, read and checked.\<close>

definition read_csr :: "('c, 'p) agent_setup_env \<Rightarrow> files \<Rightarrow> string \<Rightarrow> x509_csr result" where
  "read_csr ax fs path =
     (let x5 = pk_x5 (ax_pk ax)
      in case os_ReadFile (ax_fr ax) fs path of
           Inl err \<Rightarrow> Inl (Wrapf ''read client.csr.pem: '' (fs_err err) '''')
         | Inr csrPEM \<Rightarrow>
     (case x5_pem_Decode x5 csrPEM of
        None \<Rightarrow> Inl (Errorf ''parse client.csr.pem: no CSR block'')
      | Some (ty, der) \<Rightarrow>
          if ty \<noteq> ''CERTIFICATE REQUEST'' then Inl (Errorf ''parse client.csr.pem: no CSR block'')
          else case wrap_err ''parse CSR: '' (x5_ParseCertificateRequest x5 der) of
                 Inl err \<Rightarrow> Inl err
               | Inr csr \<Rightarrow>
                   (case ax_CheckSignature ax csr of Some err \<Rightarrow> Inl (Wrapf ''CSR signature: '' err '''') | None \<Rightarrow> Inr csr)))"

text \<open>The certificate for the request, signed with the CA that is beside it.\<close>

definition signed_certificate :: "('c, 'p) agent_setup_env \<Rightarrow> string \<Rightarrow> int \<Rightarrow> files \<Rightarrow> bytes result" where
  "signed_certificate ax dir validityDays fs =
     (case agent_loadCA ax fs (filepath_Join [dir, ''ca.crt'']) (filepath_Join [dir, ''ca.key'']) of
        Inl err \<Rightarrow> Inl err
      | Inr (caCert, caKey) \<Rightarrow>
     (case read_csr ax fs (filepath_Join [dir, ''client.csr.pem'']) of
        Inl err \<Rightarrow> Inl err
      | Inr csr \<Rightarrow>
     (case ax_rand_Int ax of
        Inl err \<Rightarrow> Inl err
      | Inr serial \<Rightarrow>
          wrap_err ''sign client certificate: ''
            (pk_CreateCertificate (ax_pk ax) (csr_template ax serial validityDays csr) (SignedBy caCert) (cr_PublicKey csr) caKey))))"

definition SignClientCSR :: "('c, 'p) agent_setup_env \<Rightarrow> string \<Rightarrow> int \<Rightarrow> bool \<Rightarrow> string fs_step" where
  "SignClientCSR ax dir0 validityDays0 force fs =
     (let dir = filepath_Clean dir0; validityDays = (if validityDays0 \<le> 0 then defaultClientValidityDays else validityDays0);
          certPath = filepath_Join [dir, ''client.crt'']
      in if \<not> force \<and> file_exists fs certPath then (fs, Inl (Wrapf [] agent_ErrExists '': client.crt''))
         else case signed_certificate ax dir validityDays fs of
                Inl err \<Rightarrow> (fs, Inl err)
              | Inr der \<Rightarrow>
                  and_then (agent_writeFile (ax_fr ax) certPath (x5_pem_EncodeToMemory (pk_x5 (ax_pk ax)) ''CERTIFICATE'' der) mode_0644) (\<lambda>_.
                  lift_result (Inr certPath)) fs)"

text \<open>A file that can be opened can be read.\<close>

definition InstallFile :: "fs_rules \<Rightarrow> string \<Rightarrow> string \<Rightarrow> nat \<Rightarrow> bool \<Rightarrow> unit fs_step" where
  "InstallFile fr src dst mode force fs =
     (if src = [] then (fs, Inr ())
      else if \<not> force \<and> file_exists fs dst then (fs, Inr ())
      else case os_ReadFile fr fs src of
             Inl err \<Rightarrow> (fs, Inl (Wrapf (''open '' @ src @ '': '') (fs_err err) ''''))
           | Inr data \<Rightarrow> agent_writeFile fr dst data mode fs)"

fun install_pairs :: "fs_rules \<Rightarrow> string \<Rightarrow> string \<Rightarrow> bool \<Rightarrow> (string \<times> nat) list \<Rightarrow> unit fs_step" where
  "install_pairs fr srcDir dstDir force [] = lift_result (Inr ())"
| "install_pairs fr srcDir dstDir force ((name, mode) # pairs) =
     and_then (\<lambda>fs. if \<not> file_exists fs (filepath_Join [srcDir, name]) then (fs, Inr ())
                    else InstallFile fr (filepath_Join [srcDir, name]) (filepath_Join [dstDir, name]) mode force fs)
       (\<lambda>_. install_pairs fr srcDir dstDir force pairs)"

definition InstallFromDir :: "fs_rules \<Rightarrow> string \<Rightarrow> string \<Rightarrow> bool \<Rightarrow> unit fs_step" where
  "InstallFromDir fr srcDir dstDir force =
     install_pairs fr (filepath_Clean srcDir) dstDir force
       [(''ca.crt'', mode_0644), (''client.crt'', mode_0644), (''client.key'', mode_0600)]"

definition clientMaterialReady :: "files \<Rightarrow> string \<Rightarrow> bool" where
  "clientMaterialReady fs dir = list_all (\<lambda>name. file_exists fs (filepath_Join [dir, name])) [''ca.crt'', ''client.crt'', ''client.key'']"

section \<open>The configuration file\<close>

definition agent_DefaultConfigPath :: string where
  "agent_DefaultConfigPath = ''/etc/luna/agent.yml''"

definition DefaultAgentSocket :: "agent_os \<Rightarrow> string" where
  "DefaultAgentSocket os = ResolveSocketPath os ''/run/luna/agent.sock''"

record ConfigOptions =
  cg_Path :: string
  cg_ProxyURL :: string
  cg_SignerMode :: string
  cg_CertsDir :: string
  cg_TargetUser :: string
  cg_TargetHost :: string
  cg_AgentSocket :: string
  cg_HostKeyFingerprint :: string
  cg_Force :: bool

definition config_withDefaults :: "agent_os \<Rightarrow> ConfigOptions \<Rightarrow> ConfigOptions" where
  "config_withDefaults os o1 =
     o1\<lparr>cg_Path := or_default (cg_Path o1) agent_DefaultConfigPath, cg_CertsDir := or_default (cg_CertsDir o1) DefaultCertsDir,
        cg_AgentSocket := or_default (cg_AgentSocket o1) (DefaultAgentSocket os),
        cg_SignerMode := or_default (cg_SignerMode o1) ''local-ca''\<rparr>"

definition agent_config_body :: "ConfigOptions \<Rightarrow> string" where
  "agent_config_body o1 =
     concat (map yaml_line
       [''# Luna Z-Trust '' @ [CHR 0xE2, CHR 0x80, CHR 0x94] @ '' luna-agent (generated by: luna-agent setup)'',
        ''proxy_url: '' @ cg_ProxyURL o1, ''signer_mode: '' @ cg_SignerMode o1, [],
        ''mtls_cert: '' @ cg_CertsDir o1 @ ''/client.crt'', ''mtls_key: '' @ cg_CertsDir o1 @ ''/client.key'',
        ''mtls_ca: '' @ cg_CertsDir o1 @ ''/ca.crt'', [],
        ''target_user: '' @ cg_TargetUser o1, ''target_host: '' @ cg_TargetHost o1, ''agent_socket: '' @ cg_AgentSocket o1]) @
     (let fp = TrimSpace (cg_HostKeyFingerprint o1) in if fp \<noteq> [] then yaml_line (''host_key_fingerprint: '' @ fp) else [])"

definition WriteAgentConfig :: "('c, 'p) agent_setup_env \<Rightarrow> ConfigOptions \<Rightarrow> string fs_step" where
  "WriteAgentConfig ax opts0 fs =
     (let opts = config_withDefaults (ax_os ax) opts0; path = cg_Path opts
      in if \<not> cg_Force opts \<and> file_exists fs path then (fs, Inr path)
         else and_then (check (wrap_opt ''mkdir config dir: '' (fr_MkdirAll (ax_fr ax) (filepath_Dir path)))) (\<lambda>_.
              and_then (agent_writeFile (ax_fr ax) path (agent_config_body opts) mode_0600) (\<lambda>_. lift_result (Inr path))) fs)"

section \<open>The service\<close>

definition agentUnitName :: string where
  "agentUnitName = ''luna-agent.service''"

record agent_SystemdOptions =
  gy_BinaryPath :: string
  gy_ConfigPath :: string
  gy_User :: string
  gy_Group :: string
  gy_UnitPath :: string
  gy_DryRun :: bool
  gy_Enable :: bool
  gy_SkipUserCreate :: bool
  gy_System :: bool

definition DefaultAgentSystemdOptions :: agent_SystemdOptions where
  "DefaultAgentSystemdOptions =
     \<lparr>gy_BinaryPath = ''/usr/local/bin/luna-agent'', gy_ConfigPath = ''/etc/luna/agent.yml'', gy_User = ''luna'', gy_Group = ''luna'',
      gy_UnitPath = filepath_Join [''/etc/systemd/system'', agentUnitName], gy_DryRun = False, gy_Enable = False,
      gy_SkipUserCreate = False, gy_System = True\<rparr>"

definition defaultUserBinaryPath :: "('c, 'p) agent_setup_env \<Rightarrow> string" where
  "defaultUserBinaryPath ax = (case ax_Executable ax of Inr exe \<Rightarrow> if exe \<noteq> [] then exe else ''luna-agent'' | Inl _ \<Rightarrow> ''luna-agent'')"

definition DefaultAgentUserSystemdOptions :: "('c, 'p) agent_setup_env \<Rightarrow> agent_SystemdOptions" where
  "DefaultAgentUserSystemdOptions ax =
     (let home = (case os_UserHomeDir (he_os (ax_he ax)) of Inr d \<Rightarrow> d | Inl _ \<Rightarrow> [])
      in \<lparr>gy_BinaryPath = defaultUserBinaryPath ax,
          gy_ConfigPath = filepath_Join [filepath_Join [home, ''.config'', ''luna''], ''agent.yml''], gy_User = [], gy_Group = [],
          gy_UnitPath = filepath_Join [home, ''.config'', ''systemd'', ''user'', agentUnitName], gy_DryRun = False, gy_Enable = False,
          gy_SkipUserCreate = False, gy_System = False\<rparr>)"

definition agent_systemd_withDefaults :: "('c, 'p) agent_setup_env \<Rightarrow> agent_SystemdOptions \<Rightarrow> agent_SystemdOptions" where
  "agent_systemd_withDefaults ax o1 =
     (if gy_System o1
      then let d = DefaultAgentSystemdOptions
           in o1\<lparr>gy_BinaryPath := or_default (gy_BinaryPath o1) (gy_BinaryPath d), gy_ConfigPath := or_default (gy_ConfigPath o1) (gy_ConfigPath d),
                 gy_User := or_default (gy_User o1) (gy_User d), gy_Group := or_default (gy_Group o1) (gy_Group d),
                 gy_UnitPath := or_default (gy_UnitPath o1) (gy_UnitPath d)\<rparr>
      else let d = DefaultAgentUserSystemdOptions ax
           in o1\<lparr>gy_BinaryPath := or_default (gy_BinaryPath o1) (gy_BinaryPath d), gy_ConfigPath := or_default (gy_ConfigPath o1) (gy_ConfigPath d),
                 gy_UnitPath := or_default (gy_UnitPath o1) (gy_UnitPath d)\<rparr>)"

definition unit_head :: "string \<Rightarrow> string list" where
  "unit_head targets =
     [''[Unit]'', ''Description=Luna Z-Trust SSH agent (SSH_AUTH_SOCK interceptor)'',
      ''Documentation=https://github.com/ba0f3/luna-ztrust/blob/main/docs/deploy.md'', ''After='' @ targets,
      ''Wants=network-online.target'', [], ''[Service]'', ''Type=simple'']"

definition unit_tail :: "agent_SystemdOptions \<Rightarrow> string \<Rightarrow> string list" where
  "unit_tail opts wantedBy =
     [''ExecStart='' @ gy_BinaryPath opts, ''Environment=LUNA_CONFIG='' @ gy_ConfigPath opts, ''Restart=on-failure'', ''RestartSec=5'',
      ''RuntimeDirectory=luna'', ''RuntimeDirectoryMode=0700'', [], ''[Install]'', ''WantedBy='' @ wantedBy]"

definition RenderAgentUnit :: "('c, 'p) agent_setup_env \<Rightarrow> agent_SystemdOptions \<Rightarrow> string" where
  "RenderAgentUnit ax opts0 =
     (let opts = agent_systemd_withDefaults ax opts0
      in concat (map yaml_line
        (if gy_System opts
         then unit_head ''network-online.target'' @ [''User='' @ gy_User opts, ''Group='' @ gy_Group opts] @ unit_tail opts ''multi-user.target''
         else unit_head ''network-online.target default.target'' @ unit_tail opts ''default.target'')))"

definition runSystemctlUser :: "host_env \<Rightarrow> string list \<Rightarrow> unit host_step" where
  "runSystemctlUser he args h =
     check (wrap_opt (''systemctl --user '' @ hd args @ '': '') (he_systemctl he (''--user'' # args)))
       (h\<lparr>ho_systemctl := ho_systemctl h @ [''--user'' # args]\<rparr>)"

text \<open>Every key of the directory is made readable for the group.\<close>

definition agent_cert_mode :: "string \<Rightarrow> nat option" where
  "agent_cert_mode name =
     (if HasSuffix name ''.key'' then Some mode_0640 else if HasSuffix name ''.crt'' then Some mode_0644 else None)"

fun agent_permit_files :: "host_env \<Rightarrow> string \<Rightarrow> int \<Rightarrow> string list \<Rightarrow> unit fs_step" where
  "agent_permit_files he dir gid [] = lift_result (Inr ())"
| "agent_permit_files he dir gid (name # names) =
     (let path = filepath_Join [dir, name]
      in and_then (check (wrap_opt (''chown '' @ path @ '': '') (he_Chown he path (he_Uid he path) gid))) (\<lambda>_.
         and_then (case agent_cert_mode name of None \<Rightarrow> lift_result (Inr ()) | Some mode \<Rightarrow> os_Chmod he path mode) (\<lambda>_.
         agent_permit_files he dir gid names)))"

definition agent_EnsureCertPermissions :: "host_env \<Rightarrow> string \<Rightarrow> string \<Rightarrow> unit host_step" where
  "agent_EnsureCertPermissions he dir group1 h =
     (let gid = lookupGID group1 h
      in if gid < 0 then (h, Inl (Errorf (''group '' @ strconv_Quote group1 @ '' not found'')))
         else on_files (agent_permit_files he dir gid (dir_entries (ho_files h) dir)) h)"

definition agent_prepareServiceUser :: "host_env \<Rightarrow> agent_SystemdOptions \<Rightarrow> unit host_step" where
  "agent_prepareServiceUser he opts =
     and_then (\<lambda>h.
       case map_of (ho_users h) (gy_User opts) of
         Some _ \<Rightarrow> (h, Inr ())
       | None \<Rightarrow>
           if gy_SkipUserCreate opts then (h, Inl (no_such_user (gy_User opts)))
           else EnsureServiceUser he (gy_User opts) (gy_Group opts) h) (\<lambda>_.
     and_then (EnsureLunaDirs he (gy_User opts) (gy_Group opts)) (\<lambda>_.
     agent_EnsureCertPermissions he ''/etc/luna/certs'' (gy_Group opts)))"

definition write_unit :: "fs_rules \<Rightarrow> string \<Rightarrow> string \<Rightarrow> unit host_step" where
  "write_unit fr unitPath body =
     and_then (check (wrap_opt ''create unit directory: '' (fr_MkdirAll fr (filepath_Dir unitPath)))) (\<lambda>_.
     on_files (\<lambda>fs. case os_WriteFile fr unitPath body mode_0644 fs of
                 (fs', e) \<Rightarrow> check (wrap_opt (''write '' @ unitPath @ '': '') e) fs'))"

definition installAgentUserUnit :: "host_env \<Rightarrow> agent_SystemdOptions \<Rightarrow> string \<Rightarrow> unit host_step" where
  "installAgentUserUnit he opts body =
     and_then (write_unit (pk_fr (he_pk he)) (gy_UnitPath opts) body) (\<lambda>_.
     if gy_Enable opts
     then and_then (runSystemctlUser he [''daemon-reload'']) (\<lambda>_. runSystemctlUser he [''enable'', ''--now'', agentUnitName])
     else lift_result (Inr ()))"

definition installAgentSystemUnit :: "host_env \<Rightarrow> agent_SystemdOptions \<Rightarrow> string \<Rightarrow> unit host_step" where
  "installAgentSystemUnit he opts body =
     (if he_euid he \<noteq> 0
      then lift_result (Inl (Errorf ''install system systemd unit requires root (sudo luna-agent install systemd --system), or omit --system for a user service''))
      else and_then (agent_prepareServiceUser he opts) (\<lambda>_.
           and_then (write_unit (pk_fr (he_pk he)) (gy_UnitPath opts) body) (\<lambda>_.
           if gy_Enable opts
           then and_then (runSystemctl he [''daemon-reload'']) (\<lambda>_. runSystemctl he [''enable'', ''--now'', agentUnitName])
           else lift_result (Inr ()))))"

definition InstallAgentSystemd :: "('c, 'p) agent_setup_env \<Rightarrow> agent_SystemdOptions \<Rightarrow> unit host_step" where
  "InstallAgentSystemd ax opts0 =
     (let opts = agent_systemd_withDefaults ax opts0; body = RenderAgentUnit ax opts
      in if gy_DryRun opts then lift_result (Inr ())
         else if gy_System opts then installAgentSystemUnit (ax_he ax) opts body
         else installAgentUserUnit (ax_he ax) opts body)"

section \<open>Options\<close>

record agent_Options =
  aq_CertsDir :: string
  aq_ConfigPath :: string
  aq_FromDir :: string
  aq_CAFile :: string
  aq_CAKeyFile :: string
  aq_CertFile :: string
  aq_KeyFile :: string
  aq_ProxyURL :: string
  aq_TargetUser :: string
  aq_TargetHost :: string
  aq_SignerMode :: string
  aq_HostKeyFingerprint :: string
  aq_AgentSocket :: string
  aq_EnrollToken :: string
  aq_CAFingerprint :: string
  aq_EnrollViaProxy :: bool
  aq_FetchCA :: bool
  aq_Force :: bool
  aq_RewriteConfig :: bool
  aq_SkipVerify :: bool
  aq_InstallSystemd :: bool
  aq_SystemdEnable :: bool
  aq_SystemdSystem :: bool
  aq_SkipUserCreate :: bool

definition zero_agent_Options :: agent_Options where
  "zero_agent_Options = \<lparr>aq_CertsDir = [], aq_ConfigPath = [], aq_FromDir = [], aq_CAFile = [], aq_CAKeyFile = [], aq_CertFile = [],
     aq_KeyFile = [], aq_ProxyURL = [], aq_TargetUser = [], aq_TargetHost = [], aq_SignerMode = [], aq_HostKeyFingerprint = [],
     aq_AgentSocket = [], aq_EnrollToken = [], aq_CAFingerprint = [], aq_EnrollViaProxy = False, aq_FetchCA = False, aq_Force = False,
     aq_RewriteConfig = False, aq_SkipVerify = False, aq_InstallSystemd = False, aq_SystemdEnable = False, aq_SystemdSystem = False,
     aq_SkipUserCreate = False\<rparr>"

definition agent_defaultUserConfigDir :: "os_env \<Rightarrow> string" where
  "agent_defaultUserConfigDir os =
     (case os_UserConfigDir os of
        Inr dir \<Rightarrow> filepath_Join [dir, ''luna'']
      | Inl _ \<Rightarrow> filepath_Join [case os_UserHomeDir os of Inr home \<Rightarrow> home | Inl _ \<Rightarrow> [], ''.config'', ''luna''])"

definition agent_defaultUserCertsDir :: "os_env \<Rightarrow> string" where
  "agent_defaultUserCertsDir os = filepath_Join [agent_defaultUserConfigDir os, ''certs'']"

definition agent_options_withDefaults :: "('c, 'p) agent_setup_env \<Rightarrow> agent_Options \<Rightarrow> agent_Options" where
  "agent_options_withDefaults ax o1 =
     (let root = (he_euid (ax_he ax) = 0); os = he_os (ax_he ax)
      in o1\<lparr>aq_CertsDir := or_default (aq_CertsDir o1) (if root then DefaultCertsDir else agent_defaultUserCertsDir os),
           aq_ConfigPath := or_default (aq_ConfigPath o1)
             (if root then agent_DefaultConfigPath else filepath_Join [agent_defaultUserConfigDir os, ''agent.yml'']),
           aq_SignerMode := or_default (aq_SignerMode o1) ''local-ca'',
           aq_AgentSocket := or_default (aq_AgentSocket o1) (DefaultAgentSocket (ax_os ax)),
           aq_EnrollToken := or_default (aq_EnrollToken o1) (TrimSpace (os_Getenv os ''LUNA_MTLS_ENROLL_TOKEN''))\<rparr>)"

section \<open>Asking for a line\<close>

text \<open>Unlike the proxy's, the agent's wizard takes a last line that is not ended.\<close>

definition agent_readLine :: "bytes \<Rightarrow> bytes \<times> string result" where
  "agent_readLine input =
     (if input = [] then ([], Inl io_EOF)
      else (drop 1 (dropWhile (\<lambda>c. c \<noteq> CHR 0x0A) input),
            Inr (TrimRight (takeWhile (\<lambda>c. c \<noteq> CHR 0x0A) input) [CHR 0x0D, CHR 0x0A])))"

lemma agent_readLine_shorter: "agent_readLine input = (rest, Inr line) \<Longrightarrow> length rest < length input"
proof -
  assume r: "agent_readLine input = (rest, Inr line)"
  then have i: "input \<noteq> []" "rest = drop 1 (dropWhile (\<lambda>c. c \<noteq> CHR 0x0A) input)"
    by (auto simp: agent_readLine_def split: if_splits)
  have "length (dropWhile (\<lambda>c. c \<noteq> CHR 0x0A) input) \<le> length input" by (rule length_dropWhile_le)
  moreover have "0 < length input" using i(1) by simp
  ultimately show ?thesis using i(2) by (simp only: length_drop)
qed

function agent_askString :: "string \<Rightarrow> bytes \<Rightarrow> bytes \<times> string result" where
  "agent_askString defaultVal input =
     (case agent_readLine input of
        (rest, Inl err) \<Rightarrow> (rest, Inl err)
      | (rest, Inr line) \<Rightarrow>
          if TrimSpace line = [] then if defaultVal \<noteq> [] then (rest, Inr defaultVal) else agent_askString defaultVal rest
          else (rest, Inr (TrimSpace line)))"
  by pat_completeness auto
termination
  by (relation "measure (\<lambda>(_, input). length input)") (auto dest: agent_readLine_shorter [OF sym])

declare agent_askString.simps [simp del]

section \<open>The whole\<close>

text \<open>The token that was given, or typed when there is someone to ask; the options it returns are those
  that \<open>*opts\<close> holds afterwards.\<close>

definition ensureEnrollToken :: "('c, 'p) agent_setup_env \<Rightarrow> agent_Options \<Rightarrow> ('p, agent_Options) agent_step" where
  "ensureEnrollToken ax opts0 =
     (let opts = agent_options_withDefaults ax opts0
      in if aq_EnrollToken opts \<noteq> [] then lift_result (Inr opts)
         else if \<not> ax_IsInteractive ax
         then lift_result (Inl (Errorf (lines_text
           [''enroll token required '' @ [CHR 0xE2, CHR 0x80, CHR 0x94] @ '' on the proxy set mtls_enroll_token in proxy.yml, then run:'',
            ''  luna-agent setup --enroll-token '' @ [CHR 0x27] @ ''<token>'' @ [CHR 0x27],
            ''Or: export LUNA_MTLS_ENROLL_TOKEN='' @ [CHR 0x27] @ ''<token>'' @ [CHR 0x27]])))
         else and_then (on_input (agent_askString [])) (\<lambda>token.
              if TrimSpace token = [] then lift_result (Inl (Errorf ''enroll token required''))
              else lift_result (Inr (opts\<lparr>aq_EnrollToken := TrimSpace token\<rparr>))))"

record VerifyOptions =
  vo_ProxyURL :: string
  vo_CertsDir :: string
  vo_SignerMode :: string
  vo_Timeout :: duration

definition VerifyProxy :: "('c, 'p) agent_setup_env \<Rightarrow> VerifyOptions \<Rightarrow> files \<Rightarrow> unit result" where
  "VerifyProxy ax opts fs =
     (let timeout = (if vo_Timeout opts \<le> 0 then 30 * second else vo_Timeout opts); dir = or_default (vo_CertsDir opts) DefaultCertsDir
      in case sdk_LoadTLSConfig (ax_LoadX509KeyPair ax fs) (ax_AppendCertsFromPEM ax) (read_from (ax_fr ax) fs)
                (filepath_Join [dir, ''client.crt'']) (filepath_Join [dir, ''client.key'']) (filepath_Join [dir, ''ca.crt'']) of
           Inl err \<Rightarrow> Inl err
         | Inr (tlsCert, tlsCA) \<Rightarrow>
     (case sdk_NewClient (ax_sx ax) \<lparr>kf_ProxyURL = vo_ProxyURL opts, kf_TLSCert = tlsCert, kf_TLSRootCAs = tlsCA, kf_Timeout = timeout,
             kf_SignerMode = vo_SignerMode opts\<rparr> of
        Inl err \<Rightarrow> Inl err
      | Inr client \<Rightarrow>
          (case sdk_FetchCapabilities (ax_sx ax) (ax_nw ax) client [] of (_, Inl err) \<Rightarrow> Inl err | (_, Inr _) \<Rightarrow> Inr ())))"

text \<open>Step 1: the material that was given, and the CA.\<close>

definition install_material :: "('c, 'p) agent_setup_env \<Rightarrow> agent_Options \<Rightarrow> ('p, unit) agent_step" where
  "install_material ax opts =
     (let fr = ax_fr ax; dir = aq_CertsDir opts; inst = (\<lambda>src name mode. on_disk (InstallFile fr src (filepath_Join [dir, name]) mode (aq_Force opts)))
      in and_then (if aq_FromDir opts \<noteq> [] then on_disk (InstallFromDir fr (aq_FromDir opts) dir (aq_Force opts)) else lift_result (Inr ())) (\<lambda>_.
         and_then (if aq_CAFile opts \<noteq> [] then inst (aq_CAFile opts) ''ca.crt'' mode_0644
                   else if aq_FetchCA opts
                   then and_then (wrapped ''fetch CA: '' (agent_FetchCA ax
                          \<lparr>bo_ProxyURL = aq_ProxyURL opts, bo_CertsDir = dir, bo_EnrollToken = [], bo_CAFingerprint = aq_CAFingerprint opts,
                           bo_Timeout = 0, bo_InsecureSkipVerify = True, bo_RefreshCA = False\<rparr>)) (\<lambda>_. lift_result (Inr ()))
                   else lift_result (Inr ())) (\<lambda>_.
         and_then (if aq_CertFile opts \<noteq> [] then inst (aq_CertFile opts) ''client.crt'' mode_0644 else lift_result (Inr ())) (\<lambda>_.
         and_then (if aq_KeyFile opts \<noteq> [] then inst (aq_KeyFile opts) ''client.key'' mode_0600 else lift_result (Inr ())) (\<lambda>_.
         if aq_CAKeyFile opts \<noteq> [] then inst (aq_CAKeyFile opts) ''ca.key'' mode_0400 else lift_result (Inr ()))))))"

text \<open>Step 2: a key, unless there is one.\<close>

definition client_key :: "('c, 'p) agent_setup_env \<Rightarrow> agent_Options \<Rightarrow> ('p, unit) agent_step" where
  "client_key ax opts = with_files (\<lambda>fs.
     if file_exists fs (filepath_Join [aq_CertsDir opts, ''client.key'']) then lift_result (Inr ())
     else and_then (on_disk (GenerateClientKey ax
            \<lparr>cl_Dir = aq_CertsDir opts, cl_Force = aq_Force opts, cl_CommonName = [], cl_Organization = [], cl_ValidityDays = 0\<rparr>))
            (\<lambda>_. lift_result (Inr ())))"

definition no_certificate :: "agent_Options \<Rightarrow> go_error" where
  "no_certificate opts = Errorf (lines_text
     [''step 3/5: client.crt missing '' @ [CHR 0xE2, CHR 0x80, CHR 0x94] @ '' enroll via proxy (recommended):'',
      ''  # on proxy: set mtls_enroll_token in proxy.yml and restart luna-proxy'',
      ''  luna-agent setup --proxy-url '' @ aq_ProxyURL opts @ '' --enroll-token '' @ [CHR 0x27] @ ''<token>'' @ [CHR 0x27], [],
      ''Or sign on the proxy host:'',
      ''  openssl x509 -req -in '' @ aq_CertsDir opts @ ''/client.csr.pem -CA '' @ aq_CertsDir opts @ ''/ca.crt -CAkey /path/to/ca.key '' @ [CHR 0x5C],
      ''    -CAcreateserial -out client.crt -days 3650 -sha256 '' @ [CHR 0x5C],
      ''    -extfile <(printf '' @ [CHR 0x27] @ ''keyUsage=digitalSignature'' @ [CHR 0x5C] @ ''nextendedKeyUsage=clientAuth'' @ [CHR 0x5C] @ ''n'' @ [CHR 0x27] @ '')'',
      ''  scp client.crt this-host:'' @ aq_CertsDir opts @ ''/client.crt'', ''Or re-run with --ca-key /path/to/ca.key''])"

text \<open>Step 3: a certificate, unless there is one; the options may have got a token.\<close>

definition client_certificate :: "('c, 'p) agent_setup_env \<Rightarrow> agent_Options \<Rightarrow> ('p, agent_Options) agent_step" where
  "client_certificate ax opts = with_files (\<lambda>fs.
     let dir = aq_CertsDir opts; there = (\<lambda>name. file_exists fs (filepath_Join [dir, name]));
         caKey = or_default (aq_CAKeyFile opts) (filepath_Join [dir, ''ca.key''])
     in if there ''client.crt'' then lift_result (Inr opts)
        else if file_exists fs caKey \<and> there ''client.csr.pem''
        then and_then (on_disk (SignClientCSR ax dir 0 (aq_Force opts))) (\<lambda>_. lift_result (Inr opts))
        else if aq_ProxyURL opts \<noteq> [] \<and> there ''ca.crt'' \<and> there ''client.csr.pem''
        then and_then (wrapped ''step 3/5: '' (ensureEnrollToken ax opts)) (\<lambda>opts.
             \<lambda>s. case EnrollClientCSR ax
                     \<lparr>bo_ProxyURL = aq_ProxyURL opts, bo_CertsDir = aq_CertsDir opts, bo_EnrollToken = aq_EnrollToken opts, bo_CAFingerprint = [],
                      bo_Timeout = 0, bo_InsecureSkipVerify = False, bo_RefreshCA = False\<rparr> s of
                   (s', Inl err) \<Rightarrow> (s', Inl (Wrapf ''step 3/5: proxy enroll failed: '' (formatEnrollError err (aq_CertsDir opts)) ''''))
                 | (s', Inr _) \<Rightarrow> (s', Inr opts))
        else lift_result (Inl (no_certificate opts)))"

record agent_setup_Result =
  as_CertsDir :: string
  as_ConfigPath :: string

text \<open>Steps 4 and 5: the configuration file, the check, the service.\<close>

definition config_verify_install :: "('c, 'p) agent_setup_env \<Rightarrow> agent_Options \<Rightarrow> ('p, agent_setup_Result) agent_step" where
  "config_verify_install ax opts =
     and_then (on_disk (WriteAgentConfig ax
       \<lparr>cg_Path = aq_ConfigPath opts, cg_ProxyURL = aq_ProxyURL opts, cg_SignerMode = aq_SignerMode opts, cg_CertsDir = aq_CertsDir opts,
        cg_TargetUser = aq_TargetUser opts, cg_TargetHost = aq_TargetHost opts, cg_AgentSocket = aq_AgentSocket opts,
        cg_HostKeyFingerprint = aq_HostKeyFingerprint opts, cg_Force = aq_Force opts \<or> aq_RewriteConfig opts\<rparr>)) (\<lambda>cfgPath.
     and_then (if aq_SkipVerify opts then lift_result (Inr ())
               else with_files (\<lambda>fs. lift_result (wrap_err ''verify proxy: '' (VerifyProxy ax
                 \<lparr>vo_ProxyURL = aq_ProxyURL opts, vo_CertsDir = aq_CertsDir opts, vo_SignerMode = aq_SignerMode opts, vo_Timeout = 0\<rparr> fs)))) (\<lambda>_.
     and_then (if aq_InstallSystemd opts
               then on_host (InstallAgentSystemd ax
                 \<lparr>gy_BinaryPath = [], gy_ConfigPath = aq_ConfigPath opts, gy_User = [], gy_Group = [], gy_UnitPath = [], gy_DryRun = False,
                  gy_Enable = aq_SystemdEnable opts, gy_SkipUserCreate = aq_SkipUserCreate opts, gy_System = aq_SystemdSystem opts\<rparr>)
               else lift_result (Inr ())) (\<lambda>_.
     lift_result (Inr \<lparr>as_CertsDir = aq_CertsDir opts, as_ConfigPath = cfgPath\<rparr>))))"

definition agent_setup_Run :: "('c, 'p) agent_setup_env \<Rightarrow> agent_Options \<Rightarrow> ('p, agent_setup_Result) agent_step" where
  "agent_setup_Run ax opts0 =
     (let opts = agent_options_withDefaults ax opts0
      in and_then (if aq_ProxyURL opts \<noteq> [] then wrapped ''proxy unreachable: '' (ProbeProxyURL ax (aq_ProxyURL opts) defaultProbeTimeout)
                   else lift_result (Inr ())) (\<lambda>_.
         and_then (check (wrap_opt ''create certs dir: '' (fr_MkdirAll (ax_fr ax) (aq_CertsDir opts)))) (\<lambda>_.
         and_then (install_material ax opts) (\<lambda>_.
         and_then (client_key ax opts) (\<lambda>_.
         and_then (client_certificate ax opts) (\<lambda>opts.
         with_files (\<lambda>fs.
         if \<not> clientMaterialReady fs (aq_CertsDir opts)
         then lift_result (Inl (Errorf (''incomplete mTLS material under '' @ aq_CertsDir opts)))
         else config_verify_install ax opts)))))))"

end
