(* ===== verification/Agent_Wizard.thy ===== *)
theory Agent_Wizard
  imports Agent_Setup
begin

text \<open>
  The agent's set-up wizard (\<open>agent/internal/setup/interactive.go\<close>) and the commands \<open>luna-agent setup\<close>
  and \<open>luna-agent install systemd\<close> (\<open>agent/cmd/luna-agent\<close>). The labels of the questions and what else
  is printed are left out.
\<close>

section \<open>Questions\<close>

definition askOptionalString :: "string \<Rightarrow> bytes \<Rightarrow> bytes \<times> string result" where
  "askOptionalString defaultVal =
     and_then agent_readLine (\<lambda>line. lift_result (Inr (or_default (TrimSpace line) defaultVal)))"

definition askOptionalPath :: "bytes \<Rightarrow> bytes \<times> string result" where
  "askOptionalPath = and_then agent_readLine (\<lambda>line. lift_result (Inr (TrimSpace line)))"

function agent_askYesNo :: "bool \<Rightarrow> bytes \<Rightarrow> bytes \<times> bool result" where
  "agent_askYesNo defaultYes input =
     (case agent_readLine input of
        (rest, Inl err) \<Rightarrow> (rest, Inl err)
      | (rest, Inr line0) \<Rightarrow>
          (let line = ToLower_ascii (TrimSpace line0)
           in if line = [] then (rest, Inr defaultYes)
              else if line = ''y'' \<or> line = ''yes'' then (rest, Inr True)
              else if line = ''n'' \<or> line = ''no'' then (rest, Inr False)
              else agent_askYesNo defaultYes rest))"
  by pat_completeness auto
termination
  by (relation "measure (\<lambda>(_, input). length input)") (auto dest: agent_readLine_shorter [OF sym])

function askIndex :: "nat \<Rightarrow> nat \<Rightarrow> bytes \<Rightarrow> bytes \<times> nat result" where
  "askIndex n defaultIdx input =
     (case agent_readLine input of
        (rest, Inl err) \<Rightarrow> (rest, Inl err)
      | (rest, Inr line0) \<Rightarrow>
          (let line = TrimSpace line0
           in if line = [] then (rest, Inr defaultIdx)
              else case Sscanf_d line of
                     None \<Rightarrow> askIndex n defaultIdx rest
                   | Some i \<Rightarrow> if i < 1 \<or> int n < i then askIndex n defaultIdx rest else (rest, Inr (nat (i - 1)))))"
  by pat_completeness auto
termination
  by (relation "measure (\<lambda>(_, _, input). length input)") (auto dest: agent_readLine_shorter [OF sym])

declare agent_askYesNo.simps [simp del] askIndex.simps [simp del]

fun index_of :: "'a \<Rightarrow> 'a list \<Rightarrow> nat option" where
  "index_of x [] = None"
| "index_of x (y # ys) = (if y = x then Some 0 else map_option Suc (index_of x ys))"

definition agent_askChoice :: "string list \<Rightarrow> string \<Rightarrow> bytes \<Rightarrow> bytes \<times> string result" where
  "agent_askChoice choices defaultVal =
     and_then (askIndex (length choices) (case index_of defaultVal choices of Some i \<Rightarrow> i | None \<Rightarrow> 0))
       (\<lambda>idx. lift_result (Inr (choices ! idx)))"

section \<open>What is there already\<close>

record ExistingState =
  es_ConfigPath :: string
  es_CertsDir :: string
  es_HasConfig :: bool
  es_HasCA :: bool
  es_HasCert :: bool
  es_HasKey :: bool
  es_HasCSR :: bool
  es_Options :: agent_Options

definition loadExistingConfig :: "'v viper_lib \<Rightarrow> files \<Rightarrow> string \<Rightarrow> agent_Options" where
  "loadExistingConfig vl fs path =
     (if path = [] \<or> \<not> file_exists fs path then zero_agent_Options
      else case vl_ReadInConfig vl path (vl_New vl) of
             Inl _ \<Rightarrow> zero_agent_Options
           | Inr v \<Rightarrow>
               (let p = TrimSpace (vl_GetString vl ''mtls_ca'' v)
                in zero_agent_Options\<lparr>aq_ProxyURL := vl_GetString vl ''proxy_url'' v, aq_SignerMode := vl_GetString vl ''signer_mode'' v,
                     aq_TargetUser := vl_GetString vl ''target_user'' v, aq_TargetHost := vl_GetString vl ''target_host'' v,
                     aq_HostKeyFingerprint := vl_GetString vl ''host_key_fingerprint'' v, aq_AgentSocket := vl_GetString vl ''agent_socket'' v,
                     aq_CertsDir := (if p \<noteq> [] then filepath_Dir p else DefaultCertsDir), aq_ConfigPath := path\<rparr>))"

definition rescanCerts :: "files \<Rightarrow> string \<Rightarrow> ExistingState \<Rightarrow> ExistingState" where
  "rescanCerts fs dir state =
     state\<lparr>es_CertsDir := dir, es_HasCA := file_exists fs (filepath_Join [dir, ''ca.crt'']),
       es_HasCert := file_exists fs (filepath_Join [dir, ''client.crt'']), es_HasKey := file_exists fs (filepath_Join [dir, ''client.key'']),
       es_HasCSR := file_exists fs (filepath_Join [dir, ''client.csr.pem''])\<rparr>"

definition scanExisting :: "('c, 'p) agent_setup_env \<Rightarrow> 'v viper_lib \<Rightarrow> files \<Rightarrow> agent_Options \<Rightarrow> ExistingState" where
  "scanExisting ax vl fs prefill0 =
     (let prefill = agent_options_withDefaults ax prefill0; ex = loadExistingConfig vl fs (aq_ConfigPath prefill);
          dir = or_default (aq_CertsDir ex) (aq_CertsDir prefill)
      in (rescanCerts fs dir
           \<lparr>es_ConfigPath = aq_ConfigPath prefill, es_CertsDir = dir, es_HasConfig = False, es_HasCA = False, es_HasCert = False,
            es_HasKey = False, es_HasCSR = False, es_Options = ex\<rparr>)\<lparr>es_HasConfig := file_exists fs (aq_ConfigPath prefill)\<rparr>)"

definition material_complete :: "ExistingState \<Rightarrow> bool" where
  "material_complete s \<longleftrightarrow> es_HasCA s \<and> es_HasCert s \<and> es_HasKey s"

definition needsEnrollResume :: "ExistingState \<Rightarrow> bool" where
  "needsEnrollResume s \<longleftrightarrow> es_HasKey s \<and> es_HasCSR s \<and> \<not> es_HasCert s"

section \<open>The wizard\<close>

text \<open>When another address is not wanted, the error that is wrapped is the one of that question, which is
  nil: the text ends in what \<open>fmt\<close> prints for a nil operand.\<close>

definition unreachable :: go_error where
  "unreachable = Errorf ''proxy unreachable: %!w(<nil>)''"

lemma agent_askString_shorter: "agent_askString d input = (rest, Inr x) \<Longrightarrow> length rest < length input"
proof (induction d input rule: agent_askString.induct)
  case (1 d input)
  obtain r1 y where rl: "agent_readLine input = (r1, y)" by fastforce
  note u = "1.prems" [unfolded agent_askString.simps [of d input] rl prod.case]
  then obtain line where y: "y = Inr line" by (cases y) simp_all
  have short: "length r1 < length input" using agent_readLine_shorter rl y by blast
  note u = u [unfolded y sum.case]
  show ?case
  proof (cases "TrimSpace line = [] \<and> d = []")
    case True
    with u have "agent_askString d r1 = (rest, Inr x)" by simp
    from "1.IH" [OF rl [symmetric] y _ _ this] True short show ?thesis by simp
  next
    case False
    with u short show ?thesis by (auto split: if_splits)
  qed
qed

lemma agent_askYesNo_shorter: "agent_askYesNo d input = (rest, Inr x) \<Longrightarrow> length rest < length input"
proof (induction d input rule: agent_askYesNo.induct)
  case (1 d input)
  obtain r1 y where rl: "agent_readLine input = (r1, y)" by fastforce
  note u = "1.prems" [unfolded agent_askYesNo.simps [of d input] rl prod.case]
  then obtain line where y: "y = Inr line" by (cases y) simp_all
  have short: "length r1 < length input" using agent_readLine_shorter rl y by blast
  note u = u [unfolded y sum.case Let_def]
  let ?l = "ToLower_ascii (TrimSpace line)"
  show ?case
  proof (cases "?l = [] \<or> ?l = ''y'' \<or> ?l = ''yes'' \<or> ?l = ''n'' \<or> ?l = ''no''")
    case True
    with u short show ?thesis by auto
  next
    case False
    with u have "agent_askYesNo d r1 = (rest, Inr x)" by simp
    from "1.IH" [OF rl [symmetric] y refl _ _ _ this] False short show ?thesis by simp
  qed
qed

lemma probe_paths_input: "st_input (fst (probe_paths ax url timeout paths e s)) = st_input s"
proof (induction paths arbitrary: e s)
  case (Cons path paths)
  obtain s1 r where d: "bootstrap_Do ax NoVerify timeout (get_request (url @ path)) s = (s1, r)" by fastforce
  then have "st_input s1 = st_input s"
    using bootstrap_Do_frame [of ax NoVerify timeout "get_request (url @ path)" s] by auto
  with Cons d show ?case by (simp split: sum.split)
qed simp

lemma ProbeProxyURL_input: "ProbeProxyURL ax url timeout s = (s', r) \<Longrightarrow> st_input s' = st_input s"
  unfolding ProbeProxyURL_def Let_def lift_result_def
  by (auto split: if_splits dest: arg_cong [of _ _ "\<lambda>x. st_input (fst x)"] simp: probe_paths_input simp del: probe_paths.simps)

lemma on_input_shorter:
  assumes "on_input m s = (s', Inr x)" "\<And>i rest x. m i = (rest, Inr x) \<Longrightarrow> length rest < length i"
  shows "length (st_input s') < length (st_input s)"
  using assms by (auto simp: on_input_def split: prod.splits)

text \<open>The loop ends because each of its rounds reads a line.\<close>

function promptProxyURL :: "('c, 'p) agent_setup_env \<Rightarrow> string \<Rightarrow> ('p, string) agent_step" where
  "promptProxyURL ax defaultURL s =
     (case on_input (agent_askString defaultURL) s of
        (s1, Inl err) \<Rightarrow> (s1, Inl err)
      | (s1, Inr url0) \<Rightarrow>
     (case ProbeProxyURL ax (TrimSpace url0) defaultProbeTimeout s1 of
        (s2, Inr _) \<Rightarrow> (s2, Inr (TrimSpace url0))
      | (s2, Inl _) \<Rightarrow>
     (case on_input (agent_askYesNo True) s2 of
        (s3, Inl err) \<Rightarrow> (s3, Inl err)
      | (s3, Inr retry) \<Rightarrow> if retry then promptProxyURL ax (TrimSpace url0) s3 else (s3, Inl unreachable))))"
  by pat_completeness auto
termination
proof (relation "measure (\<lambda>(_, _, s). length (st_input s))", simp)
  fix ax :: "('c, 'p) agent_setup_env" and d s s1 y url0 s2 z u s3 w retry
  assume "(s1, y) = on_input (agent_askString d) s" "y = Inr url0"
    "(s2, z) = ProbeProxyURL ax (TrimSpace url0) defaultProbeTimeout s1" "z = Inl u"
    "(s3, w) = on_input (agent_askYesNo True) s2" "w = Inr retry" retry
  then have a: "on_input (agent_askString d) s = (s1, Inr url0)" "ProbeProxyURL ax (TrimSpace url0) defaultProbeTimeout s1 = (s2, z)"
    "on_input (agent_askYesNo True) s2 = (s3, Inr retry)" by simp_all
  have "length (st_input s1) < length (st_input s)" by (rule on_input_shorter [OF a(1)], erule agent_askString_shorter)
  moreover have "length (st_input s3) < length (st_input s2)" by (rule on_input_shorter [OF a(3)], erule agent_askYesNo_shorter)
  ultimately show "((ax, TrimSpace url0, s3), (ax, d, s)) \<in> measure (\<lambda>(_, _, s). length (st_input s))"
    using ProbeProxyURL_input [OF a(2)] by simp
qed

declare promptProxyURL.simps [simp del]

definition promptEnrollToken :: "string \<Rightarrow> bytes \<Rightarrow> bytes \<times> string result" where
  "promptEnrollToken defaultVal = agent_askString defaultVal"

text \<open>Where the certificate shall come from.\<close>

definition applyCertStrategy :: "agent_Options \<Rightarrow> bytes \<Rightarrow> bytes \<times> agent_Options result" where
  "applyCertStrategy o1 =
     and_then (askIndex 4 0) (\<lambda>idx.
     if idx = 0
     then and_then (agent_askString []) (\<lambda>dir.
          if TrimSpace dir = [] then lift_result (Inl (Errorf ''source directory required''))
          else lift_result (Inr (o1\<lparr>aq_FromDir := TrimSpace dir\<rparr>)))
     else if idx = 1
     then and_then (agent_askString []) (\<lambda>ca. and_then (agent_askString []) (\<lambda>caKey.
          lift_result (Inr (o1\<lparr>aq_CAFile := TrimSpace ca, aq_CAKeyFile := TrimSpace caKey, aq_Force := True\<rparr>))))
     else if idx = 2
     then and_then (askOptionalString (firstNonEmpty [aq_CAFile o1])) (\<lambda>ca.
          and_then (promptEnrollToken (firstNonEmpty [aq_EnrollToken o1])) (\<lambda>token.
          lift_result (Inr (o1\<lparr>aq_CAFile := TrimSpace ca, aq_FetchCA := (if TrimSpace ca = [] then True else aq_FetchCA o1),
            aq_EnrollToken := TrimSpace token, aq_EnrollViaProxy := True, aq_Force := True\<rparr>))))
     else and_then askOptionalPath (\<lambda>ca. and_then askOptionalPath (\<lambda>cert. and_then askOptionalPath (\<lambda>key.
          lift_result (Inr (o1\<lparr>aq_CAFile := ca, aq_CertFile := cert, aq_KeyFile := key\<rparr>))))))"

definition ask_material :: "ExistingState \<Rightarrow> agent_Options \<Rightarrow> bytes \<Rightarrow> bytes \<times> agent_Options result" where
  "ask_material state opts =
     (if needsEnrollResume state
      then and_then (promptEnrollToken (firstNonEmpty [aq_EnrollToken opts])) (\<lambda>token.
           lift_result (Inr (opts\<lparr>aq_EnrollViaProxy := True, aq_Force := True, aq_FetchCA := True, aq_EnrollToken := TrimSpace token\<rparr>)))
      else if material_complete state
      then and_then (agent_askYesNo True) (\<lambda>useExisting.
           if useExisting then lift_result (Inr opts) else applyCertStrategy (opts\<lparr>aq_Force := True\<rparr>))
      else applyCertStrategy opts)"

definition agent_ask_service :: "('c, 'p) agent_setup_env \<Rightarrow> bool \<Rightarrow> agent_Options \<Rightarrow> bytes \<Rightarrow> bytes \<times> agent_Options result" where
  "agent_ask_service ax suggested opts =
     and_then (agent_askYesNo suggested) (\<lambda>inst.
     if \<not> inst then lift_result (Inr (opts\<lparr>aq_InstallSystemd := False\<rparr>))
     else and_then (agent_askYesNo True) (\<lambda>enable.
          if he_euid (ax_he ax) = 0
          then and_then (agent_askYesNo False) (\<lambda>system.
               lift_result (Inr (opts\<lparr>aq_InstallSystemd := True, aq_SystemdEnable := enable, aq_SystemdSystem := system\<rparr>)))
          else lift_result (Inr (opts\<lparr>aq_InstallSystemd := True, aq_SystemdEnable := enable\<rparr>))))"

text \<open>The questions about the target and the paths.\<close>

definition ask_target :: "('c, 'p) agent_setup_env \<Rightarrow> ExistingState \<Rightarrow> agent_Options \<Rightarrow> bytes \<Rightarrow> bytes \<times> agent_Options result" where
  "ask_target ax state o1 =
     (let ex = es_Options state
      in and_then (agent_askChoice [''local-ca'', ''local-key''] (firstNonEmpty [aq_SignerMode o1, aq_SignerMode ex, ''local-ca''])) (\<lambda>signer.
         and_then (agent_askString (firstNonEmpty [aq_TargetUser o1, aq_TargetUser ex, ''deploy''])) (\<lambda>user.
         and_then (agent_askString (firstNonEmpty [aq_TargetHost o1, aq_TargetHost ex])) (\<lambda>host.
         and_then (agent_askString (firstNonEmpty [aq_CertsDir o1, aq_CertsDir ex, es_CertsDir state])) (\<lambda>certs.
         and_then (agent_askString (firstNonEmpty [aq_ConfigPath o1, aq_ConfigPath ex, es_ConfigPath state])) (\<lambda>cfg.
         and_then (agent_askString (firstNonEmpty [aq_AgentSocket o1, aq_AgentSocket ex, DefaultAgentSocket (ax_os ax)])) (\<lambda>sock.
         let o2 = o1\<lparr>aq_SignerMode := signer, aq_TargetUser := user, aq_TargetHost := host, aq_CertsDir := filepath_Clean certs,
                    aq_ConfigPath := cfg, aq_AgentSocket := sock\<rparr>
         in if TrimSpace host = [] then lift_result (Inl (Errorf ''SSH target host/IP is required''))
            else if TrimSpace user = [] then lift_result (Inl (Errorf ''SSH target user is required''))
            else if signer = ''local-key''
            then and_then (askOptionalString (firstNonEmpty [aq_HostKeyFingerprint o1, aq_HostKeyFingerprint ex])) (\<lambda>fp.
                 lift_result (Inr (o2\<lparr>aq_HostKeyFingerprint := TrimSpace fp\<rparr>)))
            else lift_result (Inr o2))))))))"

definition agent_RunInteractive ::
  "('c, 'p) agent_setup_env \<Rightarrow> 'v viper_lib \<Rightarrow> agent_Options \<Rightarrow> bool \<Rightarrow> ('p, agent_Options) agent_step" where
  "agent_RunInteractive ax vl prefill assumeYes = with_files (\<lambda>fs.
     let state = scanExisting ax vl fs prefill; o0 = agent_options_withDefaults ax prefill
     in and_then (promptProxyURL ax (firstNonEmpty [aq_ProxyURL o0, aq_ProxyURL (es_Options state)])) (\<lambda>url.
        and_then (on_input (ask_target ax state (o0\<lparr>aq_ProxyURL := url\<rparr>))) (\<lambda>o1.
        and_then (on_input (ask_material (rescanCerts fs (aq_CertsDir o1) state) o1)) (\<lambda>o2.
        and_then (on_input (agent_ask_service ax (\<not> es_HasConfig state \<or> assumeYes) o2)) (\<lambda>o3.
        and_then (on_input (agent_askYesNo True)) (\<lambda>verify.
        let o4 = o3\<lparr>aq_SkipVerify := \<not> verify, aq_RewriteConfig := True\<rparr>
        in if assumeYes then lift_result (Inr (agent_options_withDefaults ax o4))
           else and_then (on_input (agent_askYesNo True)) (\<lambda>ok.
                lift_result (if ok then Inr (agent_options_withDefaults ax o4) else Inl (Errorf ''setup cancelled'')))))))))"

section \<open>Commands\<close>

text \<open>The flags are the variables they are bound to.\<close>

record agent_setup_flags =
  af_string :: "string \<Rightarrow> string"
  af_bool :: "string \<Rightarrow> bool"

definition agent_flagsToSetupOptions :: "agent_setup_flags \<Rightarrow> agent_Options" where
  "agent_flagsToSetupOptions af =
     zero_agent_Options\<lparr>aq_CertsDir := af_string af ''setupCertsDir'', aq_ConfigPath := af_string af ''setupConfigPath'',
       aq_FromDir := af_string af ''setupFromDir'', aq_CAFile := af_string af ''setupCAFile'', aq_CAKeyFile := af_string af ''setupCAKeyFile'',
       aq_CertFile := af_string af ''setupCertFile'', aq_KeyFile := af_string af ''setupKeyFile'', aq_ProxyURL := af_string af ''setupProxyURL'',
       aq_TargetUser := af_string af ''setupTargetUser'', aq_TargetHost := af_string af ''setupTargetHost'',
       aq_SignerMode := af_string af ''setupSignerMode'', aq_HostKeyFingerprint := af_string af ''setupHostKeyFingerprint'',
       aq_AgentSocket := af_string af ''setupAgentSocket'', aq_EnrollToken := af_string af ''setupEnrollToken'',
       aq_CAFingerprint := af_string af ''setupCAFingerprint'', aq_FetchCA := af_bool af ''setupFetchCA'', aq_Force := af_bool af ''setupForce'',
       aq_SkipVerify := af_bool af ''setupSkipVerify'', aq_InstallSystemd := af_bool af ''setupInstallSystemd'',
       aq_SystemdEnable := af_bool af ''setupSystemdEnable'', aq_SystemdSystem := af_bool af ''setupSystemdSystem'',
       aq_SkipUserCreate := af_bool af ''setupSkipUserCreate''\<rparr>"

definition validateNonInteractive :: "agent_Options \<Rightarrow> go_error option" where
  "validateNonInteractive opts =
     (if aq_ProxyURL opts = [] then Some (Errorf ''--proxy-url is required in non-interactive mode (or run interactively: luna-agent setup)'')
      else if aq_TargetUser opts = [] then Some (Errorf ''--target-user is required in non-interactive mode'')
      else if aq_TargetHost opts = [] then Some (Errorf ''--target-host is required in non-interactive mode'')
      else None)"

definition advise_replace :: "'a result \<Rightarrow> 'a result" where
  "advise_replace r =
     (case r of
        Inl err \<Rightarrow> Inl (if errors_Is err agent_ErrExists
                         then Wrapf [] err ('' '' @ [CHR 0xE2, CHR 0x80, CHR 0x94] @ '' choose to replace in wizard or use --force'') else err)
      | Inr x \<Rightarrow> Inr x)"

definition agent_runSetupAll :: "('c, 'p) agent_setup_env \<Rightarrow> 'v viper_lib \<Rightarrow> agent_setup_flags \<Rightarrow> ('p, agent_setup_Result) agent_step" where
  "agent_runSetupAll ax vl af =
     (let opts = agent_flagsToSetupOptions af
      in and_then (if \<not> af_bool af ''setupNonInteractive'' \<and> ax_IsInteractive ax
                   then agent_RunInteractive ax vl opts (af_bool af ''setupAssumeYes'')
                   else and_then (check (validateNonInteractive opts)) (\<lambda>_. lift_result (Inr opts))) (\<lambda>opts s.
         if aq_InstallSystemd opts \<and> aq_SystemdSystem opts \<and> he_euid (ax_he ax) \<noteq> 0
         then (s, Inl (Errorf ''install system systemd unit requires root (sudo luna-agent setup --install-systemd --system), or omit --system for a user service''))
         else case agent_setup_Run ax opts s of (s', r) \<Rightarrow> (s', advise_replace r)))"

definition agent_runInstallSystemd :: "('c, 'p) agent_setup_env \<Rightarrow> agent_setup_flags \<Rightarrow> unit host_step" where
  "agent_runInstallSystemd ax af =
     InstallAgentSystemd ax
       \<lparr>gy_BinaryPath = af_string af ''installBinary'', gy_ConfigPath = af_string af ''installConfig'', gy_User = af_string af ''installUser'',
        gy_Group = af_string af ''installGroup'', gy_UnitPath = af_string af ''installUnit'', gy_DryRun = af_bool af ''installDryRun'',
        gy_Enable = af_bool af ''installEnable'', gy_SkipUserCreate = af_bool af ''installSkipUser'', gy_System = af_bool af ''installSystem''\<rparr>"

end
