(* ===== verification/Setup_Safety.thy ===== *)
theory Setup_Safety
  imports Agent_Wizard
begin

text \<open>
  What setting up an agent leaves alone: a CA that was downloaded is the one with the announced
  fingerprint, the enrolment token leaves for a server whose certificate was checked and from there
  goes only where redirects lead, and a client's key and certificate that are there stay,
  whatever the options.
\<close>

section \<open>Invariants of steps\<close>

definition preserves :: "('s \<Rightarrow> bool) \<Rightarrow> ('s \<Rightarrow> 's \<times> 'a) \<Rightarrow> bool" where
  "preserves Q m \<longleftrightarrow> (\<forall>s. Q s \<longrightarrow> Q (fst (m s)))"

named_theorems preserves_intros

lemma preservesD: "preserves Q m \<Longrightarrow> m s = (s', r) \<Longrightarrow> Q s \<Longrightarrow> Q s'"
  unfolding preserves_def by (metis fst_conv)

lemma preserves_and_then [preserves_intros]:
  assumes "preserves Q m" "\<And>x. preserves Q (k x)" shows "preserves Q (and_then m k)"
proof -
  have "Q (fst (and_then m k s))" if "Q s" for s
  proof (cases "m s")
    case (Pair s1 r)
    then have q: "Q s1" using preservesD [OF assms(1)] that by blast
    then have "Q (fst (k x s1))" for x using assms(2) unfolding preserves_def by blast
    with q Pair show ?thesis by (cases r) (simp_all add: and_then_def)
  qed
  then show ?thesis by (simp add: preserves_def)
qed

lemma preserves_lift [preserves_intros]: "preserves Q (lift_result r)"
  by (simp add: preserves_def lift_result_def)

lemma preserves_check [preserves_intros]: "preserves Q (check e)"
  by (simp add: preserves_def check_def)

lemma preserves_wrapped [preserves_intros]: "preserves Q m \<Longrightarrow> preserves Q (wrapped what m)"
  by (simp add: preserves_def wrapped_def split_beta)

lemma preserves_if: "(c \<Longrightarrow> preserves Q a) \<Longrightarrow> (\<not> c \<Longrightarrow> preserves Q b) \<Longrightarrow> preserves Q (if c then a else b)"
  by simp

lemma preserves_with_files: "(\<And>fs. preserves Q (k fs)) \<Longrightarrow> preserves Q (with_files k)"
  by (simp add: preserves_def with_files_def)

lemmas preserves_steps = preserves_and_then preserves_lift preserves_check preserves_wrapped preserves_if preserves_with_files

text \<open>Invariants of the files, and of the requests that were sent.\<close>

lemma files_on_disk: "preserves R m \<Longrightarrow> preserves (\<lambda>s. R (st_files s)) (on_disk m)"
  by (simp add: preserves_def on_disk_def on_host_def on_files_def split_beta)

lemma files_on_input: "preserves (\<lambda>s. R (st_files s)) (on_input m)"
  by (simp add: preserves_def on_input_def split_beta)

lemma files_Do: "preserves (\<lambda>s. R (st_files s)) (bootstrap_Do ax tr t req)"
proof -
  have "st_files (fst (bootstrap_Do ax tr t req s)) = st_files s" for s
    using bootstrap_Do_frame [of ax tr t req s] by auto
  then show ?thesis by (simp add: preserves_def)
qed

lemma sent_on_host: "preserves (\<lambda>s. T (st_sent s)) (on_host m)"
  by (simp add: preserves_def on_host_def split_beta)

lemma sent_on_disk: "preserves (\<lambda>s. T (st_sent s)) (on_disk m)"
  unfolding on_disk_def by (rule sent_on_host)

lemma sent_on_input: "preserves (\<lambda>s. T (st_sent s)) (on_input m)"
  by (simp add: preserves_def on_input_def split_beta)

lemma preserves_probe:
  assumes "\<And>path. preserves Q (bootstrap_Do ax NoVerify t (get_request (url @ path)))"
  shows "preserves Q (probe_paths ax url t paths e)"
proof -
  have "Q (fst (probe_paths ax url t paths e s))" if "Q s" for s
    using that
  proof (induction paths arbitrary: e s)
    case (Cons path paths)
    obtain s1 r where d: "bootstrap_Do ax NoVerify t (get_request (url @ path)) s = (s1, r)" by fastforce
    have "Q s1" using preservesD [OF assms d] Cons.prems by blast
    with Cons d show ?case by (simp split: sum.split)
  qed simp
  then show ?thesis by (simp add: preserves_def)
qed

lemma preserves_ProbeProxyURL:
  assumes "\<And>url. preserves Q (bootstrap_Do ax NoVerify (if t \<le> 0 then defaultProbeTimeout else t) (get_request url))"
  shows "preserves Q (ProbeProxyURL ax url t)"
  unfolding ProbeProxyURL_def Let_def by (intro preserves_if preserves_lift preserves_probe assms)

section \<open>Which files a step can change\<close>

lemma agent_writeFile_eq: "agent_writeFile = writeFileAtomic"
  by (intro ext) (simp add: agent_writeFile_def writeFileAtomic_def)

lemma untouched_check: "untouched P (check e)"
  by (simp add: untouched_def check_def)

lemma untouched_agent_writeFile: "untouched (written_at path) (agent_writeFile fr path data mode)"
  unfolding agent_writeFile_eq by (rule untouched_write)

lemma untouched_InstallFile: "untouched (written_at dst) (InstallFile fr src dst mode force)"
  using untouched_agent_writeFile [of dst fr _ mode] unfolding untouched_def InstallFile_def by (auto split: sum.split)

lemma untouchedI: "(\<And>fs p. p \<notin> P \<Longrightarrow> map_of (fst (m fs)) p = map_of fs p) \<Longrightarrow> untouched P m"
  by (simp add: untouched_def)

lemma untouchedD: "untouched P m \<Longrightarrow> p \<notin> P \<Longrightarrow> map_of (fst (m fs)) p = map_of fs p"
  by (simp add: untouched_def)

lemma untouched_guard: "untouched P m \<Longrightarrow> untouched P (\<lambda>fs. if c fs then (fs, e fs) else m fs)"
  by (simp add: untouched_def)

text \<open>Files of the directory under their names.\<close>

definition names_at :: "string \<Rightarrow> string set \<Rightarrow> string set" where
  "names_at dir N = (\<Union>n \<in> N. written_at (filepath_Join [dir, n]))"

lemma untouched_GenerateClientKey:
  assumes "client_withDefaults opts = opts'"
  shows "untouched (names_at (cl_Dir opts') {''client.key'', ''client.csr.pem''}) (GenerateClientKey ax opts)"
proof -
  let ?P = "names_at (cl_Dir opts') {''client.key'', ''client.csr.pem''}"
  have w: "untouched ?P (agent_writeFile fr (filepath_Join [cl_Dir opts', ''client.key'']) data mode)"
    "untouched ?P (agent_writeFile fr (filepath_Join [cl_Dir opts', ''client.csr.pem'']) data mode)" for fr data mode
    by (auto intro!: untouched_mono [OF untouched_agent_writeFile] simp: names_at_def)
  show ?thesis unfolding GenerateClientKey_def [abs_def] Let_def assms
    by (intro untouched_guard untouched_and_then untouched_check untouched_lift w)
qed

lemma untouched_SignClientCSR:
  "untouched (written_at (filepath_Join [filepath_Clean dir, ''client.crt''])) (SignClientCSR ax dir days force)"
proof (rule untouchedI)
  let ?c = "filepath_Join [filepath_Clean dir, ''client.crt'']"
  fix fs p
  assume p: "p \<notin> written_at ?c"
  have "untouched (written_at ?c) (and_then (agent_writeFile (ax_fr ax) ?c b mode_0644) (\<lambda>_. lift_result (Inr ?c)))" for b
    by (intro untouched_and_then untouched_agent_writeFile untouched_lift)
  from untouchedD [OF this p] show "map_of (fst (SignClientCSR ax dir days force fs)) p = map_of fs p"
    by (simp add: SignClientCSR_def Let_def split: sum.split)
qed

lemma untouched_WriteAgentConfig:
  "untouched (written_at (cg_Path (config_withDefaults (ax_os ax) opts))) (WriteAgentConfig ax opts)"
  unfolding WriteAgentConfig_def [abs_def] Let_def
  by (intro untouched_guard untouched_and_then untouched_check untouched_lift untouched_agent_writeFile)

lemma preserves_untouched: "untouched P m \<Longrightarrow> p \<notin> P \<Longrightarrow> preserves (\<lambda>fs. T (map_of fs p)) m"
  by (simp add: untouched_def preserves_def)

lemma file_kept: "untouched P m \<Longrightarrow> p \<notin> P \<Longrightarrow> preserves (\<lambda>s. T (map_of (st_files s) p)) (on_disk m)"
  by (rule files_on_disk [where R = "\<lambda>fs. T (map_of fs p)"], rule preserves_untouched)

section \<open>Options on the way\<close>

lemma ConfigPath_nonempty: "aq_ConfigPath (agent_options_withDefaults ax o1) \<noteq> []"
proof -
  have "filepath_Join [d, ''agent.yml''] \<noteq> []" for d by (cases "d = []") (simp_all add: filepath_Join_def)
  then show ?thesis by (simp add: agent_options_withDefaults_def Let_def or_default_def agent_DefaultConfigPath_def)
qed

lemma agent_withDefaults_idem: "agent_options_withDefaults ax (agent_options_withDefaults ax o1) = agent_options_withDefaults ax o1"
  by (simp add: agent_options_withDefaults_def Let_def or_default_def)

lemma ensureEnrollToken_keeps:
  assumes "ensureEnrollToken ax o1 s = (s', Inr o2)"
  shows "\<exists>t. o2 = (agent_options_withDefaults ax o1)\<lparr>aq_EnrollToken := t\<rparr> \<and> t \<noteq> []"
proof -
  let ?o = "agent_options_withDefaults ax o1"
  have same: "?o = ?o\<lparr>aq_EnrollToken := aq_EnrollToken ?o\<rparr>" by simp
  show ?thesis
  proof (cases "aq_EnrollToken ?o = []")
    case True
    with assms show ?thesis unfolding ensureEnrollToken_def Let_def
      by (auto elim!: and_then_okE simp: lift_result_def split: if_splits)
  next
    case False
    with assms have "o2 = ?o" by (simp add: ensureEnrollToken_def Let_def lift_result_def)
    with False same show ?thesis by metis
  qed
qed

lemma wrapped_ok: "wrapped what m s = (s', Inr x) \<Longrightarrow> m s = (s', Inr x)"
  by (auto simp: wrapped_def wrap_err_ok split: prod.splits)

lemma client_certificate_keeps:
  assumes "client_certificate ax o1 s = (s', Inr o2)" and "agent_options_withDefaults ax o1 = o1"
  shows "\<exists>t. o2 = o1\<lparr>aq_EnrollToken := t\<rparr>"
proof -
  have same: "o1 = o1\<lparr>aq_EnrollToken := aq_EnrollToken o1\<rparr>" by simp
  have "o2 = o1 \<or> (\<exists>s1 s2. ensureEnrollToken ax o1 s1 = (s2, Inr o2))"
    using assms(1) unfolding client_certificate_def with_files_def Let_def
    by (auto elim!: and_then_okE simp: lift_result_def wrapped_def wrap_err_def split: if_splits sum.splits prod.splits)
  then show ?thesis using ensureEnrollToken_keeps assms(2) same by metis
qed

section \<open>A run as a whole\<close>

lemma preserves_and_then_of:
  assumes "preserves Q m" "\<And>s s1 x. m s = (s1, Inr x) \<Longrightarrow> preserves Q (k x)" shows "preserves Q (and_then m k)"
proof -
  have "Q (fst (and_then m k s))" if "Q s" for s
  proof (cases "m s")
    case (Pair s1 r)
    then have q: "Q s1" using preservesD [OF assms(1)] that by blast
    show ?thesis
    proof (cases r)
      case (Inr x)
      with assms(2) Pair have "preserves Q (k x)" by blast
      with q Pair Inr show ?thesis by (simp add: and_then_def preserves_def)
    qed (use q Pair in \<open>simp add: and_then_def\<close>)
  qed
  then show ?thesis by (simp add: preserves_def)
qed

lemma and_then_fails: "m s = (s1, Inl err) \<Longrightarrow> and_then m k s = (s1, Inl err)"
  by (simp add: and_then_def)

text \<open>The steps after the material was installed.\<close>

definition later_steps :: "('c, 'p) agent_setup_env \<Rightarrow> agent_Options \<Rightarrow> ('p, agent_setup_Result) agent_step" where
  "later_steps ax o1 = and_then (client_key ax o1) (\<lambda>_. and_then (client_certificate ax o1) (\<lambda>opts. with_files (\<lambda>fs.
     if \<not> clientMaterialReady fs (aq_CertsDir opts)
     then lift_result (Inl (Errorf (''incomplete mTLS material under '' @ aq_CertsDir opts)))
     else config_verify_install ax opts)))"

lemma later_preserves:
  assumes o: "o1 = agent_options_withDefaults ax opts"
    and steps: "preserves Q (client_key ax o1)" "preserves Q (client_certificate ax o1)"
      "\<And>t. preserves Q (config_verify_install ax (o1\<lparr>aq_EnrollToken := t\<rparr>))"
  shows "preserves Q (later_steps ax o1)"
  unfolding later_steps_def
proof (rule preserves_and_then [OF steps(1)], rule preserves_and_then_of [OF steps(2)])
  fix s s1 o2
  assume "client_certificate ax o1 s = (s1, Inr o2)"
  then obtain t where "o2 = o1\<lparr>aq_EnrollToken := t\<rparr>" using client_certificate_keeps o agent_withDefaults_idem by metis
  then show "preserves Q (with_files (\<lambda>fs. if \<not> clientMaterialReady fs (aq_CertsDir o2)
     then lift_result (Inl (Errorf (''incomplete mTLS material under '' @ aq_CertsDir o2))) else config_verify_install ax o2))"
    using steps(3) by (intro preserves_with_files preserves_if preserves_lift) simp
qed

lemma run_preserves:
  assumes o: "o1 = agent_options_withDefaults ax opts"
    and probe: "\<And>url. preserves Q (bootstrap_Do ax NoVerify defaultProbeTimeout (get_request url))"
    and steps: "preserves Q (install_material ax o1)" "preserves Q (client_key ax o1)" "preserves Q (client_certificate ax o1)"
      "\<And>t. preserves Q (config_verify_install ax (o1\<lparr>aq_EnrollToken := t\<rparr>))"
  shows "preserves Q (agent_setup_Run ax opts)"
proof -
  have p: "preserves Q (ProbeProxyURL ax url defaultProbeTimeout)" for url
    by (rule preserves_ProbeProxyURL) (simp add: probe)
  show ?thesis unfolding agent_setup_Run_def Let_def o [symmetric] later_steps_def [symmetric]
    by (intro preserves_and_then preserves_if preserves_wrapped preserves_lift preserves_check p steps(1) later_preserves [OF o steps(2-4)])
qed

section \<open>The enrolment token\<close>

definition has_token :: "out_request \<Rightarrow> bool" where
  "has_token req \<longleftrightarrow> (\<exists>v. (enrollTokenHeader, v) \<in> set (or_headers req))"

text \<open>The post of an enrolment, at an address under \<open>https://\<close>; and a request that follows a redirect: the
  request before it was answered with one to this address and had the same headers.\<close>

definition first_post :: "out_request \<Rightarrow> bool" where
  "first_post req \<longleftrightarrow> (\<exists>url. or_method req = POST \<and> or_url req = url @ mtlsEnrollPath \<and> HasPrefix url ''https://'')"

definition redirect_hop :: "('c, 'p) agent_setup_env \<Rightarrow> 'p sent \<Rightarrow> 'p tls_trust \<Rightarrow> out_request \<Rightarrow> bool" where
  "redirect_hop ax before tr req \<longleftrightarrow> (\<exists>pre req0 t resp. before = pre @ [(tr, req0)] \<and> or_headers req0 = or_headers req
     \<and> ax_Fetch ax pre tr t req0 = Inr resp \<and> is_redirect (in_status resp) \<and> ax_Location ax pre tr req0 = Some (Inr (or_url req)))"

definition token_safe :: "('c, 'p) agent_setup_env \<Rightarrow> 'p sent \<Rightarrow> bool" where
  "token_safe ax l \<longleftrightarrow> (\<forall>i < length l. case l ! i of (tr, req) \<Rightarrow>
     has_token req \<longrightarrow> tr \<noteq> NoVerify \<and> (first_post req \<or> redirect_hop ax (take i l) tr req))"

lemma token_safe_snoc:
  "token_safe ax (l @ [(tr, req)]) \<longleftrightarrow>
     token_safe ax l \<and> (has_token req \<longrightarrow> tr \<noteq> NoVerify \<and> (first_post req \<or> redirect_hop ax l tr req))"
proof -
  have "(\<forall>i < Suc n. P i) \<longleftrightarrow> (\<forall>i < n. P i) \<and> P n" for P and n :: nat by (auto simp: less_Suc_eq)
  then show ?thesis unfolding token_safe_def by (simp add: nth_append)
qed

lemma redirected_headers [simp]: "or_headers (redirected status url req) = or_headers req" "or_url (redirected status url req) = url"
  by (simp_all add: redirected_def)

lemma send_following_token:
  assumes "token_safe ax (st_sent s)" and "has_token req \<longrightarrow> tr \<noteq> NoVerify \<and> (first_post req \<or> redirect_hop ax (st_sent s) tr req)"
  shows "token_safe ax (st_sent (fst (send_following n ax tr t req s)))"
  using assms
proof (induction n arbitrary: req s)
  case (Suc n)
  let ?s1 = "s\<lparr>st_sent := st_sent s @ [(tr, req)]\<rparr>"
  have s1: "token_safe ax (st_sent ?s1)" using Suc.prems by (simp add: token_safe_snoc)
  have "token_safe ax (st_sent (fst (send_following n ax tr t (redirected (in_status resp) url req) ?s1)))"
    if "ax_Fetch ax (st_sent s) tr t req = Inr resp" "is_redirect (in_status resp)" "ax_Location ax (st_sent s) tr req = Some (Inr url)"
    for resp url
  proof (rule Suc.IH [OF s1])
    have "redirect_hop ax (st_sent ?s1) tr (redirected (in_status resp) url req)"
      unfolding redirect_hop_def using that by (intro exI [of _ "st_sent s"] exI [of _ req] exI [of _ t] exI [of _ resp]) simp
    with Suc.prems(2) show "has_token (redirected (in_status resp) url req) \<longrightarrow> tr \<noteq> NoVerify \<and>
        (first_post (redirected (in_status resp) url req) \<or> redirect_hop ax (st_sent ?s1) tr (redirected (in_status resp) url req))"
      by (simp add: has_token_def)
  qed
  with s1 show ?case by (auto simp: Let_def split: sum.split option.split)
qed simp

lemma token_safe_Do:
  assumes "has_token req \<Longrightarrow> tr \<noteq> NoVerify \<and> first_post req"
  shows "preserves (\<lambda>s. token_safe ax (st_sent s)) (bootstrap_Do ax tr t req)"
  using assms send_following_token unfolding preserves_def bootstrap_Do_def by blast

lemma token_safe_get: "preserves (\<lambda>s. token_safe ax (st_sent s)) (bootstrap_Do ax tr t (get_request url))"
  by (rule token_safe_Do) (simp add: has_token_def get_request_def)

lemma token_safe_enroll:
  assumes "HasPrefix (TrimRight url ''/'') ''https://''"
  shows "preserves (\<lambda>s. token_safe ax (st_sent s)) (bootstrap_Do ax (bootstrapHTTPClient ax fs dir False) t (enroll_post url token b))"
proof (rule token_safe_Do)
  have "first_post (enroll_post url token b)" using assms by (auto simp: first_post_def enroll_post_def)
  moreover have "bootstrapHTTPClient ax fs dir False \<noteq> NoVerify" by (simp add: bootstrapHTTPClient_def split: sum.split)
  ultimately show "bootstrapHTTPClient ax fs dir False \<noteq> NoVerify \<and> first_post (enroll_post url token b)" by blast
qed

lemmas sent_steps = sent_on_host sent_on_disk sent_on_input token_safe_get

lemma token_safe_FetchCA: "preserves (\<lambda>s. token_safe ax (st_sent s)) (agent_FetchCA ax opts)"
  unfolding agent_FetchCA_def Let_def by (intro preserves_steps sent_steps)

lemma token_safe_install: "preserves (\<lambda>s. token_safe ax (st_sent s)) (install_material ax o1)"
  unfolding install_material_def Let_def by (intro preserves_steps sent_steps token_safe_FetchCA)

lemma token_safe_key: "preserves (\<lambda>s. token_safe ax (st_sent s)) (client_key ax o1)"
  unfolding client_key_def by (intro preserves_steps sent_steps)

lemma token_safe_EnrollClientCSR:
  assumes "HasPrefix (TrimRight (TrimSpace (bo_ProxyURL opts)) ''/'') ''https://''" and "\<not> bo_RefreshCA opts"
  shows "preserves (\<lambda>s. token_safe ax (st_sent s)) (EnrollClientCSR ax opts)"
proof -
  have u: "HasPrefix (TrimRight (bo_ProxyURL (bootstrap_withDefaults opts)) ''/'') ''https://''" "\<not> bo_RefreshCA (bootstrap_withDefaults opts)"
    using assms by (simp_all add: bootstrap_withDefaults_def)
  show ?thesis unfolding EnrollClientCSR_def Let_def if_not_P [OF u(2)]
    by (intro preserves_steps sent_steps token_safe_enroll u(1))
qed

lemma preserves_case:
  assumes "preserves Q m" "\<And>s1 err. Q s1 \<Longrightarrow> Q (fst (f s1 err))" "\<And>s1 x. Q s1 \<Longrightarrow> Q (fst (g s1 x))"
  shows "preserves Q (\<lambda>s. case m s of (s1, Inl err) \<Rightarrow> f s1 err | (s1, Inr x) \<Rightarrow> g s1 x)"
  using assms(1) assms(2,3) [OF preservesD [OF assms(1)]] unfolding preserves_def by (auto split: prod.split sum.split)

lemma preserves_ensureEnrollToken:
  assumes "\<And>m :: bytes \<Rightarrow> bytes \<times> string result. preserves Q (on_input m)" shows "preserves Q (ensureEnrollToken ax o1)"
  unfolding ensureEnrollToken_def Let_def by (intro preserves_steps assms)

definition enroll_options :: "agent_Options \<Rightarrow> string \<Rightarrow> BootstrapOptions" where
  "enroll_options o1 token =
     \<lparr>bo_ProxyURL = aq_ProxyURL o1, bo_CertsDir = aq_CertsDir o1, bo_EnrollToken = token, bo_CAFingerprint = [], bo_Timeout = 0,
      bo_InsecureSkipVerify = False, bo_RefreshCA = False\<rparr>"

lemma preserves_certificate:
  assumes o: "agent_options_withDefaults ax o1 = o1"
    and sign: "preserves Q (on_disk (SignClientCSR ax (aq_CertsDir o1) 0 (aq_Force o1)))"
    and input: "\<And>m :: bytes \<Rightarrow> bytes \<times> string result. preserves Q (on_input m)"
    and enroll: "\<And>token. aq_ProxyURL o1 \<noteq> [] \<Longrightarrow> preserves Q (EnrollClientCSR ax (enroll_options o1 token))"
  shows "preserves Q (client_certificate ax o1)"
proof -
  have e: "preserves Q (and_then (wrapped ''step 3/5: '' (ensureEnrollToken ax o1)) (\<lambda>opts s.
      case EnrollClientCSR ax \<lparr>bo_ProxyURL = aq_ProxyURL opts, bo_CertsDir = aq_CertsDir opts, bo_EnrollToken = aq_EnrollToken opts,
             bo_CAFingerprint = [], bo_Timeout = 0, bo_InsecureSkipVerify = False, bo_RefreshCA = False\<rparr> s of
        (s', Inl err) \<Rightarrow> (s', Inl (Wrapf ''step 3/5: proxy enroll failed: '' (formatEnrollError err (aq_CertsDir opts)) ''''))
      | (s', Inr _) \<Rightarrow> (s', Inr opts)))" if "aq_ProxyURL o1 \<noteq> []"
  proof (rule preserves_and_then_of)
    show "preserves Q (wrapped ''step 3/5: '' (ensureEnrollToken ax o1))"
      by (intro preserves_wrapped preserves_ensureEnrollToken input)
    fix s s1 o2
    assume "wrapped ''step 3/5: '' (ensureEnrollToken ax o1) s = (s1, Inr o2)"
    then have "ensureEnrollToken ax o1 s = (s1, Inr o2)" by (rule wrapped_ok)
    then obtain t where o2: "o2 = o1\<lparr>aq_EnrollToken := t\<rparr>" using ensureEnrollToken_keeps o by metis
    show "preserves Q (\<lambda>s. case EnrollClientCSR ax \<lparr>bo_ProxyURL = aq_ProxyURL o2, bo_CertsDir = aq_CertsDir o2,
             bo_EnrollToken = aq_EnrollToken o2, bo_CAFingerprint = [], bo_Timeout = 0, bo_InsecureSkipVerify = False, bo_RefreshCA = False\<rparr> s of
        (s', Inl err) \<Rightarrow> (s', Inl (Wrapf ''step 3/5: proxy enroll failed: '' (formatEnrollError err (aq_CertsDir o2)) ''''))
      | (s', Inr _) \<Rightarrow> (s', Inr o2))"
      using enroll [OF that, of t] by (intro preserves_case) (simp_all add: o2 enroll_options_def)
  qed
  show ?thesis unfolding client_certificate_def Let_def
    by (intro preserves_steps sign e) simp_all
qed

lemma token_safe_certificate:
  assumes "aq_ProxyURL o1 \<noteq> [] \<Longrightarrow> HasPrefix (TrimRight (TrimSpace (aq_ProxyURL o1)) ''/'') ''https://''"
    and "agent_options_withDefaults ax o1 = o1"
  shows "preserves (\<lambda>s. token_safe ax (st_sent s)) (client_certificate ax o1)"
  using assms by (intro preserves_certificate sent_steps token_safe_EnrollClientCSR) (simp_all add: enroll_options_def)

lemma token_safe_finish: "preserves (\<lambda>s. token_safe ax (st_sent s)) (config_verify_install ax o1)"
  unfolding config_verify_install_def by (intro preserves_steps sent_steps)

lemma token_safe_Run: "preserves (\<lambda>s. token_safe ax (st_sent s)) (agent_setup_Run ax opts)"
proof -
  let ?o = "agent_options_withDefaults ax opts"
  let ?url = "TrimRight (TrimSpace (aq_ProxyURL ?o)) ''/''"
  show ?thesis
  proof (cases "aq_ProxyURL ?o \<noteq> [] \<and> \<not> HasPrefix ?url ''https://''")
    case True
    have "fst (agent_setup_Run ax opts s) = s" for s
    proof -
      have "\<exists>err. ProbeProxyURL ax (aq_ProxyURL ?o) defaultProbeTimeout s = (s, Inl err)"
        using True by (cases "?url = []") (simp_all add: ProbeProxyURL_def Let_def lift_result_def)
      then obtain err where "ProbeProxyURL ax (aq_ProxyURL ?o) defaultProbeTimeout s = (s, Inl err)" by blast
      then have "wrapped ''proxy unreachable: '' (ProbeProxyURL ax (aq_ProxyURL ?o) defaultProbeTimeout) s =
          (s, Inl (Wrapf ''proxy unreachable: '' err ''''))" by (simp add: wrapped_def wrap_err_def)
      with True show ?thesis by (simp add: agent_setup_Run_def Let_def and_then_fails)
    qed
    then show ?thesis by (simp add: preserves_def)
  next
    case False
    then show ?thesis
      by (intro run_preserves [OF refl] token_safe_get token_safe_install token_safe_key token_safe_certificate token_safe_finish
          agent_withDefaults_idem) simp
  qed
qed

lemma preserves_promptProxyURL:
  assumes probe: "\<And>url. preserves Q (ProbeProxyURL ax url defaultProbeTimeout)"
    and input: "\<And>m :: bytes \<Rightarrow> bytes \<times> string result. preserves Q (on_input m)" "\<And>m :: bytes \<Rightarrow> bytes \<times> bool result. preserves Q (on_input m)"
  shows "preserves Q (promptProxyURL ax url)"
proof -
  have "Q (fst (promptProxyURL ax url s))" if "Q s" for s
    using that probe
  proof (induction ax url s rule: promptProxyURL.induct)
    case (1 ax url s)
    obtain s1 x where a: "on_input (agent_askString url) s = (s1, x)" by fastforce
    have q1: "Q s1" using preservesD [OF input(1) a] "1.prems"(1) by blast
    show ?case
    proof (cases x)
      case (Inl err)
      with a q1 show ?thesis by (simp add: promptProxyURL.simps [of _ url s])
    next
      case (Inr url0)
      obtain s2 y where p: "ProbeProxyURL ax (TrimSpace url0) defaultProbeTimeout s1 = (s2, y)" by fastforce
      have q2: "Q s2" using preservesD [OF "1.prems"(2) p] q1 by blast
      obtain s3 z where n: "on_input (agent_askYesNo True) s2 = (s3, z)" by fastforce
      have q3: "Q s3" using preservesD [OF input(2) n] q2 by blast
      have "Q (fst (promptProxyURL ax (TrimSpace url0) s3))" if "y = Inl e" "z = Inr True" for e
        using "1.IH" [OF a [symmetric] Inr p [symmetric] that(1) n [symmetric] that(2)] q3 "1.prems"(2) by simp
      with a p n Inr q2 q3 show ?thesis
        by (cases y; cases z) (simp_all add: promptProxyURL.simps [of _ url s])
    qed
  qed
  then show ?thesis by (simp add: preserves_def)
qed

lemma token_safe_wizard: "preserves (\<lambda>s. token_safe ax (st_sent s)) (agent_RunInteractive ax vl prefill yes)"
  unfolding agent_RunInteractive_def Let_def
  by (intro preserves_steps sent_steps preserves_promptProxyURL preserves_ProbeProxyURL)

lemma preserves_fst: "preserves Q m \<Longrightarrow> preserves Q (\<lambda>s. case m s of (s', r) \<Rightarrow> (s', f r))"
  by (simp add: preserves_def split_beta)

lemma token_safe_command: "preserves (\<lambda>s. token_safe ax (st_sent s)) (agent_runSetupAll ax vl af)"
proof -
  have "preserves (\<lambda>s. token_safe ax (st_sent s)) (\<lambda>s. if c then (s, Inl e) else case agent_setup_Run ax opts s of (s', r) \<Rightarrow> (s', advise_replace r))"
    for c e opts
    using preserves_fst [OF token_safe_Run, where f = advise_replace] by (cases c) (simp_all add: preserves_def)
  then show ?thesis unfolding agent_runSetupAll_def Let_def
    by (intro preserves_steps token_safe_wizard)
qed

text \<open>
  (C25) The enrolment token leaves for the proxy over a checked connection: of all requests that
  \<open>luna-agent setup\<close> sends, with the wizard or without, one that carries the token is sent by a
  client that verifies the certificates of servers; and it is the post to the enrolment path of an
  address under \<open>https://\<close>, or it follows a redirect that the request before it, with the
  same headers, was answered with. The token is sent nowhere else, and a chain of redirects starts
  at such a post. (A redirect may lead to any address, and to one under \<open>http://\<close> the token goes
  in the clear. The probes and the download of the CA, which do not verify, do not carry it.)
\<close>

theorem enroll_token_protected:
  assumes "agent_runSetupAll ax vl af s = (s', r)" and "st_sent s = []"
    and "i < length (st_sent s')" and "st_sent s' ! i = (tr, req)" and "(enrollTokenHeader, token) \<in> set (or_headers req)"
  shows "tr \<noteq> NoVerify \<and> (first_post req \<or> redirect_hop ax (take i (st_sent s')) tr req)"
proof -
  have "token_safe ax (st_sent s')" using preservesD [OF token_safe_command assms(1)] assms(2) by (simp add: token_safe_def)
  with assms(3-5) show ?thesis unfolding token_safe_def has_token_def by fastforce
qed

section \<open>The CA\<close>

definition normal_fingerprint :: "string \<Rightarrow> string" where
  "normal_fingerprint fp = ToLower_ascii (filter (\<lambda>c. c \<noteq> CHR '':'') (TrimSpace fp))"

text \<open>The contents are a certificate with the fingerprint, and nothing else but blanks.\<close>

definition holds_ca :: "('c, 'p) agent_setup_env \<Rightarrow> string \<Rightarrow> bytes option \<Rightarrow> bool" where
  "holds_ca ax fp x \<longleftrightarrow> (\<exists>body der c. x = Some body \<and> x5_pem_Decode (pk_x5 (ax_pk ax)) body = Some (''CERTIFICATE'', der)
     \<and> TrimSpace (ax_Rest ax body) = [] \<and> x5_ParseCertificate (pk_x5 (ax_pk ax)) der = Inr c \<and> CertFingerprint c = normal_fingerprint fp)"

lemma verifyCAFingerprint_ok:
  assumes "verifyCAFingerprint ax body fp = None" shows "holds_ca ax fp (Some body)"
proof -
  note v = assms [unfolded verifyCAFingerprint_def Let_def, folded normal_fingerprint_def]
  then obtain ty der where d: "x5_pem_Decode (pk_x5 (ax_pk ax)) body = Some (ty, der)"
    by (cases "x5_pem_Decode (pk_x5 (ax_pk ax)) body") (auto split: if_splits)
  from v d have ty: "ty = ''CERTIFICATE''" "TrimSpace (ax_Rest ax body) = []" by (auto split: if_splits)
  from v d ty obtain c where c: "x5_ParseCertificate (pk_x5 (ax_pk ax)) der = Inr c"
    by (cases "x5_ParseCertificate (pk_x5 (ax_pk ax)) der") (auto split: if_splits)
  with v d ty have "CertFingerprint c = normal_fingerprint fp" by (auto simp: CertFingerprint_def split: if_splits)
  with d ty c show ?thesis by (auto simp: holds_ca_def)
qed

lemma preserves_write:
  assumes "\<And>m. T (Some \<lparr>fi_data = body, fi_mode = m\<rparr>)" shows "preserves (\<lambda>fs. T (map_of fs p)) (agent_writeFile fr p body mode)"
proof -
  have "T (map_of (fst (agent_writeFile fr p body mode fs)) p)" if "T (map_of fs p)" for fs
  proof -
    obtain fs' r where w: "write_and_rename fr (\<lambda>e. Wrapf (''write '' @ p @ '': '') e '''')
        (\<lambda>e. Wrapf (''rename '' @ p @ '': '') e '''') p body mode fs = (fs', r)" by fastforce
    then have "fst (agent_writeFile fr p body mode fs) = fs'" by (simp add: agent_writeFile_def split: option.split)
    moreover have "T (map_of fs' p)"
    proof (cases r)
      case None
      with w write_and_rename_ok(1) assms show ?thesis by fastforce
    next
      case (Some err)
      with w have "map_of fs' p = map_of fs p" using write_and_rename_fails by fastforce
      with that show ?thesis by simp
    qed
    ultimately show ?thesis by simp
  qed
  then show ?thesis by (simp add: preserves_def)
qed

lemma FetchCA_pinned:
  assumes "bo_InsecureSkipVerify opts" and "p = filepath_Join [filepath_Clean (bo_CertsDir opts), ''ca.crt'']"
    and "\<And>x. holds_ca ax (TrimSpace (bo_CAFingerprint opts)) (map_option fi_data x) \<Longrightarrow> T x"
  shows "preserves (\<lambda>s. T (map_of (st_files s) p)) (agent_FetchCA ax opts)"
proof -
  let ?Q = "\<lambda>s. T (map_of (st_files s) p)" and ?o = "bootstrap_withDefaults opts"
  have o: "bo_InsecureSkipVerify ?o" "filepath_Join [bo_CertsDir ?o, ''ca.crt''] = p" "bo_CAFingerprint ?o = TrimSpace (bo_CAFingerprint opts)"
    using assms(1,2) by (simp_all add: bootstrap_withDefaults_def)
  have last: "preserves ?Q (and_then (check (if bo_InsecureSkipVerify ?o then verifyCAFingerprint ax body (bo_CAFingerprint ?o) else None)) (\<lambda>_.
      and_then (on_disk (agent_writeFile (ax_fr ax) p body mode_0644)) (\<lambda>_. lift_result (Inr p))))" for body
  proof (rule preserves_and_then_of [OF preserves_check])
    fix s s1 x
    assume "check (if bo_InsecureSkipVerify ?o then verifyCAFingerprint ax body (bo_CAFingerprint ?o) else None) s = (s1, Inr x)"
    then have "verifyCAFingerprint ax body (TrimSpace (bo_CAFingerprint opts)) = None"
      using o by (auto simp: check_def split: option.splits)
    from verifyCAFingerprint_ok [OF this] have "T (Some \<lparr>fi_data = body, fi_mode = m\<rparr>)" for m by (intro assms(3)) simp
    then show "preserves ?Q (and_then (on_disk (agent_writeFile (ax_fr ax) p body mode_0644)) (\<lambda>_. lift_result (Inr p)))"
      by (intro preserves_and_then preserves_lift files_on_disk [where R = "\<lambda>fs. T (map_of fs p)"] preserves_write)
  qed
  show ?thesis unfolding agent_FetchCA_def Let_def o(2)
    by (intro preserves_steps last files_Do [where R = "\<lambda>fs. T (map_of fs p)"])
qed

lemma other_name:
  "IsAbs dir \<Longrightarrow> plain_name n \<Longrightarrow> plain_name m \<Longrightarrow> n \<noteq> m \<Longrightarrow> n \<noteq> m @ ''.tmp'' \<Longrightarrow>
   filepath_Join [dir, n] \<notin> written_at (filepath_Join [dir, m])"
  by (simp add: written_at_def join_tmp join_inj plain_tmp)

lemma join_clean: "IsAbs dir \<Longrightarrow> plain_name n \<Longrightarrow> filepath_Join [filepath_Clean dir, n] = filepath_Join [dir, n]"
  using Clean_parts [of dir] by (simp add: join_name)

definition client_names :: "string set" where
  "client_names = {''ca.crt'', ''ca.key'', ''client.crt'', ''client.key'', ''client.csr.pem''}"

lemma client_name_plain: "n \<in> client_names \<Longrightarrow> plain_name n"
  by (auto simp: client_names_def plain_name_def)

lemma client_names_apart:
  assumes "IsAbs dir" "n \<in> client_names" "m \<in> client_names" "n \<noteq> m"
  shows "filepath_Join [dir, n] \<notin> written_at (filepath_Join [dir, m])"
proof -
  have "n \<noteq> m @ ''.tmp''" using assms(2,3) by (auto simp: client_names_def)
  with assms show ?thesis by (intro other_name client_name_plain)
qed

lemma InstallFile_keeps:
  assumes "IsAbs dir" "n \<in> client_names" "m \<in> client_names" "n \<noteq> m"
  shows "preserves (\<lambda>s. T (map_of (st_files s) (filepath_Join [dir, n]))) (on_disk (InstallFile fr src (filepath_Join [dir, m]) mode force))"
  by (rule file_kept [OF untouched_InstallFile client_names_apart [OF assms]])

lemma strip_one_part: "strip_one ps s = Some t \<Longrightarrow> \<exists>p \<in> set ps. s = p @ t"
  by (induction ps) (auto simp: HasPrefix_iff split: if_splits)

lemma strip_left_keeps: "c \<in> set s \<Longrightarrow> \<forall>p \<in> set ps. c \<notin> set p \<Longrightarrow> c \<in> set (strip_left ps s)"
proof (induction ps s rule: strip_left.induct)
  case (1 ps s)
  show ?case
  proof (cases "strip_one ps s")
    case (Some t)
    then have "c \<in> set t" using "1.prems" strip_one_part by fastforce
    with "1.IH" [OF Some] "1.prems" Some show ?thesis by (simp add: strip_left.simps [of ps s])
  qed (use "1.prems" in \<open>simp add: strip_left_idle\<close>)
qed

lemma TrimSpace_abs: "IsAbs d \<Longrightarrow> TrimSpace d \<noteq> []"
proof -
  assume "IsAbs d"
  then have "CHR ''/'' \<in> set d" by (auto simp: IsAbs_def HasPrefix_iff)
  moreover have "\<forall>p \<in> set space_encodings. CHR ''/'' \<notin> set p" "\<forall>p \<in> set (map rev space_encodings). CHR ''/'' \<notin> set p"
    by (simp_all add: space_encodings_def)
  ultimately have "CHR ''/'' \<in> set (TrimSpace d)" unfolding TrimSpace_def by (simp add: strip_left_keeps)
  then show ?thesis by force
qed

lemma key_keeps:
  assumes "IsAbs (aq_CertsDir o1)" "n \<in> {''ca.crt'', ''client.crt''}"
  shows "preserves (\<lambda>s. T (map_of (st_files s) (filepath_Join [aq_CertsDir o1, n]))) (client_key ax o1)"
proof -
  let ?d = "aq_CertsDir o1"
  let ?co = "\<lparr>cl_Dir = ?d, cl_Force = aq_Force o1, cl_CommonName = [], cl_Organization = [], cl_ValidityDays = 0\<rparr>"
  have d: "cl_Dir (client_withDefaults ?co) = filepath_Clean ?d"
    using TrimSpace_abs [OF assms(1)] by (simp add: client_withDefaults_def)
  have "filepath_Join [?d, n] \<notin> names_at (filepath_Clean ?d) {''client.key'', ''client.csr.pem''}"
    using assms client_names_apart [OF assms(1), of n] join_clean [OF assms(1) client_name_plain]
    by (auto simp: names_at_def client_names_def)
  then have "preserves (\<lambda>s. T (map_of (st_files s) (filepath_Join [?d, n]))) (on_disk (GenerateClientKey ax ?co))"
    by (intro file_kept [OF untouched_GenerateClientKey [OF refl]]) (simp add: d)
  then show ?thesis unfolding client_key_def by (intro preserves_steps)
qed

lemma on_disk_write_keeps:
  assumes "p \<notin> written_at path" shows "preserves (\<lambda>s. T (map_of (st_files s) p)) (on_disk (agent_writeFile fr path data mode))"
  by (rule file_kept [OF untouched_agent_writeFile assms])

lemma files_Do_at: "preserves (\<lambda>s. T (map_of (st_files s) p)) (bootstrap_Do ax tr t req)"
  by (rule files_Do [where R = "\<lambda>fs. T (map_of fs p)"])

lemma files_on_input_at: "preserves (\<lambda>s. T (map_of (st_files s) p)) (on_input m)"
  by (rule files_on_input [where R = "\<lambda>fs. T (map_of fs p)"])

lemma FetchCA_keeps:
  assumes "p \<notin> written_at (filepath_Join [filepath_Clean (bo_CertsDir opts), ''ca.crt''])"
  shows "preserves (\<lambda>s. T (map_of (st_files s) p)) (agent_FetchCA ax opts)"
proof -
  have "p \<notin> written_at (filepath_Join [bo_CertsDir (bootstrap_withDefaults opts), ''ca.crt''])" using assms by (simp add: bootstrap_withDefaults_def)
  then show ?thesis unfolding agent_FetchCA_def Let_def by (intro preserves_steps files_Do_at on_disk_write_keeps)
qed

lemma Enroll_keeps:
  assumes "p \<notin> written_at (filepath_Join [filepath_Clean (bo_CertsDir opts), ''client.crt''])" and "\<not> bo_RefreshCA opts"
  shows "preserves (\<lambda>s. T (map_of (st_files s) p)) (EnrollClientCSR ax opts)"
proof -
  have o: "p \<notin> written_at (filepath_Join [bo_CertsDir (bootstrap_withDefaults opts), ''client.crt''])" "\<not> bo_RefreshCA (bootstrap_withDefaults opts)"
    using assms by (simp_all add: bootstrap_withDefaults_def)
  show ?thesis unfolding EnrollClientCSR_def Let_def if_not_P [OF o(2)]
    by (intro preserves_steps files_Do_at on_disk_write_keeps o(1))
qed

lemma certificate_keeps:
  assumes "IsAbs (aq_CertsDir o1)" "n \<in> {''ca.crt'', ''client.key''}" "agent_options_withDefaults ax o1 = o1"
  shows "preserves (\<lambda>s. T (map_of (st_files s) (filepath_Join [aq_CertsDir o1, n]))) (client_certificate ax o1)"
proof -
  have p: "filepath_Join [aq_CertsDir o1, n] \<notin> written_at (filepath_Join [filepath_Clean (aq_CertsDir o1), ''client.crt''])"
    using assms(2) client_names_apart [OF assms(1), of n "''client.crt''"] join_clean [OF assms(1) client_name_plain]
    by (auto simp: client_names_def)
  show ?thesis
    by (intro preserves_certificate assms(3) file_kept [OF untouched_SignClientCSR p] files_on_input_at Enroll_keeps)
      (use p in \<open>simp_all add: enroll_options_def\<close>)
qed

lemma finish_keeps:
  assumes "\<not> aq_InstallSystemd o1" "p \<notin> written_at (aq_ConfigPath o1)" "aq_ConfigPath o1 \<noteq> []"
  shows "preserves (\<lambda>s. T (map_of (st_files s) p)) (config_verify_install ax o1)"
  unfolding config_verify_install_def if_not_P [OF assms(1)]
  by (intro preserves_steps file_kept [OF untouched_WriteAgentConfig]) (use assms in \<open>simp add: config_withDefaults_def or_default_def\<close>)

text \<open>Installing the service writes its unit and changes permission bits, but no other contents.\<close>

definition service_unit :: "('c, 'p) agent_setup_env \<Rightarrow> bool \<Rightarrow> string" where
  "service_unit ax system = gy_UnitPath (if system then DefaultAgentSystemdOptions else DefaultAgentUserSystemdOptions ax)"

abbreviation data_at :: "files \<Rightarrow> string \<Rightarrow> bytes option" where
  "data_at fs p \<equiv> map_option fi_data (map_of fs p)"

lemma host_on_files: "preserves R m \<Longrightarrow> preserves (\<lambda>h. R (ho_files h)) (on_files m)"
  by (simp add: preserves_def on_files_def split_beta)

lemma state_on_host: "preserves R m \<Longrightarrow> preserves (\<lambda>s. R (st_host s)) (on_host m)"
  by (simp add: preserves_def on_host_def split_beta)

lemma chmod_data: "preserves (\<lambda>fs. T (data_at fs p)) (os_Chmod he path mode)"
  by (auto simp: preserves_def os_Chmod_def split: option.split)

lemma permit_data: "preserves (\<lambda>fs. T (data_at fs p)) (agent_permit_files he dir gid names)"
proof (induction names)
  case (Cons name names)
  have "preserves (\<lambda>fs. T (data_at fs p)) (case x of None \<Rightarrow> lift_result (Inr ()) | Some mode \<Rightarrow> os_Chmod he path mode)" for x path
    by (cases x) (simp_all add: preserves_lift chmod_data)
  with Cons show ?case unfolding agent_permit_files.simps Let_def by (intro preserves_steps)
qed (simp add: preserves_lift)

lemma user_data: "preserves (\<lambda>h. R (ho_files h)) (EnsureServiceUser he username group1)"
  unfolding EnsureServiceUser_def
  by (intro preserves_steps)
    (auto simp: preserves_def ensureGroup_def split: option.split sum.split)

lemma prepare_data: "preserves (\<lambda>h. T (data_at (ho_files h) p)) (agent_prepareServiceUser he opts)"
proof -
  have u: "preserves (\<lambda>h. T (data_at (ho_files h) p)) (\<lambda>h. case map_of (ho_users h) (gy_User opts) of
      Some _ \<Rightarrow> (h, Inr ())
    | None \<Rightarrow> if gy_SkipUserCreate opts then (h, Inl (no_such_user (gy_User opts)))
              else EnsureServiceUser he (gy_User opts) (gy_Group opts) h)"
    using user_data [of "\<lambda>fs. T (data_at fs p)" he "gy_User opts" "gy_Group opts"] by (auto simp: preserves_def split: option.split)
  have d: "preserves (\<lambda>h. T (data_at (ho_files h) p)) (EnsureLunaDirs he a b)" for a b
    by (simp add: preserves_def EnsureLunaDirs_def check_def)
  have "preserves (\<lambda>h. T (data_at (ho_files h) p)) (on_files (agent_permit_files he dir gid names))" for dir gid names
    by (rule host_on_files [OF permit_data])
  then have c: "preserves (\<lambda>h. T (data_at (ho_files h) p)) (agent_EnsureCertPermissions he dir g)" for dir g
    by (auto simp: preserves_def agent_EnsureCertPermissions_def Let_def)
  show ?thesis unfolding agent_prepareServiceUser_def by (intro preserves_steps u d c)
qed

lemma write_unit_data:
  assumes "p \<noteq> path" shows "preserves (\<lambda>h. T (data_at (ho_files h) p)) (write_unit fr path body)"
proof -
  have "preserves (\<lambda>fs. T (data_at fs p)) (\<lambda>fs. case os_WriteFile fr path body m fs of (fs', e) \<Rightarrow> check (w e) fs')" for w m
    using os_WriteFile_other [OF assms] by (simp add: preserves_def check_def split: prod.split)
  then show ?thesis unfolding write_unit_def by (intro preserves_steps host_on_files)
qed

lemma systemctl_data:
  "preserves (\<lambda>h. R (ho_files h)) (runSystemctl he args)" "preserves (\<lambda>h. R (ho_files h)) (runSystemctlUser he args)"
  by (simp_all add: preserves_def runSystemctl_def runSystemctlUser_def check_def)

lemma unit_path: "gy_UnitPath o1 = [] \<Longrightarrow> gy_UnitPath (agent_systemd_withDefaults ax o1) = service_unit ax (gy_System o1)"
  by (simp add: agent_systemd_withDefaults_def service_unit_def or_default_def Let_def)

lemma service_data:
  assumes "p \<noteq> service_unit ax (gy_System o1)" and "gy_UnitPath o1 = []"
  shows "preserves (\<lambda>s. T (data_at (st_files s) p)) (on_host (InstallAgentSystemd ax o1))"
proof (rule state_on_host [where R = "\<lambda>h. T (data_at (ho_files h) p)"])
  have p: "p \<noteq> gy_UnitPath (agent_systemd_withDefaults ax o1)" using assms unit_path by metis
  note steps = preserves_steps write_unit_data [OF p] prepare_data systemctl_data [where R = "\<lambda>fs. T (data_at fs p)"]
  show "preserves (\<lambda>h. T (data_at (ho_files h) p)) (InstallAgentSystemd ax o1)"
    unfolding InstallAgentSystemd_def installAgentUserUnit_def installAgentSystemUnit_def Let_def by (intro steps)
qed

lemma finish_data:
  assumes "p \<notin> written_at (aq_ConfigPath o1)" "aq_ConfigPath o1 \<noteq> []" "p \<noteq> service_unit ax (aq_SystemdSystem o1)"
  shows "preserves (\<lambda>s. T (data_at (st_files s) p)) (config_verify_install ax o1)"
  unfolding config_verify_install_def
  by (intro preserves_steps service_data file_kept [OF untouched_WriteAgentConfig, where T = "\<lambda>x. T (map_option fi_data x)"])
    (use assms in \<open>simp_all add: config_withDefaults_def or_default_def\<close>)

lemma withDefaults_fields [simp]:
  "aq_FromDir (agent_options_withDefaults ax o1) = aq_FromDir o1" "aq_CAFile (agent_options_withDefaults ax o1) = aq_CAFile o1"
  "aq_CertFile (agent_options_withDefaults ax o1) = aq_CertFile o1" "aq_KeyFile (agent_options_withDefaults ax o1) = aq_KeyFile o1"
  "aq_CAFingerprint (agent_options_withDefaults ax o1) = aq_CAFingerprint o1" "aq_FetchCA (agent_options_withDefaults ax o1) = aq_FetchCA o1"
  "aq_InstallSystemd (agent_options_withDefaults ax o1) = aq_InstallSystemd o1"
  "aq_SystemdSystem (agent_options_withDefaults ax o1) = aq_SystemdSystem o1"
  by (simp_all add: agent_options_withDefaults_def Let_def)

text \<open>
  (C26) First contact is pinned: however a set-up of the agent ends to which neither a CA file nor a
  directory of certificates was given, with or without the service, the contents of \<open>ca.crt\<close> are
  what they were before, or one certificate, followed by nothing but blanks, whose SHA-256
  fingerprint is the one that was announced. (The directory is absolute, and the configuration and
  the unit of the service are other files.)
\<close>

theorem agent_ca_pinned:
  assumes run: "agent_setup_Run ax opts s = (s', r)" and o1: "o1 = agent_options_withDefaults ax opts"
    and dir: "IsAbs (aq_CertsDir o1)" and p: "p = filepath_Join [aq_CertsDir o1, ''ca.crt'']"
    and no: "aq_FromDir opts = []" "aq_CAFile opts = []"
      "p \<notin> {aq_ConfigPath o1, aq_ConfigPath o1 @ ''.tmp'', service_unit ax (aq_SystemdSystem opts)}"
  shows "data_at (st_files s') p = data_at (st_files s) p \<or> holds_ca ax (TrimSpace (aq_CAFingerprint opts)) (data_at (st_files s') p)"
proof -
  define T where "T d \<longleftrightarrow> d = data_at (st_files s) p \<or> holds_ca ax (TrimSpace (aq_CAFingerprint opts)) d" for d
  let ?Q = "\<lambda>s. T (data_at (st_files s) p)"
  have o: "aq_FromDir o1 = []" "aq_CAFile o1 = []" "aq_CAFingerprint o1 = aq_CAFingerprint opts"
    "agent_options_withDefaults ax o1 = o1" "aq_ConfigPath o1 \<noteq> []" "aq_SystemdSystem o1 = aq_SystemdSystem opts"
    using no by (simp_all add: o1 agent_withDefaults_idem ConfigPath_nonempty)
  have names: "''ca.crt'' \<in> client_names" "''client.crt'' \<in> client_names" "''client.key'' \<in> client_names" "''ca.key'' \<in> client_names"
    by (simp_all add: client_names_def)
  have install: "preserves ?Q (install_material ax o1)"
    unfolding install_material_def Let_def o(1,2) p
    by (intro preserves_steps InstallFile_keeps [OF dir, where T = "\<lambda>x. T (map_option fi_data x)"] names
        FetchCA_pinned [where T = "\<lambda>x. T (map_option fi_data x)"])
      (use o join_clean [OF dir client_name_plain [OF names(1)]] in \<open>simp_all add: T_def\<close>)
  have rest: "preserves ?Q (client_key ax o1)" "preserves ?Q (client_certificate ax o1)" unfolding p
    using key_keeps [OF dir, where n = "''ca.crt''" and T = "\<lambda>x. T (map_option fi_data x)"]
      certificate_keeps [OF dir _ o(4), where n = "''ca.crt''" and T = "\<lambda>x. T (map_option fi_data x)"] by simp_all
  have "preserves ?Q (agent_setup_Run ax opts)"
    by (intro run_preserves [OF o1] files_Do_at [where T = "\<lambda>x. T (map_option fi_data x)"] install rest finish_data)
      (use o no(3) in \<open>simp_all add: written_at_def\<close>)
  from preservesD [OF this run] show ?thesis by (simp add: T_def)
qed

section \<open>An identity that is there\<close>

lemma preserves_both:
  assumes "preserves A m" "preserves B m" shows "preserves (\<lambda>s. A s \<and> B s) m"
  using assms by (simp add: preserves_def)

lemma preserves_alone:
  assumes "\<And>s. Q s \<Longrightarrow> fst (m s) = s" shows "preserves Q m"
  using assms by (simp add: preserves_def)

lemma install_keeps_client:
  assumes dir: "IsAbs (aq_CertsDir o1)" and n: "n \<in> {''client.crt'', ''client.key''}"
    and no: "aq_FromDir o1 = []" "aq_CertFile o1 = []" "aq_KeyFile o1 = []"
  shows "preserves (\<lambda>s. T (map_of (st_files s) (filepath_Join [aq_CertsDir o1, n]))) (install_material ax o1)"
proof -
  have names: "n \<in> client_names" "n \<noteq> ''ca.crt''" "n \<noteq> ''ca.key''" "''ca.crt'' \<in> client_names" "''ca.key'' \<in> client_names"
    using n by (auto simp: client_names_def)
  note apart = client_names_apart [OF dir names(1) names(4) names(2)]
  show ?thesis unfolding install_material_def Let_def no
    by (intro preserves_steps InstallFile_keeps [OF dir] names FetchCA_keeps)
      (use apart join_clean [OF dir client_name_plain [OF names(4)]] in simp_all)
qed

lemma identity_run:
  assumes o1: "o1 = agent_options_withDefaults ax opts" and dir: "IsAbs (aq_CertsDir o1)"
    and k: "k = filepath_Join [aq_CertsDir o1, ''client.key'']" and c: "c = filepath_Join [aq_CertsDir o1, ''client.crt'']"
    and no: "aq_FromDir opts = []" "aq_CertFile opts = []" "aq_KeyFile opts = []" and there: "\<not> A None" "\<not> B None"
    and finish: "\<And>t. preserves (\<lambda>s. A (map_of (st_files s) k)) (config_verify_install ax (o1\<lparr>aq_EnrollToken := t\<rparr>))"
      "\<And>t. preserves (\<lambda>s. B (map_of (st_files s) c)) (config_verify_install ax (o1\<lparr>aq_EnrollToken := t\<rparr>))"
  shows "preserves (\<lambda>s. A (map_of (st_files s) k) \<and> B (map_of (st_files s) c)) (agent_setup_Run ax opts)"
proof -
  let ?Q = "\<lambda>s. A (map_of (st_files s) k) \<and> B (map_of (st_files s) c)"
  have o: "aq_FromDir o1 = []" "aq_CertFile o1 = []" "aq_KeyFile o1 = []" using no by (simp_all add: o1)
  have install: "preserves ?Q (install_material ax o1)"
    unfolding k c by (intro preserves_both install_keeps_client [OF dir _ o]) simp_all
  have f: "file_exists (st_files s) k \<and> file_exists (st_files s) c" if "?Q s" for s
    using that there by (metis file_exists_def)
  have rest: "preserves ?Q (client_key ax o1)" "preserves ?Q (client_certificate ax o1)"
    by (rule preserves_alone, drule f, simp add: client_key_def client_certificate_def with_files_def Let_def lift_result_def k c)+
  from run_preserves [OF o1 preserves_both [OF files_Do_at files_Do_at] install rest preserves_both [OF finish]] show ?thesis .
qed

text \<open>
  (C28) A client that has a key and a certificate keeps them: unless a directory of certificates or the
  files themselves were given, no set-up changes the contents of \<open>client.key\<close> or \<open>client.crt\<close>,
  however it ends, with or without the service, and even with \<open>--force\<close>; in particular an enrolment
  that was chosen to replace the certificate does not take place. When no service is installed their
  permission bits stay too. (The directory is absolute, and the configuration and the unit of the
  service are other files.)
\<close>

theorem client_identity_kept:
  assumes run: "agent_setup_Run ax opts s = (s', r)" and o1: "o1 = agent_options_withDefaults ax opts"
    and dir: "IsAbs (aq_CertsDir o1)"
    and k: "k = filepath_Join [aq_CertsDir o1, ''client.key'']" "map_of (st_files s) k = Some fk"
    and c: "c = filepath_Join [aq_CertsDir o1, ''client.crt'']" "map_of (st_files s) c = Some fc"
    and no: "aq_FromDir opts = []" "aq_CertFile opts = []" "aq_KeyFile opts = []"
      "{k, c} \<inter> {aq_ConfigPath o1, aq_ConfigPath o1 @ ''.tmp'', service_unit ax (aq_SystemdSystem opts)} = {}"
  shows "data_at (st_files s') k = Some (fi_data fk) \<and> data_at (st_files s') c = Some (fi_data fc)
    \<and> (\<not> aq_InstallSystemd opts \<longrightarrow> map_of (st_files s') k = Some fk \<and> map_of (st_files s') c = Some fc)"
proof -
  have o: "aq_ConfigPath o1 \<noteq> []" "aq_SystemdSystem o1 = aq_SystemdSystem opts" "aq_InstallSystemd o1 = aq_InstallSystemd opts"
    by (simp_all add: o1 ConfigPath_nonempty)
  note apart = no(4) [folded o(2)]
  note runs = identity_run [OF o1 dir k(1) c(1) no(1-3)]
  have data: "preserves (\<lambda>s. data_at (st_files s) x = Some d) (config_verify_install ax (o1\<lparr>aq_EnrollToken := t\<rparr>))" if "x \<in> {k, c}" for x d t
    by (rule finish_data [where T = "\<lambda>y. y = Some d"]) (use that o(1) apart in \<open>auto simp: written_at_def\<close>)
  have entry: "preserves (\<lambda>s. map_of (st_files s) x = Some f) (config_verify_install ax (o1\<lparr>aq_EnrollToken := t\<rparr>))"
    if "x \<in> {k, c}" "\<not> aq_InstallSystemd opts" for x f t
    by (rule finish_keeps [where T = "\<lambda>y. y = Some f"]) (use that o apart in \<open>auto simp: written_at_def\<close>)
  have "data_at (st_files s') k = Some (fi_data fk) \<and> data_at (st_files s') c = Some (fi_data fc)"
    using preservesD [OF runs [where A = "\<lambda>y. map_option fi_data y = Some (fi_data fk)" and B = "\<lambda>y. map_option fi_data y = Some (fi_data fc)"] run]
      k(2) c(2) data by simp
  moreover have "map_of (st_files s') k = Some fk \<and> map_of (st_files s') c = Some fc" if "\<not> aq_InstallSystemd opts"
    using preservesD [OF runs [where A = "\<lambda>y. y = Some fk" and B = "\<lambda>y. y = Some fc"] run] k(2) c(2) entry that by simp
  ultimately show ?thesis by blast
qed

section \<open>Resuming an enrolment\<close>

lemma empty_fingerprint: "normal_fingerprint fp = [] \<Longrightarrow> \<exists>err. verifyCAFingerprint ax body fp = Some err"
  by (simp add: verifyCAFingerprint_def Let_def normal_fingerprint_def)

lemma fetch_unpinned_fails:
  fixes ax :: "('c, 'p) agent_setup_env"
  assumes "bo_InsecureSkipVerify opts" "normal_fingerprint (TrimSpace (bo_CAFingerprint opts)) = []"
  shows "\<exists>s' err. agent_FetchCA ax opts s = (s', Inl err)"
proof (rule ccontr)
  assume "\<not> ?thesis"
  then obtain s' dest where ok: "agent_FetchCA ax opts s = (s', Inr dest)" by (metis old.sum.exhaust surj_pair)
  let ?o = "bootstrap_withDefaults opts"
  have o: "bo_InsecureSkipVerify ?o" "bo_CAFingerprint ?o = TrimSpace (bo_CAFingerprint opts)" using assms(1) by (simp_all add: bootstrap_withDefaults_def)
  have "\<exists>body (s1 :: 'p setup_state) s2 x. check (if bo_InsecureSkipVerify ?o then verifyCAFingerprint ax body (bo_CAFingerprint ?o) else None) s1 = (s2, Inr x)"
    using ok unfolding agent_FetchCA_def with_files_def Let_def by (elim guard_okE and_then_okE) (intro exI, assumption)
  then obtain body x and s1 s2 :: "'p setup_state" where
    "check (if bo_InsecureSkipVerify ?o then verifyCAFingerprint ax body (bo_CAFingerprint ?o) else None) s1 = (s2, Inr x)" by blast
  then have "verifyCAFingerprint ax body (TrimSpace (bo_CAFingerprint opts)) = None" using o by (auto simp: check_def split: option.splits)
  with empty_fingerprint [OF assms(2)] show False by (metis option.distinct(1))
qed


lemma run_unpinned_fails:
  assumes "aq_FetchCA opts" "aq_CAFile opts = []" "normal_fingerprint (TrimSpace (aq_CAFingerprint opts)) = []"
  shows "\<exists>s' err. agent_setup_Run ax opts s = (s', Inl err)"
proof (rule ccontr)
  assume "\<not> ?thesis"
  then obtain s' x where ok: "agent_setup_Run ax opts s = (s', Inr x)" by (metis old.sum.exhaust surj_pair)
  let ?o = "agent_options_withDefaults ax opts"
  have "\<exists>s1 s2 x. install_material ax ?o s1 = (s2, Inr x)"
    using ok unfolding agent_setup_Run_def Let_def by (elim and_then_okE) (intro exI, assumption)
  then obtain s1 s2 x where im: "install_material ax ?o s1 = (s2, Inr x)" by blast
  let ?bo = "\<lparr>bo_ProxyURL = aq_ProxyURL ?o, bo_CertsDir = aq_CertsDir ?o, bo_EnrollToken = [], bo_CAFingerprint = aq_CAFingerprint ?o,
      bo_Timeout = 0, bo_InsecureSkipVerify = True, bo_RefreshCA = False\<rparr>"
  have o: "\<not> aq_CAFile ?o \<noteq> []" "aq_FetchCA ?o" using assms(1,2) by simp_all
  have "\<exists>s3 s4 y. wrapped ''fetch CA: '' (agent_FetchCA ax ?bo) s3 = (s4, Inr y)"
    using im unfolding install_material_def Let_def if_not_P [OF o(1)] if_P [OF o(2)] by (elim and_then_okE) (intro exI, assumption)
  then obtain s3 s4 y where "agent_FetchCA ax ?bo s3 = (s4, Inr y)" using wrapped_ok by metis
  with fetch_unpinned_fails [of ?bo ax s3] assms(3) show False by simp
qed

lemma on_input_ok: "on_input m s = (s', Inr x) \<Longrightarrow> \<exists>i. m (st_input s) = (i, Inr x)"
  by (auto simp: on_input_def split: prod.splits)

lemma fingerprint_question_keeps:
  assumes "(if c then and_then m (\<lambda>fp. lift_result (Inr (o2\<lparr>aq_HostKeyFingerprint := TrimSpace fp\<rparr>))) else lift_result (Inr o2)) i = (i', Inr o3)"
  shows "aq_CAFile o3 = aq_CAFile o2 \<and> aq_CAFingerprint o3 = aq_CAFingerprint o2 \<and> aq_CertsDir o3 = aq_CertsDir o2"
  using assms by (cases c) (auto elim!: and_then_okE simp: lift_result_def)

lemma ask_target_keeps:
  assumes "ask_target ax state o1 i = (i', Inr o2)"
  shows "aq_CAFile o2 = aq_CAFile o1 \<and> aq_CAFingerprint o2 = aq_CAFingerprint o1 \<and> aq_CertsDir o2 \<noteq> []"
  using assms unfolding ask_target_def Let_def
  by (elim and_then_okE guard_okE) (drule fingerprint_question_keeps, simp)

lemma ask_material_resumes:
  assumes "ask_material state o1 i = (i', Inr o2)" "needsEnrollResume state"
  shows "aq_FetchCA o2 \<and> aq_CAFile o2 = aq_CAFile o1 \<and> aq_CAFingerprint o2 = aq_CAFingerprint o1 \<and> aq_CertsDir o2 = aq_CertsDir o1"
  using assms unfolding ask_material_def by (auto elim!: and_then_okE simp: lift_result_def)

lemma applyCertStrategy_dir:
  assumes "applyCertStrategy o1 i = (i', Inr o2)" shows "aq_CertsDir o2 = aq_CertsDir o1"
  using assms unfolding applyCertStrategy_def by (auto elim!: and_then_okE simp: lift_result_def split: if_splits)

lemma ask_material_dir:
  assumes "ask_material state o1 i = (i', Inr o2)" shows "aq_CertsDir o2 = aq_CertsDir o1"
  using assms unfolding ask_material_def
  by (auto elim!: and_then_okE dest!: applyCertStrategy_dir simp: lift_result_def split: if_splits)

lemma agent_ask_service_keeps:
  assumes "agent_ask_service ax sg o1 i = (i', Inr o2)"
  shows "aq_FetchCA o2 = aq_FetchCA o1 \<and> aq_CAFile o2 = aq_CAFile o1 \<and> aq_CAFingerprint o2 = aq_CAFingerprint o1 \<and> aq_CertsDir o2 = aq_CertsDir o1"
  using assms unfolding agent_ask_service_def by (auto elim!: and_then_okE simp: lift_result_def split: if_splits)

lemma wizard_end:
  "(if yes then lift_result (Inr o1) else and_then (on_input (agent_askYesNo True)) (\<lambda>ok. lift_result (if ok then Inr o1 else Inl e))) s
     = (s', Inr o2) \<Longrightarrow> o2 = o1"
  by (cases yes) (auto elim!: and_then_okE simp: lift_result_def split: if_splits)

text \<open>
  (C33) An interrupted enrolment cannot be resumed by the wizard: where the directory holds a key and a
  request but no certificate, the options it returns make every run of the set-up fail, unless the
  fingerprint of the CA or a CA file was given on the command line; the wizard has the CA
  downloaded and does not ask for the fingerprint without which the download is refused.
\<close>

theorem resumed_enrolment_fails:
  assumes wizard: "agent_RunInteractive ax vl prefill assumeYes s = (s1, Inr opts)"
    and given: "aq_CAFile prefill = []" "normal_fingerprint (TrimSpace (aq_CAFingerprint prefill)) = []"
    and there: "file_exists (st_files s) (filepath_Join [aq_CertsDir opts, ''client.key''])"
      "file_exists (st_files s) (filepath_Join [aq_CertsDir opts, ''client.csr.pem''])"
      "\<not> file_exists (st_files s) (filepath_Join [aq_CertsDir opts, ''client.crt''])"
  shows "\<exists>s3 err. agent_setup_Run ax opts s2 = (s3, Inl err)"
proof -
  let ?st = "scanExisting ax vl (st_files s) prefill" and ?o0 = "agent_options_withDefaults ax prefill"
  have "\<exists>url o1 i1 i1' o2 i2 i2' o3 sg i3 i3' v. ask_target ax ?st (?o0\<lparr>aq_ProxyURL := url\<rparr>) i1 = (i1', Inr o1)
      \<and> ask_material (rescanCerts (st_files s) (aq_CertsDir o1) ?st) o1 i2 = (i2', Inr o2)
      \<and> agent_ask_service ax sg o2 i3 = (i3', Inr o3)
      \<and> opts = agent_options_withDefaults ax (o3\<lparr>aq_SkipVerify := v, aq_RewriteConfig := True\<rparr>)"
    using wizard unfolding agent_RunInteractive_def with_files_def Let_def
    by (elim and_then_okE) (drule on_input_ok, drule on_input_ok, drule on_input_ok, drule wizard_end, elim exE, intro exI conjI, assumption+)
  then obtain url o1 i1 i1' o2 i2 i2' o3 sg i3 i3' v where
    a: "ask_target ax ?st (?o0\<lparr>aq_ProxyURL := url\<rparr>) i1 = (i1', Inr o1)"
      "ask_material (rescanCerts (st_files s) (aq_CertsDir o1) ?st) o1 i2 = (i2', Inr o2)"
      "agent_ask_service ax sg o2 i3 = (i3', Inr o3)"
    and opts: "opts = agent_options_withDefaults ax (o3\<lparr>aq_SkipVerify := v, aq_RewriteConfig := True\<rparr>)" by blast
  note t = ask_target_keeps [OF a(1)] agent_ask_service_keeps [OF a(3)]
  have dir: "aq_CertsDir opts = aq_CertsDir o1"
    using t ask_material_dir [OF a(2)] by (simp add: opts agent_options_withDefaults_def Let_def or_default_def)
  have "needsEnrollResume (rescanCerts (st_files s) (aq_CertsDir o1) ?st)"
    using there by (simp add: needsEnrollResume_def rescanCerts_def dir)
  from ask_material_resumes [OF a(2) this] t given have "aq_FetchCA opts" "aq_CAFile opts = []" "aq_CAFingerprint opts = aq_CAFingerprint prefill"
    by (simp_all add: opts)
  with given(2) show ?thesis by (intro run_unpinned_fails) simp_all
qed

section \<open>Examples\<close>

text \<open>A proxy that is up, serves its CA, and redirects enrolments to an address under \<open>http://\<close>.\<close>

definition demo_served_ca :: bytes where
  "demo_served_ca = ''CERTIFICATE'' @ [CHR 0x0A] @ ''BEGIN CERTIFICATE''"

definition demo_agent_env :: "(unit, unit) agent_setup_env" where
  "demo_agent_env = \<lparr>ax_he = demo_host_env, ax_os = demo_agent_os, ax_sx = demo_sdk, ax_nw = demo_network,
     ax_Fetch = \<lambda>_ _ _ req.
       if or_url req = ''https://proxy/healthz'' then Inr \<lparr>in_status = 200, in_body = [], in_read_err = None\<rparr>
       else if or_url req = ''https://proxy'' @ mtlsCAPath then Inr \<lparr>in_status = 200, in_body = demo_served_ca, in_read_err = None\<rparr>
       else if or_url req = ''https://proxy'' @ mtlsEnrollPath then Inr \<lparr>in_status = 307, in_body = [], in_read_err = None\<rparr>
       else Inl (Errorf ''connection refused''),
     ax_Location = \<lambda>_ _ req. if or_url req = ''https://proxy'' @ mtlsEnrollPath then Some (Inr ''http://elsewhere/'') else None,
     ax_Handshake = \<lambda>_ _ _ _. None, ax_AppendCertsFromPEM = \<lambda>_. Some (), ax_LoadX509KeyPair = \<lambda>_ _ _. Inr (), ax_Rest = \<lambda>_. [],
     ax_MarshalPKCS1PrivateKey = \<lambda>k. k, ax_CreateCertificateRequest = \<lambda>_ _ k. Inr k, ax_CheckSignature = \<lambda>_. None,
     ax_Name = \<lambda>_. ([], []), ax_rand_Int = Inr 1, ax_IsInteractive = False, ax_Executable = Inr ''/usr/bin/luna-agent''\<rparr>"

definition demo_cert_files :: "string list \<Rightarrow> files" where
  "demo_cert_files names = map (\<lambda>n. (''/etc/luna/certs/'' @ n, \<lparr>fi_data = n, fi_mode = mode_0600\<rparr>)) names"

definition demo_agent_state :: "string list \<Rightarrow> string \<Rightarrow> unit setup_state" where
  "demo_agent_state names input = \<lparr>st_host = bare_host\<lparr>ho_files := demo_cert_files names\<rparr>, st_input = input, st_sent = []\<rparr>"

definition demo_agent_flags :: agent_setup_flags where
  "demo_agent_flags = \<lparr>af_string = \<lambda>k. case map_of [(''setupProxyURL'', ''https://proxy''), (''setupTargetUser'', ''deploy''),
     (''setupTargetHost'', ''10.0.0.1''), (''setupCertsDir'', ''/etc/luna/certs''), (''setupConfigPath'', ''/etc/luna/agent.yml''),
     (''setupAgentSocket'', ''/run/agent.sock''), (''setupEnrollToken'', ''secret'')] k of None \<Rightarrow> [] | Some v \<Rightarrow> v,
     af_bool = \<lambda>k. k = ''setupNonInteractive''\<rparr>"


lemma demo_certs:
  "filepath_Join [''/etc/luna/certs'', ''ca.crt''] = ''/etc/luna/certs/ca.crt''"
  "filepath_Join [''/etc/luna/certs'', ''ca.key''] = ''/etc/luna/certs/ca.key''"
  "filepath_Join [''/etc/luna/certs'', ''client.crt''] = ''/etc/luna/certs/client.crt''"
  "filepath_Join [''/etc/luna/certs'', ''client.key''] = ''/etc/luna/certs/client.key''"
  "filepath_Join [''/etc/luna/certs'', ''client.csr.pem''] = ''/etc/luna/certs/client.csr.pem''"
  "filepath_Clean ''/etc/luna/certs'' = ''/etc/luna/certs''"
  "TrimSpace ''https://proxy'' = ''https://proxy''" "TrimRight ''https://proxy'' ''/'' = ''https://proxy''" "TrimSpace ''secret'' = ''secret''"
  by code_simp+

definition demo_ready :: agent_Options where
  "demo_ready = agent_flagsToSetupOptions demo_agent_flags"

lemma demo_ready_fields:
  "aq_ProxyURL demo_ready = ''https://proxy''" "aq_TargetUser demo_ready = ''deploy''" "aq_TargetHost demo_ready = ''10.0.0.1''"
  "aq_CertsDir demo_ready = ''/etc/luna/certs''" "aq_ConfigPath demo_ready = ''/etc/luna/agent.yml''" "aq_EnrollToken demo_ready = ''secret''"
  "aq_FromDir demo_ready = []" "aq_CAFile demo_ready = []" "aq_CertFile demo_ready = []" "aq_KeyFile demo_ready = []" "aq_CAKeyFile demo_ready = []"
  "aq_SignerMode demo_ready = []" "\<not> aq_FetchCA demo_ready" "\<not> aq_InstallSystemd demo_ready" "aq_AgentSocket demo_ready = ''/run/agent.sock''"
  by (simp_all add: demo_ready_def agent_flagsToSetupOptions_def demo_agent_flags_def zero_agent_Options_def)

lemma demo_probe:
  "ProbeProxyURL demo_agent_env ''https://proxy'' defaultProbeTimeout s =
     (s\<lparr>st_sent := st_sent s @ [(NoVerify, get_request ''https://proxy/healthz'')]\<rparr>, Inr ())"
proof -
  have "bootstrap_Do demo_agent_env NoVerify defaultProbeTimeout (get_request ''https://proxy/healthz'') s =
      (s\<lparr>st_sent := st_sent s @ [(NoVerify, get_request ''https://proxy/healthz'')]\<rparr>, Inr \<lparr>in_status = 200, in_body = [], in_read_err = None\<rparr>)"
    by (subst bootstrap_Do_plain) (simp_all add: demo_agent_env_def get_request_def is_redirect_def)
  moreover have "sx_valid_url (ax_sx demo_agent_env) u" for u by (simp add: demo_agent_env_def demo_sdk_def)
  moreover have "0 < defaultProbeTimeout" by (simp add: defaultProbeTimeout_def duration_defs)
  ultimately show ?thesis by (simp add: ProbeProxyURL_def Let_def demo_certs HasPrefix_def)
qed

definition demo_defaults :: agent_Options where
  "demo_defaults = agent_options_withDefaults demo_agent_env demo_ready"

lemma demo_defaults_fields:
  "aq_ProxyURL demo_defaults = ''https://proxy''" "aq_CertsDir demo_defaults = ''/etc/luna/certs''" "aq_ConfigPath demo_defaults = ''/etc/luna/agent.yml''"
  "aq_EnrollToken demo_defaults = ''secret''" "aq_FromDir demo_defaults = []" "aq_CAFile demo_defaults = []" "aq_CertFile demo_defaults = []"
  "aq_KeyFile demo_defaults = []" "aq_CAKeyFile demo_defaults = []" "\<not> aq_FetchCA demo_defaults"
  "aq_SignerMode demo_defaults = ''local-ca''" "aq_TargetUser demo_defaults = ''deploy''" "aq_TargetHost demo_defaults = ''10.0.0.1''"
  "aq_AgentSocket demo_defaults = ''/run/agent.sock''"
  "agent_options_withDefaults demo_agent_env demo_defaults = demo_defaults"
  by (simp_all add: demo_defaults_def agent_withDefaults_idem) (simp_all add: agent_options_withDefaults_def Let_def or_default_def demo_ready_fields)

lemma demo_install: "install_material demo_agent_env demo_defaults s = (s, Inr ())"
  by (simp add: install_material_def Let_def demo_defaults_fields and_then_def lift_result_def)

definition half_enrolled :: "string list" where
  "half_enrolled = [''ca.crt'', ''client.key'', ''client.csr.pem'']"

lemma half_enrolled_files:
  "file_exists (demo_cert_files half_enrolled) ''/etc/luna/certs/ca.crt''" "file_exists (demo_cert_files half_enrolled) ''/etc/luna/certs/client.key''"
  "file_exists (demo_cert_files half_enrolled) ''/etc/luna/certs/client.csr.pem''"
  "\<not> file_exists (demo_cert_files half_enrolled) ''/etc/luna/certs/client.crt''" "\<not> file_exists (demo_cert_files half_enrolled) ''/etc/luna/certs/ca.key''"
  "os_ReadFile demo_rules (demo_cert_files half_enrolled) ''/etc/luna/certs/client.csr.pem'' = Inr ''client.csr.pem''"
  "os_ReadFile demo_rules (demo_cert_files half_enrolled) ''/etc/luna/certs/ca.crt'' = Inr ''ca.crt''"
  "\<not> file_exists (demo_cert_files half_enrolled) ''/etc/luna/agent.yml''"
  by (simp_all add: half_enrolled_def demo_cert_files_def file_exists_def os_ReadFile_def demo_rules_def)

lemma demo_env_parts:
  "sx_valid_url (ax_sx demo_agent_env) u" "ax_fr demo_agent_env = demo_rules" "ax_AppendCertsFromPEM demo_agent_env b = Some ()"
  by (simp_all add: demo_agent_env_def demo_sdk_def demo_host_env_def demo_pki_def)

definition demo_leak :: "string \<Rightarrow> bytes \<Rightarrow> out_request" where
  "demo_leak token payload = (enroll_post ''https://proxy'' token payload)\<lparr>or_url := ''http://elsewhere/''\<rparr>"

abbreviation demo_posts :: "string \<Rightarrow> bytes \<Rightarrow> unit sent" where
  "demo_posts token payload \<equiv> [(Roots (), enroll_post ''https://proxy'' token payload), (Roots (), demo_leak token payload)]"

lemma demo_redirects:
  "bootstrap_Do demo_agent_env (Roots ()) t (enroll_post ''https://proxy'' token payload) s =
     (s\<lparr>st_sent := st_sent s @ demo_posts token payload\<rparr>, Inl (Errorf ''connection refused''))"
proof -
  have ten: "(10 :: nat) = Suc (Suc 8)" by simp
  let ?q = "enroll_post ''https://proxy'' token payload"
  have url: "or_url ?q = ''https://proxy'' @ mtlsEnrollPath" by (simp add: enroll_post_def demo_certs)
  have f: "ax_Fetch demo_agent_env l tr t ?q = Inr \<lparr>in_status = 307, in_body = [], in_read_err = None\<rparr>"
    "ax_Location demo_agent_env l tr ?q = Some (Inr ''http://elsewhere/'')"
    "ax_Fetch demo_agent_env l tr t (demo_leak token payload) = Inl (Errorf ''connection refused'')" for l tr
    by (simp_all add: demo_agent_env_def url demo_leak_def mtlsCAPath_def mtlsEnrollPath_def)
  have r: "redirected 307 ''http://elsewhere/'' ?q = demo_leak token payload" "is_redirect 307"
    by (simp_all add: redirected_def demo_leak_def is_redirect_def)
  show ?thesis unfolding bootstrap_Do_def ten send_following.simps Let_def by (simp add: f r)
qed

lemma demo_enroll:
  assumes "st_files s = demo_cert_files half_enrolled"
  shows "\<exists>payload err. EnrollClientCSR demo_agent_env (enroll_options demo_defaults ''secret'') s =
     (s\<lparr>st_sent := st_sent s @ demo_posts ''secret'' payload\<rparr>, Inl err)"
  unfolding EnrollClientCSR_def Let_def
  by (simp add: enroll_options_def bootstrap_withDefaults_def demo_defaults_fields demo_certs and_then_def lift_result_def with_files_def
      assms demo_env_parts half_enrolled_files bootstrapHTTPClient_def loadCAPool_def wrapped_def wrap_err_def demo_redirects)
    (rule exI, rule refl)

lemma demo_certificate:
  assumes "st_files s = demo_cert_files half_enrolled"
  shows "\<exists>payload err. client_certificate demo_agent_env demo_defaults s =
     (s\<lparr>st_sent := st_sent s @ demo_posts ''secret'' payload\<rparr>, Inl err)"
proof -
  have "ensureEnrollToken demo_agent_env demo_defaults s = (s, Inr demo_defaults)"
    by (simp add: ensureEnrollToken_def Let_def demo_defaults_fields lift_result_def)
  moreover obtain payload err where "EnrollClientCSR demo_agent_env (enroll_options demo_defaults ''secret'') s =
      (s\<lparr>st_sent := st_sent s @ demo_posts ''secret'' payload\<rparr>, Inl err)"
    using demo_enroll [OF assms] by blast
  ultimately show ?thesis unfolding client_certificate_def Let_def
    by (simp add: with_files_def assms demo_defaults_fields demo_certs half_enrolled_files or_default_def and_then_def wrapped_def wrap_err_def
        enroll_options_def) (rule exI, rule refl)
qed

lemma demo_run:
  assumes "st_files s = demo_cert_files half_enrolled"
  shows "\<exists>payload err. agent_setup_Run demo_agent_env demo_ready s =
     (s\<lparr>st_sent := st_sent s @ (NoVerify, get_request ''https://proxy/healthz'') # demo_posts ''secret'' payload\<rparr>,
      Inl err)"
proof -
  let ?s = "s\<lparr>st_sent := st_sent s @ [(NoVerify, get_request ''https://proxy/healthz'')]\<rparr>"
  obtain payload err where c: "client_certificate demo_agent_env demo_defaults ?s =
      (?s\<lparr>st_sent := st_sent ?s @ demo_posts ''secret'' payload\<rparr>, Inl err)"
    using demo_certificate [of ?s] assms by auto
  have k: "client_key demo_agent_env demo_defaults ?s = (?s, Inr ())"
    using assms by (simp add: client_key_def with_files_def demo_defaults_fields demo_certs half_enrolled_files lift_result_def)
  have m: "fr_MkdirAll (ax_fr demo_agent_env) d = None" for d unfolding demo_env_parts by (simp add: demo_rules_def)
  show ?thesis unfolding agent_setup_Run_def Let_def demo_defaults_def [symmetric]
    using c k m by (simp add: and_then_def demo_defaults_fields wrapped_def demo_probe wrap_err_def check_def wrap_opt_def demo_install) (rule exI, rule refl)
qed

text \<open>The command on a host where an enrolment was interrupted. Its token ends up at an address under \<open>http://\<close>.\<close>

theorem enroll_token_protected_witness:
  "\<exists>s' r payload. agent_runSetupAll demo_agent_env (demo_viper ''local-ca'') demo_agent_flags (demo_agent_state half_enrolled []) = (s', r)
     \<and> st_sent s' = (NoVerify, get_request ''https://proxy/healthz'') # demo_posts ''secret'' payload
     \<and> (enrollTokenHeader, ''secret'') \<in> set (or_headers (demo_leak ''secret'' payload))
     \<and> redirect_hop demo_agent_env (take 2 (st_sent s')) (Roots ()) (demo_leak ''secret'' payload)"
proof -
  let ?s = "demo_agent_state half_enrolled []"
  have s: "st_files ?s = demo_cert_files half_enrolled" "st_sent ?s = []" by (simp_all add: demo_agent_state_def)
  obtain payload err where r: "agent_setup_Run demo_agent_env demo_ready ?s =
      (?s\<lparr>st_sent := (NoVerify, get_request ''https://proxy/healthz'') # demo_posts ''secret'' payload\<rparr>, Inl err)"
    using demo_run [OF s(1)] s(2) by auto
  obtain s' x where c: "agent_runSetupAll demo_agent_env (demo_viper ''local-ca'') demo_agent_flags ?s = (s', x)" by fastforce
  moreover have "af_bool demo_agent_flags ''setupNonInteractive''" by (simp add: demo_agent_flags_def)
  ultimately have "s' = ?s\<lparr>st_sent := (NoVerify, get_request ''https://proxy/healthz'') # demo_posts ''secret'' payload\<rparr>"
    unfolding agent_runSetupAll_def Let_def demo_ready_def [symmetric]
    by (simp add: and_then_def validateNonInteractive_def demo_ready_fields check_def lift_result_def r)
  then have sent: "st_sent s' = (NoVerify, get_request ''https://proxy/healthz'') # demo_posts ''secret'' payload" by simp
  have h: "(enrollTokenHeader, ''secret'') \<in> set (or_headers (demo_leak ''secret'' payload))" by (simp add: demo_leak_def enroll_post_def)
  have at: "2 < length (st_sent s')" "st_sent s' ! 2 = (Roots (), demo_leak ''secret'' payload)" using sent by (simp_all add: numeral_2_eq_2)
  have "\<not> first_post (demo_leak ''secret'' payload)"
    by (auto simp: first_post_def demo_leak_def mtlsEnrollPath_def dest: arg_cong [where f = length])
  with enroll_token_protected [OF c s(2) at h] c sent h show ?thesis by blast
qed

text \<open>The CA is downloaded over the one that is there, and its fingerprint was announced.\<close>

definition demo_ca_cert :: x509_cert where
  "demo_ca_cert = \<lparr>xc_Raw = ''BEGIN CERTIFICATE'', xc_OrganizationalUnit = []\<rparr>"

definition demo_fetching :: agent_Options where
  "demo_fetching = demo_ready\<lparr>aq_FetchCA := True, aq_CAFingerprint := CertFingerprint demo_ca_cert\<rparr>"

lemma hex_alphabet: "set (hex_EncodeToString b) \<subseteq> set hex_chars"
proof (induction b)
  case (Cons x b)
  have "length hex_chars = 16" by (simp add: hex_chars_def)
  moreover have "(of_char x :: nat) div 16 < 16" using of_char_less [of x] by (simp add: less_mult_imp_div_less)
  ultimately show ?case using Cons by (auto simp: Let_def)
qed simp

lemma strip_one_idle: "\<forall>p \<in> set ps. hd p \<notin> set s \<Longrightarrow> strip_one ps s = None"
  by (induction ps) (auto simp: HasPrefix_iff neq_Nil_conv)

lemma ToLower_hex: "set s \<subseteq> set hex_chars \<Longrightarrow> ToLower_ascii s = s"
proof (induction s)
  case (Cons c s)
  then have "c \<in> set hex_chars" by simp
  then have "ToLower_ascii (c # s) = c # ToLower_ascii s" by (auto simp: hex_chars_def)
  with Cons show ?case by simp
qed simp

lemma normal_hex: "TrimSpace (hex_EncodeToString b) = hex_EncodeToString b"
  "normal_fingerprint (hex_EncodeToString b) = hex_EncodeToString b"
proof -
  have "\<forall>p \<in> set space_encodings. hd p \<notin> set hex_chars" "\<forall>p \<in> set (map rev space_encodings). hd p \<notin> set hex_chars" by code_simp+
  then show t: "TrimSpace (hex_EncodeToString b) = hex_EncodeToString b"
    using hex_alphabet [of b] by (intro TrimSpace_idle strip_one_idle) auto
  have "CHR '':'' \<notin> set hex_chars" by (simp add: hex_chars_def)
  then have "filter (\<lambda>c. c \<noteq> CHR '':'') (hex_EncodeToString b) = hex_EncodeToString b"
    using hex_alphabet [of b] by (auto simp: filter_id_conv)
  then show "normal_fingerprint (hex_EncodeToString b) = hex_EncodeToString b"
    by (simp add: normal_fingerprint_def t ToLower_hex hex_alphabet)
qed

lemma demo_units:
  "service_unit demo_agent_env system \<noteq> ''/etc/luna/certs/ca.crt''" "service_unit demo_agent_env system \<noteq> ''/etc/luna/certs/client.key''"
  "service_unit demo_agent_env system \<noteq> ''/etc/luna/certs/client.crt''"
proof -
  have u: "service_unit demo_agent_env True = ''/etc/systemd/system/luna-agent.service''"
    "service_unit demo_agent_env False = ''/root/.config/systemd/user/luna-agent.service''" by code_simp+
  show "service_unit demo_agent_env system \<noteq> ''/etc/luna/certs/ca.crt''" "service_unit demo_agent_env system \<noteq> ''/etc/luna/certs/client.key''"
    "service_unit demo_agent_env system \<noteq> ''/etc/luna/certs/client.crt''" by (cases system; simp add: u)+
qed

lemmas demo_apart = demo_units demo_units [symmetric]

lemma demo_ca_accepted: "verifyCAFingerprint demo_agent_env demo_served_ca (CertFingerprint demo_ca_cert) = None"
proof -
  have fp: "CertFingerprint demo_ca_cert = hex_EncodeToString (sha256_Sum256 ''BEGIN CERTIFICATE'')"
    by (simp add: CertFingerprint_def demo_ca_cert_def)
  have "length (hex_EncodeToString (sha256_Sum256 ''BEGIN CERTIFICATE'')) \<noteq> 0" by (simp add: sha256_length)
  then have n: "hex_EncodeToString (sha256_Sum256 ''BEGIN CERTIFICATE'') \<noteq> []" by force
  have x5: "pk_x5 (ax_pk demo_agent_env) = demo_x5" "ax_Rest demo_agent_env b = []" for b
    by (simp_all add: demo_agent_env_def demo_host_env_def demo_pki_def)
  have d: "x5_pem_Decode demo_x5 demo_served_ca = Some (''CERTIFICATE'', ''BEGIN CERTIFICATE'')"
    by (simp add: demo_x5_def demo_served_ca_def)
  note h = normal_hex(2) [unfolded normal_fingerprint_def]
  show ?thesis unfolding verifyCAFingerprint_def Let_def fp h x5 d
    using n by (simp add: demo_x5_def)
qed

lemma demo_agent_write: "\<exists>fs'. agent_writeFile demo_rules path b m fs = (fs', Inr ()) \<and> data_at fs' path = Some b"
  by (simp add: agent_writeFile_def write_and_rename_def os_WriteFile_defs os_Rename_def demo_rules_def Let_def)

definition demo_fetch_defaults :: agent_Options where
  "demo_fetch_defaults = demo_defaults\<lparr>aq_FetchCA := True, aq_CAFingerprint := CertFingerprint demo_ca_cert\<rparr>"

lemma demo_fetch:
  fixes s :: "unit setup_state"
  defines "url \<equiv> ''https://proxy'' @ mtlsCAPath"
  shows "\<exists>fs'. agent_FetchCA demo_agent_env \<lparr>bo_ProxyURL = ''https://proxy'', bo_CertsDir = ''/etc/luna/certs'', bo_EnrollToken = [],
      bo_CAFingerprint = CertFingerprint demo_ca_cert, bo_Timeout = 0, bo_InsecureSkipVerify = True, bo_RefreshCA = False\<rparr> s =
      (s\<lparr>st_sent := st_sent s @ [(NoVerify, get_request url)], st_host := (st_host s)\<lparr>ho_files := fs'\<rparr>\<rparr>, Inr ''/etc/luna/certs/ca.crt'')
    \<and> data_at fs' ''/etc/luna/certs/ca.crt'' = Some demo_served_ca"
proof -
  let ?s = "s\<lparr>st_sent := st_sent s @ [(NoVerify, get_request url)]\<rparr>"
  have d: "bootstrap_Do demo_agent_env NoVerify t (get_request url) s = (?s, Inr \<lparr>in_status = 200, in_body = demo_served_ca, in_read_err = None\<rparr>)" for t
    by (subst bootstrap_Do_plain) (simp_all add: demo_agent_env_def get_request_def is_redirect_def mtlsCAPath_def url_def)
  have o: "bootstrap_withDefaults \<lparr>bo_ProxyURL = ''https://proxy'', bo_CertsDir = ''/etc/luna/certs'', bo_EnrollToken = [],
      bo_CAFingerprint = CertFingerprint demo_ca_cert, bo_Timeout = 0, bo_InsecureSkipVerify = True, bo_RefreshCA = False\<rparr> =
      \<lparr>bo_ProxyURL = ''https://proxy'', bo_CertsDir = ''/etc/luna/certs'', bo_EnrollToken = [],
      bo_CAFingerprint = CertFingerprint demo_ca_cert, bo_Timeout = 30 * second, bo_InsecureSkipVerify = True, bo_RefreshCA = False\<rparr>"
    by (simp add: bootstrap_withDefaults_def demo_certs CertFingerprint_def normal_hex)
  have body: "take 262144 demo_served_ca = demo_served_ca" "looksLikePEMCert demo_served_ca"
    by (simp add: demo_served_ca_def) (simp add: looksLikePEMCert_def, code_simp)
  obtain fs' where w: "agent_writeFile demo_rules ''/etc/luna/certs/ca.crt'' demo_served_ca mode_0644 (st_files s) = (fs', Inr ())"
      "data_at fs' ''/etc/luna/certs/ca.crt'' = Some demo_served_ca" using demo_agent_write by blast
  then show ?thesis
    unfolding agent_FetchCA_def with_files_def Let_def o BootstrapOptions.simps demo_certs url_def [symmetric]
    by (simp add: bootstrapHTTPClient_def demo_env_parts and_then_def wrapped_def wrap_err_def d
        lift_result_def read_limited_def body check_def demo_ca_accepted on_disk_def on_host_def on_files_def w(1)) (rule exI [of _ fs'], simp)
qed

lemma demo_download:
  "\<exists>s2. install_material demo_agent_env demo_fetch_defaults s = (s2, Inr ()) \<and> data_at (st_files s2) ''/etc/luna/certs/ca.crt'' = Some demo_served_ca"
proof -
  have f: "aq_FromDir demo_fetch_defaults = []" "aq_CAFile demo_fetch_defaults = []" "aq_FetchCA demo_fetch_defaults"
    "aq_CertFile demo_fetch_defaults = []" "aq_KeyFile demo_fetch_defaults = []" "aq_CAKeyFile demo_fetch_defaults = []"
    "aq_ProxyURL demo_fetch_defaults = ''https://proxy''" "aq_CertsDir demo_fetch_defaults = ''/etc/luna/certs''"
    "aq_CAFingerprint demo_fetch_defaults = CertFingerprint demo_ca_cert"
    by (simp_all add: demo_fetch_defaults_def demo_defaults_fields)
  from demo_fetch [of s] show ?thesis unfolding install_material_def Let_def f
    by (auto simp: and_then_def lift_result_def wrapped_def wrap_err_def f(3))
qed

theorem agent_ca_pinned_witness:
  "\<exists>s' r. agent_setup_Run demo_agent_env demo_fetching (demo_agent_state half_enrolled []) = (s', r)
     \<and> data_at (st_files s') ''/etc/luna/certs/ca.crt'' = Some demo_served_ca
     \<and> holds_ca demo_agent_env (TrimSpace (CertFingerprint demo_ca_cert)) (Some demo_served_ca)"
proof -
  let ?s = "demo_agent_state half_enrolled []" and ?p = "''/etc/luna/certs/ca.crt''"
  have o: "agent_options_withDefaults demo_agent_env demo_fetching = demo_fetch_defaults"
    by (simp add: demo_fetch_defaults_def demo_defaults_def demo_fetching_def agent_options_withDefaults_def Let_def)
  have f: "aq_CertsDir demo_fetch_defaults = ''/etc/luna/certs''" "aq_ConfigPath demo_fetch_defaults = ''/etc/luna/agent.yml''"
    "aq_ProxyURL demo_fetch_defaults = ''https://proxy''" "aq_SystemdSystem demo_fetch_defaults = aq_SystemdSystem demo_fetching"
    by (simp_all add: demo_fetch_defaults_def demo_defaults_fields) (simp add: demo_defaults_def demo_fetching_def)
  have g: "aq_FromDir demo_fetching = []" "aq_CAFile demo_fetching = []" "aq_CAFingerprint demo_fetching = CertFingerprint demo_ca_cert"
    by (simp_all add: demo_fetching_def demo_ready_fields)
  have apart: "?p \<notin> {''/etc/luna/agent.yml'', ''/etc/luna/agent.yml'' @ ''.tmp'', service_unit demo_agent_env (aq_SystemdSystem demo_fetching)}"
    by (simp add: demo_apart)
  let ?s1 = "?s\<lparr>st_sent := st_sent ?s @ [(NoVerify, get_request ''https://proxy/healthz'')]\<rparr>"
  obtain s2 where i: "install_material demo_agent_env demo_fetch_defaults ?s1 = (s2, Inr ())" "data_at (st_files s2) ?p = Some demo_served_ca"
    using demo_download by blast
  have m: "fr_MkdirAll (ax_fr demo_agent_env) d = None" for d unfolding demo_env_parts by (simp add: demo_rules_def)
  obtain s' r where l: "later_steps demo_agent_env demo_fetch_defaults s2 = (s', r)" by fastforce
  then have run: "agent_setup_Run demo_agent_env demo_fetching ?s = (s', r)"
    unfolding agent_setup_Run_def Let_def o later_steps_def [symmetric]
    using i m by (simp add: and_then_def f wrapped_def demo_probe wrap_err_def check_def wrap_opt_def)
  have abs: "IsAbs (aq_CertsDir demo_fetch_defaults)" by (simp add: f IsAbs_def HasPrefix_def)
  have keeps: "preserves (\<lambda>s. data_at (st_files s) ?p = Some demo_served_ca) (later_steps demo_agent_env demo_fetch_defaults)"
    using key_keeps [OF abs, where n = "''ca.crt''" and T = "\<lambda>x. map_option fi_data x = Some demo_served_ca" and ax = demo_agent_env]
      certificate_keeps [OF abs _ agent_withDefaults_idem [of demo_agent_env demo_fetching, unfolded o],
        where n = "''ca.crt''" and T = "\<lambda>x. map_option fi_data x = Some demo_served_ca"]
      finish_data [where p = ?p and T = "\<lambda>d. d = Some demo_served_ca" and ax = demo_agent_env] apart
    by (intro later_preserves [OF o [symmetric]]) (simp_all add: f demo_certs written_at_def)
  have d: "data_at (st_files s') ?p = Some demo_served_ca"
    using preservesD [where Q = "\<lambda>s. data_at (st_files s) ?p = Some demo_served_ca", OF keeps l] i(2) by blast
  have old: "data_at (st_files ?s) ?p = Some ''ca.crt''"
    by (simp add: demo_agent_state_def half_enrolled_def demo_cert_files_def)
  have "data_at (st_files s') ?p = data_at (st_files ?s) ?p
      \<or> holds_ca demo_agent_env (TrimSpace (aq_CAFingerprint demo_fetching)) (data_at (st_files s') ?p)"
    by (rule agent_ca_pinned [OF run o [symmetric]]) (use apart abs in \<open>simp_all add: f g demo_certs\<close>)
  then show ?thesis using run d old by (auto simp: g demo_served_ca_def)
qed

theorem client_identity_kept_witness:
  "\<exists>s' r. agent_setup_Run demo_agent_env (demo_ready\<lparr>aq_Force := True\<rparr>) (demo_agent_state [''ca.crt'', ''client.key'', ''client.crt''] []) = (s', r)
     \<and> map_of (st_files s') ''/etc/luna/certs/client.key'' = Some \<lparr>fi_data = ''client.key'', fi_mode = mode_0600\<rparr>"
proof -
  let ?s = "demo_agent_state [''ca.crt'', ''client.key'', ''client.crt''] []" and ?f = "demo_ready\<lparr>aq_Force := True\<rparr>"
  let ?o = "agent_options_withDefaults demo_agent_env ?f"
  obtain s' r where run: "agent_setup_Run demo_agent_env ?f ?s = (s', r)" by fastforce
  have f: "aq_CertsDir ?o = ''/etc/luna/certs''" "aq_ConfigPath ?o = ''/etc/luna/agent.yml''"
    by (simp_all add: agent_options_withDefaults_def Let_def or_default_def demo_ready_fields)
  have m: "map_of (st_files ?s) ''/etc/luna/certs/client.key'' = Some \<lparr>fi_data = ''client.key'', fi_mode = mode_0600\<rparr>"
    "map_of (st_files ?s) ''/etc/luna/certs/client.crt'' = Some \<lparr>fi_data = ''client.crt'', fi_mode = mode_0600\<rparr>"
    by (simp_all add: demo_agent_state_def demo_cert_files_def)
  from client_identity_kept [OF run refl _ _ m(1) _ m(2)] have "map_of (st_files s') ''/etc/luna/certs/client.key'' = Some \<lparr>fi_data = ''client.key'', fi_mode = mode_0600\<rparr>"
    by (simp add: f demo_certs IsAbs_def HasPrefix_def demo_ready_fields demo_apart)
  with run show ?thesis by blast
qed

text \<open>The wizard, with the suggested answers, a token and no service.\<close>

definition demo_answers :: string where
  "demo_answers = [CHR 0x0A, CHR 0x0A, CHR 0x0A, CHR 0x0A, CHR 0x0A, CHR 0x0A, CHR 0x0A] @ ''tok'' @ [CHR 0x0A] @ ''n'' @ [CHR 0x0A, CHR 0x0A, CHR 0x0A]"

lemma blank_line: "agent_readLine (CHR 0x0A # rest) = (rest, Inr [])"
  by (simp add: agent_readLine_def TrimRight_def)

lemma blank_askString: "d \<noteq> [] \<Longrightarrow> agent_askString d (CHR 0x0A # rest) = (rest, Inr d)"
  by (simp add: agent_askString.simps [of d] blank_line)

lemma blank_askYesNo: "agent_askYesNo d (CHR 0x0A # rest) = (rest, Inr d)"
  by (simp add: agent_askYesNo.simps [of d] blank_line)

lemma blank_askIndex: "askIndex n d (CHR 0x0A # rest) = (rest, Inr d)"
  by (simp add: askIndex.simps [of n] blank_line)

lemma demo_trim: "TrimSpace ''deploy'' = ''deploy''" "TrimSpace ''10.0.0.1'' = ''10.0.0.1''" "TrimSpace ''/etc/luna/certs'' = ''/etc/luna/certs''"
  "TrimSpace ''/etc/luna/agent.yml'' = ''/etc/luna/agent.yml''" "TrimSpace ''/run/agent.sock'' = ''/run/agent.sock''" "TrimSpace ''local-ca'' = ''local-ca''"
  "TrimSpace ''tok'' = ''tok''" "TrimSpace ''n'' = ''n''" "ToLower_ascii ''n'' = ''n''"
  by code_simp+

lemma typed_token: "agent_askString d (''tok'' @ CHR 0x0A # rest) = (rest, Inr ''tok'')"
  by (simp add: agent_askString.simps [of d] agent_readLine_def TrimRight_def demo_trim)

lemma typed_no: "agent_askYesNo d (''n'' @ CHR 0x0A # rest) = (rest, Inr False)"
  by (simp add: agent_askYesNo.simps [of d] agent_readLine_def TrimRight_def demo_trim)

lemma demo_target:
  assumes "es_Options st = zero_agent_Options"
  shows "\<exists>o2. ask_target demo_agent_env st (demo_defaults\<lparr>aq_ProxyURL := url\<rparr>)
     (CHR 0x0A # CHR 0x0A # CHR 0x0A # CHR 0x0A # CHR 0x0A # CHR 0x0A # rest) = (rest, Inr o2) \<and> aq_CertsDir o2 = ''/etc/luna/certs''"
  unfolding ask_target_def Let_def
  by (simp add: assms demo_defaults_fields demo_trim demo_certs and_then_def agent_askChoice_def blank_askIndex blank_askString lift_result_def)

lemma demo_material:
  assumes "needsEnrollResume st" shows "\<exists>o2. ask_material st o1 (''tok'' @ CHR 0x0A # rest) = (rest, Inr o2) \<and> aq_CertsDir o2 = aq_CertsDir o1"
  using assms unfolding ask_material_def promptEnrollToken_def by (simp only: and_then_def typed_token if_True prod.case sum.case lift_result_def) simp

lemma demo_service: "agent_ask_service ax sg o1 (''n'' @ CHR 0x0A # rest) = (rest, Inr (o1\<lparr>aq_InstallSystemd := False\<rparr>))"
  unfolding agent_ask_service_def by (simp only: and_then_def typed_no prod.case sum.case lift_result_def not_False_eq_True if_True)

lemma demo_wizard:
  "\<exists>s1 opts. agent_RunInteractive demo_agent_env (demo_viper ''local-ca'') demo_ready False (demo_agent_state half_enrolled demo_answers) = (s1, Inr opts)
     \<and> aq_CertsDir opts = ''/etc/luna/certs''"
proof -
  let ?s = "demo_agent_state half_enrolled demo_answers"
  let ?i3 = "CHR 0x0A # [CHR 0x0A]"
  let ?i2 = "''n'' @ CHR 0x0A # ?i3"
  let ?i1 = "''tok'' @ CHR 0x0A # ?i2"
  let ?s1 = "?s\<lparr>st_input := CHR 0x0A # CHR 0x0A # CHR 0x0A # CHR 0x0A # CHR 0x0A # CHR 0x0A # ?i1,
      st_sent := [(NoVerify, get_request ''https://proxy/healthz'')]\<rparr>"
  let ?st = "scanExisting demo_agent_env (demo_viper ''local-ca'') (st_files ?s) demo_ready"
  have prompt: "promptProxyURL demo_agent_env ''https://proxy'' ?s = (?s1, Inr ''https://proxy'')"
    by (subst promptProxyURL.simps) (simp add: on_input_def demo_agent_state_def demo_answers_def blank_askString demo_certs demo_probe)
  have files: "st_files ?s = demo_cert_files half_enrolled" by (simp add: demo_agent_state_def)
  have st: "es_Options ?st = zero_agent_Options"
    by (simp add: scanExisting_def Let_def rescanCerts_def loadExistingConfig_def files half_enrolled_files
        demo_defaults_def [symmetric] demo_defaults_fields)
  have resume: "needsEnrollResume (rescanCerts (st_files ?s) ''/etc/luna/certs'' ?st)"
    by (simp add: needsEnrollResume_def rescanCerts_def files demo_certs half_enrolled_files)
  obtain o1 where o1: "ask_target demo_agent_env ?st (demo_defaults\<lparr>aq_ProxyURL := ''https://proxy''\<rparr>) (st_input ?s1) = (?i1, Inr o1)"
      "aq_CertsDir o1 = ''/etc/luna/certs''"
    using demo_target [OF st, of "''https://proxy''" ?i1] by auto
  obtain o2 where o2: "ask_material (rescanCerts (st_files ?s) (aq_CertsDir o1) ?st) o1 ?i1 = (?i2, Inr o2)" "aq_CertsDir o2 = ''/etc/luna/certs''"
    using demo_material [of _ o1 ?i2] resume o1(2) by metis
  have url: "firstNonEmpty [aq_ProxyURL demo_defaults, aq_ProxyURL (es_Options ?st)] = ''https://proxy''" by (simp add: demo_defaults_fields demo_certs)
  let ?s2 = "?s1\<lparr>st_input := ?i1\<rparr>" and ?s3 = "?s1\<lparr>st_input := ?i2\<rparr>" and ?s4 = "?s1\<lparr>st_input := ?i3\<rparr>"
  have steps:
    "on_input (ask_target demo_agent_env ?st (demo_defaults\<lparr>aq_ProxyURL := ''https://proxy''\<rparr>)) ?s1 = (?s2, Inr o1)"
    "on_input (ask_material (rescanCerts (st_files ?s) (aq_CertsDir o1) ?st) o1) ?s2 = (?s3, Inr o2)"
    "on_input (agent_ask_service demo_agent_env sg o2) ?s3 = (?s4, Inr (o2\<lparr>aq_InstallSystemd := False\<rparr>))"
    "on_input (agent_askYesNo True) ?s4 = (?s4\<lparr>st_input := [CHR 0x0A]\<rparr>, Inr True)"
    "on_input (agent_askYesNo True) (?s4\<lparr>st_input := [CHR 0x0A]\<rparr>) = (?s4\<lparr>st_input := []\<rparr>, Inr True)" for sg
    using o1(1) o2(1) demo_service [of demo_agent_env sg o2 ?i3] blank_askYesNo [of True] by (simp_all add: on_input_def)
  show ?thesis unfolding agent_RunInteractive_def with_files_def Let_def demo_defaults_def [symmetric] url if_False
    by (simp only: and_then_def prompt steps prod.case sum.case lift_result_def if_True)
      (simp add: o2(2) agent_options_withDefaults_def Let_def or_default_def)
qed

theorem resumed_enrolment_fails_witness:
  "\<exists>s1 opts s3 err. agent_RunInteractive demo_agent_env (demo_viper ''local-ca'') demo_ready False (demo_agent_state half_enrolled demo_answers)
       = (s1, Inr opts)
     \<and> agent_setup_Run demo_agent_env opts s1 = (s3, Inl err)"
proof -
  obtain s1 opts where w: "agent_RunInteractive demo_agent_env (demo_viper ''local-ca'') demo_ready False (demo_agent_state half_enrolled demo_answers)
      = (s1, Inr opts)" "aq_CertsDir opts = ''/etc/luna/certs''" using demo_wizard by blast
  have files: "st_files (demo_agent_state half_enrolled demo_answers) = demo_cert_files half_enrolled" by (simp add: demo_agent_state_def)
  have fp: "aq_CAFingerprint demo_ready = []" by (simp add: demo_ready_def agent_flagsToSetupOptions_def demo_agent_flags_def)
  have "\<exists>s3 err. agent_setup_Run demo_agent_env opts s1 = (s3, Inl err)"
    by (rule resumed_enrolment_fails [OF w(1)])
      (simp_all add: w(2) files demo_certs half_enrolled_files demo_ready_fields fp normal_fingerprint_def)
  with w(1) show ?thesis by blast
qed

end
