(* ===== verification/Spec2Isabelle.thy ===== *)
theory Spec2Isabelle
  imports Approval_Run Proxy Agent Cli_Cmd Setup_Safety
begin

text \<open>
  \<^bold>\<open>Luna Z-Trust.\<close> A central proxy holds SSH signing keys. An SSH agent on a client machine, or any program
  that uses the client library, asks it over mutually authenticated TLS for a user certificate
  (mode \<open>local-ca\<close>) or for a signature by a hosted key (mode \<open>local-key\<close>); a human approves in
  a Telegram chat or on an enrolled phone; an approval may leave a lease under which the same
  request is answered at once for a while. Operators load keys and enrol devices over a local control
  socket or, with client certificates, over HTTPS.

  \<^bold>\<open>How the parts interact.\<close> The agent (\<open>agent/\<close>) lists identities and turns a signing request of an SSH
  client into a call of the client library (\<open>sdk/\<close>), which posts it with a proof of possession and
  a MAC under a key exported from the TLS connection, and then waits. The API of the proxy
  (\<open>proxy/internal/api\<close>) authenticates the post (\<open>auth\<close>), consults the leases (\<open>lease\<close>) and puts a
  transaction into the store (\<open>approval\<close>); a job announces it. The Telegram poller or the approval
  route of the phones decides; the store then has the signer (\<open>signing\<close>, \<open>keystore\<close>) issue, records
  the lease and answers the waiter. The control socket (\<open>control\<close>) and the CLI routes change the
  keystore and the device registries (\<open>mobile\<close>, \<open>cli\<close>). \<open>cmd/luna-proxy/serve.go\<close> composes all
  of this from a configuration (\<open>config\<close>); the other commands of \<open>luna-proxy\<close> are its clients. Before
  all that, the set-up commands of both programs make the certificates, write the configuration and
  install the services; the agent's gets its certificate from the proxy with an enrolment token.

  \<^bold>\<open>Theories and sources.\<close> Paths are under \<open>src/\<close>, \<open>P\<close> standing for \<open>proxy/internal\<close>. A Go struct is a record
  with prefixed fields, a method is a function that takes and returns the receiver's state, a
  returned error is the left side of a sum.

  \<^item> \<open>Prelude\<close>: Go's values (strings and byte slices as lists of 8-bit characters, 64-bit integers, times
    in nanoseconds, errors with their wrapping, maps as association lists) and the interfaces
    that several components share: \<open>keyed_store\<close>, \<open>codec\<close>, \<open>op_machine\<close>, \<open>step_machine\<close>.
  \<^item> \<open>Go_Text\<close>, \<open>Go_Time\<close>, \<open>Go_Crypto\<close>, \<open>Go_Net\<close>, \<open>Go_Path\<close>, \<open>Go_Files\<close>: the parts of Go's standard library
    that the program uses. Number, hexadecimal and base64 printing are interpretations of
    \<open>codec\<close>; SHA-256 and HMAC are computed; of JSON the decoding of values into structs is defined
    and the text is a parameter.
  \<^item> \<open>Lease\<close>: \<open>P/lease\<close>. \<open>Replay\<close>: \<open>P/auth/replay.go\<close>. \<open>Keystore\<close>, \<open>Pending\<close>: \<open>P/keystore\<close>. \<open>Signing\<close>:
    \<open>P/signing\<close>. \<open>Devices\<close>: \<open>P/mobile/store.go\<close> and the registry and rate limit of \<open>P/cli\<close>. \<open>CSR\<close>:
    \<open>P/cli/csr.go\<close>. \<open>Config\<close>, \<open>Config_Load\<close>: \<open>P/config\<close>.
  \<^item> \<open>Auth\<close>, \<open>Session_Binding\<close>: the rest of \<open>P/auth\<close>.
  \<^item> \<open>Approval\<close>: \<open>P/approval/store.go\<close>, each method as a whole. \<open>Approval_Run\<close>: the same methods cut at
    the critical sections of the mutex, as a step relation over goroutines. \<open>Telegram\<close>:
    \<open>P/approval/telegram.go\<close>, \<open>callback.go\<close> and \<open>poller.go\<close>.
  \<^item> \<open>Api_Server\<close>, \<open>Sign_Api\<close>, \<open>Device_Api\<close>: \<open>P/api\<close>, every handler and route. \<open>Api_Run\<close>: sequences of
    requests.
  \<^item> \<open>Control\<close>: \<open>P/control\<close>. \<open>Proxy\<close>: \<open>cmd/luna-proxy/serve.go\<close> and the events of the running program:
    requests, control connections, Telegram updates, timers and background jobs.
  \<^item> \<open>Sdk\<close>: \<open>sdk/\<close>. \<open>Sdk_Server\<close>: the library against the handlers. \<open>Agent_Config\<close>, \<open>Agent\<close>: \<open>agent/\<close> and
    \<open>agent/cmd/luna-agent/root.go\<close>, with connections interleaved in any order.
  \<^item> \<open>Cli_Client\<close>: \<open>P/cli/httpclient\<close> and \<open>P/control/client\<close>, also against the proxy. \<open>Cli_Cmd\<close>: \<open>key.go\<close>,
    \<open>cli.go\<close>, \<open>mobile.go\<close>, \<open>status.go\<close>, \<open>cli_config.go\<close> and \<open>output.go\<close> of \<open>cmd/luna-proxy\<close>.
  \<^item> \<open>Setup_PKI\<close>: \<open>mtls.go\<close> and \<open>admin_client.go\<close> of \<open>P/setup\<close>, steps on a file system that may fail at any
    point. \<open>Setup\<close>: the rest of \<open>P/setup\<close> with its questions, \<open>P/install\<close>, and \<open>setup.go\<close> and
    \<open>install.go\<close> of \<open>cmd/luna-proxy\<close>, steps on a host with its users, groups and services.
    \<open>Agent_Setup\<close>: \<open>agent/internal/setup\<close> without its wizard, and \<open>agent/internal/install\<close>, steps that
    also record the requests sent. \<open>Agent_Wizard\<close>: the wizard, and \<open>setup.go\<close> and \<open>install.go\<close> of
    \<open>agent/cmd/luna-agent\<close>. \<open>Setup_Safety\<close>: what all runs of the agent's set-up keep.

  \<^bold>\<open>What is shown.\<close>

  \<^item> Of the running proxy (\<open>Proxy\<close>): the invariants of all stores hold in every reachable state; a
    transaction becomes approved, and a lease changes, only by a permitted decision; keys and
    registries change only through permitted operators.
  \<^item> Of the store under concurrency (\<open>Approval_Run\<close>): one outcome per transaction, delivered to every
    waiter; no credential and no lease without an approval; no transaction stays in the state
    \<open>approving\<close> without a goroutine that will finish it.
  \<^item> Of the API: a post, an approval and a wait give exactly the issued credential to the client that
    posted, and no other client can collect it, whatever happens in between; roles are separate over
    all routes; unbound destinations never use leases; the number of tokens and passphrases that can be
    guessed is bounded.
  \<^item> Of the Telegram poller: the store changes only by decisions of updates it received, whose own sender
    and chat are permitted.
  \<^item> Of the components: the indexed lease lookup refines a search over the granted leases; the replay
    cache refuses repetitions; session bindings prove the destination; enrolled certificates carry
    their role; printing and parsing of fingerprints and of the Telegram keyboard are inverse.
  \<^item> Of the two ends: client library and proxy compute the same challenge and MAC, so that what the
    library posts is accepted; posting ends after at most two connections; a signature request
    without a verified destination never leaves the agent; a binding the agent accepts convinces the
    proxy.
  \<^item> Of the command line: a call over the socket returns what the operation answered; the key list is
    that of the keystore; enrolment stores the certificate the proxy registered or reports an error; a
    key loaded remotely is the local file; a downloaded CA replaces the file as a whole or not at all.
  \<^item> Of the set-up: a generated set of certificates is complete, and the proxy can load and use it; without
    force no file is overwritten; the enrolment token leaves only for a server whose certificate is
    checked, and from there goes where redirects lead; a downloaded CA is one certificate with the
    announced fingerprint; the contents of key and certificate of a client are kept; every question
    of a wizard ends.
  \<^item> Some lemmas state behaviour that its authors will hardly have meant: \<open>replay_window_gap\<close>,
    \<open>timestamp_overflow\<close>, \<open>popChallenge_ambiguous\<close>, \<open>keyboard_empty_list\<close>, \<open>blank_cli_unit\<close>,
    \<open>key_confirm_wrong_passphrase\<close>, \<open>retry_is_a_replay\<close>, \<open>local_ca_ignores_key\<close>,
    \<open>fallback_key_mismatch\<close>, \<open>long_answer_lost\<close>, \<open>other_unit_refused\<close>, \<open>validity_days\<close>,
    \<open>unit_ignores_config\<close>, \<open>fresh_host_setup_fails\<close>, \<open>client_identity_kept\<close>, \<open>resumed_enrolment_fails\<close>, and
    parts of \<open>unseal_guess_bound\<close>, \<open>IssueCert_scope\<close>, \<open>cli_enroll_end_to_end\<close> and \<open>enroll_token_protected\<close>.

  \<^bold>\<open>Parameters.\<close> Code that is not in the repository is an argument: SSH keys and signatures (\<open>ssh_lib\<close>), the SSH
  wire format (\<open>ssh_wire\<close>), X.509 and PEM (\<open>x509_lib\<close>), JSON text (\<open>json_lib\<close>), TLS
  configuration (\<open>tls_lib\<close>) and connections (\<open>network\<close>, \<open>http_client\<close>), viper (\<open>viper_lib\<close>), the YAML
  reader, the generation of keys and certificates (\<open>pki_lib\<close>), the operating system (\<open>os_env\<close>, \<open>os_ids\<close>,
  \<open>fs_rules\<close>, \<open>agent_os\<close>; for the set-up \<open>host_env\<close> and \<open>agent_setup_env\<close> with the outcomes of
  \<open>useradd\<close>, \<open>systemctl\<close> and the like), and clocks, random
  numbers and identifiers as values of the environment. What a theorem needs of them is a named
  predicate among its hypotheses (\<open>issues_as_told\<close>, \<open>requests_as_told\<close>, \<open>reads_back\<close>, \<open>delivers\<close>, \<open>served_by\<close>
  and others); witnesses instantiate them.

  \<^bold>\<open>Bounds and fuel.\<close> No definition runs on fuel: loops are structural recursion, or recursion with a measure.
  The endless loops (the poller, the servers, the purge timers) are steps of the machines, of
  which the theorems consider every finite run. Times are unbounded integers of nanoseconds;
  where the code computes in 64 bits and this can be seen (the timestamp window) the wrap-around is
  written out.

  \<^bold>\<open>Simplifications.\<close> In \<open>Proxy\<close> each request, decision and job is one event, and a request that brings an
  identifier in use does nothing; how the methods of the transaction store interleave is the subject of
  \<open>Approval_Run\<close>, whose rule for a request answered from a lease lets the lease come from any store, which
  allows more runs than the code has. The subject of a certificate or request is its common name,
  organisations and units. A file is created with the bits asked for, before the process's mask. Redirects are
  followed in \<open>Agent_Setup\<close>; the HTTP clients of \<open>Cli_Client\<close> and \<open>Telegram\<close> see one exchange, the
  answer being that of the last request.

  \<^bold>\<open>Not modelled.\<close> The registration of commands and flags with cobra, version strings and exit codes. The
  text of prompts and hints on the terminal (the questions themselves, their defaults and what
  is made of the answers are modelled) and the test whether the input is a terminal, whose result is
  a value of the flags. Log lines, except the audit line of a signing request, and debug output.
  Functions that nothing calls (\<open>EnsureCertDirLayout\<close>, \<open>mlockSigner\<close>). Stubs for other operating systems
  and the push stub. Accepting connections and closing files. Locking of the stores other than the
  transaction store, each of whose methods is one critical section. The helpers of
  \<open>agent/internal/install\<close> for user, group and directories repeat those of \<open>P/install\<close> word for word, and
  are modelled once, in \<open>Setup\<close>.
\<close>

end
